(* ===== verification/Prelude.thy ===== *)
theory Prelude
  imports Main "HOL-Library.AList"
begin

text \<open>
  What the components share: Python strings and the methods the code calls on them (characters are
  ASCII where a method depends on white space or case), and general lemmas on lists and maps. The
  values of \<open>json.loads\<close> and \<open>decimal.Decimal\<close> are in Py_Values, the database session and the
  interfaces of the development in Db_Session.
\<close>

named_theorems session_simps \<open>what the operations of a database session do\<close>

section \<open>Strings\<close>

definition py_space :: "char \<Rightarrow> bool" where
  "py_space c \<longleftrightarrow> c \<in> set [CHR 0x09, CHR 0x0A, CHR 0x0B, CHR 0x0C, CHR 0x0D,
     CHR 0x1C, CHR 0x1D, CHR 0x1E, CHR 0x1F, CHR 0x20]"

definition py_lstrip :: "string \<Rightarrow> string" where
  "py_lstrip s = dropWhile py_space s"

definition py_rstrip :: "string \<Rightarrow> string" where
  "py_rstrip s = rev (dropWhile py_space (rev s))"

definition py_strip :: "string \<Rightarrow> string" where
  "py_strip s = py_rstrip (py_lstrip s)"

definition upper_letters :: string where
  "upper_letters = ''ABCDEFGHIJKLMNOPQRSTUVWXYZ''"

definition lower_letters :: string where
  "lower_letters = ''abcdefghijklmnopqrstuvwxyz''"

definition digit_letters :: string where
  "digit_letters = ''0123456789''"

definition char_table :: "string \<Rightarrow> string \<Rightarrow> char \<Rightarrow> char" where
  "char_table from to c = (case map_of (zip from to) c of None \<Rightarrow> c | Some d \<Rightarrow> d)"

definition py_lower :: "string \<Rightarrow> string" where
  "py_lower s = map (char_table upper_letters lower_letters) s"

definition py_upper :: "string \<Rightarrow> string" where
  "py_upper s = map (char_table lower_letters upper_letters) s"

definition py_is_digit :: "char \<Rightarrow> bool" where
  "py_is_digit c \<longleftrightarrow> c \<in> set digit_letters"

definition py_startswith :: "string \<Rightarrow> string \<Rightarrow> bool" where
  "py_startswith s p \<longleftrightarrow> take (length p) s = p"

text \<open>\<open>s.split(c)\<close> for a one-character separator, and \<open>c.join(parts)\<close>.\<close>

fun py_split :: "char \<Rightarrow> string \<Rightarrow> string list" where
  "py_split c [] = [[]]"
| "py_split c (x # xs) =
     (if x = c then [] # py_split c xs
      else (case py_split c xs of [] \<Rightarrow> [[x]] | p # ps \<Rightarrow> (x # p) # ps))"

fun py_join :: "string \<Rightarrow> string list \<Rightarrow> string" where
  "py_join sep [] = []"
| "py_join sep [p] = p"
| "py_join sep (p # q # ps) = p @ sep @ py_join sep (q # ps)"

text \<open>\<open>s.split()\<close>: the maximal runs of characters that are not white space.\<close>

function py_words :: "string \<Rightarrow> string list" where
  "py_words s = (case dropWhile py_space s of
       [] \<Rightarrow> []
     | t \<Rightarrow> takeWhile (\<lambda>c. \<not> py_space c) t # py_words (dropWhile (\<lambda>c. \<not> py_space c) t))"
  by pat_completeness auto
termination
proof (relation "measure length", goal_cases)
  case (2 s x xs)
  have "length (dropWhile py_space s) \<le> length s"
    by (rule length_dropWhile_le)
  moreover have "\<not> py_space x"
    using 2 by (metis hd_dropWhile list.distinct(1) list.sel(1))
  moreover have "length (dropWhile (\<lambda>c. \<not> py_space c) xs) \<le> length xs"
    by (rule length_dropWhile_le)
  ultimately show ?case using 2 by simp
qed simp

declare py_words.simps [simp del]

fun digit_value :: "char \<Rightarrow> nat" where
  "digit_value c = length (takeWhile (\<lambda>d. d \<noteq> c) digit_letters)"

definition nat_of_digits :: "string \<Rightarrow> nat" where
  "nat_of_digits s = foldl (\<lambda>n c. 10 * n + digit_value c) 0 s"

fun show_nat :: "nat \<Rightarrow> string" where
  "show_nat n = (if n < 10 then [digit_letters ! n]
     else show_nat (n div 10) @ [digit_letters ! (n mod 10)])"

declare show_nat.simps [simp del]

definition show_int :: "int \<Rightarrow> string" where
  "show_int i = (if i < 0 then ''-'' @ show_nat (nat (- i)) else show_nat (nat i))"

lemma py_split_not_Nil [simp]: "py_split c s \<noteq> []"
  by (induction s) (auto split: list.splits)

lemma py_join_Cons: "ps \<noteq> [] \<Longrightarrow> py_join sep (p # ps) = p @ sep @ py_join sep ps"
  by (cases ps) auto

lemma py_join_split: "py_join [c] (py_split c s) = s"
proof (induction s)
  case (Cons x xs)
  obtain p ps where p: "py_split c xs = p # ps"
    by (cases "py_split c xs") auto
  with Cons show ?case
    by (cases ps) auto
qed simp

lemma py_split_no_sep: "c \<notin> set s \<Longrightarrow> py_split c s = [s]"
  by (induction s) auto

lemma py_split_append: "c \<notin> set s \<Longrightarrow> py_split c (s @ c # t) = s # py_split c t"
  by (induction s) auto

lemma py_split_join: "\<lbrakk>ps \<noteq> []; \<forall>p \<in> set ps. c \<notin> set p\<rbrakk> \<Longrightarrow> py_split c (py_join [c] ps) = ps"
  by (induction "[c]" ps rule: py_join.induct) (simp_all add: py_split_no_sep py_split_append)

lemma py_split_parts: "p \<in> set (py_split c s) \<Longrightarrow> c \<notin> set p"
  by (induction c s arbitrary: p rule: py_split.induct) (auto split: list.splits if_splits)

lemma dropWhile_idem: "dropWhile P (dropWhile P s) = dropWhile P s"
  by (induction s) auto

lemma py_lstrip_no_lead: "py_lstrip s = c # t \<Longrightarrow> \<not> py_space c"
  unfolding py_lstrip_def by (metis hd_dropWhile list.distinct(1) list.sel(1))

lemma py_rstrip_eq_take: "\<exists>n. py_rstrip s = take n s"
proof -
  have "rev s = takeWhile py_space (rev s) @ rev (py_rstrip s)"
    by (simp add: py_rstrip_def)
  then have "s = py_rstrip s @ rev (takeWhile py_space (rev s))"
    by (metis rev_append rev_rev_ident)
  then have "py_rstrip s = take (length (py_rstrip s)) s"
    by (metis append_eq_conv_conj)
  then show ?thesis by blast
qed

lemma py_strip_no_lead: "py_strip s = c # t \<Longrightarrow> \<not> py_space c"
proof -
  assume *: "py_strip s = c # t"
  obtain n where "py_strip s = take n (py_lstrip s)"
    unfolding py_strip_def using py_rstrip_eq_take by blast
  with * obtain t' where "py_lstrip s = c # t'"
    by (cases "py_lstrip s"; cases n) auto
  then show ?thesis by (rule py_lstrip_no_lead)
qed

lemma py_rstrip_rstrip [simp]: "py_rstrip (py_rstrip s) = py_rstrip s"
  by (simp add: py_rstrip_def dropWhile_idem)

lemma py_strip_strip [simp]: "py_strip (py_strip s) = py_strip s"
proof -
  have "py_lstrip (py_strip s) = py_strip s"
    by (cases "py_strip s") (auto simp: py_lstrip_def dest: py_strip_no_lead)
  then show ?thesis
    by (simp add: py_strip_def [of "py_strip s"]) (simp add: py_strip_def)
qed

section \<open>Decimal digits and their value\<close>

lemma digit_value_nth [simp]: "n < 10 \<Longrightarrow> digit_value (digit_letters ! n) = n"
proof -
  assume "n < 10"
  then have "n \<in> {0, 1, 2, 3, 4, 5, 6, 7, 8, 9}" by auto
  then show ?thesis by (auto simp: digit_letters_def)
qed

lemma nat_of_digits_snoc [simp]:
  "nat_of_digits (s @ [c]) = 10 * nat_of_digits s + digit_value c"
  by (simp add: nat_of_digits_def)

lemma nat_of_digits_show [simp]: "nat_of_digits (show_nat n) = n"
proof (induction n rule: show_nat.induct)
  case (1 n)
  show ?case
  proof (cases "n < 10")
    case True
    then show ?thesis
      using digit_value_nth [OF True]
      by (simp add: show_nat.simps [of n] nat_of_digits_def del: digit_value.simps)
  next
    case False
    with 1 have "nat_of_digits (show_nat (n div 10)) = n div 10" by simp
    with False show ?thesis
      by (simp add: show_nat.simps [of n] del: digit_value.simps)
  qed
qed

lemma show_nat_digits: "c \<in> set (show_nat n) \<Longrightarrow> py_is_digit c"
proof (induction n rule: show_nat.induct)
  case (1 n)
  have mem: "digit_letters ! (m mod 10) \<in> set digit_letters" for m :: nat
    by (rule nth_mem) (simp add: digit_letters_def)
  show ?case
  proof (cases "n < 10")
    case True
    with 1 mem [of n] show ?thesis
      by (simp add: show_nat.simps [of n] py_is_digit_def)
  next
    case False
    with 1 mem [of n] show ?thesis
      by (auto simp: show_nat.simps [of n] py_is_digit_def)
  qed
qed

lemma show_nat_not_Nil [simp]: "show_nat n \<noteq> []"
  by (subst show_nat.simps) simp

end
