(* ===== verification/Py_Values.thy ===== *)
theory Py_Values
  imports Prelude
begin

text \<open>
  Python values the code receives from \<open>json.loads\<close> and computes with: \<open>json\<close> (a dict keeps its
  insertion order, so it is an association list with \<open>AList.update\<close> and \<open>AList.delete\<close>), its truth
  value, \<open>str\<close> and \<open>int\<close>; and \<open>decimal.Decimal\<close> as a coefficient and an exponent, with parsing,
  printing and \<open>quantize\<close> (ROUND_HALF_EVEN). A JSON number with a fraction is kept as the text of
  its \<open>repr\<close>. Not modelled: NaN and infinities (parsing them gives \<open>InvalidOperation\<close>) and the
  28-digit context precision, which amounts of money do not reach.
\<close>

datatype py_exn = InvalidOperation | ValueError | TypeError | AttributeError | OverflowError

datatype json =
    JNull
  | JBool bool
  | JInt int
  | JFloat string
  | JStr string
  | JList "json list"
  | JObj "(string \<times> json) list"

fun truthy :: "json \<Rightarrow> bool" where
  "truthy JNull = False"
| "truthy (JBool b) = b"
| "truthy (JInt i) = (i \<noteq> 0)"
| "truthy (JFloat r) = (r \<noteq> ''0.0'' \<and> r \<noteq> ''-0.0'')"
| "truthy (JStr s) = (s \<noteq> [])"
| "truthy (JList xs) = (xs \<noteq> [])"
| "truthy (JObj kvs) = (kvs \<noteq> [])"

definition py_or :: "json \<Rightarrow> json \<Rightarrow> json" where
  "py_or a b = (if truthy a then a else b)"

fun is_dict :: "json \<Rightarrow> bool" where
  "is_dict (JObj kvs) = True"
| "is_dict _ = False"

fun is_str :: "json \<Rightarrow> bool" where
  "is_str (JStr s) = True"
| "is_str _ = False"

text \<open>\<open>d.get(k)\<close> on a dict; \<open>None\<close> for a missing key.\<close>

definition obj_get :: "(string \<times> json) list \<Rightarrow> string \<Rightarrow> json" where
  "obj_get d k = (case map_of d k of None \<Rightarrow> JNull | Some v \<Rightarrow> v)"

fun dict_items :: "json \<Rightarrow> (string \<times> json) list" where
  "dict_items (JObj kvs) = kvs"
| "dict_items _ = []"

text \<open>\<open>repr\<close> of a string: single quotes, unless the text has one and no double quote.\<close>

definition hex_letters :: string where
  "hex_letters = ''0123456789abcdef''"

definition repr_char :: "char \<Rightarrow> char \<Rightarrow> string" where
  "repr_char q c =
     (if c = q \<or> c = CHR 0x5C then [CHR 0x5C, c]
      else if c = CHR 0x0A then [CHR 0x5C, CHR ''n'']
      else if c = CHR 0x0D then [CHR 0x5C, CHR ''r'']
      else if c = CHR 0x09 then [CHR 0x5C, CHR ''t'']
      else let n = of_char c :: nat in
        if n < 32 \<or> n = 127
        then [CHR 0x5C, CHR ''x'', hex_letters ! (n div 16), hex_letters ! (n mod 16)]
        else [c])"

definition repr_str :: "string \<Rightarrow> string" where
  "repr_str s =
     (let q = (if CHR 0x27 \<in> set s \<and> CHR 0x22 \<notin> set s then CHR 0x22 else CHR 0x27)
      in [q] @ concat (map (repr_char q) s) @ [q])"

fun py_repr :: "json \<Rightarrow> string" where
  "py_repr JNull = ''None''"
| "py_repr (JBool b) = (if b then ''True'' else ''False'')"
| "py_repr (JInt i) = show_int i"
| "py_repr (JFloat r) = r"
| "py_repr (JStr s) = repr_str s"
| "py_repr (JList xs) = ''['' @ py_join '', '' (map py_repr xs) @ '']''"
| "py_repr (JObj kvs) =
     ''{'' @ py_join '', '' (map (\<lambda>(k, v). repr_str k @ '': '' @ py_repr v) kvs) @ ''}''"

fun py_str :: "json \<Rightarrow> string" where
  "py_str (JStr s) = s"
| "py_str v = py_repr v"

section \<open>Decimals\<close>

datatype decimal = Dec (coeff: int) (expo: int)

definition round_half_even :: "int \<Rightarrow> int \<Rightarrow> int" where
  "round_half_even n d =
     (let q = n div d; r = n mod d in
      if 2 * r < d then q else if d < 2 * r then q + 1 else if even q then q else q + 1)"

text \<open>\<open>x.quantize(Decimal("1e-k"))\<close>, as the number of units of \<open>1e-k\<close>.\<close>

definition quantize :: "nat \<Rightarrow> decimal \<Rightarrow> int" where
  "quantize k x =
     (let s = expo x + int k in
      if 0 \<le> s then coeff x * 10 ^ nat s else round_half_even (coeff x) (10 ^ nat (- s)))"

definition dec_mult :: "decimal \<Rightarrow> decimal \<Rightarrow> decimal" where
  "dec_mult x y = Dec (coeff x * coeff y) (expo x + expo y)"

text \<open>What a \<open>Numeric(18, k)\<close> column keeps of a value: PostgreSQL rounds halves away from zero.\<close>

definition numeric_store :: "nat \<Rightarrow> decimal \<Rightarrow> int" where
  "numeric_store k x =
     (let s = expo x + int k; d = 10 ^ nat (- s) in
      if 0 \<le> s then coeff x * 10 ^ nat s
      else sgn (coeff x) * ((2 * \<bar>coeff x\<bar> + d) div (2 * d)))"

text \<open>\<open>str(x)\<close> of a decimal of exponent \<open>-k\<close>, given by its coefficient.\<close>

definition pad_digits :: "nat \<Rightarrow> string \<Rightarrow> string" where
  "pad_digits k ds = replicate (Suc k - length ds) (CHR ''0'') @ ds"

definition show_fixed :: "nat \<Rightarrow> int \<Rightarrow> string" where
  "show_fixed k m =
     (let ds = pad_digits k (show_nat (nat \<bar>m\<bar>)); n = length ds - k in
      (if m < 0 then ''-'' else []) @ take n ds @ ''.'' @ drop n ds)"

definition split_sign :: "string \<Rightarrow> int \<times> string" where
  "split_sign s = (case s of
       [] \<Rightarrow> (1, [])
     | c # r \<Rightarrow> if c = CHR ''-'' then (- 1, r) else if c = CHR ''+'' then (1, r) else (1, s))"

definition parse_digits :: "string \<Rightarrow> nat option" where
  "parse_digits s = (if s \<noteq> [] \<and> list_all py_is_digit s then Some (nat_of_digits s) else None)"

definition parse_signed :: "string \<Rightarrow> int option" where
  "parse_signed s = (case split_sign s of (sg, r) \<Rightarrow>
     map_option (\<lambda>n. sg * int n) (parse_digits r))"

text \<open>\<open>Decimal(s)\<close> for a finite numeral.\<close>

definition parse_decimal :: "string \<Rightarrow> decimal option" where
  "parse_decimal s =
     (case split_sign (filter (\<lambda>c. c \<noteq> CHR ''_'') (py_strip s)) of (sg, u) \<Rightarrow>
      let mant = takeWhile (\<lambda>c. c \<noteq> CHR ''e'' \<and> c \<noteq> CHR ''E'') u;
          rest = dropWhile (\<lambda>c. c \<noteq> CHR ''e'' \<and> c \<noteq> CHR ''E'') u;
          ip = takeWhile (\<lambda>c. c \<noteq> CHR ''.'') mant;
          fp = tl (dropWhile (\<lambda>c. c \<noteq> CHR ''.'') mant)
      in case (if rest = [] then Some 0 else parse_signed (tl rest)) of
           None \<Rightarrow> None
         | Some ex \<Rightarrow>
             (case parse_digits (ip @ fp) of
                None \<Rightarrow> None
              | Some n \<Rightarrow> Some (Dec (sg * int n) (ex - int (length fp)))))"

text \<open>\<open>int(v)\<close>; a float is cut towards zero.\<close>

definition parse_int :: "string \<Rightarrow> int option" where
  "parse_int s = parse_signed (py_strip s)"

fun py_int :: "json \<Rightarrow> py_exn + int" where
  "py_int (JInt i) = Inr i"
| "py_int (JBool b) = Inr (if b then 1 else 0)"
| "py_int (JFloat r) = (case parse_decimal r of
       None \<Rightarrow> Inl ValueError
     | Some (Dec c e) \<Rightarrow>
         Inr (if 0 \<le> e then c * 10 ^ nat e else sgn c * (\<bar>c\<bar> div 10 ^ nat (- e))))"
| "py_int (JStr s) = (case parse_int s of None \<Rightarrow> Inl ValueError | Some i \<Rightarrow> Inr i)"
| "py_int _ = Inl TypeError"

section \<open>Facts about quantizing and printing\<close>

lemma round_half_even_bound:
  assumes "0 < d"
  shows "2 * \<bar>round_half_even n d * d - n\<bar> \<le> d"
proof -
  define q r where "q = n div d" and "r = n mod d"
  have n: "n = q * d + r" and r: "0 \<le> r" "r < d"
    using assms by (simp_all add: q_def r_def)
  have eq: "round_half_even n d = (if 2 * r < d then q else if d < 2 * r then q + 1
      else if even q then q else q + 1)"
    by (simp add: round_half_even_def Let_def q_def r_def)
  have up: "(q + 1) * d = q * d + d" by (simp add: distrib_right)
  show ?thesis
    using r n unfolding eq by (auto simp: up abs_if)
qed

lemma round_half_even_exact: "0 < d \<Longrightarrow> round_half_even (m * d) d = m"
  by (simp add: round_half_even_def)

lemma quantize_exact [simp]: "quantize k (Dec m (- int k)) = m"
  by (simp add: quantize_def)

lemma round_half_even_nonneg: "0 \<le> n \<Longrightarrow> 0 < d \<Longrightarrow> 0 \<le> round_half_even n d"
  by (simp add: round_half_even_def Let_def pos_imp_zdiv_nonneg_iff)

lemma quantize_nonneg: "0 \<le> coeff x \<Longrightarrow> 0 \<le> quantize k x"
  by (simp add: quantize_def Let_def round_half_even_nonneg)

lemma py_is_digit_cases:
  "py_is_digit c \<Longrightarrow> \<not> py_space c \<and> c \<noteq> CHR ''_'' \<and> c \<noteq> CHR ''.'' \<and> c \<noteq> CHR ''-''
     \<and> c \<noteq> CHR ''+'' \<and> c \<noteq> CHR ''e'' \<and> c \<noteq> CHR ''E''"
  by (auto simp: py_is_digit_def digit_letters_def py_space_def)

lemma not_space_sign [simp]: "\<not> py_space (CHR ''.'')" "\<not> py_space (CHR ''-'')"
  by (simp_all add: py_space_def)

lemma py_strip_no_space:
  assumes "\<And>c. c \<in> set s \<Longrightarrow> \<not> py_space c"
  shows "py_strip s = s"
proof -
  have "dropWhile py_space t = t" if "\<And>c. c \<in> set t \<Longrightarrow> \<not> py_space c" for t
    using that by (cases t) auto
  from this [of s] this [of "rev s"] assms show ?thesis
    by (simp add: py_strip_def py_lstrip_def py_rstrip_def)
qed

lemma nat_of_digits_replicate0 [simp]:
  "nat_of_digits (replicate n (CHR ''0'') @ ds) = nat_of_digits ds"
proof -
  have "foldl (\<lambda>n c. 10 * n + digit_value c) 0 (replicate n (CHR ''0'')) = 0"
    by (induction n) (auto simp: digit_letters_def)
  then show ?thesis by (simp add: nat_of_digits_def del: digit_value.simps)
qed

lemma pad_digits_digit: "c \<in> set (pad_digits k (show_nat n)) \<Longrightarrow> py_is_digit c"
proof -
  assume "c \<in> set (pad_digits k (show_nat n))"
  then consider "c = CHR ''0''" | "c \<in> set (show_nat n)"
    by (auto simp: pad_digits_def split: if_splits)
  then show ?thesis
    by cases (auto simp: py_is_digit_def digit_letters_def dest: show_nat_digits)
qed

lemma takeWhile_dot:
  assumes "\<And>c. c \<in> set a \<Longrightarrow> P c" and "\<not> P x"
  shows "takeWhile P (a @ x # b) = a" and "dropWhile P (a @ x # b) = x # b"
  using assms by (induction a) auto

lemma parse_decimal_plain:
  assumes a: "\<And>c. c \<in> set a \<Longrightarrow> py_is_digit c"
    and b: "\<And>c. c \<in> set b \<Longrightarrow> py_is_digit c"
    and ne: "a \<noteq> []"
  shows "parse_decimal ((if neg then ''-'' else []) @ a @ ''.'' @ b)
    = Some (Dec ((if neg then - 1 else 1) * int (nat_of_digits (a @ b))) (- int (length b)))"
proof -
  let ?u = "a @ CHR ''.'' # b"
  let ?s = "(if neg then ''-'' else []) @ ?u"
  have dig: "c \<in> set a \<union> set b \<Longrightarrow> py_is_digit c" for c using a b by auto
  have chars: "c \<in> set ?u \<Longrightarrow> c = CHR ''.'' \<or> py_is_digit c" for c using dig by auto
  have plain: "\<not> py_space c \<and> c \<noteq> CHR ''_''" if "c \<in> set ?s" for c
  proof -
    from that have "c = CHR ''-'' \<or> c \<in> set ?u" by (cases neg) auto
    then consider "c = CHR ''-''" | "c = CHR ''.''" | "py_is_digit c" using chars by blast
    then show ?thesis by cases (simp_all add: py_is_digit_cases)
  qed
  then have "py_strip ?s = ?s" by (intro py_strip_no_space) blast
  moreover have "filter (\<lambda>c. c \<noteq> CHR ''_'') ?s = ?s" using plain by (intro filter_True) blast
  ultimately have strip: "filter (\<lambda>c. c \<noteq> CHR ''_'') (py_strip ?s) = ?s" by simp
  have "hd a \<noteq> CHR ''-''" "hd a \<noteq> CHR ''+''"
    using ne a py_is_digit_cases by (meson hd_in_set)+
  then have sign: "split_sign ?s = (if neg then - 1 else 1, ?u)"
    using ne by (cases a) (simp_all add: split_sign_def)
  have no_e: "\<forall>c \<in> set ?u. c \<noteq> CHR ''e'' \<and> c \<noteq> CHR ''E''"
    using chars py_is_digit_cases by fastforce
  then have mant: "takeWhile (\<lambda>c. c \<noteq> CHR ''e'' \<and> c \<noteq> CHR ''E'') ?u = ?u"
    by (simp only: takeWhile_eq_all_conv)
  from no_e have rest: "dropWhile (\<lambda>c. c \<noteq> CHR ''e'' \<and> c \<noteq> CHR ''E'') ?u = []"
    by (simp only: dropWhile_eq_Nil_conv)
  have "\<And>c. c \<in> set a \<Longrightarrow> c \<noteq> CHR ''.''" using a py_is_digit_cases by blast
  from takeWhile_dot [of a "\<lambda>c. c \<noteq> CHR ''.''" "CHR ''.''" b, OF this]
  have parts: "takeWhile (\<lambda>c. c \<noteq> CHR ''.'') ?u = a"
    "tl (dropWhile (\<lambda>c. c \<noteq> CHR ''.'') ?u) = b" by simp_all
  have "parse_digits (a @ b) = Some (nat_of_digits (a @ b))"
    using a b ne by (auto simp: parse_digits_def list_all_iff)
  then have "parse_decimal ?s
    = Some (Dec ((if neg then - 1 else 1) * int (nat_of_digits (a @ b))) (- int (length b)))"
    unfolding parse_decimal_def strip sign by (simp only: Let_def prod.case mant rest parts) simp
  then show ?thesis by simp
qed

lemma parse_show_fixed: "parse_decimal (show_fixed k m) = Some (Dec m (- int k))"
proof -
  let ?ds = "pad_digits k (show_nat (nat \<bar>m\<bar>))"
  let ?n = "length ?ds - k"
  have len: "k < length ?ds" by (auto simp: pad_digits_def)
  have ne: "take ?n ?ds \<noteq> []" using len by (cases ?ds) simp_all
  have dig: "c \<in> set (take ?n ?ds) \<Longrightarrow> py_is_digit c" "c \<in> set (drop ?n ?ds) \<Longrightarrow> py_is_digit c"
    for c by (blast dest: in_set_takeD in_set_dropD pad_digits_digit)+
  have val: "nat_of_digits (take ?n ?ds @ drop ?n ?ds) = nat \<bar>m\<bar>"
    by (simp only: append_take_drop_id) (simp add: pad_digits_def)
  have drop_len: "length (drop ?n ?ds) = k" using len by simp
  have "parse_decimal ((if m < 0 then ''-'' else []) @ take ?n ?ds @ ''.'' @ drop ?n ?ds)
     = Some (Dec ((if m < 0 then - 1 else 1) * int (nat \<bar>m\<bar>)) (- int k))"
    using parse_decimal_plain [of "take ?n ?ds" "drop ?n ?ds" "m < 0", OF dig ne]
    by (simp only: val drop_len)
  then show ?thesis by (simp add: show_fixed_def Let_def split: if_splits)
qed

lemma obj_get_update [simp]: "obj_get (AList.update k v d) k = v"
  by (simp add: obj_get_def update_conv)

lemma obj_get_update_other [simp]: "j \<noteq> k \<Longrightarrow> obj_get (AList.update k v d) j = obj_get d j"
  by (simp add: obj_get_def update_conv)

lemma obj_get_delete_other [simp]: "j \<noteq> k \<Longrightarrow> obj_get (AList.delete k d) j = obj_get d j"
  by (simp add: obj_get_def delete_conv)

end
