(* ===== verification/Db_Session.thy ===== *)
theory Db_Session
  imports Py_Values
begin

text \<open>
  The SQLAlchemy session as the services use it (src/src/orkio_v2/database.py), rows of a table as
  a list in insertion order, the audit log every service writes, and the interfaces of this
  development:
  \<^item> \<open>keyed_table\<close>: a table with an insert and a unique key. Interpreted on the tables of the
    billing and the authentication database.
  \<^item> \<open>invariant_system\<close>: operations that keep an invariant, so every run keeps it; with
    \<open>monotone_system\<close>, a relation between earlier and later states.
  \<^item> \<open>guarded_machine\<close>: a state machine with final states.
  \<^item> \<open>idempotent_handler\<close>: a handler that recognises a request it has already accepted.
  A session holds the rows the request sees (\<open>work\<close>) and what has been committed (\<open>durable\<close>).
  Closing the session drops what was not committed.
\<close>

section \<open>Sessions\<close>

record 'd session =
  work :: 'd
  durable :: 'd

definition open_session :: "'d \<Rightarrow> 'd session" where
  [session_simps]: "open_session d = \<lparr>work = d, durable = d\<rparr>"

definition commit :: "'d session \<Rightarrow> 'd session" where
  [session_simps]: "commit s = s\<lparr>durable := work s\<rparr>"

definition rollback :: "'d session \<Rightarrow> 'd session" where
  [session_simps]: "rollback s = s\<lparr>work := durable s\<rparr>"

definition close_session :: "'d session \<Rightarrow> 'd" where
  [session_simps]: "close_session s = durable s"

definition on_work :: "('d \<Rightarrow> 'd) \<Rightarrow> 'd session \<Rightarrow> 'd session" where
  [session_simps]: "on_work f s = s\<lparr>work := f (work s)\<rparr>"

section \<open>Rows\<close>

text \<open>\<open>db.scalar(select(T).where(p))\<close>: the first matching row.\<close>

definition scalar :: "('r \<Rightarrow> bool) \<Rightarrow> 'r list \<Rightarrow> 'r option" where
  "scalar p rows = List.find p rows"

text \<open>Writing the fields of a loaded row back: the row with its primary key is replaced.\<close>

definition put_row :: "('r \<Rightarrow> 'k) \<Rightarrow> 'r \<Rightarrow> 'r list \<Rightarrow> 'r list" where
  "put_row pk r rows = map (\<lambda>x. if pk x = pk r then r else x) rows"

text \<open>\<open>db.query(T).filter(p).update(f)\<close>.\<close>

definition update_where :: "('r \<Rightarrow> bool) \<Rightarrow> ('r \<Rightarrow> 'r) \<Rightarrow> 'r list \<Rightarrow> 'r list" where
  "update_where p f rows = map (\<lambda>x. if p x then f x else x) rows"

definition unique_key :: "('r \<Rightarrow> 'k) \<Rightarrow> 'r list \<Rightarrow> bool" where
  "unique_key key rows \<longleftrightarrow> distinct (map key rows)"

definition fresh_key :: "('r \<Rightarrow> 'k) \<Rightarrow> 'k \<Rightarrow> 'r list \<Rightarrow> bool" where
  "fresh_key key k rows \<longleftrightarrow> k \<notin> set (map key rows)"

lemma scalar_Nil [simp]: "scalar p [] = None"
  by (simp add: scalar_def)

lemma scalar_Cons [simp]: "scalar p (r # rows) = (if p r then Some r else scalar p rows)"
  by (simp add: scalar_def)

lemma scalar_SomeD: "scalar p rows = Some r \<Longrightarrow> r \<in> set rows \<and> p r"
  by (induction rows) (auto split: if_splits)

lemma scalar_None: "scalar p rows = None \<longleftrightarrow> (\<forall>r \<in> set rows. \<not> p r)"
  by (induction rows) auto

lemma scalar_append: "scalar p (xs @ ys) = (case scalar p xs of None \<Rightarrow> scalar p ys | Some r \<Rightarrow> Some r)"
  by (induction xs) auto

lemma scalar_unique:
  "unique_key key rows \<Longrightarrow> r \<in> set rows \<Longrightarrow> scalar (\<lambda>x. key x = key r) rows = Some r"
  by (induction rows) (auto simp: unique_key_def rev_image_eqI)

lemma unique_key_eq:
  "unique_key key rows \<Longrightarrow> x \<in> set rows \<Longrightarrow> y \<in> set rows \<Longrightarrow> key x = key y \<Longrightarrow> x = y"
  by (auto simp: unique_key_def distinct_map dest: inj_onD)

lemma unique_key_filter: "unique_key key rows \<Longrightarrow> length (filter (\<lambda>x. key x = k) rows) \<le> 1"
proof (induction rows)
  case (Cons r rows)
  have "filter (\<lambda>x. key x = k) rows = []" if "key r = k"
    using Cons.prems that by (auto simp: unique_key_def filter_empty_conv image_iff)
  with Cons show ?case by (auto simp: unique_key_def)
qed simp

lemma unique_key_snoc: "unique_key key (rows @ [r]) \<longleftrightarrow> unique_key key rows \<and> fresh_key key (key r) rows"
  by (auto simp: unique_key_def fresh_key_def)

lemma fresh_key_scalar: "fresh_key key k rows \<longleftrightarrow> scalar (\<lambda>x. key x = k) rows = None"
  by (auto simp: fresh_key_def scalar_None)

lemma set_put_row: "x \<in> set (put_row pk r rows) \<Longrightarrow> x = r \<or> x \<in> set rows \<and> pk x \<noteq> pk r"
  by (auto simp: put_row_def)

lemma map_put_row:
  assumes "\<And>x. x \<in> set rows \<Longrightarrow> pk x = pk r \<Longrightarrow> f x = f r"
  shows "map f (put_row pk r rows) = map f rows"
  using assms by (auto simp: put_row_def)

lemma map_pk_put_row [simp]: "map pk (put_row pk r rows) = map pk rows"
  by (rule map_put_row) simp

lemma length_put_row [simp]: "length (put_row pk r rows) = length rows"
  by (simp add: put_row_def)

lemma put_row_fresh: "fresh_key pk (pk r) rows \<Longrightarrow> put_row pk r rows = rows"
  unfolding put_row_def fresh_key_def by (rule map_idI) (auto dest: sym intro: image_eqI)

lemma put_row_append: "put_row pk r (xs @ ys) = put_row pk r xs @ put_row pk r ys"
  by (simp add: put_row_def)

lemma put_row_split:
  assumes "unique_key pk rows" and "x \<in> set rows" and "pk x = pk r"
  obtains xs ys where "rows = xs @ x # ys" and "put_row pk r rows = xs @ r # ys"
proof -
  from assms(2) obtain xs ys where rows: "rows = xs @ x # ys"
    by (auto simp: in_set_conv_decomp)
  with assms have "fresh_key pk (pk r) xs" "fresh_key pk (pk r) ys"
    by (auto simp: unique_key_def fresh_key_def)
  with assms rows that show thesis
    by (auto simp: put_row_append put_row_fresh) (simp add: put_row_def put_row_fresh [unfolded put_row_def])
qed

lemma put_row_in: "x \<in> set rows \<Longrightarrow> pk x = pk r \<Longrightarrow> r \<in> set (put_row pk r rows)"
  by (auto simp: put_row_def intro!: image_eqI [of _ _ x])

lemma put_row_other: "x \<in> set rows \<Longrightarrow> pk x \<noteq> pk r \<Longrightarrow> x \<in> set (put_row pk r rows)"
  by (auto simp: put_row_def intro!: image_eqI [of _ _ x])

section \<open>Audit log\<close>

record audit_event =
  au_tenant :: "string option"
  au_actor :: "string option"
  au_action :: string
  au_resource_type :: string
  au_resource_id :: "string option"
  au_outcome :: string
  au_metadata :: "(string \<times> json) list"

section \<open>Interfaces\<close>

locale keyed_table =
  fixes key :: "'r \<Rightarrow> 'k" and rows :: "'d \<Rightarrow> 'r list" and add_row :: "'r \<Rightarrow> 'd \<Rightarrow> 'd"
  assumes rows_add: "rows (add_row r d) = rows d @ [r]"
begin

lemma add_unique:
  "unique_key key (rows (add_row r d)) \<longleftrightarrow>
     unique_key key (rows d) \<and> scalar (\<lambda>x. key x = key r) (rows d) = None"
  by (simp add: rows_add unique_key_snoc fresh_key_scalar)

lemma lookup_added:
  "scalar (\<lambda>x. key x = key r) (rows d) = None \<Longrightarrow>
   scalar (\<lambda>x. key x = key r) (rows (add_row r d)) = Some r"
  by (simp add: rows_add scalar_append)

lemma lookup_kept:
  "scalar p (rows d) = Some x \<Longrightarrow> scalar p (rows (add_row r d)) = Some x"
  by (simp add: rows_add scalar_append)

lemma lookup_other:
  "k \<noteq> key r \<Longrightarrow>
   scalar (\<lambda>x. key x = k) (rows (add_row r d)) = scalar (\<lambda>x. key x = k) (rows d)"
  by (simp add: rows_add scalar_append split: option.split)

lemma lookup_at_most_one:
  "unique_key key (rows d) \<Longrightarrow> x \<in> set (rows d) \<Longrightarrow> y \<in> set (rows d) \<Longrightarrow> key x = key y \<Longrightarrow> x = y"
  by (metis option.inject scalar_unique)

end

text \<open>A run in which every operation meets its side condition (its identifiers are new, say).\<close>

fun run_ok :: "('e \<Rightarrow> 's \<Rightarrow> bool) \<Rightarrow> ('e \<Rightarrow> 's \<Rightarrow> 's) \<Rightarrow> 'e list \<Rightarrow> 's \<Rightarrow> bool" where
  "run_ok ok step [] s = True"
| "run_ok ok step (e # es) s = (ok e s \<and> run_ok ok step es (step e s))"

locale invariant_system =
  fixes ok :: "'e \<Rightarrow> 's \<Rightarrow> bool" and step :: "'e \<Rightarrow> 's \<Rightarrow> 's" and inv :: "'s \<Rightarrow> bool"
  assumes step_inv: "ok e s \<Longrightarrow> inv s \<Longrightarrow> inv (step e s)"
begin

lemma run_inv: "run_ok ok step es s \<Longrightarrow> inv s \<Longrightarrow> inv (fold step es s)"
  by (induction es arbitrary: s) (auto intro: step_inv)

end

text \<open>A relation between earlier and later states that every operation respects.\<close>

locale monotone_system = invariant_system ok step inv
  for ok :: "'e \<Rightarrow> 's \<Rightarrow> bool" and step :: "'e \<Rightarrow> 's \<Rightarrow> 's" and inv :: "'s \<Rightarrow> bool" +
  fixes grows :: "'s \<Rightarrow> 's \<Rightarrow> bool"
  assumes grows_refl: "grows s s"
    and grows_trans: "grows s t \<Longrightarrow> grows t u \<Longrightarrow> grows s u"
    and step_grows: "ok e s \<Longrightarrow> inv s \<Longrightarrow> grows s (step e s)"
begin

lemma run_grows: "run_ok ok step es s \<Longrightarrow> inv s \<Longrightarrow> grows s (fold step es s)"
proof (induction es arbitrary: s)
  case (Cons e es)
  then have "grows s (step e s)" and "inv (step e s)" by (auto intro: step_grows step_inv)
  with Cons show ?case by (auto intro: grows_trans)
qed (simp add: grows_refl)

end

locale guarded_machine =
  fixes next_state :: "'s \<Rightarrow> 'e \<Rightarrow> 's" and final :: "'s \<Rightarrow> bool"
  assumes final_stays: "final s \<Longrightarrow> next_state s e = s"
begin

lemma final_forever: "final s \<Longrightarrow> foldl next_state s es = s"
  by (induction es) (auto simp: final_stays)

end

locale idempotent_handler =
  fixes handle :: "'q \<Rightarrow> 's \<Rightarrow> 'o \<times> 's" and seen :: "'q \<Rightarrow> 's \<Rightarrow> bool" and dup :: 'o
  assumes seen_dup: "seen q s \<Longrightarrow> handle q s = (dup, s)"
    and seen_kept: "seen q s \<Longrightarrow> seen q (snd (handle p s))"
begin

lemma seen_run: "seen q s \<Longrightarrow> seen q (fold (\<lambda>p s. snd (handle p s)) ps s)"
  by (induction ps arbitrary: s) (auto intro: seen_kept)

lemma replay_noop:
  "seen q s \<Longrightarrow> (let t = fold (\<lambda>p s. snd (handle p s)) ps s in handle q t = (dup, t))"
  by (simp add: Let_def seen_dup seen_run)

end

end
