(* ===== verification/Models.thy ===== *)
theory Models
  imports Db_Session
begin

text \<open>
  The configuration fields the modelled code reads (\<open>Settings\<close>, src/src/orkio_v2/config.py), the
  rows of \<open>tenants\<close>, \<open>users\<close> and \<open>memberships\<close> (models.py), the \<open>Principal\<close> of a request (auth.py),
  and \<open>env\<close>: everything one request takes from outside the database. The clock is read once per
  request (instants are microseconds); \<open>e_uid env i\<close> is the i-th \<open>uuid4\<close> the request draws and
  \<open>e_secret env i\<close> its i-th token of \<open>secrets\<close>; digests, the UTF-8 decoder and \<open>json.loads\<close> are
  functions of the environment, about which nothing is assumed unless a theorem says so, and so is
  \<open>e_with_query\<close>, the \<open>urllib.parse\<close> round trip that sets query parameters of a URL.
\<close>

type_synonym instant = int

definition minutes :: "int \<Rightarrow> instant" where
  "minutes n = n * 60000000"

definition hours :: "int \<Rightarrow> instant" where
  "hours n = n * 3600000000"

definition days :: "int \<Rightarrow> instant" where
  "days n = n * 86400000000"

record settings =
  st_environment :: string
  st_auth_mode :: string
  st_platform_owner_subject :: "string option"
  st_billing_enabled :: bool
  st_billing_provider :: string
  st_plan_catalog_json :: string
  st_topup_catalog_json :: string
  st_billing_usd_brl :: string
  st_checkout_success_url :: string
  st_asaas_api_key :: string
  st_asaas_webhook_token :: string
  st_native_bootstrap_secret :: string
  st_session_cookie_name :: string
  st_session_ttl_hours :: int
  st_password_min_length :: int
  st_reset_ttl_minutes :: int
  st_login_max_failures :: int
  st_login_lock_minutes :: int
  st_access_gate_enabled :: bool
  st_access_gate_tenant_id :: string
  st_access_gate_signing_secret :: string
  st_access_gate_code_hashes :: string
  st_access_gate_ttl_seconds :: int
  st_resend_api_key :: string
  st_admin_email_allowlist :: string

record env =
  e_settings :: settings
  e_now :: instant
  e_uid :: "nat \<Rightarrow> string"
  e_secret :: "nat \<Rightarrow> string"
  e_sha256 :: "string \<Rightarrow> string"
  e_utf8 :: "string \<Rightarrow> string option"
  e_loads :: "string \<Rightarrow> json option"
  e_with_query :: "string \<Rightarrow> (string \<times> string) list \<Rightarrow> string"

record tenant =
  tn_id :: string
  tn_name :: string

record user =
  us_id :: string
  us_external_subject :: string
  us_email :: string
  us_display_name :: string
  us_email_verified_at :: "instant option"

record membership =
  mb_id :: string
  mb_tenant :: string
  mb_user :: string
  mb_role :: string
  mb_active :: bool

record principal =
  pr_user_id :: string
  pr_tenant_id :: string
  pr_roles :: "string list"
  pr_email :: "string option"
  pr_external_subject :: "string option"

text \<open>\<open>HTTPException(status, detail)\<close>, as the routes raise it.\<close>

datatype http_error = HttpError (he_status: int) (he_detail: string)

end
