(* ===== verification/Billing_Model.thy ===== *)
theory Billing_Model
  imports Models
begin

text \<open>
  The rows of the billing tables (src/src/orkio_v2/models.py), the database of the billing service
  and the repository queries (billing/repository.py). The states of a checkout, an event and a wallet
  and the direction of a ledger entry, which have a CHECK over a fixed set of texts, are datatypes; \<open>Numeric(18,4)\<close> columns are integers in units of 0.0001, \<open>Numeric(18,2)\<close> in
  units of 0.01. The columns \<open>created_at\<close>/\<open>updated_at\<close> are kept where the code reads or sets them.
\<close>

datatype checkout_status = Pending | Paid | Failed | Expired | Cancelled | Refunded | Chargeback

fun status_text :: "checkout_status \<Rightarrow> string" where
  "status_text Pending = ''pending''"
| "status_text Paid = ''paid''"
| "status_text Failed = ''failed''"
| "status_text Expired = ''expired''"
| "status_text Cancelled = ''cancelled''"
| "status_text Refunded = ''refunded''"
| "status_text Chargeback = ''chargeback''"

datatype checkout_kind = Plan | Topup

fun kind_text :: "checkout_kind \<Rightarrow> string" where
  "kind_text Plan = ''plan''"
| "kind_text Topup = ''topup''"

record checkout =
  co_id :: string
  co_tenant :: string
  co_user :: string
  co_kind :: checkout_kind
  co_item_code :: string
  co_item_name :: string
  co_payer_email :: string
  co_payer_name :: string
  co_company :: "string option"
  co_currency :: string
  co_amount_brl :: int
  co_amount_usd :: int
  co_status :: checkout_status
  co_provider :: string
  co_provider_checkout_id :: "string option"
  co_provider_payment_id :: "string option"
  co_provider_url :: "string option"
  co_callback :: string
  co_idempotency_key :: string
  co_metadata :: "(string \<times> json) list"
  co_created_at :: instant
  co_updated_at :: instant
  co_confirmed_at :: "instant option"
  co_reversed_at :: "instant option"

datatype event_status = Received | Processed | Ignored

record webhook_event =
  ev_id :: string
  ev_tenant :: "string option"
  ev_user :: "string option"
  ev_checkout_id :: "string option"
  ev_provider :: string
  ev_key :: string
  ev_type :: string
  ev_payload_sha256 :: string
  ev_provider_payment_id :: "string option"
  ev_provider_checkout_id :: "string option"
  ev_status :: event_status
  ev_processed_at :: "instant option"

record entitlement =
  en_tenant :: string
  en_user :: string
  en_plan_code :: string
  en_plan_name :: string
  en_status :: string
  en_checkout_id :: "string option"
  en_starts_at :: "instant option"
  en_expires_at :: "instant option"
  en_last_payment_at :: "instant option"
  en_updated_at :: instant

record billing_tx =
  tx_id :: string
  tx_tenant :: string
  tx_user :: string
  tx_checkout_id :: "string option"
  tx_provider :: string
  tx_external_ref :: string
  tx_plan_code :: "string option"
  tx_charge_kind :: string
  tx_currency :: string
  tx_amount_original :: int
  tx_amount_usd :: int
  tx_normalized_mrr_usd :: int
  tx_status :: string
  tx_notes :: string
  tx_created_by :: string
  tx_occurred_at :: instant
  tx_confirmed_at :: "instant option"
  tx_created_at :: instant

datatype wallet_status = WalletActive | WalletQuarantined

record wallet =
  wl_id :: string
  wl_tenant :: string
  wl_user :: string
  wl_currency :: string
  wl_status :: wallet_status
  wl_balance :: int
  wl_credited :: int
  wl_debited :: int
  wl_quarantined :: int
  wl_auto_recharge :: bool
  wl_low_threshold :: "int option"

datatype direction = Credit | Debit | Adjustment

record ledger_entry =
  lg_id :: string
  lg_tenant :: string
  lg_user :: string
  lg_wallet_id :: string
  lg_direction :: direction
  lg_source :: string
  lg_key :: string
  lg_action_key :: "string option"
  lg_amount :: int
  lg_balance_after :: int
  lg_currency :: string
  lg_provider :: "string option"
  lg_external_ref :: "string option"
  lg_checkout_id :: "string option"
  lg_tx_id :: "string option"
  lg_metadata :: "(string \<times> json) list"
  lg_created_by :: string
  lg_created_at :: instant

record billing_db =
  bd_users :: "user list"
  bd_checkouts :: "checkout list"
  bd_events :: "webhook_event list"
  bd_entitlements :: "entitlement list"
  bd_transactions :: "billing_tx list"
  bd_wallets :: "wallet list"
  bd_ledger :: "ledger_entry list"
  bd_audits :: "audit_event list"

definition empty_billing_db :: billing_db where
  "empty_billing_db = \<lparr>bd_users = [], bd_checkouts = [], bd_events = [], bd_entitlements = [],
     bd_transactions = [], bd_wallets = [], bd_ledger = [], bd_audits = []\<rparr>"

section \<open>Writing rows\<close>

text \<open>
  \<open>save_...\<close> writes a loaded row back. A webhook event is identified by its provider key and an
  entitlement by its owner, on which the tables have a unique constraint; the other rows by their
  primary key.
\<close>

definition add_checkout :: "checkout \<Rightarrow> billing_db \<Rightarrow> billing_db" where
  "add_checkout c d = d\<lparr>bd_checkouts := bd_checkouts d @ [c]\<rparr>"

definition save_checkout :: "checkout \<Rightarrow> billing_db \<Rightarrow> billing_db" where
  "save_checkout c d = d\<lparr>bd_checkouts := put_row co_id c (bd_checkouts d)\<rparr>"

definition add_event :: "webhook_event \<Rightarrow> billing_db \<Rightarrow> billing_db" where
  "add_event e d = d\<lparr>bd_events := bd_events d @ [e]\<rparr>"

definition save_event :: "webhook_event \<Rightarrow> billing_db \<Rightarrow> billing_db" where
  "save_event e d = d\<lparr>bd_events := put_row ev_key e (bd_events d)\<rparr>"

definition add_entitlement :: "entitlement \<Rightarrow> billing_db \<Rightarrow> billing_db" where
  "add_entitlement e d = d\<lparr>bd_entitlements := bd_entitlements d @ [e]\<rparr>"

definition save_entitlement :: "entitlement \<Rightarrow> billing_db \<Rightarrow> billing_db" where
  "save_entitlement e d =
     d\<lparr>bd_entitlements := put_row (\<lambda>x. (en_tenant x, en_user x)) e (bd_entitlements d)\<rparr>"

definition add_transaction :: "billing_tx \<Rightarrow> billing_db \<Rightarrow> billing_db" where
  "add_transaction t d = d\<lparr>bd_transactions := bd_transactions d @ [t]\<rparr>"

definition add_wallet :: "wallet \<Rightarrow> billing_db \<Rightarrow> billing_db" where
  "add_wallet w d = d\<lparr>bd_wallets := bd_wallets d @ [w]\<rparr>"

definition save_wallet :: "wallet \<Rightarrow> billing_db \<Rightarrow> billing_db" where
  "save_wallet w d = d\<lparr>bd_wallets := put_row wl_id w (bd_wallets d)\<rparr>"

definition add_ledger :: "ledger_entry \<Rightarrow> billing_db \<Rightarrow> billing_db" where
  "add_ledger l d = d\<lparr>bd_ledger := bd_ledger d @ [l]\<rparr>"

definition add_audit :: "audit_event \<Rightarrow> billing_db \<Rightarrow> billing_db" where
  "add_audit a d = d\<lparr>bd_audits := bd_audits d @ [a]\<rparr>"

lemmas write_defs = add_checkout_def save_checkout_def add_event_def save_event_def
  add_entitlement_def save_entitlement_def add_transaction_def add_wallet_def save_wallet_def
  add_ledger_def add_audit_def

section \<open>Queries\<close>

definition checkout_for_actor :: "billing_db \<Rightarrow> string \<Rightarrow> string \<Rightarrow> string \<Rightarrow> checkout option" where
  "checkout_for_actor d tenant user cid =
     scalar (\<lambda>c. co_id c = cid \<and> co_tenant c = tenant \<and> co_user c = user) (bd_checkouts d)"

definition checkout_by_idempotency ::
    "billing_db \<Rightarrow> string \<Rightarrow> string \<Rightarrow> string \<Rightarrow> checkout option" where
  "checkout_by_idempotency d tenant user key =
     scalar (\<lambda>c. co_tenant c = tenant \<and> co_user c = user \<and> co_idempotency_key c = key)
       (bd_checkouts d)"

definition wallet_for_actor :: "billing_db \<Rightarrow> string \<Rightarrow> string \<Rightarrow> wallet option" where
  "wallet_for_actor d tenant user =
     scalar (\<lambda>w. wl_tenant w = tenant \<and> wl_user w = user) (bd_wallets d)"

definition entitlement_for_actor :: "billing_db \<Rightarrow> string \<Rightarrow> string \<Rightarrow> entitlement option" where
  "entitlement_for_actor d tenant user =
     scalar (\<lambda>e. en_tenant e = tenant \<and> en_user e = user) (bd_entitlements d)"

text \<open>\<open>order_by(created_at.desc()).limit(max(1, min(limit, 200)))\<close>.\<close>

definition page_size :: "int \<Rightarrow> nat" where
  "page_size limit = nat (max 1 (min limit 200))"

definition ledger_for_actor :: "billing_db \<Rightarrow> string \<Rightarrow> string \<Rightarrow> int \<Rightarrow> ledger_entry list" where
  "ledger_for_actor d tenant user limit =
     take (page_size limit) (sort_key (\<lambda>l. - lg_created_at l)
       (filter (\<lambda>l. lg_tenant l = tenant \<and> lg_user l = user) (bd_ledger d)))"

definition admin_transactions :: "billing_db \<Rightarrow> string \<Rightarrow> int \<Rightarrow> billing_tx list" where
  "admin_transactions d tenant limit =
     take (page_size limit) (sort_key (\<lambda>t. - tx_created_at t)
       (filter (\<lambda>t. tx_tenant t = tenant) (bd_transactions d)))"

record admin_summary_view =
  as_confirmed_revenue :: int
  as_refunded_or_chargeback :: int
  as_wallet_balance :: int
  as_wallet_quarantined :: int
  as_transaction_count :: nat
  as_wallet_count :: nat

definition admin_summary :: "billing_db \<Rightarrow> string \<Rightarrow> admin_summary_view" where
  "admin_summary d tenant =
     (let txs = filter (\<lambda>t. tx_tenant t = tenant) (bd_transactions d);
          ws = filter (\<lambda>w. wl_tenant w = tenant) (bd_wallets d) in
      \<lparr>as_confirmed_revenue =
         sum_list (map tx_amount_usd (filter (\<lambda>t. tx_status t = ''confirmed'') txs)),
       as_refunded_or_chargeback =
         sum_list (map tx_amount_usd
           (filter (\<lambda>t. tx_status t = ''refunded'' \<or> tx_status t = ''chargeback'') txs)),
       as_wallet_balance = sum_list (map wl_balance ws),
       as_wallet_quarantined = sum_list (map wl_quarantined ws),
       as_transaction_count = length txs,
       as_wallet_count = length ws\<rparr>)"

section \<open>The tables as keyed tables\<close>

text \<open>The unique constraints of models.py, each as the key of an interpreted table.\<close>

definition actor_key :: "checkout \<Rightarrow> string \<times> string \<times> string" where
  "actor_key c = (co_tenant c, co_user c, co_idempotency_key c)"

definition wallet_owner :: "wallet \<Rightarrow> string \<times> string" where
  "wallet_owner w = (wl_tenant w, wl_user w)"

definition entitlement_owner :: "entitlement \<Rightarrow> string \<times> string" where
  "entitlement_owner e = (en_tenant e, en_user e)"

definition ledger_key :: "ledger_entry \<Rightarrow> string \<times> string" where
  "ledger_key l = (lg_tenant l, lg_key l)"

definition tx_key :: "billing_tx \<Rightarrow> string \<times> string \<times> string \<times> string" where
  "tx_key t = (tx_provider t, tx_external_ref t, tx_status t, tx_charge_kind t)"

interpretation checkout_table: keyed_table actor_key bd_checkouts add_checkout
  by unfold_locales (simp add: add_checkout_def)

interpretation event_table: keyed_table "\<lambda>e. (ev_provider e, ev_key e)" bd_events add_event
  by unfold_locales (simp add: add_event_def)

interpretation wallet_table: keyed_table wallet_owner bd_wallets add_wallet
  by unfold_locales (simp add: add_wallet_def)

interpretation entitlement_table: keyed_table entitlement_owner bd_entitlements add_entitlement
  by unfold_locales (simp add: add_entitlement_def)

interpretation ledger_table: keyed_table ledger_key bd_ledger add_ledger
  by unfold_locales (simp add: add_ledger_def)

interpretation tx_table: keyed_table tx_key bd_transactions add_transaction
  by unfold_locales (simp add: add_transaction_def)

lemma checkout_by_idempotency_key:
  "checkout_by_idempotency d t u k = scalar (\<lambda>c. actor_key c = (t, u, k)) (bd_checkouts d)"
  by (simp add: checkout_by_idempotency_def actor_key_def)

lemma wallet_for_actor_key:
  "wallet_for_actor d t u = scalar (\<lambda>w. wallet_owner w = (t, u)) (bd_wallets d)"
  by (simp add: wallet_for_actor_def wallet_owner_def)

lemma entitlement_for_actor_key:
  "entitlement_for_actor d t u = scalar (\<lambda>e. entitlement_owner e = (t, u)) (bd_entitlements d)"
  by (simp add: entitlement_for_actor_def entitlement_owner_def)

lemma page_size_bounds: "1 \<le> page_size n \<and> page_size n \<le> 200"
  by (auto simp: page_size_def)

end
