(* ===== verification/Billing_Catalog.thy ===== *)
theory Billing_Catalog
  imports Billing_Model
begin

text \<open>
  The plan and top-up catalogues (src/src/orkio_v2/billing/catalog.py): loading and validating the
  configured JSON, the amounts of an item and its public view. A Python exception that no handler
  of the billing code catches is \<open>PyError\<close>, a violated constraint of the database
  \<open>DbIntegrityError\<close>.
\<close>

datatype billing_error =
    DomainError string int
  | ProviderError string int bool
  | CatalogError string
  | PyError py_exn
  | DbIntegrityError

type_synonym item = "(string \<times> json) list"
type_synonym catalog = "(string \<times> item) list"

section \<open>Loading\<close>

definition catalog_code :: "string \<Rightarrow> string \<Rightarrow> string" where
  "catalog_code kind what = ''BILLING_'' @ py_upper kind @ ''_CATALOG_'' @ what"

fun load_items :: "string \<Rightarrow> (string \<times> json) list \<Rightarrow> catalog \<Rightarrow> billing_error + catalog" where
  "load_items kind [] result = Inr result"
| "load_items kind ((key, item) # rest) result =
     (if py_strip key = [] \<or> \<not> is_dict item
      then Inl (CatalogError (catalog_code kind ''INVALID_ITEM''))
      else let fields = dict_items item;
               code = py_strip (py_str (py_or (obj_get fields ''code'') (JStr key))) in
        if code \<noteq> key then Inl (CatalogError (catalog_code kind ''CODE_MISMATCH''))
        else load_items kind rest (AList.update code (AList.update ''code'' (JStr code) fields) result))"

definition load_catalog :: "env \<Rightarrow> string \<Rightarrow> string \<Rightarrow> billing_error + catalog" where
  "load_catalog env raw kind =
     (if py_strip raw = [] then Inr []
      else case e_loads env raw of
          None \<Rightarrow> Inl (CatalogError (catalog_code kind ''INVALID_JSON''))
        | Some payload \<Rightarrow>
            if \<not> is_dict payload then Inl (CatalogError (catalog_code kind ''MUST_BE_OBJECT''))
            else load_items kind (dict_items payload) [])"

definition plan_catalog :: "env \<Rightarrow> billing_error + catalog" where
  "plan_catalog env = load_catalog env (st_plan_catalog_json (e_settings env)) ''plan''"

definition topup_catalog :: "env \<Rightarrow> billing_error + catalog" where
  "topup_catalog env = load_catalog env (st_topup_catalog_json (e_settings env)) ''topup''"

definition resolve_item :: "env \<Rightarrow> checkout_kind \<Rightarrow> string \<Rightarrow> billing_error + item option" where
  "resolve_item env kind item_code =
     (case (if kind = Topup then topup_catalog env else plan_catalog env) of
        Inl e \<Rightarrow> Inl e
      | Inr catalog \<Rightarrow>
          (case map_of catalog item_code of
             None \<Rightarrow> Inr None
           | Some item \<Rightarrow> Inr (if item = [] then None else Some item)))"

section \<open>Amounts\<close>

definition money_decimal :: "json \<Rightarrow> billing_error + decimal" where
  "money_decimal v =
     (if v = JNull \<or> v = JStr '''' then Inr (Dec 0 0)
      else case parse_decimal (py_str v) of
          None \<Rightarrow> Inl (PyError InvalidOperation)
        | Some x \<Rightarrow> Inr x)"

definition amount_usd :: "item \<Rightarrow> checkout_kind \<Rightarrow> billing_error + decimal" where
  "amount_usd item kind =
     money_decimal (obj_get item (if kind = Topup then ''pay_usd'' else ''price_usd''))"

text \<open>In cents.\<close>

definition amount_brl :: "env \<Rightarrow> item \<Rightarrow> checkout_kind \<Rightarrow> billing_error + int" where
  "amount_brl env item kind =
     (let direct = obj_get item (if kind = Topup then ''pay_brl'' else ''price_brl'') in
      if direct \<noteq> JNull then map_sum id (quantize 2) (money_decimal direct)
      else case amount_usd item kind of
          Inl e \<Rightarrow> Inl e
        | Inr usd \<Rightarrow> map_sum id (\<lambda>rate. quantize 2 (dec_mult usd rate))
            (money_decimal (JFloat (st_billing_usd_brl (e_settings env)))))"

text \<open>In units of 0.0001.\<close>

definition included_credit_usd :: "item \<Rightarrow> checkout_kind \<Rightarrow> billing_error + int" where
  "included_credit_usd item kind = map_sum id (quantize 4)
     (money_decimal (obj_get item (if kind = Topup then ''credit_usd'' else ''included_credit_usd'')))"

definition int_or :: "json \<Rightarrow> int \<Rightarrow> billing_error + int" where
  "int_or v n = map_sum PyError id (py_int (py_or v (JInt n)))"

section \<open>Public view\<close>

record public_view =
  pv_code :: string
  pv_name :: string
  pv_kind :: checkout_kind
  pv_description :: string
  pv_display_currency :: string
  pv_price_usd :: decimal
  pv_price_brl :: int
  pv_included_credit_usd :: int
  pv_badge :: json
  pv_features :: "json list"
  pv_entitlement_days :: "int option"

text \<open>\<open>list(v)\<close>.\<close>

fun py_list :: "json \<Rightarrow> billing_error + json list" where
  "py_list (JList xs) = Inr xs"
| "py_list (JStr s) = Inr (map (\<lambda>c. JStr [c]) s)"
| "py_list (JObj kvs) = Inr (map (\<lambda>kv. JStr (fst kv)) kvs)"
| "py_list _ = Inl (PyError TypeError)"

definition text_or :: "json \<Rightarrow> string \<Rightarrow> string" where
  "text_or v s = py_str (py_or v (JStr s))"

definition public_item :: "env \<Rightarrow> item \<Rightarrow> checkout_kind \<Rightarrow> billing_error + public_view" where
  "public_item env item kind =
     (case amount_usd item kind of Inl e \<Rightarrow> Inl e | Inr usd \<Rightarrow>
     (case amount_brl env item kind of Inl e \<Rightarrow> Inl e | Inr brl \<Rightarrow>
     (case included_credit_usd item kind of Inl e \<Rightarrow> Inl e | Inr credit \<Rightarrow>
     (case py_list (py_or (obj_get item ''features'') (JList [])) of Inl e \<Rightarrow> Inl e | Inr feats \<Rightarrow>
     (case (if kind = Plan
            then map_sum id Some (int_or (obj_get item ''entitlement_days'') 31) else Inr None) of
        Inl e \<Rightarrow> Inl e
      | Inr days_opt \<Rightarrow> Inr
          \<lparr>pv_code = text_or (obj_get item ''code'') '''',
           pv_name = py_str (py_or (py_or (obj_get item ''name'') (obj_get item ''code'')) (JStr '''')),
           pv_kind = kind,
           pv_description = text_or (obj_get item ''description'') '''',
           pv_display_currency = text_or (obj_get item ''display_currency'') ''USD'',
           pv_price_usd = usd, pv_price_brl = brl, pv_included_credit_usd = credit,
           pv_badge = obj_get item ''badge'', pv_features = feats,
           pv_entitlement_days = days_opt\<rparr>)))))"

fun public_items :: "env \<Rightarrow> checkout_kind \<Rightarrow> catalog \<Rightarrow> billing_error + public_view list" where
  "public_items env kind [] = Inr []"
| "public_items env kind ((code, item) # rest) =
     (case public_item env item kind of
        Inl e \<Rightarrow> Inl e
      | Inr v \<Rightarrow> map_sum id ((#) v) (public_items env kind rest))"

definition list_plans :: "env \<Rightarrow> billing_error + public_view list" where
  "list_plans env = (case plan_catalog env of Inl e \<Rightarrow> Inl e | Inr c \<Rightarrow> public_items env Plan c)"

definition list_topups :: "env \<Rightarrow> billing_error + public_view list" where
  "list_topups env = (case topup_catalog env of Inl e \<Rightarrow> Inl e | Inr c \<Rightarrow> public_items env Topup c)"

section \<open>Every loaded entry carries its own key as its code\<close>

definition catalog_ok :: "catalog \<Rightarrow> bool" where
  "catalog_ok c \<longleftrightarrow> distinct (map fst c) \<and>
     (\<forall>(code, item) \<in> set c. code \<noteq> [] \<and> py_strip code = code \<and> obj_get item ''code'' = JStr code)"

lemma catalog_ok_update:
  assumes "catalog_ok c" and "code \<noteq> []" and "py_strip code = code"
    and "obj_get item ''code'' = JStr code"
  shows "catalog_ok (AList.update code item c)"
proof -
  have sub: "x \<in> set (AList.update code item c) \<Longrightarrow> x = (code, item) \<or> x \<in> set c" for x
    by (induction c) (auto split: if_splits)
  show ?thesis
    using assms sub by (fastforce simp: catalog_ok_def distinct_update)
qed

lemma load_items_ok:
  "load_items kind entries result = Inr c \<Longrightarrow> catalog_ok result \<Longrightarrow> catalog_ok c"
proof (induction kind entries result rule: load_items.induct)
  case (2 kind key item rest result)
  let ?code = "py_strip (py_str (py_or (obj_get (dict_items item) ''code'') (JStr key)))"
  have ne: "py_strip key \<noteq> []" "is_dict item" "?code = key"
    using "2.prems"(1) by (auto simp: Let_def split: if_splits)
  then have strip: "py_strip key = key" by (metis py_strip_strip)
  have "catalog_ok (AList.update key (AList.update ''code'' (JStr key) (dict_items item)) result)"
    using "2.prems"(2) ne strip by (intro catalog_ok_update) auto
  with 2 ne show ?case by (simp add: Let_def)
qed simp

lemma load_catalog_ok: "load_catalog env raw kind = Inr c \<Longrightarrow> catalog_ok c"
  by (auto simp: load_catalog_def catalog_ok_def split: if_splits option.splits
      dest!: load_items_ok)

lemma plan_or_topup_ok:
  "(if kind = Topup then topup_catalog env else plan_catalog env) = Inr c \<Longrightarrow> catalog_ok c"
  by (auto simp: topup_catalog_def plan_catalog_def split: if_splits dest: load_catalog_ok)

end
