(* ===== verification/Billing_Provider.thy ===== *)
theory Billing_Provider
  imports Billing_Catalog
begin

text \<open>
  The Asaas adapter (src/src/orkio_v2/billing/asaas_client.py). The provider itself is outside the
  repository: \<open>provider\<close> gives, for each call, what \<open>httpx\<close> reports of it, and the adapter's
  classification of that outcome is modelled in full. The theorems hold for every provider.
\<close>

datatype http_outcome = HttpTimeout | HttpFailure | HttpResponse int "json option"

record provider =
  pv_post :: "item \<Rightarrow> http_outcome"
  pv_get :: "string \<Rightarrow> http_outcome"

definition assert_configured :: "settings \<Rightarrow> billing_error option" where
  "assert_configured st =
     (if \<not> st_billing_enabled st then Some (ProviderError ''BILLING_DISABLED'' 503 False)
      else if st_billing_provider st \<noteq> ''asaas''
        then Some (ProviderError ''BILLING_PROVIDER_NOT_CONFIGURED'' 503 False)
      else if py_strip (st_asaas_api_key st) = []
        then Some (ProviderError ''BILLING_PROVIDER_NOT_CONFIGURED'' 503 False)
      else None)"

text \<open>What \<open>create_payment_link\<close> makes of the outcome of its POST.\<close>

fun classify_post :: "http_outcome \<Rightarrow> billing_error + item" where
  "classify_post HttpTimeout = Inl (ProviderError ''BILLING_PROVIDER_TIMEOUT'' 504 True)"
| "classify_post HttpFailure = Inl (ProviderError ''BILLING_PROVIDER_UNAVAILABLE'' 502 True)"
| "classify_post (HttpResponse code body) =
     (if 500 \<le> code then Inl (ProviderError ''BILLING_PROVIDER_UPSTREAM_5XX'' 502 True)
      else if 400 \<le> code then Inl (ProviderError ''BILLING_PROVIDER_REJECTED'' 502 False)
      else case body of
          None \<Rightarrow> Inl (ProviderError ''BILLING_PROVIDER_INVALID_RESPONSE'' 502 True)
        | Some v \<Rightarrow>
            if \<not> is_dict v \<or> \<not> truthy (obj_get (dict_items v) ''id'')
               \<or> \<not> truthy (obj_get (dict_items v) ''url'')
            then Inl (ProviderError ''BILLING_PROVIDER_INVALID_RESPONSE'' 502 True)
            else Inr (dict_items v))"

definition create_payment_link :: "settings \<Rightarrow> provider \<Rightarrow> item \<Rightarrow> billing_error + item" where
  "create_payment_link st p payload =
     (case assert_configured st of
        Some e \<Rightarrow> Inl e
      | None \<Rightarrow> classify_post (pv_post p payload))"

definition reconciliation_error :: "string \<Rightarrow> billing_error" where
  "reconciliation_error what = ProviderError (''BILLING_PROVIDER_RECONCILIATION_'' @ what) 502 True"

definition exact_links :: "json list \<Rightarrow> string \<Rightarrow> item list" where
  "exact_links data ref =
     map dict_items (filter (\<lambda>v. is_dict v \<and>
       text_or (obj_get (dict_items v) ''externalReference'') '''' = ref) data)"

definition link_view :: "item \<Rightarrow> item" where
  "link_view v = [(''id'', JStr (py_str (obj_get v ''id''))), (''url'', JStr (py_str (obj_get v ''url'')))]"

fun json_items :: "json \<Rightarrow> json list option" where
  "json_items (JList xs) = Some xs"
| "json_items _ = None"

fun classify_lookup :: "string \<Rightarrow> http_outcome \<Rightarrow> billing_error + item option" where
  "classify_lookup ref HttpTimeout =
     Inl (ProviderError ''BILLING_PROVIDER_RECONCILIATION_TIMEOUT'' 504 True)"
| "classify_lookup ref HttpFailure = Inl (reconciliation_error ''UNAVAILABLE'')"
| "classify_lookup ref (HttpResponse code body) =
     (if 400 \<le> code then Inl (reconciliation_error ''FAILED'')
      else case body of
          None \<Rightarrow> Inl (reconciliation_error ''INVALID_RESPONSE'')
        | Some v \<Rightarrow>
            (case (if is_dict v then json_items (obj_get (dict_items v) ''data'') else None) of
               None \<Rightarrow> Inl (reconciliation_error ''INVALID_RESPONSE'')
             | Some data \<Rightarrow>
                 (case exact_links data ref of
                    [] \<Rightarrow> Inr None
                  | [v] \<Rightarrow>
                      if \<not> truthy (obj_get v ''id'') \<or> \<not> truthy (obj_get v ''url'')
                      then Inl (reconciliation_error ''INVALID_RESPONSE'')
                      else Inr (Some (link_view v))
                  | _ \<Rightarrow> Inl (reconciliation_error ''AMBIGUOUS''))))"

definition find_payment_link :: "settings \<Rightarrow> provider \<Rightarrow> string \<Rightarrow> billing_error + item option" where
  "find_payment_link st p ref =
     (case assert_configured st of
        Some e \<Rightarrow> Inl e
      | None \<Rightarrow> classify_lookup ref (pv_get p ref))"

section \<open>Only a definitive outcome is reported as known\<close>

text \<open>A POST whose request may have reached the provider is never reported as a known failure,
  except for the provider's own rejection (a 4xx answer).\<close>

lemma post_error_known:
  "create_payment_link st p payload = Inl (ProviderError code n False) \<Longrightarrow>
     assert_configured st = Some (ProviderError code n False)
     \<or> (\<exists>status body. pv_post p payload = HttpResponse status body \<and> 400 \<le> status \<and> status < 500)"
  by (cases "pv_post p payload")
    (auto simp: create_payment_link_def split: option.splits if_splits)

lemma post_ok_fields:
  "create_payment_link st p payload = Inr v \<Longrightarrow>
     truthy (obj_get v ''id'') \<and> truthy (obj_get v ''url'')"
  by (cases "pv_post p payload")
    (auto simp: create_payment_link_def split: option.splits if_splits)

lemma lookup_ok_fields:
  "find_payment_link st p ref = Inr (Some v) \<Longrightarrow>
     obj_get v ''id'' \<noteq> JNull \<and> obj_get v ''url'' \<noteq> JNull"
  by (cases "pv_get p ref")
    (auto simp: find_payment_link_def link_view_def obj_get_def
       split: option.splits if_splits list.splits)

text \<open>A lookup answers with a link only when exactly one carries the reference.\<close>

lemma lookup_exact:
  "find_payment_link st p ref = Inr (Some v) \<Longrightarrow>
     \<exists>code body data link. pv_get p ref = HttpResponse code (Some body)
       \<and> json_items (obj_get (dict_items body) ''data'') = Some data
       \<and> exact_links data ref = [link] \<and> v = link_view link"
  by (cases "pv_get p ref")
    (auto simp: find_payment_link_def split: option.splits if_splits list.splits)

end
