(* ===== verification/Billing_Checkout.thy ===== *)
theory Billing_Checkout
  imports Billing_Provider
begin

text \<open>
  Creating a checkout (src/src/orkio_v2/billing/service.py, lines 49 to 499): the guards, the row and
  the provider payload, the durable intent committed before the POST, the outcome, and the
  reconciliation of a repeated request. \<open>checkout_begin\<close>, \<open>commit_intent\<close> and \<open>finish_checkout\<close> are
  the three stretches of \<open>create_checkout\<close> between its database and network boundaries;
  \<open>create_checkout\<close> composes them and also returns the payloads it POSTed.
\<close>

record checkout_request =
  rq_item_code :: string
  rq_kind :: checkout_kind
  rq_full_name :: "string option"
  rq_company :: "string option"

definition audit_forbidden :: "string list" where
  "audit_forbidden = [''token'', ''secret'', ''api_key'', ''access_token'', ''payload'']"

definition audit :: "string option \<Rightarrow> string option \<Rightarrow> string \<Rightarrow> string \<Rightarrow> string option \<Rightarrow> string
    \<Rightarrow> (string \<times> json) list \<Rightarrow> billing_db \<Rightarrow> billing_db" where
  "audit tenant actor action rtype rid outcome meta =
     add_audit \<lparr>au_tenant = tenant, au_actor = actor, au_action = action,
       au_resource_type = rtype, au_resource_id = rid, au_outcome = outcome,
       au_metadata = fold AList.delete audit_forbidden meta\<rparr>"

definition find_user :: "billing_db \<Rightarrow> string \<Rightarrow> user option" where
  "find_user d uid = scalar (\<lambda>u. us_id u = uid) (bd_users d)"

definition checkout_return_url :: "env \<Rightarrow> string \<Rightarrow> billing_error + string" where
  "checkout_return_url env checkout_id =
     (let base = py_strip (st_checkout_success_url (e_settings env)) in
      if base = [] then Inl (DomainError ''BILLING_CHECKOUT_RETURN_URL_NOT_CONFIGURED'' 503)
      else Inr (e_with_query env base
             [(''checkout_id'', checkout_id), (''checkout'', ''return'')]))"

section \<open>State of the provider operation\<close>

definition provider_operation :: "checkout \<Rightarrow> (string \<times> json) list" where
  "provider_operation c = dict_items (obj_get (co_metadata c) ''provider_operation'')"

definition provider_operation_state :: "checkout \<Rightarrow> string option" where
  "provider_operation_state c =
     (let v = obj_get (co_metadata c) ''provider_operation'' in
      if \<not> is_dict v then None
      else let s = py_strip (text_or (obj_get (dict_items v) ''state'') '''') in
        if s = [] then None else Some s)"

definition set_provider_operation_state ::
    "string \<Rightarrow> string \<Rightarrow> string option \<Rightarrow> checkout \<Rightarrow> checkout" where
  "set_provider_operation_state state ref error_code c =
     (let op0 = provider_operation c;
          op1 = AList.update ''external_reference'' (JStr ref)
                 (AList.update ''state'' (JStr state)
                   (AList.update ''kind'' (JStr ''create_payment_link'') op0));
          op2 = (case error_code of
                   Some e \<Rightarrow> if e = [] then AList.delete ''last_error_code'' op1
                             else AList.update ''last_error_code'' (JStr e) op1
                 | None \<Rightarrow> AList.delete ''last_error_code'' op1)
      in c\<lparr>co_metadata := AList.update ''provider_operation'' (JObj op2) (co_metadata c)\<rparr>)"

section \<open>Binding a payment link to the checkout\<close>

definition binding_conflict :: "checkout \<Rightarrow> billing_db \<Rightarrow> bool" where
  "binding_conflict c d = list_ex (\<lambda>x. co_id x \<noteq> co_id c \<and> co_provider x = co_provider c
     \<and> co_provider_checkout_id x = co_provider_checkout_id c) (bd_checkouts d)"

definition bind_provider_checkout ::
    "env \<Rightarrow> checkout \<Rightarrow> item \<Rightarrow> string \<Rightarrow> bool \<Rightarrow> billing_db session
      \<Rightarrow> (billing_error + checkout) \<times> billing_db session" where
  "bind_provider_checkout env row response actor reconciled s =
     (let row1 = row\<lparr>co_provider_checkout_id := Some (py_str (obj_get response ''id'')),
                     co_provider_url := Some (py_str (obj_get response ''url''))\<rparr>;
          row2 = (set_provider_operation_state ''completed'' (co_id row) None row1)
                   \<lparr>co_updated_at := e_now env\<rparr>;
          s1 = on_work (audit (Some (co_tenant row)) (Some actor)
                 (if reconciled then ''billing.checkout.reconciled'' else ''billing.checkout.created'')
                 ''billing_checkout'' (Some (co_id row)) ''success''
                 [(''checkout_kind'', JStr (kind_text (co_kind row))),
                  (''item_code'', JStr (co_item_code row)),
                  (''provider'', JStr ''asaas''), (''reconciled'', JBool reconciled)]
               \<circ> save_checkout row2) s
      in if binding_conflict row2 (work s) then (Inl DbIntegrityError, s1)
         else (Inr row2, commit s1))"

definition filled :: "string option \<Rightarrow> bool" where
  "filled s = (case s of None \<Rightarrow> False | Some t \<Rightarrow> t \<noteq> [])"

definition reconcile_existing_checkout ::
    "env \<Rightarrow> principal \<Rightarrow> provider \<Rightarrow> checkout \<Rightarrow> billing_db session
      \<Rightarrow> (billing_error + checkout) \<times> billing_db session" where
  "reconcile_existing_checkout env p prov row s =
     (if filled (co_provider_checkout_id row) \<and> filled (co_provider_url row) then (Inr row, s)
      else if co_status row = Failed then (Inr row, s)
      else case find_payment_link (e_settings env) prov (co_id row) of
          Inl e \<Rightarrow> (Inl e, s)
        | Inr None \<Rightarrow> (Inl (DomainError ''BILLING_CHECKOUT_RECONCILIATION_REQUIRED'' 409), s)
        | Inr (Some link) \<Rightarrow> bind_provider_checkout env row link (pr_user_id p) True s)"

section \<open>The new row and the provider payload\<close>

text \<open>\<open>float(x)\<close> of an amount in cents, as its \<open>repr\<close>.\<close>

definition float_text :: "int \<Rightarrow> string" where
  "float_text cents = (let t = show_fixed 2 cents in if last t = CHR ''0'' then butlast t else t)"

definition provider_payload :: "item \<Rightarrow> string \<Rightarrow> string \<Rightarrow> string \<Rightarrow> int \<Rightarrow> int \<Rightarrow> item" where
  "provider_payload item item_code checkout_id callback value_brl due_days =
     [(''name'', JStr (text_or (obj_get item ''name'') item_code)),
      (''description'', JStr (py_str (py_or (py_or (obj_get item ''description'') (obj_get item ''name''))
         (JStr item_code)))),
      (''billingType'', JStr ''UNDEFINED''),
      (''chargeType'', JStr ''DETACHED''),
      (''value'', JFloat (float_text value_brl)),
      (''dueDateLimitDays'', JInt (max 1 (min due_days 31))),
      (''externalReference'', JStr checkout_id),
      (''callback'', JObj [(''successUrl'', JStr callback), (''autoRedirect'', JBool False)])]"

definition checkout_metadata :: "int \<Rightarrow> int \<Rightarrow> string \<Rightarrow> (string \<times> json) list" where
  "checkout_metadata credit entitlement_days checkout_id =
     [(''catalog_source'', JStr ''configured''),
      (''included_credit_usd'', JStr (show_fixed 4 credit)),
      (''entitlement_days'', JInt entitlement_days),
      (''provider_operation'', JObj
        [(''kind'', JStr ''create_payment_link''),
         (''state'', JStr ''provider_call_started''),
         (''external_reference'', JStr checkout_id),
         (''attempt_count'', JInt 1)])]"

datatype checkout_start =
    StartError billing_error
  | StartExisting checkout
  | StartIntent checkout item

definition new_checkout ::
    "env \<Rightarrow> principal \<Rightarrow> checkout_request \<Rightarrow> string \<Rightarrow> item \<Rightarrow> user \<Rightarrow> billing_error + checkout \<times> item" where
  "new_checkout env p rq key item user =
     (let payer_name = py_strip (if filled (rq_full_name rq) then the (rq_full_name rq)
                                 else us_display_name user);
          checkout_id = e_uid env 0 in
      if payer_name = [] then Inl (DomainError ''BILLING_PAYER_NAME_REQUIRED'' 400)
      else case checkout_return_url env checkout_id of Inl e \<Rightarrow> Inl e | Inr callback \<Rightarrow>
     (case amount_brl env item (rq_kind rq) of Inl e \<Rightarrow> Inl e | Inr value_brl \<Rightarrow>
     (case amount_usd item (rq_kind rq) of Inl e \<Rightarrow> Inl e | Inr value_usd \<Rightarrow>
      if value_brl \<le> 0 then Inl (DomainError ''BILLING_ITEM_NOT_PURCHASABLE'' 400) else
     (case int_or (obj_get item ''entitlement_days'') 7 of Inl e \<Rightarrow> Inl e | Inr due_days \<Rightarrow>
     (case included_credit_usd item (rq_kind rq) of Inl e \<Rightarrow> Inl e | Inr credit \<Rightarrow>
     (case int_or (obj_get item ''entitlement_days'') 31 of Inl e \<Rightarrow> Inl e | Inr ent_days \<Rightarrow>
        Inr (\<lparr>co_id = checkout_id, co_tenant = pr_tenant_id p, co_user = pr_user_id p,
              co_kind = rq_kind rq, co_item_code = rq_item_code rq,
              co_item_name = text_or (obj_get item ''name'') (rq_item_code rq),
              co_payer_email = py_lower (py_strip (us_email user)),
              co_payer_name = payer_name,
              co_company = (let c = py_strip (case rq_company rq of None \<Rightarrow> [] | Some c \<Rightarrow> c)
                            in if c = [] then None else Some c),
              co_currency = ''BRL'', co_amount_brl = value_brl,
              co_amount_usd = numeric_store 4 value_usd,
              co_status = Pending, co_provider = ''asaas'',
              co_provider_checkout_id = None, co_provider_payment_id = None, co_provider_url = None,
              co_callback = callback, co_idempotency_key = key,
              co_metadata = checkout_metadata credit ent_days checkout_id,
              co_created_at = e_now env, co_updated_at = e_now env,
              co_confirmed_at = None, co_reversed_at = None\<rparr>,
             provider_payload item (rq_item_code rq) checkout_id callback value_brl due_days)))))))"

definition checkout_begin ::
    "env \<Rightarrow> principal \<Rightarrow> checkout_request \<Rightarrow> string \<Rightarrow> billing_db \<Rightarrow> checkout_start" where
  "checkout_begin env p rq key d =
     (if \<not> st_billing_enabled (e_settings env) then StartError (DomainError ''BILLING_DISABLED'' 503)
      else if key = [] \<or> 128 < length key
        then StartError (DomainError ''BILLING_IDEMPOTENCY_KEY_REQUIRED'' 400)
      else case checkout_by_idempotency d (pr_tenant_id p) (pr_user_id p) key of
          Some existing \<Rightarrow> StartExisting existing
        | None \<Rightarrow>
            (case resolve_item env (rq_kind rq) (rq_item_code rq) of
               Inl (CatalogError code) \<Rightarrow> StartError (DomainError code 503)
             | Inl e \<Rightarrow> StartError e
             | Inr None \<Rightarrow> StartError (DomainError ''BILLING_ITEM_NOT_FOUND'' 404)
             | Inr (Some item) \<Rightarrow>
                 (case find_user d (pr_user_id p) of
                    None \<Rightarrow> StartError (DomainError ''BILLING_USER_NOT_PROVISIONED'' 403)
                  | Some user \<Rightarrow>
                      (case new_checkout env p rq key item user of
                         Inl e \<Rightarrow> StartError e
                       | Inr (row, payload) \<Rightarrow> StartIntent row payload))))"

section \<open>The durable intent, the POST and its outcome\<close>

text \<open>\<open>None\<close> is the \<open>IntegrityError\<close> of \<open>uq_billing_checkout_actor_idempotency\<close>: the key was
  claimed between the lookup and this commit.\<close>

definition commit_intent :: "principal \<Rightarrow> checkout \<Rightarrow> billing_db session \<Rightarrow> billing_db session option" where
  "commit_intent p row s =
     (if scalar (\<lambda>c. actor_key c = actor_key row) (bd_checkouts (work s)) \<noteq> None then None
      else Some (commit (on_work
        (audit (Some (pr_tenant_id p)) (Some (pr_user_id p))
           ''billing.checkout.provider_intent_committed'' ''billing_checkout'' (Some (co_id row)) ''pending''
           [(''checkout_kind'', JStr (kind_text (co_kind row))), (''item_code'', JStr (co_item_code row)),
            (''provider'', JStr ''asaas'')]
         \<circ> add_checkout row) s)))"

definition record_provider_failure ::
    "env \<Rightarrow> principal \<Rightarrow> checkout \<Rightarrow> string \<Rightarrow> bool \<Rightarrow> billing_db session \<Rightarrow> billing_db session" where
  "record_provider_failure env p row code unknown s =
     (let row1 = (if unknown
                  then set_provider_operation_state ''outcome_unknown'' (co_id row) (Some code) row
                  else set_provider_operation_state ''failed'' (co_id row) (Some code)
                         (row\<lparr>co_status := Failed\<rparr>))
      in commit (on_work
           (audit (Some (co_tenant row)) (Some (pr_user_id p)) ''billing.checkout.provider_failed''
              ''billing_checkout'' (Some (co_id row)) (if unknown then ''unknown'' else ''failed'')
              [(''provider'', JStr ''asaas''), (''error_code'', JStr code),
               (''provider_outcome_unknown'', JBool unknown)]
            \<circ> save_checkout (row1\<lparr>co_updated_at := e_now env\<rparr>)) s))"

text \<open>The POST leaves the machine only when the provider is configured.\<close>

definition posted :: "env \<Rightarrow> item \<Rightarrow> item list" where
  "posted env payload = (if assert_configured (e_settings env) = None then [payload] else [])"

definition finish_checkout ::
    "env \<Rightarrow> principal \<Rightarrow> provider \<Rightarrow> checkout \<Rightarrow> item \<Rightarrow> billing_db session
      \<Rightarrow> (billing_error + checkout) \<times> billing_db session" where
  "finish_checkout env p prov row payload s =
     (case create_payment_link (e_settings env) prov payload of
        Inl (ProviderError code status unknown) \<Rightarrow>
          (Inl (ProviderError code status unknown), record_provider_failure env p row code unknown s)
      | Inl e \<Rightarrow> (Inl e, s)
      | Inr response \<Rightarrow> bind_provider_checkout env row response (pr_user_id p) False s)"

definition create_checkout ::
    "env \<Rightarrow> principal \<Rightarrow> provider \<Rightarrow> checkout_request \<Rightarrow> string \<Rightarrow> billing_db session
      \<Rightarrow> (billing_error + checkout) \<times> billing_db session \<times> item list" where
  "create_checkout env p prov rq key s =
     (case checkout_begin env p rq key (work s) of
        StartError e \<Rightarrow> (Inl e, s, [])
      | StartExisting row \<Rightarrow>
          (case reconcile_existing_checkout env p prov row s of (r, s1) \<Rightarrow> (r, s1, []))
      | StartIntent row payload \<Rightarrow>
          (case commit_intent p row s of
             Some s1 \<Rightarrow>
               (case finish_checkout env p prov row payload s1 of (r, s2) \<Rightarrow> (r, s2, posted env payload))
           | None \<Rightarrow>
               (let s1 = rollback s in
                case checkout_by_idempotency (work s1) (pr_tenant_id p) (pr_user_id p) key of
                  Some row1 \<Rightarrow>
                    (case reconcile_existing_checkout env p prov row1 s1 of (r, s2) \<Rightarrow> (r, s2, []))
                | None \<Rightarrow> (Inl (DomainError ''BILLING_CHECKOUT_CONFLICT'' 409), s1, []))))"

text \<open>The route \<open>POST /checkouts\<close> (billing/routes.py): an exception rolls the session back.\<close>

fun raise_http :: "billing_error \<Rightarrow> http_error" where
  "raise_http (DomainError code status) = HttpError status code"
| "raise_http (ProviderError code status u) = HttpError status code"
| "raise_http (CatalogError code) = HttpError 500 ''Internal Server Error''"
| "raise_http (PyError e) = HttpError 500 ''Internal Server Error''"
| "raise_http DbIntegrityError = HttpError 500 ''Internal Server Error''"

definition checkout_route ::
    "env \<Rightarrow> principal \<Rightarrow> provider \<Rightarrow> checkout_request \<Rightarrow> string option \<Rightarrow> billing_db
      \<Rightarrow> (http_error + checkout) \<times> billing_db \<times> item list" where
  "checkout_route env p prov rq header d =
     (case create_checkout env p prov rq (py_strip (case header of None \<Rightarrow> [] | Some h \<Rightarrow> h))
             (open_session d) of
        (Inr row, s, posts) \<Rightarrow> (Inr row, close_session s, posts)
      | (Inl e, s, posts) \<Rightarrow> (Inl (raise_http e), close_session (rollback s), posts))"

end
