(* ===== verification/Billing_Wallet.thy ===== *)
theory Billing_Wallet
  imports Billing_Checkout
begin

text \<open>
  The effects of a payment (billing/service.py): the wallet and its ledger, the entitlement and the
  transaction record. Money is in units of 0.0001 USD. Each function takes the database the session
  works on and returns it updated.
\<close>

definition decimal4 :: "json \<Rightarrow> billing_error + int" where
  "decimal4 v = (case parse_decimal (text_or v ''0'') of
       None \<Rightarrow> Inl (PyError InvalidOperation)
     | Some x \<Rightarrow> Inr (quantize 4 x))"

section \<open>Wallet and ledger\<close>

definition new_wallet :: "string \<Rightarrow> string \<Rightarrow> string \<Rightarrow> wallet" where
  "new_wallet wid tenant user =
     \<lparr>wl_id = wid, wl_tenant = tenant, wl_user = user, wl_currency = ''USD'',
      wl_status = WalletActive, wl_balance = 0, wl_credited = 0, wl_debited = 0,
      wl_quarantined = 0, wl_auto_recharge = False, wl_low_threshold = Some 30000\<rparr>"

definition get_or_create_wallet ::
    "env \<Rightarrow> string \<Rightarrow> string \<Rightarrow> billing_db \<Rightarrow> wallet \<times> billing_db" where
  "get_or_create_wallet env tenant user d =
     (case wallet_for_actor d tenant user of
        Some w \<Rightarrow> (w, d)
      | None \<Rightarrow> (let w = new_wallet (e_uid env 3) tenant user in (w, add_wallet w d)))"

definition ledger_exists :: "billing_db \<Rightarrow> string \<Rightarrow> string \<Rightarrow> bool" where
  "ledger_exists d tenant key =
     (scalar (\<lambda>l. lg_tenant l = tenant \<and> lg_key l = key) (bd_ledger d) \<noteq> None)"

definition credit_key :: "string \<Rightarrow> string" where
  "credit_key payment = ''asaas:'' @ payment @ '':credit''"

definition credit_wallet :: "env \<Rightarrow> checkout \<Rightarrow> string \<Rightarrow> int \<Rightarrow> billing_db \<Rightarrow> billing_db" where
  "credit_wallet env c payment amount d =
     (case get_or_create_wallet env (co_tenant c) (co_user c) d of (w, d1) \<Rightarrow>
      if amount \<le> 0 \<or> ledger_exists d1 (co_tenant c) (credit_key payment) then d1
      else let new_balance = wl_balance w + amount in
        add_ledger
          \<lparr>lg_id = e_uid env 4, lg_tenant = co_tenant c, lg_user = co_user c,
           lg_wallet_id = wl_id w, lg_direction = Credit,
           lg_source = (if co_kind c = Topup then ''topup'' else ''plan_included''),
           lg_key = credit_key payment, lg_action_key = Some (co_item_code c),
           lg_amount = amount, lg_balance_after = new_balance, lg_currency = ''USD'',
           lg_provider = Some ''asaas'', lg_external_ref = Some payment,
           lg_checkout_id = Some (co_id c), lg_tx_id = None,
           lg_metadata = [(''policy'', JStr ''checkout_credit_exactly_once'')],
           lg_created_by = ''billing_webhook'', lg_created_at = e_now env\<rparr>
          (save_wallet (w\<lparr>wl_balance := new_balance, wl_credited := wl_credited w + amount\<rparr>) d1))"

definition reversal_key :: "string \<Rightarrow> string \<Rightarrow> string" where
  "reversal_key payment source = ''asaas:'' @ payment @ '':'' @ source"

definition original_credit :: "billing_db \<Rightarrow> checkout \<Rightarrow> ledger_entry option" where
  "original_credit d c =
     scalar (\<lambda>l. True) (sort_key lg_created_at
       (filter (\<lambda>l. lg_tenant l = co_tenant c \<and> lg_user l = co_user c
          \<and> lg_checkout_id l = Some (co_id c) \<and> lg_direction l = Credit) (bd_ledger d)))"

definition reverse_checkout_credit ::
    "env \<Rightarrow> checkout \<Rightarrow> string \<Rightarrow> string \<Rightarrow> billing_tx \<Rightarrow> billing_db \<Rightarrow> billing_db" where
  "reverse_checkout_credit env c payment source tx d =
     (let key = reversal_key payment source in
      if ledger_exists d (co_tenant c) key then d
      else case original_credit d c of
          None \<Rightarrow> d
        | Some credit \<Rightarrow>
            (case get_or_create_wallet env (co_tenant c) (co_user c) d of (w, d1) \<Rightarrow>
             let target = lg_amount credit;
                 current = wl_balance w;
                 actual = min current target;
                 shortfall = target - actual;
                 new_balance = current - actual;
                 w1 = w\<lparr>wl_balance := new_balance, wl_debited := wl_debited w + actual\<rparr>;
                 w2 = (if 0 < shortfall
                       then w1\<lparr>wl_status := WalletQuarantined,
                               wl_quarantined := wl_quarantined w + shortfall\<rparr>
                       else w1)
             in add_ledger
                  \<lparr>lg_id = e_uid env 4, lg_tenant = co_tenant c, lg_user = co_user c,
                   lg_wallet_id = wl_id w, lg_direction = Debit, lg_source = source, lg_key = key,
                   lg_action_key = Some (co_item_code c), lg_amount = actual,
                   lg_balance_after = new_balance, lg_currency = ''USD'',
                   lg_provider = Some ''asaas'', lg_external_ref = Some payment,
                   lg_checkout_id = Some (co_id c), lg_tx_id = Some (tx_id tx),
                   lg_metadata =
                     [(''policy'', JStr ''reverse_available_then_quarantine_shortfall''),
                      (''original_credit_usd'', JStr (show_fixed 4 target)),
                      (''unrecovered_usd'', JStr (show_fixed 4 shortfall))],
                   lg_created_by = ''billing_webhook'', lg_created_at = e_now env\<rparr>
                  (save_wallet w2 d1)))"

section \<open>Entitlement\<close>

definition revoke_entitlement :: "checkout \<Rightarrow> checkout_status \<Rightarrow> instant \<Rightarrow> billing_db \<Rightarrow> billing_db" where
  "revoke_entitlement c status when d =
     (if co_kind c \<noteq> Plan then d
      else case entitlement_for_actor d (co_tenant c) (co_user c) of
          None \<Rightarrow> d
        | Some ent \<Rightarrow>
            save_entitlement (ent\<lparr>en_status := status_text status, en_updated_at := when\<rparr>) d)"

definition entitlement_days :: "checkout \<Rightarrow> billing_error + int" where
  "entitlement_days c =
     map_sum id (\<lambda>n. max 1 (min n 366)) (int_or (obj_get (co_metadata c) ''entitlement_days'') 31)"

definition activate_entitlement ::
    "checkout \<Rightarrow> instant \<Rightarrow> billing_db \<Rightarrow> billing_error + billing_db" where
  "activate_entitlement c when d =
     (if co_kind c \<noteq> Plan then Inr d
      else case entitlement_days c of
          Inl e \<Rightarrow> Inl e
        | Inr n \<Rightarrow>
            (case entitlement_for_actor d (co_tenant c) (co_user c) of
               None \<Rightarrow> Inr (add_entitlement
                 \<lparr>en_tenant = co_tenant c, en_user = co_user c, en_plan_code = co_item_code c,
                  en_plan_name = co_item_name c, en_status = ''active'',
                  en_checkout_id = Some (co_id c), en_starts_at = Some when,
                  en_expires_at = Some (when + days n), en_last_payment_at = Some when,
                  en_updated_at = when\<rparr> d)
             | Some ent \<Rightarrow> Inr (save_entitlement
                 (ent\<lparr>en_plan_code := co_item_code c, en_plan_name := co_item_name c,
                      en_status := ''active'', en_checkout_id := Some (co_id c),
                      en_starts_at := (case en_starts_at ent of None \<Rightarrow> Some when | Some t \<Rightarrow> Some t),
                      en_expires_at := Some (when + days n), en_last_payment_at := Some when,
                      en_updated_at := when\<rparr>) d)))"

section \<open>Transaction record\<close>

definition record_transaction ::
    "env \<Rightarrow> checkout \<Rightarrow> string \<Rightarrow> string \<Rightarrow> string \<Rightarrow> instant \<Rightarrow> billing_db \<Rightarrow> billing_tx \<times> billing_db" where
  "record_transaction env c payment status charge_kind when d =
     (case scalar (\<lambda>t. tx_provider t = ''asaas'' \<and> tx_external_ref t = payment
             \<and> tx_status t = status \<and> tx_charge_kind t = charge_kind) (bd_transactions d) of
        Some t \<Rightarrow> (t, d)
      | None \<Rightarrow>
          (let t = \<lparr>tx_id = e_uid env 2, tx_tenant = co_tenant c, tx_user = co_user c,
                    tx_checkout_id = Some (co_id c), tx_provider = ''asaas'',
                    tx_external_ref = payment, tx_plan_code = Some (co_item_code c),
                    tx_charge_kind = charge_kind, tx_currency = ''USD'',
                    tx_amount_original = 100 * co_amount_brl c, tx_amount_usd = co_amount_usd c,
                    tx_normalized_mrr_usd = (if co_kind c = Plan then co_amount_usd c else 0),
                    tx_status = status, tx_notes = ''Provider event for checkout '' @ co_id c,
                    tx_created_by = ''billing_webhook'', tx_occurred_at = when,
                    tx_confirmed_at = Some when, tx_created_at = e_now env\<rparr>
           in (t, add_transaction t d)))"

section \<open>The wallet invariant\<close>

text \<open>What the ledger says a wallet has received and given back.\<close>

definition ledger_sum :: "billing_db \<Rightarrow> direction \<Rightarrow> wallet \<Rightarrow> int" where
  "ledger_sum d dir w =
     sum_list (map lg_amount (filter (\<lambda>l. lg_wallet_id l = wl_id w \<and> lg_direction l = dir) (bd_ledger d)))"

definition wallet_ok :: "billing_db \<Rightarrow> wallet \<Rightarrow> bool" where
  "wallet_ok d w \<longleftrightarrow> 0 \<le> wl_balance w \<and> 0 \<le> wl_quarantined w
     \<and> wl_credited w = ledger_sum d Credit w \<and> wl_debited w = ledger_sum d Debit w
     \<and> wl_balance w = wl_credited w - wl_debited w
     \<and> (wl_status w = WalletQuarantined \<longleftrightarrow> 0 < wl_quarantined w)"

text \<open>Entries name an existing wallet of their own user, keys and owners are unique.\<close>

definition wallets_ok :: "billing_db \<Rightarrow> bool" where
  "wallets_ok d \<longleftrightarrow> unique_key wl_id (bd_wallets d) \<and> unique_key wallet_owner (bd_wallets d)
     \<and> unique_key ledger_key (bd_ledger d)
     \<and> (\<forall>w \<in> set (bd_wallets d). wallet_ok d w)
     \<and> (\<forall>l \<in> set (bd_ledger d). 0 \<le> lg_amount l \<and> lg_direction l \<noteq> Adjustment
         \<and> (\<exists>w \<in> set (bd_wallets d). wl_id w = lg_wallet_id l \<and> wallet_owner w = (lg_tenant l, lg_user l)))"

definition wallet_id_fresh :: "env \<Rightarrow> billing_db \<Rightarrow> bool" where
  "wallet_id_fresh env d \<longleftrightarrow> fresh_key wl_id (e_uid env 3) (bd_wallets d)"

lemma wallet_for_actor_mem:
  "wallet_for_actor d t u = Some w \<Longrightarrow> w \<in> set (bd_wallets d) \<and> wallet_owner w = (t, u)"
  by (auto simp: wallet_for_actor_def wallet_owner_def dest: scalar_SomeD)

lemma ledger_exists_key:
  "ledger_exists d t k \<longleftrightarrow> \<not> fresh_key ledger_key (t, k) (bd_ledger d)"
  by (auto simp: ledger_exists_def fresh_key_def ledger_key_def scalar_None image_iff)

lemma get_or_create_wallet_ok:
  assumes inv: "wallets_ok d" and new: "wallet_id_fresh env d"
    and got: "get_or_create_wallet env t u d = (w, d1)"
  shows "wallets_ok d1 \<and> w \<in> set (bd_wallets d1) \<and> wallet_owner w = (t, u)
    \<and> bd_ledger d1 = bd_ledger d"
proof (cases "wallet_for_actor d t u")
  case (Some w')
  with got inv show ?thesis by (auto simp: get_or_create_wallet_def dest: wallet_for_actor_mem)
next
  case None
  let ?w = "new_wallet (e_uid env 3) t u"
  have d1: "w = ?w" "d1 = add_wallet ?w d"
    using got None by (auto simp: get_or_create_wallet_def Let_def)
  have owner: "wallet_owner ?w = (t, u)" by (simp add: new_wallet_def wallet_owner_def)
  have noid: "lg_wallet_id l \<noteq> e_uid env 3" if "l \<in> set (bd_ledger d)" for l
  proof -
    from inv that obtain x where "x \<in> set (bd_wallets d)" "wl_id x = lg_wallet_id l"
      by (auto simp: wallets_ok_def)
    with new show ?thesis by (metis fresh_key_def image_eqI list.set_map wallet_id_fresh_def)
  qed
  have sum0: "ledger_sum d dir ?w = 0" for dir
    unfolding ledger_sum_def using noid
    by (subst filter_False) (auto simp: new_wallet_def)
  have same: "ledger_sum d1 dir x = ledger_sum d dir x" for dir x
    by (simp add: d1 ledger_sum_def add_wallet_def)
  have ok: "wallet_ok d1 x \<longleftrightarrow> wallet_ok d x" for x
    by (simp add: wallet_ok_def same)
  have "wallet_ok d ?w"
    using sum0 by (simp add: wallet_ok_def) (simp add: new_wallet_def)
  moreover have "unique_key wallet_owner (bd_wallets d1)"
    using wallet_table.add_unique [of ?w d] inv None owner
    by (simp add: d1 wallets_ok_def wallet_for_actor_key)
  moreover have "unique_key wl_id (bd_wallets d1)"
    using inv new by (simp add: d1 add_wallet_def unique_key_snoc wallets_ok_def wallet_id_fresh_def
        new_wallet_def)
  ultimately show ?thesis
    using inv owner unfolding wallets_ok_def ok by (auto simp: d1 add_wallet_def)
qed

text \<open>Moving money: one wallet row and one ledger entry change together.\<close>

definition move_ok :: "wallet \<Rightarrow> wallet \<Rightarrow> ledger_entry \<Rightarrow> bool" where
  "move_ok w w1 l \<longleftrightarrow> wl_id w1 = wl_id w \<and> wallet_owner w1 = wallet_owner w
     \<and> lg_wallet_id l = wl_id w \<and> (lg_tenant l, lg_user l) = wallet_owner w
     \<and> 0 \<le> lg_amount l \<and> 0 \<le> wl_balance w1 \<and> 0 \<le> wl_quarantined w1
     \<and> (wl_status w1 = WalletQuarantined \<longleftrightarrow> 0 < wl_quarantined w1)
     \<and> (lg_direction l = Credit \<and> wl_balance w1 = wl_balance w + lg_amount l
          \<and> wl_credited w1 = wl_credited w + lg_amount l \<and> wl_debited w1 = wl_debited w
        \<or> lg_direction l = Debit \<and> wl_balance w1 = wl_balance w - lg_amount l
          \<and> wl_credited w1 = wl_credited w \<and> wl_debited w1 = wl_debited w + lg_amount l)"

lemma ledger_sum_move:
  "ledger_sum (add_ledger l (save_wallet w1 d)) dir x =
     ledger_sum d dir x + (if lg_wallet_id l = wl_id x \<and> lg_direction l = dir then lg_amount l else 0)"
  by (simp add: ledger_sum_def add_ledger_def save_wallet_def)

lemma move_wallets_ok:
  assumes inv: "wallets_ok d" and mem: "w \<in> set (bd_wallets d)" and move: "move_ok w w1 l"
    and new: "fresh_key ledger_key (ledger_key l) (bd_ledger d)"
  shows "wallets_ok (add_ledger l (save_wallet w1 d))"
proof -
  let ?d = "add_ledger l (save_wallet w1 d)"
  have ids: "wl_id w = wl_id w1" using move by (simp add: move_ok_def)
  have uniq: "unique_key wl_id (bd_wallets d)" using inv by (simp add: wallets_ok_def)
  then have same: "x = w" if "x \<in> set (bd_wallets d)" "wl_id x = wl_id w1" for x
    using that mem ids by (metis option.inject scalar_unique)
  have wallets: "bd_wallets ?d = put_row wl_id w1 (bd_wallets d)"
    by (simp add: add_ledger_def save_wallet_def)
  have in1: "w1 \<in> set (bd_wallets ?d)"
    unfolding wallets using mem ids by (rule put_row_in)
  have owners: "map wallet_owner (bd_wallets ?d) = map wallet_owner (bd_wallets d)"
    unfolding wallets by (rule map_put_row) (use same move in \<open>auto simp: move_ok_def\<close>)
  have ok: "wallet_ok ?d x" if "x \<in> set (bd_wallets ?d)" for x
  proof -
    from that have "x = w1 \<or> x \<in> set (bd_wallets d) \<and> wl_id x \<noteq> wl_id w1"
      unfolding wallets by (rule set_put_row)
    moreover have "wallet_ok d w" using inv mem by (simp add: wallets_ok_def)
    ultimately show ?thesis
      using inv move ids unfolding wallet_ok_def ledger_sum_move
      by (auto simp: wallets_ok_def move_ok_def wallet_ok_def ledger_sum_def)
  qed
  have links: "\<exists>x \<in> set (bd_wallets ?d). wl_id x = lg_wallet_id m \<and> wallet_owner x = (lg_tenant m, lg_user m)"
    if "m \<in> set (bd_ledger ?d)" for m
  proof (cases "m = l")
    case True
    with in1 move show ?thesis by (auto simp: move_ok_def)
  next
    case False
    with that have "m \<in> set (bd_ledger d)" by (auto simp: add_ledger_def save_wallet_def)
    with inv obtain x where x: "x \<in> set (bd_wallets d)" "wl_id x = lg_wallet_id m"
      "wallet_owner x = (lg_tenant m, lg_user m)" by (auto simp: wallets_ok_def)
    show ?thesis
    proof (cases "wl_id x = wl_id w1")
      case True
      with same x have "x = w" by blast
      with x in1 move show ?thesis by (auto simp: move_ok_def)
    next
      case False
      with x show ?thesis unfolding wallets by (metis put_row_other)
    qed
  qed
  have "unique_key ledger_key (bd_ledger ?d)"
    using inv new by (simp add: add_ledger_def save_wallet_def unique_key_snoc wallets_ok_def)
  moreover have "unique_key wl_id (bd_wallets ?d)"
    using uniq by (simp add: wallets unique_key_def)
  moreover have "unique_key wallet_owner (bd_wallets ?d)"
    using inv owners by (simp add: wallets_ok_def unique_key_def)
  moreover have "\<forall>m \<in> set (bd_ledger ?d). 0 \<le> lg_amount m \<and> lg_direction m \<noteq> Adjustment"
    using inv move by (auto simp: add_ledger_def save_wallet_def wallets_ok_def move_ok_def)
  ultimately show ?thesis using ok links by (simp add: wallets_ok_def)
qed

end
