(* ===== verification/Billing_Webhook.thy ===== *)
theory Billing_Webhook
  imports Billing_Wallet
begin

text \<open>
  Provider webhooks (billing/service.py, lines 501 to 594 and 814 to 1061): the event key, claiming
  an event, finding its checkout, the transition table and the handler \<open>process_webhook\<close>, with the
  route that wraps it. The final commit is checked against the constraints of the tables
  (\<open>constraints_ok\<close>): if one is violated the session is rolled back, as the code does.
\<close>

section \<open>Identity of an event\<close>

definition str_of_option :: "string option \<Rightarrow> string" where
  "str_of_option s = (case s of None \<Rightarrow> [] | Some t \<Rightarrow> t)"

definition event_key ::
    "env \<Rightarrow> string option \<Rightarrow> string \<Rightarrow> string option \<Rightarrow> string option \<Rightarrow> string \<Rightarrow> string" where
  "event_key env event_id event_type payment_id checkout_id raw =
     (if filled event_id then e_sha256 env (''asaas-event|'' @ the event_id)
      else if filled payment_id \<or> filled checkout_id
        then e_sha256 env (py_join ''|'' [event_type, str_of_option payment_id, str_of_option checkout_id])
      else e_sha256 env raw)"

definition strip_opt :: "json \<Rightarrow> string option" where
  "strip_opt v = (if truthy v then Some (py_strip (py_str v)) else None)"

definition extract_provider_ids :: "(string \<times> json) list \<Rightarrow> string option \<times> string option" where
  "extract_provider_ids payload =
     (let payment = dict_items (obj_get payload ''payment'');
          payment_id = py_or (obj_get payment ''id'') (obj_get payload ''paymentId'');
          link0 = py_or (obj_get payment ''paymentLink'') (obj_get payload ''paymentLink'');
          link = (if is_dict link0 then obj_get (dict_items link0) ''id'' else link0)
      in (strip_opt payment_id, strip_opt link))"

text \<open>\<open>None\<close> when the key is taken (the \<open>IntegrityError\<close> of the flush, rolled back).\<close>

definition claim_event ::
    "env \<Rightarrow> string option \<Rightarrow> string \<Rightarrow> string option \<Rightarrow> string option \<Rightarrow> string \<Rightarrow> billing_db
      \<Rightarrow> (webhook_event \<times> billing_db) option" where
  "claim_event env event_id event_type payment_id checkout_id raw d =
     (let e = \<lparr>ev_id = e_uid env 0, ev_tenant = None, ev_user = None, ev_checkout_id = None,
               ev_provider = ''asaas'',
               ev_key = event_key env event_id event_type payment_id checkout_id raw,
               ev_type = event_type, ev_payload_sha256 = e_sha256 env raw,
               ev_provider_payment_id = payment_id, ev_provider_checkout_id = checkout_id,
               ev_status = Received, ev_processed_at = None\<rparr>
      in if scalar (\<lambda>x. (ev_provider x, ev_key x) = (ev_provider e, ev_key e)) (bd_events d) \<noteq> None
         then None else Some (e, add_event e d))"

definition checkout_for_provider :: "billing_db \<Rightarrow> string option \<Rightarrow> string option \<Rightarrow> checkout option" where
  "checkout_for_provider d payment_id checkout_id =
     (let by_link = (if filled checkout_id
                     then scalar (\<lambda>c. co_provider c = ''asaas''
                            \<and> co_provider_checkout_id c = checkout_id) (bd_checkouts d)
                     else None)
      in if by_link = None \<and> filled payment_id
         then scalar (\<lambda>c. co_provider c = ''asaas'' \<and> co_provider_payment_id c = payment_id) (bd_checkouts d)
         else by_link)"

section \<open>The transition table\<close>

datatype decision = Ignore | IgnoreUnsupported | Confirm | Expire | Cancel | Reverse

definition confirm_events :: "string list" where
  "confirm_events = [''PAYMENT_CONFIRMED'', ''PAYMENT_RECEIVED'']"

definition reversal_events :: "(string \<times> checkout_status) list" where
  "reversal_events = [(''PAYMENT_REFUNDED'', Refunded), (''PAYMENT_CHARGEBACK_REQUESTED'', Chargeback),
     (''PAYMENT_CHARGEBACK_DISPUTE'', Chargeback)]"

definition terminal_financial :: "checkout_status \<Rightarrow> bool" where
  "terminal_financial s \<longleftrightarrow> s = Refunded \<or> s = Chargeback"

definition billing_transition :: "checkout_status \<Rightarrow> string \<Rightarrow> decision \<times> checkout_status" where
  "billing_transition current event_type =
     (if terminal_financial current then (Ignore, current)
      else if event_type \<in> set confirm_events then
        (if current = Paid \<or> current = Cancelled then (Ignore, current) else (Confirm, Paid))
      else if event_type = ''PAYMENT_OVERDUE'' then
        (if current = Paid \<or> current = Expired \<or> current = Cancelled then (Ignore, current)
         else (Expire, Expired))
      else if event_type = ''PAYMENT_DELETED'' then
        (if current = Paid \<or> current = Cancelled then (Ignore, current) else (Cancel, Cancelled))
      else case map_of reversal_events event_type of
          Some next \<Rightarrow> (Reverse, next)
        | None \<Rightarrow> (IgnoreUnsupported, current))"

section \<open>Constraints of the tables\<close>

definition checkout_links :: "billing_db \<Rightarrow> (string \<times> string) list" where
  "checkout_links d = map (\<lambda>c. (co_provider c, the (co_provider_checkout_id c)))
     (filter (\<lambda>c. co_provider_checkout_id c \<noteq> None) (bd_checkouts d))"

definition constraints_ok :: "billing_db \<Rightarrow> bool" where
  "constraints_ok d \<longleftrightarrow> unique_key actor_key (bd_checkouts d) \<and> distinct (checkout_links d)
     \<and> unique_key (\<lambda>e. (ev_provider e, ev_key e)) (bd_events d)
     \<and> unique_key entitlement_owner (bd_entitlements d) \<and> unique_key tx_key (bd_transactions d)
     \<and> unique_key wallet_owner (bd_wallets d) \<and> unique_key ledger_key (bd_ledger d)
     \<and> list_all (\<lambda>w. 0 \<le> wl_balance w \<and> 0 \<le> wl_quarantined w) (bd_wallets d)
     \<and> list_all (\<lambda>l. 0 \<le> lg_amount l) (bd_ledger d)"

section \<open>The handler\<close>

datatype webhook_answer =
    Deduplicated
  | IgnoredNoCheckout
  | IgnoredReason string
  | ProcessedEvent

definition ignore_webhook_event ::
    "env \<Rightarrow> webhook_event \<Rightarrow> checkout \<Rightarrow> string \<Rightarrow> string \<Rightarrow> billing_db session
      \<Rightarrow> (billing_error + webhook_answer) \<times> billing_db session" where
  "ignore_webhook_event env event c event_type reason s =
     (Inr (IgnoredReason reason),
      commit (on_work
        (audit (Some (co_tenant c)) None ''billing.webhook.ignored'' ''billing_webhook_event''
           (Some (ev_id event)) ''ignored''
           [(''event_type'', JStr event_type), (''reason'', JStr reason),
            (''checkout_state'', JStr (status_text (co_status c)))]
         \<circ> save_event (event\<lparr>ev_status := Ignored, ev_processed_at := Some (e_now env)\<rparr>)) s))"

text \<open>The effects of a decision that changes financial state, and the audited action.\<close>

definition apply_decision ::
    "env \<Rightarrow> decision \<Rightarrow> checkout \<Rightarrow> checkout_status \<Rightarrow> string \<Rightarrow> billing_db
      \<Rightarrow> billing_error + checkout \<times> string \<times> billing_db" where
  "apply_decision env dec c next payment d =
     (let now = e_now env in
      case dec of
        Confirm \<Rightarrow>
          (let c1 = c\<lparr>co_status := next, co_confirmed_at := Some now\<rparr> in
           case activate_entitlement c1 now (save_checkout c1 d) of
             Inl e \<Rightarrow> Inl e
           | Inr d1 \<Rightarrow>
               (case record_transaction env c1 payment ''confirmed''
                       (if co_kind c1 = Topup then ''wallet_topup'' else ''recurring'') now d1 of
                  (tx, d2) \<Rightarrow>
                    (case decimal4 (obj_get (co_metadata c1) ''included_credit_usd'') of
                       Inl e \<Rightarrow> Inl e
                     | Inr amount \<Rightarrow>
                         Inr (c1, ''billing.payment.confirmed'', credit_wallet env c1 payment amount d2))))
      | Expire \<Rightarrow>
          (let c1 = c\<lparr>co_status := next\<rparr> in
           Inr (c1, ''billing.payment.overdue'', revoke_entitlement c1 next now (save_checkout c1 d)))
      | Cancel \<Rightarrow>
          (let c1 = c\<lparr>co_status := next\<rparr> in
           Inr (c1, ''billing.payment.cancelled'', revoke_entitlement c1 next now (save_checkout c1 d)))
      | Reverse \<Rightarrow>
          (let c1 = c\<lparr>co_status := next, co_reversed_at := Some now\<rparr>;
               d1 = revoke_entitlement c1 next now (save_checkout c1 d)
           in case record_transaction env c1 payment (status_text next) (status_text next) now d1 of
                (tx, d2) \<Rightarrow>
                  Inr (c1, ''billing.payment.'' @ status_text next,
                       reverse_checkout_credit env c1 payment (status_text next) tx d2))
      | _ \<Rightarrow> Inl (DomainError ''BILLING_STATE_TRANSITION_INVALID'' 500))"

definition finish_webhook ::
    "env \<Rightarrow> webhook_event \<Rightarrow> checkout \<Rightarrow> string \<Rightarrow> string \<Rightarrow> billing_db session
      \<Rightarrow> (billing_error + webhook_answer) \<times> billing_db session" where
  "finish_webhook env event c event_type action s =
     (let s1 = on_work
            (audit (Some (co_tenant c)) None action ''billing_checkout'' (Some (co_id c)) ''success''
               [(''event_type'', JStr event_type), (''provider'', JStr ''asaas''),
                (''checkout_kind'', JStr (kind_text (co_kind c))), (''item_code'', JStr (co_item_code c)),
                (''previous_state_guarded'', JBool True)]
             \<circ> save_checkout (c\<lparr>co_updated_at := e_now env\<rparr>)
             \<circ> save_event (event\<lparr>ev_status := Processed, ev_processed_at := Some (e_now env)\<rparr>)) s
      in if constraints_ok (work s1) then (Inr ProcessedEvent, commit s1)
         else (Inr Deduplicated, rollback s1))"

definition or_option :: "string option \<Rightarrow> string option \<Rightarrow> string option" where
  "or_option a b = (if filled a then a else b)"

text \<open>The handler from the claimed event on.\<close>

definition handle_claimed ::
    "env \<Rightarrow> webhook_event \<Rightarrow> string \<Rightarrow> string option \<Rightarrow> string option \<Rightarrow> billing_db session
      \<Rightarrow> (billing_error + webhook_answer) \<times> billing_db session" where
  "handle_claimed env event event_type payment_id link_id s =
     (case checkout_for_provider (work s) payment_id link_id of
        None \<Rightarrow>
          (Inr IgnoredNoCheckout,
           commit (on_work
             (audit None None ''billing.webhook.ignored'' ''billing_webhook_event'' (Some (ev_id event))
                ''ignored'' [(''event_type'', JStr event_type), (''reason'', JStr ''checkout_not_found'')]
              \<circ> save_event (event\<lparr>ev_status := Ignored, ev_processed_at := Some (e_now env)\<rparr>)) s))
      | Some c0 \<Rightarrow>
          (let event1 = event\<lparr>ev_tenant := Some (co_tenant c0), ev_user := Some (co_user c0),
                              ev_checkout_id := Some (co_id c0)\<rparr>;
               c = c0\<lparr>co_provider_payment_id := or_option payment_id (co_provider_payment_id c0)\<rparr>;
               s1 = on_work (save_checkout c \<circ> save_event event1) s;
               ref = or_option payment_id
                       (or_option (co_provider_payment_id c) (co_provider_checkout_id c))
           in if \<not> filled ref
              then (Inl (DomainError ''BILLING_WEBHOOK_PAYMENT_REFERENCE_REQUIRED'' 400), s1)
              else case billing_transition (co_status c) event_type of (dec, next) \<Rightarrow>
                if dec = Ignore
                then ignore_webhook_event env event1 c event_type ''state_transition_guard'' s1
                else if dec = IgnoreUnsupported
                then ignore_webhook_event env event1 c event_type ''unsupported_event'' s1
                else case apply_decision env dec c next (the ref) (work s1) of
                    Inl e \<Rightarrow> (Inl e, s1)
                  | Inr (c1, action, d2) \<Rightarrow>
                      finish_webhook env event1 c1 event_type action (s1\<lparr>work := d2\<rparr>)))"

definition webhook_event_type :: "(string \<times> json) list \<Rightarrow> string" where
  "webhook_event_type payload = py_upper (py_strip (py_str
     (py_or (py_or (obj_get payload ''event'') (obj_get payload ''eventType'')) (JStr ''UNKNOWN''))))"

definition webhook_event_id :: "(string \<times> json) list \<Rightarrow> string option" where
  "webhook_event_id payload =
     (let t = py_strip (text_or (obj_get payload ''id'') '''') in if t = [] then None else Some t)"

definition decode_webhook :: "env \<Rightarrow> string \<Rightarrow> string \<Rightarrow> billing_error + (string \<times> json) list" where
  "decode_webhook env raw token =
     (let expected = py_strip (st_asaas_webhook_token (e_settings env)) in
      if expected = [] then Inl (DomainError ''BILLING_WEBHOOK_NOT_CONFIGURED'' 503)
      else if token = [] \<or> token \<noteq> expected
        then Inl (DomainError ''BILLING_WEBHOOK_TOKEN_INVALID'' 401)
      else case Option.bind (e_utf8 env raw) (\<lambda>t. e_loads env (if t = [] then ''{}'' else t)) of
          None \<Rightarrow> Inl (DomainError ''BILLING_WEBHOOK_INVALID_JSON'' 400)
        | Some payload \<Rightarrow>
            if is_dict payload then Inr (dict_items payload)
            else Inl (DomainError ''BILLING_WEBHOOK_INVALID_JSON'' 400))"

definition process_webhook ::
    "env \<Rightarrow> string \<Rightarrow> string \<Rightarrow> billing_db session
      \<Rightarrow> (billing_error + webhook_answer) \<times> billing_db session" where
  "process_webhook env raw token s =
     (case decode_webhook env raw token of
        Inl e \<Rightarrow> (Inl e, s)
      | Inr payload \<Rightarrow>
          (let event_type = webhook_event_type payload in
           case extract_provider_ids payload of (payment_id, link_id) \<Rightarrow>
           (case claim_event env (webhook_event_id payload) event_type payment_id link_id raw (work s) of
              None \<Rightarrow> (Inr Deduplicated, rollback s)
            | Some (event, d1) \<Rightarrow>
                handle_claimed env event event_type payment_id link_id (s\<lparr>work := d1\<rparr>))))"

text \<open>The route \<open>POST /webhooks/asaas\<close>.\<close>

definition webhook_route ::
    "env \<Rightarrow> string \<Rightarrow> string \<Rightarrow> billing_db \<Rightarrow> (http_error + webhook_answer) \<times> billing_db" where
  "webhook_route env raw token d =
     (case process_webhook env raw (py_strip token) (open_session d) of
        (Inr a, s) \<Rightarrow> (Inr a, close_session s)
      | (Inl e, s) \<Rightarrow> (Inl (raise_http e), close_session (rollback s)))"

end
