(* ===== verification/Billing_Invariants.thy ===== *)
theory Billing_Invariants
  imports Billing_Webhook
begin

text \<open>
  What every billing operation keeps: the wallet invariant (\<open>wallets_ok\<close>), the unique constraints of
  the other tables (\<open>tables_ok\<close>) and the claimed event keys. Runs of requests are in Billing_Runs and
  Billing_Ops.
\<close>

named_theorems frame_simps \<open>which tables a write leaves alone\<close>

section \<open>Frames\<close>

lemma wallets_ok_cong:
  "bd_wallets d1 = bd_wallets d \<Longrightarrow> bd_ledger d1 = bd_ledger d \<Longrightarrow> wallets_ok d1 = wallets_ok d"
  by (simp add: wallets_ok_def wallet_ok_def ledger_sum_def)

lemma audit_frame [frame_simps]:
  "bd_wallets (audit t a x y z u m d) = bd_wallets d" "bd_ledger (audit t a x y z u m d) = bd_ledger d"
  "bd_checkouts (audit t a x y z u m d) = bd_checkouts d" "bd_events (audit t a x y z u m d) = bd_events d"
  "bd_entitlements (audit t a x y z u m d) = bd_entitlements d"
  "bd_transactions (audit t a x y z u m d) = bd_transactions d"
  "bd_users (audit t a x y z u m d) = bd_users d"
  by (simp_all add: audit_def add_audit_def)

lemma save_checkout_frame [frame_simps]:
  "bd_wallets (save_checkout c d) = bd_wallets d" "bd_ledger (save_checkout c d) = bd_ledger d"
  "bd_events (save_checkout c d) = bd_events d" "bd_entitlements (save_checkout c d) = bd_entitlements d"
  "bd_transactions (save_checkout c d) = bd_transactions d" "bd_users (save_checkout c d) = bd_users d"
  by (simp_all add: save_checkout_def)

lemma add_checkout_frame [frame_simps]:
  "bd_wallets (add_checkout c d) = bd_wallets d" "bd_ledger (add_checkout c d) = bd_ledger d"
  "bd_events (add_checkout c d) = bd_events d" "bd_entitlements (add_checkout c d) = bd_entitlements d"
  "bd_transactions (add_checkout c d) = bd_transactions d"
  by (simp_all add: add_checkout_def)

lemma save_event_frame [frame_simps]:
  "bd_wallets (save_event e d) = bd_wallets d" "bd_ledger (save_event e d) = bd_ledger d"
  "bd_checkouts (save_event e d) = bd_checkouts d" "bd_entitlements (save_event e d) = bd_entitlements d"
  "bd_transactions (save_event e d) = bd_transactions d"
  by (simp_all add: save_event_def)

lemma add_event_frame [frame_simps]:
  "bd_wallets (add_event e d) = bd_wallets d" "bd_ledger (add_event e d) = bd_ledger d"
  "bd_checkouts (add_event e d) = bd_checkouts d" "bd_entitlements (add_event e d) = bd_entitlements d"
  "bd_transactions (add_event e d) = bd_transactions d"
  by (simp_all add: add_event_def)

lemma revoke_frame [frame_simps]:
  "bd_wallets (revoke_entitlement c s w d) = bd_wallets d" "bd_ledger (revoke_entitlement c s w d) = bd_ledger d"
  "bd_events (revoke_entitlement c s w d) = bd_events d" "bd_checkouts (revoke_entitlement c s w d) = bd_checkouts d"
  "bd_transactions (revoke_entitlement c s w d) = bd_transactions d"
  by (simp_all add: revoke_entitlement_def save_entitlement_def split: option.split)

lemma activate_frame:
  "activate_entitlement c w d = Inr d1 \<Longrightarrow>
     bd_wallets d1 = bd_wallets d \<and> bd_ledger d1 = bd_ledger d \<and> bd_events d1 = bd_events d
     \<and> bd_checkouts d1 = bd_checkouts d \<and> bd_transactions d1 = bd_transactions d"
  by (auto simp: activate_entitlement_def save_entitlement_def add_entitlement_def
      split: if_splits sum.splits option.splits)

lemma record_frame:
  "record_transaction env c p s k w d = (t, d1) \<Longrightarrow>
     bd_wallets d1 = bd_wallets d \<and> bd_ledger d1 = bd_ledger d \<and> bd_events d1 = bd_events d
     \<and> bd_checkouts d1 = bd_checkouts d \<and> bd_entitlements d1 = bd_entitlements d"
  by (auto simp: record_transaction_def add_transaction_def Let_def split: option.splits)

lemma credit_frame [frame_simps]:
  "bd_events (credit_wallet env c p a d) = bd_events d"
  "bd_checkouts (credit_wallet env c p a d) = bd_checkouts d"
  "bd_entitlements (credit_wallet env c p a d) = bd_entitlements d"
  "bd_transactions (credit_wallet env c p a d) = bd_transactions d"
  by (simp_all add: credit_wallet_def get_or_create_wallet_def add_wallet_def save_wallet_def
      add_ledger_def Let_def split: option.split)

lemma reverse_frame [frame_simps]:
  "bd_events (reverse_checkout_credit env c p s t d) = bd_events d"
  "bd_checkouts (reverse_checkout_credit env c p s t d) = bd_checkouts d"
  "bd_entitlements (reverse_checkout_credit env c p s t d) = bd_entitlements d"
  "bd_transactions (reverse_checkout_credit env c p s t d) = bd_transactions d"
  by (simp_all add: reverse_checkout_credit_def get_or_create_wallet_def add_wallet_def save_wallet_def
      add_ledger_def Let_def split: option.split)

section \<open>Wallets\<close>

lemma credit_wallet_ok:
  assumes inv: "wallets_ok d" and new: "wallet_id_fresh env d"
  shows "wallets_ok (credit_wallet env c payment amount d)"
proof -
  obtain w d1 where got: "get_or_create_wallet env (co_tenant c) (co_user c) d = (w, d1)"
    by fastforce
  from get_or_create_wallet_ok [OF inv new got]
  have d1: "wallets_ok d1" "w \<in> set (bd_wallets d1)" "wallet_owner w = (co_tenant c, co_user c)" by auto
  then have w: "wallet_ok d1 w" by (simp add: wallets_ok_def)
  show ?thesis
  proof (cases "amount \<le> 0 \<or> ledger_exists d1 (co_tenant c) (credit_key payment)")
    case True
    with d1 got show ?thesis by (simp add: credit_wallet_def)
  next
    case False
    show ?thesis
      unfolding credit_wallet_def got prod.case if_not_P [OF False] Let_def
      by (rule move_wallets_ok [OF d1(1,2)])
        (use False d1 w in \<open>auto simp: move_ok_def wallet_owner_def wallet_ok_def ledger_exists_key
          ledger_key_def\<close>)
  qed
qed

lemma original_creditD:
  assumes "original_credit d c = Some l"
  shows "l \<in> set (bd_ledger d)" "lg_direction l = Credit" "lg_tenant l = co_tenant c"
    "lg_user l = co_user c" "lg_checkout_id l = Some (co_id c)"
  using scalar_SomeD [OF assms [unfolded original_credit_def]] by auto

lemma reverse_credit_ok:
  assumes inv: "wallets_ok d" and new: "wallet_id_fresh env d"
  shows "wallets_ok (reverse_checkout_credit env c payment source tx d)"
proof (cases "ledger_exists d (co_tenant c) (reversal_key payment source) \<or> original_credit d c = None")
  case True
  with inv show ?thesis by (auto simp: reverse_checkout_credit_def Let_def)
next
  case False
  then obtain l where l: "original_credit d c = Some l" by blast
  obtain w d1 where got: "get_or_create_wallet env (co_tenant c) (co_user c) d = (w, d1)"
    by fastforce
  from get_or_create_wallet_ok [OF inv new got]
  have d1: "wallets_ok d1" "w \<in> set (bd_wallets d1)" "wallet_owner w = (co_tenant c, co_user c)"
    and led: "bd_ledger d1 = bd_ledger d" by auto
  then have w: "wallet_ok d1 w" by (simp add: wallets_ok_def)
  have pos: "0 \<le> lg_amount l" using inv original_creditD(1) [OF l] by (simp add: wallets_ok_def)
  have "fresh_key ledger_key (co_tenant c, reversal_key payment source) (bd_ledger d1)"
    using False led by (simp add: ledger_exists_key)
  moreover have "\<not> ledger_exists d (co_tenant c) (reversal_key payment source)" using False by blast
  ultimately show ?thesis
    unfolding reverse_checkout_credit_def got l Let_def prod.case option.case
    by (simp only: if_False, intro move_wallets_ok [OF d1(1,2)])
      (use d1 w pos in \<open>auto simp: move_ok_def wallet_owner_def wallet_ok_def ledger_key_def\<close>)
qed

lemma apply_decision_wallets:
  assumes "apply_decision env dec c next payment d = Inr (c1, action, d1)"
    and "wallets_ok d" and "wallet_id_fresh env d"
  shows "wallets_ok d1"
proof -
  have keep: "wallets_ok d2 \<and> wallet_id_fresh env d2"
    if "bd_wallets d2 = bd_wallets d \<and> bd_ledger d2 = bd_ledger d" for d2
    using that assms(2,3) wallets_ok_cong [of d2 d] by (simp add: wallet_id_fresh_def)
  show ?thesis
  proof (cases dec)
    case Confirm
    then obtain d2 tx d3 amount where
      d2: "activate_entitlement c1 (e_now env) (save_checkout c1 d) = Inr d2" and
      d3: "record_transaction env c1 payment ''confirmed''
              (if co_kind c1 = Topup then ''wallet_topup'' else ''recurring'') (e_now env) d2 = (tx, d3)" and
      d1: "d1 = credit_wallet env c1 payment amount d3"
      using assms(1) by (auto simp: apply_decision_def Let_def split: sum.splits prod.splits)
    have "bd_wallets d3 = bd_wallets d \<and> bd_ledger d3 = bd_ledger d"
      using activate_frame [OF d2] record_frame [OF d3] by (simp add: frame_simps)
    from keep [OF this] show ?thesis unfolding d1 by (blast intro: credit_wallet_ok)
  next
    case Reverse
    then obtain tx d3 where
      d3: "record_transaction env c1 payment (status_text next) (status_text next) (e_now env)
             (revoke_entitlement c1 next (e_now env) (save_checkout c1 d)) = (tx, d3)" and
      d1: "d1 = reverse_checkout_credit env c1 payment (status_text next) tx d3"
      using assms(1) by (auto simp: apply_decision_def Let_def split: prod.splits)
    have "bd_wallets d3 = bd_wallets d \<and> bd_ledger d3 = bd_ledger d"
      using record_frame [OF d3] by (simp add: frame_simps)
    from keep [OF this] show ?thesis unfolding d1 by (blast intro: reverse_credit_ok)
  qed (use assms(1) keep in \<open>auto simp: apply_decision_def Let_def frame_simps\<close>)
qed

section \<open>The other tables\<close>

definition tables_ok :: "billing_db \<Rightarrow> bool" where
  "tables_ok d \<longleftrightarrow> unique_key co_id (bd_checkouts d) \<and> unique_key actor_key (bd_checkouts d)
     \<and> distinct (checkout_links d) \<and> unique_key (\<lambda>e. (ev_provider e, ev_key e)) (bd_events d)
     \<and> list_all (\<lambda>e. ev_provider e = ''asaas'') (bd_events d)
     \<and> unique_key entitlement_owner (bd_entitlements d) \<and> unique_key tx_key (bd_transactions d)"

lemma constraints_from_inv: "wallets_ok d \<Longrightarrow> tables_ok d \<Longrightarrow> constraints_ok d"
  by (auto simp: constraints_ok_def wallets_ok_def tables_ok_def wallet_ok_def list_all_iff)

text \<open>A checkout row written back with its identity, owner and link is the same row to the keys.\<close>

definition same_identity :: "checkout \<Rightarrow> checkout \<Rightarrow> bool" where
  "same_identity c c1 \<longleftrightarrow> co_id c1 = co_id c \<and> actor_key c1 = actor_key c
     \<and> co_provider c1 = co_provider c \<and> co_provider_checkout_id c1 = co_provider_checkout_id c"

lemma save_checkout_map:
  assumes "unique_key co_id (bd_checkouts d)" and "c \<in> set (bd_checkouts d)" and "co_id c1 = co_id c"
    and "f c1 = f c"
  shows "map f (bd_checkouts (save_checkout c1 d)) = map f (bd_checkouts d)"
proof -
  have "x = c" if "x \<in> set (bd_checkouts d)" "co_id x = co_id c" for x
    using that assms(1,2) by (metis option.inject scalar_unique)
  with assms(3,4) have "f x = f c1" if "x \<in> set (bd_checkouts d)" "co_id x = co_id c1" for x
    using that by metis
  then show ?thesis unfolding save_checkout_def by (simp add: map_put_row)
qed

lemma checkout_links_map:
  "checkout_links d = map (\<lambda>(p, l). (p, the l))
     (filter (\<lambda>(p, l). l \<noteq> None) (map (\<lambda>c. (co_provider c, co_provider_checkout_id c)) (bd_checkouts d)))"
  by (simp add: checkout_links_def filter_map comp_def)

lemma save_checkout_tables:
  assumes "tables_ok d" and "c \<in> set (bd_checkouts d)" and "same_identity c c1"
  shows "tables_ok (save_checkout c1 d)"
proof -
  have u: "unique_key co_id (bd_checkouts d)" using assms(1) by (simp add: tables_ok_def)
  note m = save_checkout_map [OF u assms(2)]
  have "map co_id (bd_checkouts (save_checkout c1 d)) = map co_id (bd_checkouts d)"
    "map actor_key (bd_checkouts (save_checkout c1 d)) = map actor_key (bd_checkouts d)"
    "map (\<lambda>c. (co_provider c, co_provider_checkout_id c)) (bd_checkouts (save_checkout c1 d))
       = map (\<lambda>c. (co_provider c, co_provider_checkout_id c)) (bd_checkouts d)"
    using assms(3) by (auto simp: same_identity_def intro!: m)
  with assms(1) show ?thesis
    by (simp add: tables_ok_def unique_key_def checkout_links_map frame_simps)
qed

lemma save_checkout_mem:
  "c \<in> set (bd_checkouts d) \<Longrightarrow> co_id c1 = co_id c \<Longrightarrow> c1 \<in> set (bd_checkouts (save_checkout c1 d))"
  by (auto simp: save_checkout_def intro: put_row_in)

lemma tables_frame:
  assumes "bd_checkouts d1 = bd_checkouts d" and "bd_events d1 = bd_events d"
    and "bd_entitlements d1 = bd_entitlements d" and "bd_transactions d1 = bd_transactions d"
  shows "tables_ok d1 = tables_ok d"
  using assms by (simp add: tables_ok_def checkout_links_def)

lemma save_event_tables:
  assumes "tables_ok d" and "ev_provider e = ''asaas''"
  shows "tables_ok (save_event e d)"
proof -
  have "map (\<lambda>e. (ev_provider e, ev_key e)) (put_row ev_key e (bd_events d))
    = map (\<lambda>e. (ev_provider e, ev_key e)) (bd_events d)"
    using assms by (intro map_put_row) (auto simp: tables_ok_def list_all_iff)
  moreover have "list_all (\<lambda>e. ev_provider e = ''asaas'') (put_row ev_key e (bd_events d))"
    using assms by (auto simp: list_all_iff tables_ok_def dest: set_put_row)
  ultimately show ?thesis
    using assms by (simp add: tables_ok_def unique_key_def save_event_def checkout_links_def)
qed

lemma add_event_tables:
  assumes "tables_ok d" and "claim_event env i t p l raw d = Some (e, d1)"
  shows "tables_ok d1" and "ev_provider e = ''asaas''" and "d1 = add_event e d"
proof -
  have e: "d1 = add_event e d" "ev_provider e = ''asaas''"
    "scalar (\<lambda>x. (ev_provider x, ev_key x) = (ev_provider e, ev_key e)) (bd_events d) = None"
    using assms(2) by (auto simp: claim_event_def Let_def split: if_splits)
  then show "d1 = add_event e d" and "ev_provider e = ''asaas''" by simp_all
  from e assms(1) event_table.add_unique [of e d]
  show "tables_ok d1" by (simp add: tables_ok_def checkout_links_def add_event_def)
qed

lemma owner_save:
  "unique_key entitlement_owner (put_row entitlement_owner e es) = unique_key entitlement_owner es"
  by (simp add: unique_key_def)

lemma revoke_tables: "tables_ok (revoke_entitlement c s w d) = tables_ok d"
proof -
  have "(\<lambda>x. (en_tenant x, en_user x)) = entitlement_owner" by (auto simp: entitlement_owner_def)
  then show ?thesis
    by (auto simp: tables_ok_def revoke_entitlement_def save_entitlement_def checkout_links_def owner_save
        split: option.split)
qed

lemma activate_tables:
  assumes "activate_entitlement c w d = Inr d1" and "tables_ok d"
  shows "tables_ok d1"
proof -
  have own: "(\<lambda>x. (en_tenant x, en_user x)) = entitlement_owner" by (auto simp: entitlement_owner_def)
  have "unique_key entitlement_owner (bd_entitlements d1)"
    using assms entitlement_table.add_unique
    by (auto simp: activate_entitlement_def save_entitlement_def own owner_save tables_ok_def
        entitlement_for_actor_key entitlement_owner_def split: if_splits sum.splits option.splits)
  with assms activate_frame [OF assms(1)] show ?thesis
    by (simp add: tables_ok_def checkout_links_def)
qed

lemma record_tables:
  assumes "record_transaction env c p s k w d = (t, d1)" and "tables_ok d"
  shows "tables_ok d1"
proof (cases "scalar (\<lambda>x. tx_key x = (''asaas'', p, s, k)) (bd_transactions d)")
  case None
  with assms(1) obtain x where "d1 = add_transaction x d" "tx_key x = (''asaas'', p, s, k)"
    by (auto simp: record_transaction_def Let_def tx_key_def)
  moreover from this None have "unique_key tx_key (bd_transactions d1)"
    using assms(2) tx_table.add_unique by (simp add: tables_ok_def)
  ultimately show ?thesis
    using assms(2) by (simp add: tables_ok_def add_transaction_def checkout_links_def)
next
  case (Some x)
  with assms show ?thesis by (simp add: record_transaction_def tx_key_def)
qed

lemma apply_decision_tables:
  assumes app: "apply_decision env dec c next payment d = Inr (c1, action, d1)"
    and inv: "tables_ok d" and mem: "c \<in> set (bd_checkouts d)"
  shows "tables_ok d1 \<and> c1 \<in> set (bd_checkouts d1) \<and> same_identity c c1
    \<and> bd_events d1 = bd_events d \<and> co_status c1 = next
    \<and> bd_checkouts d1 = bd_checkouts (save_checkout c1 d)"
proof -
  have c1: "same_identity c c1" "co_status c1 = next"
    using app by (auto simp: apply_decision_def Let_def same_identity_def actor_key_def
        split: decision.splits sum.splits prod.splits)
  then have sv: "tables_ok (save_checkout c1 d)" "c1 \<in> set (bd_checkouts (save_checkout c1 d))"
    using inv mem save_checkout_tables save_checkout_mem by (auto simp: same_identity_def)
  have "tables_ok d1 \<and> bd_checkouts d1 = bd_checkouts (save_checkout c1 d) \<and> bd_events d1 = bd_events d"
  proof (cases dec)
    case Confirm
    then obtain d2 tx d3 amount where
      d2: "activate_entitlement c1 (e_now env) (save_checkout c1 d) = Inr d2" and
      d3: "record_transaction env c1 payment ''confirmed''
              (if co_kind c1 = Topup then ''wallet_topup'' else ''recurring'') (e_now env) d2 = (tx, d3)" and
      d1: "d1 = credit_wallet env c1 payment amount d3"
      using app by (auto simp: apply_decision_def Let_def split: sum.splits prod.splits)
    have "tables_ok d3" using sv d2 d3 by (blast intro: activate_tables record_tables)
    then show ?thesis
      using activate_frame [OF d2] record_frame [OF d3] tables_frame [of d1 d3]
      by (simp add: d1 frame_simps)
  next
    case Reverse
    then obtain tx d3 where
      d3: "record_transaction env c1 payment (status_text next) (status_text next) (e_now env)
             (revoke_entitlement c1 next (e_now env) (save_checkout c1 d)) = (tx, d3)" and
      d1: "d1 = reverse_checkout_credit env c1 payment (status_text next) tx d3"
      using app by (auto simp: apply_decision_def Let_def split: prod.splits)
    have "tables_ok d3" using sv d3 by (simp add: record_tables revoke_tables)
    then show ?thesis
      using record_frame [OF d3] tables_frame [of d1 d3] by (simp add: d1 frame_simps)
  qed (use app sv in \<open>auto simp: apply_decision_def Let_def frame_simps revoke_tables\<close>)
  with c1 sv show ?thesis by simp
qed

end
