(* ===== verification/Billing_Runs.thy ===== *)
theory Billing_Runs
  imports Billing_Invariants
begin

text \<open>
  Serial runs of the billing service. \<open>billing_inv\<close> joins the invariants; \<open>evolves\<close> relates the
  checkouts of an earlier and a later database: none disappears, what was sold does not change, and
  the status only moves up in the order Pending, Failed, Expired, Paid or Cancelled, Refunded or
  Chargeback. Both are proved for the two routes that write and lifted to runs by the interfaces.
\<close>

section \<open>The order of checkout states\<close>

fun status_rank :: "checkout_status \<Rightarrow> nat" where
  "status_rank Pending = 0"
| "status_rank Failed = 1"
| "status_rank Expired = 2"
| "status_rank Paid = 3"
| "status_rank Cancelled = 3"
| "status_rank Refunded = 4"
| "status_rank Chargeback = 4"

instantiation checkout_status :: order
begin

definition less_eq_checkout_status :: "checkout_status \<Rightarrow> checkout_status \<Rightarrow> bool" where
  "less_eq_checkout_status a b \<longleftrightarrow> a = b \<or> status_rank a < status_rank b"

definition less_checkout_status :: "checkout_status \<Rightarrow> checkout_status \<Rightarrow> bool" where
  "less_checkout_status a b \<longleftrightarrow> status_rank a < status_rank b"

instance
  by intro_classes (auto simp: less_eq_checkout_status_def less_checkout_status_def)

end

lemma status_top: "terminal_financial a \<Longrightarrow> a \<le> b \<Longrightarrow> b = a"
  by (cases a; cases b) (auto simp: less_eq_checkout_status_def terminal_financial_def)

lemma transition_up:
  "billing_transition cur ev = (dec, next) \<Longrightarrow> dec \<noteq> Ignore \<Longrightarrow> dec \<noteq> IgnoreUnsupported \<Longrightarrow> cur < next"
  by (cases cur) (auto simp: billing_transition_def terminal_financial_def less_checkout_status_def
      reversal_events_def split: if_splits)

lemma transition_closed:
  "fst (billing_transition cur ev) \<in> {Ignore, IgnoreUnsupported} \<longleftrightarrow>
     snd (billing_transition cur ev) = cur"
  by (cases cur) (auto simp: billing_transition_def terminal_financial_def reversal_events_def)

definition transition_state :: "checkout_status \<Rightarrow> string \<Rightarrow> checkout_status" where
  "transition_state s ev = snd (billing_transition s ev)"

interpretation checkout_machine: guarded_machine transition_state terminal_financial
  by unfold_locales (simp add: transition_state_def billing_transition_def)

section \<open>Evolution of the checkouts\<close>

definition sold :: "checkout \<Rightarrow> string \<times> (string \<times> string \<times> string) \<times> checkout_kind \<times> string \<times> int \<times> int" where
  "sold c = (co_id c, actor_key c, co_kind c, co_item_code c, co_amount_brl c, co_amount_usd c)"

definition evolves :: "billing_db \<Rightarrow> billing_db \<Rightarrow> bool" where
  "evolves d e \<longleftrightarrow> (\<forall>c \<in> set (bd_checkouts d). \<exists>c1 \<in> set (bd_checkouts e).
     sold c1 = sold c \<and> co_status c \<le> co_status c1)"

lemma evolves_refl [simp]: "evolves d d"
  by (auto simp: evolves_def)

lemma evolves_trans: "evolves d e \<Longrightarrow> evolves e f \<Longrightarrow> evolves d f"
  unfolding evolves_def by (metis order_trans)

lemma evolves_same: "bd_checkouts e = bd_checkouts d \<Longrightarrow> evolves d e"
  by (auto simp: evolves_def)

lemma evolves_add: "evolves d (add_checkout c d)"
  by (auto simp: evolves_def add_checkout_def)

lemma evolves_save:
  assumes "unique_key co_id (bd_checkouts d)" and "c \<in> set (bd_checkouts d)"
    and "sold c1 = sold c" and "co_status c \<le> co_status c1"
  shows "evolves d (save_checkout c1 d)"
  unfolding evolves_def
proof
  fix x assume x: "x \<in> set (bd_checkouts d)"
  show "\<exists>y \<in> set (bd_checkouts (save_checkout c1 d)). sold y = sold x \<and> co_status x \<le> co_status y"
  proof (cases "co_id x = co_id c1")
    case True
    with assms x have "x = c" by (metis option.inject prod.inject scalar_unique sold_def)
    with assms save_checkout_mem [of c d c1] True show ?thesis by auto
  next
    case False
    with x have "x \<in> set (bd_checkouts (save_checkout c1 d))"
      by (simp add: save_checkout_def put_row_other)
    then show ?thesis by blast
  qed
qed

section \<open>One operation\<close>

definition billing_inv :: "billing_db \<Rightarrow> bool" where
  "billing_inv d \<longleftrightarrow> wallets_ok d \<and> tables_ok d"

text \<open>What a stretch of a request may do to its session.\<close>

definition session_moves :: "billing_db session \<Rightarrow> billing_db session \<Rightarrow> bool" where
  "session_moves s t \<longleftrightarrow> billing_inv (work t) \<and> evolves (work s) (work t)
     \<and> (durable t = durable s \<or> durable t = work t)"

lemma inv_frame:
  assumes "bd_wallets d1 = bd_wallets d" "bd_ledger d1 = bd_ledger d" "bd_checkouts d1 = bd_checkouts d"
    "bd_events d1 = bd_events d" "bd_entitlements d1 = bd_entitlements d"
    "bd_transactions d1 = bd_transactions d"
  shows "billing_inv d1 = billing_inv d"
  using assms wallets_ok_cong [of d1 d] tables_frame [of d1 d] by (simp add: billing_inv_def)

lemma inv_audit [simp]: "billing_inv (audit t a x y z u m d) = billing_inv d"
  by (rule inv_frame) (simp_all add: frame_simps)

lemma inv_save_event: "billing_inv d \<Longrightarrow> ev_provider e = ''asaas'' \<Longrightarrow> billing_inv (save_event e d)"
  using wallets_ok_cong [of "save_event e d" d]
  by (simp add: billing_inv_def save_event_tables frame_simps)

lemma inv_save_checkout:
  "billing_inv d \<Longrightarrow> c \<in> set (bd_checkouts d) \<Longrightarrow> same_identity c c1 \<Longrightarrow> billing_inv (save_checkout c1 d)"
  using wallets_ok_cong [of "save_checkout c1 d" d]
  by (auto simp: billing_inv_def frame_simps intro: save_checkout_tables)

lemma inv_unique_id: "billing_inv d \<Longrightarrow> unique_key co_id (bd_checkouts d)"
  by (simp add: billing_inv_def tables_ok_def)

lemma checkout_for_provider_mem:
  "checkout_for_provider d p l = Some c \<Longrightarrow> c \<in> set (bd_checkouts d)"
  by (auto simp: checkout_for_provider_def Let_def split: if_splits dest: scalar_SomeD)

lemma finish_webhook_moves:
  assumes inv: "billing_inv (work s)" and c: "c \<in> set (bd_checkouts (work s))"
    and e: "ev_provider event = ''asaas''"
    and fin: "finish_webhook env event c ty action s = (r, t)"
  shows "session_moves s t \<and> r = Inr ProcessedEvent"
proof -
  let ?ev = "event\<lparr>ev_status := Processed, ev_processed_at := Some (e_now env)\<rparr>"
  let ?c = "c\<lparr>co_updated_at := e_now env\<rparr>"
  let ?db = "save_event ?ev (work s)"
  have i1: "billing_inv ?db" using inv e by (simp add: inv_save_event)
  have c1: "c \<in> set (bd_checkouts ?db)" using c by (simp add: frame_simps)
  have i2: "billing_inv (save_checkout ?c ?db)"
    by (rule inv_save_checkout [OF i1 c1]) (simp add: same_identity_def actor_key_def)
  have ev: "evolves (work s) (save_checkout ?c ?db)"
    by (rule evolves_trans [OF evolves_same evolves_save [OF inv_unique_id [OF i1] c1]])
      (simp_all add: frame_simps sold_def actor_key_def)
  have ok: "constraints_ok (audit t0 a x y z u m (save_checkout ?c ?db))" for t0 a x y z u m
    using i2 inv_audit constraints_from_inv unfolding billing_inv_def by metis
  have "evolves (work s) (audit t0 a x y z u m (save_checkout ?c ?db))" for t0 a x y z u m
    by (rule evolves_trans [OF ev evolves_same]) (simp add: frame_simps)
  with ok i2 fin show ?thesis
    by (auto simp: finish_webhook_def Let_def session_moves_def session_simps)
qed

lemma handle_claimed_moves:
  assumes inv: "billing_inv (work s)" and new: "wallet_id_fresh env (work s)"
    and e: "ev_provider event = ''asaas''"
    and h: "handle_claimed env event ty pid lid s = (r, t)"
  shows "session_moves s t \<and> r \<noteq> Inr Deduplicated"
proof (cases "checkout_for_provider (work s) pid lid")
  case None
  have "billing_inv (save_event (event\<lparr>ev_status := Ignored, ev_processed_at := x\<rparr>) (work s))" for x
    using inv e by (simp add: inv_save_event)
  with None h show ?thesis
    by (auto simp: handle_claimed_def session_moves_def session_simps frame_simps intro!: evolves_same)
next
  case (Some c0)
  let ?ev = "event\<lparr>ev_tenant := Some (co_tenant c0), ev_user := Some (co_user c0), ev_checkout_id := Some (co_id c0)\<rparr>"
  let ?c = "c0\<lparr>co_provider_payment_id := or_option pid (co_provider_payment_id c0)\<rparr>"
  let ?da = "save_event ?ev (work s)"
  let ?d = "save_checkout ?c ?da"
  let ?s = "on_work (save_checkout ?c \<circ> save_event ?ev) s"
  have i0: "billing_inv ?da" using inv e by (simp add: inv_save_event)
  have c0: "c0 \<in> set (bd_checkouts ?da)"
    using checkout_for_provider_mem [OF Some] by (simp add: frame_simps)
  have same: "same_identity c0 ?c" by (simp add: same_identity_def actor_key_def)
  have i: "billing_inv ?d" by (rule inv_save_checkout [OF i0 c0 same])
  have c: "?c \<in> set (bd_checkouts ?d)" by (rule save_checkout_mem [OF c0]) simp
  have ev: "evolves (work s) ?d"
    by (rule evolves_trans [OF evolves_same evolves_save [OF inv_unique_id [OF i0] c0]])
      (simp_all add: frame_simps sold_def actor_key_def)
  have s: "work ?s = ?d" "durable ?s = durable s" by (simp_all add: session_simps)
  then have mv: "session_moves s ?s" using i ev by (simp add: session_moves_def)
  have ign: "session_moves s t \<and> r \<noteq> Inr Deduplicated" if "ignore_webhook_event env ?ev ?c ty why ?s = (r, t)" for why
  proof -
    have "billing_inv (save_event (?ev\<lparr>ev_status := Ignored, ev_processed_at := x\<rparr>) ?d)" for x
      using i e by (simp add: inv_save_event)
    moreover have "evolves (work s) (audit t0 a x y z u m (save_event f ?d))" for t0 a x y z u m f
      by (rule evolves_trans [OF ev evolves_same]) (simp add: frame_simps)
    ultimately show ?thesis using that s
      by (auto simp: ignore_webhook_event_def session_moves_def session_simps)
  qed
  obtain dec "next" where tr: "billing_transition (co_status ?c) ty = (dec, next)" by fastforce
  let ?ref = "or_option pid (or_option (co_provider_payment_id ?c) (co_provider_checkout_id ?c))"
  consider (noref) "\<not> filled ?ref" | (ignored) "filled ?ref" "dec = Ignore \<or> dec = IgnoreUnsupported"
    | (act) "filled ?ref" "dec \<noteq> Ignore" "dec \<noteq> IgnoreUnsupported" by blast
  then show ?thesis
  proof cases
    case noref
    with h Some mv show ?thesis by (auto simp: handle_claimed_def Let_def)
  next
    case ignored
    with h Some tr have "\<exists>why. ignore_webhook_event env ?ev ?c ty why ?s = (r, t)"
      by (auto simp: handle_claimed_def Let_def)
    then show ?thesis using ign by blast
  next
    case act
    show ?thesis
    proof (cases "apply_decision env dec ?c next (the ?ref) ?d")
      case (Inl x)
      with h Some tr act mv s show ?thesis by (auto simp: handle_claimed_def Let_def)
    next
      case (Inr x)
      obtain c1 action d2 where x: "x = (c1, action, d2)" by (cases x) auto
      note app = Inr [unfolded x]
      have tabs: "tables_ok ?d" "wallets_ok ?d" using i by (simp_all add: billing_inv_def)
      from apply_decision_tables [OF app tabs(1) c]
      have d2: "tables_ok d2" "c1 \<in> set (bd_checkouts d2)" "same_identity ?c c1" "co_status c1 = next"
        "bd_checkouts d2 = bd_checkouts (save_checkout c1 ?d)" by auto
      have wf: "wallet_id_fresh env ?d" using new by (simp add: wallet_id_fresh_def frame_simps)
      have i2: "billing_inv d2"
        using apply_decision_wallets [OF app tabs(2) wf] d2 by (simp add: billing_inv_def)
      have "sold c1 = sold ?c"
        using d2(3) app by (auto simp: apply_decision_def Let_def sold_def same_identity_def
            split: decision.splits sum.splits prod.splits)
      then have "evolves ?d (save_checkout c1 ?d)"
        using transition_up [OF tr act(2,3)] d2(4)
        by (intro evolves_save [OF inv_unique_id [OF i] c]) auto
      then have ev2: "evolves (work s) d2"
        using ev d2(5) by (meson evolves_same evolves_trans)
      have "handle_claimed env event ty pid lid s = finish_webhook env ?ev c1 ty action (?s\<lparr>work := d2\<rparr>)"
        using Some tr act app s by (simp add: handle_claimed_def Let_def)
      with h have "finish_webhook env ?ev c1 ty action (?s\<lparr>work := d2\<rparr>) = (r, t)" by simp
      from finish_webhook_moves [OF _ _ _ this]
      have "session_moves (?s\<lparr>work := d2\<rparr>) t \<and> r = Inr ProcessedEvent" using i2 d2 e by simp
      with ev2 s show ?thesis by (auto simp: session_moves_def intro: evolves_trans)
    qed
  qed
qed

lemma webhook_route_ok:
  assumes inv: "billing_inv d" and new: "wallet_id_fresh env d"
    and w: "webhook_route env raw token d = (r, d1)"
  shows "billing_inv d1 \<and> evolves d d1"
proof (cases "decode_webhook env raw (py_strip token)")
  case (Inl e)
  with w inv show ?thesis by (auto simp: webhook_route_def process_webhook_def session_simps)
next
  case (Inr payload)
  obtain pid lid where ids: "extract_provider_ids payload = (pid, lid)" by fastforce
  let ?claim = "claim_event env (webhook_event_id payload) (webhook_event_type payload) pid lid raw d"
  show ?thesis
  proof (cases ?claim)
    case None
    with w inv Inr ids show ?thesis
      by (auto simp: webhook_route_def process_webhook_def session_simps Let_def)
  next
    case (Some x)
    obtain e d0 where x: "x = (e, d0)" by fastforce
    note claim = Some [unfolded x]
    have tabs: "tables_ok d" using inv by (simp add: billing_inv_def)
    note c = add_event_tables [OF tabs claim]
    have i0: "billing_inv d0"
      using inv c wallets_ok_cong [of d0 d] by (simp add: billing_inv_def frame_simps)
    obtain q t where h: "handle_claimed env e (webhook_event_type payload) pid lid
        \<lparr>work = d0, durable = d\<rparr> = (q, t)" by fastforce
    have "wallet_id_fresh env d0" using new c(3) by (simp add: wallet_id_fresh_def frame_simps)
    with handle_claimed_moves [OF _ _ c(2) h] i0
    have mv: "session_moves \<lparr>work = d0, durable = d\<rparr> t" by simp
    have "evolves d d0" using c(3) by (simp add: evolves_same frame_simps)
    with mv inv have "billing_inv (durable t) \<and> evolves d (durable t)"
      by (auto simp: session_moves_def intro: evolves_trans)
    moreover have "d1 = durable t"
      using w Inr ids claim h
      by (auto simp: webhook_route_def process_webhook_def session_simps Let_def split: sum.splits)
    ultimately show ?thesis by simp
  qed
qed

end
