(* ===== verification/Billing_Ops.thy ===== *)
theory Billing_Ops
  imports Billing_Runs
begin

text \<open>
  The checkout route keeps the billing invariant too; the two writing routes as one kind of
  operation (\<open>billing_op\<close>), serial runs of them, and the interpretations of the run interfaces and
  of the idempotent handler on the model.
\<close>

section \<open>Facts about a new checkout\<close>

lemma new_checkoutD:
  assumes "new_checkout env p rq key item user = Inr (row, payload)"
  shows "co_id row = e_uid env 0" "actor_key row = (pr_tenant_id p, pr_user_id p, key)"
    "co_status row = Pending" "co_provider_checkout_id row = None" "0 < co_amount_brl row"
    "co_provider row = ''asaas''" "co_tenant row = pr_tenant_id p" "co_user row = pr_user_id p"
    "co_idempotency_key row = key" "co_kind row = rq_kind rq" "co_item_code row = rq_item_code rq"
    "obj_get payload ''externalReference'' = JStr (co_id row)"
  using assms by (auto simp: new_checkout_def Let_def actor_key_def provider_payload_def obj_get_def
      split: if_splits sum.splits)

lemma new_checkout_credit:
  assumes "new_checkout env p rq key item user = Inr (row, payload)"
  shows "\<exists>m. included_credit_usd item (rq_kind rq) = Inr m
     \<and> obj_get (co_metadata row) ''included_credit_usd'' = JStr (show_fixed 4 m)"
  using assms by (auto simp: new_checkout_def Let_def checkout_metadata_def obj_get_def
      split: if_splits sum.splits)

lemma new_checkout_due:
  assumes "new_checkout env p rq key item user = Inr (row, payload)"
  shows "\<exists>n. obj_get payload ''dueDateLimitDays'' = JInt n \<and> 1 \<le> n \<and> n \<le> 31"
  using assms by (auto simp: new_checkout_def Let_def provider_payload_def obj_get_def
      split: if_splits sum.splits)

lemma checkout_begin_intentD:
  assumes "checkout_begin env p rq key d = StartIntent row payload"
  obtains item user where "new_checkout env p rq key item user = Inr (row, payload)"
    "checkout_by_idempotency d (pr_tenant_id p) (pr_user_id p) key = None"
    "resolve_item env (rq_kind rq) (rq_item_code rq) = Inr (Some item)"
    "st_billing_enabled (e_settings env)" "key \<noteq> []" "length key \<le> 128"
  using assms by (auto simp: checkout_begin_def
      split: if_splits option.splits sum.splits billing_error.splits prod.splits)

lemma checkout_begin_existingD:
  assumes "checkout_begin env p rq key d = StartExisting row"
  shows "checkout_by_idempotency d (pr_tenant_id p) (pr_user_id p) key = Some row"
  using assms by (auto simp: checkout_begin_def
      split: if_splits option.splits sum.splits billing_error.splits prod.splits)

lemma checkout_by_idempotency_mem:
  "checkout_by_idempotency d t u k = Some c \<Longrightarrow> c \<in> set (bd_checkouts d) \<and> actor_key c = (t, u, k)"
  by (auto simp: checkout_by_idempotency_key dest: scalar_SomeD)

section \<open>The checkout route keeps the invariant\<close>

definition session_commits :: "billing_db session \<Rightarrow> billing_db session \<Rightarrow> bool" where
  "session_commits s t \<longleftrightarrow> durable t = durable s
     \<or> durable t = work t \<and> billing_inv (work t) \<and> evolves (work s) (work t)"

lemma bind_tables:
  assumes inv: "tables_ok d" and c: "c \<in> set (bd_checkouts d)" and id: "co_id c1 = co_id c"
    and ak: "actor_key c1 = actor_key c" and lk: "co_provider_checkout_id c1 \<noteq> None"
    and nc: "\<not> binding_conflict c1 d"
  shows "tables_ok (save_checkout c1 d)"
proof -
  have u: "unique_key co_id (bd_checkouts d)" using inv by (simp add: tables_ok_def)
  obtain xs ys where rows: "bd_checkouts d = xs @ c # ys"
    and put: "put_row co_id c1 (bd_checkouts d) = xs @ c1 # ys"
    using put_row_split [OF u c, of c1] id by metis
  have notin: "co_id c \<notin> co_id ` (set xs \<union> set ys)" using u rows by (auto simp: unique_key_def)
  have oth: "co_id x \<noteq> co_id c1" if "x \<in> set xs \<union> set ys" for x
    using notin that id by (metis imageI)
  let ?k = "\<lambda>x. (co_provider x, the (co_provider_checkout_id x))"
  let ?f = "\<lambda>xs. map ?k (filter (\<lambda>x. co_provider_checkout_id x \<noteq> None) xs)"
  have fresh: "?k c1 \<noteq> ?k x" if "x \<in> set xs \<union> set ys" "co_provider_checkout_id x \<noteq> None" for x
  proof
    assume "?k c1 = ?k x"
    then have "co_provider x = co_provider c1" "co_provider_checkout_id x = co_provider_checkout_id c1"
      using lk that(2) by auto
    moreover have "x \<in> set (bd_checkouts d)" using that(1) rows by auto
    ultimately show False using nc oth [OF that(1)] by (auto simp: binding_conflict_def list_ex_iff)
  qed
  have "checkout_links d = ?f xs @ ?f [c] @ ?f ys" by (simp add: checkout_links_def rows)
  moreover have "distinct (checkout_links d)" using inv by (simp add: tables_ok_def)
  ultimately have "distinct (?f xs @ ?f [c] @ ?f ys)" by metis
  then have "distinct (?f xs @ ?f ys)" unfolding distinct_append set_append by blast
  moreover have "?k c1 \<notin> set (?f xs)" "?k c1 \<notin> set (?f ys)" using fresh by (auto simp del: prod.inject)
  moreover have "checkout_links (save_checkout c1 d) = ?f xs @ ?k c1 # ?f ys"
    using lk by (simp add: checkout_links_def save_checkout_def put)
  ultimately have "distinct (checkout_links (save_checkout c1 d))" by simp
  moreover have "map actor_key (bd_checkouts (save_checkout c1 d)) = map actor_key (bd_checkouts d)"
    by (rule save_checkout_map [where f = actor_key, OF u c id ak])
  moreover have "map co_id (bd_checkouts (save_checkout c1 d)) = map co_id (bd_checkouts d)"
    by (rule save_checkout_map [where f = co_id, OF u c id id])
  ultimately show ?thesis
    using inv by (simp add: tables_ok_def unique_key_def frame_simps)
qed

lemma set_state_fields [simp]:
  "co_id (set_provider_operation_state s r e c) = co_id c"
  "actor_key (set_provider_operation_state s r e c) = actor_key c"
  "co_status (set_provider_operation_state s r e c) = co_status c"
  "co_provider (set_provider_operation_state s r e c) = co_provider c"
  "co_provider_checkout_id (set_provider_operation_state s r e c) = co_provider_checkout_id c"
  "co_provider_url (set_provider_operation_state s r e c) = co_provider_url c"
  "sold (set_provider_operation_state s r e c) = sold c"
  by (simp_all add: set_provider_operation_state_def Let_def actor_key_def sold_def)

lemma update_fields [simp]:
  "actor_key (c\<lparr>co_updated_at := x\<rparr>) = actor_key c" "sold (c\<lparr>co_updated_at := x\<rparr>) = sold c"
  "actor_key (c\<lparr>co_status := s\<rparr>) = actor_key c" "sold (c\<lparr>co_status := s\<rparr>) = sold c"
  "actor_key (c\<lparr>co_provider_checkout_id := l, co_provider_url := v\<rparr>) = actor_key c"
  "sold (c\<lparr>co_provider_checkout_id := l, co_provider_url := v\<rparr>) = sold c"
  by (simp_all add: actor_key_def sold_def)

lemma evolves_audit [simp]: "evolves d (audit t a x y z u m e) = evolves d e"
  by (simp add: evolves_def frame_simps)

lemma bind_commits:
  assumes inv: "billing_inv (work s)" and c: "row \<in> set (bd_checkouts (work s))"
    and b: "bind_provider_checkout env row resp actor rec s = (r, t)"
  shows "session_commits s t"
proof -
  define row2 where "row2 = (set_provider_operation_state ''completed'' (co_id row) None
      (row\<lparr>co_provider_checkout_id := Some (py_str (obj_get resp ''id'')),
           co_provider_url := Some (py_str (obj_get resp ''url''))\<rparr>))\<lparr>co_updated_at := e_now env\<rparr>"
  have f: "co_id row2 = co_id row" "actor_key row2 = actor_key row" "co_status row2 = co_status row"
    "co_provider_checkout_id row2 \<noteq> None" "sold row2 = sold row" by (simp_all add: row2_def)
  show ?thesis
  proof (cases "binding_conflict row2 (work s)")
    case True
    with b show ?thesis
      by (auto simp: bind_provider_checkout_def Let_def row2_def [symmetric] session_commits_def session_simps)
  next
    case False
    have "tables_ok (save_checkout row2 (work s))"
      using inv by (intro bind_tables [OF _ c f(1,2,4) False]) (simp add: billing_inv_def)
    moreover have "wallets_ok (save_checkout row2 (work s))"
      using inv wallets_ok_cong [of "save_checkout row2 (work s)" "work s"]
      by (simp add: billing_inv_def frame_simps)
    moreover have "evolves (work s) (save_checkout row2 (work s))"
      using evolves_save [OF inv_unique_id [OF inv] c f(5)] f(3) by simp
    ultimately have "billing_inv (save_checkout row2 (work s))
      \<and> evolves (work s) (save_checkout row2 (work s))" by (simp add: billing_inv_def)
    with b False show ?thesis
      by (auto simp: bind_provider_checkout_def Let_def row2_def [symmetric] session_commits_def session_simps)
  qed
qed

lemma reconcile_commits:
  assumes "billing_inv (work s)" and "row \<in> set (bd_checkouts (work s))"
    and "reconcile_existing_checkout env p prov row s = (r, t)"
  shows "session_commits s t"
proof -
  have same: "session_commits s s" by (simp add: session_commits_def)
  show ?thesis
    using assms bind_commits same
    by (auto simp: reconcile_existing_checkout_def split: if_splits sum.splits option.splits)
qed

lemma failure_commits:
  assumes inv: "billing_inv (work s)" and c: "row \<in> set (bd_checkouts (work s))"
    and st: "co_status row = Pending"
  shows "session_commits s (record_provider_failure env p row code unknown s)"
proof -
  have ok: "billing_inv (save_checkout c1 (work s)) \<and> evolves (work s) (save_checkout c1 (work s))"
    if "same_identity row c1" "sold c1 = sold row" "co_status row \<le> co_status c1" for c1
    using inv_save_checkout [OF inv c that(1)] evolves_save [OF inv_unique_id [OF inv] c that(2,3)] by simp
  have up: "Pending \<le> Failed" by (simp add: less_eq_checkout_status_def)
  define row1 where "row1 = (if unknown
      then set_provider_operation_state ''outcome_unknown'' (co_id row) (Some code) row
      else set_provider_operation_state ''failed'' (co_id row) (Some code) (row\<lparr>co_status := Failed\<rparr>))"
  have "same_identity row (row1\<lparr>co_updated_at := e_now env\<rparr>)" "sold (row1\<lparr>co_updated_at := e_now env\<rparr>) = sold row"
    "co_status row \<le> co_status (row1\<lparr>co_updated_at := e_now env\<rparr>)"
    using st up by (auto simp: row1_def same_identity_def)
  from ok [OF this] show ?thesis
    by (auto simp: record_provider_failure_def Let_def row1_def session_commits_def session_simps)
qed

lemma commit_intent_ok:
  assumes inv: "billing_inv (work s)" and new: "fresh_key co_id (co_id row) (bd_checkouts (work s))"
    and nolink: "co_provider_checkout_id row = None" and ci: "commit_intent p row s = Some t"
  shows "durable t = work t" "billing_inv (work t)" "evolves (work s) (work t)"
    "row \<in> set (bd_checkouts (work t))"
proof -
  have none: "scalar (\<lambda>c. actor_key c = actor_key row) (bd_checkouts (work s)) = None"
    using ci by (auto simp: commit_intent_def split: if_splits)
  have t: "bd_checkouts (work t) = bd_checkouts (add_checkout row (work s))"
    "durable t = work t" "billing_inv (work t) = billing_inv (add_checkout row (work s))"
    using ci by (auto simp: commit_intent_def session_simps frame_simps split: if_splits)
  have "unique_key co_id (bd_checkouts (add_checkout row (work s)))"
    using inv new by (simp add: add_checkout_def unique_key_snoc inv_unique_id)
  moreover have "unique_key actor_key (bd_checkouts (add_checkout row (work s)))"
    using none inv checkout_table.add_unique by (simp add: billing_inv_def tables_ok_def)
  ultimately have "tables_ok (add_checkout row (work s))"
    using inv nolink by (simp add: billing_inv_def tables_ok_def checkout_links_def add_checkout_def)
  then show "billing_inv (work t)"
    using inv t(3) wallets_ok_cong [of "add_checkout row (work s)" "work s"]
    by (simp add: billing_inv_def frame_simps)
  show "durable t = work t" by (rule t)
  show "evolves (work s) (work t)" using evolves_add [of "work s" row] t(1) by (simp add: evolves_def)
  show "row \<in> set (bd_checkouts (work t))" using t(1) by (simp add: add_checkout_def)
qed

lemma finish_checkout_commits:
  assumes "billing_inv (work s)" and "row \<in> set (bd_checkouts (work s))" and "co_status row = Pending"
    and "finish_checkout env p prov row payload s = (r, t)"
  shows "session_commits s t"
proof -
  have same: "session_commits s s" by (simp add: session_commits_def)
  show ?thesis
    using assms bind_commits failure_commits same
    by (auto simp: finish_checkout_def split: sum.splits billing_error.splits)
qed

definition checkout_id_fresh :: "env \<Rightarrow> billing_db \<Rightarrow> bool" where
  "checkout_id_fresh env d \<longleftrightarrow> fresh_key co_id (e_uid env 0) (bd_checkouts d)"

lemma commits_after:
  assumes "session_commits s t" and "billing_inv d" and "evolves d (durable s)" and "billing_inv (durable s)"
    and "evolves d (work s)"
  shows "billing_inv (durable t) \<and> evolves d (durable t)"
  using assms by (auto simp: session_commits_def intro: evolves_trans)

lemma checkout_route_ok:
  assumes inv: "billing_inv d" and new: "checkout_id_fresh env d"
    and w: "checkout_route env p prov rq header d = (r, d1, posts)"
  shows "billing_inv d1 \<and> evolves d d1"
proof -
  define key where "key = py_strip (case header of None \<Rightarrow> [] | Some h \<Rightarrow> h)"
  define s where "s = open_session d"
  obtain q t ps where cc: "create_checkout env p prov rq key s = (q, t, ps)" by (metis prod_cases3)
  have d1: "d1 = durable t"
    using w cc by (auto simp: checkout_route_def key_def s_def session_simps split: sum.splits)
  have s: "work s = d" "durable s = d" by (simp_all add: s_def session_simps)
  have "billing_inv (durable t) \<and> evolves d (durable t)"
  proof (cases "checkout_begin env p rq key d")
    case (StartError e)
    with cc inv s show ?thesis by (auto simp: create_checkout_def)
  next
    case (StartExisting row)
    from checkout_by_idempotency_mem [OF checkout_begin_existingD [OF this]]
    have "row \<in> set (bd_checkouts (work s))" using s by simp
    moreover have "reconcile_existing_checkout env p prov row s = (q, t)"
      using cc StartExisting s by (auto simp: create_checkout_def split: prod.splits)
    ultimately have "session_commits s t" using inv s by (intro reconcile_commits) auto
    then show ?thesis using inv s by (intro commits_after [of s]) auto
  next
    case (StartIntent row payload)
    from checkout_begin_intentD [OF this] obtain item user where
      nc: "new_checkout env p rq key item user = Inr (row, payload)" and
      none: "checkout_by_idempotency d (pr_tenant_id p) (pr_user_id p) key = None" .
    note row = new_checkoutD [OF nc]
    have "commit_intent p row s \<noteq> None"
      using none s row(2) by (simp add: commit_intent_def checkout_by_idempotency_key)
    then obtain s1 where s1: "commit_intent p row s = Some s1" by blast
    have "fresh_key co_id (co_id row) (bd_checkouts (work s))"
      using new s row(1) by (simp add: checkout_id_fresh_def)
    note ci = commit_intent_ok [OF _ this row(4) s1]
    have "finish_checkout env p prov row payload s1 = (q, t)"
      using cc StartIntent s s1 by (auto simp: create_checkout_def split: prod.splits)
    then have "session_commits s1 t" using ci inv s row(3) by (intro finish_checkout_commits) auto
    then show ?thesis using inv s ci by (intro commits_after [of s1]) auto
  qed
  with d1 show ?thesis by simp
qed

section \<open>Serial runs\<close>

datatype billing_op =
    OpWebhook env string string
  | OpCheckout env principal provider checkout_request "string option"

fun billing_step :: "billing_op \<Rightarrow> billing_db \<Rightarrow> billing_db" where
  "billing_step (OpWebhook env raw token) d = snd (webhook_route env raw token d)"
| "billing_step (OpCheckout env p prov rq header) d = fst (snd (checkout_route env p prov rq header d))"

text \<open>The identifiers \<open>uuid4\<close> gives an operation are not in use.\<close>

fun op_ids_fresh :: "billing_op \<Rightarrow> billing_db \<Rightarrow> bool" where
  "op_ids_fresh (OpWebhook env raw token) d = wallet_id_fresh env d"
| "op_ids_fresh (OpCheckout env p prov rq header) d = checkout_id_fresh env d"

definition billing_run :: "billing_op list \<Rightarrow> billing_db \<Rightarrow> billing_db" where
  "billing_run ops d = fold billing_step ops d"

definition run_ids_fresh :: "billing_op list \<Rightarrow> billing_db \<Rightarrow> bool" where
  "run_ids_fresh ops d = run_ok op_ids_fresh billing_step ops d"

lemma billing_step_ok:
  "op_ids_fresh op d \<Longrightarrow> billing_inv d \<Longrightarrow> billing_inv (billing_step op d) \<and> evolves d (billing_step op d)"
proof (cases op)
  case (OpWebhook env raw token)
  then show "op_ids_fresh op d \<Longrightarrow> billing_inv d \<Longrightarrow> ?thesis"
    using webhook_route_ok [of d env raw token] by (cases "webhook_route env raw token d") auto
next
  case (OpCheckout env p prov rq header)
  then show "op_ids_fresh op d \<Longrightarrow> billing_inv d \<Longrightarrow> ?thesis"
    using checkout_route_ok [of d env p prov rq header]
    by (cases "checkout_route env p prov rq header d") auto
qed

interpretation billing: monotone_system op_ids_fresh billing_step billing_inv evolves
  by unfold_locales (auto simp: billing_step_ok intro: evolves_trans)

lemma billing_inv_empty: "billing_inv (empty_billing_db\<lparr>bd_users := us\<rparr>)"
  by (simp add: billing_inv_def wallets_ok_def tables_ok_def unique_key_def checkout_links_def
      empty_billing_db_def)

section \<open>Webhooks as an idempotent handler\<close>

text \<open>A delivery: the environment it is processed in, its body and its token.\<close>

type_synonym delivery = "env \<times> string \<times> string"

definition delivery_key :: "delivery \<Rightarrow> string option" where
  "delivery_key q = (case q of (env, raw, token) \<Rightarrow>
     (case decode_webhook env raw (py_strip token) of
        Inl e \<Rightarrow> None
      | Inr payload \<Rightarrow> (case extract_provider_ids payload of (pid, lid) \<Rightarrow>
          Some (event_key env (webhook_event_id payload) (webhook_event_type payload) pid lid raw))))"

definition key_claimed :: "string \<Rightarrow> billing_db \<Rightarrow> bool" where
  "key_claimed k d = list_ex (\<lambda>e. ev_provider e = ''asaas'' \<and> ev_key e = k) (bd_events d)"

definition delivery_seen :: "delivery \<Rightarrow> billing_db \<Rightarrow> bool" where
  "delivery_seen q d = (case delivery_key q of None \<Rightarrow> False | Some k \<Rightarrow> key_claimed k d)"

definition deliver :: "delivery \<Rightarrow> billing_db \<Rightarrow> (http_error + webhook_answer) \<times> billing_db" where
  "deliver q d = (case q of (env, raw, token) \<Rightarrow> webhook_route env raw token d)"

lemma key_claimed_add: "key_claimed k (add_event e d) \<longleftrightarrow> key_claimed k d \<or> ev_provider e = ''asaas'' \<and> ev_key e = k"
  by (auto simp: key_claimed_def add_event_def list_ex_iff)

lemma key_claimed_frame: "bd_events d1 = bd_events d \<Longrightarrow> key_claimed k d1 = key_claimed k d"
  by (simp add: key_claimed_def)

lemma key_claimed_save:
  "key_claimed k d \<Longrightarrow> ev_provider e = ''asaas'' \<Longrightarrow> key_claimed k (save_event e d)"
proof -
  assume "key_claimed k d" and e: "ev_provider e = ''asaas''"
  then obtain x where x: "x \<in> set (bd_events d)" "ev_provider x = ''asaas''" "ev_key x = k"
    by (auto simp: key_claimed_def list_ex_iff)
  then have "(if ev_key x = ev_key e then e else x) \<in> set (put_row ev_key e (bd_events d))"
    by (auto intro: put_row_in put_row_other)
  with x e show ?thesis by (auto simp: key_claimed_def list_ex_iff save_event_def split: if_splits)
qed

lemma apply_decision_events:
  assumes "apply_decision env dec c next payment d = Inr (c1, action, d1)"
  shows "bd_events d1 = bd_events d"
proof (cases dec)
  case Confirm
  with assms show ?thesis
    by (auto simp: apply_decision_def Let_def frame_simps split: sum.splits prod.splits
        dest!: activate_frame record_frame)
next
  case Reverse
  with assms show ?thesis
    by (auto simp: apply_decision_def Let_def frame_simps split: sum.splits prod.splits
        dest!: record_frame)
qed (use assms in \<open>auto simp: apply_decision_def Let_def frame_simps\<close>)

lemma finish_webhook_keys:
  assumes "finish_webhook env event c ty action s = (r, t)" and "ev_provider event = ''asaas''"
    and "key_claimed k (work s)"
  shows "durable t = durable s \<or> key_claimed k (durable t)"
    and "r = Inr a \<Longrightarrow> a \<noteq> Deduplicated \<Longrightarrow> key_claimed k (durable t)"
proof -
  have "key_claimed k (audit t0 a0 x y z u m (save_checkout c1 (save_event
      (event\<lparr>ev_status := st, ev_processed_at := w\<rparr>) (work s))))" for t0 a0 x y z u m c1 st w
    using key_claimed_save [OF assms(3), of "event\<lparr>ev_status := st, ev_processed_at := w\<rparr>"] assms(2)
    by (simp add: key_claimed_def frame_simps)
  with assms(1) show "durable t = durable s \<or> key_claimed k (durable t)"
    and "r = Inr a \<Longrightarrow> a \<noteq> Deduplicated \<Longrightarrow> key_claimed k (durable t)"
    by (auto simp: finish_webhook_def Let_def session_simps split: if_splits)
qed

lemma apply_decision_keys:
  assumes "apply_decision env dec c next payment d = Inr (c1, action, d1)"
  shows "key_claimed k d1 = key_claimed k d"
  using apply_decision_events [OF assms] by (rule key_claimed_frame)

lemma ignore_webhook_keys:
  assumes "ignore_webhook_event env event c ty why s = (r, t)" and "ev_provider event = ''asaas''"
    and "key_claimed k (work s)"
  shows "key_claimed k (durable t)"
proof -
  have "key_claimed k (audit t0 a0 x y z u m (save_event
      (event\<lparr>ev_status := st, ev_processed_at := w\<rparr>) (work s)))" for t0 a0 x y z u m st w
    using key_claimed_save [OF assms(3), of "event\<lparr>ev_status := st, ev_processed_at := w\<rparr>"] assms(2)
    by (simp add: key_claimed_def frame_simps)
  with assms(1) show ?thesis by (auto simp: ignore_webhook_event_def session_simps)
qed

text \<open>A handled event either leaves the database as it was or keeps every claimed key, its own
  included.\<close>

lemma handle_claimed_keys:
  assumes h: "handle_claimed env event ty pid lid s = (r, t)" and e: "ev_provider event = ''asaas''"
    and k: "key_claimed k (work s)"
  shows "(durable t = durable s \<or> key_claimed k (durable t))
    \<and> (\<forall>a. r = Inr a \<longrightarrow> a \<noteq> Deduplicated \<longrightarrow> key_claimed k (durable t))"
proof (cases "checkout_for_provider (work s) pid lid")
  case None
  have "key_claimed k (audit t0 a0 x y z u m (save_event
      (event\<lparr>ev_status := st, ev_processed_at := w\<rparr>) (work s)))" for t0 a0 x y z u m st w
    using key_claimed_save [OF k, of "event\<lparr>ev_status := st, ev_processed_at := w\<rparr>"] e
    by (simp add: key_claimed_def frame_simps)
  with None h show ?thesis by (auto simp: handle_claimed_def session_simps)
next
  case (Some c0)
  define ev where "ev = event\<lparr>ev_tenant := Some (co_tenant c0), ev_user := Some (co_user c0),
    ev_checkout_id := Some (co_id c0)\<rparr>"
  define c where "c = c0\<lparr>co_provider_payment_id := or_option pid (co_provider_payment_id c0)\<rparr>"
  define s1 where "s1 = on_work (save_checkout c \<circ> save_event ev) s"
  have ep: "ev_provider ev = ''asaas''" using e by (simp add: ev_def)
  have k1: "key_claimed k (work s1)" "durable s1 = durable s"
    using key_claimed_save [OF k ep] by (simp_all add: s1_def session_simps key_claimed_def frame_simps)
  note h1 = h [unfolded handle_claimed_def Some, simplified Let_def option.case,
      folded ev_def c_def, folded s1_def]
  have app: "key_claimed k d2"
    if "apply_decision env dec c nx pay (work s1) = Inr (c1, action, d2)" for dec nx pay c1 action d2
    using apply_decision_keys [OF that] k1 by simp
  have fin: "(durable t = durable s \<or> key_claimed k (durable t))
      \<and> (\<forall>a. r = Inr a \<longrightarrow> a \<noteq> Deduplicated \<longrightarrow> key_claimed k (durable t))"
    if "finish_webhook env ev c1 ty action (s1\<lparr>work := d2\<rparr>) = (r, t)" "key_claimed k d2"
    for c1 action d2
    using finish_webhook_keys [OF that(1) ep, of k] that(2) k1 by auto
  show ?thesis
    using h1 k1 ignore_webhook_keys [OF _ ep k1(1)] app fin
    by (auto split: if_splits prod.splits sum.splits)
qed

lemma claim_eventD:
  assumes "claim_event env i ty pid lid raw d = Some (e, d1)"
  shows "d1 = add_event e d" "ev_provider e = ''asaas''" "ev_key e = event_key env i ty pid lid raw"
  using assms by (auto simp: claim_event_def Let_def split: if_splits)

lemma claim_event_None:
  "claim_event env i ty pid lid raw d = None \<longleftrightarrow> key_claimed (event_key env i ty pid lid raw) d"
  by (auto simp: claim_event_def Let_def key_claimed_def list_ex_iff scalar_None)

lemma deliver_cases:
  assumes "deliver (env, raw, token) d = (r, d1)"
  obtains (refused) e where "decode_webhook env raw (py_strip token) = Inl e" "r = Inl (raise_http e)" "d1 = d"
  | (again) "delivery_seen (env, raw, token) d" "r = Inr Deduplicated" "d1 = d"
  | (first) payload pid lid event d0 q t where
      "decode_webhook env raw (py_strip token) = Inr payload" "extract_provider_ids payload = (pid, lid)"
      "claim_event env (webhook_event_id payload) (webhook_event_type payload) pid lid raw d = Some (event, d0)"
      "handle_claimed env event (webhook_event_type payload) pid lid \<lparr>work = d0, durable = d\<rparr> = (q, t)"
      "d1 = durable t" "\<not> delivery_seen (env, raw, token) d"
      "delivery_key (env, raw, token) = Some (ev_key event)"
      "r = map_sum raise_http id q"
proof (cases "decode_webhook env raw (py_strip token)")
  case (Inl e)
  with assms refused show thesis
    by (auto simp: deliver_def webhook_route_def process_webhook_def session_simps)
next
  case (Inr payload)
  obtain pid lid where ids: "extract_provider_ids payload = (pid, lid)" by fastforce
  let ?claim = "claim_event env (webhook_event_id payload) (webhook_event_type payload) pid lid raw d"
  have k: "delivery_key (env, raw, token) = Some (event_key env (webhook_event_id payload)
      (webhook_event_type payload) pid lid raw)"
    using Inr ids by (simp add: delivery_key_def)
  show thesis
  proof (cases ?claim)
    case None
    with k have "delivery_seen (env, raw, token) d" by (simp add: delivery_seen_def claim_event_None)
    with assms None Inr ids show thesis
      by (intro again) (auto simp: deliver_def webhook_route_def process_webhook_def session_simps)
  next
    case (Some x)
    obtain e d0 where x: "x = (e, d0)" by fastforce
    note claim = Some [unfolded x]
    obtain q t where h: "handle_claimed env e (webhook_event_type payload) pid lid
        \<lparr>work = d0, durable = d\<rparr> = (q, t)" by fastforce
    have "\<not> delivery_seen (env, raw, token) d"
      using k claim by (auto simp: delivery_seen_def claim_event_None [symmetric])
    moreover have "d1 = durable t \<and> r = map_sum raise_http id q"
      using assms Inr ids claim h
      by (auto simp: deliver_def webhook_route_def process_webhook_def session_simps Let_def split: sum.splits)
    ultimately show thesis using first [OF Inr ids claim h] k claim_eventD(3) [OF claim] by simp
  qed
qed

lemma deliver_keeps: "key_claimed k d \<Longrightarrow> key_claimed k (snd (deliver q d))"
proof -
  assume k: "key_claimed k d"
  obtain env raw token where q: "q = (env, raw, token)" by (cases q) auto
  obtain r d1 where w: "deliver (env, raw, token) d = (r, d1)" by fastforce
  from w show ?thesis
  proof (cases rule: deliver_cases)
    case (first payload pid lid event d0 qq t)
    have "key_claimed k d0" using k claim_eventD(1) [OF first(3)] by (simp add: key_claimed_add)
    with handle_claimed_keys [OF first(4) claim_eventD(2) [OF first(3)], of k] k
    have "key_claimed k (durable t)" by auto
    then show ?thesis using w q first by simp
  qed (use k w q in auto)
qed

interpretation asaas: idempotent_handler deliver delivery_seen "Inr Deduplicated"
proof
  fix q :: delivery and d
  assume s: "delivery_seen q d"
  obtain env raw token where q: "q = (env, raw, token)" by (cases q) auto
  obtain r d1 where w: "deliver (env, raw, token) d = (r, d1)" by fastforce
  from w show "deliver q d = (Inr Deduplicated, d)"
    by (cases rule: deliver_cases) (use s q w in \<open>auto simp: delivery_seen_def delivery_key_def\<close>)
next
  fix q p :: delivery and d
  assume "delivery_seen q d"
  then show "delivery_seen q (snd (deliver p d))"
    by (auto simp: delivery_seen_def deliver_keeps split: option.splits)
qed

lemma accepted_seen:
  assumes "deliver q d = (Inr a, d1)" and "a \<noteq> Deduplicated"
  shows "delivery_seen q d1"
proof -
  obtain env raw token where q: "q = (env, raw, token)" by (cases q) auto
  from assms(1) [unfolded q] show ?thesis
  proof (cases rule: deliver_cases)
    case (first payload pid lid event d0 qq t)
    have "key_claimed (ev_key event) d0"
      using claim_eventD [OF first(3)] by (simp add: key_claimed_add)
    moreover have "qq = Inr a" using first(8) by (cases qq) auto
    ultimately have "key_claimed (ev_key event) (durable t)"
      using handle_claimed_keys [OF first(4) claim_eventD(2) [OF first(3)], of "ev_key event"] assms(2) by simp
    then show ?thesis using first q by (simp add: delivery_seen_def)
  qed (use assms in auto)
qed

section \<open>Failed requests, and events under checkout requests\<close>

lemma handle_claimed_error:
  "handle_claimed env event ty pid lid s = (Inl e, t) \<Longrightarrow> durable t = durable s"
  by (auto simp: handle_claimed_def ignore_webhook_event_def finish_webhook_def Let_def session_simps
      split: option.splits prod.splits if_splits sum.splits)

lemma deliver_error:
  assumes "deliver q d = (Inl e, d1)"
  shows "d1 = d"
proof -
  obtain env raw token where q: "q = (env, raw, token)" by (cases q) auto
  from assms [unfolded q] show ?thesis
  proof (cases rule: deliver_cases)
    case (first payload pid lid event d0 qq t)
    then obtain x where "qq = Inl x" by (cases qq) auto
    with handle_claimed_error first show ?thesis by fastforce
  qed auto
qed

definition same_events :: "billing_db session \<Rightarrow> billing_db session \<Rightarrow> bool" where
  "same_events s t \<longleftrightarrow> (bd_events (durable s) = bd_events (work s)
     \<longrightarrow> bd_events (durable t) = bd_events (durable s) \<and> bd_events (work t) = bd_events (durable s))"

lemma bind_events: "bind_provider_checkout env row resp actor rec s = (r, t) \<Longrightarrow> same_events s t"
  by (auto simp: bind_provider_checkout_def Let_def session_simps frame_simps same_events_def
      split: if_splits)

lemma reconcile_events: "reconcile_existing_checkout env p prov row s = (r, t) \<Longrightarrow> same_events s t"
  using bind_events
  by (auto simp: reconcile_existing_checkout_def split: if_splits sum.splits option.splits)
    (auto simp: same_events_def)

lemma finish_events: "finish_checkout env p prov row payload s = (r, t) \<Longrightarrow> same_events s t"
  using bind_events
  by (auto simp: finish_checkout_def split: sum.splits billing_error.splits)
    (auto simp: same_events_def record_provider_failure_def Let_def session_simps frame_simps)

lemma intent_events: "commit_intent p row s = Some t \<Longrightarrow> same_events s t"
  by (auto simp: commit_intent_def session_simps frame_simps same_events_def split: if_splits)

lemma same_events_trans: "same_events s t \<Longrightarrow> same_events t u \<Longrightarrow> same_events s u"
  by (auto simp: same_events_def)

lemma create_checkout_events: "create_checkout env p prov rq key s = (r, t, posts) \<Longrightarrow> same_events s t"
proof -
  assume cc: "create_checkout env p prov rq key s = (r, t, posts)"
  show ?thesis
  proof (cases "checkout_begin env p rq key (work s)")
    case (StartError e)
    with cc show ?thesis by (simp add: create_checkout_def same_events_def)
  next
    case (StartExisting row)
    with cc have "reconcile_existing_checkout env p prov row s = (r, t)"
      by (simp add: create_checkout_def split: prod.splits)
    then show ?thesis by (rule reconcile_events)
  next
    case (StartIntent row payload)
    show ?thesis
    proof (cases "commit_intent p row s")
      case (Some s1)
      with cc StartIntent have "finish_checkout env p prov row payload s1 = (r, t)"
        by (simp add: create_checkout_def split: prod.splits)
      from same_events_trans [OF intent_events [OF Some] finish_events [OF this]] show ?thesis .
    next
      case None
      have rb: "same_events s (rollback s)" by (simp add: same_events_def session_simps)
      from cc StartIntent None have "t = rollback s \<or>
          (\<exists>row1. reconcile_existing_checkout env p prov row1 (rollback s) = (r, t))"
        by (auto simp add: create_checkout_def Let_def split: option.splits prod.splits)
      then show ?thesis using rb same_events_trans [OF rb reconcile_events] by blast
    qed
  qed
qed

lemma checkout_route_events:
  "bd_events (fst (snd (checkout_route env p prov rq header d))) = bd_events d"
proof -
  define key where "key = py_strip (case header of None \<Rightarrow> [] | Some h \<Rightarrow> h)"
  obtain q t ps where cc: "create_checkout env p prov rq key (open_session d) = (q, t, ps)"
    by (metis prod_cases3)
  have "fst (snd (checkout_route env p prov rq header d)) = durable t"
    using cc by (auto simp: checkout_route_def key_def session_simps split: sum.splits)
  with create_checkout_events [OF cc] show ?thesis by (simp add: same_events_def session_simps)
qed

lemma billing_step_keeps: "key_claimed k d \<Longrightarrow> key_claimed k (billing_step op d)"
proof (cases op)
  case (OpWebhook env raw token)
  then show "key_claimed k d \<Longrightarrow> ?thesis"
    using deliver_keeps [of k d "(env, raw, token)"] by (simp add: deliver_def)
qed (simp add: key_claimed_def checkout_route_events)

lemma billing_run_keeps: "key_claimed k d \<Longrightarrow> key_claimed k (billing_run ops d)"
  unfolding billing_run_def by (induction ops arbitrary: d) (auto intro: billing_step_keeps)

lemma seen_key: "delivery_seen q d \<longleftrightarrow> (\<exists>k. delivery_key q = Some k \<and> key_claimed k d)"
  by (auto simp: delivery_seen_def split: option.splits)

section \<open>Rows after a checkout request\<close>

lemma bind_rows:
  assumes "bind_provider_checkout env row resp actor rec s = (r, t)"
  shows "map co_id (bd_checkouts (work t)) = map co_id (bd_checkouts (work s))"
    and "durable t = durable s \<or> durable t = work t"
    and "c \<in> set (bd_checkouts (work t)) \<Longrightarrow> c \<in> set (bd_checkouts (work s)) \<or> co_status c = co_status row"
  using assms
  by (auto simp: bind_provider_checkout_def Let_def session_simps frame_simps save_checkout_def
      split: if_splits dest!: set_put_row)

lemma reconcile_rows:
  assumes "reconcile_existing_checkout env p prov row s = (r, t)" and "durable s = work s"
  shows "map co_id (bd_checkouts (durable t)) = map co_id (bd_checkouts (durable s))"
  using assms bind_rows(1,2)
  by (fastforce simp: reconcile_existing_checkout_def split: if_splits sum.splits option.splits)

lemma reconcile_failed:
  assumes "reconcile_existing_checkout env p prov row s = (r, t)" and "durable s = work s"
    and "c \<in> set (bd_checkouts (durable t))" and "co_status c = Failed"
  shows "c \<in> set (bd_checkouts (durable s))"
  using assms bind_rows(2,3)
  by (fastforce simp: reconcile_existing_checkout_def split: if_splits sum.splits option.splits)

lemma finish_failed:
  assumes fin: "finish_checkout env p prov row payload s = (r, t)" and s: "durable s = work s"
    and c: "c \<in> set (bd_checkouts (durable t))" "co_status c = Failed" and row: "co_status row = Pending"
  shows "c \<in> set (bd_checkouts (durable s)) \<or> assert_configured (e_settings env) \<noteq> None
    \<or> (\<exists>status body. pv_post prov payload = HttpResponse status body \<and> 400 \<le> status \<and> status < 500)"
proof (cases "create_payment_link (e_settings env) prov payload")
  case (Inr resp)
  with fin have "bind_provider_checkout env row resp (pr_user_id p) False s = (r, t)"
    by (simp add: finish_checkout_def)
  from bind_rows(2) [OF this] bind_rows(3) [OF this, of c] s c row show ?thesis by auto
next
  case (Inl e)
  show ?thesis
  proof (cases "\<exists>code n. e = ProviderError code n False")
    case True
    with post_error_known Inl show ?thesis by fastforce
  next
    case False
    have "durable t = durable s \<or> (\<exists>code. t = record_provider_failure env p row code True s)"
      using fin Inl False by (auto simp: finish_checkout_def split: billing_error.splits)
    then show ?thesis
      using c row s by (auto simp: record_provider_failure_def Let_def session_simps frame_simps save_checkout_def
          dest!: set_put_row)
  qed
qed

lemma create_checkout_failed:
  assumes cc: "create_checkout env p prov rq key s = (r, t, posts)" and s: "durable s = work s"
    and c: "c \<in> set (bd_checkouts (durable t))" "co_status c = Failed"
    and new: "c \<notin> set (bd_checkouts (durable s))"
  shows "assert_configured (e_settings env) \<noteq> None \<or> (\<exists>payload status body. posts = [payload]
    \<and> pv_post prov payload = HttpResponse status body \<and> 400 \<le> status \<and> status < 500)"
proof (cases "checkout_begin env p rq key (work s)")
  case (StartError e)
  with cc c new show ?thesis by (simp add: create_checkout_def)
next
  case (StartExisting row)
  with cc have "reconcile_existing_checkout env p prov row s = (r, t)"
    by (simp add: create_checkout_def split: prod.splits)
  with reconcile_failed s c new show ?thesis by blast
next
  case (StartIntent row payload)
  from checkout_begin_intentD [OF this] obtain item user where
    nc: "new_checkout env p rq key item user = Inr (row, payload)" .
  note row = new_checkoutD [OF nc]
  show ?thesis
  proof (cases "commit_intent p row s")
    case (Some s1)
    have s1: "durable s1 = work s1" "bd_checkouts (work s1) = bd_checkouts (work s) @ [row]"
      using Some by (auto simp: commit_intent_def session_simps frame_simps add_checkout_def split: if_splits)
    have fin: "finish_checkout env p prov row payload s1 = (r, t)" and posts: "posts = posted env payload"
      using cc StartIntent Some by (auto simp: create_checkout_def split: prod.splits)
    have "c \<notin> set (bd_checkouts (durable s1))" using s1 s new row(3) c(2) by auto
    with finish_failed [OF fin s1(1) c row(3)] show ?thesis
      by (auto simp: posts posted_def)
  next
    case None
    from cc StartIntent None have "t = rollback s \<or>
        (\<exists>row1. reconcile_existing_checkout env p prov row1 (rollback s) = (r, t))"
      by (auto simp add: create_checkout_def Let_def split: option.splits prod.splits)
    then show ?thesis
      using reconcile_failed [of env p prov _ "rollback s" r t c] c new s by (auto simp: session_simps)
  qed
qed

end
