(* ===== verification/Billing_Accounts.thy ===== *)
theory Billing_Accounts
  imports Billing_Ops
begin

text \<open>
  What the wallet code promises, without tables: each user of each tenant has an account of what can
  be spent and what is owed. A payment deposits, a reversal takes back what is there and records the
  rest as owed. The lemmas show that the detailed operations implement these two functions and touch
  no other account.
\<close>

record account =
  ac_balance :: int
  ac_owed :: int

definition deposit :: "int \<Rightarrow> account \<Rightarrow> account" where
  "deposit amount a = a\<lparr>ac_balance := ac_balance a + amount\<rparr>"

definition take_back :: "int \<Rightarrow> account \<Rightarrow> account" where
  "take_back target a = a\<lparr>ac_balance := ac_balance a - min (ac_balance a) target,
     ac_owed := ac_owed a + (target - min (ac_balance a) target)\<rparr>"

definition accounts :: "billing_db \<Rightarrow> string \<times> string \<Rightarrow> account" where
  "accounts d owner = (case scalar (\<lambda>w. wallet_owner w = owner) (bd_wallets d) of
     None \<Rightarrow> \<lparr>ac_balance = 0, ac_owed = 0\<rparr>
   | Some w \<Rightarrow> \<lparr>ac_balance = wl_balance w, ac_owed = wl_quarantined w\<rparr>)"

lemma take_back_total:
  "ac_balance (take_back n a) - ac_owed (take_back n a) = ac_balance a - ac_owed a - n"
  by (simp add: take_back_def)

lemma accounts_frame: "bd_wallets d1 = bd_wallets d \<Longrightarrow> accounts d1 = accounts d"
  by (simp add: accounts_def fun_eq_iff)

lemma scalar_put_row:
  assumes "unique_key pk rows" and "unique_key key rows" and "w \<in> set rows"
    and "pk w1 = pk w" and "key w1 = key w"
  shows "scalar (\<lambda>x. key x = k) (put_row pk w1 rows) =
    (if k = key w then Some w1 else scalar (\<lambda>x. key x = k) rows)"
proof -
  obtain xs ys where rows: "rows = xs @ w # ys" and put: "put_row pk w1 rows = xs @ w1 # ys"
    using put_row_split [OF assms(1,3), of w1] assms(4) by metis
  have "scalar (\<lambda>x. key x = key w) xs = None"
    using assms(2) rows by (auto simp: scalar_None unique_key_def) (metis image_eqI)
  then show ?thesis using assms(5) unfolding put unfolding rows by (auto simp: scalar_append split: option.splits)
qed

lemma get_or_create_accounts:
  assumes inv: "wallets_ok d" and got: "get_or_create_wallet env t u d = (w, d1)"
  shows "accounts d1 = accounts d \<and> accounts d (t, u) = \<lparr>ac_balance = wl_balance w, ac_owed = wl_quarantined w\<rparr>"
proof (cases "wallet_for_actor d t u")
  case None
  then have d1: "w = new_wallet (e_uid env 3) t u" "d1 = add_wallet w d"
    using got by (auto simp: get_or_create_wallet_def Let_def)
  have none: "scalar (\<lambda>w. wallet_owner w = (t, u)) (bd_wallets d) = None"
    using None by (simp add: wallet_for_actor_key)
  have o: "wallet_owner w = (t, u)" by (simp add: d1 new_wallet_def wallet_owner_def)
  have z: "wl_balance w = 0" "wl_quarantined w = 0" by (simp_all add: d1 new_wallet_def)
  have "accounts d1 x = accounts d x" for x
    by (cases "x = (t, u)") (auto simp: accounts_def d1(2) add_wallet_def scalar_append o z none
        split: option.splits)
  then show ?thesis using none z by (auto simp: accounts_def)
qed (use got in \<open>auto simp: get_or_create_wallet_def accounts_def wallet_for_actor_key\<close>)

text \<open>Writing one wallet row and one entry changes one account.\<close>

lemma accounts_write:
  assumes inv: "wallets_ok d" and w: "w \<in> set (bd_wallets d)"
    and id: "wl_id w1 = wl_id w" and own: "wallet_owner w1 = wallet_owner w"
  shows "accounts (add_ledger l (save_wallet w1 d)) =
    (accounts d)(wallet_owner w := \<lparr>ac_balance = wl_balance w1, ac_owed = wl_quarantined w1\<rparr>)"
proof -
  have "unique_key wl_id (bd_wallets d)" "unique_key wallet_owner (bd_wallets d)"
    using inv by (simp_all add: wallets_ok_def)
  note s = scalar_put_row [OF this w id own]
  show ?thesis by (auto simp: fun_eq_iff accounts_def add_ledger_def save_wallet_def s)
qed

lemma credit_wallet_refines:
  assumes inv: "wallets_ok d" and new: "wallet_id_fresh env d"
  shows "accounts (credit_wallet env c payment amount d) =
    (if amount \<le> 0 \<or> ledger_exists d (co_tenant c) (credit_key payment) then accounts d
     else (accounts d)((co_tenant c, co_user c) := deposit amount (accounts d (co_tenant c, co_user c))))"
proof -
  obtain w d1 where got: "get_or_create_wallet env (co_tenant c) (co_user c) d = (w, d1)"
    by fastforce
  from get_or_create_wallet_ok [OF inv new got]
  have d1: "wallets_ok d1" "w \<in> set (bd_wallets d1)" "wallet_owner w = (co_tenant c, co_user c)"
    and led: "bd_ledger d1 = bd_ledger d" by auto
  from get_or_create_accounts [OF inv got]
  have acc: "accounts d1 = accounts d"
    "accounts d (co_tenant c, co_user c) = \<lparr>ac_balance = wl_balance w, ac_owed = wl_quarantined w\<rparr>"
    by auto
  have le: "ledger_exists d1 t k = ledger_exists d t k" for t k by (simp add: ledger_exists_def led)
  show ?thesis
  proof (cases "amount \<le> 0 \<or> ledger_exists d (co_tenant c) (credit_key payment)")
    case True
    then show ?thesis by (auto simp: credit_wallet_def got le acc)
  next
    case False
    then show ?thesis
      unfolding credit_wallet_def got prod.case le if_not_P [OF False] Let_def
      using d1 by (subst accounts_write [OF d1(1,2)]) (auto simp: acc deposit_def wallet_owner_def)
  qed
qed

lemma reverse_credit_refines:
  assumes inv: "wallets_ok d" and new: "wallet_id_fresh env d"
    and o: "original_credit d c = Some l"
    and no: "\<not> ledger_exists d (co_tenant c) (reversal_key payment source)"
  shows "accounts (reverse_checkout_credit env c payment source tx d) =
    (accounts d)((co_tenant c, co_user c) := take_back (lg_amount l) (accounts d (co_tenant c, co_user c)))"
proof -
  obtain w d1 where got: "get_or_create_wallet env (co_tenant c) (co_user c) d = (w, d1)"
    by fastforce
  from get_or_create_wallet_ok [OF inv new got]
  have d1: "wallets_ok d1" "w \<in> set (bd_wallets d1)" "wallet_owner w = (co_tenant c, co_user c)" by auto
  from get_or_create_accounts [OF inv got]
  have acc: "accounts d1 = accounts d"
    "accounts d (co_tenant c, co_user c) = \<lparr>ac_balance = wl_balance w, ac_owed = wl_quarantined w\<rparr>"
    by auto
  show ?thesis
    unfolding reverse_checkout_credit_def Let_def if_not_P [OF no] o option.case got prod.case
    using d1 by (subst accounts_write [OF d1(1,2)]) (auto simp: acc take_back_def wallet_owner_def)
qed

section \<open>Repeating a wallet operation\<close>

lemma get_or_create_again:
  assumes "get_or_create_wallet env t u d = (w, d1)" and "wallet_for_actor d2 t u \<noteq> None"
  shows "\<exists>x. get_or_create_wallet env2 t u d2 = (x, d2)"
  using assms by (auto simp: get_or_create_wallet_def)

lemma get_or_create_has:
  "get_or_create_wallet env t u d = (w, d1) \<Longrightarrow> wallet_for_actor d1 t u = Some w"
  by (auto simp: get_or_create_wallet_def Let_def add_wallet_def wallet_for_actor_def scalar_append
      new_wallet_def split: option.splits)

lemma scalar_put_row_some:
  "scalar (\<lambda>x. key x = k) rows = Some w \<Longrightarrow> pk w1 = pk w \<Longrightarrow> key w1 = k \<Longrightarrow>
     scalar (\<lambda>x. key x = k) (put_row pk w1 rows) \<noteq> None"
  by (induction rows) (auto simp: put_row_def split: if_splits)

lemma credit_idempotent:
  "credit_wallet env2 c payment amount (credit_wallet env c payment amount d) =
     credit_wallet env c payment amount d"
proof -
  obtain w d1 where got: "get_or_create_wallet env (co_tenant c) (co_user c) d = (w, d1)"
    by fastforce
  note has = get_or_create_has [OF got]
  show ?thesis
  proof (cases "amount \<le> 0 \<or> ledger_exists d1 (co_tenant c) (credit_key payment)")
    case True
    then have "credit_wallet env c payment amount d = d1" by (simp add: credit_wallet_def got)
    moreover have "get_or_create_wallet env2 (co_tenant c) (co_user c) d1 = (w, d1)"
      using has by (simp add: get_or_create_wallet_def)
    ultimately show ?thesis using True by (simp add: credit_wallet_def)
  next
    case False
    have "\<exists>l w1. credit_wallet env c payment amount d = add_ledger l (save_wallet w1 d1)
        \<and> lg_tenant l = co_tenant c \<and> lg_key l = credit_key payment
        \<and> wl_id w1 = wl_id w \<and> wallet_owner w1 = wallet_owner w"
      unfolding credit_wallet_def got prod.case if_not_P [OF False] Let_def
      by (intro exI conjI, rule refl) (simp_all add: wallet_owner_def)
    then obtain l w1 where d2: "credit_wallet env c payment amount d = add_ledger l (save_wallet w1 d1)"
      and l: "lg_tenant l = co_tenant c" "lg_key l = credit_key payment"
      and w1: "wl_id w1 = wl_id w" "wallet_owner w1 = wallet_owner w" by blast
    let ?d = "add_ledger l (save_wallet w1 d1)"
    have "wallet_owner w = (co_tenant c, co_user c)"
      using wallet_for_actor_mem [OF has] by simp
    then have "wallet_for_actor ?d (co_tenant c) (co_user c) \<noteq> None"
      using scalar_put_row_some [of wallet_owner _ "bd_wallets d1" w wl_id w1] has w1
      by (simp add: wallet_for_actor_key add_ledger_def save_wallet_def)
    then obtain x where "get_or_create_wallet env2 (co_tenant c) (co_user c) ?d = (x, ?d)"
      by (auto simp: get_or_create_wallet_def)
    moreover have "ledger_exists ?d (co_tenant c) (credit_key payment)"
      using l by (auto simp: ledger_exists_def add_ledger_def scalar_append split: option.splits)
    ultimately show ?thesis unfolding d2 by (simp add: credit_wallet_def)
  qed
qed

end
