(* ===== verification/Billing_Payments.thy ===== *)
theory Billing_Payments
  imports Billing_Accounts
begin

text \<open>
  What a processed webhook does to the accounts, end to end: the handler is taken apart once
  (\<open>processed_webhook\<close>) and the wallet refinements of Billing_Accounts are applied to its parts.
\<close>

lemma show_fixed_not_Nil: "show_fixed k m \<noteq> []"
  by (simp add: show_fixed_def Let_def)

text \<open>The credit is stored in the metadata as text and read back when the payment arrives.\<close>

lemma decimal4_show: "decimal4 (JStr (show_fixed 4 m)) = Inr m"
  using quantize_exact [of 4 m]
  by (simp add: decimal4_def text_or_def py_or_def parse_show_fixed show_fixed_not_Nil)

definition linked :: "string option \<Rightarrow> checkout \<Rightarrow> checkout" where
  "linked pid c = c\<lparr>co_provider_payment_id := or_option pid (co_provider_payment_id c)\<rparr>"

definition payment_ref :: "string option \<Rightarrow> checkout \<Rightarrow> string option" where
  "payment_ref pid c = or_option pid (or_option (co_provider_payment_id c) (co_provider_checkout_id c))"

lemma payment_ref_linked: "or_option pid (or_option (co_provider_payment_id (linked pid c))
    (co_provider_checkout_id (linked pid c))) = payment_ref pid c"
  by (simp add: linked_def payment_ref_def or_option_def)

lemma finish_processed:
  "finish_webhook env event c ty action s = (Inr ProcessedEvent, t) \<Longrightarrow>
     durable t = work t \<and> bd_wallets (work t) = bd_wallets (work s)
     \<and> bd_ledger (work t) = bd_ledger (work s) \<and> bd_entitlements (work t) = bd_entitlements (work s)"
  by (auto simp: finish_webhook_def Let_def session_simps frame_simps split: if_splits)

text \<open>A processed event found its checkout, a transition that acts and applied it.\<close>

lemma processed_handler:
  assumes h: "handle_claimed env event ty pid lid s = (Inr ProcessedEvent, t)"
  obtains c dec nx c1 action d2 e where
    "checkout_for_provider (work s) pid lid = Some c" "filled (payment_ref pid c)"
    "billing_transition (co_status c) ty = (dec, nx)" "dec \<noteq> Ignore" "dec \<noteq> IgnoreUnsupported"
    "apply_decision env dec (linked pid c) nx (the (payment_ref pid c))
       (save_checkout (linked pid c) (save_event e (work s))) = Inr (c1, action, d2)"
    "bd_wallets (durable t) = bd_wallets d2" "bd_ledger (durable t) = bd_ledger d2"
    "bd_entitlements (durable t) = bd_entitlements d2"
proof (cases "checkout_for_provider (work s) pid lid")
  case None
  with h show thesis by (simp add: handle_claimed_def)
next
  case (Some c)
  define e where "e = event\<lparr>ev_tenant := Some (co_tenant c), ev_user := Some (co_user c),
    ev_checkout_id := Some (co_id c)\<rparr>"
  define s1 where "s1 = on_work (save_checkout (linked pid c) \<circ> save_event e) s"
  have st: "co_status (linked pid c) = co_status c" by (simp add: linked_def)
  note h1 = h [unfolded handle_claimed_def Some, simplified Let_def option.case,
      folded e_def linked_def, folded s1_def, unfolded payment_ref_linked st]
  obtain dec nx where tr: "billing_transition (co_status c) ty = (dec, nx)" by fastforce
  have f: "filled (payment_ref pid c)" and act: "dec \<noteq> Ignore" "dec \<noteq> IgnoreUnsupported"
    using h1 tr by (auto simp: ignore_webhook_event_def split: if_splits)
  obtain c1 action d2 where
    app: "apply_decision env dec (linked pid c) nx (the (payment_ref pid c)) (work s1) = Inr (c1, action, d2)"
    and fin: "finish_webhook env e c1 ty action (s1\<lparr>work := d2\<rparr>) = (Inr ProcessedEvent, t)"
    using h1 tr f act by (auto split: sum.splits prod.splits)
  have "work s1 = save_checkout (linked pid c) (save_event e (work s))"
    by (simp add: s1_def session_simps)
  with finish_processed [OF fin] that [OF Some f tr act] app show thesis by simp
qed

lemma checkout_for_provider_events:
  "checkout_for_provider (add_event e d) pid lid = checkout_for_provider d pid lid"
  unfolding checkout_for_provider_def add_event_frame ..

lemma processed_webhook:
  assumes w: "webhook_route env raw token d = (Inr ProcessedEvent, d1)"
  obtains payload pid lid c dec nx c1 action d0 d2 where
    "decode_webhook env raw (py_strip token) = Inr payload" "extract_provider_ids payload = (pid, lid)"
    "checkout_for_provider d pid lid = Some c" "filled (payment_ref pid c)"
    "billing_transition (co_status c) (webhook_event_type payload) = (dec, nx)"
    "dec \<noteq> Ignore" "dec \<noteq> IgnoreUnsupported"
    "apply_decision env dec (linked pid c) nx (the (payment_ref pid c)) d0 = Inr (c1, action, d2)"
    "bd_wallets d0 = bd_wallets d" "bd_ledger d0 = bd_ledger d" "bd_entitlements d0 = bd_entitlements d"
    "bd_wallets d1 = bd_wallets d2" "bd_ledger d1 = bd_ledger d2" "bd_entitlements d1 = bd_entitlements d2"
proof -
  have "deliver (env, raw, token) d = (Inr ProcessedEvent, d1)" using w by (simp add: deliver_def)
  then show thesis
  proof (cases rule: deliver_cases)
    case (first payload pid lid event d0 q t)
    have "q = Inr ProcessedEvent" using first(8) by (cases q) auto
    with first(4) have h: "handle_claimed env event (webhook_event_type payload) pid lid
        \<lparr>work = d0, durable = d\<rparr> = (Inr ProcessedEvent, t)" by simp
    have d0: "d0 = add_event event d" using claim_eventD(1) [OF first(3)] .
    from h show thesis
    proof (rule processed_handler)
      fix c dec nx c1 action d2 e
      assume a: "checkout_for_provider (work \<lparr>work = d0, durable = d\<rparr>) pid lid = Some c"
        "filled (payment_ref pid c)"
        "billing_transition (co_status c) (webhook_event_type payload) = (dec, nx)" "dec \<noteq> Ignore"
        "dec \<noteq> IgnoreUnsupported"
        "apply_decision env dec (linked pid c) nx (the (payment_ref pid c))
          (save_checkout (linked pid c) (save_event e (work \<lparr>work = d0, durable = d\<rparr>))) = Inr (c1, action, d2)"
        "bd_wallets (durable t) = bd_wallets d2" "bd_ledger (durable t) = bd_ledger d2"
        "bd_entitlements (durable t) = bd_entitlements d2"
      show thesis
        by (rule that [OF first(1,2) _ a(2-6)])
          (use a first(5) in \<open>simp_all add: d0 checkout_for_provider_events frame_simps\<close>)
    qed
  qed auto
qed

section \<open>Payments and reversals on the accounts\<close>

lemma confirm_accounts:
  assumes app: "apply_decision env Confirm c nx payment d = Inr (c1, action, d2)"
    and inv: "wallets_ok d" and new: "wallet_id_fresh env d"
    and m: "obj_get (co_metadata c) ''included_credit_usd'' = JStr (show_fixed 4 m)"
  shows "accounts d2 = (if m \<le> 0 \<or> ledger_exists d (co_tenant c) (credit_key payment) then accounts d
     else (accounts d)((co_tenant c, co_user c) := deposit m (accounts d (co_tenant c, co_user c))))"
proof -
  let ?c = "c\<lparr>co_status := nx, co_confirmed_at := Some (e_now env)\<rparr>"
  obtain da tx db where act: "activate_entitlement ?c (e_now env) (save_checkout ?c d) = Inr da"
    and rec: "record_transaction env ?c payment ''confirmed''
        (if co_kind ?c = Topup then ''wallet_topup'' else ''recurring'') (e_now env) da = (tx, db)"
    and d2: "d2 = credit_wallet env ?c payment m db"
    using app m by (auto simp: apply_decision_def Let_def decimal4_show split: sum.splits prod.splits)
  have f: "bd_wallets db = bd_wallets d" "bd_ledger db = bd_ledger d"
    using activate_frame [OF act] record_frame [OF rec] by (simp_all add: frame_simps)
  have "wallets_ok db" using inv wallets_ok_cong [OF f] by simp
  moreover have "wallet_id_fresh env db" using new by (simp add: wallet_id_fresh_def f)
  moreover have "ledger_exists db t k = ledger_exists d t k" for t k by (simp add: ledger_exists_def f)
  ultimately show ?thesis
    using credit_wallet_refines [of db env ?c payment m] accounts_frame [OF f(1)] by (simp add: d2)
qed

lemma reverse_accounts:
  assumes app: "apply_decision env Reverse c nx payment d = Inr (c1, action, d2)"
    and inv: "wallets_ok d" and new: "wallet_id_fresh env d"
    and o: "original_credit d c = Some l"
    and no: "\<not> ledger_exists d (co_tenant c) (reversal_key payment (status_text nx))"
  shows "accounts d2 = (accounts d)((co_tenant c, co_user c) :=
     take_back (lg_amount l) (accounts d (co_tenant c, co_user c)))"
proof -
  let ?c = "c\<lparr>co_status := nx, co_reversed_at := Some (e_now env)\<rparr>"
  obtain tx db where rec: "record_transaction env ?c payment (status_text nx) (status_text nx) (e_now env)
        (revoke_entitlement ?c nx (e_now env) (save_checkout ?c d)) = (tx, db)"
    and d2: "d2 = reverse_checkout_credit env ?c payment (status_text nx) tx db"
    using app by (auto simp: apply_decision_def Let_def split: prod.splits)
  have f: "bd_wallets db = bd_wallets d" "bd_ledger db = bd_ledger d"
    using record_frame [OF rec] by (simp_all add: frame_simps)
  have "wallets_ok db" using inv wallets_ok_cong [OF f] by simp
  moreover have "wallet_id_fresh env db" using new by (simp add: wallet_id_fresh_def f)
  moreover have "original_credit db ?c = Some l" using o by (simp add: original_credit_def f)
  moreover have "\<not> ledger_exists db (co_tenant ?c) (reversal_key payment (status_text nx))"
    using no by (simp add: ledger_exists_def f)
  ultimately show ?thesis
    using reverse_credit_refines [of db env ?c l payment "status_text nx" tx] accounts_frame [OF f(1)]
    by (simp add: d2)
qed

lemma decision_of_event:
  "billing_transition cur ty = (dec, nx) \<Longrightarrow> dec \<noteq> Ignore \<Longrightarrow> dec \<noteq> IgnoreUnsupported \<Longrightarrow>
     (dec = Confirm \<longleftrightarrow> ty \<in> set confirm_events) \<and> (dec = Reverse \<longleftrightarrow> map_of reversal_events ty = Some nx)"
  by (auto simp: billing_transition_def reversal_events_def confirm_events_def split: if_splits)

lemma decision_reverse:
  "billing_transition cur ty = (dec, nx1) \<Longrightarrow> dec \<noteq> Ignore \<Longrightarrow> dec \<noteq> IgnoreUnsupported \<Longrightarrow>
     map_of reversal_events ty = Some nx \<Longrightarrow> dec = Reverse \<and> nx1 = nx"
  by (auto simp: billing_transition_def reversal_events_def confirm_events_def split: if_splits)

lemma linked_fields [simp]:
  "co_tenant (linked pid c) = co_tenant c" "co_user (linked pid c) = co_user c"
  "co_metadata (linked pid c) = co_metadata c" "co_kind (linked pid c) = co_kind c"
  "co_id (linked pid c) = co_id c" "co_item_code (linked pid c) = co_item_code c"
  by (simp_all add: linked_def)

section \<open>A transition that acts is processed\<close>

lemma handler_processes:
  assumes inv: "billing_inv (work s)" and new: "wallet_id_fresh env (work s)"
    and e: "ev_provider event = ''asaas''"
    and c: "checkout_for_provider (work s) pid lid = Some c" and f: "filled (payment_ref pid c)"
    and tr: "billing_transition (co_status c) ty = (dec, nx)" "dec \<noteq> Ignore" "dec \<noteq> IgnoreUnsupported"
    and app: "\<And>d. \<exists>x. apply_decision env dec (linked pid c) nx (the (payment_ref pid c)) d = Inr x"
    and h: "handle_claimed env event ty pid lid s = (r, t)"
  shows "r = Inr ProcessedEvent"
proof -
  have st: "co_status (linked pid c) = co_status c" by (simp add: linked_def)
  have fin: "r = Inr ProcessedEvent \<or> r = Inr Deduplicated"
    if "finish_webhook env event c action ty s = (r, t)" for event c action ty s r t
    using that by (auto simp: finish_webhook_def Let_def split: if_splits)
  have no: "apply_decision env dec (linked pid c) nx (the (payment_ref pid c)) d \<noteq> Inl x" for d x
    using app [of d] by auto
  have "r = Inr ProcessedEvent \<or> r = Inr Deduplicated"
    using h no f tr fin
    unfolding handle_claimed_def c option.case Let_def linked_def [symmetric] payment_ref_linked st
    by (auto split: sum.splits prod.splits)
  with handle_claimed_moves [OF inv new e h] show ?thesis by blast
qed

lemma reverse_applies: "\<exists>x. apply_decision env Reverse c nx payment d = Inr x"
  by (auto simp: apply_decision_def Let_def split: prod.splits)

lemma confirm_applies:
  assumes "obj_get (co_metadata c) ''entitlement_days'' = JInt n"
    and "obj_get (co_metadata c) ''included_credit_usd'' = JStr (show_fixed 4 m)"
  shows "\<exists>x. apply_decision env Confirm c nx payment d = Inr x"
proof -
  have "\<exists>k. int_or (JInt n) 31 = Inr k" by (auto simp: int_or_def py_or_def)
  then have "\<exists>d1. activate_entitlement (c\<lparr>co_status := nx, co_confirmed_at := w\<rparr>) w1 db = Inr d1" for w w1 db
    using assms by (auto simp: activate_entitlement_def entitlement_days_def split: option.split)
  then show ?thesis
    using assms by (auto simp: apply_decision_def Let_def decimal4_show split: prod.splits sum.splits)
      (metis Inl_Inr_False)
qed

lemma webhook_processes:
  assumes inv: "billing_inv d" and new: "wallet_id_fresh env d"
    and dec: "decode_webhook env raw (py_strip token) = Inr payload"
    and ids: "extract_provider_ids payload = (pid, lid)"
    and fresh: "\<not> delivery_seen (env, raw, token) d"
    and c: "checkout_for_provider d pid lid = Some c" and f: "filled (payment_ref pid c)"
    and tr: "billing_transition (co_status c) (webhook_event_type payload) = (dc, nx)"
      "dc \<noteq> Ignore" "dc \<noteq> IgnoreUnsupported"
    and app: "\<And>db. \<exists>x. apply_decision env dc (linked pid c) nx (the (payment_ref pid c)) db = Inr x"
  shows "fst (webhook_route env raw token d) = Inr ProcessedEvent"
proof -
  obtain r d1 where w: "deliver (env, raw, token) d = (r, d1)" by fastforce
  then show ?thesis
  proof (cases rule: deliver_cases)
    case (first payload1 pid1 lid1 event d0 q t)
    have same: "payload1 = payload" "pid1 = pid" "lid1 = lid" using first(1,2) dec ids by auto
    note cl = claim_eventD [OF first(3)]
    have "tables_ok d" using inv by (simp add: billing_inv_def)
    from add_event_tables [OF this first(3)] have t0: "tables_ok d0" by simp
    have "billing_inv d0"
      using inv t0 wallets_ok_cong [of d0 d] by (simp add: billing_inv_def cl(1) frame_simps)
    moreover have "wallet_id_fresh env d0" using new by (simp add: wallet_id_fresh_def cl(1) frame_simps)
    moreover have "checkout_for_provider d0 pid lid = Some c"
      using c by (simp add: cl(1) checkout_for_provider_events)
    ultimately have "q = Inr ProcessedEvent"
      using handler_processes [OF _ _ cl(2) _ f tr app first(4) [unfolded same]] by simp
    with first w show ?thesis by (simp add: deliver_def)
  qed (use dec fresh w in \<open>auto simp: deliver_def\<close>)
qed

section \<open>Entitlements\<close>

lemma scalar_put_own:
  "scalar (\<lambda>x. key x = k) rows \<noteq> None \<Longrightarrow> key r = k \<Longrightarrow> scalar (\<lambda>x. key x = k) (put_row key r rows) = Some r"
  by (induction rows) (auto simp: put_row_def split: if_splits)

lemma activate_entitlement_active:
  assumes act: "activate_entitlement c when d = Inr d1" and plan: "co_kind c = Plan"
  shows "\<exists>ent n. entitlement_for_actor d1 (co_tenant c) (co_user c) = Some ent
    \<and> en_status ent = ''active'' \<and> en_plan_code ent = co_item_code c \<and> en_checkout_id ent = Some (co_id c)
    \<and> en_expires_at ent = Some (when + days n) \<and> 1 \<le> n \<and> n \<le> 366"
proof -
  obtain n where n: "entitlement_days c = Inr n" using act plan
    by (auto simp: activate_entitlement_def split: sum.splits)
  have bounds: "1 \<le> n \<and> n \<le> 366"
    using n by (cases "int_or (obj_get (co_metadata c) ''entitlement_days'') 31")
      (auto simp: entitlement_days_def)
  show ?thesis
  proof (cases "entitlement_for_actor d (co_tenant c) (co_user c)")
    case None
    let ?e = "\<lparr>en_tenant = co_tenant c, en_user = co_user c, en_plan_code = co_item_code c,
      en_plan_name = co_item_name c, en_status = ''active'', en_checkout_id = Some (co_id c),
      en_starts_at = Some when, en_expires_at = Some (when + days n), en_last_payment_at = Some when,
      en_updated_at = when\<rparr>"
    have "d1 = add_entitlement ?e d" using act plan n None by (simp add: activate_entitlement_def)
    with None have "entitlement_for_actor d1 (co_tenant c) (co_user c) = Some ?e"
      by (simp add: entitlement_for_actor_def add_entitlement_def scalar_append)
    then show ?thesis using bounds by auto
  next
    case (Some ent)
    let ?e = "ent\<lparr>en_plan_code := co_item_code c, en_plan_name := co_item_name c,
      en_status := ''active'', en_checkout_id := Some (co_id c),
      en_starts_at := (case en_starts_at ent of None \<Rightarrow> Some when | Some t \<Rightarrow> Some t),
      en_expires_at := Some (when + days n), en_last_payment_at := Some when, en_updated_at := when\<rparr>"
    have "d1 = save_entitlement ?e d" using act plan n Some by (simp add: activate_entitlement_def)
    moreover have "entitlement_owner ?e = (co_tenant c, co_user c)"
      using Some by (auto simp: entitlement_for_actor_def entitlement_owner_def dest: scalar_SomeD)
    ultimately have "entitlement_for_actor d1 (co_tenant c) (co_user c) = Some ?e"
      using scalar_put_own [of entitlement_owner "(co_tenant c, co_user c)" "bd_entitlements d" ?e] Some
      unfolding entitlement_for_actor_key save_entitlement_def entitlement_owner_def by simp
    then show ?thesis using bounds by auto
  qed
qed

lemma confirm_entitlement:
  assumes app: "apply_decision env Confirm c nx payment d = Inr (c1, action, d2)" and plan: "co_kind c = Plan"
  shows "\<exists>ent n. entitlement_for_actor d2 (co_tenant c) (co_user c) = Some ent
    \<and> en_status ent = ''active'' \<and> en_plan_code ent = co_item_code c \<and> en_checkout_id ent = Some (co_id c)
    \<and> en_expires_at ent = Some (e_now env + days n) \<and> 1 \<le> n \<and> n \<le> 366"
proof -
  let ?c = "c\<lparr>co_status := nx, co_confirmed_at := Some (e_now env)\<rparr>"
  obtain da tx db m where act: "activate_entitlement ?c (e_now env) (save_checkout ?c d) = Inr da"
    and rec: "record_transaction env ?c payment ''confirmed''
        (if co_kind ?c = Topup then ''wallet_topup'' else ''recurring'') (e_now env) da = (tx, db)"
    and d2: "d2 = credit_wallet env ?c payment m db"
    using app by (auto simp: apply_decision_def Let_def split: sum.splits prod.splits)
  have "bd_entitlements d2 = bd_entitlements da" using record_frame [OF rec] by (simp add: d2 frame_simps)
  with activate_entitlement_active [OF act] plan show ?thesis
    by (simp add: entitlement_for_actor_def)
qed

end
