(* ===== verification/Billing_Example.thy ===== *)
theory Billing_Example
  imports Billing_Payments
begin

text \<open>
  A concrete shop for the witnesses: a plan \<open>pro\<close> of 19.90 USD that includes 12.50 USD of credit, one
  user, a provider that answers the POST with a payment link, and the webhooks of one payment. The
  JSON decoder of the example maps the texts the example uses to their values.
\<close>

definition demo_settings :: settings where
  "demo_settings =
     \<lparr>st_environment = ''test'', st_auth_mode = ''native'', st_platform_owner_subject = None,
      st_billing_enabled = True, st_billing_provider = ''asaas'', st_plan_catalog_json = ''plans'',
      st_topup_catalog_json = '''', st_billing_usd_brl = ''5.40'',
      st_checkout_success_url = ''u'', st_asaas_api_key = ''k'', st_asaas_webhook_token = ''tok'',
      st_native_bootstrap_secret = '''', st_session_cookie_name = ''s'', st_session_ttl_hours = 8,
      st_password_min_length = 12, st_reset_ttl_minutes = 30, st_login_max_failures = 5,
      st_login_lock_minutes = 15, st_access_gate_enabled = False, st_access_gate_tenant_id = '''',
      st_access_gate_signing_secret = '''', st_access_gate_code_hashes = '''',
      st_access_gate_ttl_seconds = 0, st_resend_api_key = '''', st_admin_email_allowlist = ''''\<rparr>"

definition demo_event :: "string \<Rightarrow> string \<Rightarrow> json" where
  "demo_event name eid = JObj [(''id'', JStr eid), (''event'', JStr name),
     (''payment'', JObj [(''id'', JStr ''pay1''), (''paymentLink'', JStr ''lnk1'')])]"

definition demo_loads :: "string \<Rightarrow> json option" where
  "demo_loads t =
     (if t = ''plans'' then Some (JObj [(''pro'', JObj
          [(''name'', JStr ''Pro''), (''price_usd'', JStr ''19.90''), (''price_brl'', JStr ''107.46''),
           (''included_credit_usd'', JStr ''12.50''), (''entitlement_days'', JInt 31)])])
      else if t = ''paid'' then Some (demo_event ''PAYMENT_CONFIRMED'' ''e1'')
      else if t = ''received'' then Some (demo_event ''PAYMENT_RECEIVED'' ''e2'')
      else if t = ''refund'' then Some (demo_event ''PAYMENT_REFUNDED'' ''e3'')
      else None)"

text \<open>The i-th request: the clock and the identifiers it draws.\<close>

definition demo_env :: "int \<Rightarrow> env" where
  "demo_env i = \<lparr>e_settings = demo_settings, e_now = i,
     e_uid = (\<lambda>n. show_int (10 * i + int n)), e_secret = (\<lambda>n. []), e_sha256 = (\<lambda>t. t),
     e_utf8 = Some, e_loads = demo_loads, e_with_query = (\<lambda>u q. u)\<rparr>"

definition demo_user :: user where
  "demo_user = \<lparr>us_id = ''u1'', us_external_subject = ''s1'', us_email = ''a@b'',
     us_display_name = ''Ana'', us_email_verified_at = Some 0\<rparr>"

definition demo_principal :: principal where
  "demo_principal = \<lparr>pr_user_id = ''u1'', pr_tenant_id = ''t1'', pr_roles = [''Owner''],
     pr_email = Some ''a@b'', pr_external_subject = Some ''s1''\<rparr>"

definition demo_provider :: provider where
  "demo_provider = \<lparr>pv_post = (\<lambda>p. HttpResponse 200 (Some (JObj
       [(''id'', JStr ''lnk1''), (''url'', JStr ''https''), (''externalReference'', obj_get p ''externalReference'')]))),
     pv_get = (\<lambda>r. HttpResponse 200 (Some (JObj [(''data'', JList [])])))\<rparr>"

definition demo_request :: checkout_request where
  "demo_request = \<lparr>rq_item_code = ''pro'', rq_kind = Plan, rq_full_name = None, rq_company = None\<rparr>"

definition demo_db :: billing_db where
  "demo_db = empty_billing_db\<lparr>bd_users := [demo_user]\<rparr>"

definition demo_checkout :: "int \<Rightarrow> billing_op" where
  "demo_checkout i = OpCheckout (demo_env i) demo_principal demo_provider demo_request (Some ''key'')"

definition demo_webhook :: "int \<Rightarrow> string \<Rightarrow> billing_op" where
  "demo_webhook i t = OpWebhook (demo_env i) t ''tok''"

text \<open>The rows these requests write.\<close>

definition demo_row :: checkout where
  "demo_row =
     \<lparr>co_id = ''10'', co_tenant = ''t1'', co_user = ''u1'',
     co_kind = Plan, co_item_code = ''pro'', co_item_name = ''Pro'',
     co_payer_email = ''a@b'', co_payer_name = ''Ana'',
     co_company = None, co_currency = ''BRL'', co_amount_brl = 10746,
     co_amount_usd = 199000, co_status = Pending,
     co_provider = ''asaas'', co_provider_checkout_id = None,
     co_provider_payment_id = None,
     co_provider_url = None, co_callback = ''u'',
     co_idempotency_key = ''key'',
     co_metadata =
     [(''catalog_source'', JStr ''configured''),
     (''included_credit_usd'', JStr ''12.5000''),
     (''entitlement_days'', JInt 31),
     (''provider_operation'',
     JObj
     [(''kind'', JStr ''create_payment_link''),
     (''state'', JStr ''provider_call_started''),
     (''external_reference'', JStr ''10''),
     (''attempt_count'', JInt 1)])],
     co_created_at = 1, co_updated_at = 1, co_confirmed_at = None,
     co_reversed_at = None\<rparr>"

definition demo_plan :: item where
  "demo_plan =
     [(''name'', JStr ''Pro''), (''price_usd'', JStr ''19.90''), (''price_brl'', JStr ''107.46''),
      (''included_credit_usd'', JStr ''12.50''), (''entitlement_days'', JInt 31), (''code'', JStr ''pro'')]"

definition demo_payload :: item where
  "demo_payload =
     [(''name'', JStr ''Pro''), (''description'', JStr ''Pro''), (''billingType'', JStr ''UNDEFINED''),
      (''chargeType'', JStr ''DETACHED''), (''value'', JFloat ''107.46''),
      (''dueDateLimitDays'', JInt 31), (''externalReference'', JStr ''10''),
      (''callback'', JObj [(''successUrl'', JStr ''u''), (''autoRedirect'', JBool False)])]"

definition demo_bound :: checkout where
  "demo_bound =
     demo_row\<lparr>co_provider_checkout_id := Some ''lnk1'', co_provider_url := Some ''https'',
       co_metadata := [(''catalog_source'', JStr ''configured''),
         (''included_credit_usd'', JStr ''12.5000''), (''entitlement_days'', JInt 31),
         (''provider_operation'', JObj [(''kind'', JStr ''create_payment_link''),
            (''state'', JStr ''completed''), (''external_reference'', JStr ''10''),
            (''attempt_count'', JInt 1)])]\<rparr>"

definition demo_paid :: checkout where
  "demo_paid =
     demo_bound\<lparr>co_provider_payment_id := Some ''pay1'', co_status := Paid,
       co_confirmed_at := Some 2, co_updated_at := 2\<rparr>"

definition demo_paid_event :: webhook_event where
  "demo_paid_event =
     \<lparr>ev_id = ''20'', ev_tenant = Some ''t1'', ev_user = Some ''u1'',
     ev_checkout_id = Some ''10'', ev_provider = ''asaas'',
     ev_key = ''asaas-event|e1'', ev_type = ''PAYMENT_CONFIRMED'',
     ev_payload_sha256 = ''paid'',
     ev_provider_payment_id = Some ''pay1'',
     ev_provider_checkout_id = Some ''lnk1'', ev_status = Processed,
     ev_processed_at = Some 2\<rparr>"

definition demo_entitlement :: entitlement where
  "demo_entitlement =
     \<lparr>en_tenant = ''t1'', en_user = ''u1'', en_plan_code = ''pro'',
     en_plan_name = ''Pro'', en_status = ''active'',
     en_checkout_id = Some ''10'', en_starts_at = Some 2,
     en_expires_at = Some 2678400000002, en_last_payment_at = Some 2,
     en_updated_at = 2\<rparr>"

definition demo_tx :: billing_tx where
  "demo_tx =
     \<lparr>tx_id = ''22'', tx_tenant = ''t1'', tx_user = ''u1'',
     tx_checkout_id = Some ''10'', tx_provider = ''asaas'',
     tx_external_ref = ''pay1'', tx_plan_code = Some ''pro'',
     tx_charge_kind = ''recurring'', tx_currency = ''USD'',
     tx_amount_original = 1074600, tx_amount_usd = 199000,
     tx_normalized_mrr_usd = 199000, tx_status = ''confirmed'',
     tx_notes = ''Provider event for checkout 10'',
     tx_created_by = ''billing_webhook'', tx_occurred_at = 2,
     tx_confirmed_at = Some 2, tx_created_at = 2\<rparr>"

definition demo_wallet :: wallet where
  "demo_wallet =
     \<lparr>wl_id = ''23'', wl_tenant = ''t1'', wl_user = ''u1'',
     wl_currency = ''USD'', wl_status = WalletActive, wl_balance = 125000,
     wl_credited = 125000, wl_debited = 0, wl_quarantined = 0,
     wl_auto_recharge = False, wl_low_threshold = Some 30000\<rparr>"

definition demo_credit :: ledger_entry where
  "demo_credit =
     \<lparr>lg_id = ''24'', lg_tenant = ''t1'', lg_user = ''u1'',
     lg_wallet_id = ''23'', lg_direction = Credit,
     lg_source = ''plan_included'', lg_key = ''asaas:pay1:credit'',
     lg_action_key = Some ''pro'', lg_amount = 125000,
     lg_balance_after = 125000, lg_currency = ''USD'',
     lg_provider = Some ''asaas'', lg_external_ref = Some ''pay1'',
     lg_checkout_id = Some ''10'', lg_tx_id = None,
     lg_metadata =
     [(''policy'', JStr ''checkout_credit_exactly_once'')],
     lg_created_by = ''billing_webhook'', lg_created_at = 2\<rparr>"

definition demo_audits :: "audit_event list" where
  "demo_audits =
     [\<lparr>au_tenant = Some ''t1'', au_actor = Some ''u1'',
     au_action = ''billing.checkout.provider_intent_committed'',
     au_resource_type = ''billing_checkout'',
     au_resource_id = Some ''10'', au_outcome = ''pending'',
     au_metadata =
     [(''checkout_kind'', JStr ''plan''),
     (''item_code'', JStr ''pro''),
     (''provider'', JStr ''asaas'')]\<rparr>,
      \<lparr>au_tenant = Some ''t1'', au_actor = Some ''u1'',
     au_action = ''billing.checkout.created'',
     au_resource_type = ''billing_checkout'',
     au_resource_id = Some ''10'', au_outcome = ''success'',
     au_metadata =
     [(''checkout_kind'', JStr ''plan''),
     (''item_code'', JStr ''pro''), (''provider'', JStr ''asaas''),
     (''reconciled'', JBool False)]\<rparr>]"

definition demo_bound_db :: billing_db where
  "demo_bound_db =
     demo_db\<lparr>bd_checkouts := [demo_bound], bd_audits := demo_audits\<rparr>"

definition demo_paid_db :: billing_db where
  "demo_paid_db =
     demo_db\<lparr>bd_checkouts := [demo_paid], bd_events := [demo_paid_event],
       bd_entitlements := [demo_entitlement], bd_transactions := [demo_tx], bd_wallets := [demo_wallet],
       bd_ledger := [demo_credit], bd_audits := demo_audits @
        [\<lparr>au_tenant = Some ''t1'', au_actor = None,
     au_action = ''billing.payment.confirmed'',
     au_resource_type = ''billing_checkout'',
     au_resource_id = Some ''10'', au_outcome = ''success'',
     au_metadata =
     [(''event_type'', JStr ''PAYMENT_CONFIRMED''),
     (''provider'', JStr ''asaas''),
     (''checkout_kind'', JStr ''plan''),
     (''item_code'', JStr ''pro''),
     (''previous_state_guarded'', JBool True)]\<rparr>]\<rparr>"

lemma demo_inv: "billing_inv demo_db"
  unfolding demo_db_def by (rule billing_inv_empty)

section \<open>Evaluation\<close>

text \<open>The stretches of the requests, one at a time.\<close>

lemma demo_resolve: "resolve_item (demo_env 1) Plan ''pro'' = Inr (Some demo_plan)"
  by code_simp

lemma demo_amounts:
  "amount_brl (demo_env i) demo_plan Plan = Inr 10746" "amount_usd demo_plan Plan = Inr (Dec 1990 (-2))"
  "included_credit_usd demo_plan Plan = Inr 125000"
  "int_or (obj_get demo_plan ''entitlement_days'') n = Inr 31"
  by code_simp+

lemma demo_texts:
  "show_fixed 4 125000 = ''12.5000''" "float_text 10746 = ''107.46''"
  "numeric_store 4 (Dec 1990 (- 2)) = 199000"
  by (simp_all add: show_fixed_def float_text_def Let_def show_nat.simps pad_digits_def
      numeric_store_def digit_letters_def)

lemma demo_names:
  "checkout_return_url (demo_env 1) x = Inr ''u''" "text_or (obj_get demo_plan ''name'') x = ''Pro''"
  "py_str (py_or (py_or (obj_get demo_plan ''description'') (obj_get demo_plan ''name'')) y) = ''Pro''"
  "py_strip [] = []" "py_strip (us_display_name demo_user) = ''Ana''" "py_lower (py_strip (us_email demo_user)) = ''a@b''"
  by code_simp+

lemma demo_uid:
  "e_uid (demo_env 1) 0 = ''10''" "e_uid (demo_env 2) 0 = ''20''" "e_uid (demo_env 2) 2 = ''22''"
  "e_uid (demo_env 2) 3 = ''23''" "e_uid (demo_env 2) 4 = ''24''"
  by (simp_all add: demo_env_def show_int_def show_nat.simps digit_letters_def)

lemma demo_fields [simp]:
  "e_settings (demo_env i) = demo_settings" "e_now (demo_env i) = i" "e_sha256 (demo_env i) t = t"
  "e_utf8 (demo_env i) = Some" "e_loads (demo_env i) = demo_loads"
  "st_billing_enabled demo_settings" "assert_configured demo_settings = None"
  "pr_tenant_id demo_principal = ''t1''" "pr_user_id demo_principal = ''u1''"
  "rq_kind demo_request = Plan" "rq_item_code demo_request = ''pro''" "rq_full_name demo_request = None"
  "rq_company demo_request = None"
  by (simp_all add: demo_env_def demo_settings_def assert_configured_def demo_principal_def
      demo_request_def py_strip_def py_lstrip_def py_rstrip_def py_space_def)

lemma demo_new_checkout:
  "new_checkout (demo_env 1) demo_principal demo_request ''key'' demo_plan demo_user
     = Inr (demo_row, demo_payload)"
  by (simp add: new_checkout_def Let_def demo_amounts demo_texts demo_names demo_uid
      filled_def checkout_metadata_def demo_row_def demo_payload_def provider_payload_def)

lemma demo_begin:
  "checkout_begin (demo_env 1) demo_principal demo_request ''key'' demo_db
     = StartIntent demo_row demo_payload"
proof -
  have "find_user demo_db ''u1'' = Some demo_user"
    by (simp add: find_user_def demo_db_def demo_user_def)
  then show ?thesis
    by (simp add: checkout_begin_def demo_resolve demo_new_checkout checkout_by_idempotency_def
      demo_db_def empty_billing_db_def)
qed

lemma demo_posted:
  "create_payment_link demo_settings demo_provider demo_payload = Inr [(''id'', JStr ''lnk1''),
     (''url'', JStr ''https''), (''externalReference'', JStr ''10'')]"
  by (simp add: create_payment_link_def demo_provider_def demo_payload_def obj_get_def)

lemma demo_state:
  "set_provider_operation_state ''completed'' ''10'' None
     (demo_row\<lparr>co_provider_checkout_id := l, co_provider_url := u\<rparr>) =
   demo_bound\<lparr>co_provider_checkout_id := l, co_provider_url := u\<rparr>"
  by (simp add: set_provider_operation_state_def provider_operation_def demo_row_def demo_bound_def
      obj_get_def Let_def)

lemma demo_bind:
  "bind_provider_checkout (demo_env 1) demo_row [(''id'', JStr ''lnk1''), (''url'', JStr ''https''),
      (''externalReference'', JStr ''10'')] ''u1'' False
      \<lparr>work = demo_db\<lparr>bd_checkouts := [demo_row], bd_audits := [hd demo_audits]\<rparr>,
       durable = demo_db\<lparr>bd_checkouts := [demo_row], bd_audits := [hd demo_audits]\<rparr>\<rparr>
     = (Inr demo_bound, \<lparr>work = demo_bound_db, durable = demo_bound_db\<rparr>)"
proof -
  have id: "co_id demo_row = ''10''" "co_id demo_bound = ''10''" "co_tenant demo_row = ''t1''"
    "co_kind demo_row = Plan" "co_item_code demo_row = ''pro''" "co_updated_at demo_bound = 1"
    "co_provider_checkout_id demo_bound = Some ''lnk1''" "co_provider_url demo_bound = Some ''https''"
    by (simp_all add: demo_row_def demo_bound_def)
  have b: "demo_bound\<lparr>co_provider_checkout_id := Some ''lnk1'', co_provider_url := Some ''https'',
      co_updated_at := 1\<rparr> = demo_bound"
    by (simp add: demo_row_def demo_bound_def)
  show ?thesis
    by (simp add: bind_provider_checkout_def Let_def obj_get_def id demo_state b session_simps
      binding_conflict_def save_checkout_def put_row_def audit_def add_audit_def audit_forbidden_def
      demo_audits_def demo_bound_db_def)
qed

lemma demo_commit_intent:
  "commit_intent demo_principal demo_row \<lparr>work = demo_db, durable = demo_db\<rparr> =
     Some \<lparr>work = demo_db\<lparr>bd_checkouts := [demo_row], bd_audits := [hd demo_audits]\<rparr>,
       durable = demo_db\<lparr>bd_checkouts := [demo_row], bd_audits := [hd demo_audits]\<rparr>\<rparr>"
  by (simp add: commit_intent_def demo_db_def empty_billing_db_def session_simps add_checkout_def
      audit_def add_audit_def audit_forbidden_def demo_audits_def demo_row_def)

lemma demo_checkout_route:
  "checkout_route (demo_env 1) demo_principal demo_provider demo_request (Some ''key'') demo_db
     = (Inr demo_bound, demo_bound_db, [demo_payload])"
proof -
  have "py_strip ''key'' = ''key''" by code_simp
  then show ?thesis
    by (simp add: checkout_route_def create_checkout_def open_session_def demo_begin demo_commit_intent
      finish_checkout_def demo_posted demo_bind close_session_def posted_def)
qed

text \<open>The payment webhook, from its decoding to its commit.\<close>

lemma demo_decode:
  "decode_webhook (demo_env 2) ''paid'' ''tok'' = Inr (dict_items (demo_event ''PAYMENT_CONFIRMED'' ''e1''))"
proof -
  have "py_strip ''tok'' = ''tok''" by code_simp
  then show ?thesis
    by (simp add: decode_webhook_def demo_settings_def demo_loads_def demo_event_def)
qed

lemma demo_ids:
  "extract_provider_ids (dict_items (demo_event ev i)) = (Some ''pay1'', Some ''lnk1'')"
  "webhook_event_id (dict_items (demo_event ev ''e1'')) = Some ''e1''"
  "webhook_event_type (dict_items (demo_event ''PAYMENT_CONFIRMED'' i)) = ''PAYMENT_CONFIRMED''"
  by code_simp+

definition demo_claimed :: webhook_event where
  "demo_claimed = demo_paid_event\<lparr>ev_tenant := None, ev_user := None, ev_checkout_id := None,
     ev_status := Received, ev_processed_at := None\<rparr>"

lemma demo_claim:
  "claim_event (demo_env 2) (Some ''e1'') ''PAYMENT_CONFIRMED'' (Some ''pay1'') (Some ''lnk1'') ''paid''
     demo_bound_db = Some (demo_claimed, demo_bound_db\<lparr>bd_events := [demo_claimed]\<rparr>)"
  by (simp add: claim_event_def Let_def demo_bound_db_def demo_db_def empty_billing_db_def demo_claimed_def
      demo_paid_event_def event_key_def filled_def demo_uid add_event_def)

lemma demo_bound_fields:
  "co_provider demo_bound = ''asaas''" "co_provider_checkout_id demo_bound = Some ''lnk1''"
  "co_tenant demo_bound = ''t1''" "co_user demo_bound = ''u1''" "co_id demo_bound = ''10''"
  "co_status demo_bound = Pending" "co_kind demo_bound = Plan" "co_item_code demo_bound = ''pro''"
  "co_provider_payment_id demo_bound = None" "co_item_name demo_bound = ''Pro''"
  "co_amount_brl demo_bound = 10746" "co_amount_usd demo_bound = 199000"
  "co_idempotency_key demo_bound = ''key''"
  by (simp_all add: demo_bound_def demo_row_def)

lemma demo_days_credit:
  "obj_get (co_metadata demo_bound) ''entitlement_days'' = JInt 31" "int_or (JInt 31) n = Inr 31"
  "obj_get (co_metadata demo_bound) ''included_credit_usd'' = JStr (show_fixed 4 125000)"
  by (simp_all add: demo_bound_def obj_get_def demo_texts int_or_def py_or_def)

definition demo_linked :: checkout where
  "demo_linked = demo_bound\<lparr>co_provider_payment_id := Some ''pay1''\<rparr>"

definition demo_confirmed :: checkout where
  "demo_confirmed = demo_linked\<lparr>co_status := Paid, co_confirmed_at := Some 2\<rparr>"

definition demo_event2 :: webhook_event where
  "demo_event2 = demo_claimed\<lparr>ev_tenant := Some ''t1'', ev_user := Some ''u1'',
     ev_checkout_id := Some ''10''\<rparr>"

definition demo_linked_db :: billing_db where
  "demo_linked_db = demo_bound_db\<lparr>bd_checkouts := [demo_linked], bd_events := [demo_event2]\<rparr>"

definition demo_confirmed_db :: billing_db where
  "demo_confirmed_db = demo_linked_db\<lparr>bd_checkouts := [demo_confirmed],
     bd_entitlements := [demo_entitlement], bd_transactions := [demo_tx], bd_wallets := [demo_wallet],
     bd_ledger := [demo_credit]\<rparr>"

lemma demo_confirmed_fields:
  "co_tenant demo_confirmed = ''t1''" "co_user demo_confirmed = ''u1''" "co_id demo_confirmed = ''10''"
  "co_kind demo_confirmed = Plan" "co_item_code demo_confirmed = ''pro''"
  "co_item_name demo_confirmed = ''Pro''" "co_amount_brl demo_confirmed = 10746"
  "co_amount_usd demo_confirmed = 199000" "co_metadata demo_confirmed = co_metadata demo_bound"
  by (simp_all add: demo_confirmed_def demo_linked_def demo_bound_fields)

lemma demo_db_tables:
  "bd_entitlements demo_linked_db = []" "bd_transactions demo_linked_db = []"
  "bd_wallets demo_linked_db = []" "bd_ledger demo_linked_db = []"
  "bd_checkouts demo_linked_db = [demo_linked]"
  by (simp_all add: demo_linked_db_def demo_bound_db_def demo_db_def empty_billing_db_def)

lemma demo_activate:
  "activate_entitlement demo_confirmed 2 (save_checkout demo_confirmed demo_linked_db) =
     Inr (demo_linked_db\<lparr>bd_checkouts := [demo_confirmed], bd_entitlements := [demo_entitlement]\<rparr>)"
  by (simp add: activate_entitlement_def demo_confirmed_fields entitlement_days_def demo_days_credit
      entitlement_for_actor_def save_checkout_def put_row_def demo_db_tables add_entitlement_def
      demo_entitlement_def days_def) (simp add: demo_linked_def demo_bound_fields)

lemma demo_record:
  "record_transaction (demo_env 2) demo_confirmed ''pay1'' ''confirmed'' ''recurring'' 2
     (demo_linked_db\<lparr>bd_checkouts := [demo_confirmed], bd_entitlements := [demo_entitlement]\<rparr>) =
   (demo_tx, demo_linked_db\<lparr>bd_checkouts := [demo_confirmed], bd_entitlements := [demo_entitlement],
      bd_transactions := [demo_tx]\<rparr>)"
  by (simp add: record_transaction_def demo_db_tables demo_confirmed_fields demo_uid Let_def
      add_transaction_def demo_tx_def)

lemma demo_credit_wallet:
  "credit_wallet (demo_env 2) demo_confirmed ''pay1'' 125000
     (demo_linked_db\<lparr>bd_checkouts := [demo_confirmed], bd_entitlements := [demo_entitlement],
      bd_transactions := [demo_tx]\<rparr>) = demo_confirmed_db"
  by (simp add: credit_wallet_def get_or_create_wallet_def wallet_for_actor_def demo_db_tables
      demo_confirmed_fields demo_uid Let_def new_wallet_def add_wallet_def ledger_exists_def
      save_wallet_def put_row_def add_ledger_def credit_key_def demo_confirmed_db_def demo_wallet_def
      demo_credit_def)

lemma demo_apply:
  "apply_decision (demo_env 2) Confirm demo_linked Paid ''pay1'' demo_linked_db =
     Inr (demo_confirmed, ''billing.payment.confirmed'', demo_confirmed_db)"
  by (simp add: apply_decision_def demo_confirmed_def [symmetric] demo_confirmed_fields Let_def
      demo_activate demo_record demo_days_credit decimal4_show demo_credit_wallet)

lemma demo_paid_constraints: "constraints_ok demo_paid_db"
  by (simp add: constraints_ok_def unique_key_def checkout_links_def demo_paid_db_def demo_db_def
      empty_billing_db_def demo_wallet_def demo_credit_def)

lemma demo_finish:
  "finish_webhook (demo_env 2) demo_event2 demo_confirmed ''PAYMENT_CONFIRMED'' ''billing.payment.confirmed''
     \<lparr>work = demo_confirmed_db, durable = d\<rparr> =
   (Inr ProcessedEvent, \<lparr>work = demo_paid_db, durable = demo_paid_db\<rparr>)"
proof -
  have e: "demo_event2\<lparr>ev_status := Processed, ev_processed_at := Some 2\<rparr> = demo_paid_event"
    by (simp add: demo_event2_def demo_claimed_def demo_paid_event_def)
  have c: "demo_confirmed\<lparr>co_updated_at := 2\<rparr> = demo_paid"
    by (simp add: demo_confirmed_def demo_linked_def demo_paid_def)
  have f: "co_id demo_paid = ''10''" "ev_key demo_paid_event = ev_key demo_event2"
    "ev_id demo_paid_event = ev_id demo_event2"
    by (simp_all add: demo_paid_def demo_bound_fields demo_event2_def demo_claimed_def)
  have d: "audit (Some ''t1'') None ''billing.payment.confirmed'' ''billing_checkout'' (Some ''10'') ''success''
      [(''event_type'', JStr ''PAYMENT_CONFIRMED''), (''provider'', JStr ''asaas''),
       (''checkout_kind'', JStr ''plan''), (''item_code'', JStr ''pro''), (''previous_state_guarded'', JBool True)]
      (save_checkout demo_paid (save_event demo_paid_event demo_confirmed_db)) = demo_paid_db"
    by (simp add: audit_def add_audit_def audit_forbidden_def save_checkout_def save_event_def put_row_def
        demo_confirmed_db_def demo_linked_db_def demo_bound_db_def demo_paid_db_def f demo_confirmed_fields)
  show ?thesis
    using demo_paid_constraints
    by (simp add: finish_webhook_def Let_def e c demo_confirmed_fields session_simps d)
qed

lemma demo_webhook_paid:
  "webhook_route (demo_env 2) ''paid'' ''tok'' demo_bound_db = (Inr ProcessedEvent, demo_paid_db)"
proof -
  have tok: "py_strip ''tok'' = ''tok''" by code_simp
  have ck: "checkout_for_provider (demo_bound_db\<lparr>bd_events := [demo_claimed]\<rparr>) (Some ''pay1'') (Some ''lnk1'')
      = Some demo_bound"
    by (simp add: checkout_for_provider_def filled_def demo_bound_db_def demo_bound_fields)
  have st: "co_status demo_linked = Pending" by (simp add: demo_linked_def demo_bound_fields)
  have w: "save_checkout demo_linked (save_event demo_event2 (demo_bound_db\<lparr>bd_events := [demo_claimed]\<rparr>))
      = demo_linked_db"
    by (simp add: save_checkout_def save_event_def put_row_def demo_linked_db_def demo_bound_db_def
        demo_linked_def demo_event2_def)
  have h: "handle_claimed (demo_env 2) demo_claimed ''PAYMENT_CONFIRMED'' (Some ''pay1'') (Some ''lnk1'')
      \<lparr>work = demo_bound_db\<lparr>bd_events := [demo_claimed]\<rparr>, durable = demo_bound_db\<rparr>
      = (Inr ProcessedEvent, \<lparr>work = demo_paid_db, durable = demo_paid_db\<rparr>)"
    by (simp add: handle_claimed_def ck Let_def or_option_def filled_def demo_bound_fields
        demo_event2_def [symmetric] demo_linked_def [symmetric] session_simps w st
        billing_transition_def terminal_financial_def confirm_events_def demo_apply demo_finish)
  show ?thesis
    by (simp add: webhook_route_def tok process_webhook_def demo_decode demo_ids session_simps
        demo_claim h)
qed

text \<open>Both requests as a serial run.\<close>

lemma demo_run: "billing_run [demo_checkout 1, demo_webhook 2 ''paid''] demo_db = demo_paid_db"
  by (simp add: billing_run_def demo_checkout_def demo_webhook_def demo_checkout_route demo_webhook_paid)

lemma demo_fresh: "run_ids_fresh [demo_checkout 1, demo_webhook 2 ''paid''] demo_db"
proof -
  have "bd_checkouts demo_db = []" "bd_wallets demo_bound_db = []"
    by (simp_all add: demo_db_def demo_bound_db_def empty_billing_db_def)
  then show ?thesis
    by (simp add: run_ids_fresh_def demo_checkout_def demo_webhook_def demo_checkout_route
        checkout_id_fresh_def wallet_id_fresh_def fresh_key_def)
qed

lemma demo_bound_inv: "billing_inv demo_bound_db"
proof -
  have "run_ok op_ids_fresh billing_step [demo_checkout 1] demo_db"
    using demo_fresh by (simp add: run_ids_fresh_def)
  from billing.run_inv [OF this demo_inv] show ?thesis
    by (simp add: demo_checkout_def demo_checkout_route)
qed

lemma demo_paid_inv: "billing_inv demo_paid_db"
  using billing.run_inv [OF demo_fresh [unfolded run_ids_fresh_def] demo_inv] demo_run
  by (simp add: billing_run_def)

lemma demo_refund_fresh: "run_ids_fresh [demo_webhook 3 ''refund''] demo_paid_db"
  by (simp add: run_ids_fresh_def demo_webhook_def wallet_id_fresh_def fresh_key_def demo_paid_db_def
      demo_wallet_def demo_env_def show_int_def show_nat.simps digit_letters_def)

text \<open>The refund of the same payment.\<close>

lemma demo_paid_tables:
  "bd_checkouts demo_paid_db = [demo_paid]" "bd_ledger demo_paid_db = [demo_credit]"
  "bd_wallets demo_paid_db = [demo_wallet]" "bd_events demo_paid_db = [demo_paid_event]"
  by (simp_all add: demo_paid_db_def)

lemma demo_paid_fields:
  "co_tenant demo_paid = ''t1''" "co_user demo_paid = ''u1''" "co_id demo_paid = ''10''"
  "co_provider demo_paid = ''asaas''" "co_provider_checkout_id demo_paid = Some ''lnk1''"
  "co_provider_payment_id demo_paid = Some ''pay1''" "co_status demo_paid = Paid"
  by (simp_all add: demo_paid_def demo_bound_fields)

lemma demo_refund:
  "decode_webhook (demo_env 3) ''refund'' (py_strip ''tok'') = Inr (dict_items (demo_event ''PAYMENT_REFUNDED'' ''e3''))"
  "webhook_event_type (dict_items (demo_event ''PAYMENT_REFUNDED'' ''e3'')) = ''PAYMENT_REFUNDED''"
  "checkout_for_provider demo_paid_db (Some ''pay1'') (Some ''lnk1'') = Some demo_paid"
  "original_credit demo_paid_db demo_paid = Some demo_credit"
  "\<not> ledger_exists demo_paid_db (co_tenant demo_paid) (reversal_key (the (payment_ref (Some ''pay1'') demo_paid)) (status_text Refunded))"
  "accounts demo_paid_db (''t1'', ''u1'') = \<lparr>ac_balance = 125000, ac_owed = 0\<rparr>"
  "co_tenant demo_paid = ''t1''" "co_user demo_paid = ''u1''" "lg_amount demo_credit = 125000"
proof -
  have tok: "py_strip ''tok'' = ''tok''" by code_simp
  show "decode_webhook (demo_env 3) ''refund'' (py_strip ''tok'') = Inr (dict_items (demo_event ''PAYMENT_REFUNDED'' ''e3''))"
    by (simp add: tok decode_webhook_def demo_settings_def demo_loads_def demo_event_def)
  show "webhook_event_type (dict_items (demo_event ''PAYMENT_REFUNDED'' ''e3'')) = ''PAYMENT_REFUNDED''"
    by code_simp
  show "original_credit demo_paid_db demo_paid = Some demo_credit"
    by (simp add: original_credit_def demo_paid_tables demo_paid_fields) (simp add: demo_credit_def)
qed (simp_all add: checkout_for_provider_def filled_def demo_paid_tables demo_paid_fields ledger_exists_def
    reversal_key_def payment_ref_def or_option_def demo_credit_def accounts_def wallet_owner_def demo_wallet_def)

lemma demo_refund_new: "wallet_id_fresh (demo_env 3) demo_paid_db"
  using demo_refund_fresh by (simp add: run_ids_fresh_def demo_webhook_def)

lemma demo_refund_processed:
  "fst (webhook_route (demo_env 3) ''refund'' ''tok'' demo_paid_db) = Inr ProcessedEvent"
proof -
  have id: "webhook_event_id (dict_items (demo_event ''PAYMENT_REFUNDED'' ''e3'')) = Some ''e3''" by code_simp
  have "\<not> delivery_seen (demo_env 3, ''refund'', ''tok'') demo_paid_db"
    by (simp add: delivery_seen_def delivery_key_def demo_refund demo_ids id event_key_def filled_def
        key_claimed_def demo_paid_tables demo_paid_event_def)
  moreover have "filled (payment_ref (Some ''pay1'') demo_paid)"
    by (simp add: payment_ref_def or_option_def filled_def)
  moreover have "billing_transition (co_status demo_paid)
      (webhook_event_type (dict_items (demo_event ''PAYMENT_REFUNDED'' ''e3''))) = (Reverse, Refunded)"
    by (simp add: demo_refund demo_paid_fields billing_transition_def terminal_financial_def
        confirm_events_def reversal_events_def)
  ultimately show ?thesis
    by (rule webhook_processes [OF demo_paid_inv demo_refund_new demo_refund(1) demo_ids(1) _ demo_refund(3)])
      (simp_all only: reverse_applies HOL.simp_thms decision.distinct not_False_eq_True)
qed

lemma demo_bound_tables:
  "bd_checkouts demo_bound_db = [demo_bound]" "bd_wallets demo_bound_db = []" "bd_events demo_bound_db = []"
  by (simp_all add: demo_bound_db_def demo_db_def empty_billing_db_def)

lemma demo_key: "delivery_key (demo_env i, ''paid'', ''tok'') = Some ''asaas-event|e1''"
proof -
  have "py_strip ''tok'' = ''tok''" by code_simp
  then have "decode_webhook (demo_env i) ''paid'' (py_strip ''tok'')
      = Inr (dict_items (demo_event ''PAYMENT_CONFIRMED'' ''e1''))"
    by (simp add: decode_webhook_def demo_settings_def demo_loads_def demo_event_def)
  then show ?thesis by (simp add: delivery_key_def demo_ids event_key_def filled_def)
qed

lemma demo_bound_unseen: "\<not> delivery_seen (demo_env i, ''paid'', ''tok'') demo_bound_db"
  by (simp add: delivery_seen_def demo_key key_claimed_def demo_bound_tables)

text \<open>A provider that rejects the POST.\<close>

definition demo_rejecting :: provider where
  "demo_rejecting = \<lparr>pv_post = (\<lambda>p. HttpResponse 400 None), pv_get = pv_get demo_provider\<rparr>"

lemma demo_rejected:
  "\<exists>r d1 posts c. checkout_route (demo_env 1) demo_principal demo_rejecting demo_request (Some ''key'') demo_db
      = (r, d1, posts) \<and> c \<in> set (bd_checkouts d1) \<and> co_status c = Failed"
proof -
  have key: "py_strip ''key'' = ''key''" by code_simp
  have post: "create_payment_link demo_settings demo_rejecting demo_payload
      = Inl (ProviderError ''BILLING_PROVIDER_REJECTED'' 502 False)"
    by (simp add: create_payment_link_def demo_rejecting_def)
  have id: "co_id demo_row = ''10''" by (simp add: demo_row_def)
  let ?c = "(set_provider_operation_state ''failed'' ''10'' (Some ''BILLING_PROVIDER_REJECTED'')
    (demo_row\<lparr>co_status := Failed\<rparr>))\<lparr>co_updated_at := 1\<rparr>"
  have "?c \<in> set (bd_checkouts (fst (snd (checkout_route (demo_env 1) demo_principal demo_rejecting demo_request
      (Some ''key'') demo_db))))"
    by (simp add: checkout_route_def key create_checkout_def open_session_def demo_begin demo_commit_intent
        finish_checkout_def post record_provider_failure_def Let_def session_simps frame_simps save_checkout_def
        put_row_def id)
  moreover have "co_status ?c = Failed" by simp
  ultimately show ?thesis by (metis prod.collapse)
qed

end
