(* ===== verification/Billing_Interleaving.thy ===== *)
theory Billing_Interleaving
  imports Billing_Ops
begin

text \<open>
  Concurrent checkout requests. The stretches of \<open>create_checkout\<close> between its commits and its network
  calls are the atomic steps; requests of any number of processes interleave, webhooks arrive in
  between, and a process may stop after any step. A request keeps the row it read (\<open>expire_on_commit\<close>
  is off), and writing it back changes only the columns it assigned, so its finishing step works on
  the current row with the request's metadata. The theorem of interest: the provider receives at most
  one POST for an idempotency key, and its row is durable before the POST.
\<close>

record ck_request =
  cr_env :: env
  cr_principal :: principal
  cr_provider :: provider
  cr_request :: checkout_request
  cr_key :: string

datatype ck_phase =
    Waiting
  | Prepared checkout item
  | Committed checkout item
  | Posted checkout item
  | Reconciling checkout
  | Stopped

record ck_world =
  cw_db :: billing_db
  cw_phase :: "nat \<Rightarrow> ck_phase"
  cw_posted :: "checkout list"

definition set_phase :: "nat \<Rightarrow> ck_phase \<Rightarrow> ck_world \<Rightarrow> ck_world" where
  "set_phase i ph w = w\<lparr>cw_phase := (cw_phase w)(i := ph)\<rparr>"

text \<open>The session in which a request writes the row it holds: the current row with its metadata.\<close>

definition held_row :: "checkout \<Rightarrow> checkout \<Rightarrow> checkout" where
  "held_row row cur = cur\<lparr>co_metadata := co_metadata row\<rparr>"

definition held_session :: "checkout \<Rightarrow> checkout \<Rightarrow> billing_db \<Rightarrow> billing_db session" where
  "held_session row cur d = \<lparr>work = save_checkout (held_row row cur) d, durable = d\<rparr>"

inductive ck_step :: "(nat \<Rightarrow> ck_request) \<Rightarrow> ck_world \<Rightarrow> ck_world \<Rightarrow> bool" for reqs where
  begin_intent: "cw_phase w i = Waiting \<Longrightarrow>
     checkout_begin (cr_env (reqs i)) (cr_principal (reqs i)) (cr_request (reqs i)) (cr_key (reqs i))
       (cw_db w) = StartIntent row payload \<Longrightarrow>
     ck_step reqs w (set_phase i (Prepared row payload) w)"
| begin_existing: "cw_phase w i = Waiting \<Longrightarrow>
     checkout_begin (cr_env (reqs i)) (cr_principal (reqs i)) (cr_request (reqs i)) (cr_key (reqs i))
       (cw_db w) = StartExisting row \<Longrightarrow>
     ck_step reqs w (set_phase i (Reconciling row) w)"
| commit_ok: "cw_phase w i = Prepared row payload \<Longrightarrow>
     fresh_key co_id (co_id row) (bd_checkouts (cw_db w)) \<Longrightarrow>
     commit_intent (cr_principal (reqs i)) row (open_session (cw_db w)) = Some s \<Longrightarrow>
     ck_step reqs w (set_phase i (Committed row payload) (w\<lparr>cw_db := durable s\<rparr>))"
| commit_conflict: "cw_phase w i = Prepared row payload \<Longrightarrow>
     commit_intent (cr_principal (reqs i)) row (open_session (cw_db w)) = None \<Longrightarrow>
     checkout_by_idempotency (cw_db w) (pr_tenant_id (cr_principal (reqs i)))
       (pr_user_id (cr_principal (reqs i))) (cr_key (reqs i)) = Some row1 \<Longrightarrow>
     ck_step reqs w (set_phase i (Reconciling row1) w)"
| post: "cw_phase w i = Committed row payload \<Longrightarrow>
     assert_configured (e_settings (cr_env (reqs i))) = None \<Longrightarrow>
     ck_step reqs w (set_phase i (Posted row payload) (w\<lparr>cw_posted := cw_posted w @ [row]\<rparr>))"
| finish: "cw_phase w i = Posted row payload \<or>
       cw_phase w i = Committed row payload \<and> assert_configured (e_settings (cr_env (reqs i))) \<noteq> None \<Longrightarrow>
     scalar (\<lambda>c. co_id c = co_id row) (bd_checkouts (cw_db w)) = Some cur \<Longrightarrow>
     finish_checkout (cr_env (reqs i)) (cr_principal (reqs i)) (cr_provider (reqs i)) (held_row row cur)
       payload (held_session row cur (cw_db w)) = (r, t) \<Longrightarrow>
     ck_step reqs w (set_phase i Stopped (w\<lparr>cw_db := durable t\<rparr>))"
| reconcile: "cw_phase w i = Reconciling row \<Longrightarrow>
     scalar (\<lambda>c. co_id c = co_id row) (bd_checkouts (cw_db w)) = Some cur \<Longrightarrow>
     reconcile_existing_checkout (cr_env (reqs i)) (cr_principal (reqs i)) (cr_provider (reqs i))
       (held_row row cur) (held_session row cur (cw_db w)) = (r, t) \<Longrightarrow>
     ck_step reqs w (set_phase i Stopped (w\<lparr>cw_db := durable t\<rparr>))"
| webhook: "wallet_id_fresh env (cw_db w) \<Longrightarrow>
     ck_step reqs w (w\<lparr>cw_db := snd (webhook_route env raw token (cw_db w))\<rparr>)"
| crash: "ck_step reqs w (set_phase i Stopped w)"

inductive_cases ck_stepE: "ck_step reqs w w1"

definition ck_start :: "billing_db \<Rightarrow> ck_world" where
  "ck_start d = \<lparr>cw_db = d, cw_phase = (\<lambda>i. Waiting), cw_posted = []\<rparr>"

section \<open>The invariant\<close>

definition in_db :: "billing_db \<Rightarrow> checkout \<Rightarrow> bool" where
  "in_db d row \<longleftrightarrow> (\<exists>c \<in> set (bd_checkouts d). co_id c = co_id row \<and> actor_key c = actor_key row)"

fun owns :: "ck_phase \<Rightarrow> checkout option" where
  "owns (Committed row payload) = Some row"
| "owns _ = None"

fun holds :: "ck_phase \<Rightarrow> checkout option" where
  "holds (Committed row payload) = Some row"
| "holds (Posted row payload) = Some row"
| "holds _ = None"

definition ck_inv :: "ck_world \<Rightarrow> bool" where
  "ck_inv w \<longleftrightarrow> billing_inv (cw_db w) \<and> distinct (map actor_key (cw_posted w))
     \<and> (\<forall>row \<in> set (cw_posted w). in_db (cw_db w) row)
     \<and> (\<forall>i row. holds (cw_phase w i) = Some row \<longrightarrow> in_db (cw_db w) row)
     \<and> (\<forall>i row. owns (cw_phase w i) = Some row \<longrightarrow> actor_key row \<notin> actor_key ` set (cw_posted w))
     \<and> (\<forall>i j row row1. i \<noteq> j \<longrightarrow> owns (cw_phase w i) = Some row \<longrightarrow> owns (cw_phase w j) = Some row1
          \<longrightarrow> actor_key row \<noteq> actor_key row1)
     \<and> (\<forall>i row payload. cw_phase w i = Prepared row payload \<longrightarrow> co_provider_checkout_id row = None)"

definition keeps_rows :: "billing_db \<Rightarrow> billing_db \<Rightarrow> bool" where
  "keeps_rows d e \<longleftrightarrow> (\<forall>row. in_db d row \<longrightarrow> in_db e row)"

lemma keeps_refl [simp]: "keeps_rows d d"
  by (simp add: keeps_rows_def)

lemma evolves_keeps: "evolves d e \<Longrightarrow> keeps_rows d e"
  by (fastforce simp: evolves_def keeps_rows_def in_db_def sold_def)

text \<open>A step that only moves the database and drops what a request holds.\<close>

lemma ck_inv_stop:
  assumes "ck_inv w" and "billing_inv d" and "keeps_rows (cw_db w) d"
    and "holds ph = None" and "owns ph = None" and "\<And>row payload. ph \<noteq> Prepared row payload"
  shows "ck_inv (set_phase i ph (w\<lparr>cw_db := d\<rparr>))"
  using assms unfolding ck_inv_def set_phase_def keeps_rows_def by (auto split: if_splits)

lemma ck_inv_same_db:
  assumes "ck_inv w" and "billing_inv d" and "keeps_rows (cw_db w) d"
  shows "ck_inv (w\<lparr>cw_db := d\<rparr>)"
  using assms unfolding ck_inv_def keeps_rows_def by auto

section \<open>The finishing steps\<close>

lemma held_fields [simp]:
  "co_id (held_row row cur) = co_id cur" "actor_key (held_row row cur) = actor_key cur"
  "same_identity cur (held_row row cur)" "sold (held_row row cur) = sold cur"
  "co_status (held_row row cur) = co_status cur"
  by (simp_all add: held_row_def actor_key_def same_identity_def sold_def)

lemma held_session_ok:
  assumes inv: "billing_inv d" and cur: "cur \<in> set (bd_checkouts d)"
  shows "billing_inv (work (held_session row cur d))"
    and "held_row row cur \<in> set (bd_checkouts (work (held_session row cur d)))"
    and "evolves d (work (held_session row cur d))"
  using inv_save_checkout [OF inv cur, of "held_row row cur"] save_checkout_mem [OF cur, of "held_row row cur"]
    evolves_save [OF inv_unique_id [OF inv] cur, of "held_row row cur"]
  by (simp_all add: held_session_def)

lemma save_keeps:
  assumes inv: "billing_inv d" and c: "c \<in> set (bd_checkouts d)" and s: "sold c1 = sold c"
  shows "keeps_rows d (save_checkout c1 d)"
proof -
  have "\<exists>y \<in> set (bd_checkouts (save_checkout c1 d)). sold y = sold x" if x: "x \<in> set (bd_checkouts d)" for x
  proof (cases "co_id x = co_id c1")
    case True
    with inv_unique_id [OF inv] c s x have "x = c" by (metis option.inject prod.inject scalar_unique sold_def)
    with s c save_checkout_mem [of c d c1] True show ?thesis by auto
  next
    case False
    with x have "x \<in> set (bd_checkouts (save_checkout c1 d))" by (simp add: save_checkout_def put_row_other)
    then show ?thesis by blast
  qed
  then show ?thesis by (fastforce simp: keeps_rows_def in_db_def sold_def)
qed

lemma keeps_trans: "keeps_rows d e \<Longrightarrow> keeps_rows e f \<Longrightarrow> keeps_rows d f"
  by (simp add: keeps_rows_def)

lemma keeps_frame: "bd_checkouts e = bd_checkouts d \<Longrightarrow> keeps_rows d e"
  by (simp add: keeps_rows_def in_db_def)

lemma commits_keep:
  assumes inv: "billing_inv d" and cur: "cur \<in> set (bd_checkouts d)"
    and c: "session_commits (held_session row cur d) t"
  shows "billing_inv (durable t) \<and> keeps_rows d (durable t)"
  using c held_session_ok [OF inv cur, of row] inv
  by (auto simp: session_commits_def held_session_def intro!: evolves_keeps elim: evolves_trans)

lemma keeps_audit [simp]: "keeps_rows d (audit t a x y z u m e) = keeps_rows d e"
  by (simp add: keeps_rows_def in_db_def frame_simps)

text \<open>A failure is recorded whatever the current status is.\<close>

lemma failure_keeps:
  assumes inv: "billing_inv d" and cur: "cur \<in> set (bd_checkouts d)"
    and t: "t = record_provider_failure env p (held_row row cur) code unknown (held_session row cur d)"
  shows "billing_inv (durable t) \<and> keeps_rows d (durable t)"
proof -
  note h = held_session_ok [OF inv cur, of row]
  define c1 where "c1 = (if unknown
      then set_provider_operation_state ''outcome_unknown'' (co_id (held_row row cur)) (Some code) (held_row row cur)
      else set_provider_operation_state ''failed'' (co_id (held_row row cur)) (Some code)
        (held_row row cur\<lparr>co_status := Failed\<rparr>))\<lparr>co_updated_at := e_now env\<rparr>"
  have c1: "same_identity (held_row row cur) c1" "sold c1 = sold (held_row row cur)"
    by (auto simp: c1_def same_identity_def)
  have d: "\<exists>a1 a2 a3 a4 a5 a6 a7. durable t = audit a1 a2 a3 a4 a5 a6 a7
      (save_checkout c1 (work (held_session row cur d)))"
    unfolding t record_provider_failure_def Let_def c1_def by (simp add: session_simps) blast
  have "billing_inv (save_checkout c1 (work (held_session row cur d)))"
    by (rule inv_save_checkout [OF h(1,2) c1(1)])
  moreover have "keeps_rows d (save_checkout c1 (work (held_session row cur d)))"
    by (rule keeps_trans [OF evolves_keeps [OF h(3)] save_keeps [OF h(1,2) c1(2)]])
  ultimately show ?thesis
    using d by auto
qed

lemma finish_keeps:
  assumes inv: "billing_inv d" and cur: "cur \<in> set (bd_checkouts d)"
    and fin: "finish_checkout env p prov (held_row row cur) payload (held_session row cur d) = (r, t)"
  shows "billing_inv (durable t) \<and> keeps_rows d (durable t)"
proof -
  note h = held_session_ok [OF inv cur, of row]
  have "(\<exists>resp. bind_provider_checkout env (held_row row cur) resp (pr_user_id p) False
         (held_session row cur d) = (r, t))
      \<or> (\<exists>code u. t = record_provider_failure env p (held_row row cur) code u (held_session row cur d))
      \<or> t = held_session row cur d"
    using fin by (auto simp: finish_checkout_def split: sum.splits billing_error.splits)
  then show ?thesis
  proof (elim disjE exE)
    fix resp
    assume "bind_provider_checkout env (held_row row cur) resp (pr_user_id p) False (held_session row cur d) = (r, t)"
    from commits_keep [OF inv cur bind_commits [OF h(1,2) this]] show ?thesis .
  next
    fix code u
    assume "t = record_provider_failure env p (held_row row cur) code u (held_session row cur d)"
    from failure_keeps [OF inv cur this] show ?thesis .
  qed (use inv in \<open>simp add: held_session_def\<close>)
qed

lemma reconcile_keeps:
  assumes inv: "billing_inv d" and cur: "cur \<in> set (bd_checkouts d)"
    and rec: "reconcile_existing_checkout env p prov (held_row row cur) (held_session row cur d) = (r, t)"
  shows "billing_inv (durable t) \<and> keeps_rows d (durable t)"
  by (rule commits_keep [OF inv cur reconcile_commits [OF held_session_ok(1,2) [OF inv cur] rec]])

section \<open>Every step keeps the invariant\<close>

lemma commit_step_inv:
  assumes inv: "ck_inv w" and ph: "cw_phase w i = Prepared row payload"
    and new: "fresh_key co_id (co_id row) (bd_checkouts (cw_db w))"
    and ci: "commit_intent p row (open_session (cw_db w)) = Some s"
  shows "ck_inv (set_phase i (Committed row payload) (w\<lparr>cw_db := durable s\<rparr>))"
proof -
  let ?d = "cw_db w"
  have link: "co_provider_checkout_id row = None" using inv ph unfolding ck_inv_def by metis
  have none: "scalar (\<lambda>c. actor_key c = actor_key row) (bd_checkouts ?d) = None"
    using ci by (auto simp: commit_intent_def session_simps split: if_splits)
  have "billing_inv (work (open_session ?d))" using inv by (simp add: ck_inv_def session_simps)
  note c = commit_intent_ok [OF this _ link ci]
  have c: "billing_inv (durable s)" "evolves ?d (durable s)" "row \<in> set (bd_checkouts (durable s))"
    using c new by (simp_all add: session_simps)
  note k = evolves_keeps [OF c(2)]
  have free: "actor_key x \<noteq> actor_key row" if "in_db ?d x" for x
    using that none by (auto simp: in_db_def scalar_None)
  have "in_db (durable s) row" using c(3) by (auto simp: in_db_def)
  moreover have "owns ph = Some x \<Longrightarrow> holds ph = Some x" for ph x by (cases ph) auto
  ultimately show ?thesis
    using inv c(1) k free unfolding ck_inv_def set_phase_def keeps_rows_def
    by (auto split: if_splits) (metis+)
qed

lemma post_step_inv:
  assumes inv: "ck_inv w" and ph: "cw_phase w i = Committed row payload"
  shows "ck_inv (set_phase i (Posted row payload) (w\<lparr>cw_posted := cw_posted w @ [row]\<rparr>))"
proof -
  have own: "owns (cw_phase w i) = Some row" "holds (cw_phase w i) = Some row" using ph by simp_all
  have "actor_key row \<notin> actor_key ` set (cw_posted w)" "in_db (cw_db w) row"
    using inv own by (auto simp: ck_inv_def)
  moreover have "actor_key x \<noteq> actor_key row" if "owns (cw_phase w j) = Some x" "j \<noteq> i" for j x
    using inv own that unfolding ck_inv_def by metis
  ultimately show ?thesis
    using inv unfolding ck_inv_def set_phase_def by (auto split: if_splits)
qed

lemma ck_step_inv: "ck_step reqs w w1 \<Longrightarrow> ck_inv w \<Longrightarrow> ck_inv w1"
proof (induction rule: ck_step.induct)
  case (begin_intent w i row payload)
  from checkout_begin_intentD [OF begin_intent(2)] obtain item user where
    "new_checkout (cr_env (reqs i)) (cr_principal (reqs i)) (cr_request (reqs i)) (cr_key (reqs i)) item user
      = Inr (row, payload)" .
  from new_checkoutD(4) [OF this] begin_intent(3) show ?case
    unfolding ck_inv_def set_phase_def by (auto split: if_splits)
next
  case (begin_existing w i row)
  then show ?case using ck_inv_stop [of w "cw_db w" "Reconciling row" i] by (simp add: ck_inv_def)
next
  case (commit_ok w i row payload s)
  then show ?case by (intro commit_step_inv)
next
  case (commit_conflict w i row payload row1)
  then show ?case using ck_inv_stop [of w "cw_db w" "Reconciling row1" i] by (simp add: ck_inv_def)
next
  case (post w i row payload)
  then show ?case by (intro post_step_inv)
next
  case (finish w i row payload cur r t)
  have "cur \<in> set (bd_checkouts (cw_db w))" using finish(2) by (auto dest: scalar_SomeD)
  from finish_keeps [OF _ this finish(3)] finish(4) show ?case by (intro ck_inv_stop) (auto simp: ck_inv_def)
next
  case (reconcile w i row cur r t)
  have "cur \<in> set (bd_checkouts (cw_db w))" using reconcile(2) by (auto dest: scalar_SomeD)
  from reconcile_keeps [OF _ this reconcile(3)] reconcile(4) show ?case
    by (intro ck_inv_stop) (auto simp: ck_inv_def)
next
  case (webhook env w raw token)
  obtain r d1 where w: "webhook_route env raw token (cw_db w) = (r, d1)" by fastforce
  from webhook_route_ok [OF _ webhook(1) w] webhook(2) w show ?case
    by (intro ck_inv_same_db) (auto simp: ck_inv_def intro: evolves_keeps)
next
  case (crash w i)
  then show ?case using ck_inv_stop [of w "cw_db w" Stopped i] by (simp add: ck_inv_def)
qed

lemma ck_reach_inv:
  "(ck_step reqs)\<^sup>*\<^sup>* w w1 \<Longrightarrow> ck_inv w \<Longrightarrow> ck_inv w1"
  by (induction rule: rtranclp_induct) (auto intro: ck_step_inv)

lemma ck_start_inv: "billing_inv d \<Longrightarrow> ck_inv (ck_start d)"
  by (simp add: ck_inv_def ck_start_def)

end
