(* ===== verification/Billing_Views.thy ===== *)
theory Billing_Views
  imports Billing_Ops
begin

text \<open>
  The read side of billing: the views of service.py and the GET routes of routes.py. Timestamps stay
  instants (the code prints them with \<open>isoformat\<close>). A read route returns a view of the database and
  never a database. The administrator's totals are proved to agree with the ledger.
\<close>

section \<open>Views\<close>

record checkout_view_row =
  cv_id :: string
  cv_kind :: string
  cv_item_code :: string
  cv_item_name :: string
  cv_status :: string
  cv_url :: "string option"
  cv_currency :: string
  cv_amount_brl :: int
  cv_amount_usd :: int
  cv_created_at :: instant
  cv_confirmed_at :: "instant option"

definition checkout_view :: "checkout \<Rightarrow> checkout_view_row" where
  "checkout_view c = \<lparr>cv_id = co_id c, cv_kind = kind_text (co_kind c), cv_item_code = co_item_code c,
     cv_item_name = co_item_name c, cv_status = status_text (co_status c), cv_url = co_provider_url c,
     cv_currency = co_currency c, cv_amount_brl = co_amount_brl c, cv_amount_usd = co_amount_usd c,
     cv_created_at = co_created_at c, cv_confirmed_at = co_confirmed_at c\<rparr>"

record wallet_view_row =
  wv_id :: "string option"
  wv_currency :: string
  wv_status :: string
  wv_balance :: int
  wv_credited :: int
  wv_debited :: int
  wv_quarantined :: int
  wv_low_threshold :: "int option"

fun wallet_status_text :: "wallet_status \<Rightarrow> string" where
  "wallet_status_text WalletActive = ''active''"
| "wallet_status_text WalletQuarantined = ''quarantined''"

definition wallet_view :: "wallet option \<Rightarrow> wallet_view_row" where
  "wallet_view row = (case row of
     None \<Rightarrow> \<lparr>wv_id = None, wv_currency = ''USD'', wv_status = ''active'', wv_balance = 0,
       wv_credited = 0, wv_debited = 0, wv_quarantined = 0, wv_low_threshold = Some 30000\<rparr>
   | Some w \<Rightarrow> \<lparr>wv_id = Some (wl_id w), wv_currency = wl_currency w,
       wv_status = wallet_status_text (wl_status w), wv_balance = wl_balance w,
       wv_credited = wl_credited w, wv_debited = wl_debited w, wv_quarantined = wl_quarantined w,
       wv_low_threshold = wl_low_threshold w\<rparr>)"

record entitlement_view_row =
  nv_plan_code :: string
  nv_plan_name :: string
  nv_status :: string
  nv_starts_at :: "instant option"
  nv_expires_at :: "instant option"
  nv_last_payment_at :: "instant option"

definition entitlement_view :: "entitlement option \<Rightarrow> entitlement_view_row option" where
  "entitlement_view row = map_option (\<lambda>e. \<lparr>nv_plan_code = en_plan_code e, nv_plan_name = en_plan_name e,
     nv_status = en_status e, nv_starts_at = en_starts_at e, nv_expires_at = en_expires_at e,
     nv_last_payment_at = en_last_payment_at e\<rparr>) row"

record ledger_view_row =
  lv_id :: string
  lv_direction :: direction
  lv_source :: string
  lv_action_key :: "string option"
  lv_amount :: int
  lv_balance_after :: int
  lv_currency :: string
  lv_external_ref :: "string option"
  lv_created_at :: instant

definition ledger_view :: "ledger_entry \<Rightarrow> ledger_view_row" where
  "ledger_view l = \<lparr>lv_id = lg_id l, lv_direction = lg_direction l, lv_source = lg_source l,
     lv_action_key = lg_action_key l, lv_amount = lg_amount l, lv_balance_after = lg_balance_after l,
     lv_currency = lg_currency l, lv_external_ref = lg_external_ref l, lv_created_at = lg_created_at l\<rparr>"

record overview_row =
  ov_wallet :: wallet_view_row
  ov_entitlement :: "entitlement_view_row option"

definition overview :: "principal \<Rightarrow> billing_db \<Rightarrow> overview_row" where
  "overview p d =
     \<lparr>ov_wallet = wallet_view (wallet_for_actor d (pr_tenant_id p) (pr_user_id p)),
      ov_entitlement = entitlement_view (entitlement_for_actor d (pr_tenant_id p) (pr_user_id p))\<rparr>"

section \<open>Routes\<close>

definition plans_route :: "env \<Rightarrow> http_error + public_view list" where
  "plans_route env = map_sum raise_http id (list_plans env)"

definition topups_route :: "env \<Rightarrow> http_error + public_view list" where
  "topups_route env = map_sum raise_http id (list_topups env)"

definition checkout_status_route :: "principal \<Rightarrow> string \<Rightarrow> billing_db \<Rightarrow> http_error + checkout_view_row" where
  "checkout_status_route p cid d =
     (case checkout_for_actor d (pr_tenant_id p) (pr_user_id p) cid of
        None \<Rightarrow> Inl (HttpError 404 ''BILLING_CHECKOUT_NOT_FOUND'')
      | Some c \<Rightarrow> Inr (checkout_view c))"

definition wallet_route :: "principal \<Rightarrow> billing_db \<Rightarrow> wallet_view_row" where
  "wallet_route p d = wallet_view (wallet_for_actor d (pr_tenant_id p) (pr_user_id p))"

definition ledger_route :: "principal \<Rightarrow> int \<Rightarrow> billing_db \<Rightarrow> ledger_view_row list" where
  "ledger_route p limit d = map ledger_view (ledger_for_actor d (pr_tenant_id p) (pr_user_id p) limit)"

record transaction_view_row =
  tv_id :: string
  tv_user :: string
  tv_checkout_id :: "string option"
  tv_provider :: string
  tv_external_ref :: string
  tv_plan_code :: "string option"
  tv_charge_kind :: string
  tv_currency :: string
  tv_amount_usd :: int
  tv_status :: string
  tv_occurred_at :: instant

definition admin_transactions_route :: "principal \<Rightarrow> int \<Rightarrow> billing_db \<Rightarrow> transaction_view_row list" where
  "admin_transactions_route p limit d = map (\<lambda>t.
     \<lparr>tv_id = tx_id t, tv_user = tx_user t, tv_checkout_id = tx_checkout_id t, tv_provider = tx_provider t,
      tv_external_ref = tx_external_ref t, tv_plan_code = tx_plan_code t, tv_charge_kind = tx_charge_kind t,
      tv_currency = tx_currency t, tv_amount_usd = tx_amount_usd t, tv_status = tx_status t,
      tv_occurred_at = tx_occurred_at t\<rparr>) (admin_transactions d (pr_tenant_id p) limit)"

definition admin_summary_route :: "principal \<Rightarrow> billing_db \<Rightarrow> admin_summary_view" where
  "admin_summary_route p d = admin_summary d (pr_tenant_id p)"

section \<open>The totals agree with the ledger\<close>

lemma sum_by_key:
  fixes f :: "'l \<Rightarrow> int"
  assumes "distinct ids"
  shows "sum_list (map (\<lambda>i. sum_list (map f (filter (\<lambda>l. k l = i \<and> P l) ls))) ids)
    = sum_list (map f (filter (\<lambda>l. k l \<in> set ids \<and> P l) ls))"
  using assms
proof (induction ids)
  case (Cons i ids)
  have "sum_list (map f (filter (\<lambda>l. k l \<in> set (i # ids) \<and> P l) ls))
      = sum_list (map f (filter (\<lambda>l. k l = i \<and> P l) ls))
        + sum_list (map f (filter (\<lambda>l. k l \<in> set ids \<and> P l) ls))"
    using Cons.prems by (induction ls) auto
  with Cons show ?case by simp
qed simp

definition tenant_total :: "billing_db \<Rightarrow> string \<Rightarrow> direction \<Rightarrow> int" where
  "tenant_total d tenant dir =
     sum_list (map lg_amount (filter (\<lambda>l. lg_tenant l = tenant \<and> lg_direction l = dir) (bd_ledger d)))"

lemma ledger_of_tenant:
  assumes inv: "wallets_ok d"
  shows "sum_list (map (\<lambda>w. ledger_sum d dir w) (filter (\<lambda>w. wl_tenant w = t) (bd_wallets d)))
    = tenant_total d t dir"
proof -
  let ?ws = "filter (\<lambda>w. wl_tenant w = t) (bd_wallets d)"
  have u: "distinct (map wl_id (bd_wallets d))" using inv by (simp add: wallets_ok_def unique_key_def)
  have "(lg_wallet_id l \<in> set (map wl_id ?ws)) = (lg_tenant l = t)" if "l \<in> set (bd_ledger d)" for l
  proof -
    from inv that obtain w where w: "w \<in> set (bd_wallets d)" "wl_id w = lg_wallet_id l"
      "wallet_owner w = (lg_tenant l, lg_user l)" by (auto simp: wallets_ok_def)
    have same: "x = w" if "x \<in> set (bd_wallets d)" "wl_id x = lg_wallet_id l" for x
      using inj_onD [of wl_id "set (bd_wallets d)" x w] u that w(1,2) by (simp add: distinct_map)
    have t: "wl_tenant w = lg_tenant l" using w(3) by (simp add: wallet_owner_def)
    show ?thesis
    proof
      assume "lg_wallet_id l \<in> set (map wl_id ?ws)"
      then obtain x where "x \<in> set ?ws" "wl_id x = lg_wallet_id l" by auto
      with same [of x] t show "lg_tenant l = t" by simp
    next
      assume "lg_tenant l = t"
      with w(1) t have "w \<in> set ?ws" by simp
      then show "lg_wallet_id l \<in> set (map wl_id ?ws)" unfolding w(2) [symmetric] set_map by (rule imageI)
    qed
  qed
  then have same: "filter (\<lambda>l. lg_wallet_id l \<in> set (map wl_id ?ws) \<and> lg_direction l = dir) (bd_ledger d)
      = filter (\<lambda>l. lg_tenant l = t \<and> lg_direction l = dir) (bd_ledger d)"
    by (intro filter_cong refl) blast
  have "distinct (map wl_id ?ws)" using u by (rule distinct_map_filter)
  from sum_by_key [OF this, of lg_amount lg_wallet_id "\<lambda>l. lg_direction l = dir" "bd_ledger d"]
  show ?thesis unfolding same tenant_total_def ledger_sum_def by (simp only: map_map comp_def)
qed

lemma summary_balance:
  assumes "wallets_ok d"
  shows "as_wallet_balance (admin_summary d t) = tenant_total d t Credit - tenant_total d t Debit"
proof -
  have b: "map wl_balance (filter (\<lambda>w. wl_tenant w = t) (bd_wallets d))
      = map (\<lambda>w. ledger_sum d Credit w - ledger_sum d Debit w) (filter (\<lambda>w. wl_tenant w = t) (bd_wallets d))"
    using assms by (auto simp: wallets_ok_def wallet_ok_def)
  show ?thesis
    using ledger_of_tenant [OF assms, of Credit t] ledger_of_tenant [OF assms, of Debit t]
    by (simp only: admin_summary_def Let_def b sum_list_subtractf admin_summary_view.simps)
qed

section \<open>Reads see their own rows\<close>

lemma ledger_for_actor_own:
  "l \<in> set (ledger_for_actor d t u n) \<Longrightarrow> l \<in> set (bd_ledger d) \<and> lg_tenant l = t \<and> lg_user l = u"
  by (auto simp: ledger_for_actor_def dest: in_set_takeD)

lemma ledger_for_actor_sorted:
  "sorted (map (\<lambda>l. - lg_created_at l) (ledger_for_actor d t u n))
   \<and> length (ledger_for_actor d t u n) \<le> 200"
  using page_size_bounds [of n]
  by (auto simp: ledger_for_actor_def take_map [symmetric] intro!: sorted_wrt_take)

text \<open>A missing wallet is shown as the one that would be created.\<close>

lemma wallet_view_missing:
  "wallet_view None = (wallet_view (Some (new_wallet wid t u)))\<lparr>wv_id := None\<rparr>"
  by (simp add: wallet_view_def new_wallet_def)

end
