(* ===== verification/Billing_Properties.thy ===== *)
theory Billing_Properties
  imports Billing_Example Billing_Interleaving Billing_Views
begin

text \<open>
  The properties of the billing service, each with a witness on the shop of Billing_Example where it
  has hypotheses. Runs start from a database with users and no billing rows.
\<close>

section \<open>Money\<close>

text \<open>C1. Conservation. After any serial run of checkout requests and webhooks, every wallet holds
  exactly what the ledger says was credited minus what was debited, is never negative, and is
  quarantined exactly when a reversal left an amount unrecovered.\<close>

theorem wallet_conservation:
  assumes "run_ids_fresh ops (empty_billing_db\<lparr>bd_users := us\<rparr>)"
    and "w \<in> set (bd_wallets (billing_run ops (empty_billing_db\<lparr>bd_users := us\<rparr>)))"
  shows "wl_balance w = ledger_sum (billing_run ops (empty_billing_db\<lparr>bd_users := us\<rparr>)) Credit w
           - ledger_sum (billing_run ops (empty_billing_db\<lparr>bd_users := us\<rparr>)) Debit w
       \<and> 0 \<le> wl_balance w \<and> (wl_status w = WalletQuarantined \<longleftrightarrow> 0 < wl_quarantined w)"
proof -
  have "billing_inv (billing_run ops (empty_billing_db\<lparr>bd_users := us\<rparr>))"
    using billing.run_inv [OF assms(1) [unfolded run_ids_fresh_def] billing_inv_empty]
    by (simp add: billing_run_def)
  with assms(2) show ?thesis by (auto simp: billing_inv_def wallets_ok_def wallet_ok_def)
qed

lemma wallet_conservation_witness:
  "wl_balance demo_wallet = 125000
     \<and> ledger_sum demo_paid_db Credit demo_wallet - ledger_sum demo_paid_db Debit demo_wallet = 125000"
proof -
  have "demo_wallet \<in> set (bd_wallets (billing_run [demo_checkout 1, demo_webhook 2 ''paid''] demo_db))"
    by (simp add: demo_run demo_paid_db_def)
  from wallet_conservation [OF demo_fresh [unfolded demo_db_def] this [unfolded demo_db_def]]
  show ?thesis by (simp add: demo_run [unfolded demo_db_def] demo_wallet_def)
qed



text \<open>C14. A processed payment webhook deposits the credit the checkout was sold with, to the account
  of the buyer and to no other; if that payment was already credited, no account changes.\<close>

theorem payment_webhook_deposits:
  assumes "billing_inv d" and "wallet_id_fresh env d"
    and "webhook_route env raw token d = (Inr ProcessedEvent, d1)"
    and "decode_webhook env raw (py_strip token) = Inr payload"
    and "extract_provider_ids payload = (pid, lid)"
    and "webhook_event_type payload \<in> set confirm_events"
    and "checkout_for_provider d pid lid = Some c"
    and "obj_get (co_metadata c) ''included_credit_usd'' = JStr (show_fixed 4 m)"
  shows "accounts d1 = (if m \<le> 0 \<or> ledger_exists d (co_tenant c) (credit_key (the (payment_ref pid c)))
     then accounts d
     else (accounts d)((co_tenant c, co_user c) := deposit m (accounts d (co_tenant c, co_user c))))"
proof -
  from assms(3) obtain dec nx c1 action d0 d2 where
    tr: "billing_transition (co_status c) (webhook_event_type payload) = (dec, nx)"
      "dec \<noteq> Ignore" "dec \<noteq> IgnoreUnsupported"
    and app: "apply_decision env dec (linked pid c) nx (the (payment_ref pid c)) d0 = Inr (c1, action, d2)"
    and f: "bd_wallets d0 = bd_wallets d" "bd_ledger d0 = bd_ledger d" "bd_wallets d1 = bd_wallets d2"
    by (rule processed_webhook) (use assms(4,5,7) in auto)
  have "dec = Confirm" using decision_of_event [OF tr] assms(6) by simp
  moreover have "wallets_ok d0" using assms(1) wallets_ok_cong [OF f(1,2)] by (simp add: billing_inv_def)
  moreover have "wallet_id_fresh env d0" using assms(2) by (simp add: wallet_id_fresh_def f)
  moreover have "ledger_exists d0 t k = ledger_exists d t k" for t k by (simp add: ledger_exists_def f)
  ultimately show ?thesis
    using confirm_accounts [of env "linked pid c" nx "the (payment_ref pid c)" d0 c1 action d2 m]
      app assms(8) accounts_frame [OF f(1)] accounts_frame [OF f(3)] by simp
qed

lemma payment_webhook_deposits_witness:
  "accounts demo_paid_db = (accounts demo_bound_db)((''t1'', ''u1'') := deposit 125000
     (accounts demo_bound_db (''t1'', ''u1'')))"
proof -
  have tok: "py_strip ''tok'' = ''tok''" by code_simp
  have f: "wallet_id_fresh (demo_env 2) demo_bound_db" "bd_ledger demo_bound_db = []"
    "checkout_for_provider demo_bound_db (Some ''pay1'') (Some ''lnk1'') = Some demo_bound"
    "decode_webhook (demo_env 2) ''paid'' (py_strip ''tok'') = Inr (dict_items (demo_event ''PAYMENT_CONFIRMED'' ''e1''))"
    by (simp_all add: wallet_id_fresh_def fresh_key_def demo_bound_db_def demo_db_def empty_billing_db_def
        checkout_for_provider_def filled_def demo_bound_fields demo_decode tok)
  have "webhook_event_type (dict_items (demo_event ''PAYMENT_CONFIRMED'' ''e1'')) \<in> set confirm_events"
    by (simp add: demo_ids confirm_events_def)
  from payment_webhook_deposits [OF demo_bound_inv f(1) demo_webhook_paid f(4) demo_ids(1) this f(3)
      demo_days_credit(3)]
  show ?thesis by (simp add: ledger_exists_def f(2) demo_bound_fields)
qed

text \<open>C23. A processed refund or chargeback takes the credited amount back from the buyer's account as
  far as the balance goes and records exactly the rest as owed; no other account changes.\<close>

theorem reversal_webhook_takes_back:
  assumes "billing_inv d" and "wallet_id_fresh env d"
    and "webhook_route env raw token d = (Inr ProcessedEvent, d1)"
    and "decode_webhook env raw (py_strip token) = Inr payload"
    and "extract_provider_ids payload = (pid, lid)"
    and "map_of reversal_events (webhook_event_type payload) = Some nx"
    and "checkout_for_provider d pid lid = Some c"
    and "original_credit d c = Some l"
    and "\<not> ledger_exists d (co_tenant c) (reversal_key (the (payment_ref pid c)) (status_text nx))"
  shows "accounts d1 = (accounts d)((co_tenant c, co_user c) :=
     take_back (lg_amount l) (accounts d (co_tenant c, co_user c)))"
proof -
  from assms(3) obtain dec nx1 c1 action d0 d2 where
    tr: "billing_transition (co_status c) (webhook_event_type payload) = (dec, nx1)"
      "dec \<noteq> Ignore" "dec \<noteq> IgnoreUnsupported"
    and app: "apply_decision env dec (linked pid c) nx1 (the (payment_ref pid c)) d0 = Inr (c1, action, d2)"
    and f: "bd_wallets d0 = bd_wallets d" "bd_ledger d0 = bd_ledger d" "bd_wallets d1 = bd_wallets d2"
    by (rule processed_webhook) (use assms(4,5,7) in auto)
  have rev: "dec = Reverse" "nx1 = nx" using decision_reverse [OF tr assms(6)] by simp_all
  have "wallets_ok d0" using assms(1) wallets_ok_cong [OF f(1,2)] by (simp add: billing_inv_def)
  moreover have "wallet_id_fresh env d0" using assms(2) by (simp add: wallet_id_fresh_def f)
  moreover have "original_credit d0 (linked pid c) = Some l" using assms(8) by (simp add: original_credit_def f)
  moreover have "\<not> ledger_exists d0 (co_tenant (linked pid c))
      (reversal_key (the (payment_ref pid c)) (status_text nx))"
    using assms(9) by (simp add: ledger_exists_def f)
  ultimately show ?thesis
    using reverse_accounts [OF app [unfolded rev]] accounts_frame [OF f(1)] accounts_frame [OF f(3)] by simp
qed

lemma reversal_webhook_takes_back_witness:
  "\<exists>d1. webhook_route (demo_env 3) ''refund'' ''tok'' demo_paid_db = (Inr ProcessedEvent, d1)
     \<and> accounts d1 (''t1'', ''u1'') = \<lparr>ac_balance = 0, ac_owed = 0\<rparr>"
proof -
  obtain d1 where w: "webhook_route (demo_env 3) ''refund'' ''tok'' demo_paid_db = (Inr ProcessedEvent, d1)"
    using demo_refund_processed by (metis prod.collapse)
  have m: "map_of reversal_events (webhook_event_type (dict_items (demo_event ''PAYMENT_REFUNDED'' ''e3''))) = Some Refunded"
    by (simp add: demo_refund reversal_events_def)
  from reversal_webhook_takes_back [OF demo_paid_inv demo_refund_new w demo_refund(1) demo_ids(1) m
      demo_refund(3,4,5)] w
  show ?thesis by (simp add: take_back_def demo_refund(6-))
qed

section \<open>Webhooks\<close>

text \<open>C22. The first report of a payment is always processed: with a valid token, a checkout that is
  known and not yet settled, and the metadata the checkout was created with, the webhook never ends in
  an error, a guard or a constraint conflict.\<close>

theorem payment_webhook_processed:
  assumes "billing_inv d" and "wallet_id_fresh env d"
    and "decode_webhook env raw (py_strip token) = Inr payload"
    and "extract_provider_ids payload = (pid, lid)"
    and "\<not> delivery_seen (env, raw, token) d"
    and "webhook_event_type payload \<in> set confirm_events"
    and "checkout_for_provider d pid lid = Some c" and "filled (payment_ref pid c)"
    and "co_status c \<in> {Pending, Failed, Expired}"
    and "obj_get (co_metadata c) ''entitlement_days'' = JInt n"
    and "obj_get (co_metadata c) ''included_credit_usd'' = JStr (show_fixed 4 m)"
  shows "fst (webhook_route env raw token d) = Inr ProcessedEvent"
proof -
  have "billing_transition (co_status c) (webhook_event_type payload) = (Confirm, Paid)"
    using assms(6,9) by (auto simp: billing_transition_def terminal_financial_def)
  then show ?thesis
    by (rule webhook_processes [OF assms(1-5,7,8)]) (use confirm_applies assms(10,11) in simp_all)
qed

lemma payment_webhook_processed_witness:
  "fst (webhook_route (demo_env 2) ''paid'' ''tok'' demo_bound_db) = Inr ProcessedEvent"
proof (rule payment_webhook_processed [OF demo_bound_inv])
  have tok: "py_strip ''tok'' = ''tok''" by code_simp
  show "decode_webhook (demo_env 2) ''paid'' (py_strip ''tok'') = Inr (dict_items (demo_event ''PAYMENT_CONFIRMED'' ''e1''))"
    by (simp add: tok demo_decode)
  show "obj_get (co_metadata demo_bound) ''included_credit_usd'' = JStr (show_fixed 4 125000)"
    by (rule demo_days_credit)
  show "checkout_for_provider demo_bound_db (Some ''pay1'') (Some ''lnk1'') = Some demo_bound"
    by (simp add: checkout_for_provider_def filled_def demo_bound_tables demo_bound_fields)
  show "filled (payment_ref (Some ''pay1'') demo_bound)"
    by (simp add: payment_ref_def or_option_def filled_def)
qed (simp_all add: demo_ids demo_bound_tables demo_bound_fields demo_days_credit confirm_events_def
    wallet_id_fresh_def fresh_key_def demo_bound_unseen)

text \<open>C8. Exactly-once processing. Once a webhook has been accepted, any later delivery of the same
  event, with whatever requests in between, is answered as a duplicate and changes nothing.\<close>

theorem webhook_replay_noop:
  assumes "deliver q d = (Inr a, d1)" and "a \<noteq> Deduplicated" and "delivery_key q2 = delivery_key q"
  shows "deliver q2 (billing_run ops d1) = (Inr Deduplicated, billing_run ops d1)"
proof (rule asaas.seen_dup)
  from accepted_seen [OF assms(1,2)] assms(3) billing_run_keeps
  show "delivery_seen q2 (billing_run ops d1)" by (auto simp: seen_key)
qed

lemma webhook_replay_noop_witness:
  "deliver (demo_env 7, ''paid'', ''tok'') (billing_run [demo_checkout 4] demo_paid_db)
     = (Inr Deduplicated, billing_run [demo_checkout 4] demo_paid_db)"
proof (rule webhook_replay_noop)
  show "deliver (demo_env 2, ''paid'', ''tok'') demo_bound_db = (Inr ProcessedEvent, demo_paid_db)"
    by (simp add: deliver_def demo_webhook_paid)
qed (simp_all add: demo_key)

text \<open>A payment reported before its link is bound is lost: the event is accepted while no checkout
  matches it, and every redelivery of it, also after the checkout is bound, is a duplicate that
  credits nothing.\<close>

theorem early_payment_lost:
  assumes "decode_webhook env raw (py_strip token) = Inr payload"
    and "extract_provider_ids payload = (pid, lid)"
    and "checkout_for_provider d pid lid = None"
    and "\<not> delivery_seen (env, raw, token) d"
    and "delivery_key q2 = delivery_key (env, raw, token)"
  shows "\<exists>d1. deliver (env, raw, token) d = (Inr IgnoredNoCheckout, d1)
    \<and> (\<forall>ops. deliver q2 (billing_run ops d1) = (Inr Deduplicated, billing_run ops d1))"
proof -
  obtain r d1 where w: "deliver (env, raw, token) d = (r, d1)" by fastforce
  then have "r = Inr IgnoredNoCheckout"
  proof (cases rule: deliver_cases)
    case (first payload1 pid1 lid1 event d0 q t)
    have "checkout_for_provider d0 pid lid = None"
      using assms(3) by (simp add: claim_eventD(1) [OF first(3)] checkout_for_provider_events)
    with first assms(1,2) show ?thesis by (auto simp: handle_claimed_def)
  qed (use assms in auto)
  then have r: "deliver (env, raw, token) d = (Inr IgnoredNoCheckout, d1)" using w by simp
  have "delivery_seen (env, raw, token) d1" by (rule accepted_seen [OF r]) simp
  then have "delivery_seen q2 (billing_run ops d1)" for ops
    using assms(5) billing_run_keeps by (auto simp: seen_key)
  with r asaas.seen_dup [of q2] show ?thesis by blast
qed

lemma early_payment_lost_witness:
  "\<exists>d1. deliver (demo_env 2, ''paid'', ''tok'') demo_db = (Inr IgnoredNoCheckout, d1)
    \<and> deliver (demo_env 5, ''paid'', ''tok'') (billing_run [demo_checkout 3] d1)
      = (Inr Deduplicated, billing_run [demo_checkout 3] d1)"
proof -
  have tok: "py_strip ''tok'' = ''tok''" by code_simp
  have d: "decode_webhook (demo_env 2) ''paid'' (py_strip ''tok'') = Inr (dict_items (demo_event ''PAYMENT_CONFIRMED'' ''e1''))"
    by (simp add: tok demo_decode)
  have "checkout_for_provider demo_db (Some ''pay1'') (Some ''lnk1'') = None"
    "\<not> delivery_seen (demo_env 2, ''paid'', ''tok'') demo_db"
    by (simp_all add: checkout_for_provider_def demo_db_def empty_billing_db_def delivery_seen_def demo_key
        key_claimed_def)
  from early_payment_lost [OF d demo_ids(1) this, of "(demo_env 5, ''paid'', ''tok'')"]
  show ?thesis by (auto simp: demo_key)
qed

text \<open>A duplicate answer means a duplicate: with unique tables the handler never mistakes a
  constraint conflict for a redelivery.\<close>

theorem deduplicated_means_seen:
  assumes "billing_inv d" and "wallet_id_fresh env d"
    and "webhook_route env raw token d = (Inr Deduplicated, d1)"
  shows "delivery_seen (env, raw, token) d \<and> d1 = d"
proof -
  have "deliver (env, raw, token) d = (Inr Deduplicated, d1)" using assms(3) by (simp add: deliver_def)
  then show ?thesis
  proof (cases rule: deliver_cases)
    case (first payload pid lid event d0 q t)
    note cl = claim_eventD [OF first(3)]
    have "tables_ok d" using assms(1) by (simp add: billing_inv_def)
    from add_event_tables [OF this first(3)] have "tables_ok d0" by simp
    then have "billing_inv d0"
      using assms(1) wallets_ok_cong [of d0 d] by (simp add: billing_inv_def cl(1) frame_simps)
    moreover have "wallet_id_fresh env d0" using assms(2) by (simp add: wallet_id_fresh_def cl(1) frame_simps)
    moreover have "q = Inr Deduplicated" using first(8) by (cases q) auto
    ultimately show ?thesis using handle_claimed_moves [OF _ _ cl(2) first(4)] by simp
  qed auto
qed

lemma deduplicated_means_seen_witness:
  "delivery_seen (demo_env 4, ''paid'', ''tok'') demo_paid_db"
proof -
  have "webhook_route (demo_env 4) ''paid'' ''tok'' demo_paid_db = (Inr Deduplicated, demo_paid_db)"
    using asaas.seen_dup [of "(demo_env 4, ''paid'', ''tok'')" demo_paid_db] demo_key
    by (simp add: deliver_def delivery_seen_def key_claimed_def demo_paid_tables demo_paid_event_def)
  moreover have "wallet_id_fresh (demo_env 4) demo_paid_db"
    by (simp add: wallet_id_fresh_def fresh_key_def demo_paid_tables demo_wallet_def demo_env_def
        show_int_def show_nat.simps digit_letters_def)
  ultimately show ?thesis using deduplicated_means_seen [OF demo_paid_inv] by blast
qed

text \<open>All or nothing: a webhook that is answered with an error leaves the database as it was.\<close>

theorem failed_webhook_atomic:
  assumes "webhook_route env raw token d = (Inl e, d1)"
  shows "d1 = d"
  using deliver_error [of "(env, raw, token)" d e d1] assms by (simp add: deliver_def)

text \<open>A webhook with a wrong token is refused with 401 before anything is read or written.\<close>

theorem forged_webhook_refused:
  assumes "py_strip (st_asaas_webhook_token (e_settings env)) \<noteq> []"
    and "py_strip token \<noteq> py_strip (st_asaas_webhook_token (e_settings env))"
  shows "webhook_route env raw token d = (Inl (HttpError 401 ''BILLING_WEBHOOK_TOKEN_INVALID''), d)"
  using assms by (simp add: webhook_route_def process_webhook_def decode_webhook_def session_simps)

lemma failed_webhook_atomic_witness:
  "snd (webhook_route (demo_env 2) ''nothing'' ''tok'' demo_bound_db) = demo_bound_db"
proof -
  have tok: "py_strip ''tok'' = ''tok''" by code_simp
  have "webhook_route (demo_env 2) ''nothing'' ''tok'' demo_bound_db
      = (Inl (HttpError 400 ''BILLING_WEBHOOK_INVALID_JSON''), snd (webhook_route (demo_env 2) ''nothing'' ''tok'' demo_bound_db))"
    by (simp add: webhook_route_def process_webhook_def decode_webhook_def tok demo_settings_def demo_loads_def)
  from failed_webhook_atomic [OF this] show ?thesis .
qed

lemma forged_webhook_refused_witness:
  "webhook_route (demo_env 2) ''paid'' ''guess'' demo_bound_db
     = (Inl (HttpError 401 ''BILLING_WEBHOOK_TOKEN_INVALID''), demo_bound_db)"
proof -
  have "py_strip (st_asaas_webhook_token demo_settings) = ''tok''" "py_strip ''guess'' = ''guess''"
    by code_simp+
  then show ?thesis by (intro forged_webhook_refused) simp_all
qed

section \<open>Checkouts\<close>



text \<open>The state machine of a checkout has final states: whatever events arrive, in whatever
  order, a refunded or charged-back checkout keeps its state.\<close>

theorem settled_forever:
  assumes "terminal_financial s"
  shows "foldl transition_state s events = s"
  using assms by (rule checkout_machine.final_forever)

lemma settled_forever_witness:
  "foldl transition_state Refunded [''PAYMENT_CONFIRMED'', ''PAYMENT_DELETED'', ''PAYMENT_OVERDUE''] = Refunded"
  by (rule settled_forever) (simp add: terminal_financial_def)

text \<open>A checkout is sold at the catalog's terms: the intent carries the catalog's positive price
  in cents, and the credit the payment webhook will read back from its metadata is exactly the
  catalog's included credit.\<close>

theorem checkout_at_catalog_terms:
  assumes "checkout_begin env p rq key d = StartIntent row payload"
  shows "\<exists>item m. resolve_item env (rq_kind rq) (rq_item_code rq) = Inr (Some item)
    \<and> amount_brl env item (rq_kind rq) = Inr (co_amount_brl row) \<and> 0 < co_amount_brl row
    \<and> included_credit_usd item (rq_kind rq) = Inr m
    \<and> decimal4 (obj_get (co_metadata row) ''included_credit_usd'') = Inr m"
proof -
  from checkout_begin_intentD [OF assms] obtain item user where
    nc: "new_checkout env p rq key item user = Inr (row, payload)" and
    it: "resolve_item env (rq_kind rq) (rq_item_code rq) = Inr (Some item)" .
  have "amount_brl env item (rq_kind rq) = Inr (co_amount_brl row)"
    using nc by (auto simp: new_checkout_def Let_def split: if_splits sum.splits)
  with it new_checkoutD [OF nc] new_checkout_credit [OF nc] show ?thesis by (auto simp: decimal4_show)
qed

lemma checkout_at_catalog_terms_witness:
  "\<exists>item m. resolve_item (demo_env 1) Plan ''pro'' = Inr (Some item)
    \<and> amount_brl (demo_env 1) item Plan = Inr 10746 \<and> included_credit_usd item Plan = Inr m
    \<and> decimal4 (obj_get (co_metadata demo_row) ''included_credit_usd'') = Inr m"
  using checkout_at_catalog_terms [OF demo_begin] by (auto simp: demo_row_def)

text \<open>A retry never buys twice: while a checkout with the actor's idempotency key exists, a
  request with that key sends no POST and adds no checkout.\<close>

theorem retry_posts_nothing:
  assumes "checkout_by_idempotency d (pr_tenant_id p) (pr_user_id p) (py_strip h) = Some row"
    and "checkout_route env p prov rq (Some h) d = (r, d1, posts)"
  shows "posts = [] \<and> map co_id (bd_checkouts d1) = map co_id (bd_checkouts d)"
proof -
  obtain q t ps where cc: "create_checkout env p prov rq (py_strip h) (open_session d) = (q, t, ps)"
    by (metis prod_cases3)
  have d1: "posts = ps" "d1 = durable t"
    using assms(2) cc by (auto simp: checkout_route_def session_simps split: sum.splits)
  have "checkout_begin env p rq (py_strip h) d = StartExisting row
      \<or> (\<exists>e. checkout_begin env p rq (py_strip h) d = StartError e)"
    using assms(1) by (simp add: checkout_begin_def)
  then show ?thesis
  proof (elim disjE exE)
    fix e assume "checkout_begin env p rq (py_strip h) d = StartError e"
    with cc d1 show ?thesis by (auto simp: create_checkout_def session_simps)
  next
    assume s: "checkout_begin env p rq (py_strip h) d = StartExisting row"
    have ps: "ps = []" and rc: "reconcile_existing_checkout env p prov row (open_session d) = (q, t)"
      using cc s by (auto simp: create_checkout_def session_simps split: prod.splits)
    with reconcile_rows [OF rc] d1 show ?thesis by (simp add: session_simps)
  qed
qed

lemma retry_posts_nothing_witness:
  "snd (snd (checkout_route (demo_env 4) demo_principal demo_provider demo_request (Some ''key'') demo_bound_db)) = []"
proof -
  have "py_strip ''key'' = ''key''" by code_simp
  then have "checkout_by_idempotency demo_bound_db (pr_tenant_id demo_principal) (pr_user_id demo_principal)
      (py_strip ''key'') = Some demo_bound"
    by (simp add: checkout_by_idempotency_def demo_bound_tables demo_bound_fields)
  from retry_posts_nothing [OF this] show ?thesis by (metis prod.collapse)
qed

text \<open>C25. A checkout is only marked failed on a definitive outcome: when a request leaves behind a
  failed checkout that was not there before, the provider was not configured, or the POST it sent was
  answered with a 4xx status. A timeout or a server error never marks a checkout failed.\<close>

theorem failed_only_definitive:
  assumes "checkout_route env p prov rq h d = (r, d1, posts)"
    and "c \<in> set (bd_checkouts d1)" and "co_status c = Failed" and "c \<notin> set (bd_checkouts d)"
  shows "assert_configured (e_settings env) \<noteq> None
    \<or> (\<exists>payload status body. posts = [payload]
         \<and> pv_post prov payload = HttpResponse status body \<and> 400 \<le> status \<and> status < 500)"
proof -
  define key where "key = py_strip (case h of None \<Rightarrow> [] | Some k \<Rightarrow> k)"
  obtain q t ps where cc: "create_checkout env p prov rq key (open_session d) = (q, t, ps)"
    by (metis prod_cases3)
  have d1: "posts = ps" "d1 = durable t"
    using assms(1) cc by (auto simp: checkout_route_def key_def session_simps split: sum.splits)
  show ?thesis
    using create_checkout_failed [OF cc, of c] assms(2-4) d1 by (simp add: session_simps)
qed

lemma failed_only_definitive_witness:
  "\<exists>payload status body. pv_post demo_rejecting payload = HttpResponse status body \<and> 400 \<le> status \<and> status < 500"
proof -
  from demo_rejected obtain r d1 posts c where
    w: "checkout_route (demo_env 1) demo_principal demo_rejecting demo_request (Some ''key'') demo_db = (r, d1, posts)"
      "c \<in> set (bd_checkouts d1)" "co_status c = Failed" by blast
  have "c \<notin> set (bd_checkouts demo_db)" by (simp add: demo_db_def empty_billing_db_def)
  from failed_only_definitive [OF w this] show ?thesis by auto
qed

section \<open>Concurrent requests\<close>

text \<open>C2. The provider is charged with at most one POST per idempotency key: whatever requests run
  concurrently, whatever webhooks arrive and wherever a process stops, no two POSTs carry checkouts of
  the same tenant, user and key.\<close>

theorem at_most_one_post:
  assumes "billing_inv d" and "(ck_step reqs)\<^sup>*\<^sup>* (ck_start d) w"
  shows "distinct (map actor_key (cw_posted w))"
  using ck_reach_inv [OF assms(2) ck_start_inv [OF assms(1)]] by (simp add: ck_inv_def)

text \<open>C11. The intent is durable before the POST and stays so: every checkout that was POSTed is found
  by its idempotency key in the committed database, at every later moment and after any crash.\<close>

theorem posted_intent_durable:
  assumes "billing_inv d" and "(ck_step reqs)\<^sup>*\<^sup>* (ck_start d) w" and "row \<in> set (cw_posted w)"
  shows "\<exists>c. checkout_by_idempotency (cw_db w) (co_tenant row) (co_user row) (co_idempotency_key row) = Some c
    \<and> co_id c = co_id row"
proof -
  have inv: "billing_inv (cw_db w)" "in_db (cw_db w) row"
    using ck_reach_inv [OF assms(2) ck_start_inv [OF assms(1)]] assms(3) by (auto simp: ck_inv_def)
  then obtain c where c: "c \<in> set (bd_checkouts (cw_db w))" "co_id c = co_id row" "actor_key c = actor_key row"
    by (auto simp: in_db_def)
  have "unique_key actor_key (bd_checkouts (cw_db w))" using inv by (simp add: billing_inv_def tables_ok_def)
  from scalar_unique [OF this c(1)] c show ?thesis
    by (auto simp: checkout_by_idempotency_key) (auto simp: actor_key_def)
qed

definition demo_requests :: "nat \<Rightarrow> ck_request" where
  "demo_requests i = \<lparr>cr_env = demo_env 1, cr_principal = demo_principal, cr_provider = demo_provider,
     cr_request = demo_request, cr_key = ''key''\<rparr>"

text \<open>Two requests with one key read the database before either commits; the first one posts.\<close>

lemma demo_race:
  "\<exists>w. (ck_step demo_requests)\<^sup>*\<^sup>* (ck_start demo_db) w \<and> cw_posted w = [demo_row]
     \<and> cw_phase w 1 = Prepared demo_row demo_payload"
proof -
  let ?w0 = "ck_start demo_db" and ?c = "\<lparr>work = demo_db, durable = demo_db\<rparr>"
  let ?w1 = "set_phase 1 (Prepared demo_row demo_payload) ?w0"
  let ?w2 = "set_phase 0 (Prepared demo_row demo_payload) ?w1"
  let ?s = "\<lparr>work = demo_db\<lparr>bd_checkouts := [demo_row], bd_audits := [hd demo_audits]\<rparr>,
       durable = demo_db\<lparr>bd_checkouts := [demo_row], bd_audits := [hd demo_audits]\<rparr>\<rparr>"
  let ?w3 = "set_phase 0 (Committed demo_row demo_payload) (?w2\<lparr>cw_db := durable ?s\<rparr>)"
  let ?w4 = "set_phase 0 (Posted demo_row demo_payload) (?w3\<lparr>cw_posted := cw_posted ?w3 @ [demo_row]\<rparr>)"
  have b: "checkout_begin (cr_env (demo_requests i)) (cr_principal (demo_requests i))
      (cr_request (demo_requests i)) (cr_key (demo_requests i)) demo_db = StartIntent demo_row demo_payload" for i
    by (simp add: demo_requests_def demo_begin)
  have "ck_step demo_requests ?w0 ?w1"
    by (rule ck_step.begin_intent) (use b [of 1] in \<open>simp_all add: ck_start_def\<close>)
  moreover have "ck_step demo_requests ?w1 ?w2"
    by (rule ck_step.begin_intent) (use b [of 0] in \<open>simp_all add: ck_start_def set_phase_def\<close>)
  moreover have "ck_step demo_requests ?w2 ?w3"
    by (rule ck_step.commit_ok) (use demo_commit_intent in \<open>simp_all add: ck_start_def set_phase_def
        open_session_def demo_requests_def fresh_key_def demo_db_def empty_billing_db_def\<close>)
  moreover have "ck_step demo_requests ?w3 ?w4"
    by (rule ck_step.post) (simp_all add: set_phase_def demo_requests_def)
  ultimately have "(ck_step demo_requests)\<^sup>*\<^sup>* ?w0 ?w4" by (meson converse_rtranclp_into_rtranclp rtranclp.rtrancl_refl)
  moreover have "cw_posted ?w4 = [demo_row]" "cw_phase ?w4 1 = Prepared demo_row demo_payload"
    by (simp_all add: set_phase_def ck_start_def)
  ultimately show ?thesis by blast
qed

lemma at_most_one_post_witness:
  "\<exists>w. (ck_step demo_requests)\<^sup>*\<^sup>* (ck_start demo_db) w \<and> cw_posted w = [demo_row]
     \<and> distinct (map actor_key (cw_posted w))"
  using demo_race at_most_one_post [OF demo_inv] by blast

lemma posted_intent_durable_witness:
  "\<exists>(w :: ck_world) c. cw_posted w = [demo_row] \<and> checkout_by_idempotency (cw_db w) ''t1'' ''u1'' ''key'' = Some c
     \<and> co_id c = ''10''"
proof -
  obtain w where w: "(ck_step demo_requests)\<^sup>*\<^sup>* (ck_start demo_db) w" "cw_posted w = [demo_row]"
    using demo_race by blast
  have f: "co_tenant demo_row = ''t1''" "co_user demo_row = ''u1''" "co_idempotency_key demo_row = ''key''"
    "co_id demo_row = ''10''" by (simp_all add: demo_row_def)
  have "demo_row \<in> set (cw_posted w)" using w(2) by simp
  from posted_intent_durable [OF demo_inv w(1) this, unfolded f] w(2) show ?thesis by blast
qed

section \<open>Reads\<close>

text \<open>The administrator's totals are the ledger's: after any serial run the wallet balance shown
  for a tenant is what its ledger entries credit minus what they debit.\<close>

theorem summary_matches_ledger:
  assumes "run_ids_fresh ops (empty_billing_db\<lparr>bd_users := us\<rparr>)"
  shows "as_wallet_balance (admin_summary_route p (billing_run ops (empty_billing_db\<lparr>bd_users := us\<rparr>)))
    = tenant_total (billing_run ops (empty_billing_db\<lparr>bd_users := us\<rparr>)) (pr_tenant_id p) Credit
      - tenant_total (billing_run ops (empty_billing_db\<lparr>bd_users := us\<rparr>)) (pr_tenant_id p) Debit"
proof -
  have "billing_inv (billing_run ops (empty_billing_db\<lparr>bd_users := us\<rparr>))"
    using billing.run_inv [OF assms [unfolded run_ids_fresh_def] billing_inv_empty]
    by (simp add: billing_run_def)
  then show ?thesis by (simp add: admin_summary_route_def summary_balance billing_inv_def)
qed

lemma summary_matches_ledger_witness:
  "tenant_total demo_paid_db ''t1'' Credit - tenant_total demo_paid_db ''t1'' Debit = 125000"
proof -
  have "as_wallet_balance (admin_summary_route demo_principal demo_paid_db) = 125000"
    by (simp add: admin_summary_route_def admin_summary_def demo_paid_tables demo_wallet_def)
  with summary_matches_ledger [OF demo_fresh [unfolded demo_db_def], of demo_principal]
  show ?thesis by (simp add: demo_run [unfolded demo_db_def])
qed

text \<open>The ledger route shows a user only entries of that user in that tenant, newest first, at most
  200 of them, each the view of a stored row.\<close>

theorem ledger_route_own_rows:
  "(\<forall>v \<in> set (ledger_route p limit d). \<exists>l \<in> set (bd_ledger d). v = ledger_view l
      \<and> lg_tenant l = pr_tenant_id p \<and> lg_user l = pr_user_id p)
   \<and> sorted (map (\<lambda>v. - lv_created_at v) (ledger_route p limit d))
   \<and> length (ledger_route p limit d) \<le> 200"
  using ledger_for_actor_sorted [of d "pr_tenant_id p" "pr_user_id p" limit] ledger_for_actor_own
  by (fastforce simp: ledger_route_def ledger_view_def comp_def)

lemma ledger_route_own_rows_witness:
  "ledger_route demo_principal 50 demo_paid_db = [ledger_view demo_credit]
   \<and> (\<exists>l \<in> set (bd_ledger demo_paid_db).
        ledger_view demo_credit = ledger_view l \<and> lg_tenant l = ''t1'' \<and> lg_user l = ''u1'')"
proof -
  have "ledger_route demo_principal 50 demo_paid_db = [ledger_view demo_credit]"
    by (simp add: ledger_route_def ledger_for_actor_def page_size_def demo_paid_tables)
      (simp add: demo_credit_def)
  with ledger_route_own_rows [of demo_principal 50 demo_paid_db] show ?thesis by simp
qed

section \<open>Entitlements\<close>

text \<open>A processed payment for a plan leaves its buyer with an active entitlement to that plan that
  ends between 1 and 366 days after the payment was processed.\<close>

theorem payment_grants_entitlement:
  assumes "webhook_route env raw token d = (Inr ProcessedEvent, d1)"
    and "decode_webhook env raw (py_strip token) = Inr payload"
    and "extract_provider_ids payload = (pid, lid)"
    and "webhook_event_type payload \<in> set confirm_events"
    and "checkout_for_provider d pid lid = Some c" and "co_kind c = Plan"
  shows "\<exists>ent n. entitlement_for_actor d1 (co_tenant c) (co_user c) = Some ent
    \<and> en_status ent = ''active'' \<and> en_plan_code ent = co_item_code c
    \<and> en_checkout_id ent = Some (co_id c)
    \<and> en_expires_at ent = Some (e_now env + days n) \<and> 1 \<le> n \<and> n \<le> 366"
proof -
  from assms(1) obtain dec nx c1 action d0 d2 where
    tr: "billing_transition (co_status c) (webhook_event_type payload) = (dec, nx)"
      "dec \<noteq> Ignore" "dec \<noteq> IgnoreUnsupported"
    and app: "apply_decision env dec (linked pid c) nx (the (payment_ref pid c)) d0 = Inr (c1, action, d2)"
    and f: "bd_entitlements d1 = bd_entitlements d2"
    by (rule processed_webhook) (use assms(2,3,5) in auto)
  have "dec = Confirm" using decision_of_event [OF tr] assms(4) by simp
  with confirm_entitlement [of env "linked pid c" nx] app assms(6) f show ?thesis
    by (simp add: entitlement_for_actor_def)
qed

lemma payment_grants_entitlement_witness:
  "\<exists>ent n. entitlement_for_actor demo_paid_db ''t1'' ''u1'' = Some ent \<and> en_status ent = ''active''
    \<and> en_expires_at ent = Some (2 + days n) \<and> 1 \<le> n \<and> n \<le> 366"
proof -
  have tok: "py_strip ''tok'' = ''tok''" by code_simp
  have f: "checkout_for_provider demo_bound_db (Some ''pay1'') (Some ''lnk1'') = Some demo_bound"
    "decode_webhook (demo_env 2) ''paid'' (py_strip ''tok'') = Inr (dict_items (demo_event ''PAYMENT_CONFIRMED'' ''e1''))"
    "webhook_event_type (dict_items (demo_event ''PAYMENT_CONFIRMED'' ''e1'')) \<in> set confirm_events"
    by (simp_all add: checkout_for_provider_def filled_def demo_bound_tables demo_bound_fields demo_decode tok
        demo_ids confirm_events_def)
  from payment_grants_entitlement [OF demo_webhook_paid f(2) demo_ids(1) f(3,1)]
  show ?thesis by (auto simp: demo_bound_fields)
qed

end
