(* ===== verification/Auth_Model.thy ===== *)
theory Auth_Model
  imports Models "HOL-Library.Word"
begin

text \<open>
  The rows of native authentication (models.py) and what a request of it takes from its environment:
  the settings, one clock reading, the identifiers and random tokens it draws, the keyed digest of
  tokens (HMAC-SHA256 under the session secret), scrypt, Fernet and HMAC-SHA1. The cryptographic
  primitives are functions of the environment; the theorems hold for any such functions, or name what
  they need of them. A service function takes the database its session works on and returns its result
  (\<open>Inl\<close> the code of a NativeAuthError) with the database as the session then sees it: a failing
  function keeps the changes it made, and the route decides whether they are committed.
\<close>

record credential =
  nc_id :: string
  nc_user :: string
  nc_hash :: string
  nc_failed :: int
  nc_locked_until :: "instant option"
  nc_updated_at :: instant
  nc_last_login :: "instant option"
  nc_created_at :: instant

record native_session =
  ns_id :: string
  ns_hash :: string
  ns_prefix :: string
  ns_tenant :: string
  ns_user :: string
  ns_created_at :: instant
  ns_expires_at :: instant
  ns_last_seen :: instant
  ns_revoked_at :: "instant option"
  ns_user_agent :: string
  ns_ip_prefix :: string
  ns_rotated_at :: "instant option"
  ns_authenticated_at :: "instant option"
  ns_mfa_at :: "instant option"
  ns_reauth_at :: "instant option"

record password_reset =
  nr_id :: string
  nr_hash :: string
  nr_prefix :: string
  nr_user :: string
  nr_issued_at :: instant
  nr_expires_at :: instant
  nr_used_at :: "instant option"

record challenge =
  nh_id :: string
  nh_hash :: string
  nh_prefix :: string
  nh_purpose :: string
  nh_user :: string
  nh_tenant :: "string option"
  nh_payload :: "(string \<times> json) list"
  nh_issued_at :: instant
  nh_expires_at :: instant
  nh_used_at :: "instant option"
  nh_attempts :: int

record mfa_factor =
  nf_id :: string
  nf_user :: string
  nf_type :: string
  nf_secret :: string
  nf_confirmed_at :: "instant option"
  nf_last_step :: "int option"

record recovery_code =
  nk_id :: string
  nk_user :: string
  nk_hash :: string
  nk_used_at :: "instant option"

record redemption =
  gr_jti :: string
  gr_tenant :: string
  gr_user :: string

record experience_profile =
  xp_tenant :: string
  xp_user :: string
  xp_name :: string
  xp_goal :: "string option"

record auth_db =
  ad_tenants :: "tenant list"
  ad_users :: "user list"
  ad_memberships :: "membership list"
  ad_credentials :: "credential list"
  ad_sessions :: "native_session list"
  ad_resets :: "password_reset list"
  ad_challenges :: "challenge list"
  ad_factors :: "mfa_factor list"
  ad_recovery :: "recovery_code list"
  ad_redemptions :: "redemption list"
  ad_profiles :: "experience_profile list"
  ad_audits :: "audit_event list"

record auth_env =
  ae_settings :: settings
  ae_now :: instant
  ae_uid :: "nat \<Rightarrow> string"
  ae_token :: "nat \<Rightarrow> string"
  ae_digest :: "string \<Rightarrow> string"
  ae_scrypt :: "string \<Rightarrow> int \<times> int \<times> int \<Rightarrow> string \<Rightarrow> string"
  ae_encrypt :: "string \<Rightarrow> string"
  ae_decrypt :: "string \<Rightarrow> string option"
  ae_hmac_sha1 :: "string \<Rightarrow> int \<Rightarrow> 8 word list"
  ae_gate_hmac :: "string \<Rightarrow> string"
  ae_gate_sign :: "string \<Rightarrow> string"
  ae_gate_payload :: "string \<Rightarrow> json option"
  ae_gate_encode :: "json \<Rightarrow> string"

type_synonym 'a auth_result = "(string + 'a) \<times> auth_db"

section \<open>Rows by their key\<close>

definition get_user :: "auth_db \<Rightarrow> string \<Rightarrow> user option" where
  "get_user d uid = scalar (\<lambda>u. us_id u = uid) (ad_users d)"

definition user_by_email :: "auth_db \<Rightarrow> string \<Rightarrow> user option" where
  "user_by_email d email = scalar (\<lambda>u. us_email u = email) (ad_users d)"

definition get_tenant :: "auth_db \<Rightarrow> string \<Rightarrow> tenant option" where
  "get_tenant d tid = scalar (\<lambda>t. tn_id t = tid) (ad_tenants d)"

definition credential_of :: "auth_db \<Rightarrow> string \<Rightarrow> credential option" where
  "credential_of d uid = scalar (\<lambda>c. nc_user c = uid) (ad_credentials d)"

definition session_by_hash :: "auth_db \<Rightarrow> string \<Rightarrow> native_session option" where
  "session_by_hash d h = scalar (\<lambda>s. ns_hash s = h) (ad_sessions d)"

definition reset_by_hash :: "auth_db \<Rightarrow> string \<Rightarrow> password_reset option" where
  "reset_by_hash d h = scalar (\<lambda>r. nr_hash r = h) (ad_resets d)"

definition challenge_by_hash :: "auth_db \<Rightarrow> string \<Rightarrow> string \<Rightarrow> challenge option" where
  "challenge_by_hash d h purpose =
     scalar (\<lambda>c. nh_hash c = h \<and> nh_purpose c = purpose) (ad_challenges d)"

definition active_membership :: "auth_db \<Rightarrow> string \<Rightarrow> membership option" where
  "active_membership d uid = scalar (\<lambda>m. mb_user m = uid \<and> mb_active m) (ad_memberships d)"

definition active_membership_in :: "auth_db \<Rightarrow> string \<Rightarrow> string \<Rightarrow> membership option" where
  "active_membership_in d tid uid =
     scalar (\<lambda>m. mb_tenant m = tid \<and> mb_user m = uid \<and> mb_active m) (ad_memberships d)"

definition confirmed_factor :: "auth_db \<Rightarrow> string \<Rightarrow> mfa_factor option" where
  "confirmed_factor d uid = scalar (\<lambda>f. nf_user f = uid \<and> nf_confirmed_at f \<noteq> None) (ad_factors d)"

definition factor_of :: "auth_db \<Rightarrow> string \<Rightarrow> mfa_factor option" where
  "factor_of d uid = scalar (\<lambda>f. nf_user f = uid) (ad_factors d)"

section \<open>Writing rows\<close>

text \<open>\<open>save_...\<close> writes a loaded row back, by its primary key, or by a column with a unique constraint
  where the row has no other use of its key (credentials and factors by user, sessions, challenges and
  resets by their token digest).\<close>

definition save_credential :: "credential \<Rightarrow> auth_db \<Rightarrow> auth_db" where
  "save_credential c d = d\<lparr>ad_credentials := put_row nc_user c (ad_credentials d)\<rparr>"

definition add_credential :: "credential \<Rightarrow> auth_db \<Rightarrow> auth_db" where
  "add_credential c d = d\<lparr>ad_credentials := ad_credentials d @ [c]\<rparr>"

definition save_native_session :: "native_session \<Rightarrow> auth_db \<Rightarrow> auth_db" where
  "save_native_session s d = d\<lparr>ad_sessions := put_row ns_hash s (ad_sessions d)\<rparr>"

definition add_native_session :: "native_session \<Rightarrow> auth_db \<Rightarrow> auth_db" where
  "add_native_session s d = d\<lparr>ad_sessions := ad_sessions d @ [s]\<rparr>"

definition save_reset :: "password_reset \<Rightarrow> auth_db \<Rightarrow> auth_db" where
  "save_reset r d = d\<lparr>ad_resets := put_row nr_hash r (ad_resets d)\<rparr>"

definition add_reset :: "password_reset \<Rightarrow> auth_db \<Rightarrow> auth_db" where
  "add_reset r d = d\<lparr>ad_resets := ad_resets d @ [r]\<rparr>"

definition save_challenge :: "challenge \<Rightarrow> auth_db \<Rightarrow> auth_db" where
  "save_challenge c d = d\<lparr>ad_challenges := put_row nh_hash c (ad_challenges d)\<rparr>"

definition add_challenge :: "challenge \<Rightarrow> auth_db \<Rightarrow> auth_db" where
  "add_challenge c d = d\<lparr>ad_challenges := ad_challenges d @ [c]\<rparr>"

definition save_factor :: "mfa_factor \<Rightarrow> auth_db \<Rightarrow> auth_db" where
  "save_factor f d = d\<lparr>ad_factors := put_row nf_user f (ad_factors d)\<rparr>"

definition add_factor :: "mfa_factor \<Rightarrow> auth_db \<Rightarrow> auth_db" where
  "add_factor f d = d\<lparr>ad_factors := ad_factors d @ [f]\<rparr>"

definition save_recovery :: "recovery_code \<Rightarrow> auth_db \<Rightarrow> auth_db" where
  "save_recovery k d = d\<lparr>ad_recovery := put_row (\<lambda>k. (nk_user k, nk_hash k)) k (ad_recovery d)\<rparr>"

definition add_recovery :: "recovery_code \<Rightarrow> auth_db \<Rightarrow> auth_db" where
  "add_recovery k d = d\<lparr>ad_recovery := ad_recovery d @ [k]\<rparr>"

definition save_user :: "user \<Rightarrow> auth_db \<Rightarrow> auth_db" where
  "save_user u d = d\<lparr>ad_users := put_row us_id u (ad_users d)\<rparr>"

definition add_user :: "user \<Rightarrow> auth_db \<Rightarrow> auth_db" where
  "add_user u d = d\<lparr>ad_users := ad_users d @ [u]\<rparr>"

definition save_membership :: "membership \<Rightarrow> auth_db \<Rightarrow> auth_db" where
  "save_membership m d = d\<lparr>ad_memberships := put_row mb_id m (ad_memberships d)\<rparr>"

definition add_membership :: "membership \<Rightarrow> auth_db \<Rightarrow> auth_db" where
  "add_membership m d = d\<lparr>ad_memberships := ad_memberships d @ [m]\<rparr>"

definition save_tenant :: "tenant \<Rightarrow> auth_db \<Rightarrow> auth_db" where
  "save_tenant t d = d\<lparr>ad_tenants := put_row tn_id t (ad_tenants d)\<rparr>"

definition add_tenant :: "tenant \<Rightarrow> auth_db \<Rightarrow> auth_db" where
  "add_tenant t d = d\<lparr>ad_tenants := ad_tenants d @ [t]\<rparr>"

definition add_redemption :: "redemption \<Rightarrow> auth_db \<Rightarrow> auth_db" where
  "add_redemption r d = d\<lparr>ad_redemptions := ad_redemptions d @ [r]\<rparr>"

definition add_auth_audit :: "audit_event \<Rightarrow> auth_db \<Rightarrow> auth_db" where
  "add_auth_audit a d = d\<lparr>ad_audits := ad_audits d @ [a]\<rparr>"

lemmas auth_write_defs = save_credential_def add_credential_def save_native_session_def
  add_native_session_def save_reset_def add_reset_def save_challenge_def add_challenge_def
  save_factor_def add_factor_def save_recovery_def add_recovery_def save_user_def add_user_def
  save_membership_def add_membership_def save_tenant_def add_tenant_def add_redemption_def
  add_auth_audit_def

section \<open>The tables as keyed tables\<close>

interpretation credential_table: keyed_table nc_user ad_credentials add_credential
  by unfold_locales (simp add: add_credential_def)

interpretation session_table: keyed_table ns_hash ad_sessions add_native_session
  by unfold_locales (simp add: add_native_session_def)

interpretation reset_table: keyed_table nr_hash ad_resets add_reset
  by unfold_locales (simp add: add_reset_def)

interpretation challenge_table: keyed_table nh_hash ad_challenges add_challenge
  by unfold_locales (simp add: add_challenge_def)

interpretation factor_table: keyed_table nf_user ad_factors add_factor
  by unfold_locales (simp add: add_factor_def)

interpretation recovery_table: keyed_table "\<lambda>k. (nk_user k, nk_hash k)" ad_recovery add_recovery
  by unfold_locales (simp add: add_recovery_def)

interpretation redemption_table: keyed_table gr_jti ad_redemptions add_redemption
  by unfold_locales (simp add: add_redemption_def)

end
