(* ===== verification/Auth_Crypto.thy ===== *)
theory Auth_Crypto
  imports Auth_Model
begin

unbundle bit_operations_syntax

text \<open>
  Password hashes and time-based codes (services/native_auth.py, lines 71 to 129 and 271 to 289). The
  text form of a hash is built and taken apart as the code does it; scrypt itself is \<open>ae_scrypt\<close>, from
  the salt's text, the three cost parameters and the password (with the configured pepper in front) to
  the digest's text. The dynamic
  truncation of a code works on the bytes of the HMAC.
\<close>

section \<open>Password hashes\<close>

text \<open>\<open>s.split(c, n)\<close>.\<close>

fun py_split_n :: "nat \<Rightarrow> char \<Rightarrow> string \<Rightarrow> string list" where
  "py_split_n 0 c s = [s]"
| "py_split_n (Suc n) c s =
     (if c \<in> set s
      then takeWhile (\<lambda>x. x \<noteq> c) s # py_split_n n c (tl (dropWhile (\<lambda>x. x \<noteq> c) s))
      else [s])"

definition normalize_email :: "string \<Rightarrow> string" where
  "normalize_email s = py_lower (py_strip s)"

definition hash_password :: "auth_env \<Rightarrow> string \<Rightarrow> string" where
  "hash_password env password =
     (let salt = ae_token env 4 in
      py_join ''$'' [''scrypt'', show_int 16384, show_int 8, show_int 1, salt,
        ae_scrypt env salt (16384, 8, 1) password])"

definition verify_password :: "auth_env \<Rightarrow> string \<Rightarrow> string \<Rightarrow> bool" where
  "verify_password env password encoded =
     (case py_split_n 5 (CHR ''$'') encoded of
        [scheme, n, r, p, salt, digest] \<Rightarrow>
          scheme = ''scrypt'' \<and>
          (case (parse_int n, parse_int r, parse_int p) of
             (Some n1, Some r1, Some p1) \<Rightarrow> ae_scrypt env salt (n1, r1, p1) password = digest
           | _ \<Rightarrow> False)
      | _ \<Rightarrow> False)"

definition client_ip_prefix :: "string \<Rightarrow> string" where
  "client_ip_prefix ip =
     (if ip = [] then []
      else let parts = py_split (CHR ''.'') ip in
        if length parts = 4 then py_join ''.'' (take 3 parts) else take 48 ip)"

lemma py_split_n_head:
  "c \<notin> set a \<Longrightarrow> py_split_n (Suc n) c (a @ c # s) = a # py_split_n n c s"
proof -
  assume "c \<notin> set a"
  then have "takeWhile (\<lambda>x. x \<noteq> c) (a @ c # s) = a" "dropWhile (\<lambda>x. x \<noteq> c) (a @ c # s) = c # s"
    by (induction a) auto
  then show ?thesis by simp
qed

lemma show_int_pos: "0 \<le> i \<Longrightarrow> c \<in> set (show_int i) \<Longrightarrow> py_is_digit c"
  by (auto simp: show_int_def show_nat_digits)

lemma scrypt_numbers:
  "show_int 16384 = ''16384''" "show_int 8 = ''8''" "show_int 1 = ''1''"
  by (simp_all add: show_int_def show_nat.simps digit_letters_def)

lemma parse_numbers:
  "parse_int ''16384'' = Some 16384" "parse_int ''8'' = Some 8" "parse_int ''1'' = Some 1"
  by code_simp+

lemma hash_parts:
  assumes "CHR ''$'' \<notin> set (ae_token env 4)"
  shows "py_split_n 5 (CHR ''$'') (hash_password env pw) = [''scrypt'', ''16384'', ''8'', ''1'', ae_token env 4,
     ae_scrypt env (ae_token env 4) (16384, 8, 1) pw]"
proof -
  let ?d = "CHR ''$''"
  have h: "hash_password env pw = ''scrypt'' @ ?d # ''16384'' @ ?d # ''8'' @ ?d # ''1'' @ ?d # ae_token env 4
      @ ?d # ae_scrypt env (ae_token env 4) (16384, 8, 1) pw"
    by (simp add: hash_password_def Let_def scrypt_numbers)
  have five: "5 = Suc (Suc (Suc (Suc (Suc 0))))" by simp
  show ?thesis
    unfolding h five
    by (simp only: py_split_n_head [of ?d "''scrypt''"] py_split_n_head [of ?d "''16384''"]
        py_split_n_head [of ?d "''8''"] py_split_n_head [of ?d "''1''"] py_split_n_head [OF assms]
        py_split_n.simps(1) list.set insert_iff empty_iff char.inject simp_thms)
qed

text \<open>A stored hash accepts exactly the passwords with the same scrypt digest.\<close>

lemma verify_hash:
  assumes "CHR ''$'' \<notin> set (ae_token env 4)"
    and "\<And>salt cost pw. ae_scrypt env1 salt cost pw = ae_scrypt env salt cost pw"
  shows "verify_password env1 pw1 (hash_password env pw) \<longleftrightarrow>
    ae_scrypt env (ae_token env 4) (16384, 8, 1) pw1 = ae_scrypt env (ae_token env 4) (16384, 8, 1) pw"
  by (simp add: verify_password_def hash_parts [OF assms(1)] parse_numbers assms(2))

section \<open>Time-based codes\<close>

definition bytes_value :: "8 word list \<Rightarrow> int" where
  "bytes_value bs = foldl (\<lambda>n b. n * 256 + uint b) 0 bs"

definition pad6 :: "string \<Rightarrow> string" where
  "pad6 s = replicate (6 - length s) (CHR ''0'') @ s"

definition totp_code :: "auth_env \<Rightarrow> string \<Rightarrow> int \<Rightarrow> string" where
  "totp_code env secret step =
     (let digest = ae_hmac_sha1 env secret step;
          offset = unat (last digest AND 0x0F);
          v = bytes_value (take 4 (drop offset digest)) AND 0x7FFFFFFF
      in pad6 (show_int (v mod 1000000)))"

definition current_step :: "auth_env \<Rightarrow> int" where
  "current_step env = ae_now env div 30000000"

fun first_match :: "auth_env \<Rightarrow> string \<Rightarrow> string \<Rightarrow> int option \<Rightarrow> int list \<Rightarrow> int option" where
  "first_match env secret code used [] = None"
| "first_match env secret code used (step # steps) =
     (if (case used of None \<Rightarrow> False | Some u \<Rightarrow> step \<le> u) then first_match env secret code used steps
      else if totp_code env secret step = code then Some step
      else first_match env secret code used steps)"

definition verify_totp :: "auth_env \<Rightarrow> string \<Rightarrow> string \<Rightarrow> int option \<Rightarrow> int option" where
  "verify_totp env secret code used =
     (let normalized = filter py_is_digit (py_strip code); now_step = current_step env in
      if length normalized \<noteq> 6 then None
      else first_match env secret normalized used [now_step - 1, now_step, now_step + 1])"

lemma first_match_SomeD:
  "first_match env secret code used steps = Some s \<Longrightarrow>
     s \<in> set steps \<and> totp_code env secret s = code \<and> (\<forall>u. used = Some u \<longrightarrow> u < s)"
  by (induction steps) (auto split: if_splits option.splits)

lemma first_match_None:
  "first_match env secret code used steps = None \<longleftrightarrow>
     (\<forall>s \<in> set steps. (\<forall>u. used = Some u \<longrightarrow> u < s) \<longrightarrow> totp_code env secret s \<noteq> code)"
  by (induction steps) (auto split: option.splits)

text \<open>An accepted code is one of three, and newer than the last one used.\<close>

lemma verify_totp_SomeD:
  assumes "verify_totp env secret code used = Some s"
  shows "\<bar>s - current_step env\<bar> \<le> 1" and "\<forall>u. used = Some u \<longrightarrow> u < s"
    and "filter py_is_digit (py_strip code) = totp_code env secret s"
  using assms first_match_SomeD [of env secret _ used _ s]
  by (fastforce simp: verify_totp_def Let_def split: if_splits)+

lemma bytes_value_bound: "0 \<le> bytes_value bs \<and> bytes_value bs < 256 ^ length bs"
proof (induction bs rule: rev_induct)
  case (snoc b bs)
  have "0 \<le> uint b" "uint b < 256" using uint_lt2p [of b] by simp_all
  with snoc show ?case by (auto simp: bytes_value_def)
qed (simp add: bytes_value_def)

lemma show_nat_length: "n < 10 ^ k \<Longrightarrow> 0 < k \<Longrightarrow> length (show_nat n) \<le> k"
proof (induction n arbitrary: k rule: show_nat.induct)
  case (1 n)
  show ?case
  proof (cases "n < 10")
    case True
    with 1 show ?thesis by (subst show_nat.simps) simp
  next
    case False
    with 1(2,3) obtain j where k: "k = Suc j" "0 < j" by (cases k; cases "k - 1") auto
    have "n div 10 < 10 ^ j" using 1(2) k by (simp add: less_mult_imp_div_less mult.commute)
    from 1(1) [OF False this k(2)] False k show ?thesis by (subst show_nat.simps) simp
  qed
qed

text \<open>The truncation stays inside a 20-byte digest and gives six digits.\<close>

lemma truncation_in_bounds:
  fixes digest :: "8 word list"
  assumes "length digest = 20"
  shows "length (take 4 (drop (unat (last digest AND 0x0F)) digest)) = 4"
proof -
  have "last digest AND 0x0F \<le> 0x0F" by (rule word_and_le1)
  then have "unat (last digest AND 0x0F) \<le> 15" by (simp add: word_le_nat_alt)
  with assms show ?thesis by simp
qed

lemma totp_code_digits:
  "length (totp_code env secret step) = 6 \<and> list_all py_is_digit (totp_code env secret step)"
proof -
  define v where "v = bytes_value (take 4 (drop (unat (last (ae_hmac_sha1 env secret step) AND 0x0F))
    (ae_hmac_sha1 env secret step))) AND 0x7FFFFFFF"
  define m where "m = v mod 1000000"
  have m: "0 \<le> m" "m < 1000000" by (simp_all add: m_def)
  have "totp_code env secret step = pad6 (show_int m)"
    by (simp add: totp_code_def Let_def v_def m_def)
  moreover have "show_int m = show_nat (nat m)" using m by (simp add: show_int_def)
  ultimately have c: "totp_code env secret step = pad6 (show_nat (nat m))" by simp
  have "nat m < 10 ^ 6" using m by simp
  then have "length (show_nat (nat m)) \<le> 6" by (intro show_nat_length) simp_all
  moreover have "list_all py_is_digit (show_nat (nat m))" using show_nat_digits by (simp add: list_all_iff)
  moreover have "py_is_digit (CHR ''0'')" by (simp add: py_is_digit_def digit_letters_def)
  ultimately show ?thesis by (auto simp: c pad6_def list_all_iff)
qed

text \<open>The code of the current step is accepted while it has not been used.\<close>

lemma verify_totp_current:
  assumes "py_strip code = code" and "totp_code env secret (current_step env) = code"
    and "\<forall>u. used = Some u \<longrightarrow> u < current_step env"
  shows "verify_totp env secret code used \<noteq> None"
proof -
  have "list_all py_is_digit code" "length code = 6" using totp_code_digits assms(2) by auto
  then have "filter py_is_digit code = code" by (simp add: list_all_iff filter_id_conv)
  with assms \<open>length code = 6\<close> show ?thesis
    by (simp add: verify_totp_def Let_def first_match_None del: first_match.simps)
qed

end
