(* ===== verification/Auth_Gate.thy ===== *)
theory Auth_Gate
  imports Auth_Crypto
begin

text \<open>
  The access gate (services/hyper_cocreator.py): access codes, the signed grants they are exchanged for,
  and the onboarding that redeems a grant. The signature of a grant is \<open>ae_gate_sign\<close> of its encoded
  payload (HMAC-SHA256 in base64url); \<open>ae_gate_encode\<close> and \<open>ae_gate_payload\<close> encode and decode the
  payload. A grant that decodes to a value the code cannot use raises a Python exception, \<open>GateCrash\<close>.
\<close>

datatype gate_error = GateCode string | GateCrash

section \<open>Configuration\<close>

definition nonblank_parts :: "string \<Rightarrow> string list" where
  "nonblank_parts s = filter (\<lambda>t. t \<noteq> []) (map (\<lambda>t. py_lower (py_strip t)) (py_split (CHR '','') s))"

definition admin_email_allowlist :: "settings \<Rightarrow> string list" where
  "admin_email_allowlist st = nonblank_parts (st_admin_email_allowlist st)"

definition code_hashes :: "settings \<Rightarrow> string list" where
  "code_hashes st = nonblank_parts (st_access_gate_code_hashes st)"

definition email_text :: "string option \<Rightarrow> string" where
  "email_text e = py_lower (py_strip (case e of None \<Rightarrow> [] | Some s \<Rightarrow> s))"

definition is_allowlisted_admin :: "principal \<Rightarrow> settings \<Rightarrow> bool" where
  "is_allowlisted_admin p st \<longleftrightarrow>
     list_ex (\<lambda>r. r \<in> set (pr_roles p)) [''admin'', ''superadmin'', ''platform_owner'']
     \<and> email_text (pr_email p) \<in> set (admin_email_allowlist st)"

definition require_allowlisted_admin :: "principal \<Rightarrow> settings \<Rightarrow> http_error + principal" where
  "require_allowlisted_admin p st =
     (if is_allowlisted_admin p st then Inr p else Inl (HttpError 403 ''ADMIN_ALLOWLIST_REQUIRED''))"

definition unix_seconds :: "auth_env \<Rightarrow> int" where
  "unix_seconds env = ae_now env div 1000000"

section \<open>Grants\<close>

definition grant_payload :: "auth_env \<Rightarrow> string \<Rightarrow> json" where
  "grant_payload env digest =
     JObj [(''v'', JInt 1), (''jti'', JStr (ae_uid env 9)), (''iat'', JInt (unix_seconds env)),
       (''exp'', JInt (unix_seconds env + st_access_gate_ttl_seconds (ae_settings env))),
       (''tenant_id'', JStr (py_strip (st_access_gate_tenant_id (ae_settings env)))),
       (''code_fp'', JStr (take 12 digest))]"

definition validate_access_code :: "auth_env \<Rightarrow> string \<Rightarrow> gate_error + string \<times> int" where
  "validate_access_code env code =
     (let st = ae_settings env in
      if \<not> st_access_gate_enabled st then Inl (GateCode ''ACCESS_GATE_DISABLED'')
      else if length (st_access_gate_signing_secret st) < 32 \<or> code_hashes st = []
          \<or> py_strip (st_access_gate_tenant_id st) = []
        then Inl (GateCode ''ACCESS_GATE_NOT_CONFIGURED'')
      else let digest = ae_gate_hmac env (py_lower (py_strip code)) in
        if digest \<notin> set (code_hashes st) then Inl (GateCode ''ACCESS_CODE_INVALID'')
        else let encoded = ae_gate_encode env (grant_payload env digest) in
          Inr (encoded @ ''.'' @ ae_gate_sign env encoded,
               unix_seconds env + st_access_gate_ttl_seconds st))"

text \<open>\<open>v != 1\<close> of a JSON value: \<open>True\<close> and \<open>1.0\<close> are equal to 1.\<close>

fun equals_one :: "json \<Rightarrow> bool" where
  "equals_one (JInt i) = (i = 1)"
| "equals_one (JBool b) = b"
| "equals_one (JFloat r) = (case parse_decimal r of
     None \<Rightarrow> False
   | Some (Dec c e) \<Rightarrow> (if 0 \<le> e then c * 10 ^ nat e = 1 else c = 10 ^ nat (- e)))"
| "equals_one _ = False"

definition grant_jti :: "(string \<times> json) list \<Rightarrow> string" where
  "grant_jti payload = (let v = obj_get payload ''jti'' in if truthy v then py_str v else [])"

definition grant_tenant :: "(string \<times> json) list \<Rightarrow> string" where
  "grant_tenant payload = (let v = obj_get payload ''tenant_id'' in if truthy v then py_str v else [])"

definition verify_access_grant :: "auth_env \<Rightarrow> string \<Rightarrow> gate_error + (string \<times> json) list" where
  "verify_access_grant env token =
     (let st = ae_settings env in
      if \<not> st_access_gate_enabled st then Inl (GateCode ''ACCESS_GATE_DISABLED'')
      else case py_split_n 1 (CHR ''.'') token of
        [encoded, signature] \<Rightarrow>
          (if signature \<noteq> ae_gate_sign env encoded then Inl (GateCode ''ACCESS_GRANT_INVALID'')
           else case ae_gate_payload env encoded of
               None \<Rightarrow> Inl (GateCode ''ACCESS_GRANT_INVALID'')
             | Some v \<Rightarrow>
                 if \<not> is_dict v then Inl GateCrash
                 else let payload = dict_items v in
                   if \<not> equals_one (obj_get payload ''v'') then Inl (GateCode ''ACCESS_GRANT_INVALID'')
                   else case py_int (py_or (obj_get payload ''exp'') (JInt 0)) of
                       Inl e \<Rightarrow> Inl GateCrash
                     | Inr exp \<Rightarrow>
                         if exp < unix_seconds env then Inl (GateCode ''ACCESS_GRANT_EXPIRED'')
                         else if length (grant_jti payload) < 16 then Inl (GateCode ''ACCESS_GRANT_INVALID'')
                         else let configured = py_strip (st_access_gate_tenant_id st) in
                           if configured \<noteq> [] \<and> grant_tenant payload \<noteq> configured
                           then Inl (GateCode ''ACCESS_GRANT_TENANT_MISMATCH'')
                           else Inr payload)
      | _ \<Rightarrow> Inl (GateCode ''ACCESS_GRANT_INVALID''))"

section \<open>Onboarding\<close>

definition collapse_spaces :: "string \<Rightarrow> string" where
  "collapse_spaces s = py_join '' '' (py_words (py_strip s))"

definition safe_cocreator_name :: "string \<Rightarrow> gate_error + string" where
  "safe_cocreator_name s =
     (let cleaned = collapse_spaces s in
      if length cleaned < 2 \<or> 64 < length cleaned then Inl (GateCode ''COCREATOR_NAME_INVALID'')
      else Inr cleaned)"

definition safe_goal :: "string option \<Rightarrow> string option" where
  "safe_goal v = (case v of None \<Rightarrow> None
     | Some s \<Rightarrow> (let cleaned = collapse_spaces s in if cleaned = [] then None else Some (take 240 cleaned)))"

definition profile_for :: "auth_db \<Rightarrow> string \<Rightarrow> string \<Rightarrow> experience_profile option" where
  "profile_for d tenant user = scalar (\<lambda>x. xp_tenant x = tenant \<and> xp_user x = user) (ad_profiles d)"

definition put_profile :: "experience_profile \<Rightarrow> auth_db \<Rightarrow> auth_db" where
  "put_profile x d = (case profile_for d (xp_tenant x) (xp_user x) of
     None \<Rightarrow> d\<lparr>ad_profiles := ad_profiles d @ [x]\<rparr>
   | Some _ \<Rightarrow> d\<lparr>ad_profiles := put_row (\<lambda>x. (xp_tenant x, xp_user x)) x (ad_profiles d)\<rparr>)"

definition redeemed_by :: "auth_db \<Rightarrow> string \<Rightarrow> redemption option" where
  "redeemed_by d jti = scalar (\<lambda>r. gr_jti r = jti) (ad_redemptions d)"

text \<open>The user, membership and redemption rows of an onboarding.\<close>

definition onboard_user :: "principal \<Rightarrow> string \<Rightarrow> string \<Rightarrow> auth_db \<Rightarrow> (gate_error + unit) \<times> auth_db" where
  "onboard_user p email subject d =
     (case get_user d (pr_user_id p) of
        None \<Rightarrow>
          (if (case scalar (\<lambda>u. us_external_subject u = subject) (ad_users d) of
                 None \<Rightarrow> False | Some u \<Rightarrow> us_id u \<noteq> pr_user_id p)
           then (Inl (GateCode ''ACCESS_IDENTITY_CONFLICT''), d)
           else (Inr (), add_user \<lparr>us_id = pr_user_id p, us_external_subject = subject, us_email = email,
               us_display_name = take 200 (takeWhile (\<lambda>c. c \<noteq> CHR ''@'') email),
               us_email_verified_at = None\<rparr> d))
      | Some u \<Rightarrow>
          if us_external_subject u \<noteq> subject then (Inl (GateCode ''ACCESS_IDENTITY_CONFLICT''), d)
          else (Inr (), save_user (u\<lparr>us_email := email\<rparr>) d))"

definition onboard_membership :: "auth_env \<Rightarrow> principal \<Rightarrow> auth_db \<Rightarrow> auth_db" where
  "onboard_membership env p d =
     (case scalar (\<lambda>m. mb_tenant m = pr_tenant_id p \<and> mb_user m = pr_user_id p) (ad_memberships d) of
        None \<Rightarrow> add_membership \<lparr>mb_id = ae_uid env 5, mb_tenant = pr_tenant_id p, mb_user = pr_user_id p,
          mb_role = ''member'', mb_active = True\<rparr> d
      | Some m \<Rightarrow> if mb_active m then d else save_membership (m\<lparr>mb_active := True\<rparr>) d)"

definition gate_constraints_ok :: "auth_db \<Rightarrow> bool" where
  "gate_constraints_ok d \<longleftrightarrow> unique_key gr_jti (ad_redemptions d)
     \<and> unique_key us_external_subject (ad_users d)
     \<and> unique_key (\<lambda>m. (mb_tenant m, mb_user m)) (ad_memberships d)
     \<and> unique_key (\<lambda>x. (xp_tenant x, xp_user x)) (ad_profiles d)"

definition complete_onboarding ::
    "auth_env \<Rightarrow> principal \<Rightarrow> string \<Rightarrow> string \<Rightarrow> string option \<Rightarrow> auth_db session
      \<Rightarrow> (gate_error + experience_profile) \<times> auth_db session" where
  "complete_onboarding env p grant name goal s =
     (case verify_access_grant env grant of
        Inl e \<Rightarrow> (Inl e, s)
      | Inr payload \<Rightarrow>
          (let expected = py_strip (st_access_gate_tenant_id (ae_settings env)); jti = grant_jti payload;
               email = email_text (pr_email p);
               subject = py_strip (case pr_external_subject p of None \<Rightarrow> [] | Some t \<Rightarrow> t) in
           if expected \<noteq> [] \<and> pr_tenant_id p \<noteq> expected then (Inl (GateCode ''ACCESS_TENANT_NOT_ALLOWED''), s)
           else if get_tenant (work s) (pr_tenant_id p) = None
             then (Inl (GateCode ''ACCESS_TENANT_NOT_PROVISIONED''), s)
           else if email = [] \<or> subject = [] then (Inl (GateCode ''ACCESS_IDENTITY_CLAIMS_INCOMPLETE''), s)
           else let used = redeemed_by (work s) jti in
             if (case used of None \<Rightarrow> False | Some r \<Rightarrow> gr_user r \<noteq> pr_user_id p)
             then (Inl (GateCode ''ACCESS_GRANT_ALREADY_USED''), s)
             else case onboard_user p email subject (work s) of
                 (Inl e, d) \<Rightarrow> (Inl e, s\<lparr>work := d\<rparr>)
               | (Inr _, d) \<Rightarrow>
                   (let d1 = onboard_membership env p d in
                    case safe_cocreator_name name of
                      Inl e \<Rightarrow> (Inl e, s\<lparr>work := d1\<rparr>)
                    | Inr clean \<Rightarrow>
                        (let x = \<lparr>xp_tenant = pr_tenant_id p, xp_user = pr_user_id p, xp_name = clean,
                                  xp_goal = safe_goal goal\<rparr>;
                             d2 = put_profile x d1;
                             d3 = (if used = None
                                   then add_redemption \<lparr>gr_jti = jti, gr_tenant = pr_tenant_id p,
                                          gr_user = pr_user_id p\<rparr> d2
                                   else d2);
                             s1 = s\<lparr>work := d3\<rparr>
                         in if gate_constraints_ok d3 then (Inr x, commit s1)
                            else (Inl (GateCode ''ACCESS_ONBOARDING_CONFLICT''), rollback s1)))))"

definition update_profile_name ::
    "principal \<Rightarrow> string \<Rightarrow> auth_db session \<Rightarrow> (gate_error + experience_profile) \<times> auth_db session" where
  "update_profile_name p name s =
     (case safe_cocreator_name name of
        Inl e \<Rightarrow> (Inl e, s)
      | Inr clean \<Rightarrow>
          (let x = (case profile_for (work s) (pr_tenant_id p) (pr_user_id p) of
                      None \<Rightarrow> \<lparr>xp_tenant = pr_tenant_id p, xp_user = pr_user_id p, xp_name = clean,
                               xp_goal = None\<rparr>
                    | Some x \<Rightarrow> x\<lparr>xp_name := clean\<rparr>)
           in (Inr x, commit (on_work (put_profile x) s))))"

end
