(* ===== verification/Auth_Service.thy ===== *)
theory Auth_Service
  imports Auth_Gate
begin

text \<open>
  The operations of services/native_auth.py from the audit record on. Each returns its result and the
  database as its session sees it, also when it fails; \<open>now()\<close> is the request's one clock reading.
\<close>

definition auth_audit :: "string \<Rightarrow> string \<Rightarrow> string option \<Rightarrow> string option \<Rightarrow> string \<Rightarrow> string option
    \<Rightarrow> (string \<times> json) list \<Rightarrow> auth_db \<Rightarrow> auth_db" where
  "auth_audit action outcome tenant actor rtype rid meta =
     add_auth_audit \<lparr>au_tenant = tenant, au_actor = actor, au_action = action, au_resource_type = rtype,
       au_resource_id = rid, au_outcome = outcome, au_metadata = meta\<rparr>"

section \<open>Credentials\<close>

definition create_or_update_credential :: "auth_env \<Rightarrow> string \<Rightarrow> string \<Rightarrow> auth_db \<Rightarrow> auth_db" where
  "create_or_update_credential env uid password d =
     (case credential_of d uid of
        None \<Rightarrow> add_credential \<lparr>nc_id = ae_uid env 0, nc_user = uid, nc_hash = hash_password env password,
          nc_failed = 0, nc_locked_until = None, nc_updated_at = ae_now env, nc_last_login = None,
          nc_created_at = ae_now env\<rparr> d
      | Some c \<Rightarrow> save_credential (c\<lparr>nc_hash := hash_password env password, nc_failed := 0,
          nc_locked_until := None, nc_updated_at := ae_now env\<rparr>) d)"

definition bootstrap_tenant :: "string \<Rightarrow> string \<Rightarrow> auth_db \<Rightarrow> auth_db" where
  "bootstrap_tenant tid name d = (case get_tenant d tid of
     None \<Rightarrow> add_tenant \<lparr>tn_id = tid, tn_name = name\<rparr> d
   | Some t \<Rightarrow> save_tenant (t\<lparr>tn_name := name\<rparr>) d)"

definition bootstrap_user :: "auth_env \<Rightarrow> string \<Rightarrow> string \<Rightarrow> auth_db \<Rightarrow> user \<times> auth_db" where
  "bootstrap_user env email name d = (case user_by_email d email of
     None \<Rightarrow> (let u = \<lparr>us_id = ae_uid env 4, us_external_subject = ''native:'' @ email, us_email = email,
                us_display_name = name, us_email_verified_at = None\<rparr> in (u, add_user u d))
   | Some u0 \<Rightarrow> (let u = u0\<lparr>us_display_name := name\<rparr> in (u, save_user u d)))"

definition bootstrap_membership :: "auth_env \<Rightarrow> string \<Rightarrow> string \<Rightarrow> auth_db \<Rightarrow> auth_db" where
  "bootstrap_membership env tid uid d =
     (case scalar (\<lambda>m. mb_tenant m = tid \<and> mb_user m = uid) (ad_memberships d) of
        None \<Rightarrow> add_membership \<lparr>mb_id = ae_uid env 5, mb_tenant = tid, mb_user = uid, mb_role = ''admin'',
          mb_active = True\<rparr> d
      | Some m \<Rightarrow> save_membership (m\<lparr>mb_role := ''admin'', mb_active := True\<rparr>) d)"

definition bootstrap_owner ::
    "auth_env \<Rightarrow> string \<Rightarrow> string \<Rightarrow> string \<Rightarrow> string \<Rightarrow> string \<Rightarrow> auth_db \<Rightarrow> principal auth_result" where
  "bootstrap_owner env tid tname email0 name password d =
     (let email = normalize_email email0 in
      if ad_credentials d \<noteq> [] then (Inl ''NATIVE_BOOTSTRAP_ALREADY_COMPLETED'', d)
      else case bootstrap_user env email name (bootstrap_tenant tid tname d) of (u, d1) \<Rightarrow>
        (Inr \<lparr>pr_user_id = us_id u, pr_tenant_id = tid, pr_roles = [''admin''],
              pr_email = Some (us_email u), pr_external_subject = Some (us_external_subject u)\<rparr>,
         auth_audit ''native_auth.bootstrap_owner'' ''success'' (Some tid) (Some (us_id u)) ''user'' (Some (us_id u)) []
           (create_or_update_credential env (us_id u) password (bootstrap_membership env tid (us_id u) d1))))"

section \<open>Challenges\<close>

definition issue_challenge :: "auth_env \<Rightarrow> string \<Rightarrow> string \<Rightarrow> string option \<Rightarrow> (string \<times> json) list \<Rightarrow> int
    \<Rightarrow> auth_db \<Rightarrow> string \<times> auth_db" where
  "issue_challenge env purpose uid tid payload ttl d =
     (let token = ae_token env 1 in
      (token, add_challenge \<lparr>nh_id = ae_uid env 2, nh_hash = ae_digest env token, nh_prefix = take 12 token,
         nh_purpose = purpose, nh_user = uid, nh_tenant = tid, nh_payload = payload,
         nh_issued_at = ae_now env, nh_expires_at = ae_now env + minutes ttl, nh_used_at = None,
         nh_attempts = 0\<rparr> d))"

definition load_challenge :: "auth_env \<Rightarrow> string \<Rightarrow> string \<Rightarrow> auth_db \<Rightarrow> challenge auth_result" where
  "load_challenge env token purpose d =
     (case challenge_by_hash d (ae_digest env token) purpose of
        None \<Rightarrow> (Inl ''AUTH_CHALLENGE_INVALID'', d)
      | Some c \<Rightarrow>
          if nh_used_at c \<noteq> None \<or> nh_expires_at c \<le> ae_now env then (Inl ''AUTH_CHALLENGE_INVALID'', d)
          else if 8 \<le> nh_attempts c then (Inl ''AUTH_CHALLENGE_INVALID'', d)
          else let c1 = c\<lparr>nh_attempts := nh_attempts c + 1\<rparr> in (Inr c1, save_challenge c1 d))"

definition use_challenge :: "auth_env \<Rightarrow> challenge \<Rightarrow> auth_db \<Rightarrow> auth_db" where
  "use_challenge env c d = save_challenge (c\<lparr>nh_used_at := Some (ae_now env)\<rparr>) d"

definition principal_for_user :: "auth_db \<Rightarrow> string \<Rightarrow> string option \<Rightarrow> string + principal" where
  "principal_for_user d uid tid =
     (case get_user d uid of
        None \<Rightarrow> Inl ''AUTH_CHALLENGE_INVALID''
      | Some u \<Rightarrow>
          (case scalar (\<lambda>m. mb_user m = uid \<and> mb_active m
                   \<and> (case tid of None \<Rightarrow> True | Some t \<Rightarrow> t = [] \<or> mb_tenant m = t)) (ad_memberships d) of
             None \<Rightarrow> Inl ''PRINCIPAL_NOT_PROVISIONED''
           | Some m \<Rightarrow> Inr \<lparr>pr_user_id = us_id u, pr_tenant_id = mb_tenant m, pr_roles = [mb_role m],
               pr_email = Some (us_email u), pr_external_subject = Some (us_external_subject u)\<rparr>))"

section \<open>Sessions\<close>

text \<open>The audit record of a login has no resource id: the id of a session row is drawn when the row is
  flushed, after the record has been built.\<close>

record client =
  cl_user_agent :: string
  cl_ip :: string

definition issue_session ::
    "auth_env \<Rightarrow> principal \<Rightarrow> client \<Rightarrow> bool \<Rightarrow> auth_db \<Rightarrow> (string \<times> native_session) \<times> auth_db" where
  "issue_session env p cl mfa d =
     (let token = ae_token env 0; t = ae_now env;
          s = \<lparr>ns_id = ae_uid env 1, ns_hash = ae_digest env token, ns_prefix = take 12 token,
            ns_tenant = pr_tenant_id p, ns_user = pr_user_id p, ns_created_at = t,
            ns_expires_at = t + hours (st_session_ttl_hours (ae_settings env)), ns_last_seen = t,
            ns_revoked_at = None, ns_user_agent = take 240 (cl_user_agent cl),
            ns_ip_prefix = client_ip_prefix (cl_ip cl), ns_rotated_at = Some t,
            ns_authenticated_at = Some t, ns_mfa_at = (if mfa then Some t else None), ns_reauth_at = None\<rparr>
      in ((token, s),
          auth_audit ''native_auth.login'' ''success'' (Some (pr_tenant_id p)) (Some (pr_user_id p))
            ''native_session'' None [(''mfa_verified'', JBool mfa)] (add_native_session s d)))"

definition principal_from_session :: "auth_env \<Rightarrow> string option \<Rightarrow> auth_db \<Rightarrow> principal option \<times> auth_db" where
  "principal_from_session env token d =
     (case token of
        None \<Rightarrow> (None, d)
      | Some t \<Rightarrow>
          if t = [] then (None, d)
          else case session_by_hash d (ae_digest env t) of
              None \<Rightarrow> (None, d)
            | Some s \<Rightarrow>
                if ns_revoked_at s \<noteq> None \<or> ns_expires_at s \<le> ae_now env then (None, d)
                else case (get_user d (ns_user s), active_membership_in d (ns_tenant s) (ns_user s)) of
                    (Some u, Some m) \<Rightarrow>
                      (Some \<lparr>pr_user_id = us_id u, pr_tenant_id = ns_tenant s, pr_roles = [mb_role m],
                         pr_email = Some (us_email u), pr_external_subject = Some (us_external_subject u)\<rparr>,
                       save_native_session (s\<lparr>ns_last_seen := ae_now env\<rparr>) d)
                  | _ \<Rightarrow> (None, d))"

definition revoke_session :: "auth_env \<Rightarrow> string option \<Rightarrow> auth_db \<Rightarrow> bool \<times> auth_db" where
  "revoke_session env token d =
     (case token of
        None \<Rightarrow> (False, d)
      | Some t \<Rightarrow>
          if t = [] then (False, d)
          else case session_by_hash d (ae_digest env t) of
              None \<Rightarrow> (False, d)
            | Some s \<Rightarrow>
                if ns_revoked_at s \<noteq> None then (False, d)
                else (True,
                  auth_audit ''native_auth.logout'' ''success'' (Some (ns_tenant s)) (Some (ns_user s))
                    ''native_session'' (Some (ns_id s)) []
                    (save_native_session (s\<lparr>ns_revoked_at := Some (ae_now env)\<rparr>) d)))"

section \<open>Account recovery and e-mail verification\<close>

definition create_account_recovery ::
    "auth_env \<Rightarrow> string \<Rightarrow> string \<Rightarrow> auth_db \<Rightarrow> (gate_error + string option) \<times> auth_db" where
  "create_account_recovery env email grant d =
     (case verify_access_grant env grant of
        Inl e \<Rightarrow> (Inl e, d)
      | Inr payload \<Rightarrow>
          (case user_by_email d (normalize_email email) of
             None \<Rightarrow> (Inr None, d)
           | Some u \<Rightarrow>
               if credential_of d (us_id u) \<noteq> None then (Inl (GateCode ''NATIVE_ACCOUNT_ALREADY_EXISTS''), d)
               else let configured = py_strip (st_access_gate_tenant_id (ae_settings env));
                        tid = (if grant_tenant payload \<noteq> [] then grant_tenant payload else configured);
                        jti = grant_jti payload in
                 if active_membership_in d tid (us_id u) = None
                 then (Inl (GateCode ''ACCOUNT_RECOVERY_NOT_ALLOWED''), d)
                 else if redeemed_by d jti \<noteq> None then (Inl (GateCode ''ACCESS_GRANT_ALREADY_USED''), d)
                 else case issue_challenge env ''account_recovery'' (us_id u) (Some tid)
                        [(''grant_jti'', JStr jti)] 30
                        (add_redemption \<lparr>gr_jti = jti, gr_tenant = tid, gr_user = us_id u\<rparr> d) of (token, d1) \<Rightarrow>
                   (Inr (Some token),
                    auth_audit ''native_auth.account_recovery_requested'' ''accepted'' (Some tid) (Some (us_id u))
                      ''native_auth'' None [] d1)))"

definition verify_user_email :: "auth_env \<Rightarrow> string \<Rightarrow> auth_db \<Rightarrow> auth_db" where
  "verify_user_email env uid d = (case get_user d uid of
     None \<Rightarrow> d | Some u \<Rightarrow> save_user (u\<lparr>us_email_verified_at := Some (ae_now env)\<rparr>) d)"

definition complete_account_recovery :: "auth_env \<Rightarrow> string \<Rightarrow> string \<Rightarrow> auth_db \<Rightarrow> unit auth_result" where
  "complete_account_recovery env token password d =
     (case load_challenge env token ''account_recovery'' d of
        (Inl e, d1) \<Rightarrow> (Inl e, d1)
      | (Inr c, d1) \<Rightarrow>
          (case principal_for_user d1 (nh_user c) (nh_tenant c) of
             Inl e \<Rightarrow> (Inl e, d1)
           | Inr p \<Rightarrow>
               (Inr (), auth_audit ''native_auth.account_recovery_completed'' ''success'' (Some (pr_tenant_id p))
                  (Some (pr_user_id p)) ''native_auth'' None []
                  (use_challenge env c (verify_user_email env (pr_user_id p)
                    (create_or_update_credential env (pr_user_id p) password d1))))))"

definition create_email_verification ::
    "auth_env \<Rightarrow> string \<Rightarrow> auth_db \<Rightarrow> (string \<times> string) option \<times> auth_db" where
  "create_email_verification env email d =
     (case user_by_email d (normalize_email email) of
        None \<Rightarrow> (None, d)
      | Some u \<Rightarrow>
          (case issue_challenge env ''email_verification'' (us_id u) None [] 30 d of
             (token, d1) \<Rightarrow> (Some (token, us_email u), d1)))"

definition complete_email_verification :: "auth_env \<Rightarrow> string \<Rightarrow> auth_db \<Rightarrow> unit auth_result" where
  "complete_email_verification env token d =
     (case load_challenge env token ''email_verification'' d of
        (Inl e, d1) \<Rightarrow> (Inl e, d1)
      | (Inr c, d1) \<Rightarrow>
          (case get_user d1 (nh_user c) of
             None \<Rightarrow> (Inl ''AUTH_CHALLENGE_INVALID'', d1)
           | Some u \<Rightarrow>
               (Inr (), auth_audit ''native_auth.email_verified'' ''success'' None (Some (us_id u)) ''native_auth'' None []
                  (use_challenge env c (save_user (u\<lparr>us_email_verified_at := Some (ae_now env)\<rparr>) d1)))))"

end
