(* ===== verification/Auth_Login.thy ===== *)
theory Auth_Login
  imports Auth_Service
begin

text \<open>
  Multi-factor enrollment and verification, login, and password resets (services/native_auth.py, lines
  502 to 704 and 777 to 900).
\<close>

section \<open>Multi-factor authentication\<close>

definition challenge_secret :: "challenge \<Rightarrow> string" where
  "challenge_secret c = (let v = obj_get (nh_payload c) ''secret'' in if truthy v then py_str v else [])"

definition otpauth_uri :: "string \<Rightarrow> string \<Rightarrow> string" where
  "otpauth_uri label secret = ''otpauth://totp/'' @ label @ ''?secret='' @ secret
     @ ''&issuer=PatroAI&algorithm=SHA1&digits=6&period=30''"

text \<open>\<open>quote(label)\<close> is the function argument.\<close>

definition mfa_enrollment_start ::
    "(string \<Rightarrow> string) \<Rightarrow> auth_env \<Rightarrow> string \<Rightarrow> auth_db \<Rightarrow> (string \<times> string) auth_result" where
  "mfa_enrollment_start quote env token d =
     (case load_challenge env token ''mfa_enroll'' d of
        (Inl e, d1) \<Rightarrow> (Inl e, d1)
      | (Inr c, d1) \<Rightarrow>
          if (case factor_of d1 (nh_user c) of None \<Rightarrow> False | Some f \<Rightarrow> nf_confirmed_at f \<noteq> None)
          then (Inl ''MFA_ALREADY_ENROLLED'', d1)
          else let secret = (if challenge_secret c = [] then ae_token env 3 else challenge_secret c);
                   d2 = (if challenge_secret c = []
                         then save_challenge (c\<lparr>nh_payload := AList.update ''secret'' (JStr secret) (nh_payload c)\<rparr>) d1
                         else d1)
            in case get_user d2 (nh_user c) of
                None \<Rightarrow> (Inl ''AUTH_CHALLENGE_INVALID'', d2)
              | Some u \<Rightarrow> (Inr (secret, otpauth_uri (quote (''PatroAI:'' @ us_email u)) secret), d2))"

definition recovery_codes :: "auth_env \<Rightarrow> string list" where
  "recovery_codes env = map (\<lambda>i. ae_token env (10 + 2 * i) @ ''-'' @ ae_token env (11 + 2 * i)) [0..<10]"

definition add_recovery_codes :: "auth_env \<Rightarrow> string \<Rightarrow> auth_db \<Rightarrow> auth_db" where
  "add_recovery_codes env uid d =
     d\<lparr>ad_recovery := ad_recovery d @ map (\<lambda>code. \<lparr>nk_id = code, nk_user = uid, nk_hash = ae_digest env code,
        nk_used_at = None\<rparr>) (recovery_codes env)\<rparr>"

definition confirm_factor :: "auth_env \<Rightarrow> string \<Rightarrow> string \<Rightarrow> auth_db \<Rightarrow> auth_db" where
  "confirm_factor env uid secret d =
     (case factor_of d uid of
        None \<Rightarrow> add_factor \<lparr>nf_id = ae_uid env 6, nf_user = uid, nf_type = ''totp'',
          nf_secret = ae_encrypt env secret, nf_confirmed_at = Some (ae_now env), nf_last_step = None\<rparr> d
      | Some f \<Rightarrow> save_factor (f\<lparr>nf_secret := ae_encrypt env secret, nf_confirmed_at := Some (ae_now env)\<rparr>) d)"

text \<open>The last step of both MFA operations: the challenge is used and a session issued.\<close>

definition finish_mfa :: "auth_env \<Rightarrow> client \<Rightarrow> challenge \<Rightarrow> auth_db \<Rightarrow> (string \<times> native_session \<times> principal) auth_result" where
  "finish_mfa env cl c d =
     (let d1 = use_challenge env c d in
      case principal_for_user d1 (nh_user c) (nh_tenant c) of
        Inl e \<Rightarrow> (Inl e, d1)
      | Inr p \<Rightarrow> (case issue_session env p cl True d1 of ((token, s), d2) \<Rightarrow> (Inr (token, s, p), d2)))"

definition mfa_enrollment_confirm ::
    "auth_env \<Rightarrow> client \<Rightarrow> string \<Rightarrow> string \<Rightarrow> auth_db
      \<Rightarrow> ((string \<times> native_session \<times> principal) \<times> string list) auth_result" where
  "mfa_enrollment_confirm env cl token code d =
     (case load_challenge env token ''mfa_enroll'' d of
        (Inl e, d1) \<Rightarrow> (Inl e, d1)
      | (Inr c, d1) \<Rightarrow>
          let secret = challenge_secret c in
          if secret = [] \<or> verify_totp env secret code None = None then (Inl ''MFA_CODE_INVALID'', d1)
          else case finish_mfa env cl c (add_recovery_codes env (nh_user c) (confirm_factor env (nh_user c) secret d1)) of
              (Inl e, d2) \<Rightarrow> (Inl e, d2)
            | (Inr r, d2) \<Rightarrow> (Inr (r, recovery_codes env), d2))"

text \<open>The factor check: the database with the used step or the used recovery code, or \<open>None\<close>.\<close>

definition check_recovery :: "auth_env \<Rightarrow> string \<Rightarrow> string option \<Rightarrow> auth_db \<Rightarrow> auth_db option" where
  "check_recovery env uid recovery d =
     (case recovery of
        None \<Rightarrow> None
      | Some r \<Rightarrow>
          if r = [] then None
          else map_option (\<lambda>k. save_recovery (k\<lparr>nk_used_at := Some (ae_now env)\<rparr>) d)
            (scalar (\<lambda>k. nk_user k = uid \<and> nk_hash k = ae_digest env (py_strip r) \<and> nk_used_at k = None)
               (ad_recovery d)))"

definition check_factor ::
    "auth_env \<Rightarrow> string \<Rightarrow> string option \<Rightarrow> string option \<Rightarrow> auth_db \<Rightarrow> string + auth_db option" where
  "check_factor env uid code recovery d =
     (case (confirmed_factor d uid, code) of
        (Some f, Some t) \<Rightarrow>
          if t = [] then Inr (check_recovery env uid recovery d)
          else (case ae_decrypt env (nf_secret f) of
                  None \<Rightarrow> Inl ''MFA_FACTOR_INVALID''
                | Some secret \<Rightarrow> Inr (map_option (\<lambda>step. save_factor (f\<lparr>nf_last_step := Some step\<rparr>) d)
                     (verify_totp env secret t (nf_last_step f))))
      | _ \<Rightarrow> Inr (check_recovery env uid recovery d))"

definition mfa_verify ::
    "auth_env \<Rightarrow> client \<Rightarrow> string \<Rightarrow> string option \<Rightarrow> string option \<Rightarrow> auth_db
      \<Rightarrow> (string \<times> native_session \<times> principal) auth_result" where
  "mfa_verify env cl token code recovery d =
     (case load_challenge env token ''mfa_verify'' d of
        (Inl e, d1) \<Rightarrow> (Inl e, d1)
      | (Inr c, d1) \<Rightarrow>
          (case check_factor env (nh_user c) code recovery d1 of
             Inl e \<Rightarrow> (Inl e, d1)
           | Inr None \<Rightarrow> (Inl ''MFA_CODE_INVALID'', d1)
           | Inr (Some d2) \<Rightarrow> finish_mfa env cl c d2))"

section \<open>Login\<close>

datatype login_result =
    LoggedIn string native_session principal
  | LoginChallenge string string principal

definition login_failure :: "string \<Rightarrow> string option \<Rightarrow> auth_db \<Rightarrow> auth_db" where
  "login_failure reason uid =
     auth_audit ''native_auth.login'' ''failure'' None uid ''native_auth'' None [(''reason'', JStr reason)]"

definition count_failure :: "auth_env \<Rightarrow> credential \<Rightarrow> credential" where
  "count_failure env c =
     (let n = nc_failed c + 1 in
      if st_login_max_failures (ae_settings env) \<le> n
      then c\<lparr>nc_failed := n,
             nc_locked_until := Some (ae_now env + minutes (st_login_lock_minutes (ae_settings env)))\<rparr>
      else c\<lparr>nc_failed := n\<rparr>)"

definition privileged_role :: "string \<Rightarrow> bool" where
  "privileged_role r \<longleftrightarrow> r \<in> {''admin'', ''owner'', ''orkio_admin''}"

definition needs_mfa :: "settings \<Rightarrow> string \<Rightarrow> bool" where
  "needs_mfa st role \<longleftrightarrow> privileged_role role \<and> st_environment st \<in> {''staging'', ''production''}"

text \<open>A login whose password was right: the MFA challenge of a privileged role, or a session.\<close>

definition login_accepted :: "auth_env \<Rightarrow> client \<Rightarrow> user \<Rightarrow> membership \<Rightarrow> auth_db \<Rightarrow> login_result \<times> auth_db" where
  "login_accepted env cl u m d =
     (let p = \<lparr>pr_user_id = us_id u, pr_tenant_id = mb_tenant m, pr_roles = [mb_role m],
               pr_email = Some (us_email u), pr_external_subject = Some (us_external_subject u)\<rparr> in
      if needs_mfa (ae_settings env) (mb_role m) then
        (let enrolled = confirmed_factor d (us_id u) \<noteq> None;
             status = (if enrolled then ''MFA_REQUIRED'' else ''MFA_ENROLLMENT_REQUIRED'') in
         case issue_challenge env (if enrolled then ''mfa_verify'' else ''mfa_enroll'') (us_id u)
                (Some (mb_tenant m)) [] 10 d of
           (token, d1) \<Rightarrow>
             (LoginChallenge status token p,
              auth_audit ''native_auth.login_challenge'' ''success'' (Some (mb_tenant m)) (Some (us_id u))
                ''native_auth'' None [(''status'', JStr status)] d1))
      else (case issue_session env p cl False d of ((token, s), d1) \<Rightarrow> (LoggedIn token s p, d1)))"

definition login :: "auth_env \<Rightarrow> client \<Rightarrow> string \<Rightarrow> string \<Rightarrow> auth_db \<Rightarrow> login_result auth_result" where
  "login env cl email password d =
     (case user_by_email d (normalize_email email) of
        None \<Rightarrow> (Inl ''INVALID_CREDENTIALS'', login_failure ''unknown_email'' None d)
      | Some u \<Rightarrow>
          (case credential_of d (us_id u) of
             None \<Rightarrow> (Inl ''INVALID_CREDENTIALS'', login_failure ''missing_credential'' (Some (us_id u)) d)
           | Some c \<Rightarrow>
               if (case nc_locked_until c of None \<Rightarrow> False | Some t \<Rightarrow> ae_now env < t)
               then (Inl ''ACCOUNT_TEMPORARILY_LOCKED'', login_failure ''locked'' (Some (us_id u)) d)
               else if \<not> verify_password env password (nc_hash c)
               then (Inl ''INVALID_CREDENTIALS'',
                     login_failure ''bad_password'' (Some (us_id u)) (save_credential (count_failure env c) d))
               else case active_membership d (us_id u) of
                   None \<Rightarrow> (Inl ''PRINCIPAL_NOT_PROVISIONED'',
                            login_failure ''no_active_membership'' (Some (us_id u)) d)
                 | Some m \<Rightarrow>
                     (case login_accepted env cl u m (save_credential (c\<lparr>nc_failed := 0, nc_locked_until := None,
                             nc_last_login := Some (ae_now env)\<rparr>) d) of
                        (r, d1) \<Rightarrow> (Inr r, d1))))"

section \<open>Password reset\<close>

record reset_issue =
  ri_token :: string
  ri_reset_id :: string
  ri_user :: string
  ri_email :: string

definition reset_requested :: "string option \<Rightarrow> (string \<times> json) list \<Rightarrow> auth_db \<Rightarrow> auth_db" where
  "reset_requested uid meta =
     auth_audit ''native_auth.password_reset_requested'' ''accepted'' None uid ''native_auth'' None meta"

definition use_resets :: "string \<Rightarrow> instant \<Rightarrow> auth_db \<Rightarrow> auth_db" where
  "use_resets uid t d = d\<lparr>ad_resets := update_where (\<lambda>r. nr_user r = uid \<and> nr_used_at r = None)
     (\<lambda>r. r\<lparr>nr_used_at := Some t\<rparr>) (ad_resets d)\<rparr>"

definition create_password_reset :: "auth_env \<Rightarrow> string \<Rightarrow> auth_db \<Rightarrow> reset_issue option \<times> auth_db" where
  "create_password_reset env email d =
     (case user_by_email d (normalize_email email) of
        None \<Rightarrow> (None, reset_requested None [(''known_user'', JBool False)] d)
      | Some u \<Rightarrow>
          if credential_of d (us_id u) = None
          then (None, reset_requested (Some (us_id u))
                  [(''known_user'', JBool True), (''has_credential'', JBool False)] d)
          else let t = ae_now env; token = ae_token env 2;
                   r = \<lparr>nr_id = ae_uid env 3, nr_hash = ae_digest env token, nr_prefix = take 12 token,
                     nr_user = us_id u, nr_issued_at = t,
                     nr_expires_at = t + minutes (st_reset_ttl_minutes (ae_settings env)), nr_used_at = None\<rparr>
            in (Some \<lparr>ri_token = token, ri_reset_id = nr_id r, ri_user = us_id u, ri_email = us_email u\<rparr>,
                reset_requested (Some (us_id u)) [(''known_user'', JBool True), (''has_credential'', JBool True)]
                  (add_reset r (use_resets (us_id u) t d))))"

definition revoke_password_reset :: "auth_env \<Rightarrow> string \<Rightarrow> string \<Rightarrow> auth_db \<Rightarrow> auth_db" where
  "revoke_password_reset env rid reason d =
     (case scalar (\<lambda>r. nr_id r = rid) (ad_resets d) of
        None \<Rightarrow> d
      | Some r \<Rightarrow>
          if nr_used_at r \<noteq> None then d
          else auth_audit ''native_auth.password_reset_revoked'' ''success'' None (Some (nr_user r))
                 ''native_password_reset'' (Some (nr_id r)) [(''reason'', JStr reason)]
                 (save_reset (r\<lparr>nr_used_at := Some (ae_now env)\<rparr>) d))"

definition revoke_user_sessions :: "string \<Rightarrow> instant \<Rightarrow> auth_db \<Rightarrow> auth_db" where
  "revoke_user_sessions uid t d = d\<lparr>ad_sessions := update_where (\<lambda>s. ns_user s = uid)
     (\<lambda>s. s\<lparr>ns_revoked_at := Some t\<rparr>) (ad_sessions d)\<rparr>"

definition reset_password :: "auth_env \<Rightarrow> string \<Rightarrow> string \<Rightarrow> auth_db \<Rightarrow> unit auth_result" where
  "reset_password env token password d =
     (case reset_by_hash d (ae_digest env token) of
        None \<Rightarrow> (Inl ''PASSWORD_RESET_TOKEN_INVALID'', d)
      | Some r \<Rightarrow>
          if nr_used_at r \<noteq> None \<or> nr_expires_at r \<le> ae_now env
          then (Inl ''PASSWORD_RESET_TOKEN_INVALID'', d)
          else (Inr (),
            auth_audit ''native_auth.password_reset_completed'' ''success'' None (Some (nr_user r)) ''native_auth'' None []
              (use_resets (nr_user r) (ae_now env) (revoke_user_sessions (nr_user r) (ae_now env)
                (create_or_update_credential env (nr_user r) password d)))))"

end
