(* ===== verification/Auth_Routes.thy ===== *)
theory Auth_Routes
  imports Auth_Login
begin

text \<open>
  The routes of auth_routes.py. A route opens a session on the committed database, runs a service
  operation and decides what is committed: \<open>POST /login\<close> commits also when the login fails (so that the
  failure counter counts), the other routes roll a failed operation back. A route returns its answer
  and the committed database. The delivery of an e-mail is a boolean argument, \<open>True\<close> when the mail
  service accepts it.
\<close>

record session_out =
  so_authenticated :: bool
  so_status :: "string option"
  so_user :: "string option"
  so_tenant :: "string option"
  so_email :: "string option"
  so_roles :: "string list"
  so_challenge :: "string option"
  so_recovery :: "string list"

datatype cookie_action = KeepCookie | SetCookie string | ClearCookie

definition no_session_out :: "string option \<Rightarrow> session_out" where
  "no_session_out status = \<lparr>so_authenticated = False, so_status = status, so_user = None, so_tenant = None,
     so_email = None, so_roles = [], so_challenge = None, so_recovery = []\<rparr>"

definition session_out_for :: "principal \<Rightarrow> bool \<Rightarrow> string \<Rightarrow> string option \<Rightarrow> string list \<Rightarrow> session_out" where
  "session_out_for p authenticated status challenge codes =
     \<lparr>so_authenticated = authenticated, so_status = Some status, so_user = Some (pr_user_id p),
      so_tenant = Some (pr_tenant_id p), so_email = pr_email p, so_roles = pr_roles p,
      so_challenge = challenge, so_recovery = codes\<rparr>"

type_synonym 'a auth_answer = "(http_error + 'a) \<times> auth_db"

definition native_mode :: "settings \<Rightarrow> bool" where
  "native_mode st \<longleftrightarrow> st_auth_mode st \<in> {''native_session'', ''native_or_oidc''}"

definition local_environment :: "settings \<Rightarrow> bool" where
  "local_environment st \<longleftrightarrow> st_environment st \<in> {''development'', ''test''}"

text \<open>Run an operation in a session: commit its work, or roll back and answer with \<open>status\<close>.\<close>

definition commit_or_rollback ::
    "(auth_db \<Rightarrow> 'a auth_result) \<Rightarrow> int \<Rightarrow> ('a \<Rightarrow> 'b) \<Rightarrow> auth_db \<Rightarrow> 'b auth_answer" where
  "commit_or_rollback run status out d =
     (let s = open_session d in
      case run (work s) of
        (Inl code, d1) \<Rightarrow> (Inl (HttpError status code), close_session (rollback (s\<lparr>work := d1\<rparr>)))
      | (Inr r, d1) \<Rightarrow> (Inr (out r), close_session (commit (s\<lparr>work := d1\<rparr>))))"

section \<open>Bootstrap, login, registration\<close>

record bootstrap_request =
  bs_secret :: string
  bs_tenant_id :: string
  bs_tenant_name :: string
  bs_email :: string
  bs_display_name :: string
  bs_password :: string

definition bootstrap_route ::
    "auth_env \<Rightarrow> client \<Rightarrow> bootstrap_request \<Rightarrow> auth_db \<Rightarrow> (session_out \<times> cookie_action) auth_answer" where
  "bootstrap_route env cl rq d =
     (let st = ae_settings env in
      if \<not> native_mode st then (Inl (HttpError 404 ''NATIVE_AUTH_DISABLED''), d)
      else if st_native_bootstrap_secret st = [] then (Inl (HttpError 403 ''NATIVE_BOOTSTRAP_DISABLED''), d)
      else if bs_secret rq \<noteq> st_native_bootstrap_secret st
        then (Inl (HttpError 403 ''NATIVE_BOOTSTRAP_FORBIDDEN''), d)
      else if int (length (bs_password rq)) < st_password_min_length st
        then (Inl (HttpError 422 ''PASSWORD_TOO_SHORT''), d)
      else commit_or_rollback (\<lambda>w.
             case bootstrap_owner env (bs_tenant_id rq) (bs_tenant_name rq) (bs_email rq) (bs_display_name rq)
                    (bs_password rq) w of
               (Inl e, d1) \<Rightarrow> (Inl e, d1)
             | (Inr p, d1) \<Rightarrow> (case issue_session env p cl False d1 of ((token, s), d2) \<Rightarrow> (Inr (token, p), d2)))
           409 (\<lambda>(token, p). (session_out_for p True ''AUTHENTICATED'' None [], SetCookie token)) d)"

definition bootstrap_status :: "auth_env \<Rightarrow> auth_db \<Rightarrow> bool \<times> bool" where
  "bootstrap_status env d = (st_native_bootstrap_secret (ae_settings env) \<noteq> [], ad_credentials d \<noteq> [])"

fun login_answer :: "login_result \<Rightarrow> session_out \<times> cookie_action" where
  "login_answer (LoginChallenge status token p) = (session_out_for p False status (Some token) [], KeepCookie)"
| "login_answer (LoggedIn token s p) = (session_out_for p True ''AUTHENTICATED'' None [], SetCookie token)"

definition login_route ::
    "auth_env \<Rightarrow> client \<Rightarrow> string \<Rightarrow> string \<Rightarrow> auth_db \<Rightarrow> (session_out \<times> cookie_action) auth_answer" where
  "login_route env cl email password d =
     (if \<not> native_mode (ae_settings env) then (Inl (HttpError 404 ''NATIVE_AUTH_DISABLED''), d)
      else let s = open_session d in
        case login env cl email password (work s) of
          (Inl code, d1) \<Rightarrow>
            (Inl (HttpError (if code = ''ACCOUNT_TEMPORARILY_LOCKED'' then 423 else 401) code),
             close_session (commit (s\<lparr>work := d1\<rparr>)))
        | (Inr r, d1) \<Rightarrow> (Inr (login_answer r), close_session (commit (s\<lparr>work := d1\<rparr>))))"

record register_request =
  rg_email :: string
  rg_password :: string
  rg_grant :: string
  rg_name :: string
  rg_goal :: "string option"

definition gate_http :: "string list \<Rightarrow> gate_error \<Rightarrow> http_error" where
  "gate_http conflicts e = (case e of
     GateCrash \<Rightarrow> HttpError 500 ''Internal Server Error''
   | GateCode code \<Rightarrow> HttpError (if code \<in> set conflicts then 409 else 403) code)"

record register_out =
  ro_session :: session_out
  ro_claim_token :: "string option"

text \<open>A known user without a credential is sent an account recovery token.\<close>

definition register_recovery :: "auth_env \<Rightarrow> register_request \<Rightarrow> string \<Rightarrow> auth_db \<Rightarrow> (register_out \<times> cookie_action) auth_answer" where
  "register_recovery env rq email d =
     (let s = open_session d in
      case create_account_recovery env email (rg_grant rq) (work s) of
        (Inl e, d1) \<Rightarrow>
          (Inl (gate_http [''ACCOUNT_RECOVERY_NOT_ALLOWED'', ''NATIVE_ACCOUNT_ALREADY_EXISTS''] e),
           close_session (rollback (s\<lparr>work := d1\<rparr>)))
      | (Inr None, d1) \<Rightarrow>
          (Inr (\<lparr>ro_session = no_session_out (Some ''accepted''), ro_claim_token = None\<rparr>, KeepCookie),
           close_session (rollback (s\<lparr>work := d1\<rparr>)))
      | (Inr (Some token), d1) \<Rightarrow>
          (Inr (\<lparr>ro_session = no_session_out (Some ''ACCOUNT_RECOVERY_REQUIRED''),
                 ro_claim_token = (if local_environment (ae_settings env)
                    \<and> py_strip (st_resend_api_key (ae_settings env)) = [] then Some token else None)\<rparr>, KeepCookie),
           close_session (commit (s\<lparr>work := d1\<rparr>))))"

fun login_token :: "login_result \<Rightarrow> string \<times> principal" where
  "login_token (LoggedIn token s p) = (token, p)"
| "login_token (LoginChallenge status token p) = (token, p)"

definition register_new :: "auth_env \<Rightarrow> client \<Rightarrow> register_request \<Rightarrow> string \<Rightarrow> string \<Rightarrow> auth_db
    \<Rightarrow> (register_out \<times> cookie_action) auth_answer" where
  "register_new env cl rq tenant email d =
     (let p = \<lparr>pr_user_id = ae_uid env 4, pr_tenant_id = tenant, pr_roles = [''member''], pr_email = Some email,
               pr_external_subject = Some (''native:'' @ email)\<rparr> in
      case complete_onboarding env p (rg_grant rq) (rg_name rq) (rg_goal rq) (open_session d) of
        (Inl e, s) \<Rightarrow>
          (Inl (gate_http [''ACCESS_GRANT_ALREADY_USED'', ''ACCESS_ONBOARDING_CONFLICT''] e), close_session (rollback s))
      | (Inr x, s) \<Rightarrow>
          let s1 = on_work (create_or_update_credential env (pr_user_id p) (rg_password rq)) s in
          case login env cl email (rg_password rq) (work s1) of
            (Inl e, d1) \<Rightarrow> (Inl (HttpError 401 e), close_session (rollback (s1\<lparr>work := d1\<rparr>)))
          | (Inr r, d1) \<Rightarrow>
              (case login_token r of (token, q) \<Rightarrow>
                (Inr (\<lparr>ro_session = session_out_for q True ''AUTHENTICATED'' None [], ro_claim_token = None\<rparr>,
                      SetCookie token),
                 close_session (commit (s1\<lparr>work := d1\<rparr>)))))"

definition register_route ::
    "auth_env \<Rightarrow> client \<Rightarrow> register_request \<Rightarrow> auth_db \<Rightarrow> (register_out \<times> cookie_action) auth_answer" where
  "register_route env cl rq d =
     (let st = ae_settings env; tenant = py_strip (st_access_gate_tenant_id st);
          email = py_lower (py_strip (rg_email rq)) in
      if \<not> native_mode st then (Inl (HttpError 404 ''NATIVE_AUTH_DISABLED''), d)
      else if int (length (rg_password rq)) < st_password_min_length st
        then (Inl (HttpError 422 ''PASSWORD_TOO_SHORT''), d)
      else if tenant = [] then (Inl (HttpError 503 ''ACCESS_GATE_NOT_CONFIGURED''), d)
      else case user_by_email d email of
          Some u \<Rightarrow>
            if credential_of d (us_id u) \<noteq> None then (Inl (HttpError 409 ''NATIVE_ACCOUNT_ALREADY_EXISTS''), d)
            else register_recovery env rq email d
        | None \<Rightarrow> register_new env cl rq tenant email d)"

section \<open>Passwords\<close>

definition forgot_password_route ::
    "auth_env \<Rightarrow> bool \<Rightarrow> string \<Rightarrow> auth_db \<Rightarrow> (string option) auth_answer" where
  "forgot_password_route env mail_ok email d =
     (let st = ae_settings env in
      if \<not> native_mode st then (Inl (HttpError 404 ''NATIVE_AUTH_DISABLED''), d)
      else case create_password_reset env email d of
          (None, d1) \<Rightarrow> (Inr None, d1)
        | (Some issue, d1) \<Rightarrow>
            (let sends = py_strip (st_resend_api_key st) \<noteq> []; delivered = sends \<and> mail_ok;
                 d2 = (if sends \<and> \<not> mail_ok
                       then revoke_password_reset env (ri_reset_id issue) ''email_delivery_failed'' d1 else d1)
             in (Inr (if \<not> delivered \<and> local_environment st then Some (ri_token issue) else None), d2)))"

definition reset_password_route ::
    "auth_env \<Rightarrow> string \<Rightarrow> string \<Rightarrow> string \<Rightarrow> auth_db \<Rightarrow> (session_out \<times> cookie_action) auth_answer" where
  "reset_password_route env token password confirm d =
     (let st = ae_settings env in
      if \<not> native_mode st then (Inl (HttpError 404 ''NATIVE_AUTH_DISABLED''), d)
      else if password \<noteq> confirm then (Inl (HttpError 422 ''PASSWORD_CONFIRMATION_MISMATCH''), d)
      else if int (length password) < st_password_min_length st
        then (Inl (HttpError 422 ''PASSWORD_TOO_SHORT''), d)
      else commit_or_rollback (reset_password env token password) 400
             (\<lambda>_. (no_session_out None, ClearCookie)) d)"

section \<open>Session cookies\<close>

record cookies =
  ck_configured :: "string option"
  ck_host :: "string option"
  ck_legacy :: "string option"

definition or_cookie :: "string option \<Rightarrow> string option \<Rightarrow> string option" where
  "or_cookie a b = (case a of None \<Rightarrow> b | Some t \<Rightarrow> if t = [] then b else Some t)"

definition request_token :: "cookies \<Rightarrow> string option" where
  "request_token c = or_cookie (or_cookie (ck_configured c) (ck_host c)) (ck_legacy c)"

definition logout_route :: "auth_env \<Rightarrow> cookies \<Rightarrow> auth_db \<Rightarrow> (session_out \<times> cookie_action) auth_answer" where
  "logout_route env c d =
     (case revoke_session env (request_token c) d of
        (_, d1) \<Rightarrow> (Inr (no_session_out None, ClearCookie), d1))"

section \<open>E-mail verification and account recovery\<close>

definition verify_email_route :: "auth_env \<Rightarrow> string \<Rightarrow> auth_db \<Rightarrow> string auth_answer" where
  "verify_email_route env token d =
     commit_or_rollback (complete_email_verification env token) 400 (\<lambda>_. ''EMAIL_VERIFIED'') d"

definition claim_account_route :: "auth_env \<Rightarrow> string \<Rightarrow> auth_db \<Rightarrow> string auth_answer" where
  "claim_account_route env token d =
     commit_or_rollback (complete_email_verification env token) 400 (\<lambda>_. ''ACCOUNT_CLAIM_VERIFIED'') d"

definition resend_verification_route :: "auth_env \<Rightarrow> string \<Rightarrow> auth_db \<Rightarrow> string \<times> auth_db" where
  "resend_verification_route env email d =
     (case create_email_verification env email d of (_, d1) \<Rightarrow> (''accepted'', d1))"

definition recover_account_route ::
    "auth_env \<Rightarrow> string \<Rightarrow> string \<Rightarrow> string \<Rightarrow> auth_db \<Rightarrow> (session_out \<times> cookie_action) auth_answer" where
  "recover_account_route env token password confirm d =
     (let st = ae_settings env in
      if \<not> native_mode st then (Inl (HttpError 404 ''NATIVE_AUTH_DISABLED''), d)
      else if password \<noteq> confirm then (Inl (HttpError 422 ''PASSWORD_CONFIRMATION_MISMATCH''), d)
      else if int (length password) < st_password_min_length st
        then (Inl (HttpError 422 ''PASSWORD_TOO_SHORT''), d)
      else commit_or_rollback (complete_account_recovery env token password) 400
             (\<lambda>_. (no_session_out (Some ''ACCOUNT_RECOVERY_COMPLETE''), ClearCookie)) d)"

section \<open>Multi-factor routes\<close>

definition enroll_start_route ::
    "(string \<Rightarrow> string) \<Rightarrow> auth_env \<Rightarrow> string \<Rightarrow> auth_db \<Rightarrow> (string \<times> string) auth_answer" where
  "enroll_start_route quote env token d = commit_or_rollback (mfa_enrollment_start quote env token) 400 id d"

definition enroll_confirm_route ::
    "auth_env \<Rightarrow> client \<Rightarrow> string \<Rightarrow> string \<Rightarrow> auth_db \<Rightarrow> (session_out \<times> cookie_action) auth_answer" where
  "enroll_confirm_route env cl token code d =
     commit_or_rollback (mfa_enrollment_confirm env cl token code) 400
       (\<lambda>((t, s, p), codes). (session_out_for p True ''AUTHENTICATED'' None codes, SetCookie t)) d"

definition given :: "string option \<Rightarrow> bool" where
  "given v = (case v of None \<Rightarrow> False | Some t \<Rightarrow> t \<noteq> [])"

definition mfa_verify_route ::
    "auth_env \<Rightarrow> client \<Rightarrow> string \<Rightarrow> string option \<Rightarrow> string option \<Rightarrow> auth_db
      \<Rightarrow> (session_out \<times> cookie_action) auth_answer" where
  "mfa_verify_route env cl token code recovery d =
     (if given code = given recovery then (Inl (HttpError 422 ''MFA_EXACTLY_ONE_FACTOR_REQUIRED''), d)
      else commit_or_rollback (mfa_verify env cl token code recovery) 400
             (\<lambda>(t, s, p). (session_out_for p True ''AUTHENTICATED'' None [], SetCookie t)) d)"

end
