(* ===== verification/Auth_Identity.thy ===== *)
theory Auth_Identity
  imports Auth_Service "HOL-Library.Char_ord" "HOL-Library.List_Lexorder"
begin

text \<open>
  Who is asking, and with which roles: OIDC claims (services/oidc_identity.py), the principal of a
  request (auth.py), and the authorization that comes from the database alone
  (services/authorization.py, services/identity.py). The introspection endpoint is a function from a
  token to its decoded answer, \<open>None\<close> when the call fails; strings are ordered as Python orders them.
\<close>

section \<open>OIDC claims\<close>

definition required_scalar :: "(string \<times> json) list \<Rightarrow> string \<Rightarrow> string \<Rightarrow> string + string" where
  "required_scalar data key code =
     (if obj_get data key = JNull then Inl code
      else let t = py_strip (py_str (obj_get data key)) in if t = [] then Inl code else Inr t)"

text \<open>\<open>tuple(sorted(set(xs)))\<close>.\<close>

definition sorted_set :: "string list \<Rightarrow> string list" where
  "sorted_set xs = sort (remdups xs)"

fun role_bound :: "string \<Rightarrow> json \<Rightarrow> bool" where
  "role_bound tenant (JObj kvs) = (tenant \<in> set (map fst kvs))"
| "role_bound tenant (JList xs) = (tenant \<in> set (map py_str xs))"
| "role_bound tenant JNull = False"
| "role_bound tenant v = (py_str v = tenant)"

fun normalize_roles :: "json \<Rightarrow> string \<Rightarrow> string + string list" where
  "normalize_roles JNull tenant = Inr []"
| "normalize_roles (JStr s) tenant = Inr (let r = py_strip s in if r = [] then [] else [r])"
| "normalize_roles (JObj kvs) tenant = Inr (sorted_set
     (map (\<lambda>kv. py_strip (fst kv)) (filter (\<lambda>kv. py_strip (fst kv) \<noteq> [] \<and> role_bound tenant (snd kv)) kvs)))"
| "normalize_roles (JList xs) tenant = Inr (sorted_set (filter (\<lambda>r. r \<noteq> []) (map (\<lambda>x. py_strip (py_str x)) xs)))"
| "normalize_roles _ tenant = Inl ''ROLE_CLAIM_INVALID''"

record oidc_identity =
  oi_user :: string
  oi_tenant :: string
  oi_roles :: "string list"
  oi_email :: "string option"
  oi_subject :: string

record oidc_config =
  oc_issuer :: string
  oc_audience :: string
  oc_user_claim :: string
  oc_tenant_claim :: string
  oc_roles_claim :: string

definition normalize_oidc_identity :: "oidc_config \<Rightarrow> (string \<times> json) list \<Rightarrow> string + oidc_identity" where
  "normalize_oidc_identity cfg data =
     (case required_scalar data (oc_user_claim cfg) ''USER_CLAIM_MISSING'' of Inl e \<Rightarrow> Inl e | Inr user \<Rightarrow>
     (case required_scalar data (oc_tenant_claim cfg) ''TENANT_CLAIM_MISSING'' of Inl e \<Rightarrow> Inl e | Inr tenant \<Rightarrow>
     (case required_scalar data ''sub'' ''SUBJECT_CLAIM_MISSING'' of Inl e \<Rightarrow> Inl e | Inr subject \<Rightarrow>
     (case normalize_roles (obj_get data (oc_roles_claim cfg)) tenant of Inl e \<Rightarrow> Inl e | Inr roles \<Rightarrow>
        Inr \<lparr>oi_user = user, oi_tenant = tenant, oi_roles = roles,
          oi_email = (if truthy (obj_get data ''email'')
                      then Some (py_strip (py_str (obj_get data ''email''))) else None),
          oi_subject = subject\<rparr>))))"

section \<open>The principal of a request\<close>

record request_headers =
  hd_authorization :: "string option"
  hd_test_user :: "string option"
  hd_test_tenant :: "string option"
  hd_test_roles :: "string option"
  hd_test_email :: "string option"
  hd_test_subject :: "string option"
  hd_session :: "string option"

definition text_given :: "string option \<Rightarrow> bool" where
  "text_given v \<longleftrightarrow> v \<noteq> None \<and> v \<noteq> Some []"

definition test_principal :: "settings \<Rightarrow> request_headers \<Rightarrow> http_error + principal" where
  "test_principal st h =
     (if st_environment st \<notin> {''test'', ''development''} then Inl (HttpError 500 ''TEST_AUTH_FORBIDDEN'')
      else if \<not> text_given (hd_test_user h) \<or> \<not> text_given (hd_test_tenant h)
        then Inl (HttpError 401 ''TEST_IDENTITY_REQUIRED'')
      else if \<not> text_given (hd_test_subject h) then Inl (HttpError 401 ''TEST_SUBJECT_REQUIRED'')
      else Inr \<lparr>pr_user_id = the (hd_test_user h), pr_tenant_id = the (hd_test_tenant h),
        pr_roles = filter (\<lambda>r. r \<noteq> []) (py_split (CHR '','')
          (if text_given (hd_test_roles h) then the (hd_test_roles h) else ''member'')),
        pr_email = hd_test_email h, pr_external_subject = hd_test_subject h\<rparr>)"

fun audience_has :: "string \<Rightarrow> json \<Rightarrow> bool option" where
  "audience_has aud (JStr s) = Some (aud = s)"
| "audience_has aud (JList xs) = Some (JStr aud \<in> set xs)"
| "audience_has aud (JObj kvs) = Some (aud \<in> set (map fst kvs))"
| "audience_has aud _ = None"

definition server_error :: http_error where
  "server_error = HttpError 500 ''Internal Server Error''"

definition oidc_principal :: "oidc_config \<Rightarrow> json option \<Rightarrow> http_error + principal" where
  "oidc_principal cfg answer =
     (case answer of
        None \<Rightarrow> Inl (HttpError 503 ''IDENTITY_PROVIDER_UNAVAILABLE'')
      | Some v \<Rightarrow>
          if \<not> is_dict v then Inl server_error
          else let data = dict_items v in
            if \<not> truthy (obj_get data ''active'') then Inl (HttpError 401 ''TOKEN_INACTIVE'')
            else if \<not> truthy (obj_get data ''iss'') \<or> py_str (obj_get data ''iss'') \<noteq> oc_issuer cfg
              then Inl (HttpError 401 ''TOKEN_ISSUER_INVALID'')
            else case (if map_of data ''aud'' = None then Some False
                       else audience_has (oc_audience cfg) (obj_get data ''aud'')) of
                None \<Rightarrow> Inl server_error
              | Some False \<Rightarrow> Inl (HttpError 401 ''TOKEN_AUDIENCE_INVALID'')
              | Some True \<Rightarrow>
                  (case normalize_oidc_identity cfg data of
                     Inl code \<Rightarrow> Inl (HttpError 403 code)
                   | Inr i \<Rightarrow> Inr \<lparr>pr_user_id = oi_user i, pr_tenant_id = oi_tenant i, pr_roles = oi_roles i,
                       pr_email = oi_email i, pr_external_subject = Some (oi_subject i)\<rparr>))"

definition bearer_token :: "string option \<Rightarrow> string option" where
  "bearer_token h = (case h of None \<Rightarrow> None
     | Some t \<Rightarrow> if py_startswith t ''Bearer '' then Some (py_strip (drop 7 t)) else None)"

definition require_principal ::
    "auth_env \<Rightarrow> oidc_config \<Rightarrow> (string \<Rightarrow> json option) \<Rightarrow> request_headers \<Rightarrow> auth_db
      \<Rightarrow> (http_error + principal) \<times> auth_db" where
  "require_principal env cfg introspect h d =
     (let st = ae_settings env; mode = st_auth_mode st;
          external = (case bearer_token (hd_authorization h) of
              None \<Rightarrow> Inl (HttpError 401 ''BEARER_TOKEN_REQUIRED'')
            | Some t \<Rightarrow> oidc_principal cfg (introspect t)) in
      if mode = ''test'' then (test_principal st h, d)
      else if mode = ''external_required'' then (Inl (HttpError 401 ''AUTH_PROVIDER_REQUIRED''), d)
      else if mode \<in> {''native_session'', ''native_or_oidc''} then
        (case principal_from_session env (hd_session h) d of
           (Some p, d1) \<Rightarrow> (Inr p, d1)
         | (None, d1) \<Rightarrow>
             if mode = ''native_session'' then (Inl (HttpError 401 ''NATIVE_SESSION_REQUIRED''), d1)
             else (external, d1))
      else (external, d))"

section \<open>Roles from the database\<close>

definition expand_role :: "string \<Rightarrow> string list" where
  "expand_role role = role # (if role \<in> {''owner'', ''superadmin''} then [''admin''] else [])
     @ (if role = ''superadmin'' then [''owner''] else [])"

definition resolve_provisioned_roles ::
    "settings \<Rightarrow> auth_db \<Rightarrow> string \<Rightarrow> string \<Rightarrow> string option \<Rightarrow> string + string list" where
  "resolve_provisioned_roles st d tenant user subject =
     (case (get_tenant d tenant, get_user d user, active_membership_in d tenant user) of
        (Some t, Some u, Some m) \<Rightarrow>
          if \<not> text_given subject \<or> Some (us_external_subject u) \<noteq> subject
          then Inl ''PRINCIPAL_NOT_PROVISIONED''
          else let role = py_strip (mb_role m) in
            if role = [] then Inl ''PRINCIPAL_NOT_PROVISIONED''
            else let roles = expand_role role;
                     owner = py_strip (case st_platform_owner_subject st of None \<Rightarrow> [] | Some s \<Rightarrow> s) in
              if owner \<noteq> [] \<and> subject = Some owner then
                (if ''admin'' \<notin> set roles then Inl ''PLATFORM_OWNER_ADMIN_MEMBERSHIP_REQUIRED''
                 else Inr (sorted_set (''platform_owner'' # roles)))
              else Inr (sorted_set roles)
      | _ \<Rightarrow> Inl ''PRINCIPAL_NOT_PROVISIONED'')"

definition assert_identity_known :: "auth_db \<Rightarrow> principal \<Rightarrow> http_error option" where
  "assert_identity_known d p =
     (case (get_tenant d (pr_tenant_id p), get_user d (pr_user_id p)) of
        (Some t, Some u) \<Rightarrow>
          if \<not> text_given (pr_external_subject p) \<or> Some (us_external_subject u) \<noteq> pr_external_subject p
          then Some (HttpError 403 ''PRINCIPAL_NOT_PROVISIONED'') else None
      | _ \<Rightarrow> Some (HttpError 403 ''PRINCIPAL_NOT_PROVISIONED''))"

definition assert_provisioned :: "auth_db \<Rightarrow> principal \<Rightarrow> http_error option" where
  "assert_provisioned d p =
     (case assert_identity_known d p of
        Some e \<Rightarrow> Some e
      | None \<Rightarrow> if active_membership_in d (pr_tenant_id p) (pr_user_id p) = None
                then Some (HttpError 403 ''PRINCIPAL_NOT_PROVISIONED'') else None)"

definition require_provisioned :: "settings \<Rightarrow> auth_db \<Rightarrow> principal \<Rightarrow> http_error + principal" where
  "require_provisioned st d p =
     (case resolve_provisioned_roles st d (pr_tenant_id p) (pr_user_id p) (pr_external_subject p) of
        Inl code \<Rightarrow> Inl (HttpError 403 code)
      | Inr roles \<Rightarrow> Inr (p\<lparr>pr_roles := roles\<rparr>))"

definition require_role :: "string list \<Rightarrow> string \<Rightarrow> principal \<Rightarrow> http_error + principal" where
  "require_role wanted code p =
     (if list_ex (\<lambda>r. r \<in> set (pr_roles p)) wanted then Inr p else Inl (HttpError 403 code))"

definition require_provisioned_admin :: "settings \<Rightarrow> auth_db \<Rightarrow> principal \<Rightarrow> http_error + principal" where
  "require_provisioned_admin st d p = (case require_provisioned st d p of
     Inl e \<Rightarrow> Inl e | Inr q \<Rightarrow> require_role [''admin'', ''orkio_admin''] ''ADMIN_ROLE_REQUIRED'' q)"

definition require_provisioned_superadmin :: "settings \<Rightarrow> auth_db \<Rightarrow> principal \<Rightarrow> http_error + principal" where
  "require_provisioned_superadmin st d p = (case require_provisioned st d p of
     Inl e \<Rightarrow> Inl e | Inr q \<Rightarrow> require_role [''superadmin'', ''platform_owner''] ''SUPERADMIN_ROLE_REQUIRED'' q)"

section \<open>Facts\<close>

lemma set_sorted_set [simp]: "set (sorted_set xs) = set xs"
  by (simp add: sorted_set_def)

lemma sorted_set_ok: "sorted (sorted_set xs) \<and> distinct (sorted_set xs)"
  by (simp add: sorted_set_def)

lemma resolve_rolesD:
  assumes "resolve_provisioned_roles st d tenant user subject = Inr roles"
  obtains t u m where "get_tenant d tenant = Some t" "get_user d user = Some u"
    "active_membership_in d tenant user = Some m" "subject = Some (us_external_subject u)"
    "set roles \<subseteq> insert ''platform_owner'' (set (expand_role (py_strip (mb_role m))))"
    "set (expand_role (py_strip (mb_role m))) \<subseteq> set roles"
    "''platform_owner'' \<in> set roles \<Longrightarrow> ''platform_owner'' \<in> set (expand_role (py_strip (mb_role m)))
       \<or> ''admin'' \<in> set (expand_role (py_strip (mb_role m)))
         \<and> subject = map_option py_strip (st_platform_owner_subject st)"
proof -
  from assms obtain t u m where look: "get_tenant d tenant = Some t" "get_user d user = Some u"
    "active_membership_in d tenant user = Some m"
    by (auto simp: resolve_provisioned_roles_def split: option.splits)
  define owner where "owner = py_strip (case st_platform_owner_subject st of None \<Rightarrow> [] | Some s \<Rightarrow> s)"
  have strip: "py_strip [] = []" by (simp add: py_strip_def py_lstrip_def py_rstrip_def)
  then have owner: "owner \<noteq> [] \<Longrightarrow> map_option py_strip (st_platform_owner_subject st) = Some owner"
    by (auto simp: owner_def split: option.splits)
  have ok: "text_given subject \<and> Some (us_external_subject u) = subject \<and> py_strip (mb_role m) \<noteq> []"
    using assms by (simp add: resolve_provisioned_roles_def look Let_def split: if_splits)
  then have subj: "subject = Some (us_external_subject u)" by simp
  have roles: "Inr roles = (if owner \<noteq> [] \<and> subject = Some owner
      then if ''admin'' \<notin> set (expand_role (py_strip (mb_role m)))
        then Inl ''PLATFORM_OWNER_ADMIN_MEMBERSHIP_REQUIRED''
        else Inr (sorted_set (''platform_owner'' # expand_role (py_strip (mb_role m))))
      else Inr (sorted_set (expand_role (py_strip (mb_role m)))))"
    using assms ok unfolding owner_def
    by (simp only: resolve_provisioned_roles_def look Let_def option.case prod.case simp_thms if_False)
  show thesis
  proof (cases "owner \<noteq> [] \<and> subject = Some owner")
    case True
    then have "''admin'' \<in> set (expand_role (py_strip (mb_role m)))"
      "set roles = insert ''platform_owner'' (set (expand_role (py_strip (mb_role m))))"
      using roles by (auto split: if_splits)
    with True owner show thesis by (intro that [OF look subj]) auto
  next
    case False
    then have "set roles = set (expand_role (py_strip (mb_role m)))" using roles by (simp only: if_False) simp
    then show thesis by (intro that [OF look subj]) auto
  qed
qed

lemma normalize_roles_sorted: "normalize_roles v t = Inr rs \<Longrightarrow> sorted rs \<and> distinct rs"
  by (cases v) (auto simp: sorted_set_ok Let_def split: if_splits)

lemma normalize_roles_bound:
  assumes "normalize_roles (JObj kvs) t = Inr rs" and "r \<in> set rs"
  shows "\<exists>k b. (k, b) \<in> set kvs \<and> r = py_strip k \<and> r \<noteq> [] \<and> role_bound t b"
proof -
  from assms obtain kv where "kv \<in> set kvs" "r = py_strip (fst kv)" "r \<noteq> []" "role_bound t (snd kv)"
    by (auto simp: sorted_set_def)
  then show ?thesis by (metis prod.collapse)
qed

end
