(* ===== verification/Auth_Sessions.thy ===== *)
theory Auth_Sessions
  imports Auth_Routes Auth_Identity
begin

text \<open>
  The routes of auth_routes.py that manage the sessions of an authenticated principal: reauthentication,
  the list of sessions, and the revocation of one or of all other sessions. The principal is the result
  of \<open>require_principal\<close>, on the same database session: the time stamp that it writes on the session row
  is committed by the routes that commit.
\<close>

definition own_session :: "principal \<Rightarrow> native_session \<Rightarrow> bool" where
  "own_session p s \<longleftrightarrow> ns_user s = pr_user_id p \<and> ns_tenant s = pr_tenant_id p"

definition current_session :: "auth_env \<Rightarrow> cookies \<Rightarrow> principal \<Rightarrow> auth_db \<Rightarrow> native_session option" where
  "current_session env c p d =
     (case request_token c of
        None \<Rightarrow> None
      | Some t \<Rightarrow> if t = [] then None
                  else scalar (\<lambda>s. ns_hash s = ae_digest env t \<and> own_session p s) (ad_sessions d))"

definition reauthenticate_route ::
    "auth_env \<Rightarrow> cookies \<Rightarrow> principal \<Rightarrow> string \<Rightarrow> auth_db \<Rightarrow> session_out auth_answer" where
  "reauthenticate_route env c p password d =
     (case credential_of d (pr_user_id p) of
        None \<Rightarrow> (Inl (HttpError 401 ''INVALID_CREDENTIALS''), d)
      | Some cr \<Rightarrow>
          if \<not> verify_password env password (nc_hash cr) then (Inl (HttpError 401 ''INVALID_CREDENTIALS''), d)
          else (case current_session env c p d of
                  None \<Rightarrow> (Inl (HttpError 401 ''NATIVE_SESSION_REQUIRED''), d)
                | Some s \<Rightarrow> (Inr (session_out_for p True ''REAUTHENTICATED'' None []),
                            save_native_session (s\<lparr>ns_reauth_at := Some (ae_now env)\<rparr>) d)))"

record session_record =
  sr_id :: string
  sr_current :: bool
  sr_created_at :: instant
  sr_last_seen :: instant
  sr_expires_at :: instant
  sr_user_agent :: string
  sr_ip_prefix :: string
  sr_mfa_verified :: bool

definition sessions_route :: "auth_env \<Rightarrow> cookies \<Rightarrow> principal \<Rightarrow> auth_db \<Rightarrow> session_record list" where
  "sessions_route env c p d =
     (let current = current_session env c p d;
          rows = sort_key (\<lambda>s. - ns_created_at s) (filter (own_session p) (ad_sessions d))
      in map (\<lambda>s. \<lparr>sr_id = ns_id s,
                   sr_current = (case current of None \<Rightarrow> False | Some k \<Rightarrow> ns_id s = ns_id k),
                   sr_created_at = ns_created_at s, sr_last_seen = ns_last_seen s,
                   sr_expires_at = ns_expires_at s, sr_user_agent = ns_user_agent s,
                   sr_ip_prefix = ns_ip_prefix s, sr_mfa_verified = (ns_mfa_at s \<noteq> None)\<rparr>)
           (filter (\<lambda>s. ns_revoked_at s = None) rows))"

definition revoke_others_route :: "auth_env \<Rightarrow> cookies \<Rightarrow> principal \<Rightarrow> auth_db \<Rightarrow> session_out auth_answer" where
  "revoke_others_route env c p d =
     (let current = current_session env c p d in
      (Inr (session_out_for p True ''OTHER_SESSIONS_REVOKED'' None []),
       d\<lparr>ad_sessions := update_where
           (\<lambda>s. own_session p s \<and> ns_revoked_at s = None
              \<and> (case current of None \<Rightarrow> True | Some k \<Rightarrow> ns_id s \<noteq> ns_id k))
           (\<lambda>s. s\<lparr>ns_revoked_at := Some (ae_now env)\<rparr>) (ad_sessions d)\<rparr>))"

definition revoke_one_route :: "auth_env \<Rightarrow> string \<Rightarrow> principal \<Rightarrow> auth_db \<Rightarrow> session_out auth_answer" where
  "revoke_one_route env sid p d =
     (case scalar (\<lambda>s. ns_id s = sid \<and> own_session p s) (ad_sessions d) of
        None \<Rightarrow> (Inl (HttpError 404 ''SESSION_NOT_FOUND''), d)
      | Some s \<Rightarrow> (Inr (session_out_for p True ''SESSION_REVOKED'' None []),
                  save_native_session (s\<lparr>ns_revoked_at := Some (ae_now env)\<rparr>) d))"

section \<open>With the principal of the request\<close>

record identity_provider =
  ip_config :: oidc_config
  ip_introspect :: "string \<Rightarrow> json option"

definition session_headers :: "cookies \<Rightarrow> request_headers" where
  "session_headers c = \<lparr>hd_authorization = None, hd_test_user = None, hd_test_tenant = None,
     hd_test_roles = None, hd_test_email = None, hd_test_subject = None, hd_session = request_token c\<rparr>"

definition with_principal :: "auth_env \<Rightarrow> identity_provider \<Rightarrow> request_headers
    \<Rightarrow> (principal \<Rightarrow> auth_db \<Rightarrow> 'a auth_answer) \<Rightarrow> auth_db \<Rightarrow> 'a auth_answer" where
  "with_principal env ip h run d =
     (case require_principal env (ip_config ip) (ip_introspect ip) h d of
        (Inl e, d1) \<Rightarrow> (Inl e, d)
      | (Inr p, d1) \<Rightarrow> (case run p d1 of (Inl e, d2) \<Rightarrow> (Inl e, d) | (Inr r, d2) \<Rightarrow> (Inr r, d2)))"

definition session_route :: "auth_env \<Rightarrow> identity_provider \<Rightarrow> request_headers \<Rightarrow> auth_db \<Rightarrow> http_error + session_out" where
  "session_route env ip h d =
     map_sum id (\<lambda>p. session_out_for p True ''AUTHENTICATED'' None [])
       (fst (require_principal env (ip_config ip) (ip_introspect ip) h d))"

section \<open>Access gate and profile routes (routes.py)\<close>

definition validate_access_route :: "auth_env \<Rightarrow> string \<Rightarrow> http_error + string \<times> int" where
  "validate_access_route env code =
     (case validate_access_code env code of
        Inl GateCrash \<Rightarrow> Inl server_error
      | Inl (GateCode c) \<Rightarrow> Inl (HttpError (if c = ''ACCESS_GATE_DISABLED'' then 503 else 403) c)
      | Inr g \<Rightarrow> Inr g)"

definition onboarding_route ::
    "auth_env \<Rightarrow> string \<Rightarrow> string \<Rightarrow> string option \<Rightarrow> principal \<Rightarrow> auth_db \<Rightarrow> experience_profile auth_answer" where
  "onboarding_route env grant name goal p d =
     (case complete_onboarding env p grant name goal (open_session d) of
        (Inl e, s) \<Rightarrow> (Inl (gate_http [''ACCESS_GRANT_ALREADY_USED'', ''ACCESS_IDENTITY_CONFLICT'',
             ''ACCESS_ONBOARDING_CONFLICT''] e), close_session s)
      | (Inr x, s) \<Rightarrow> (Inr x, close_session s))"

record me_out =
  me_user :: string
  me_tenant :: string
  me_email :: "string option"
  me_roles :: "string list"
  me_admin :: bool
  me_name :: string
  me_goal :: "string option"

definition me_route :: "auth_env \<Rightarrow> principal \<Rightarrow> auth_db \<Rightarrow> http_error + me_out" where
  "me_route env p0 d =
     (case require_provisioned (ae_settings env) d p0 of
        Inl e \<Rightarrow> Inl e
      | Inr p \<Rightarrow> (let x = profile_for d (pr_tenant_id p) (pr_user_id p) in
          Inr \<lparr>me_user = pr_user_id p, me_tenant = pr_tenant_id p, me_email = pr_email p, me_roles = pr_roles p,
            me_admin = is_allowlisted_admin p (ae_settings env),
            me_name = (case x of None \<Rightarrow> ''Co-Criador'' | Some y \<Rightarrow> xp_name y),
            me_goal = (case x of None \<Rightarrow> None | Some y \<Rightarrow> xp_goal y)\<rparr>))"

text \<open>A name that is too short once it is cleaned raises an error that this route does not catch.\<close>

definition rename_route :: "auth_env \<Rightarrow> string \<Rightarrow> principal \<Rightarrow> auth_db \<Rightarrow> experience_profile auth_answer" where
  "rename_route env name p0 d =
     (case require_provisioned (ae_settings env) d p0 of
        Inl e \<Rightarrow> (Inl e, d)
      | Inr p \<Rightarrow>
          (case update_profile_name p name (open_session d) of
             (Inl e, s) \<Rightarrow> (Inl server_error, close_session s)
           | (Inr x, s) \<Rightarrow> (Inr x, close_session s)))"

definition admin_users_route ::
    "auth_env \<Rightarrow> principal \<Rightarrow> auth_db \<Rightarrow> http_error + (membership \<times> user) list" where
  "admin_users_route env p0 d =
     (case require_provisioned_superadmin (ae_settings env) d p0 of
        Inl e \<Rightarrow> Inl e
      | Inr p1 \<Rightarrow>
          (case require_allowlisted_admin p1 (ae_settings env) of
             Inl e \<Rightarrow> Inl e
           | Inr p \<Rightarrow> Inr (sort_key (\<lambda>r. py_lower (us_email (snd r)))
               [(m, u). m \<leftarrow> filter (\<lambda>m. mb_tenant m = pr_tenant_id p) (ad_memberships d),
                        u \<leftarrow> filter (\<lambda>u. us_id u = mb_user m) (ad_users d)])))"

definition security_status_route :: "auth_env \<Rightarrow> principal \<Rightarrow> auth_db \<Rightarrow> http_error + (string \<times> nat \<times> bool \<times> bool)" where
  "security_status_route env p0 d =
     (let st = ae_settings env in
      case require_provisioned st d p0 of
        Inl e \<Rightarrow> Inl e
      | Inr p1 \<Rightarrow>
          (case require_allowlisted_admin p1 st of
             Inl e \<Rightarrow> Inl e
           | Inr p \<Rightarrow> Inr (st_auth_mode st,
               length (filter (\<lambda>t. py_strip t \<noteq> []) (py_split (CHR '','') (st_access_gate_code_hashes st))),
               py_strip (st_access_gate_tenant_id st) \<noteq> [],
               32 \<le> length (st_access_gate_signing_secret st))))"

end
