(* ===== verification/Auth_Invariants.thy ===== *)
theory Auth_Invariants
  imports Auth_Sessions
begin

text \<open>
  What every operation of native authentication keeps (\<open>auth_inv\<close>: the unique keys of the tables and at
  most one unused password reset per user) and how rows may change over time (\<open>auth_grows\<close>: nothing is
  deleted, a revoked session stays revoked, a used challenge, reset or recovery code stays used, the last
  TOTP step does not go back, the redemptions and the audit log only grow). \<open>good d0 d\<close> says that both
  hold of a database \<open>d\<close> reached from \<open>d0\<close>; each write has a rule for it, and an operation is good by
  composing the rules of its writes.
\<close>

section \<open>How tables change\<close>

definition rows_grow :: "('r \<Rightarrow> 'k) \<Rightarrow> ('r \<Rightarrow> 'r \<Rightarrow> bool) \<Rightarrow> 'r list \<Rightarrow> 'r list \<Rightarrow> bool" where
  "rows_grow key R xs ys \<longleftrightarrow> (\<forall>x \<in> set xs. \<exists>y \<in> set ys. key y = key x \<and> R x y)"

lemma rows_grow_refl: "(\<And>x. R x x) \<Longrightarrow> rows_grow key R xs xs"
  by (auto simp: rows_grow_def)

lemma rows_grow_trans:
  assumes "rows_grow key R xs ys" and "rows_grow key R ys zs" and "\<And>x y z. R x y \<Longrightarrow> R y z \<Longrightarrow> R x z"
  shows "rows_grow key R xs zs"
  using assms by (fastforce simp: rows_grow_def)

lemma rows_grow_snoc: "rows_grow key R xs ys \<Longrightarrow> rows_grow key R xs (ys @ zs)"
  by (fastforce simp: rows_grow_def)

lemma rows_grow_put:
  assumes "unique_key key ys" and "y \<in> set ys" and "key y = key z" and "R y z" and "\<And>x. R x x"
  shows "rows_grow key R ys (put_row key z ys)"
  unfolding rows_grow_def
proof
  fix x assume x: "x \<in> set ys"
  show "\<exists>y \<in> set (put_row key z ys). key y = key x \<and> R x y"
  proof (cases "key x = key z")
    case True
    with assms x have "x = y" by (metis scalar_unique option.inject)
    with assms True x put_row_in [of x ys key z] show ?thesis by auto
  next
    case False
    with assms(5) put_row_other [OF x] show ?thesis by auto
  qed
qed

lemma rows_grow_update:
  assumes "\<And>x. key (f x) = key x" and "\<And>x. p x \<Longrightarrow> R x (f x)" and "\<And>x. R x x"
  shows "rows_grow key R ys (update_where p f ys)"
  unfolding rows_grow_def
proof
  fix x assume "x \<in> set ys"
  then have "(if p x then f x else x) \<in> set (update_where p f ys)" by (simp add: update_where_def)
  with assms show "\<exists>y \<in> set (update_where p f ys). key y = key x \<and> R x y" by (cases "p x") auto
qed

lemma rows_growD:
  assumes "rows_grow key R xs ys" and "unique_key key ys" and "x \<in> set xs"
  obtains y where "scalar (\<lambda>y. key y = key x) ys = Some y" "R x y" "key y = key x" "y \<in> set ys"
proof -
  from assms(1,3) obtain y where y: "y \<in> set ys" "key y = key x" "R x y" unfolding rows_grow_def by blast
  have "scalar (\<lambda>z. key z = key x) ys = Some y" using scalar_unique [OF assms(2) y(1)] y(2) by simp
  from that [OF this y(3,2,1)] show thesis .
qed

lemma map_update_where: "(\<And>x. g (f x) = g x) \<Longrightarrow> map g (update_where p f ys) = map g ys"
  by (induction ys) (auto simp: update_where_def)

section \<open>The invariant and the order\<close>

definition stays :: "'a option \<Rightarrow> 'a option \<Rightarrow> bool" where
  "stays a b \<longleftrightarrow> a = None \<or> b = a"

definition session_grows :: "native_session \<Rightarrow> native_session \<Rightarrow> bool" where
  "session_grows s t \<longleftrightarrow> ns_id t = ns_id s \<and> ns_tenant t = ns_tenant s \<and> ns_user t = ns_user s
     \<and> ns_created_at t = ns_created_at s \<and> ns_expires_at t = ns_expires_at s \<and> ns_mfa_at t = ns_mfa_at s
     \<and> (ns_revoked_at s \<noteq> None \<longrightarrow> ns_revoked_at t \<noteq> None)"

definition reset_grows :: "password_reset \<Rightarrow> password_reset \<Rightarrow> bool" where
  "reset_grows r q \<longleftrightarrow> nr_id q = nr_id r \<and> nr_user q = nr_user r \<and> nr_issued_at q = nr_issued_at r
     \<and> nr_expires_at q = nr_expires_at r \<and> stays (nr_used_at r) (nr_used_at q)"

definition challenge_grows :: "challenge \<Rightarrow> challenge \<Rightarrow> bool" where
  "challenge_grows a b \<longleftrightarrow> nh_purpose b = nh_purpose a \<and> nh_user b = nh_user a \<and> nh_tenant b = nh_tenant a
     \<and> nh_expires_at b = nh_expires_at a \<and> stays (nh_used_at a) (nh_used_at b) \<and> nh_attempts a \<le> nh_attempts b"

definition step_le :: "int option \<Rightarrow> int option \<Rightarrow> bool" where
  "step_le a b \<longleftrightarrow> (case a of None \<Rightarrow> True | Some i \<Rightarrow> (case b of None \<Rightarrow> False | Some j \<Rightarrow> i \<le> j))"

definition factor_grows :: "mfa_factor \<Rightarrow> mfa_factor \<Rightarrow> bool" where
  "factor_grows f g \<longleftrightarrow> (nf_confirmed_at f \<noteq> None \<longrightarrow> nf_confirmed_at g \<noteq> None)
     \<and> step_le (nf_last_step f) (nf_last_step g)"

definition recovery_grows :: "recovery_code \<Rightarrow> recovery_code \<Rightarrow> bool" where
  "recovery_grows a b \<longleftrightarrow> stays (nk_used_at a) (nk_used_at b)"

definition user_grows :: "user \<Rightarrow> user \<Rightarrow> bool" where
  "user_grows u v \<longleftrightarrow> us_external_subject v = us_external_subject u"

lemmas grows_row_defs = session_grows_def reset_grows_def challenge_grows_def factor_grows_def
  recovery_grows_def user_grows_def stays_def step_le_def

definition live_resets :: "auth_db \<Rightarrow> password_reset list" where
  "live_resets d = filter (\<lambda>r. nr_used_at r = None) (ad_resets d)"

definition auth_inv :: "auth_db \<Rightarrow> bool" where
  "auth_inv d \<longleftrightarrow> unique_key nc_user (ad_credentials d) \<and> unique_key ns_hash (ad_sessions d)
     \<and> unique_key nr_hash (ad_resets d) \<and> unique_key nr_user (live_resets d)
     \<and> unique_key nh_hash (ad_challenges d) \<and> unique_key nf_user (ad_factors d)
     \<and> unique_key (\<lambda>k. (nk_user k, nk_hash k)) (ad_recovery d) \<and> unique_key gr_jti (ad_redemptions d)
     \<and> unique_key us_id (ad_users d)"

definition auth_grows :: "auth_db \<Rightarrow> auth_db \<Rightarrow> bool" where
  "auth_grows d e \<longleftrightarrow> rows_grow ns_hash session_grows (ad_sessions d) (ad_sessions e)
     \<and> rows_grow nr_hash reset_grows (ad_resets d) (ad_resets e)
     \<and> rows_grow nh_hash challenge_grows (ad_challenges d) (ad_challenges e)
     \<and> rows_grow nf_user factor_grows (ad_factors d) (ad_factors e)
     \<and> rows_grow (\<lambda>k. (nk_user k, nk_hash k)) recovery_grows (ad_recovery d) (ad_recovery e)
     \<and> rows_grow nc_user (\<lambda>_ _. True) (ad_credentials d) (ad_credentials e)
     \<and> rows_grow us_id user_grows (ad_users d) (ad_users e)
     \<and> (\<exists>more. ad_redemptions e = ad_redemptions d @ more)
     \<and> (\<exists>more. ad_audits e = ad_audits d @ more)"

lemma row_grows_refl [simp]:
  "session_grows s s" "reset_grows r r" "challenge_grows c c" "factor_grows f f" "recovery_grows k k" "user_grows u u"
  by (auto simp: grows_row_defs split: option.splits)

lemma row_grows_trans:
  "session_grows s t \<Longrightarrow> session_grows t s2 \<Longrightarrow> session_grows s s2"
  "reset_grows r q \<Longrightarrow> reset_grows q r2 \<Longrightarrow> reset_grows r r2"
  "challenge_grows c e \<Longrightarrow> challenge_grows e c2 \<Longrightarrow> challenge_grows c c2"
  "factor_grows f g \<Longrightarrow> factor_grows g f2 \<Longrightarrow> factor_grows f f2"
  "recovery_grows k l \<Longrightarrow> recovery_grows l k2 \<Longrightarrow> recovery_grows k k2"
  "user_grows u v \<Longrightarrow> user_grows v u2 \<Longrightarrow> user_grows u u2"
  by (auto simp: grows_row_defs split: option.splits)

lemma auth_grows_refl [simp]: "auth_grows d d"
  by (simp add: auth_grows_def rows_grow_refl)

lemma auth_grows_trans: "auth_grows d e \<Longrightarrow> auth_grows e f \<Longrightarrow> auth_grows d f"
  unfolding auth_grows_def
  by (elim conjE exE) (intro conjI; (blast intro: rows_grow_trans row_grows_trans | simp))

definition good :: "auth_db \<Rightarrow> auth_db \<Rightarrow> bool" where
  "good d0 d \<longleftrightarrow> auth_inv d \<and> auth_grows d0 d"

lemma good_refl: "auth_inv d \<Longrightarrow> good d d"
  by (simp add: good_def)

lemma good_step: "good d0 d \<Longrightarrow> (auth_inv d \<Longrightarrow> auth_inv e \<and> auth_grows d e) \<Longrightarrow> good d0 e"
  unfolding good_def by (blast intro: auth_grows_trans)

section \<open>Rules for the writes\<close>

lemma unique_put_row [simp]: "unique_key pk (put_row pk r rows) = unique_key pk rows"
  by (simp add: unique_key_def)

lemma good_add_credential:
  "good d0 d \<Longrightarrow> credential_of d (nc_user c) = None \<Longrightarrow> good d0 (add_credential c d)"
  by (erule good_step) (simp_all add: auth_inv_def auth_grows_def add_credential_def rows_grow_refl
      rows_grow_snoc unique_key_snoc fresh_key_scalar credential_of_def live_resets_def)

lemma good_save_credential:
  assumes "good d0 d" and "\<exists>x \<in> set (ad_credentials d). nc_user x = nc_user c"
  shows "good d0 (save_credential c d)"
proof (rule good_step [OF assms(1)])
  assume i: "auth_inv d"
  with assms(2) have "rows_grow nc_user (\<lambda>_ _. True) (ad_credentials d) (put_row nc_user c (ad_credentials d))"
    by (auto simp: auth_inv_def intro: rows_grow_put)
  with i show "auth_inv (save_credential c d) \<and> auth_grows d (save_credential c d)"
    by (simp add: auth_inv_def auth_grows_def save_credential_def rows_grow_refl live_resets_def)
qed

lemma good_add_session:
  "good d0 d \<Longrightarrow> fresh_key ns_hash (ns_hash s) (ad_sessions d) \<Longrightarrow> good d0 (add_native_session s d)"
  by (erule good_step) (simp_all add: auth_inv_def auth_grows_def add_native_session_def rows_grow_refl
      rows_grow_snoc unique_key_snoc live_resets_def)

lemma good_save_session:
  assumes "good d0 d" and "\<exists>x \<in> set (ad_sessions d). ns_hash x = ns_hash s \<and> session_grows x s"
  shows "good d0 (save_native_session s d)"
proof (rule good_step [OF assms(1)])
  assume i: "auth_inv d"
  with assms(2) have "rows_grow ns_hash session_grows (ad_sessions d) (put_row ns_hash s (ad_sessions d))"
    by (auto simp: auth_inv_def intro: rows_grow_put)
  with i show "auth_inv (save_native_session s d) \<and> auth_grows d (save_native_session s d)"
    by (simp add: auth_inv_def auth_grows_def save_native_session_def rows_grow_refl live_resets_def)
qed

lemma good_update_sessions:
  assumes "good d0 d" and "\<And>s. ns_hash (f s) = ns_hash s" and "\<And>s. session_grows s (f s)"
  shows "good d0 (d\<lparr>ad_sessions := update_where p f (ad_sessions d)\<rparr>)"
proof (rule good_step [OF assms(1)])
  assume "auth_inv d"
  moreover have "rows_grow ns_hash session_grows (ad_sessions d) (update_where p f (ad_sessions d))"
    by (rule rows_grow_update) (simp_all add: assms)
  ultimately show "auth_inv (d\<lparr>ad_sessions := update_where p f (ad_sessions d)\<rparr>)
      \<and> auth_grows d (d\<lparr>ad_sessions := update_where p f (ad_sessions d)\<rparr>)"
    by (simp add: auth_inv_def auth_grows_def rows_grow_refl live_resets_def unique_key_def
        map_update_where [of ns_hash f, OF assms(2)])
qed

lemma good_add_challenge:
  "good d0 d \<Longrightarrow> fresh_key nh_hash (nh_hash c) (ad_challenges d) \<Longrightarrow> good d0 (add_challenge c d)"
  by (erule good_step) (simp_all add: auth_inv_def auth_grows_def add_challenge_def rows_grow_refl
      rows_grow_snoc unique_key_snoc live_resets_def)

lemma good_save_challenge:
  assumes "good d0 d" and "\<exists>x \<in> set (ad_challenges d). nh_hash x = nh_hash c \<and> challenge_grows x c"
  shows "good d0 (save_challenge c d)"
proof (rule good_step [OF assms(1)])
  assume i: "auth_inv d"
  with assms(2) have "rows_grow nh_hash challenge_grows (ad_challenges d) (put_row nh_hash c (ad_challenges d))"
    by (auto simp: auth_inv_def intro: rows_grow_put)
  with i show "auth_inv (save_challenge c d) \<and> auth_grows d (save_challenge c d)"
    by (simp add: auth_inv_def auth_grows_def save_challenge_def rows_grow_refl live_resets_def)
qed

lemma good_add_factor:
  "good d0 d \<Longrightarrow> factor_of d (nf_user f) = None \<Longrightarrow> good d0 (add_factor f d)"
  by (erule good_step) (simp_all add: auth_inv_def auth_grows_def add_factor_def rows_grow_refl
      rows_grow_snoc unique_key_snoc fresh_key_scalar factor_of_def live_resets_def)

lemma good_save_factor:
  assumes "good d0 d" and "\<exists>x \<in> set (ad_factors d). nf_user x = nf_user f \<and> factor_grows x f"
  shows "good d0 (save_factor f d)"
proof (rule good_step [OF assms(1)])
  assume i: "auth_inv d"
  with assms(2) have "rows_grow nf_user factor_grows (ad_factors d) (put_row nf_user f (ad_factors d))"
    by (auto simp: auth_inv_def intro: rows_grow_put)
  with i show "auth_inv (save_factor f d) \<and> auth_grows d (save_factor f d)"
    by (simp add: auth_inv_def auth_grows_def save_factor_def rows_grow_refl live_resets_def)
qed

lemma good_save_recovery:
  assumes "good d0 d"
    and "\<exists>x \<in> set (ad_recovery d). nk_user x = nk_user k \<and> nk_hash x = nk_hash k \<and> recovery_grows x k"
  shows "good d0 (save_recovery k d)"
proof (rule good_step [OF assms(1)])
  assume i: "auth_inv d"
  with assms(2) have "rows_grow (\<lambda>k. (nk_user k, nk_hash k)) recovery_grows (ad_recovery d)
      (put_row (\<lambda>k. (nk_user k, nk_hash k)) k (ad_recovery d))"
    by (auto simp: auth_inv_def intro: rows_grow_put)
  with i show "auth_inv (save_recovery k d) \<and> auth_grows d (save_recovery k d)"
    by (simp add: auth_inv_def auth_grows_def save_recovery_def rows_grow_refl live_resets_def)
qed

lemma good_add_user:
  "good d0 d \<Longrightarrow> fresh_key us_id (us_id u) (ad_users d) \<Longrightarrow> good d0 (add_user u d)"
  by (erule good_step) (simp_all add: auth_inv_def auth_grows_def add_user_def rows_grow_refl
      rows_grow_snoc unique_key_snoc live_resets_def)

lemma good_save_user:
  assumes "good d0 d" and "\<exists>x \<in> set (ad_users d). us_id x = us_id u \<and> user_grows x u"
  shows "good d0 (save_user u d)"
proof (rule good_step [OF assms(1)])
  assume i: "auth_inv d"
  with assms(2) have "rows_grow us_id user_grows (ad_users d) (put_row us_id u (ad_users d))"
    by (auto simp: auth_inv_def intro: rows_grow_put)
  with i show "auth_inv (save_user u d) \<and> auth_grows d (save_user u d)"
    by (simp add: auth_inv_def auth_grows_def save_user_def rows_grow_refl live_resets_def)
qed

lemma good_add_redemption:
  "good d0 d \<Longrightarrow> redeemed_by d (gr_jti r) = None \<Longrightarrow> good d0 (add_redemption r d)"
  by (erule good_step) (simp_all add: auth_inv_def auth_grows_def add_redemption_def rows_grow_refl
      unique_key_snoc fresh_key_scalar redeemed_by_def live_resets_def)

lemma good_same:
  assumes "good d0 d"
  shows "good d0 (auth_audit a o' t ac rt rid meta d)" and "good d0 (add_membership m d)"
    "good d0 (save_membership m d)" and "good d0 (add_tenant tn d)" and "good d0 (save_tenant tn d)"
    and "good d0 (put_profile x d)"
  by (rule good_step [OF assms], simp add: auth_inv_def auth_grows_def auth_audit_def auth_write_defs
      put_profile_def rows_grow_refl live_resets_def split: option.splits)+

lemma good_use_resets:
  assumes "good d0 d" shows "good d0 (use_resets uid t d)"
proof (rule good_step [OF assms])
  let ?p = "\<lambda>r. nr_user r = uid \<and> nr_used_at r = None" and ?f = "\<lambda>r :: password_reset. r\<lparr>nr_used_at := Some t\<rparr>"
  assume i: "auth_inv d"
  have "filter (\<lambda>r. nr_used_at r = None) (update_where ?p ?f rows)
      = filter (\<lambda>r. nr_user r \<noteq> uid) (filter (\<lambda>r. nr_used_at r = None) rows)" for rows
    by (induction rows) (auto simp: update_where_def)
  then have "unique_key nr_user (live_resets (use_resets uid t d))"
    using i by (simp add: auth_inv_def live_resets_def use_resets_def unique_key_def distinct_map inj_on_def)
  moreover have "map nr_hash (update_where ?p ?f (ad_resets d)) = map nr_hash (ad_resets d)"
    by (rule map_update_where) simp
  moreover have "rows_grow nr_hash reset_grows (ad_resets d) (update_where ?p ?f (ad_resets d))"
    by (rule rows_grow_update) (auto simp: reset_grows_def stays_def)
  ultimately show "auth_inv (use_resets uid t d) \<and> auth_grows d (use_resets uid t d)"
    using i by (simp add: auth_inv_def auth_grows_def use_resets_def rows_grow_refl unique_key_def)
qed

lemma good_add_reset:
  assumes "good d0 d" and "fresh_key nr_hash (nr_hash r) (ad_resets d)"
    and "\<forall>x \<in> set (ad_resets d). nr_user x = nr_user r \<longrightarrow> nr_used_at x \<noteq> None"
  shows "good d0 (add_reset r d)"
proof (rule good_step [OF assms(1)])
  assume i: "auth_inv d"
  have "unique_key nr_user (live_resets (add_reset r d))"
    using i assms(3) by (auto simp: auth_inv_def live_resets_def add_reset_def unique_key_def)
  with i assms(2) show "auth_inv (add_reset r d) \<and> auth_grows d (add_reset r d)"
    by (simp add: auth_inv_def auth_grows_def add_reset_def rows_grow_refl rows_grow_snoc unique_key_snoc)
qed

lemma good_save_reset:
  assumes "good d0 d" and "\<exists>x \<in> set (ad_resets d). nr_hash x = nr_hash r \<and> reset_grows x r"
    and "nr_used_at r \<noteq> None"
  shows "good d0 (save_reset r d)"
proof (rule good_step [OF assms(1)])
  assume i: "auth_inv d"
  with assms(2) have "rows_grow nr_hash reset_grows (ad_resets d) (put_row nr_hash r (ad_resets d))"
    by (auto simp: auth_inv_def intro: rows_grow_put)
  moreover have "filter (\<lambda>r. nr_used_at r = None) (put_row nr_hash r rows)
      = filter (\<lambda>x. nr_hash x \<noteq> nr_hash r) (filter (\<lambda>r. nr_used_at r = None) rows)" for rows
    using assms(3) by (induction rows) (auto simp: put_row_def)
  then have "unique_key nr_user (live_resets (save_reset r d))"
    using i by (simp add: auth_inv_def live_resets_def save_reset_def unique_key_def distinct_map inj_on_def)
  ultimately show "auth_inv (save_reset r d) \<and> auth_grows d (save_reset r d)"
    using i by (simp add: auth_inv_def auth_grows_def save_reset_def rows_grow_refl)
qed

lemma good_add_recovery:
  assumes "good d0 d" and "distinct (map (ae_digest env) (recovery_codes env))"
    and "\<forall>k \<in> set (ad_recovery d). nk_hash k \<notin> ae_digest env ` set (recovery_codes env)"
  shows "good d0 (add_recovery_codes env uid d)"
proof (rule good_step [OF assms(1)])
  assume i: "auth_inv d"
  have "distinct (map (\<lambda>code. (uid, ae_digest env code)) (recovery_codes env))"
    using assms(2) by (auto simp: distinct_map inj_on_def)
  then have "unique_key (\<lambda>k. (nk_user k, nk_hash k)) (ad_recovery (add_recovery_codes env uid d))"
    using i assms(3) by (auto simp: auth_inv_def add_recovery_codes_def unique_key_def comp_def)
  with i show "auth_inv (add_recovery_codes env uid d) \<and> auth_grows d (add_recovery_codes env uid d)"
    by (simp add: auth_inv_def auth_grows_def add_recovery_codes_def rows_grow_refl rows_grow_snoc live_resets_def)
qed

lemmas good_rules = good_add_credential good_save_credential good_add_session good_save_session
  good_update_sessions good_add_challenge good_save_challenge good_add_factor good_save_factor
  good_save_recovery good_add_user good_save_user good_add_redemption good_same good_use_resets
  good_add_reset good_save_reset good_add_recovery

end
