(* ===== verification/Auth_Ops.thy ===== *)
theory Auth_Ops
  imports Auth_Invariants
begin

text \<open>
  Every operation and every route of native authentication is good: it keeps \<open>auth_inv\<close> and only makes
  the tables grow, provided the random values it draws are new (\<open>fresh_env\<close>).
\<close>

definition fresh_env :: "auth_env \<Rightarrow> auth_db \<Rightarrow> bool" where
  "fresh_env env d \<longleftrightarrow> fresh_key ns_hash (ae_digest env (ae_token env 0)) (ad_sessions d)
     \<and> fresh_key nh_hash (ae_digest env (ae_token env 1)) (ad_challenges d)
     \<and> fresh_key nr_hash (ae_digest env (ae_token env 2)) (ad_resets d)
     \<and> fresh_key us_id (ae_uid env 4) (ad_users d)
     \<and> distinct (map (ae_digest env) (recovery_codes env))
     \<and> list_all (\<lambda>k. nk_hash k \<notin> set (map (ae_digest env) (recovery_codes env))) (ad_recovery d)"

lemma fresh_key_put_row [simp]: "fresh_key pk k (put_row pk r rows) = fresh_key pk k rows"
  by (simp add: fresh_key_def del: set_map)

lemma put_row_mem: "x \<in> set rows \<Longrightarrow> pk r = pk x \<Longrightarrow> r \<in> set (put_row pk r rows)"
  by (rule put_row_in) simp_all

section \<open>Service operations\<close>

lemma lookupsD:
  "get_user d i = Some u \<Longrightarrow> u \<in> set (ad_users d) \<and> us_id u = i"
  "user_by_email d em = Some u \<Longrightarrow> u \<in> set (ad_users d) \<and> us_email u = em"
  "credential_of d i = Some c \<Longrightarrow> c \<in> set (ad_credentials d) \<and> nc_user c = i"
  "session_by_hash d h = Some s \<Longrightarrow> s \<in> set (ad_sessions d) \<and> ns_hash s = h"
  "challenge_by_hash d h p = Some ch \<Longrightarrow> ch \<in> set (ad_challenges d) \<and> nh_hash ch = h \<and> nh_purpose ch = p"
  "confirmed_factor d i = Some f \<Longrightarrow> f \<in> set (ad_factors d) \<and> nf_user f = i \<and> nf_confirmed_at f \<noteq> None"
  "factor_of d i = Some f \<Longrightarrow> f \<in> set (ad_factors d) \<and> nf_user f = i"
  "reset_by_hash d h = Some r \<Longrightarrow> r \<in> set (ad_resets d) \<and> nr_hash r = h"
  by (auto simp: get_user_def user_by_email_def credential_of_def session_by_hash_def challenge_by_hash_def
      confirmed_factor_def factor_of_def reset_by_hash_def dest!: scalar_SomeD)

lemma good_credential:
  assumes "good d0 d" shows "good d0 (create_or_update_credential env uid pw d)"
proof (cases "credential_of d uid")
  case None
  with assms show ?thesis by (auto simp: create_or_update_credential_def intro!: good_rules)
next
  case (Some c)
  with lookupsD(3) [OF Some] assms show ?thesis
    by (auto simp: create_or_update_credential_def intro!: good_save_credential)
qed

lemma good_verify_email:
  assumes "good d0 d" shows "good d0 (verify_user_email env uid d)"
  using assms lookupsD(1) [of d uid]
  by (cases "get_user d uid") (auto simp: verify_user_email_def user_grows_def intro!: good_save_user)

lemma good_issue_session:
  "good d0 d \<Longrightarrow> fresh_key ns_hash (ae_digest env (ae_token env 0)) (ad_sessions d) \<Longrightarrow>
     issue_session env p cl mfa d = (r, d1) \<Longrightarrow> good d0 d1"
  by (auto simp: issue_session_def Let_def intro!: good_rules)

lemma good_issue_challenge:
  "good d0 d \<Longrightarrow> fresh_key nh_hash (ae_digest env (ae_token env 1)) (ad_challenges d) \<Longrightarrow>
     issue_challenge env purpose uid tid pl ttl d = (r, d1) \<Longrightarrow> good d0 d1"
  by (auto simp: issue_challenge_def Let_def intro!: good_rules)

lemma load_challengeE:
  assumes "load_challenge env tk purpose d = (r, d1)"
  obtains (refused) "r = Inl ''AUTH_CHALLENGE_INVALID''" "d1 = d"
  | (loaded) c where "challenge_by_hash d (ae_digest env tk) purpose = Some c" "nh_used_at c = None"
      "ae_now env < nh_expires_at c" "nh_attempts c < 8"
      "r = Inr (c\<lparr>nh_attempts := nh_attempts c + 1\<rparr>)" "d1 = save_challenge (c\<lparr>nh_attempts := nh_attempts c + 1\<rparr>) d"
  using assms by (auto simp: load_challenge_def Let_def not_le split: option.splits if_splits)

text \<open>A loaded challenge is good, and its row is in the table for the writes that follow.\<close>

lemma good_load:
  assumes "good d0 d" and "load_challenge env tk purpose d = (r, d1)"
  shows "good d0 d1"
  using assms(2)
proof (cases rule: load_challengeE)
  case (loaded c)
  with lookupsD(5) [OF loaded(1)] assms(1) show ?thesis
    by (auto simp: challenge_grows_def stays_def intro!: good_save_challenge)
qed (use assms in simp)

lemma loaded_row:
  assumes "load_challenge env tk purpose d = (Inr c, d1)"
  shows "c \<in> set (ad_challenges d1)" and "nh_used_at c = None" and "nh_hash c = ae_digest env tk"
    and "nh_purpose c = purpose"
  using assms
  by (auto elim!: load_challengeE dest!: lookupsD(5) simp: save_challenge_def intro!: put_row_mem)

lemma load_frame:
  assumes "load_challenge env tk purpose d = (r, d1)"
  shows "ad_sessions d1 = ad_sessions d" "ad_users d1 = ad_users d" "ad_credentials d1 = ad_credentials d"
    "ad_factors d1 = ad_factors d" "ad_recovery d1 = ad_recovery d" "ad_memberships d1 = ad_memberships d"
    "map nh_hash (ad_challenges d1) = map nh_hash (ad_challenges d)"
  using assms by (auto elim!: load_challengeE simp: save_challenge_def)

lemma good_use_challenge:
  assumes "good d0 d" and "c \<in> set (ad_challenges d)" and "nh_used_at c = None"
  shows "good d0 (use_challenge env c d)"
  using assms by (auto simp: use_challenge_def challenge_grows_def stays_def intro!: good_save_challenge)

lemma credential_frame:
  "ad_challenges (create_or_update_credential env uid pw d) = ad_challenges d"
  "ad_sessions (create_or_update_credential env uid pw d) = ad_sessions d"
  "ad_memberships (create_or_update_credential env uid pw d) = ad_memberships d"
  "ad_users (create_or_update_credential env uid pw d) = ad_users d"
  "ad_challenges (verify_user_email env uid d) = ad_challenges d"
  by (auto simp: create_or_update_credential_def verify_user_email_def auth_write_defs split: option.split)

lemma good_bootstrap:
  assumes g: "good d0 d" and f: "fresh_key us_id (ae_uid env 4) (ad_users d)"
    and r: "bootstrap_owner env tid tn email0 nm pw d = (r, d1)"
  shows "good d0 d1 \<and> ad_sessions d1 = ad_sessions d"
proof (cases "ad_credentials d = []")
  case True
  let ?d1 = "bootstrap_tenant tid tn d"
  obtain u d2 where u: "bootstrap_user env (normalize_email email0) nm ?d1 = (u, d2)" by fastforce
  have t: "good d0 ?d1" "ad_users ?d1 = ad_users d" "ad_sessions ?d1 = ad_sessions d"
    using g by (auto simp: bootstrap_tenant_def auth_write_defs intro!: good_same [unfolded auth_write_defs]
      split: option.split)
  have g2: "good d0 d2 \<and> ad_sessions d2 = ad_sessions d"
  proof (cases "user_by_email ?d1 (normalize_email email0)")
    case None
    then have "d2 = add_user u ?d1" "us_id u = ae_uid env 4" using u by (auto simp: bootstrap_user_def Let_def)
    with t f have "good d0 d2" by (simp add: good_add_user)
    with \<open>d2 = _\<close> t show ?thesis by (simp add: add_user_def)
  next
    case (Some u0)
    then have "d2 = save_user u ?d1" "us_id u = us_id u0" "user_grows u0 u"
      using u by (auto simp: bootstrap_user_def Let_def user_grows_def)
    with t lookupsD(2) [OF Some] have "good d0 d2" by (auto intro!: good_save_user bexI [of _ u0])
    with \<open>d2 = _\<close> t show ?thesis by (simp add: save_user_def)
  qed
  have m: "good d0 (bootstrap_membership env tid uid e) \<and> ad_sessions (bootstrap_membership env tid uid e) = ad_sessions e"
    if "good d0 e" for uid e
    using that by (auto simp: bootstrap_membership_def auth_write_defs intro!: good_same [unfolded auth_write_defs]
      split: option.split)
  have "d1 = auth_audit ''native_auth.bootstrap_owner'' ''success'' (Some tid) (Some (us_id u)) ''user'' (Some (us_id u)) []
      (create_or_update_credential env (us_id u) pw (bootstrap_membership env tid (us_id u) d2))"
    using r True by (simp add: bootstrap_owner_def Let_def u)
  with m g2 show ?thesis
    by (auto simp: credential_frame auth_audit_def add_auth_audit_def
        intro!: good_same(1) [unfolded auth_audit_def add_auth_audit_def] good_credential)
qed (use r g in \<open>simp add: bootstrap_owner_def Let_def\<close>)

lemma good_authenticate:
  assumes "good d0 d" and "principal_from_session env tk d = (r, d1)"
  shows "good d0 d1"
  using assms
  by (auto simp: principal_from_session_def session_grows_def split: option.splits if_splits
      dest!: lookupsD(4) intro!: good_save_session)

lemma good_revoke:
  assumes "good d0 d" and "revoke_session env tk d = (r, d1)"
  shows "good d0 d1"
  using assms
  by (auto simp: revoke_session_def session_grows_def split: option.splits if_splits
      dest!: lookupsD(4) intro!: good_same(1) good_save_session)

lemma good_create_recovery:
  assumes "good d0 d" and "fresh_key nh_hash (ae_digest env (ae_token env 1)) (ad_challenges d)"
    and "create_account_recovery env em g d = (r, d1)"
  shows "good d0 d1"
proof -
  have "good d0 (add_redemption x d)" if "redeemed_by d (gr_jti x) = None" for x
    using assms(1) that by (rule good_add_redemption)
  with assms show ?thesis
    by (auto simp: create_account_recovery_def Let_def add_redemption_def split: sum.splits option.splits if_splits prod.splits
        intro!: good_same(1) elim!: good_issue_challenge [rotated 2])
qed

lemma good_complete_recovery:
  assumes "good d0 d" and "complete_account_recovery env tk pw d = (r, d1)"
  shows "good d0 d1"
proof (cases "load_challenge env tk ''account_recovery'' d")
  case (Pair lr d2)
  with assms(1) have g: "good d0 d2" by (rule good_load)
  from Pair assms(2) g loaded_row [of env tk "''account_recovery''" d _ d2] show ?thesis
    by (auto simp: complete_account_recovery_def credential_frame split: sum.splits
        intro!: good_same(1) good_use_challenge good_verify_email good_credential)
qed

lemma good_email_verification:
  assumes "good d0 d" and "complete_email_verification env tk d = (r, d1)"
  shows "good d0 d1"
proof (cases "load_challenge env tk ''email_verification'' d")
  case (Pair lr d2)
  with assms(1) have g: "good d0 d2" by (rule good_load)
  have u: "good d0 (save_user (u\<lparr>us_email_verified_at := t\<rparr>) d2)"
    "ad_challenges (save_user (u\<lparr>us_email_verified_at := t\<rparr>) d2) = ad_challenges d2"
    if "get_user d2 i = Some u" for u t i
    using g lookupsD(1) [OF that] by (auto simp: user_grows_def save_user_def [of _ d2]
      intro!: good_save_user [unfolded save_user_def])
  from Pair assms(2) g u loaded_row [of env tk "''email_verification''" d _ d2] show ?thesis
    by (auto simp: complete_email_verification_def split: sum.splits option.splits
        intro!: good_same(1) good_use_challenge)
qed

lemma good_enroll_start:
  assumes "good d0 d" and "mfa_enrollment_start quote env tk d = (r, d1)"
  shows "good d0 d1"
proof (cases "load_challenge env tk ''mfa_enroll'' d")
  case (Pair lr d2)
  with assms(1) have g: "good d0 d2" by (rule good_load)
  have s: "good d0 (save_challenge (c\<lparr>nh_payload := pl\<rparr>) d2)" if "lr = Inr c" for c pl
    using g loaded_row(1) [of env tk "''mfa_enroll''" d c d2] Pair that
    by (auto simp: challenge_grows_def stays_def intro!: good_save_challenge)
  from Pair assms(2) g s show ?thesis
    by (auto simp: mfa_enrollment_start_def Let_def split: sum.splits option.splits if_splits)
qed

lemma good_finish_mfa:
  assumes "good d0 d" and "c \<in> set (ad_challenges d)" and "nh_used_at c = None"
    and "fresh_key ns_hash (ae_digest env (ae_token env 0)) (ad_sessions d)"
    and "finish_mfa env cl c d = (r, d1)"
  shows "good d0 d1"
proof -
  have g: "good d0 (use_challenge env c d)" using assms by (simp add: good_use_challenge)
  have "ad_sessions (use_challenge env c d) = ad_sessions d"
    by (simp add: use_challenge_def save_challenge_def)
  with good_issue_session [OF g] assms(4,5) g show ?thesis
    by (auto simp: finish_mfa_def Let_def split: sum.splits prod.splits)
qed

lemma good_confirm_factor:
  assumes "good d0 d"
  shows "good d0 (confirm_factor env uid secret d)"
proof (cases "factor_of d uid")
  case (Some f)
  with assms lookupsD(7) [OF Some] show ?thesis
    by (auto simp: confirm_factor_def factor_grows_def step_le_def split: option.splits intro!: good_save_factor)
qed (use assms in \<open>auto simp: confirm_factor_def intro!: good_add_factor\<close>)

lemma mfa_frame:
  "ad_challenges (add_recovery_codes env uid d) = ad_challenges d"
  "ad_sessions (add_recovery_codes env uid d) = ad_sessions d"
  "ad_challenges (confirm_factor env uid secret d) = ad_challenges d"
  "ad_sessions (confirm_factor env uid secret d) = ad_sessions d"
  "ad_recovery (confirm_factor env uid secret d) = ad_recovery d"
  by (auto simp: add_recovery_codes_def confirm_factor_def auth_write_defs split: option.split)

lemma good_enroll_confirm:
  assumes "good d0 d" and "fresh_env env d" and "mfa_enrollment_confirm env cl tk code d = (r, d1)"
  shows "good d0 d1"
proof (cases "load_challenge env tk ''mfa_enroll'' d")
  case (Pair lr d2)
  with assms(1) have g: "good d0 d2" by (rule good_load)
  note fr = load_frame [OF Pair]
  show ?thesis
  proof (cases "\<exists>c. lr = Inr c \<and> challenge_secret c \<noteq> [] \<and> verify_totp env (challenge_secret c) code None \<noteq> None")
    case True
    then obtain c where c: "lr = Inr c" "challenge_secret c \<noteq> []" "verify_totp env (challenge_secret c) code None \<noteq> None"
      by blast
    let ?d = "add_recovery_codes env (nh_user c) (confirm_factor env (nh_user c) (challenge_secret c) d2)"
    have "good d0 ?d"
      using assms(2) g fr by (intro good_add_recovery good_confirm_factor)
        (auto simp: mfa_frame fresh_env_def list_all_iff)
    moreover have "ad_challenges ?d = ad_challenges d2" "ad_sessions ?d = ad_sessions d"
      by (simp_all add: mfa_frame fr)
    moreover obtain fr' d3 where fm: "finish_mfa env cl c ?d = (fr', d3)" by fastforce
    ultimately have "good d0 d3"
      using loaded_row [OF Pair [unfolded c(1)]] assms(2) by (intro good_finish_mfa [OF _ _ _ _ fm]) (auto simp: fresh_env_def)
    moreover have "d1 = d3"
      using assms(3) Pair c fm by (auto simp: mfa_enrollment_confirm_def Let_def split: sum.splits)
    ultimately show ?thesis by simp
  next
    case False
    with assms(3) Pair g show ?thesis
      by (auto simp: mfa_enrollment_confirm_def Let_def split: sum.splits if_splits)
  qed
qed

lemma check_factorE:
  assumes "check_factor env uid code recovery d = Inr (Some d1)"
  obtains (totp) f t secret s where "confirmed_factor d uid = Some f" "code = Some t" "t \<noteq> []"
      "ae_decrypt env (nf_secret f) = Some secret" "verify_totp env secret t (nf_last_step f) = Some s"
      "d1 = save_factor (f\<lparr>nf_last_step := Some s\<rparr>) d"
  | (recovery) k r where "recovery = Some r" "r \<noteq> []" "k \<in> set (ad_recovery d)" "nk_user k = uid"
      "nk_hash k = ae_digest env (py_strip r)" "nk_used_at k = None"
      "d1 = save_recovery (k\<lparr>nk_used_at := Some (ae_now env)\<rparr>) d"
      "confirmed_factor d uid = None \<or> code = None \<or> code = Some []"
proof -
  have r: thesis if "check_recovery env uid recovery d = Some d1"
    and "confirmed_factor d uid = None \<or> code = None \<or> code = Some []"
    using that by (auto simp: check_recovery_def split: option.splits if_splits dest!: scalar_SomeD intro: recovery)
  show thesis
  proof (cases "confirmed_factor d uid")
    case (Some f)
    show thesis
    proof (cases "\<exists>t. code = Some t \<and> t \<noteq> []")
      case True
      then obtain t where "code = Some t" "t \<noteq> []" by blast
      with Some assms show thesis by (auto simp: check_factor_def split: option.splits intro: totp)
    next
      case False
      then have "code = None \<or> code = Some []" by (cases code) auto
      with Some assms show thesis by (intro r) (auto simp: check_factor_def)
    qed
  qed (use assms in \<open>auto simp: check_factor_def intro: r\<close>)
qed

lemma good_check_factor:
  assumes "good d0 d" and "check_factor env uid code recovery d = Inr (Some d1)"
  shows "good d0 d1 \<and> ad_challenges d1 = ad_challenges d \<and> ad_sessions d1 = ad_sessions d"
  using assms(2)
proof (cases rule: check_factorE)
  case (totp f t secret s)
  have "step_le (nf_last_step f) (Some s)"
    using verify_totp_SomeD(2) [OF totp(5)] by (auto simp: step_le_def split: option.split)
  then have "good d0 d1"
    using assms(1) lookupsD(6) [OF totp(1)] unfolding totp(6)
    by (intro good_save_factor) (auto simp: factor_grows_def)
  with totp(6) show ?thesis by (simp add: save_factor_def)
next
  case (recovery k r)
  then have "good d0 d1"
    using assms(1) by (auto simp: recovery_grows_def stays_def intro!: good_save_recovery)
  with recovery(7) show ?thesis by (simp add: save_recovery_def)
qed

lemma good_mfa_verify:
  assumes "good d0 d" and "fresh_env env d" and "mfa_verify env cl tk code recovery d = (r, d1)"
  shows "good d0 d1"
proof (cases "load_challenge env tk ''mfa_verify'' d")
  case (Pair lr d2)
  with assms(1) have g: "good d0 d2" by (rule good_load)
  show ?thesis
  proof (cases "\<exists>c d3. lr = Inr c \<and> check_factor env (nh_user c) code recovery d2 = Inr (Some d3)")
    case True
    then obtain c d3 where c: "lr = Inr c" "check_factor env (nh_user c) code recovery d2 = Inr (Some d3)" by blast
    have "finish_mfa env cl c d3 = (r, d1)" using assms(3) Pair c by (simp add: mfa_verify_def)
    then show ?thesis
      using good_check_factor [OF g c(2)] loaded_row [OF Pair [unfolded c(1)]] assms(2) load_frame(1) [OF Pair]
      by (intro good_finish_mfa [of d0 d3 c env cl r d1]) (auto simp: fresh_env_def)
  next
    case False
    with assms(3) Pair g show ?thesis by (auto simp: mfa_verify_def split: sum.splits option.splits)
  qed
qed

lemma count_failure_user [simp]: "nc_user (count_failure env c) = nc_user c"
  by (simp add: count_failure_def Let_def)

lemma good_login_failure: "good d0 d \<Longrightarrow> good d0 (login_failure reason uid d)"
  by (simp add: login_failure_def good_same(1))

lemma good_login_accepted:
  assumes "good d0 d" and "fresh_key ns_hash (ae_digest env (ae_token env 0)) (ad_sessions d)"
    and "fresh_key nh_hash (ae_digest env (ae_token env 1)) (ad_challenges d)"
    and "login_accepted env cl u m d = (r, d1)"
  shows "good d0 d1"
  using assms
  by (auto simp: login_accepted_def Let_def split: if_splits prod.splits
      intro!: good_same(1) elim!: good_issue_challenge [rotated 2] good_issue_session [rotated 2])

lemma good_login:
  assumes "good d0 d" and "fresh_key ns_hash (ae_digest env (ae_token env 0)) (ad_sessions d)"
    and "fresh_key nh_hash (ae_digest env (ae_token env 1)) (ad_challenges d)"
    and "login env cl em pw d = (r, d1)"
  shows "good d0 d1"
proof (cases "\<exists>u c. user_by_email d (normalize_email em) = Some u \<and> credential_of d (us_id u) = Some c")
  case True
  then obtain u c where uc: "user_by_email d (normalize_email em) = Some u" "credential_of d (us_id u) = Some c" by blast
  have save: "good d0 (save_credential c' d)" if "nc_user c' = nc_user c" for c'
    using assms(1) lookupsD(3) [OF uc(2)] that by (auto intro!: good_save_credential)
  have fr: "ad_sessions (save_credential c' d) = ad_sessions d" "ad_challenges (save_credential c' d) = ad_challenges d"
    for c' by (simp_all add: save_credential_def)
  from assms uc save fr show ?thesis
    by (auto simp: login_def split: option.splits if_splits prod.splits
        intro!: good_login_failure elim!: good_login_accepted [rotated 3])
next
  case False
  with assms show ?thesis
    by (auto simp: login_def split: option.splits if_splits intro!: good_login_failure)
qed

lemma use_resets_used: "x \<in> set (ad_resets (use_resets uid t d)) \<Longrightarrow> nr_user x = uid \<Longrightarrow> nr_used_at x \<noteq> None"
proof -
  assume "x \<in> set (ad_resets (use_resets uid t d))" and u: "nr_user x = uid"
  then have "x \<in> (\<lambda>r. if nr_user r = uid \<and> nr_used_at r = None then r\<lparr>nr_used_at := Some t\<rparr> else r) ` set (ad_resets d)"
    unfolding use_resets_def update_where_def set_map [symmetric] by simp
  then obtain y where "x = (if nr_user y = uid \<and> nr_used_at y = None then y\<lparr>nr_used_at := Some t\<rparr> else y)"
    by (elim imageE)
  note x = this
  show ?thesis
  proof (cases "nr_user y = uid \<and> nr_used_at y = None")
    case True
    then have "x = y\<lparr>nr_used_at := Some t\<rparr>" using x by (simp only: if_True simp_thms)
    then show ?thesis by simp
  next
    case False
    have "x = y" using x unfolding if_not_P [OF False] .
    show ?thesis using False u unfolding \<open>x = y\<close> by argo
  qed
qed

lemma good_create_reset:
  assumes "good d0 d" and "fresh_key nr_hash (ae_digest env (ae_token env 2)) (ad_resets d)"
    and "create_password_reset env em d = (r, d1)"
  shows "good d0 d1"
proof -
  have fr: "fresh_key nr_hash h (ad_resets (use_resets uid t d)) = fresh_key nr_hash h (ad_resets d)" for h uid t
    unfolding fresh_key_def use_resets_def by (simp del: set_map add: map_update_where [of nr_hash])
  have rr: "good d0 e \<Longrightarrow> good d0 (reset_requested uid meta e)" for uid meta e
    by (simp add: reset_requested_def good_same(1))
  have ar: "good d0 (add_reset x (use_resets (nr_user x) t d))" if "nr_hash x = ae_digest env (ae_token env 2)" for x t
    using assms(1,2) that fr use_resets_used [of _ "nr_user x" t d]
    by (intro good_add_reset good_use_resets) simp_all
  show ?thesis
  proof (cases "\<exists>u. user_by_email d (normalize_email em) = Some u \<and> credential_of d (us_id u) \<noteq> None")
    case True
    then obtain u where u: "user_by_email d (normalize_email em) = Some u" "credential_of d (us_id u) \<noteq> None" by blast
    define x where "x = \<lparr>nr_id = ae_uid env 3, nr_hash = ae_digest env (ae_token env 2),
      nr_prefix = take 12 (ae_token env 2), nr_user = us_id u, nr_issued_at = ae_now env,
      nr_expires_at = ae_now env + minutes (st_reset_ttl_minutes (ae_settings env)), nr_used_at = None\<rparr>"
    have "d1 = reset_requested (Some (us_id u)) [(''known_user'', JBool True), (''has_credential'', JBool True)]
        (add_reset x (use_resets (nr_user x) (ae_now env) d))"
      using assms(3) u by (simp add: create_password_reset_def Let_def x_def)
    then show ?thesis using ar [of x] by (simp add: rr x_def)
  next
    case False
    with assms(1,3) rr show ?thesis by (auto simp: create_password_reset_def split: option.splits if_splits)
  qed
qed

lemma good_revoke_reset: 
  assumes "good d0 d" shows "good d0 (revoke_password_reset env rid reason d)"
  using assms
  by (auto simp: revoke_password_reset_def reset_grows_def stays_def split: option.split
      dest!: scalar_SomeD intro!: good_same(1) good_save_reset)

lemma good_revoke_user_sessions: "good d0 d \<Longrightarrow> good d0 (revoke_user_sessions uid t d)"
  unfolding revoke_user_sessions_def by (rule good_update_sessions) (simp_all add: session_grows_def)

lemma good_reset_password:
  "good d0 d \<Longrightarrow> reset_password env tk pw d = (r, d1) \<Longrightarrow> good d0 d1"
  by (auto simp: reset_password_def split: option.splits if_splits
      intro!: good_same(1) good_use_resets good_revoke_user_sessions good_credential)

section \<open>Onboarding\<close>

lemma good_onboard_user:
  assumes "good d0 d" and "onboard_user p em sub d = (r, d1)"
  shows "good d0 d1 \<and> ad_sessions d1 = ad_sessions d \<and> ad_challenges d1 = ad_challenges d
    \<and> ad_redemptions d1 = ad_redemptions d \<and> ad_credentials d1 = ad_credentials d"
proof (cases "get_user d (pr_user_id p)")
  case None
  then have f: "fresh_key us_id (pr_user_id p) (ad_users d)" by (simp add: get_user_def fresh_key_scalar)
  define u where "u = \<lparr>us_id = pr_user_id p, us_external_subject = sub, us_email = em,
    us_display_name = take 200 (takeWhile (\<lambda>c. c \<noteq> CHR ''@'') em), us_email_verified_at = None\<rparr>"
  have "d1 = d \<or> d1 = add_user u d"
    using assms(2) None by (auto simp: onboard_user_def u_def split: if_splits option.splits)
  moreover have "good d0 (add_user u d)" using assms(1) f by (simp add: good_add_user u_def)
  ultimately show ?thesis using assms(1) by (auto simp: add_user_def [of _ d])
next
  case (Some u)
  then have "d1 = d \<or> d1 = save_user (u\<lparr>us_email := em\<rparr>) d"
    using assms(2) by (auto simp: onboard_user_def split: if_splits)
  moreover have "good d0 (save_user (u\<lparr>us_email := em\<rparr>) d)"
    using assms(1) lookupsD(1) [OF Some] by (auto simp: user_grows_def intro!: good_save_user)
  ultimately show ?thesis using assms(1) by (auto simp: save_user_def [of _ d])
qed

lemma good_onboard_membership:
  "good d0 d \<Longrightarrow> good d0 (onboard_membership env p d)"
  "ad_sessions (onboard_membership env p d) = ad_sessions d"
  "ad_challenges (onboard_membership env p d) = ad_challenges d"
  "ad_redemptions (onboard_membership env p d) = ad_redemptions d"
  "ad_credentials (onboard_membership env p d) = ad_credentials d"
  by (auto simp: onboard_membership_def good_same split: option.split)
    (auto simp: onboard_membership_def auth_write_defs split: option.split)

lemma put_profile_frame:
  "ad_sessions (put_profile x d) = ad_sessions d" "ad_challenges (put_profile x d) = ad_challenges d"
  "ad_redemptions (put_profile x d) = ad_redemptions d" "ad_credentials (put_profile x d) = ad_credentials d"
  by (auto simp: put_profile_def split: option.split)

definition fine :: "auth_db \<Rightarrow> auth_db session \<Rightarrow> bool" where
  "fine d0 s \<longleftrightarrow> good d0 (work s) \<and> good d0 (durable s)
     \<and> ad_sessions (work s) = ad_sessions d0 \<and> ad_challenges (work s) = ad_challenges d0
     \<and> ad_credentials (work s) = ad_credentials d0"

lemma good_onboarding:
  assumes f: "fine d0 s" and "complete_onboarding env p g nm goal s = (r, s1)"
    and "ad_sessions (durable s) = ad_sessions d0" "ad_challenges (durable s) = ad_challenges d0"
      "ad_credentials (durable s) = ad_credentials d0"
  shows "fine d0 s1"
proof (cases "verify_access_grant env g")
  case (Inr payload)
  define jti where "jti = grant_jti payload"
  define subject where "subject = py_strip (case pr_external_subject p of None \<Rightarrow> [] | Some t \<Rightarrow> t)"
  define w where "w = onboard_user p (email_text (pr_email p)) subject (work s)"
  obtain ur d1 where u: "w = (ur, d1)" by fastforce
  have g1: "good d0 d1" "ad_sessions d1 = ad_sessions d0" "ad_challenges d1 = ad_challenges d0"
    "ad_redemptions d1 = ad_redemptions (work s)" "ad_credentials d1 = ad_credentials d0"
    using good_onboard_user [of d0 "work s"] f u by (auto simp: fine_def w_def)
  define d2 where "d2 = onboard_membership env p d1"
  have g2: "good d0 d2" "ad_sessions d2 = ad_sessions d0" "ad_challenges d2 = ad_challenges d0"
    "ad_redemptions d2 = ad_redemptions (work s)" "ad_credentials d2 = ad_credentials d0"
    using g1 by (simp_all add: d2_def good_onboard_membership)
  have g3: "fine d0 (s\<lparr>work := d1\<rparr>)" "fine d0 (s\<lparr>work := d2\<rparr>)" using g1 g2 f by (simp_all add: fine_def)
  have g4: "good d0 (put_profile x d2)" "ad_redemptions (put_profile x d2) = ad_redemptions (work s)" for x
    using g2 by (simp_all add: good_same put_profile_frame)
  have g5: "good d0 (add_redemption rd (put_profile x d2))"
    if "redeemed_by (work s) (gr_jti rd) = None" for rd x
    using g4 that by (intro good_add_redemption) (simp_all add: redeemed_by_def)
  have g6: "fine d0 (commit (s\<lparr>work := put_profile x d2\<rparr>))"
    "redeemed_by (work s) (gr_jti rd) = None \<Longrightarrow> fine d0 (commit (s\<lparr>work := add_redemption rd (put_profile x d2)\<rparr>))"
    "fine d0 (rollback (s\<lparr>work := e\<rparr>))" for rd x e
    using g2 g4 g5 f assms(3-) by (auto simp: fine_def commit_def rollback_def put_profile_frame)
      (auto simp: add_redemption_def put_profile_frame)
  from assms(2) show ?thesis
    unfolding complete_onboarding_def Inr Let_def sum.case jti_def [symmetric] subject_def [symmetric]
      w_def [symmetric] u
    using f g3 g6
    by (auto split: if_splits option.splits sum.splits simp: d2_def [symmetric])
qed (use assms in \<open>auto simp: complete_onboarding_def\<close>)

end
