(* ===== verification/Auth_Runs.thy ===== *)
theory Auth_Runs
  imports Auth_Ops
begin

text \<open>
  The requests of native authentication as one system: an operation is a request with its environment,
  and a run is a list of requests handled one after the other. The interpretation gives, for every run
  of requests whose random values are new, the invariant and the order between earlier and later
  databases.
\<close>

datatype auth_op =
    BootstrapOp client bootstrap_request
  | LoginOp client string string
  | RegisterOp client register_request
  | ForgotOp bool string
  | ResetOp string string string
  | LogoutOp cookies
  | VerifyEmailOp string
  | ClaimOp string
  | ResendOp string
  | RecoverOp string string string
  | EnrollStartOp string
  | EnrollConfirmOp client string string
  | MfaVerifyOp client string "string option" "string option"
  | ReauthOp request_headers cookies string
  | RevokeOthersOp request_headers cookies
  | RevokeOneOp request_headers string
  | OnboardOp request_headers string string "string option"
  | RenameOp request_headers string

text \<open>What an operation takes from outside: the environment, the identity provider and the URL encoder.\<close>

type_synonym auth_world = "auth_env \<times> identity_provider \<times> (string \<Rightarrow> string)"

fun auth_step :: "auth_world \<times> auth_op \<Rightarrow> auth_db \<Rightarrow> auth_db" where
  "auth_step ((env, ip, quote), BootstrapOp cl rq) d = snd (bootstrap_route env cl rq d)"
| "auth_step ((env, ip, quote), LoginOp cl em pw) d = snd (login_route env cl em pw d)"
| "auth_step ((env, ip, quote), RegisterOp cl rq) d = snd (register_route env cl rq d)"
| "auth_step ((env, ip, quote), ForgotOp mail em) d = snd (forgot_password_route env mail em d)"
| "auth_step ((env, ip, quote), ResetOp tk pw cf) d = snd (reset_password_route env tk pw cf d)"
| "auth_step ((env, ip, quote), LogoutOp c) d = snd (logout_route env c d)"
| "auth_step ((env, ip, quote), VerifyEmailOp tk) d = snd (verify_email_route env tk d)"
| "auth_step ((env, ip, quote), ClaimOp tk) d = snd (claim_account_route env tk d)"
| "auth_step ((env, ip, quote), ResendOp em) d = snd (resend_verification_route env em d)"
| "auth_step ((env, ip, quote), RecoverOp tk pw cf) d = snd (recover_account_route env tk pw cf d)"
| "auth_step ((env, ip, quote), EnrollStartOp tk) d = snd (enroll_start_route quote env tk d)"
| "auth_step ((env, ip, quote), EnrollConfirmOp cl tk code) d = snd (enroll_confirm_route env cl tk code d)"
| "auth_step ((env, ip, quote), MfaVerifyOp cl tk code rec) d = snd (mfa_verify_route env cl tk code rec d)"
| "auth_step ((env, ip, quote), ReauthOp h c pw) d =
     snd (with_principal env ip h (\<lambda>p. reauthenticate_route env c p pw) d)"
| "auth_step ((env, ip, quote), RevokeOthersOp h c) d =
     snd (with_principal env ip h (revoke_others_route env c) d)"
| "auth_step ((env, ip, quote), RevokeOneOp h sid) d =
     snd (with_principal env ip h (revoke_one_route env sid) d)"
| "auth_step ((env, ip, quote), OnboardOp h g nm goal) d =
     snd (with_principal env ip h (onboarding_route env g nm goal) d)"
| "auth_step ((env, ip, quote), RenameOp h nm) d = snd (with_principal env ip h (rename_route env nm) d)"

definition auth_ok :: "auth_world \<times> auth_op \<Rightarrow> auth_db \<Rightarrow> bool" where
  "auth_ok e d = fresh_env (fst (fst e)) d"

section \<open>Routes\<close>

lemma commit_or_rollback_snd:
  "snd (commit_or_rollback run status out d) = (case run d of (Inl e, d1) \<Rightarrow> d | (Inr r, d1) \<Rightarrow> d1)"
  by (simp add: commit_or_rollback_def Let_def session_simps split: prod.split sum.split)

lemma commit_or_rollback_fst:
  "fst (commit_or_rollback run status out d)
     = (case fst (run d) of Inl code \<Rightarrow> Inl (HttpError status code) | Inr r \<Rightarrow> Inr (out r))"
  by (simp add: commit_or_rollback_def Let_def session_simps split: prod.split sum.split)

lemma good_commit:
  "good d0 d \<Longrightarrow> (\<And>r d1. run d = (r, d1) \<Longrightarrow> good d0 d1) \<Longrightarrow> good d0 (snd (commit_or_rollback run status out d))"
  by (auto simp: commit_or_rollback_snd split: prod.split sum.split)

lemma good_bootstrap_route:
  assumes g: "auth_inv d" and f: "fresh_env env d"
  shows "good d (snd (bootstrap_route env cl rq d))"
proof -
  have "good d e" if "(case bootstrap_owner env a b em n pw d of (Inl x, d1) \<Rightarrow> (Inl x, d1)
      | (Inr p, d1) \<Rightarrow> (case issue_session env p cl False d1 of ((token, s), d2) \<Rightarrow> (Inr (token, p), d2))) = (r, e)"
    for a b em n pw e r
    using that good_bootstrap [OF good_refl [OF g]] f
    by (auto simp: fresh_env_def split: prod.splits sum.splits dest: good_issue_session [rotated 2])
      (metis good_issue_session)
  then show ?thesis
    using good_refl [OF g] by (auto simp: bootstrap_route_def Let_def intro!: good_commit)
qed

lemma good_login_route:
  assumes g: "auth_inv d" and f: "fresh_env env d"
  shows "good d (snd (login_route env cl em pw d))"
proof -
  obtain r d1 where l: "login env cl em pw d = (r, d1)" by fastforce
  have "good d d1" using good_login [OF good_refl [OF g] _ _ l] f by (simp add: fresh_env_def)
  then show ?thesis
    using good_refl [OF g] l by (auto simp: login_route_def Let_def session_simps split: sum.split)
qed

lemma good_register_recovery:
  assumes g: "auth_inv d" and f: "fresh_env env d"
  shows "good d (snd (register_recovery env rq em d))"
proof -
  obtain r d1 where c: "create_account_recovery env em (rg_grant rq) d = (r, d1)" by fastforce
  have "good d d1" using good_create_recovery [OF good_refl [OF g] _ c] f by (simp add: fresh_env_def)
  then show ?thesis
    using good_refl [OF g] c by (auto simp: register_recovery_def Let_def session_simps split: sum.split option.split)
qed

lemma good_register_new:
  assumes g: "auth_inv d" and f: "fresh_env env d"
  shows "good d (snd (register_new env cl rq tn em d))"
proof -
  define p where "p = \<lparr>pr_user_id = ae_uid env 4, pr_tenant_id = tn, pr_roles = [''member''], pr_email = Some em,
     pr_external_subject = Some (''native:'' @ em)\<rparr>"
  obtain r s where c: "complete_onboarding env p (rg_grant rq) (rg_name rq) (rg_goal rq) (open_session d) = (r, s)"
    by fastforce
  have s: "fine d s"
    by (rule good_onboarding [OF _ c]) (simp_all add: fine_def good_refl [OF g] open_session_def)
  define w where "w = create_or_update_credential env (pr_user_id p) (rg_password rq) (work s)"
  have w: "good d w" "ad_sessions w = ad_sessions d" "ad_challenges w = ad_challenges d"
    using s by (simp_all add: w_def good_credential credential_frame fine_def)
  obtain r2 d1 where l: "login env cl em (rg_password rq) w = (r2, d1)" by fastforce
  have "good d d1" using good_login [OF w(1) _ _ l] f w by (simp add: fresh_env_def)
  have w2: "work (on_work (create_or_update_credential env (pr_user_id p) (rg_password rq)) s) = w"
    by (simp add: on_work_def w_def)
  have "snd (register_new env cl rq tn em d) = (case r of Inl e \<Rightarrow> durable s | Inr x \<Rightarrow>
      (case r2 of Inl e \<Rightarrow> durable s | Inr x \<Rightarrow> d1))"
    unfolding register_new_def Let_def p_def [symmetric] c prod.case w2 l
    by (simp add: close_session_def rollback_def commit_def on_work_def split: sum.split prod.split)
  with \<open>good d d1\<close> s show ?thesis by (simp add: fine_def split: sum.split)
qed

lemma good_register_route:
  assumes g: "auth_inv d" and f: "fresh_env env d"
  shows "good d (snd (register_route env cl rq d))"
  using good_refl [OF g] good_register_recovery [OF g f] good_register_new [OF g f]
  by (auto simp: register_route_def Let_def split: option.split)

lemma good_forgot_route:
  assumes g: "auth_inv d" and f: "fresh_env env d"
  shows "good d (snd (forgot_password_route env mail em d))"
proof -
  obtain r d1 where c: "create_password_reset env em d = (r, d1)" by fastforce
  have "good d d1" using good_create_reset [OF good_refl [OF g] _ c] f by (simp add: fresh_env_def)
  then show ?thesis
    using good_refl [OF g] c by (auto simp: forgot_password_route_def Let_def good_revoke_reset split: option.split)
qed

lemma good_reset_route:
  assumes g: "auth_inv d" and f: "fresh_env env d"
  shows "good d (snd (reset_password_route env tk pw cf d))"
  using good_refl [OF g]
  by (auto simp: reset_password_route_def Let_def intro!: good_commit intro: good_reset_password [OF good_refl [OF g]])

lemma good_logout_route:
  assumes g: "auth_inv d" and f: "fresh_env env d"
  shows "good d (snd (logout_route env c d))"
  using good_revoke [OF good_refl [OF g]] by (auto simp: logout_route_def split: prod.split)

lemma good_verify_route:
  assumes g: "auth_inv d" and f: "fresh_env env d"
  shows "good d (snd (verify_email_route env tk d))" "good d (snd (claim_account_route env tk d))"
  using good_refl [OF g] good_email_verification [OF good_refl [OF g]]
  by (auto simp: verify_email_route_def claim_account_route_def intro!: good_commit)

lemma good_resend_route:
  assumes g: "auth_inv d" and f: "fresh_env env d"
  shows "good d (snd (resend_verification_route env em d))"
proof -
  have "good d d1" if "create_email_verification env em d = (r, d1)" for r d1
    using that good_refl [OF g] f
    by (auto simp: create_email_verification_def fresh_env_def split: option.splits prod.splits
        elim!: good_issue_challenge [rotated 2])
  then show ?thesis by (auto simp: resend_verification_route_def split: prod.split)
qed

lemma good_recover_route:
  assumes g: "auth_inv d" and f: "fresh_env env d"
  shows "good d (snd (recover_account_route env tk pw cf d))"
  using good_refl [OF g]
  by (auto simp: recover_account_route_def Let_def intro!: good_commit intro: good_complete_recovery [OF good_refl [OF g]])

lemma good_mfa_routes:
  assumes g: "auth_inv d" and f: "fresh_env env d"
  shows "good d (snd (enroll_start_route quote env tk d))"
  "good d (snd (enroll_confirm_route env cl tk code d))"
  "good d (snd (mfa_verify_route env cl tk code2 rec d))"
  using good_refl [OF g] good_enroll_start [OF good_refl [OF g]] good_enroll_confirm [OF good_refl [OF g] f]
    good_mfa_verify [OF good_refl [OF g] f]
  by (auto simp: enroll_start_route_def enroll_confirm_route_def mfa_verify_route_def intro!: good_commit)

lemma good_principal:
  assumes g: "auth_inv d" and f: "fresh_env env d"
    and "require_principal env cfg intro h d = (r, d1)"
  shows "good d d1"
  using assms good_refl [OF g] good_authenticate [OF good_refl [OF g]]
  by (auto simp: require_principal_def Let_def split: if_splits prod.splits option.splits)

lemma good_with_principal:
  assumes g: "auth_inv d" and f: "fresh_env env d"
    and "\<And>p d1 r d2. good d d1 \<Longrightarrow> run p d1 = (r, d2) \<Longrightarrow> good d d2"
  shows "good d (snd (with_principal env ip h run d))"
proof -
  obtain r d1 where r: "require_principal env (ip_config ip) (ip_introspect ip) h d = (r, d1)" by fastforce
  note d1 = good_principal [OF g f r]
  have "good d d2" if "run p d1 = (x, d2)" for p x d2 using assms(3) [OF d1 that] .
  then show ?thesis using good_refl [OF g] r by (auto simp: with_principal_def split: prod.split sum.split)
qed

lemma good_session_routes:
  assumes "good d0 d"
  shows "reauthenticate_route env c p pw d = (r, e) \<Longrightarrow> good d0 e"
    and "revoke_others_route env c p d = (r, e) \<Longrightarrow> good d0 e"
    and "revoke_one_route env sid p d = (r, e) \<Longrightarrow> good d0 e"
proof -
  have cur: "s \<in> set (ad_sessions d)" if "current_session env c p d = Some s" for s
    using that by (auto simp: current_session_def split: option.splits if_splits dest!: scalar_SomeD)
  show "good d0 e" if "reauthenticate_route env c p pw d = (r, e)"
    using that assms cur
    by (auto simp: reauthenticate_route_def session_grows_def split: option.splits if_splits intro!: good_save_session)
  show "good d0 e" if "revoke_others_route env c p d = (r, e)"
    using that assms unfolding revoke_others_route_def Let_def
    by (auto simp: session_grows_def intro!: good_update_sessions)
  show "good d0 e" if "revoke_one_route env sid p d = (r, e)"
    using that assms
    by (auto simp: revoke_one_route_def session_grows_def split: option.splits dest!: scalar_SomeD intro!: good_save_session)
qed

lemma good_gate_routes:
  assumes "good d0 d"
  shows "onboarding_route env gr nm goal p d = (r, e) \<Longrightarrow> good d0 e"
    and "rename_route env nm p d = (r, e) \<Longrightarrow> good d0 e"
proof -
  have dd: "good d d" using assms by (simp add: good_def)
  have "good d e" if "onboarding_route env gr nm goal p d = (r, e)"
  proof -
    obtain x s where c: "complete_onboarding env p gr nm goal (open_session d) = (x, s)" by fastforce
    have "fine d s" by (rule good_onboarding [OF _ c]) (simp_all add: fine_def dd open_session_def)
    with that c show ?thesis
      by (auto simp: onboarding_route_def close_session_def fine_def split: sum.splits)
  qed
  then show "good d0 e" if "onboarding_route env gr nm goal p d = (r, e)"
    using that assms by (auto simp: good_def intro: auth_grows_trans)
  show "good d0 e" if "rename_route env nm p d = (r, e)"
    using that assms
    by (auto simp: rename_route_def update_profile_name_def Let_def session_simps good_same split: sum.splits option.splits)
qed

lemma auth_step_good: "auth_ok e d \<Longrightarrow> auth_inv d \<Longrightarrow> good d (auth_step e d)"
proof -
  assume ok: "auth_ok e d" and i: "auth_inv d"
  obtain env ip quote op where e: "e = ((env, ip, quote), op)" by (metis prod.collapse)
  have f: "fresh_env env d" using ok by (simp add: auth_ok_def e)
  note routes = good_bootstrap_route [OF i f] good_login_route [OF i f] good_register_route [OF i f]
    good_forgot_route [OF i f] good_reset_route [OF i f] good_logout_route [OF i f] good_verify_route [OF i f]
    good_resend_route [OF i f] good_recover_route [OF i f] good_mfa_routes [OF i f]
  note wp = good_with_principal [OF i f]
  show ?thesis
  proof (cases op)
    case (ReauthOp h c pw)
    then show ?thesis unfolding e auth_step.simps by (simp only: auth_step.simps) (rule wp, rule good_session_routes(1))
  next
    case (RevokeOthersOp h c)
    then show ?thesis unfolding e by (simp only: auth_step.simps) (rule wp, rule good_session_routes(2))
  next
    case (RevokeOneOp h sid)
    then show ?thesis unfolding e by (simp only: auth_step.simps) (rule wp, rule good_session_routes(3))
  next
    case (OnboardOp h g nm goal)
    then show ?thesis unfolding e by (simp only: auth_step.simps) (rule wp, rule good_gate_routes(1))
  next
    case (RenameOp h nm)
    then show ?thesis unfolding e by (simp only: auth_step.simps) (rule wp, rule good_gate_routes(2))
  qed (simp_all only: e auth_step.simps routes)
qed

section \<open>Runs\<close>

interpretation auth: monotone_system auth_ok auth_step auth_inv auth_grows
proof
  show "auth_inv (auth_step e d)" if "auth_ok e d" "auth_inv d" for e d
    using auth_step_good [OF that] by (simp add: good_def)
  show "auth_grows d (auth_step e d)" if "auth_ok e d" "auth_inv d" for e d
    using auth_step_good [OF that] by (simp add: good_def)
  show "auth_grows d f" if "auth_grows d e" "auth_grows e f" for d e f
    using that by (rule auth_grows_trans)
qed simp

text \<open>What a run keeps of single rows.\<close>

lemma auth_run:
  assumes "run_ok auth_ok auth_step ops d" and "auth_inv d" and "e = fold auth_step ops d"
  shows "auth_inv e" and "auth_grows d e"
  using assms auth.run_inv auth.run_grows by auto

lemma grows_session:
  assumes "auth_grows d e" and "auth_inv e" and "s \<in> set (ad_sessions d)"
  obtains t where "session_by_hash e (ns_hash s) = Some t" and "session_grows s t" and "ns_hash t = ns_hash s"
proof -
  have "rows_grow ns_hash session_grows (ad_sessions d) (ad_sessions e)" "unique_key ns_hash (ad_sessions e)"
    using assms by (auto simp: auth_grows_def auth_inv_def)
  from rows_growD [OF this assms(3)] show thesis
    by (metis that session_by_hash_def)
qed

lemma grows_challenge:
  assumes "auth_grows d e" and "auth_inv e" and "c \<in> set (ad_challenges d)" and "challenge_by_hash e (nh_hash c) p = Some b"
  shows "challenge_grows c b"
proof -
  have "rows_grow nh_hash challenge_grows (ad_challenges d) (ad_challenges e)" "unique_key nh_hash (ad_challenges e)"
    using assms by (auto simp: auth_grows_def auth_inv_def)
  then obtain y where y: "challenge_grows c y" "nh_hash y = nh_hash c" "y \<in> set (ad_challenges e)"
    and l: "scalar (\<lambda>y. nh_hash y = nh_hash c) (ad_challenges e) = Some y"
    using rows_growD [OF _ _ assms(3)] by metis
  have b: "b \<in> set (ad_challenges e)" "nh_hash b = nh_hash c" using lookupsD(5) [OF assms(4)] by auto
  have "scalar (\<lambda>y. nh_hash y = nh_hash b) (ad_challenges e) = Some b"
    by (rule scalar_unique [OF \<open>unique_key nh_hash (ad_challenges e)\<close> b(1)])
  with l b(2) y(1) show ?thesis by simp
qed

lemma grows_reset:
  assumes "auth_grows d e" and "auth_inv e" and "r \<in> set (ad_resets d)"
  obtains q where "reset_by_hash e (nr_hash r) = Some q" and "reset_grows r q"
proof -
  have "rows_grow nr_hash reset_grows (ad_resets d) (ad_resets e)" "unique_key nr_hash (ad_resets e)"
    using assms by (auto simp: auth_grows_def auth_inv_def)
  from rows_growD [OF this assms(3)] show thesis
    by (metis that reset_by_hash_def)
qed

lemma grows_factor:
  assumes "auth_grows d e" and "auth_inv e" and "f \<in> set (ad_factors d)"
  obtains g where "factor_of e (nf_user f) = Some g" and "factor_grows f g"
proof -
  have "rows_grow nf_user factor_grows (ad_factors d) (ad_factors e)" "unique_key nf_user (ad_factors e)"
    using assms by (auto simp: auth_grows_def auth_inv_def)
  from rows_growD [OF this assms(3)] show thesis
    by (metis that factor_of_def)
qed

end
