(* ===== verification/Auth_Properties.thy ===== *)
theory Auth_Properties
  imports Auth_Runs
begin

text \<open>
  The properties of native authentication. Those about runs start from any database that satisfies
  \<open>auth_inv\<close> (the empty one does) and hold after any further requests whose random values are new.
\<close>

section \<open>One-time tokens\<close>

text \<open>The operations that take a challenge token, and those that consume it when they succeed.\<close>

fun uses_token :: "auth_op \<Rightarrow> string option" where
  "uses_token (VerifyEmailOp tk) = Some tk"
| "uses_token (ClaimOp tk) = Some tk"
| "uses_token (RecoverOp tk pw cf) = Some tk"
| "uses_token (EnrollStartOp tk) = Some tk"
| "uses_token (EnrollConfirmOp cl tk code) = Some tk"
| "uses_token (MfaVerifyOp cl tk code rec) = Some tk"
| "uses_token _ = None"

fun consumes_token :: "auth_op \<Rightarrow> bool" where
  "consumes_token (EnrollStartOp tk) = False"
| "consumes_token op = (uses_token op \<noteq> None)"

fun token_purpose :: "auth_op \<Rightarrow> string" where
  "token_purpose (VerifyEmailOp tk) = ''email_verification''"
| "token_purpose (ClaimOp tk) = ''email_verification''"
| "token_purpose (RecoverOp tk pw cf) = ''account_recovery''"
| "token_purpose (MfaVerifyOp cl tk code rec) = ''mfa_verify''"
| "token_purpose _ = ''mfa_enroll''"

definition spent :: "string \<Rightarrow> auth_db \<Rightarrow> bool" where
  "spent h d \<longleftrightarrow> (\<exists>c \<in> set (ad_challenges d). nh_hash c = h \<and> nh_used_at c \<noteq> None)"

lemma use_challenge_spent:
  "c \<in> set (ad_challenges d) \<Longrightarrow> spent (nh_hash c) (use_challenge env c d)"
  by (auto simp: spent_def use_challenge_def save_challenge_def intro!: bexI [of _ "c\<lparr>nh_used_at := Some (ae_now env)\<rparr>"] put_row_mem)

lemma spent_cong: "ad_challenges e = ad_challenges d \<Longrightarrow> spent h e = spent h d"
  by (simp add: spent_def)

lemma spent_audit [simp]: "spent h (auth_audit a oc t ac rt rid meta d) = spent h d"
  "spent h (add_native_session s d) = spent h d"
  by (simp_all add: spent_def auth_audit_def auth_write_defs)

lemma issue_session_challenges:
  "issue_session env p cl mfa d = (r, e) \<Longrightarrow> ad_challenges e = ad_challenges d"
  by (auto simp: issue_session_def Let_def auth_audit_def auth_write_defs)

lemma use_spent:
  assumes "load_challenge env tk purpose d = (Inr c, d1)" and "ad_challenges e = ad_challenges d1"
  shows "spent (ae_digest env tk) (use_challenge env c e)"
  using use_challenge_spent [of c e] loaded_row [OF assms(1)] assms(2) by simp

lemma finish_spent:
  assumes "load_challenge env tk purpose d = (Inr c, d1)" and "ad_challenges e = ad_challenges d1"
    and "finish_mfa env cl c e = (Inr r, d2)"
  shows "spent (ae_digest env tk) d2"
  using assms(3) use_spent [OF assms(1,2)]
  by (auto simp: finish_mfa_def Let_def split: sum.splits prod.splits dest!: issue_session_challenges)
    (metis spent_cong)

lemma spent_after_recovery:
  assumes "complete_account_recovery env tk pw d = (Inr r, d1)"
  shows "spent (ae_digest env tk) d1"
proof -
  from assms obtain c e p where l: "load_challenge env tk ''account_recovery'' d = (Inr c, e)"
    "principal_for_user e (nh_user c) (nh_tenant c) = Inr p"
    by (auto simp: complete_account_recovery_def split: prod.splits sum.splits)
  then have "d1 = auth_audit ''native_auth.account_recovery_completed'' ''success'' (Some (pr_tenant_id p))
      (Some (pr_user_id p)) ''native_auth'' None []
      (use_challenge env c (verify_user_email env (pr_user_id p) (create_or_update_credential env (pr_user_id p) pw e)))"
    using assms by (simp add: complete_account_recovery_def)
  with use_spent [OF l(1)] show ?thesis by (simp add: credential_frame)
qed

lemma spent_after_verification:
  assumes "complete_email_verification env tk d = (Inr r, d1)"
  shows "spent (ae_digest env tk) d1"
proof -
  from assms obtain c e u where l: "load_challenge env tk ''email_verification'' d = (Inr c, e)"
    "get_user e (nh_user c) = Some u"
    by (auto simp: complete_email_verification_def split: prod.splits sum.splits option.splits)
  then have "d1 = auth_audit ''native_auth.email_verified'' ''success'' None (Some (us_id u)) ''native_auth'' None []
      (use_challenge env c (save_user (u\<lparr>us_email_verified_at := Some (ae_now env)\<rparr>) e))"
    using assms by (simp add: complete_email_verification_def)
  with use_spent [OF l(1)] show ?thesis by (simp add: save_user_def)
qed

lemma spent_after_confirm:
  assumes "mfa_enrollment_confirm env cl tk code d = (Inr r, d1)"
  shows "spent (ae_digest env tk) d1"
proof -
  from assms obtain c e where l: "load_challenge env tk ''mfa_enroll'' d = (Inr c, e)"
    by (auto simp: mfa_enrollment_confirm_def split: prod.splits sum.splits)
  with assms obtain x where x: "finish_mfa env cl c (add_recovery_codes env (nh_user c)
      (confirm_factor env (nh_user c) (challenge_secret c) e)) = (Inr x, d1)"
    by (auto simp: mfa_enrollment_confirm_def Let_def split: prod.splits sum.splits if_splits)
  show ?thesis by (rule finish_spent [OF l _ x]) (simp add: mfa_frame)
qed

lemma spent_after_mfa:
  assumes "mfa_verify env cl tk code rec d = (Inr r, d1)"
  shows "spent (ae_digest env tk) d1"
proof -
  from assms obtain c e where l: "load_challenge env tk ''mfa_verify'' d = (Inr c, e)"
    by (auto simp: mfa_verify_def split: prod.splits sum.splits)
  with assms obtain e2 where e2: "check_factor env (nh_user c) code rec e = Inr (Some e2)"
    "finish_mfa env cl c e2 = (Inr r, d1)"
    by (auto simp: mfa_verify_def split: prod.splits sum.splits option.splits)
  have "ad_challenges e2 = ad_challenges e"
    using e2(1) by (cases rule: check_factorE) (simp_all add: save_factor_def save_recovery_def)
  with finish_spent [OF l] e2(2) show ?thesis by blast
qed

lemma consumed_spent:
  assumes "consumes_token op" and "uses_token op = Some tk" and "auth_step ((env, ip, quote), op) d \<noteq> d"
  shows "spent (ae_digest env tk) (auth_step ((env, ip, quote), op) d)"
  using assms
  by (cases op) (auto simp: verify_email_route_def claim_account_route_def recover_account_route_def Let_def
      enroll_confirm_route_def mfa_verify_route_def commit_or_rollback_snd split: prod.splits sum.splits if_splits
      intro: spent_after_recovery spent_after_verification spent_after_confirm spent_after_mfa)

lemma spent_load:
  assumes "auth_inv d" and "spent (ae_digest env tk) d"
  shows "load_challenge env tk purpose d = (Inl ''AUTH_CHALLENGE_INVALID'', d)"
proof (cases "challenge_by_hash d (ae_digest env tk) purpose")
  case (Some b)
  from assms(2) obtain c where c: "c \<in> set (ad_challenges d)" "nh_hash c = ae_digest env tk" "nh_used_at c \<noteq> None"
    by (auto simp: spent_def)
  have "b = c"
    using challenge_table.lookup_at_most_one [of d b c] assms(1) lookupsD(5) [OF Some] c by (auto simp: auth_inv_def)
  with Some c(3) show ?thesis by (simp add: load_challenge_def)
qed (simp add: load_challenge_def)

lemma spent_refused:
  assumes "auth_inv d" and "spent (ae_digest env tk) d" and "uses_token op = Some tk"
  shows "auth_step ((env, ip, quote), op) d = d"
  using assms(3) spent_load [OF assms(1,2)]
  by (cases op) (auto simp: verify_email_route_def claim_account_route_def recover_account_route_def Let_def
      enroll_start_route_def enroll_confirm_route_def mfa_verify_route_def commit_or_rollback_snd
      complete_email_verification_def complete_account_recovery_def mfa_enrollment_start_def
      mfa_enrollment_confirm_def mfa_verify_def)

lemma spent_kept:
  assumes "auth_grows d e" and "spent h d"
  shows "spent h e"
proof -
  from assms(2) obtain c where c: "c \<in> set (ad_challenges d)" "nh_hash c = h" "nh_used_at c \<noteq> None"
    by (auto simp: spent_def)
  have "rows_grow nh_hash challenge_grows (ad_challenges d) (ad_challenges e)"
    using assms(1) by (simp add: auth_grows_def)
  with c(1) obtain y where "y \<in> set (ad_challenges e)" "nh_hash y = nh_hash c" "challenge_grows c y"
    unfolding rows_grow_def by blast
  with c(2,3) show ?thesis by (auto simp: spent_def challenge_grows_def stays_def intro!: bexI [of _ y])
qed

text \<open>C4. Every challenge token (e-mail verification, account claim, account recovery, multi-factor
  enrollment and verification) works at most once: after a request that consumed it, and any further
  requests, no request that presents the token changes anything, so none opens a session, sets a password,
  verifies an address or enrolls a factor with it.\<close>

theorem challenge_used_once:
  assumes "auth_inv d" and "consumes_token op" and "uses_token op = Some tk"
    and "auth_ok ((env, ip, quote), op) d" and "auth_step ((env, ip, quote), op) d = d1" and "d1 \<noteq> d"
    and "run_ok auth_ok auth_step ops d1" and "fold auth_step ops d1 = e"
    and "uses_token op2 = Some tk2" and "ae_digest env2 tk2 = ae_digest env tk"
  shows "auth_step ((env2, ip2, quote2), op2) e = e"
proof -
  have i: "auth_inv d1" using auth.step_inv [OF assms(4,1)] assms(5) by simp
  have "spent (ae_digest env tk) d1" using consumed_spent [OF assms(2,3)] assms(5,6) by auto
  with auth_run [OF assms(7) i assms(8) [symmetric]] have "auth_inv e" "spent (ae_digest env tk) e"
    by (auto intro: spent_kept)
  with spent_refused [of e env2 tk2 op2] assms(9,10) show ?thesis by simp
qed

section \<open>Sessions that are over\<close>

lemma dead_session:
  assumes "auth_inv e" and "s \<in> set (ad_sessions e)" and "ns_revoked_at s \<noteq> None" and "ae_digest env tk = ns_hash s"
  shows "principal_from_session env (Some tk) e = (None, e)"
proof -
  have "session_by_hash e (ae_digest env tk) = Some s"
    using assms scalar_unique [of ns_hash "ad_sessions e" s] by (simp add: auth_inv_def session_by_hash_def)
  with assms(3) show ?thesis by (auto simp: principal_from_session_def)
qed

lemma dead_later:
  assumes "auth_inv d" and "s \<in> set (ad_sessions d)" and "ns_revoked_at s \<noteq> None"
    and "run_ok auth_ok auth_step ops d" and "fold auth_step ops d = e" and "ae_digest env tk = ns_hash s"
  shows "principal_from_session env (Some tk) e = (None, e)"
proof -
  note run = auth_run [OF assms(4,1) assms(5) [symmetric]]
  from grows_session [OF run(2,1) assms(2)] obtain t where
    "session_by_hash e (ns_hash s) = Some t" "session_grows s t" by metis
  with dead_session [OF run(1), of t env tk] lookupsD(4) assms(3,6) show ?thesis
    by (metis session_grows_def)
qed

text \<open>Logging out is final: once a session's token has been presented to the logout route, no request
  is ever authenticated by that token again, whatever happens in between.\<close>

theorem logout_is_final:
  assumes "auth_inv d" and "request_token c = Some tk" and "session_by_hash d (ae_digest env tk) \<noteq> None" and "tk \<noteq> []"
    and "snd (logout_route env c d) = d1"
    and "run_ok auth_ok auth_step ops d1" and "fold auth_step ops d1 = e" and "ae_digest env2 tk2 = ae_digest env tk"
  shows "principal_from_session env2 (Some tk2) e = (None, e)"
proof -
  from assms(3) obtain s where s: "session_by_hash d (ae_digest env tk) = Some s" by blast
  note sD = lookupsD(4) [OF s]
  have i: "auth_inv d1"
    using good_revoke [OF good_refl [OF assms(1)], of env "Some tk"] assms(2,5)
    by (auto simp: logout_route_def good_def split: prod.splits)
  have "\<exists>t \<in> set (ad_sessions d1). ns_hash t = ae_digest env tk \<and> ns_revoked_at t \<noteq> None"
  proof (cases "ns_revoked_at s")
    case None
    have "d1 = auth_audit ''native_auth.logout'' ''success'' (Some (ns_tenant s)) (Some (ns_user s))
        ''native_session'' (Some (ns_id s)) [] (save_native_session (s\<lparr>ns_revoked_at := Some (ae_now env)\<rparr>) d)"
      using assms(2,4,5) s None by (simp add: logout_route_def revoke_session_def)
    then have "s\<lparr>ns_revoked_at := Some (ae_now env)\<rparr> \<in> set (ad_sessions d1)"
      using sD by (auto simp: auth_audit_def auth_write_defs intro: put_row_mem)
    with sD show ?thesis by (intro bexI [of _ "s\<lparr>ns_revoked_at := Some (ae_now env)\<rparr>"]) simp_all
  next
    case (Some t)
    then have "d1 = d" using assms(2,5) s by (simp add: logout_route_def revoke_session_def split: if_splits)
    with sD Some show ?thesis by auto
  qed
  with dead_later [OF i _ _ assms(6,7), of _ env2 tk2] assms(8) show ?thesis by metis
qed

section \<open>Password resets\<close>

lemma reset_passwordE:
  assumes "reset_password_route env tk pw cf d = (Inr x, d1)"
  obtains r where "reset_by_hash d (ae_digest env tk) = Some r" "nr_used_at r = None" "ae_now env < nr_expires_at r"
    "d1 = auth_audit ''native_auth.password_reset_completed'' ''success'' None (Some (nr_user r)) ''native_auth'' None []
      (use_resets (nr_user r) (ae_now env) (revoke_user_sessions (nr_user r) (ae_now env)
        (create_or_update_credential env (nr_user r) pw d)))"
proof -
  have "fst (commit_or_rollback (reset_password env tk pw) 400 (\<lambda>_. (no_session_out None, ClearCookie)) d) = Inr x"
    "snd (commit_or_rollback (reset_password env tk pw) 400 (\<lambda>_. (no_session_out None, ClearCookie)) d) = d1"
    using assms by (auto simp: reset_password_route_def Let_def split: if_splits)
  then have "\<exists>y. reset_password env tk pw d = (Inr y, d1)"
    by (auto simp: commit_or_rollback_fst commit_or_rollback_snd split: prod.splits sum.splits)
  then show thesis by (auto simp: reset_password_def not_le split: option.splits if_splits intro: that)
qed

lemma revoked_all:
  "s \<in> set (ad_sessions d) \<Longrightarrow> ns_user s = uid \<Longrightarrow>
     s\<lparr>ns_revoked_at := Some t\<rparr> \<in> set (ad_sessions (revoke_user_sessions uid t d))"
  by (auto simp: revoke_user_sessions_def update_where_def)

lemma resets_kept:
  "q \<in> set (ad_resets d) \<Longrightarrow> \<exists>q' \<in> set (ad_resets (use_resets uid t d)). nr_hash q' = nr_hash q \<and> nr_user q' = nr_user q"
proof -
  assume q: "q \<in> set (ad_resets d)"
  have "rows_grow nr_hash reset_grows (ad_resets d) (update_where (\<lambda>r. nr_user r = uid \<and> nr_used_at r = None)
     (\<lambda>r. r\<lparr>nr_used_at := Some t\<rparr>) (ad_resets d))"
    by (rule rows_grow_update) (auto simp: reset_grows_def stays_def)
  with q show ?thesis unfolding rows_grow_def use_resets_def reset_grows_def by auto
qed

lemma used_reset_refused:
  assumes "auth_inv e" and "r \<in> set (ad_resets e)" and "nr_used_at r \<noteq> None" and "ae_digest env tk = nr_hash r"
  shows "auth_step ((env, ip, quote), ResetOp tk pw cf) e = e"
proof -
  have "reset_by_hash e (ae_digest env tk) = Some r"
    using assms scalar_unique [of nr_hash "ad_resets e" r] by (simp add: auth_inv_def reset_by_hash_def)
  with assms(3) show ?thesis
    by (auto simp: reset_password_route_def Let_def commit_or_rollback_snd reset_password_def)
qed

lemma reset_frames:
  "ad_resets (create_or_update_credential env uid pw d) = ad_resets d"
  "ad_resets (revoke_user_sessions uid t d) = ad_resets d"
  "ad_sessions (use_resets uid t d) = ad_sessions d"
  "ad_resets (auth_audit a oc tn ac rt rid meta d) = ad_resets d"
  "ad_sessions (auth_audit a oc tn ac rt rid meta d) = ad_sessions d"
  by (auto simp: create_or_update_credential_def revoke_user_sessions_def use_resets_def auth_audit_def
      auth_write_defs split: option.split)

lemma good_reset_route_inv: "auth_inv d \<Longrightarrow> reset_password_route env tk pw cf d = (x, d1) \<Longrightarrow> auth_inv d1"
  using good_commit [OF good_refl, of d "reset_password env tk pw" 400 "\<lambda>_. (no_session_out None, ClearCookie)"]
    good_reset_password [OF good_refl, of d env tk pw]
  by (auto simp: reset_password_route_def Let_def good_def split: if_splits)

text \<open>C9. A password reset ends what an intruder may hold of the account: every session the user had
  before, and every reset token issued before (the one just used included), is refused for ever.\<close>

theorem password_reset_revokes:
  assumes "auth_inv d" and "reset_password_route env tk pw cf d = (Inr x, d1)"
    and "reset_by_hash d (ae_digest env tk) = Some r"
    and "s \<in> set (ad_sessions d)" and "ns_user s = nr_user r"
    and "q \<in> set (ad_resets d)" and "nr_user q = nr_user r"
    and "run_ok auth_ok auth_step ops d1" and "fold auth_step ops d1 = e"
    and "ae_digest env2 tk2 = ns_hash s" and "ae_digest env2 tk3 = nr_hash q"
  shows "principal_from_session env2 (Some tk2) e = (None, e)
    \<and> auth_step ((env2, ip, quote), ResetOp tk3 pw3 cf3) e = e"
proof -
  obtain r0 where r0: "reset_by_hash d (ae_digest env tk) = Some r0"
    and d1: "d1 = auth_audit ''native_auth.password_reset_completed'' ''success'' None (Some (nr_user r0)) ''native_auth''
      None [] (use_resets (nr_user r0) (ae_now env) (revoke_user_sessions (nr_user r0) (ae_now env)
        (create_or_update_credential env (nr_user r0) pw d)))"
    using reset_passwordE [OF assms(2)] by metis
  have r: "r0 = r" using r0 assms(3) by simp
  have i: "auth_inv d1" using good_reset_route_inv assms(1,2) by blast
  have s: "s\<lparr>ns_revoked_at := Some (ae_now env)\<rparr> \<in> set (ad_sessions d1)"
    unfolding d1 reset_frames r by (rule revoked_all) (use assms in \<open>simp_all add: credential_frame\<close>)
  have sess: "principal_from_session env2 (Some tk2) e = (None, e)"
    by (rule dead_later [OF i s _ assms(8,9)]) (simp_all add: assms(10))
  have "q \<in> set (ad_resets (revoke_user_sessions (nr_user r) (ae_now env) (create_or_update_credential env (nr_user r) pw d)))"
    using assms(6) by (simp add: reset_frames)
  from resets_kept [OF this, of "nr_user r" "ae_now env"] use_resets_used
  obtain q' where q': "q' \<in> set (ad_resets d1)" "nr_hash q' = nr_hash q" "nr_used_at q' \<noteq> None"
    using assms(7) unfolding d1 r reset_frames(4) by metis
  note run = auth_run [OF assms(8) i assms(9) [symmetric]]
  from grows_reset [OF run(2,1) q'(1)] obtain p where p: "reset_by_hash e (nr_hash q') = Some p" "reset_grows q' p" .
  then have "nr_used_at p \<noteq> None" "nr_hash p = nr_hash q" "p \<in> set (ad_resets e)"
    using q'(2,3) lookupsD(8) [OF p(1)] by (auto simp: reset_grows_def stays_def)
  with used_reset_refused [OF run(1)] assms(11) sess show ?thesis by simp
qed

section \<open>Second factors\<close>

lemma finish_mfa_facts:
  assumes "finish_mfa env cl c d = (Inr (tok, s, p), d1)"
  shows "ad_factors d1 = ad_factors d" "ad_recovery d1 = ad_recovery d" "pr_user_id p = nh_user c"
    "ad_sessions d1 = ad_sessions d @ [s]" "ns_mfa_at s = Some (ae_now env)" "ns_user s = nh_user c"
    "ad_memberships d1 = ad_memberships d"
proof -
  let ?d = "use_challenge env c d"
  have f: "ad_factors ?d = ad_factors d" "ad_recovery ?d = ad_recovery d" "ad_sessions ?d = ad_sessions d"
    "ad_memberships ?d = ad_memberships d"
    by (simp_all add: use_challenge_def save_challenge_def)
  obtain q where q: "principal_for_user ?d (nh_user c) (nh_tenant c) = Inr q"
    using assms by (auto simp: finish_mfa_def Let_def split: sum.splits)
  then have u: "pr_user_id q = nh_user c"
    by (auto simp: principal_for_user_def split: option.splits dest!: lookupsD(1))
  have i: "issue_session env q cl True ?d = ((tok, s), d1)" "p = q"
    using assms q by (auto simp: finish_mfa_def Let_def split: prod.splits)
  show "ad_factors d1 = ad_factors d" "ad_recovery d1 = ad_recovery d" "pr_user_id p = nh_user c"
    "ad_sessions d1 = ad_sessions d @ [s]" "ns_mfa_at s = Some (ae_now env)" "ns_user s = nh_user c"
    "ad_memberships d1 = ad_memberships d"
    using i f u by (auto simp: issue_session_def Let_def auth_audit_def auth_write_defs)
qed

lemma mfa_verify_routeE:
  assumes "mfa_verify_route env cl tk code rec d = (Inr (out, ck), d1)"
  obtains c e e2 tok s p where "given code \<noteq> given rec"
    "load_challenge env tk ''mfa_verify'' d = (Inr c, e)"
    "check_factor env (nh_user c) code rec e = Inr (Some e2)"
    "finish_mfa env cl c e2 = (Inr (tok, s, p), d1)" "so_user out = Some (nh_user c)" "ck = SetCookie tok"
proof -
  have "given code \<noteq> given rec" using assms by (auto simp: mfa_verify_route_def split: if_splits)
  then have c: "commit_or_rollback (mfa_verify env cl tk code rec) 400
      (\<lambda>(t, s, p). (session_out_for p True ''AUTHENTICATED'' None [], SetCookie t)) d = (Inr (out, ck), d1)"
    using assms by (simp add: mfa_verify_route_def)
  obtain x where x: "mfa_verify env cl tk code rec d = (Inr x, d1)" "(\<lambda>(t, s, p). (session_out_for p True ''AUTHENTICATED'' None [], SetCookie t)) x = (out, ck)"
    using arg_cong [OF c, of fst] arg_cong [OF c, of snd]
    by (auto simp: commit_or_rollback_fst commit_or_rollback_snd split: prod.splits sum.splits)
  obtain tok s p where xp: "x = (tok, s, p)" by (metis prod.collapse)
  obtain c e where l: "load_challenge env tk ''mfa_verify'' d = (Inr c, e)"
    using x by (auto simp: mfa_verify_def split: prod.splits sum.splits)
  obtain e2 where e2: "check_factor env (nh_user c) code rec e = Inr (Some e2)"
    using x l by (auto simp: mfa_verify_def split: sum.splits option.splits)
  have fin: "finish_mfa env cl c e2 = (Inr (tok, s, p), d1)"
    using x(1) l e2 xp by (simp add: mfa_verify_def)
  have "so_user out = Some (nh_user c)" "ck = SetCookie tok"
    using x(2) xp finish_mfa_facts(3) [OF fin] by (auto simp: session_out_for_def)
  then show thesis using that [OF \<open>given code \<noteq> given rec\<close> l e2 fin] by blast
qed



lemma recovery_accepted:
  assumes "auth_inv d" and "mfa_verify_route env cl tk None (Some r) d = (Inr (out, ck), d1)"
  obtains k uid where "so_user out = Some uid" "k \<in> set (ad_recovery d)" "nk_user k = uid"
    "nk_hash k = ae_digest env (py_strip r)" "nk_used_at k = None"
    "ad_recovery d1 = put_row (\<lambda>k. (nk_user k, nk_hash k)) (k\<lparr>nk_used_at := Some (ae_now env)\<rparr>) (ad_recovery d)"
proof -
  from mfa_verify_routeE [OF assms(2)] obtain c e e2 tok s p where v:
    "load_challenge env tk ''mfa_verify'' d = (Inr c, e)"
    "check_factor env (nh_user c) None (Some r) e = Inr (Some e2)"
    "finish_mfa env cl c e2 = (Inr (tok, s, p), d1)" "so_user out = Some (nh_user c)" by metis
  from v(2) show thesis
  proof (cases rule: check_factorE)
    case (recovery k r')
    show thesis
      by (rule that [OF v(4), of k])
        (use recovery finish_mfa_facts(2) [OF v(3)] load_frame(5) [OF v(1)] in \<open>simp_all add: save_recovery_def\<close>)
  qed simp
qed

text \<open>A recovery code opens at most one session: after it has been accepted for a user, it is refused
  with every later challenge of that user, whatever happens in between.\<close>

theorem recovery_code_used_once:
  assumes "auth_inv d" and "auth_ok ((env, ip, quote), MfaVerifyOp cl tk None (Some r)) d"
    and "mfa_verify_route env cl tk None (Some r) d = (Inr (out, ck), d1)"
    and "run_ok auth_ok auth_step ops d1" and "fold auth_step ops d1 = e"
    and "ae_digest env2 (py_strip r2) = ae_digest env (py_strip r)"
    and "challenge_by_hash e (ae_digest env2 tk2) ''mfa_verify'' = Some ch" and "so_user out = Some (nh_user ch)"
  shows "isl (fst (mfa_verify_route env2 cl2 tk2 None (Some r2) e))"
proof (rule ccontr)
  assume "\<not> isl (fst (mfa_verify_route env2 cl2 tk2 None (Some r2) e))"
  then obtain out2 ck2 e1 where acc: "mfa_verify_route env2 cl2 tk2 None (Some r2) e = (Inr (out2, ck2), e1)"
    by (cases "mfa_verify_route env2 cl2 tk2 None (Some r2) e"; cases "fst (mfa_verify_route env2 cl2 tk2 None (Some r2) e)") auto
  from mfa_verify_routeE [OF acc] obtain c x where l: "load_challenge env2 tk2 ''mfa_verify'' e = (Inr c, x)"
    "so_user out2 = Some (nh_user c)" by metis
  then have same: "so_user out2 = so_user out"
    using assms(7,8) by (auto elim!: load_challengeE)
  have i: "auth_inv d1" using auth.step_inv [OF assms(2,1)] assms(3) by simp
  note run = auth_run [OF assms(4) i assms(5) [symmetric]]
  obtain k where k: "so_user out = Some (nk_user k)" "k \<in> set (ad_recovery d)"
    "nk_hash k = ae_digest env (py_strip r)"
    "ad_recovery d1 = put_row (\<lambda>k. (nk_user k, nk_hash k)) (k\<lparr>nk_used_at := Some (ae_now env)\<rparr>) (ad_recovery d)"
    using recovery_accepted [OF assms(1,3)] by metis
  define k1 where "k1 = k\<lparr>nk_used_at := Some (ae_now env)\<rparr>"
  have k1: "k1 \<in> set (ad_recovery d1)" unfolding k(4) k1_def [symmetric]
    by (rule put_row_mem [OF k(2)]) (simp add: k1_def)
  obtain l where l: "so_user out2 = Some (nk_user l)" "l \<in> set (ad_recovery e)"
    "nk_hash l = ae_digest env2 (py_strip r2)" "nk_used_at l = None"
    using recovery_accepted [OF run(1) acc] by metis
  have "rows_grow (\<lambda>k. (nk_user k, nk_hash k)) recovery_grows (ad_recovery d1) (ad_recovery e)"
    using run(2) by (simp add: auth_grows_def)
  with k1 obtain k2 where k2: "k2 \<in> set (ad_recovery e)" "(nk_user k2, nk_hash k2) = (nk_user k1, nk_hash k1)"
    "recovery_grows k1 k2" unfolding rows_grow_def by blast
  have "k2 = l"
    using recovery_table.lookup_at_most_one [of e k2 l] run(1) k2(1,2) l(1-3) k(1,3) same assms(6)
    by (auto simp: auth_inv_def k1_def)
  with k2(3) l(4) show False by (auto simp: recovery_grows_def stays_def k1_def)
qed

section \<open>Bootstrap\<close>

lemma credentials_stay: "auth_grows d e \<Longrightarrow> ad_credentials d \<noteq> [] \<Longrightarrow> ad_credentials e \<noteq> []"
  by (cases "ad_credentials d") (auto simp: auth_grows_def rows_grow_def)

text \<open>The bootstrap of the platform owner succeeds at most once: after it has changed the database, no
  bootstrap request does so again, with whatever secret, tenant or e-mail address.\<close>

theorem bootstrap_once:
  assumes "auth_inv d" and "auth_ok ((env, ip, quote), BootstrapOp cl rq) d"
    and "auth_step ((env, ip, quote), BootstrapOp cl rq) d = d1" and "d1 \<noteq> d"
    and "run_ok auth_ok auth_step ops d1" and "fold auth_step ops d1 = e"
  shows "auth_step ((env2, ip2, quote2), BootstrapOp cl2 rq2) e = e"
proof -
  have i: "auth_inv d1" using auth.step_inv [OF assms(2,1)] assms(3) by simp
  have "ad_credentials d1 \<noteq> []"
  proof -
    have "\<exists>p d2 x. bootstrap_owner env (bs_tenant_id rq) (bs_tenant_name rq) (bs_email rq) (bs_display_name rq)
        (bs_password rq) d = (Inr p, d2) \<and> issue_session env p cl False d2 = (x, d1)"
      using assms(3,4) by (auto simp: bootstrap_route_def Let_def commit_or_rollback_snd
          split: if_splits sum.splits prod.splits)
    then obtain p d2 x where b: "bootstrap_owner env (bs_tenant_id rq) (bs_tenant_name rq) (bs_email rq)
        (bs_display_name rq) (bs_password rq) d = (Inr p, d2)" "issue_session env p cl False d2 = (x, d1)" by blast
    have "ad_credentials (create_or_update_credential env uid pw e) \<noteq> []" for uid pw e
      by (auto simp: create_or_update_credential_def auth_write_defs credential_of_def put_row_def
          split: option.split dest: scalar_SomeD)
    then have "ad_credentials d2 \<noteq> []"
      using b(1) by (auto simp: bootstrap_owner_def Let_def auth_audit_def add_auth_audit_def split: if_splits prod.splits)
    then show ?thesis using b(2) by (auto simp: issue_session_def Let_def auth_audit_def auth_write_defs)
  qed
  with auth_run [OF assms(5) i assms(6) [symmetric]] have "ad_credentials e \<noteq> []" by (auto dest: credentials_stay)
  then show ?thesis
    by (auto simp: bootstrap_route_def Let_def commit_or_rollback_snd bootstrap_owner_def)
qed

end
