(* ===== verification/Auth_Access.thy ===== *)
theory Auth_Access
  imports Auth_Properties
begin

text \<open>
  The properties of login, registration, access grants and roles.
\<close>

section \<open>Guessing a password\<close>



lemma scalar_put_same:
  "x \<in> set rows \<Longrightarrow> key x = key r \<Longrightarrow> scalar (\<lambda>y. key y = key r) (put_row key r rows) = Some r"
  by (induction rows) (auto simp: put_row_def)

lemma credential_saved:
  "credential_of d uid = Some c \<Longrightarrow> nc_user c' = uid \<Longrightarrow> credential_of (save_credential c' d) uid = Some c'"
  using lookupsD(3) [of d uid c] scalar_put_same [of c "ad_credentials d" nc_user c']
  by (simp add: credential_of_def save_credential_def)






section \<open>Sessions without a second factor\<close>

definition session_hashes :: "auth_db \<Rightarrow> string list" where
  "session_hashes d = map ns_hash (ad_sessions d)"

lemma same_sessions: "ad_sessions e = ad_sessions d \<Longrightarrow> session_hashes e = session_hashes d"
  by (simp add: session_hashes_def)

lemma session_hashes_put [simp]: "map ns_hash (put_row ns_hash s rows) = map ns_hash rows"
  by simp

lemma session_hashes_routes:
  "session_hashes (snd (forgot_password_route env mail em d)) = session_hashes d"
  "session_hashes (snd (logout_route env c d)) = session_hashes d"
  "session_hashes (snd (resend_verification_route env em d)) = session_hashes d"
proof -
  show "session_hashes (snd (logout_route env c d)) = session_hashes d"
    by (auto simp: logout_route_def revoke_session_def session_hashes_def auth_audit_def auth_write_defs
        split: prod.splits option.splits if_splits)
  show "session_hashes (snd (resend_verification_route env em d)) = session_hashes d"
    by (auto simp: resend_verification_route_def create_email_verification_def issue_challenge_def Let_def
        session_hashes_def auth_audit_def auth_write_defs split: prod.splits option.splits if_splits)
  have r: "ad_sessions (revoke_password_reset env i rs e) = ad_sessions e" for i rs e
    by (auto simp: revoke_password_reset_def auth_audit_def auth_write_defs split: option.split)
  have c: "ad_sessions e = ad_sessions d" if "create_password_reset env em d = (x, e)" for x e
    using that by (auto simp: create_password_reset_def reset_requested_def Let_def auth_audit_def auth_write_defs
        use_resets_def split: option.splits if_splits)
  show "session_hashes (snd (forgot_password_route env mail em d)) = session_hashes d"
    by (auto simp: forgot_password_route_def Let_def session_hashes_def r split: prod.splits option.splits dest!: c)
qed

lemma session_hashes_commits:
  "session_hashes (snd (reset_password_route env tk pw cf d)) = session_hashes d"
  "session_hashes (snd (verify_email_route env tk d)) = session_hashes d"
  "session_hashes (snd (claim_account_route env tk d)) = session_hashes d"
  "session_hashes (snd (recover_account_route env tk pw cf d)) = session_hashes d"
  "session_hashes (snd (enroll_start_route quote env tk d)) = session_hashes d"
proof -
  have cf: "ad_sessions (create_or_update_credential env uid w e) = ad_sessions e" for uid w e
    by (rule credential_frame)
  have vf: "ad_sessions (verify_user_email env uid e) = ad_sessions e" for uid e
    by (auto simp: verify_user_email_def auth_write_defs split: option.split)
  have uc: "ad_sessions (use_challenge env c e) = ad_sessions e" for c e
    by (simp add: use_challenge_def save_challenge_def)
  have upd: "map ns_hash (update_where p (\<lambda>s. s\<lparr>ns_revoked_at := t\<rparr>) rows) = map ns_hash rows" for p t rows
    by (rule map_update_where) simp
  show "session_hashes (snd (reset_password_route env tk pw cf d)) = session_hashes d"
    by (auto simp: reset_password_route_def Let_def commit_or_rollback_snd session_hashes_def reset_password_def
        reset_frames revoke_user_sessions_def upd cf split: prod.splits sum.splits option.splits if_splits)
  show "session_hashes (snd (recover_account_route env tk pw cf d)) = session_hashes d"
    by (auto simp: recover_account_route_def Let_def commit_or_rollback_snd session_hashes_def complete_account_recovery_def
        reset_frames uc vf cf split: prod.splits sum.splits option.splits if_splits dest!: load_frame(1))
  have v: "ad_sessions e = ad_sessions d" if "complete_email_verification env tk d = (Inr x, e)" for x e
    using that by (auto simp: complete_email_verification_def reset_frames uc auth_write_defs
        split: prod.splits sum.splits option.splits if_splits dest!: load_frame(1))
  show "session_hashes (snd (verify_email_route env tk d)) = session_hashes d"
    "session_hashes (snd (claim_account_route env tk d)) = session_hashes d"
    by (auto simp: verify_email_route_def claim_account_route_def commit_or_rollback_snd session_hashes_def
        split: prod.splits sum.splits dest!: v)
  have s: "ad_sessions e = ad_sessions d" if "mfa_enrollment_start quote env tk d = (Inr x, e)" for x e
    using that by (auto simp: mfa_enrollment_start_def Let_def auth_write_defs
        split: prod.splits sum.splits option.splits if_splits dest!: load_frame(1))
  show "session_hashes (snd (enroll_start_route quote env tk d)) = session_hashes d"
    by (auto simp: enroll_start_route_def commit_or_rollback_snd session_hashes_def
        split: prod.splits sum.splits dest!: s)
qed

lemma onboarding_frame:
  assumes "complete_onboarding env p g nm goal s = (r, s1)"
  shows "ad_sessions (work s1) \<in> {ad_sessions (work s), ad_sessions (durable s)}"
    and "ad_sessions (durable s1) \<in> {ad_sessions (work s), ad_sessions (durable s)}"
proof -
  have u: "ad_sessions e = ad_sessions d" if "onboard_user p em sub d = (x, e)" for em sub d x e
    using that by (auto simp: onboard_user_def auth_write_defs split: option.splits if_splits)
  have a: "ad_sessions (add_redemption x d) = ad_sessions d" for x d by (simp add: add_redemption_def)
  show "ad_sessions (work s1) \<in> {ad_sessions (work s), ad_sessions (durable s)}"
    "ad_sessions (durable s1) \<in> {ad_sessions (work s), ad_sessions (durable s)}"
    using assms
    by (auto simp: complete_onboarding_def Let_def commit_def rollback_def good_onboard_membership put_profile_frame a
        split: sum.splits if_splits option.splits prod.splits dest!: u)
qed

lemma session_hashes_principal:
  assumes "\<And>p e. session_hashes (snd (run p e)) = session_hashes e"
  shows "session_hashes (snd (with_principal env ip h run d)) = session_hashes d"
proof -
  obtain r d1 where r: "require_principal env (ip_config ip) (ip_introspect ip) h d = (r, d1)" by fastforce
  have "session_hashes x = session_hashes d" if "principal_from_session env tk d = (q, x)" for tk q x
    using that by (auto simp: principal_from_session_def session_hashes_def save_native_session_def
        split: option.splits if_splits)
  then have "session_hashes d1 = session_hashes d"
    using r by (auto simp: require_principal_def Let_def split: if_splits prod.splits option.splits)
  moreover have "session_hashes e2 = session_hashes d1" if "run p d1 = (x, e2)" for p x e2
    using assms [of p d1] that by simp
  ultimately show ?thesis by (auto simp: with_principal_def r split: sum.split prod.split)
qed

lemma session_hashes_session_routes:
  "session_hashes (snd (reauthenticate_route env c p pw d)) = session_hashes d"
  "session_hashes (snd (revoke_others_route env c p d)) = session_hashes d"
  "session_hashes (snd (revoke_one_route env sid p d)) = session_hashes d"
  "session_hashes (snd (onboarding_route env gr nm goal p d)) = session_hashes d"
  "session_hashes (snd (rename_route env nm p d)) = session_hashes d"
proof -
  have upd: "map ns_hash (update_where q (\<lambda>s. s\<lparr>ns_revoked_at := t\<rparr>) rows) = map ns_hash rows" for q t rows
    by (rule map_update_where) simp
  show "session_hashes (snd (reauthenticate_route env c p pw d)) = session_hashes d"
    by (auto simp: reauthenticate_route_def session_hashes_def save_native_session_def split: option.split)
  show "session_hashes (snd (revoke_others_route env c p d)) = session_hashes d"
    by (simp add: revoke_others_route_def Let_def session_hashes_def upd)
  show "session_hashes (snd (revoke_one_route env sid p d)) = session_hashes d"
    by (auto simp: revoke_one_route_def session_hashes_def save_native_session_def split: option.split)
  show "session_hashes (snd (onboarding_route env gr nm goal p d)) = session_hashes d"
    using onboarding_frame(2) [of env p gr nm goal "open_session d"]
    by (auto simp: onboarding_route_def session_hashes_def open_session_def close_session_def split: prod.split sum.split)
  show "session_hashes (snd (rename_route env nm p d)) = session_hashes d"
    by (auto simp: rename_route_def update_profile_name_def Let_def session_simps session_hashes_def put_profile_frame
        split: sum.split option.split)
qed

text \<open>What a login-like operation adds.\<close>

definition adds_session :: "auth_db \<Rightarrow> auth_db \<Rightarrow> native_session \<Rightarrow> bool" where
  "adds_session d e s \<longleftrightarrow> session_hashes e = session_hashes d @ [ns_hash s] \<and> s \<in> set (ad_sessions e)"

lemma issue_session_adds:
  assumes "issue_session env p cl mfa d = ((tok, s), e)"
  shows "ad_sessions e = ad_sessions d @ [s]" "ns_user s = pr_user_id p" "ns_tenant s = pr_tenant_id p"
    "ns_mfa_at s = (if mfa then Some (ae_now env) else None)" "ad_memberships e = ad_memberships d"
    "tok = ae_token env 0" "ns_hash s = ae_digest env tok" "ns_revoked_at s = None"
    "ns_expires_at s = ae_now env + hours (st_session_ttl_hours (ae_settings env))" "ad_users e = ad_users d"
    "ad_credentials e = ad_credentials d"
  using assms by (auto simp: issue_session_def Let_def auth_audit_def auth_write_defs)

lemma issue_challenge_frame:
  "issue_challenge env purpose uid tid pl ttl d = (tok, e) \<Longrightarrow> ad_sessions e = ad_sessions d"
  by (auto simp: issue_challenge_def Let_def auth_write_defs)

text \<open>A login adds no session, or one for an active membership, whose role then needs no second factor.\<close>

lemma login_sessions:
  assumes "login env cl em pw d = (r, e)"
  shows "ad_sessions e = ad_sessions d \<and> (\<forall>tok s p. r \<noteq> Inr (LoggedIn tok s p))
    \<or> (\<exists>tok s p m. r = Inr (LoggedIn tok s p) \<and> ad_sessions e = ad_sessions d @ [s] \<and> ns_user s = pr_user_id p
        \<and> ad_memberships e = ad_memberships d \<and> m \<in> set (ad_memberships e) \<and> mb_active m
        \<and> mb_user m = ns_user s \<and> mb_tenant m = ns_tenant s \<and> \<not> needs_mfa (ae_settings env) (mb_role m))"
proof -
  have f: "ad_sessions (login_failure rs i x) = ad_sessions x" for rs i x
    by (simp add: login_failure_def reset_frames)
  have sc: "ad_sessions (save_credential c d) = ad_sessions d" "ad_memberships (save_credential c d) = ad_memberships d"
    for c by (simp_all add: save_credential_def)
  show ?thesis
  proof (cases r)
    case (Inl e')
    then show ?thesis using assms f sc by (auto simp: login_def split: option.splits if_splits prod.splits)
  next
    case (Inr lr)
    then obtain u c m where l: "active_membership d (us_id u) = Some m"
      "login_accepted env cl u m (save_credential (c\<lparr>nc_failed := 0, nc_locked_until := None,
                             nc_last_login := Some (ae_now env)\<rparr>) d) = (lr, e)"
      using assms by (auto simp: login_def split: option.splits if_splits prod.splits)
    have m: "m \<in> set (ad_memberships d)" "mb_active m" "mb_user m = us_id u"
      using l(1) by (auto simp: active_membership_def dest: scalar_SomeD)
    define w where "w = save_credential (c\<lparr>nc_failed := 0, nc_locked_until := None, nc_last_login := Some (ae_now env)\<rparr>) d"
    have w: "ad_sessions w = ad_sessions d" "ad_memberships w = ad_memberships d" by (simp_all add: w_def sc)
    show ?thesis
    proof (cases "needs_mfa (ae_settings env) (mb_role m)")
      case True
      with l(2) Inr w show ?thesis unfolding w_def [symmetric]
        by (auto simp: login_accepted_def Let_def reset_frames split: prod.splits if_splits dest!: issue_challenge_frame)
    next
      case False
      with l(2) obtain tok s p where i: "issue_session env p cl False w = ((tok, s), e)" "lr = LoggedIn tok s p"
        "pr_user_id p = us_id u" "pr_tenant_id p = mb_tenant m" unfolding w_def [symmetric]
        by (auto simp: login_accepted_def Let_def split: prod.splits)
      from issue_session_adds [OF i(1)] i m w Inr False show ?thesis by auto
    qed
  qed
qed

fun is_bootstrap :: "auth_op \<Rightarrow> bool" where
  "is_bootstrap (BootstrapOp cl rq) = True"
| "is_bootstrap _ = False"

definition unverified_ok :: "auth_env \<Rightarrow> auth_db \<Rightarrow> native_session \<Rightarrow> bool" where
  "unverified_ok env e s \<longleftrightarrow> (\<exists>m. m \<in> set (ad_memberships e) \<and> mb_active m \<and> mb_user m = ns_user s
     \<and> mb_tenant m = ns_tenant s \<and> \<not> needs_mfa (ae_settings env) (mb_role m))"

lemma login_unverified:
  assumes "login env cl em pw d = (r, e)" and "s \<in> set (ad_sessions e)" and "s \<notin> set (ad_sessions d)"
  shows "unverified_ok env e s"
  using login_sessions [OF assms(1)] assms(2,3) by (auto simp: unverified_ok_def)

lemma new_hash_not_old: "ns_hash s \<notin> set (session_hashes d) \<Longrightarrow> s \<notin> set (ad_sessions d)"
  by (auto simp: session_hashes_def)

lemma login_route_unverified:
  assumes "s \<in> set (ad_sessions (snd (login_route env cl em pw d)))" and "s \<notin> set (ad_sessions d)"
  shows "unverified_ok env (snd (login_route env cl em pw d)) s"
proof (cases "native_mode (ae_settings env)")
  case True
  obtain r e where l: "login env cl em pw d = (r, e)" by fastforce
  with True have "snd (login_route env cl em pw d) = e"
    by (auto simp: login_route_def Let_def session_simps split: sum.split)
  with login_unverified [OF l] assms show ?thesis by simp
qed (use assms in \<open>simp add: login_route_def\<close>)

lemma register_unverified:
  assumes "s \<in> set (ad_sessions (snd (register_route env cl rq d)))" and "s \<notin> set (ad_sessions d)"
  shows "unverified_ok env (snd (register_route env cl rq d)) s"
proof -
  have rec: "ad_sessions (snd (register_recovery env rq em d)) = ad_sessions d" for em
  proof -
    have "ad_sessions e = ad_sessions d" if "create_account_recovery env em g d = (x, e)" for g x e
      using that by (auto simp: create_account_recovery_def Let_def reset_frames add_redemption_def
          split: sum.splits option.splits if_splits prod.splits dest!: issue_challenge_frame)
    then show ?thesis
      by (auto simp: register_recovery_def Let_def session_simps split: prod.split sum.split option.split)
  qed
  have new: "unverified_ok env e s" if "register_new env cl rq tn em d = (x, e)" "s \<in> set (ad_sessions e)" for tn em x e
  proof -
    define p where "p = \<lparr>pr_user_id = ae_uid env 4, pr_tenant_id = tn, pr_roles = [''member''], pr_email = Some em,
       pr_external_subject = Some (''native:'' @ em)\<rparr>"
    obtain r s1 where c: "complete_onboarding env p (rg_grant rq) (rg_name rq) (rg_goal rq) (open_session d) = (r, s1)"
      by fastforce
    have s1: "ad_sessions (work s1) = ad_sessions d" "ad_sessions (durable s1) = ad_sessions d"
      using onboarding_frame [OF c] by (simp_all add: open_session_def)
    define w where "w = create_or_update_credential env (pr_user_id p) (rg_password rq) (work s1)"
    obtain r2 d1 where l: "login env cl em (rg_password rq) w = (r2, d1)" by fastforce
    have w2: "work (on_work (create_or_update_credential env (pr_user_id p) (rg_password rq)) s1) = w"
      by (simp add: on_work_def w_def)
    have "e = (case r of Inl e \<Rightarrow> durable s1 | Inr x \<Rightarrow> (case r2 of Inl e \<Rightarrow> durable s1 | Inr x \<Rightarrow> d1))"
      using arg_cong [OF that(1), of snd]
      unfolding register_new_def Let_def p_def [symmetric] c prod.case w2 l
      by (simp add: close_session_def rollback_def commit_def on_work_def split: sum.splits prod.splits)
    then have "e = d1" using that(2) assms(2) s1 by (auto split: sum.splits)
    moreover have "s \<notin> set (ad_sessions w)" using assms(2) s1 by (simp add: w_def credential_frame)
    ultimately show ?thesis using login_unverified [OF l] that(2) by simp
  qed
  show ?thesis
    using assms rec new
    by (auto simp: register_route_def Let_def split: if_splits option.splits) (metis prod.collapse)+
qed

lemma mfa_sessions:
  assumes "s \<in> set (ad_sessions e)" and "s \<notin> set (ad_sessions d)"
  shows "e = snd (mfa_verify_route env cl tk code rec d) \<Longrightarrow> ns_mfa_at s \<noteq> None"
    and "e = snd (enroll_confirm_route env cl tk code2 d) \<Longrightarrow> ns_mfa_at s \<noteq> None"
proof -
  have fin: "ns_mfa_at s \<noteq> None"
    if "finish_mfa env cl c x = (Inr r, e)" and "ad_sessions x = ad_sessions d" for c x r
  proof -
    obtain tok t p where "r = (tok, t, p)" by (metis prod.collapse)
    with that finish_mfa_facts(4,5) [of env cl c x tok t p e] assms show ?thesis by auto
  qed
  have cfac: "ad_sessions e2 = ad_sessions x" if "check_factor env u code rec x = Inr (Some e2)" for u x e2
    using that by (cases rule: check_factorE) (simp_all add: save_factor_def save_recovery_def)
  show "ns_mfa_at s \<noteq> None" if e: "e = snd (mfa_verify_route env cl tk code rec d)"
  proof -
    have "given code \<noteq> given rec"
    proof
      assume "given code = given rec"
      then have "e = d" using e by (simp add: mfa_verify_route_def)
      with assms show False by simp
    qed
    then have "e = (case mfa_verify env cl tk code rec d of (Inl e, d1) \<Rightarrow> d | (Inr r, d1) \<Rightarrow> d1)"
      using e by (simp add: mfa_verify_route_def commit_or_rollback_snd)
    then obtain y where y: "mfa_verify env cl tk code rec d = (Inr y, e)"
      using assms by (auto split: prod.splits sum.splits)
    obtain c x where l: "load_challenge env tk ''mfa_verify'' d = (Inr c, x)"
      using y by (auto simp: mfa_verify_def split: prod.splits sum.splits)
    obtain e2 where e2: "check_factor env (nh_user c) code rec x = Inr (Some e2)" "finish_mfa env cl c e2 = (Inr y, e)"
      using y l by (auto simp: mfa_verify_def split: sum.splits option.splits)
    show ?thesis by (rule fin [OF e2(2)]) (simp add: cfac [OF e2(1)] load_frame(1) [OF l])
  qed
  show "ns_mfa_at s \<noteq> None" if e: "e = snd (enroll_confirm_route env cl tk code2 d)"
  proof -
    have "e = (case mfa_enrollment_confirm env cl tk code2 d of (Inl e, d1) \<Rightarrow> d | (Inr r, d1) \<Rightarrow> d1)"
      using e by (simp add: enroll_confirm_route_def commit_or_rollback_snd)
    then obtain y where y: "mfa_enrollment_confirm env cl tk code2 d = (Inr y, e)"
      using assms by (auto split: prod.splits sum.splits)
    obtain c x where l: "load_challenge env tk ''mfa_enroll'' d = (Inr c, x)"
      using y by (auto simp: mfa_enrollment_confirm_def split: prod.splits sum.splits)
    obtain r where r: "finish_mfa env cl c (add_recovery_codes env (nh_user c)
        (confirm_factor env (nh_user c) (challenge_secret c) x)) = (Inr r, e)"
      using y l by (auto simp: mfa_enrollment_confirm_def Let_def split: prod.splits sum.splits if_splits)
    show ?thesis by (rule fin [OF r]) (simp add: mfa_frame load_frame(1) [OF l])
  qed
qed

text \<open>In staging and production no request opens a session for a privileged role without a second
  factor: the bootstrap of the owner apart, every session a request adds either records a verified second
  factor or belongs to an active membership whose role is not privileged.\<close>

theorem unverified_session_unprivileged:
  assumes "s \<in> set (ad_sessions (auth_step ((env, ip, quote), op) d))"
    and "ns_hash s \<notin> set (session_hashes d)" and "ns_mfa_at s = None" and "\<not> is_bootstrap op"
    and "st_environment (ae_settings env) \<in> {''staging'', ''production''}"
  shows "\<exists>m. m \<in> set (ad_memberships (auth_step ((env, ip, quote), op) d)) \<and> mb_active m
    \<and> mb_user m = ns_user s \<and> mb_tenant m = ns_tenant s \<and> \<not> privileged_role (mb_role m)"
proof -
  note new = new_hash_not_old [OF assms(2)]
  have old: False if "session_hashes (auth_step ((env, ip, quote), op) d) = session_hashes d"
  proof -
    have "ns_hash s \<in> set (session_hashes (auth_step ((env, ip, quote), op) d))"
      using assms(1) by (simp add: session_hashes_def)
    with that assms(2) show False by simp
  qed
  have "unverified_ok env (auth_step ((env, ip, quote), op) d) s"
  proof (cases op)
    case (BootstrapOp cl rq)
    with assms(4) show ?thesis by simp
  next
    case (LoginOp cl em pw)
    with login_route_unverified [of s env cl em pw d] assms(1) new show ?thesis by simp
  next
    case (RegisterOp cl rq)
    with register_unverified [of s env cl rq d] assms(1) new show ?thesis by simp
  next
    case (EnrollConfirmOp cl tk code)
    with mfa_sessions(2) [OF assms(1) new, of env cl tk code] assms(3) show ?thesis by simp
  next
    case (MfaVerifyOp cl tk code rec)
    with mfa_sessions(1) [OF assms(1) new, of env cl tk code rec] assms(3) show ?thesis by simp
  qed (use old in \<open>simp_all add: session_hashes_routes session_hashes_commits session_hashes_principal
      session_hashes_session_routes\<close>)
  with assms(5) show ?thesis by (auto simp: unverified_ok_def needs_mfa_def)
qed

text \<open>The role \<open>superadmin\<close> is not among the privileged roles, although it carries the rights of an
  administrator and an owner: its login opens a session without a second factor.\<close>

lemma superadmin_login_without_mfa:
  assumes "native_mode (ae_settings env)" and "user_by_email d (normalize_email em) = Some u"
    and "credential_of d (us_id u) = Some c" and "nc_locked_until c = None" and "verify_password env pw (nc_hash c)"
    and "active_membership d (us_id u) = Some m" and "mb_role m = ''superadmin''"
  shows "\<exists>out tok d1. login_route env cl em pw d = (Inr (out, SetCookie tok), d1)
    \<and> (\<exists>s \<in> set (ad_sessions d1). ns_user s = us_id u \<and> ns_mfa_at s = None)
    \<and> {''admin'', ''owner''} \<subseteq> set (expand_role (mb_role m))"
  using assms
  by (auto simp: login_route_def Let_def login_def login_accepted_def needs_mfa_def privileged_role_def
      issue_session_def session_simps auth_audit_def auth_write_defs expand_role_def)

section \<open>Registration\<close>

lemma char_table_lower_space: "py_space (char_table upper_letters lower_letters c) = py_space c"
proof (cases "c \<in> set upper_letters")
  case True
  then show ?thesis
    by (auto simp: char_table_def upper_letters_def lower_letters_def py_space_def)
next
  case False
  then have "map_of (zip upper_letters lower_letters) c = None"
    by (simp add: map_of_zip_is_None upper_letters_def lower_letters_def)
  then show ?thesis by (simp add: char_table_def)
qed

lemma char_table_lower_idem:
  "char_table upper_letters lower_letters (char_table upper_letters lower_letters c) = char_table upper_letters lower_letters c"
proof (cases "c \<in> set upper_letters")
  case True
  then show ?thesis
    by (auto simp: char_table_def upper_letters_def lower_letters_def)
next
  case False
  then have "map_of (zip upper_letters lower_letters) c = None"
    by (simp add: map_of_zip_is_None upper_letters_def lower_letters_def)
  then show ?thesis by (simp add: char_table_def)
qed

lemma py_lower_idem [simp]: "py_lower (py_lower s) = py_lower s"
  by (simp add: py_lower_def char_table_lower_idem)

lemma dropWhile_py_lower: "dropWhile py_space (py_lower s) = py_lower (dropWhile py_space s)"
  by (induction s) (simp_all add: py_lower_def char_table_lower_space)

lemma py_strip_lower: "py_strip (py_lower s) = py_lower (py_strip s)"
proof -
  have r: "rev (py_lower t) = py_lower (rev t)" for t by (simp add: py_lower_def rev_map)
  show ?thesis
    by (simp add: py_strip_def py_rstrip_def py_lstrip_def dropWhile_py_lower r)
qed

lemma normalize_email_idem [simp]: "normalize_email (normalize_email s) = normalize_email s"
  by (simp add: normalize_email_def py_strip_lower)

lemma user_added:
  "user_by_email d em = None \<Longrightarrow> us_email u = em \<Longrightarrow> user_by_email (add_user u d) em = Some u"
  by (simp add: user_by_email_def add_user_def scalar_append)

lemma membership_onboarded:
  "active_membership (onboard_membership env p d) (pr_user_id p) \<noteq> None"
proof (cases "scalar (\<lambda>m. mb_tenant m = pr_tenant_id p \<and> mb_user m = pr_user_id p) (ad_memberships d)")
  case None
  then have "onboard_membership env p d = add_membership \<lparr>mb_id = ae_uid env 5, mb_tenant = pr_tenant_id p,
      mb_user = pr_user_id p, mb_role = ''member'', mb_active = True\<rparr> d"
    by (simp add: onboard_membership_def)
  then show ?thesis by (simp add: active_membership_def add_membership_def scalar_append split: option.split)
next
  case (Some m)
  note mD = scalar_SomeD [OF Some]
  show ?thesis
  proof (cases "mb_active m")
    case True
    with Some have "onboard_membership env p d = d" by (simp add: onboard_membership_def)
    with mD True show ?thesis by (auto simp: active_membership_def scalar_None)
  next
    case False
    have "m\<lparr>mb_active := True\<rparr> \<in> set (put_row mb_id (m\<lparr>mb_active := True\<rparr>) (ad_memberships d))"
      using mD by (auto intro: put_row_mem)
    moreover have "onboard_membership env p d = save_membership (m\<lparr>mb_active := True\<rparr>) d"
      using Some False by (simp add: onboard_membership_def)
    ultimately show ?thesis
      using mD by (auto simp: active_membership_def save_membership_def scalar_None
          intro!: bexI [of _ "m\<lparr>mb_active := True\<rparr>"])
  qed
qed

text \<open>A login with the password just stored succeeds.\<close>

lemma login_new_password:
  assumes "user_by_email d (normalize_email em) = Some u" and "CHR ''$'' \<notin> set (ae_token env 4)"
    and "\<And>salt cost w. ae_scrypt env1 salt cost w = ae_scrypt env salt cost w"
    and "active_membership d (us_id u) \<noteq> None"
  shows "\<exists>r d1. login env1 cl em pw (create_or_update_credential env (us_id u) pw d) = (Inr r, d1)"
proof -
  let ?d = "create_or_update_credential env (us_id u) pw d"
  obtain c where c: "credential_of ?d (us_id u) = Some c" "nc_hash c = hash_password env pw" "nc_locked_until c = None"
  proof (cases "credential_of d (us_id u)")
    case None
    then show thesis
      by (intro that [of "\<lparr>nc_id = ae_uid env 0, nc_user = us_id u, nc_hash = hash_password env pw,
          nc_failed = 0, nc_locked_until = None, nc_updated_at = ae_now env, nc_last_login = None,
          nc_created_at = ae_now env\<rparr>"])
        (simp_all add: create_or_update_credential_def credential_of_def add_credential_def scalar_append)
  next
    case (Some c0)
    with credential_saved [OF Some] lookupsD(3) [OF Some] show thesis
      by (intro that [of "c0\<lparr>nc_hash := hash_password env pw, nc_failed := 0, nc_locked_until := None,
          nc_updated_at := ae_now env\<rparr>"]) (simp_all add: create_or_update_credential_def)
  qed
  have "user_by_email ?d (normalize_email em) = Some u" "active_membership ?d (us_id u) = active_membership d (us_id u)"
    using assms(1) by (simp_all add: user_by_email_def active_membership_def credential_frame)
  moreover have "verify_password env1 pw (nc_hash c)"
    unfolding c(2) by (simp add: verify_hash [OF assms(2,3)])
  ultimately show ?thesis
    using assms(4) c by (auto simp: login_def split: prod.split)
qed

lemma onboarded_new:
  assumes "complete_onboarding env p g nm goal s = (Inr x, s1)" and "get_user (work s) (pr_user_id p) = None"
    and "user_by_email (work s) em = None" and "pr_email p = Some em" and "normalize_email em = em"
  shows "\<exists>u. user_by_email (work s1) em = Some u \<and> us_id u = pr_user_id p
    \<and> active_membership (work s1) (us_id u) \<noteq> None"
proof -
  have em: "email_text (pr_email p) = em" using assms(4,5) by (simp add: email_text_def normalize_email_def)
  define subject where "subject = py_strip (case pr_external_subject p of None \<Rightarrow> [] | Some t \<Rightarrow> t)"
  define u where "u = \<lparr>us_id = pr_user_id p, us_external_subject = subject, us_email = em,
    us_display_name = take 200 (takeWhile (\<lambda>c. c \<noteq> CHR ''@'') em), us_email_verified_at = None\<rparr>"
  have ou: "d1 = add_user u (work s)" if "onboard_user p em subject (work s) = (Inr y, d1)" for y d1
    using that assms(2) by (simp add: onboard_user_def u_def split: if_splits)
  have fr: "ad_users (put_profile x' d) = ad_users d" "ad_memberships (put_profile x' d) = ad_memberships d"
    "ad_users (onboard_membership env p d) = ad_users d" "ad_users (add_redemption rd d) = ad_users d"
    "ad_memberships (add_redemption rd d) = ad_memberships d" for x' d rd
    by (auto simp: put_profile_def onboard_membership_def auth_write_defs split: option.split)
  obtain d1 where d1: "onboard_user p em subject (work s) = (Inr (), d1)"
    and w: "ad_users (work s1) = ad_users d1" "ad_memberships (work s1) = ad_memberships (onboard_membership env p d1)"
    using assms(1) unfolding complete_onboarding_def em subject_def [symmetric] Let_def
    by (auto simp: fr commit_def split: sum.splits if_splits option.splits prod.splits)
  have "user_by_email (work s1) em = Some u"
    using user_added [OF assms(3), of u] ou [OF d1] w(1) by (simp add: user_by_email_def u_def)
  moreover have "active_membership (work s1) (us_id u) \<noteq> None"
    using membership_onboarded [of env p d1] w(2) by (simp add: active_membership_def u_def)
  ultimately show ?thesis by (auto simp: u_def)
qed

text \<open>Registration is all or nothing, although it commits twice: when it answers with an error, nothing
  of it stays in the database.\<close>

theorem registration_atomic:
  assumes "register_route env cl rq d = (Inl e, d1)"
    and "CHR ''$'' \<notin> set (ae_token env 4)" and "fresh_key us_id (ae_uid env 4) (ad_users d)"
  shows "d1 = d"
proof -
  define em where "em = py_lower (py_strip (rg_email rq))"
  have em: "normalize_email em = em" by (simp add: em_def normalize_email_def py_strip_lower)
  have "d1 = d" if r: "register_new env cl rq tn em d = (Inl e, d1)" and none: "user_by_email d em = None" for tn
  proof -
    define p where "p = \<lparr>pr_user_id = ae_uid env 4, pr_tenant_id = tn, pr_roles = [''member''], pr_email = Some em,
       pr_external_subject = Some (''native:'' @ em)\<rparr>"
    obtain x s1 where c: "complete_onboarding env p (rg_grant rq) (rg_name rq) (rg_goal rq) (open_session d) = (x, s1)"
      by fastforce
    show ?thesis
    proof (cases x)
      case (Inl e')
      have "durable s1 = d"
        using c Inl by (auto simp: complete_onboarding_def Let_def open_session_def commit_def rollback_def
            split: sum.splits if_splits option.splits prod.splits)
      then show ?thesis
        using arg_cong [OF r, of snd] unfolding register_new_def Let_def p_def [symmetric] c Inl
        by (simp add: close_session_def rollback_def)
    next
      case (Inr y)
      have "get_user d (ae_uid env 4) = None" using assms(3) by (simp add: get_user_def fresh_key_scalar)
      then obtain u where u: "user_by_email (work s1) em = Some u" "us_id u = pr_user_id p"
        "active_membership (work s1) (us_id u) \<noteq> None"
        using onboarded_new [OF c [unfolded Inr], of em] none em by (auto simp: open_session_def p_def)
      obtain r2 d2 where l: "login env cl em (rg_password rq)
          (create_or_update_credential env (us_id u) (rg_password rq) (work s1)) = (Inr r2, d2)"
        using login_new_password [of "work s1" em u env env cl "rg_password rq"] u em assms(2) by auto
      have "work (on_work (create_or_update_credential env (pr_user_id p) (rg_password rq)) s1)
          = create_or_update_credential env (us_id u) (rg_password rq) (work s1)"
        by (simp add: on_work_def u)
      then have "False"
        using r l unfolding register_new_def Let_def p_def [symmetric] c Inr
        by (simp split: prod.splits)
      then show ?thesis ..
    qed
  qed
  moreover have "d1 = d" if "register_recovery env rq em d = (Inl e, d1)"
    using that by (auto simp: register_recovery_def Let_def session_simps split: prod.splits sum.splits option.splits)
  ultimately show ?thesis
    using assms(1) by (auto simp: register_route_def Let_def em_def [symmetric] split: if_splits option.splits)
qed

end
