(* ===== verification/Auth_Grants.thy ===== *)
theory Auth_Grants
  imports Auth_Access
begin

text \<open>
  The properties that connect operations: a password that was stored logs in, a session cookie
  authenticates, a grant verifies until it expires and is redeemed once; the roles of a request; the
  time-based codes.
\<close>

unbundle bit_operations_syntax

section \<open>From a password to a principal\<close>

text \<open>After a password reset the new password opens the account: the next login with it is accepted
  (with a session or, for a privileged role, the challenge of the second factor), also when the account
  was locked before.\<close>

theorem new_password_logs_in:
  assumes "reset_password_route env tk pw cf d = (Inr x, d1)" and "reset_by_hash d (ae_digest env tk) = Some r"
    and "user_by_email d (normalize_email em) = Some u" and "us_id u = nr_user r"
    and "active_membership d (us_id u) \<noteq> None" and "CHR ''$'' \<notin> set (ae_token env 4)"
    and "\<And>salt cost w. ae_scrypt env1 salt cost w = ae_scrypt env salt cost w" and "native_mode (ae_settings env1)"
  shows "\<exists>out ck d2. login_route env1 cl em pw d1 = (Inr (out, ck), d2)"
proof -
  let ?c = "create_or_update_credential env (us_id u) pw d"
  from reset_passwordE [OF assms(1)] assms(2,4) have d1: "d1 =
      auth_audit ''native_auth.password_reset_completed'' ''success'' None (Some (us_id u)) ''native_auth'' None []
      (use_resets (us_id u) (ae_now env) (revoke_user_sessions (us_id u) (ae_now env) ?c))"
    by (metis option.inject)
  obtain rr dd where l: "login env1 cl em pw ?c = (Inr rr, dd)"
    using login_new_password [OF assms(3,6,7,5)] by metis
  have fr: "user_by_email d1 k = user_by_email d k" "credential_of d1 k = credential_of ?c k"
    "active_membership d1 k = active_membership d k" "user_by_email ?c k = user_by_email d k"
    "active_membership ?c k = active_membership d k" for k
    unfolding d1 by (simp_all add: user_by_email_def credential_of_def active_membership_def auth_audit_def
        add_auth_audit_def use_resets_def revoke_user_sessions_def credential_frame)
  have "isl (fst (login env1 cl em pw d1)) = isl (fst (login env1 cl em pw ?c))"
    unfolding login_def by (simp add: fr split: option.split prod.split)
  with l have "\<not> isl (fst (login env1 cl em pw d1))" by simp
  then obtain r2 d2 where "login env1 cl em pw d1 = (Inr r2, d2)"
    by (cases "login env1 cl em pw d1"; cases "fst (login env1 cl em pw d1)") auto
  with assms(8) show ?thesis by (cases "login_answer r2") (simp add: login_route_def Let_def session_simps)
qed

text \<open>The cookie a login sets is worth what the login answered: until it expires, a request that
  carries it is authenticated as the same user in the same tenant.\<close>

theorem session_cookie_authenticates:
  assumes "auth_inv d" and "fresh_key ns_hash (ae_digest env (ae_token env 0)) (ad_sessions d)"
    and "login_route env cl em pw d = (Inr (out, SetCookie tok), d1)" and "tok \<noteq> []"
    and "ae_digest env2 tok = ae_digest env tok"
    and "ae_now env2 < ae_now env + hours (st_session_ttl_hours (ae_settings env))"
  shows "\<exists>p d2. principal_from_session env2 (Some tok) d1 = (Some p, d2)
    \<and> so_user out = Some (pr_user_id p) \<and> so_tenant out = Some (pr_tenant_id p)"
proof -
  have nm: "native_mode (ae_settings env)" using assms(3) by (auto simp: login_route_def split: if_splits)
  then obtain lr where lr: "login env cl em pw d = (Inr lr, d1)" "login_answer lr = (out, SetCookie tok)"
    using assms(3) by (auto simp: login_route_def Let_def session_simps split: prod.splits sum.splits)
  obtain s p where lrp: "lr = LoggedIn tok s p" and out: "out = session_out_for p True ''AUTHENTICATED'' None []"
    using lr(2) by (cases lr) auto
  obtain u c m where l: "user_by_email d (normalize_email em) = Some u" "active_membership d (us_id u) = Some m"
    "login_accepted env cl u m (save_credential (c\<lparr>nc_failed := 0, nc_locked_until := None,
                           nc_last_login := Some (ae_now env)\<rparr>) d) = (lr, d1)"
    using lr(1) by (auto simp: login_def split: option.splits if_splits prod.splits)
  define w where "w = save_credential (c\<lparr>nc_failed := 0, nc_locked_until := None, nc_last_login := Some (ae_now env)\<rparr>) d"
  have w: "ad_sessions w = ad_sessions d" "ad_memberships w = ad_memberships d" "ad_users w = ad_users d"
    by (simp_all add: w_def save_credential_def)
  have i: "issue_session env p cl False w = ((tok, s), d1)" and p: "pr_user_id p = us_id u" "pr_tenant_id p = mb_tenant m"
    using l(3) lrp unfolding w_def [symmetric] by (auto simp: login_accepted_def Let_def split: if_splits prod.splits)
  note a = issue_session_adds [OF i]
  have sess: "session_by_hash d1 (ae_digest env2 tok) = Some s"
    using a(1,6,7) assms(2,5) w(1) by (simp add: session_by_hash_def scalar_append fresh_key_scalar)
  have "m \<in> set (ad_memberships d)" "mb_active m" "mb_user m = us_id u"
    using l(2) by (auto simp: active_membership_def dest: scalar_SomeD)
  then obtain m2 where "active_membership_in d1 (ns_tenant s) (ns_user s) = Some m2"
    using a(2,3,5) p w(2) by (cases "active_membership_in d1 (ns_tenant s) (ns_user s)")
      (auto simp: active_membership_in_def scalar_None)
  moreover have "get_user d1 (ns_user s) = Some u"
    using scalar_unique [of us_id "ad_users d" u] assms(1) lookupsD(2) [OF l(1)] a(2,10) w(3) p
    by (simp add: get_user_def auth_inv_def)
  ultimately show ?thesis
    using sess a(2,3,8,9) assms(4,6) p by (simp add: principal_from_session_def out session_out_for_def)
qed

section \<open>Access grants\<close>

text \<open>A grant issued for a valid access code verifies, with its own identifier and tenant, exactly until
  it expires.\<close>

theorem grant_roundtrip:
  assumes "validate_access_code env code = Inr (token, exp)"
    and "ae_settings env2 = ae_settings env" and "ae_gate_sign env2 = ae_gate_sign env"
    and "ae_gate_payload env2 (ae_gate_encode env (grant_payload env (ae_gate_hmac env (py_lower (py_strip code)))))
      = Some (grant_payload env (ae_gate_hmac env (py_lower (py_strip code))))"
    and "CHR ''.'' \<notin> set (ae_gate_encode env (grant_payload env (ae_gate_hmac env (py_lower (py_strip code)))))"
    and "16 \<le> length (ae_uid env 9)"
  shows "\<exists>payload. verify_access_grant env2 token
       = (if exp < unix_seconds env2 then Inl (GateCode ''ACCESS_GRANT_EXPIRED'') else Inr payload)
    \<and> grant_jti payload = ae_uid env 9 \<and> grant_tenant payload = py_strip (st_access_gate_tenant_id (ae_settings env))"
proof -
  define st where "st = ae_settings env"
  define digest where "digest = ae_gate_hmac env (py_lower (py_strip code))"
  define payload where "payload = dict_items (grant_payload env digest)"
  define encoded where "encoded = ae_gate_encode env (grant_payload env digest)"
  have v: "st_access_gate_enabled st" "py_strip (st_access_gate_tenant_id st) \<noteq> []"
    "token = encoded @ ''.'' @ ae_gate_sign env encoded" "exp = unix_seconds env + st_access_gate_ttl_seconds st"
    using assms(1) by (auto simp: validate_access_code_def Let_def st_def digest_def encoded_def split: if_splits)
  have jti: "grant_jti payload = ae_uid env 9"
    using assms(6) by (simp add: grant_jti_def payload_def grant_payload_def obj_get_def Let_def)
  have ten: "grant_tenant payload = py_strip (st_access_gate_tenant_id st)"
    using v(2) by (simp add: grant_tenant_def payload_def grant_payload_def obj_get_def Let_def st_def)
  have e: "py_int (py_or (obj_get payload ''exp'') (JInt 0)) = Inr exp"
    by (simp add: payload_def grant_payload_def obj_get_def py_or_def v(4) st_def)
  have vv: "equals_one (obj_get payload ''v'')" by (simp add: payload_def grant_payload_def obj_get_def)
  have nl: "\<not> length (ae_uid env 9) < 16" using assms(6) by simp
  have d: "is_dict (grant_payload env digest)" by (simp add: grant_payload_def)
  have sp: "py_split_n 1 (CHR ''.'') token = [encoded, ae_gate_sign env encoded]"
    using py_split_n_head [of "CHR ''.''" encoded 0 "ae_gate_sign env encoded"] assms(5)
    by (simp add: v(3) encoded_def digest_def del: py_split_n.simps(2))
  have "verify_access_grant env2 token
       = (if exp < unix_seconds env2 then Inl (GateCode ''ACCESS_GRANT_EXPIRED'') else Inr payload)"
    unfolding verify_access_grant_def Let_def sp list.case
    by (simp add: assms(2,3) assms(4) [folded digest_def] encoded_def d vv e jti ten v(1) nl st_def [symmetric]
        payload_def [symmetric])
  with jti ten show ?thesis unfolding st_def by blast
qed

lemma redemption_kept:
  "auth_grows d e \<Longrightarrow> redeemed_by d j = Some r \<Longrightarrow> redeemed_by e j = Some r"
  by (auto simp: auth_grows_def redeemed_by_def scalar_append)

text \<open>A grant is redeemed once: after a registration that redeemed it, a later registration that
  presents a grant with the same identifier is refused, whatever happens in between, under whatever
  e-mail address.\<close>

theorem grant_redeemed_once:
  assumes "auth_inv d" and "redeemed_by d (grant_jti payload) = Some rd"
    and "run_ok auth_ok auth_step ops d" and "fold auth_step ops d = e"
    and "verify_access_grant env (rg_grant rq) = Inr payload2" and "grant_jti payload2 = grant_jti payload"
    and "gr_user rd \<noteq> ae_uid env 4"
  shows "isl (fst (register_route env cl rq e))"
proof -
  have red: "redeemed_by e (grant_jti payload2) = Some rd"
    using redemption_kept [OF auth_run(2) [OF assms(3,1) assms(4) [symmetric]] assms(2)] assms(6) by simp
  define em where "em = py_lower (py_strip (rg_email rq))"
  have em: "normalize_email em = em" by (simp add: em_def normalize_email_def py_strip_lower)
  have rec: "isl (fst (register_recovery env rq em e))" if "user_by_email e em \<noteq> None"
    using that red by (auto simp: register_recovery_def create_account_recovery_def assms(5) em Let_def open_session_def
        split: option.split)
  have new: "isl (fst (register_new env cl rq tn em e))" for tn
  proof -
    define p where "p = \<lparr>pr_user_id = ae_uid env 4, pr_tenant_id = tn, pr_roles = [''member''], pr_email = Some em,
       pr_external_subject = Some (''native:'' @ em)\<rparr>"
    obtain x s1 where c: "complete_onboarding env p (rg_grant rq) (rg_name rq) (rg_goal rq) (open_session e) = (x, s1)"
      by fastforce
    have "isl x"
      using c assms(7) red unfolding complete_onboarding_def assms(5) Let_def open_session_def
      by (auto simp: p_def split: if_splits)
    then show ?thesis
      unfolding register_new_def Let_def p_def [symmetric] c by (cases x) simp_all
  qed
  show ?thesis
    using rec new by (auto simp: register_route_def Let_def em_def [symmetric] split: option.split)
qed

section \<open>Roles\<close>

text \<open>Administrator rights come from the database alone: the roles a request claims are ignored, and a
  principal passes the administrator check only with an active membership of the tenant whose role is an
  administrator's, for a user row with the same external subject.\<close>

theorem admin_from_membership:
  assumes "require_provisioned_admin st d p = Inr q"
  shows "require_provisioned_admin st d (p\<lparr>pr_roles := claimed\<rparr>) = Inr q
    \<and> (\<exists>u m. get_user d (pr_user_id p) = Some u \<and> pr_external_subject p = Some (us_external_subject u)
        \<and> active_membership_in d (pr_tenant_id p) (pr_user_id p) = Some m
        \<and> py_strip (mb_role m) \<in> {''admin'', ''owner'', ''superadmin'', ''orkio_admin''})"
proof -
  have same: "require_provisioned st d (p\<lparr>pr_roles := claimed\<rparr>) = require_provisioned st d p"
    by (simp add: require_provisioned_def split: sum.split)
  obtain roles where r: "resolve_provisioned_roles st d (pr_tenant_id p) (pr_user_id p) (pr_external_subject p) = Inr roles"
    and adm: "''admin'' \<in> set roles \<or> ''orkio_admin'' \<in> set roles"
    using assms by (auto simp: require_provisioned_admin_def require_provisioned_def require_role_def
        split: sum.splits if_splits)
  from resolve_rolesD [OF r] obtain t u m where look: "get_tenant d (pr_tenant_id p) = Some t"
    "get_user d (pr_user_id p) = Some u" "active_membership_in d (pr_tenant_id p) (pr_user_id p) = Some m"
    "pr_external_subject p = Some (us_external_subject u)"
    "set roles \<subseteq> insert ''platform_owner'' (set (expand_role (py_strip (mb_role m))))" by metis
  have "''admin'' \<in> set (expand_role (py_strip (mb_role m))) \<or> ''orkio_admin'' \<in> set (expand_role (py_strip (mb_role m)))"
    using look(5) adm by auto
  then have "py_strip (mb_role m) \<in> {''admin'', ''owner'', ''superadmin'', ''orkio_admin''}"
    by (auto simp: expand_role_def split: if_splits)
  with look same assms show ?thesis by (auto simp: require_provisioned_admin_def)
qed

section \<open>Time-based codes\<close>



text \<open>For a 20-byte HMAC the dynamic truncation reads four bytes inside it, the value fits 31 bits, and
  the code is six digits.\<close>

theorem totp_in_bounds:
  assumes "length (ae_hmac_sha1 env secret step) = 20"
  shows "unat (last (ae_hmac_sha1 env secret step) AND 0x0F) + 4 \<le> length (ae_hmac_sha1 env secret step)
    \<and> bytes_value (take 4 (drop (unat (last (ae_hmac_sha1 env secret step) AND 0x0F)) (ae_hmac_sha1 env secret step)))
        AND 0x7FFFFFFF < 2 ^ 31
    \<and> length (totp_code env secret step) = 6 \<and> list_all py_is_digit (totp_code env secret step)"
proof -
  have "last (ae_hmac_sha1 env secret step) AND 0x0F \<le> 0x0F" by (rule word_and_le1)
  then have "unat (last (ae_hmac_sha1 env secret step) AND 0x0F) \<le> 15" by (simp add: word_le_nat_alt)
  moreover have "x AND 0x7FFFFFFF < 2 ^ 31" for x :: int
  proof -
    have "x AND 0x7FFFFFFF = x AND mask 31" by (simp add: mask_eq_exp_minus_1)
    then show ?thesis using take_bit_int_less_exp [of 31 x] by (simp add: take_bit_eq_mask [symmetric])
  qed
  ultimately show ?thesis using totp_code_digits assms by simp
qed

end
