(* ===== verification/Auth_Example.thy ===== *)
theory Auth_Example
  imports Auth_Grants
begin

text \<open>
  A concrete tenant for the witnesses of the authentication properties: one member with a password, a
  second factor, a recovery code, a session, a password reset and two outstanding challenges. The digest
  of a token is the token with a letter in front, scrypt returns the password, and the HMAC of the codes
  is constant, so the code of every step is six zeros.
\<close>

definition ad_settings :: "string \<Rightarrow> settings" where
  "ad_settings environment =
     \<lparr>st_environment = environment, st_auth_mode = ''native_session'', st_platform_owner_subject = None,
      st_billing_enabled = False, st_billing_provider = '''', st_plan_catalog_json = '''',
      st_topup_catalog_json = '''', st_billing_usd_brl = '''', st_checkout_success_url = '''',
      st_asaas_api_key = '''', st_asaas_webhook_token = '''', st_native_bootstrap_secret = ''boot'',
      st_session_cookie_name = ''s'', st_session_ttl_hours = 12, st_password_min_length = 2,
      st_reset_ttl_minutes = 30, st_login_max_failures = 2, st_login_lock_minutes = 15,
      st_access_gate_enabled = True, st_access_gate_tenant_id = ''acme'',
      st_access_gate_signing_secret = replicate 32 (CHR ''k''), st_access_gate_code_hashes = ''open'',
      st_access_gate_ttl_seconds = 600, st_resend_api_key = '''', st_admin_email_allowlist = ''''\<rparr>"

definition demo_grant :: json where
  "demo_grant = JObj [(''v'', JInt 1), (''jti'', JStr ''1-identifier-of-9''), (''iat'', JInt 0),
     (''exp'', JInt 600), (''tenant_id'', JStr ''acme''), (''code_fp'', JStr ''open'')]"

text \<open>The environment of a request: a letter that makes its tokens new, and its time in microseconds.\<close>

definition ad_env :: "string \<Rightarrow> string \<Rightarrow> int \<Rightarrow> auth_env" where
  "ad_env environment k t = \<lparr>ae_settings = ad_settings environment, ae_now = t,
     ae_uid = (\<lambda>i. k @ ''-identifier-of-'' @ [digit_letters ! i]),
     ae_token = (\<lambda>i. k @ [digit_letters ! (i div 10), digit_letters ! (i mod 10)]),
     ae_digest = (\<lambda>s. CHR ''h'' # s), ae_scrypt = (\<lambda>salt cost w. w),
     ae_encrypt = id, ae_decrypt = Some, ae_hmac_sha1 = (\<lambda>secret step. replicate 20 0),
     ae_gate_hmac = id, ae_gate_sign = (\<lambda>s. ''sig''), ae_gate_payload = (\<lambda>s. Some demo_grant),
     ae_gate_encode = (\<lambda>v. ''enc'')\<rparr>"

definition ana :: user where
  "ana = \<lparr>us_id = ''ana'', us_external_subject = ''native:a@b'', us_email = ''a@b'',
     us_display_name = ''Ana'', us_email_verified_at = None\<rparr>"

definition ana_member :: "string \<Rightarrow> membership" where
  "ana_member role = \<lparr>mb_id = ''m1'', mb_tenant = ''acme'', mb_user = ''ana'', mb_role = role, mb_active = True\<rparr>"

definition ana_credential :: credential where
  "ana_credential = \<lparr>nc_id = ''c1'', nc_user = ''ana'', nc_hash = ''scrypt$16384$8$1$salt$pw'', nc_failed = 0,
     nc_locked_until = None, nc_updated_at = 0, nc_last_login = None, nc_created_at = 0\<rparr>"

definition ana_session :: native_session where
  "ana_session = \<lparr>ns_id = ''s1'', ns_hash = ''hS'', ns_prefix = ''S'', ns_tenant = ''acme'', ns_user = ''ana'',
     ns_created_at = 0, ns_expires_at = 1000, ns_last_seen = 0, ns_revoked_at = None, ns_user_agent = [],
     ns_ip_prefix = [], ns_rotated_at = None, ns_authenticated_at = None, ns_mfa_at = None, ns_reauth_at = None\<rparr>"

definition ana_reset :: password_reset where
  "ana_reset = \<lparr>nr_id = ''r1'', nr_hash = ''hR'', nr_prefix = ''R'', nr_user = ''ana'', nr_issued_at = 0,
     nr_expires_at = 1000, nr_used_at = None\<rparr>"

definition ana_challenge :: "string \<Rightarrow> challenge" where
  "ana_challenge h = \<lparr>nh_id = h, nh_hash = h, nh_prefix = ''C'', nh_purpose = ''mfa_verify'', nh_user = ''ana'',
     nh_tenant = Some ''acme'', nh_payload = [], nh_issued_at = 0, nh_expires_at = 100000000, nh_used_at = None,
     nh_attempts = 0\<rparr>"

definition ana_factor :: mfa_factor where
  "ana_factor = \<lparr>nf_id = ''f1'', nf_user = ''ana'', nf_type = ''totp'', nf_secret = ''SEC'',
     nf_confirmed_at = Some 0, nf_last_step = None\<rparr>"

definition ana_recovery :: recovery_code where
  "ana_recovery = \<lparr>nk_id = ''k1'', nk_user = ''ana'', nk_hash = ''hK'', nk_used_at = None\<rparr>"

definition demo_auth :: auth_db where
  "demo_auth = \<lparr>ad_tenants = [\<lparr>tn_id = ''acme'', tn_name = ''Acme''\<rparr>], ad_users = [ana],
     ad_memberships = [ana_member ''member''], ad_credentials = [ana_credential], ad_sessions = [ana_session],
     ad_resets = [ana_reset], ad_challenges = [ana_challenge ''hC'', ana_challenge ''hD''],
     ad_factors = [ana_factor], ad_recovery = [ana_recovery], ad_redemptions = [], ad_profiles = [], ad_audits = []\<rparr>"

definition demo_client :: client where
  "demo_client = \<lparr>cl_user_agent = ''agent'', cl_ip = ''10.0.0.1''\<rparr>"

definition no_cookies :: cookies where
  "no_cookies = \<lparr>ck_configured = None, ck_host = None, ck_legacy = None\<rparr>"

definition demo_world :: "string \<Rightarrow> int \<Rightarrow> auth_world" where
  "demo_world k t = (ad_env ''test'' k t, \<lparr>ip_config = \<lparr>oc_issuer = [], oc_audience = [], oc_user_claim = [],
     oc_tenant_claim = [], oc_roles_claim = []\<rparr>, ip_introspect = (\<lambda>t. None)\<rparr>, id)"

text \<open>A request that changes nothing, between two that do.\<close>

definition demo_between :: "(auth_world \<times> auth_op) list" where
  "demo_between = [(demo_world ''z'' 40, LogoutOp no_cookies)]"

lemmas demo_data = ad_settings_def ana_def ana_member_def ana_credential_def ana_session_def
  ana_reset_def ana_challenge_def ana_factor_def ana_recovery_def demo_auth_def demo_client_def demo_world_def

lemma ad_env_simps [simp]:
  "ae_settings (ad_env m k t) = ad_settings m" "ae_now (ad_env m k t) = t"
  "ae_uid (ad_env m k t) i = k @ ''-identifier-of-'' @ [digit_letters ! i]"
  "ae_token (ad_env m k t) i = k @ [digit_letters ! (i div 10), digit_letters ! (i mod 10)]"
  "ae_digest (ad_env m k t) s = CHR ''h'' # s" "ae_scrypt (ad_env m k t) salt cost w = w"
  "ae_encrypt (ad_env m k t) s = s" "ae_decrypt (ad_env m k t) s = Some s"
  "ae_hmac_sha1 (ad_env m k t) secret step = replicate 20 0" "ae_gate_hmac (ad_env m k t) s = s"
  "ae_gate_sign (ad_env m k t) s = ''sig''" "ae_gate_payload (ad_env m k t) s = Some demo_grant"
  "ae_gate_encode (ad_env m k t) v = ''enc''"
  by (simp_all add: ad_env_def)

lemma auth_demo_inv: "auth_inv demo_auth"
  by (simp add: auth_inv_def demo_data unique_key_def live_resets_def)

lemma demo_codes: "recovery_codes (ad_env m k t) = map (\<lambda>s. k @ fst s @ ''-'' @ k @ snd s)
  [(''10'', ''11''), (''12'', ''13''), (''14'', ''15''), (''16'', ''17''), (''18'', ''19''),
   (''20'', ''21''), (''22'', ''23''), (''24'', ''25''), (''26'', ''27''), (''28'', ''29'')]"
  by (simp add: recovery_codes_def ad_env_def digit_letters_def upt_rec)

text \<open>The tokens of a request begin with its letter; they are new when no row of the table has a digest
  that does.\<close>

lemma fresh_prefix: "list_all (\<lambda>r. \<not> py_startswith (key r) p) rows \<Longrightarrow> fresh_key key (p @ s) rows"
proof -
  assume a: "list_all (\<lambda>r. \<not> py_startswith (key r) p) rows"
  have "py_startswith (p @ s) p" by (simp add: py_startswith_def)
  with a show ?thesis by (auto simp: fresh_key_def list_all_iff)
qed

lemma auth_demo_fresh:
  assumes "list_all (\<lambda>s. \<not> py_startswith (ns_hash s) (''h'' @ k)) (ad_sessions d)"
    and "list_all (\<lambda>s. \<not> py_startswith (nh_hash s) (''h'' @ k)) (ad_challenges d)"
    and "list_all (\<lambda>s. \<not> py_startswith (nr_hash s) (''h'' @ k)) (ad_resets d)"
    and "list_all (\<lambda>s. \<not> py_startswith (us_id s) k) (ad_users d)"
    and "list_all (\<lambda>s. \<not> py_startswith (nk_hash s) (''h'' @ k)) (ad_recovery d)"
  shows "fresh_env (ad_env m k t) d"
proof -
  have d: "ae_digest (ad_env m k t) s = ''h'' @ s" "ae_token (ad_env m k t) i = k @ [digit_letters ! (i div 10), digit_letters ! (i mod 10)]"
    "ae_uid (ad_env m k t) i = k @ ''-identifier-of-'' @ [digit_letters ! i]" for s i
    by (simp_all add: ad_env_def)
  have "distinct (map (ae_digest (ad_env m k t)) (recovery_codes (ad_env m k t)))"
    by (simp add: demo_codes d)
  moreover have "list_all (\<lambda>r. nk_hash r \<notin> set (map (ae_digest (ad_env m k t)) (recovery_codes (ad_env m k t)))) (ad_recovery d)"
    using assms(5) by (auto simp: list_all_iff demo_codes d py_startswith_def)
  ultimately show ?thesis
    using fresh_prefix [OF assms(1)] fresh_prefix [OF assms(2)] fresh_prefix [OF assms(3)] fresh_prefix [OF assms(4)]
    unfolding fresh_env_def d append_assoc by simp
qed

lemma demo_between_idle [simp]: "fold auth_step demo_between d = d"
  by (simp add: demo_between_def demo_world_def logout_route_def revoke_session_def no_cookies_def
      request_token_def or_cookie_def)

lemma demo_between_ok: "fresh_env (ad_env ''test'' ''z'' 40) d \<Longrightarrow> run_ok auth_ok auth_step demo_between d"
  by (simp add: demo_between_def auth_ok_def demo_world_def)

section \<open>The requests of the witnesses\<close>

abbreviation first_env :: auth_env where
  "first_env \<equiv> ad_env ''test'' ''x'' 30"

abbreviation later_env :: auth_env where
  "later_env \<equiv> ad_env ''test'' ''y'' 60000000"

lemma demo_strings [simp]:
  "normalize_email ''a@b'' = ''a@b''" "py_strip ''000000'' = ''000000''" "py_strip ''K'' = ''K''"
  "filter py_is_digit ''000000'' = ''000000''"
  by code_simp+

lemma demo_totp [simp]: "totp_code (ad_env m k t) secret step = ''000000''"
proof -
  have z: "show_nat 0 = ''0''" by (subst show_nat.simps) (simp add: digit_letters_def)
  have "bytes_value (replicate n 0) = 0" for n by (induction n) (simp_all add: bytes_value_def)
  then have "totp_code (ad_env m k t) secret step = pad6 (show_int (0 mod 1000000))"
    by (simp add: totp_code_def Let_def)
  then show ?thesis by (simp add: pad6_def show_int_def z eval_nat_numeral)
qed

lemma demo_first_env:
  "fresh_env first_env demo_auth" "fresh_env (ad_env ''test'' ''z'' 40) demo_auth"
proof -
  have "fresh_env (ad_env ''test'' k t) demo_auth" if "k = ''x'' \<or> k = ''z''" for k t
    by (rule auth_demo_fresh) (use that in \<open>auto simp: demo_auth_def ana_def ana_session_def ana_challenge_def
      ana_reset_def ana_recovery_def py_startswith_def\<close>)
  then show "fresh_env first_env demo_auth" "fresh_env (ad_env ''test'' ''z'' 40) demo_auth" by blast+
qed

text \<open>The definitions that evaluate a route on the example.\<close>

lemmas demo_eval = demo_data mfa_verify_route_def given_def commit_or_rollback_def mfa_verify_def load_challenge_def
  challenge_by_hash_def auth_write_defs put_row_def check_factor_def check_recovery_def confirmed_factor_def
  verify_totp_def current_step_def finish_mfa_def use_challenge_def principal_for_user_def get_user_def
  issue_session_def auth_audit_def session_simps session_out_for_def

lemma demo_zero [simp]: "py_is_digit (CHR ''0'')"
  by code_simp

definition demo_mfa :: "(http_error + session_out \<times> cookie_action) \<times> auth_db" where
  "demo_mfa = mfa_verify_route first_env demo_client ''C'' (Some ''000000'') None demo_auth"

lemma demo_mfa:
  "\<exists>out. fst demo_mfa = Inr (out, SetCookie ''x00'') \<and> so_user out = Some ''ana''"
  "map ns_hash (ad_sessions (snd demo_mfa)) = [''hS'', ''hx00'']" "ad_resets (snd demo_mfa) = [ana_reset]"
  "map nh_hash (ad_challenges (snd demo_mfa)) = [''hC'', ''hD'']" "ad_users (snd demo_mfa) = [ana]"
  "ad_recovery (snd demo_mfa) = [ana_recovery]"
  by (simp_all add: demo_mfa_def demo_eval Let_def digit_letters_def)

lemma demo_mfa_fresh: "fresh_env (ad_env ''test'' ''z'' 40) (snd demo_mfa)"
  using demo_mfa(2-)
  by (intro auth_demo_fresh) (auto simp: demo_data py_startswith_def list_all_iff)



definition demo_recovery :: "(http_error + session_out \<times> cookie_action) \<times> auth_db" where
  "demo_recovery = mfa_verify_route first_env demo_client ''C'' None (Some ''K'') demo_auth"

lemma demo_recovery:
  "\<exists>out ck. fst demo_recovery = Inr (out, ck) \<and> so_user out = Some ''ana''"
  "fresh_env (ad_env ''test'' ''z'' 40) (snd demo_recovery)"
  "challenge_by_hash (snd demo_recovery) ''hD'' ''mfa_verify'' = Some (ana_challenge ''hD'')"
proof -
  show "\<exists>out ck. fst demo_recovery = Inr (out, ck) \<and> so_user out = Some ''ana''"
    "challenge_by_hash (snd demo_recovery) ''hD'' ''mfa_verify'' = Some (ana_challenge ''hD'')"
    by (simp_all add: demo_recovery_def demo_eval Let_def digit_letters_def)
  show "fresh_env (ad_env ''test'' ''z'' 40) (snd demo_recovery)"
    by (rule auth_demo_fresh) (simp_all add: demo_recovery_def demo_eval Let_def digit_letters_def py_startswith_def)
qed

section \<open>Witnesses\<close>

lemma auth_ok_demo: "fresh_env (ad_env m k t) d \<Longrightarrow> auth_ok ((ad_env m k t, ip, quote), op) d"
  by (simp add: auth_ok_def)

theorem challenge_used_once_witness:
  "auth_step ((later_env, undefined, id), EnrollStartOp ''C'') (snd demo_mfa) = snd demo_mfa"
proof -
  have step: "auth_step ((first_env, undefined, id), MfaVerifyOp demo_client ''C'' (Some ''000000'') None) demo_auth = snd demo_mfa"
    by (simp add: demo_mfa_def)
  have ne: "snd demo_mfa \<noteq> demo_auth" using demo_mfa(2) by (auto simp: demo_auth_def)
  show ?thesis
    by (rule challenge_used_once [OF auth_demo_inv _ _ _ step ne demo_between_ok demo_between_idle])
      (simp_all add: auth_ok_demo demo_first_env demo_mfa_fresh)
qed

definition demo_logout :: auth_db where
  "demo_logout = snd (logout_route first_env (no_cookies\<lparr>ck_host := Some ''S''\<rparr>) demo_auth)"

lemma demo_logout_fresh: "fresh_env (ad_env ''test'' ''z'' 40) demo_logout"
  by (rule auth_demo_fresh) (simp_all add: demo_logout_def logout_route_def revoke_session_def no_cookies_def
    request_token_def or_cookie_def session_by_hash_def demo_eval py_startswith_def)

theorem logout_is_final_witness:
  "principal_from_session first_env (Some ''S'') demo_auth \<noteq> (None, demo_auth)
   \<and> principal_from_session later_env (Some ''S'') demo_logout = (None, demo_logout)"
proof
  show "principal_from_session first_env (Some ''S'') demo_auth \<noteq> (None, demo_auth)"
    by (simp add: principal_from_session_def session_by_hash_def active_membership_in_def demo_eval)
  show "principal_from_session later_env (Some ''S'') demo_logout = (None, demo_logout)"
    by (rule logout_is_final [OF auth_demo_inv _ _ _ demo_logout_def [symmetric] demo_between_ok [OF demo_logout_fresh]
          demo_between_idle, of "''S''"])
      (simp_all add: no_cookies_def request_token_def or_cookie_def session_by_hash_def demo_data)
qed

definition demo_reset :: "(http_error + session_out \<times> cookie_action) \<times> auth_db" where
  "demo_reset = reset_password_route first_env ''R'' ''new'' ''new'' demo_auth"

lemmas demo_reset_eval = demo_reset_def reset_password_route_def reset_password_def reset_by_hash_def native_mode_def
  create_or_update_credential_def credential_of_def revoke_user_sessions_def use_resets_def update_where_def

lemma demo_reset:
  "fst demo_reset = Inr (no_session_out None, ClearCookie)" "fresh_env (ad_env ''test'' ''z'' 40) (snd demo_reset)"
proof -
  show "fst demo_reset = Inr (no_session_out None, ClearCookie)"
    by (simp add: demo_reset_eval demo_eval Let_def)
  show "fresh_env (ad_env ''test'' ''z'' 40) (snd demo_reset)"
    by (rule auth_demo_fresh) (simp_all add: demo_reset_eval demo_eval Let_def py_startswith_def)
qed

theorem password_reset_revokes_witness:
  "principal_from_session later_env (Some ''S'') (snd demo_reset) = (None, snd demo_reset)
    \<and> auth_step ((later_env, undefined, id), ResetOp ''R'' ''pw'' ''pw'') (snd demo_reset) = snd demo_reset"
proof (rule password_reset_revokes [OF auth_demo_inv, of first_env "''R''" "''new''" "''new''" _ "snd demo_reset" ana_reset
      ana_session ana_reset demo_between])
  show "reset_password_route first_env ''R'' ''new'' ''new'' demo_auth
      = (Inr (no_session_out None, ClearCookie), snd demo_reset)"
    using demo_reset(1) by (simp add: demo_reset_def [symmetric] prod_eq_iff)
qed (simp_all add: demo_between_ok demo_reset(2) reset_by_hash_def demo_data)


theorem recovery_code_used_once_witness:
  "isl (fst (mfa_verify_route later_env demo_client ''D'' None (Some ''K'') (snd demo_recovery)))"
proof -
  obtain out ck where a: "mfa_verify_route first_env demo_client ''C'' None (Some ''K'') demo_auth
      = (Inr (out, ck), snd demo_recovery)" "so_user out = Some ''ana''"
    using demo_recovery(1) by (auto simp: demo_recovery_def [symmetric] prod_eq_iff)
  show ?thesis
    by (rule recovery_code_used_once [OF auth_demo_inv auth_ok_demo [OF demo_first_env(1)] a(1)
        demo_between_ok [OF demo_recovery(2)] demo_between_idle, of later_env "''K''" "''D''" "ana_challenge ''hD''"])
      (simp_all add: demo_recovery(3) a(2) ana_challenge_def)
qed

definition empty_auth :: auth_db where
  "empty_auth = \<lparr>ad_tenants = [], ad_users = [], ad_memberships = [], ad_credentials = [], ad_sessions = [],
     ad_resets = [], ad_challenges = [], ad_factors = [], ad_recovery = [], ad_redemptions = [], ad_profiles = [],
     ad_audits = []\<rparr>"

definition demo_bootstrap :: bootstrap_request where
  "demo_bootstrap = \<lparr>bs_secret = ''boot'', bs_tenant_id = ''acme'', bs_tenant_name = ''Acme'', bs_email = ''a@b'',
     bs_display_name = ''Ana'', bs_password = ''pw''\<rparr>"

definition demo_owner :: auth_db where
  "demo_owner = snd (bootstrap_route first_env demo_client demo_bootstrap empty_auth)"

lemmas demo_owner_eval = demo_owner_def bootstrap_route_def bootstrap_owner_def bootstrap_tenant_def bootstrap_user_def
  bootstrap_membership_def create_or_update_credential_def credential_of_def get_tenant_def user_by_email_def
  native_mode_def empty_auth_def demo_bootstrap_def

lemma demo_owner: "demo_owner \<noteq> empty_auth" "fresh_env (ad_env ''test'' ''z'' 40) demo_owner"
proof -
  show "demo_owner \<noteq> empty_auth" by (simp add: demo_owner_eval demo_eval Let_def)
  show "fresh_env (ad_env ''test'' ''z'' 40) demo_owner"
    by (rule auth_demo_fresh) (simp_all add: demo_owner_eval demo_eval Let_def py_startswith_def)
qed

lemma empty_auth_ok: "auth_inv empty_auth" "fresh_env (ad_env m k t) empty_auth"
  by (simp add: auth_inv_def empty_auth_def unique_key_def live_resets_def)
    (rule auth_demo_fresh; simp add: empty_auth_def)

theorem bootstrap_once_witness:
  "demo_owner \<noteq> empty_auth
   \<and> auth_step ((later_env, undefined, id), BootstrapOp demo_client demo_bootstrap) demo_owner = demo_owner"
proof
  have step: "auth_step ((first_env, undefined, id), BootstrapOp demo_client demo_bootstrap) empty_auth = demo_owner"
    by (simp add: demo_owner_def)
  show "auth_step ((later_env, undefined, id), BootstrapOp demo_client demo_bootstrap) demo_owner = demo_owner"
    by (rule bootstrap_once [OF empty_auth_ok(1) auth_ok_demo [OF empty_auth_ok(2)] step demo_owner(1)
        demo_between_ok [OF demo_owner(2)] demo_between_idle])
qed (rule demo_owner(1))

definition prod_env :: auth_env where
  "prod_env = ad_env ''production'' ''p'' 5"

lemma demo_password: "verify_password (ad_env m k t) pw ''scrypt$16384$8$1$salt$pw'' \<longleftrightarrow> pw = ''pw''"
proof -
  have "py_split_n 5 (CHR ''$'') ''scrypt$16384$8$1$salt$pw'' = [''scrypt'', ''16384'', ''8'', ''1'', ''salt'', ''pw'']"
    by code_simp
  then show ?thesis by (auto simp: verify_password_def parse_numbers)
qed

definition demo_login :: "(http_error + session_out \<times> cookie_action) \<times> auth_db" where
  "demo_login = login_route prod_env demo_client ''a@b'' ''pw'' demo_auth"

lemmas demo_login_eval = login_route_def login_def user_by_email_def credential_of_def active_membership_def
  login_accepted_def needs_mfa_def privileged_role_def native_mode_def prod_env_def

lemma demo_login:
  "\<exists>out. fst demo_login = Inr (out, SetCookie ''p00'')"
  "\<exists>s. ad_sessions (snd demo_login) = [ana_session, s] \<and> ns_mfa_at s = None \<and> ns_user s = ''ana''
     \<and> ns_tenant s = ''acme'' \<and> ns_hash s = ''hp00''"
  by (simp_all add: demo_login_def demo_login_eval demo_eval Let_def digit_letters_def demo_password)

theorem unverified_session_unprivileged_witness:
  "\<exists>m. m \<in> set (ad_memberships (snd demo_login)) \<and> mb_active m \<and> mb_user m = ''ana'' \<and> mb_tenant m = ''acme''
     \<and> \<not> privileged_role (mb_role m)"
proof -
  obtain s where s: "ad_sessions (snd demo_login) = [ana_session, s]" "ns_mfa_at s = None" "ns_user s = ''ana''"
    "ns_tenant s = ''acme''" "ns_hash s = ''hp00''" using demo_login(2) by blast
  have step: "auth_step ((prod_env, undefined, id), LoginOp demo_client ''a@b'' ''pw'') demo_auth = snd demo_login"
    by (simp add: demo_login_def)
  show ?thesis
    using unverified_session_unprivileged [of s prod_env undefined id "LoginOp demo_client ''a@b'' ''pw''" demo_auth]
      s unfolding step by (simp add: session_hashes_def demo_data prod_env_def)
qed

theorem session_cookie_authenticates_witness:
  "\<exists>p d2. principal_from_session prod_env (Some ''p00'') (snd demo_login) = (Some p, d2)"
proof -
  obtain out where "login_route prod_env demo_client ''a@b'' ''pw'' demo_auth = (Inr (out, SetCookie ''p00''), snd demo_login)"
    using demo_login(1) by (auto simp: demo_login_def prod_eq_iff)
  from session_cookie_authenticates [OF auth_demo_inv _ this, of prod_env] show ?thesis
    by (auto simp: prod_env_def demo_data fresh_key_def digit_letters_def hours_def)
qed




definition demo_registration :: register_request where
  "demo_registration = \<lparr>rg_email = ''n@b'', rg_password = ''pw'', rg_grant = ''forged'', rg_name = ''Nia'', rg_goal = None\<rparr>"

theorem registration_atomic_witness:
  "snd (register_route first_env demo_client demo_registration demo_auth) = demo_auth"
proof -
  have l: "py_lower (py_strip ''n@b'') = ''n@b''" "py_strip ''acme'' = ''acme''"
    "py_split_n (Suc 0) (CHR ''.'') ''forged'' = [''forged'']" by code_simp+
  have "fst (register_route first_env demo_client demo_registration demo_auth) = Inl (HttpError 403 ''ACCESS_GRANT_INVALID'')"
    by (simp add: register_route_def demo_registration_def l native_mode_def demo_data user_by_email_def Let_def
        register_new_def complete_onboarding_def verify_access_grant_def gate_http_def)
  then show ?thesis
    by (intro registration_atomic [of first_env demo_client demo_registration demo_auth "HttpError 403 ''ACCESS_GRANT_INVALID''"])
      (simp_all add: prod_eq_iff digit_letters_def fresh_key_def demo_data)
qed

theorem new_password_logs_in_witness:
  "\<exists>out ck d2. login_route (ad_env ''test'' ''n'' 50) demo_client ''a@b'' ''new'' (snd demo_reset) = (Inr (out, ck), d2)"
  by (rule new_password_logs_in [of first_env "''R''" "''new''" "''new''" demo_auth "(no_session_out None, ClearCookie)"
      _ ana_reset _ ana])
    (use demo_reset(1) in \<open>simp_all add: demo_reset_def prod_eq_iff reset_by_hash_def user_by_email_def
      active_membership_def native_mode_def demo_data digit_letters_def\<close>)

definition grant_env :: "int \<Rightarrow> auth_env" where
  "grant_env t = ad_env ''test'' ''1'' t"

lemma demo_grant_facts:
  "py_lower (py_strip ''open'') = ''open''" "py_strip ''acme'' = ''acme''" "code_hashes (ad_settings m) = [''open'']"
  "grant_payload (grant_env 0) ''open'' = demo_grant" "show_int 1 = ''1''"
proof -
  show a: "py_lower (py_strip ''open'') = ''open''" "py_strip ''acme'' = ''acme''" by code_simp+
  have "nonblank_parts ''open'' = [''open'']" by code_simp
  then show "code_hashes (ad_settings m) = [''open'']" by (simp add: code_hashes_def ad_settings_def)
  show "grant_payload (grant_env 0) ''open'' = demo_grant"
    by (simp add: grant_payload_def demo_grant_def grant_env_def unix_seconds_def ad_settings_def a digit_letters_def)
  show "show_int 1 = ''1''" by (rule scrypt_numbers)
qed

theorem grant_roundtrip_witness:
  "\<exists>payload. verify_access_grant (grant_env 5000000) ''enc.sig'' = Inr payload"
proof -
  have "validate_access_code (grant_env 0) ''open'' = Inr (''enc.sig'', 600)"
    by (simp add: validate_access_code_def Let_def grant_env_def demo_grant_facts unix_seconds_def)
      (simp add: ad_settings_def demo_grant_facts)
  moreover have "ae_gate_sign (grant_env 5000000) = ae_gate_sign (grant_env 0)"
    "ae_settings (grant_env 5000000) = ae_settings (grant_env 0)" by (simp_all add: grant_env_def ad_env_def)
  moreover have "ae_gate_hmac (grant_env 0) (py_lower (py_strip ''open'')) = ''open''" "16 \<le> length (ae_uid (grant_env 0) 9)"
    "ae_gate_encode (grant_env 0) v = ''enc''" "ae_gate_payload (grant_env 5000000) w = Some demo_grant" for v w
    by (simp_all add: grant_env_def demo_grant_facts)
  ultimately have "\<exists>payload. verify_access_grant (grant_env 5000000) ''enc.sig''
       = (if 600 < unix_seconds (grant_env 5000000) then Inl (GateCode ''ACCESS_GRANT_EXPIRED'') else Inr payload)"
    using grant_roundtrip [of "grant_env 0" "''open''" "''enc.sig''" 600 "grant_env 5000000"]
    by (auto simp: demo_grant_facts(4))
  then show ?thesis by (simp add: unix_seconds_def grant_env_def)
qed

definition demo_redeemed :: auth_db where
  "demo_redeemed = demo_auth\<lparr>ad_redemptions := [\<lparr>gr_jti = ''1-identifier-of-9'', gr_tenant = ''acme'', gr_user = ''ana''\<rparr>]\<rparr>"

lemma demo_grant_verifies: "verify_access_grant (grant_env 60) ''enc.sig'' = Inr (dict_items demo_grant)"
proof -
  have s: "py_split_n (Suc 0) (CHR ''.'') ''enc.sig'' = [''enc'', ''sig'']" by code_simp
  show ?thesis
    by (simp add: verify_access_grant_def s grant_env_def demo_grant_def obj_get_def py_or_def unix_seconds_def
        grant_jti_def grant_tenant_def Let_def demo_grant_facts(2) ad_settings_def)
qed

theorem grant_redeemed_once_witness:
  "isl (fst (register_route (grant_env 60) demo_client (demo_registration\<lparr>rg_grant := ''enc.sig''\<rparr>) demo_redeemed))"
proof -
  have i: "auth_inv demo_redeemed"
    using auth_demo_inv by (simp add: demo_redeemed_def auth_inv_def live_resets_def unique_key_def)
  have f: "fresh_env (ad_env ''test'' ''z'' 40) demo_redeemed"
    using demo_first_env(2) by (simp add: demo_redeemed_def fresh_env_def)
  have j: "grant_jti (dict_items demo_grant) = ''1-identifier-of-9''"
    by (simp add: demo_grant_def grant_jti_def obj_get_def Let_def)
  have r: "redeemed_by demo_redeemed (grant_jti (dict_items demo_grant))
      = Some \<lparr>gr_jti = ''1-identifier-of-9'', gr_tenant = ''acme'', gr_user = ''ana''\<rparr>"
    unfolding j by (simp add: demo_redeemed_def redeemed_by_def)
  have v: "verify_access_grant (grant_env 60) (rg_grant (demo_registration\<lparr>rg_grant := ''enc.sig''\<rparr>))
      = Inr (dict_items demo_grant)"
    by (simp add: demo_grant_verifies)
  show ?thesis
    by (rule grant_redeemed_once [OF i r demo_between_ok [OF f] demo_between_idle v refl]) (simp add: grant_env_def)
qed

definition demo_admin_db :: auth_db where
  "demo_admin_db = demo_auth\<lparr>ad_memberships := [ana_member ''admin'']\<rparr>"

definition demo_claims :: principal where
  "demo_claims = \<lparr>pr_user_id = ''ana'', pr_tenant_id = ''acme'', pr_roles = [], pr_email = None,
     pr_external_subject = Some ''native:a@b''\<rparr>"

theorem admin_from_membership_witness:
  "require_provisioned_admin (ad_settings ''test'') demo_admin_db (demo_claims\<lparr>pr_roles := [''superadmin'']\<rparr>)
     = Inr (demo_claims\<lparr>pr_roles := [''admin'']\<rparr>)"
proof -
  have "py_strip ''admin'' = ''admin''" "py_strip [] = []" by code_simp+
  then have "require_provisioned_admin (ad_settings ''test'') demo_admin_db demo_claims
      = Inr (demo_claims\<lparr>pr_roles := [''admin'']\<rparr>)"
    by (simp add: require_provisioned_admin_def require_provisioned_def resolve_provisioned_roles_def
        require_role_def demo_admin_db_def demo_claims_def get_tenant_def get_user_def active_membership_in_def
        text_given_def expand_role_def sorted_set_def Let_def demo_data)
  from admin_from_membership [OF this, of "[''superadmin'']"] show ?thesis by simp
qed

theorem totp_in_bounds_witness:
  "length (totp_code first_env ''SEC'' 7) = 6 \<and> list_all py_is_digit (totp_code first_env ''SEC'' 7)"
  using totp_in_bounds [of first_env "''SEC''" 7] by simp

end
