(* ===== verification/Know_Model.thy ===== *)
theory Know_Model
  imports Models "HOL-Library.Char_ord" "HOL-Library.List_Lexorder" "HOL-Library.Product_Lexorder"
begin

text \<open>
  The knowledge plane: the rows of models.py it reads and writes, the database constraints they are
  under, the exceptions of its services, and what one request takes from its environment. The blob
  store is a partial map from keys to bytes; Doc_Storage shows that the local store implements it.
  \<open>know_faults\<close> says what the outside does to one request: whether its commit succeeds, fails and is
  rolled back, or raises although the transaction is durable; whether the database still answers
  after that; and how the blob store answers. Every operation is a function of these, so a theorem
  over all of them covers every combination of faults.
\<close>

section \<open>Rows\<close>

datatype knowledge_scope = Personal | Institutional | Platform

datatype knowledge_status = Draft | Active | Superseded | Revoked

definition scope_value :: "knowledge_scope \<Rightarrow> string" where
  "scope_value s = (case s of Personal \<Rightarrow> ''PERSONAL'' | Institutional \<Rightarrow> ''INSTITUTIONAL''
     | Platform \<Rightarrow> ''PLATFORM'')"

definition status_value :: "knowledge_status \<Rightarrow> string" where
  "status_value s = (case s of Draft \<Rightarrow> ''DRAFT'' | Active \<Rightarrow> ''ACTIVE''
     | Superseded \<Rightarrow> ''SUPERSEDED'' | Revoked \<Rightarrow> ''REVOKED'')"

record know_doc =
  kd_id :: string
  kd_tenant :: "string option"
  kd_owner :: "string option"
  kd_scope :: knowledge_scope
  kd_agent :: "string option"
  kd_title :: string
  kd_filename :: string
  kd_mime :: string
  kd_size :: int
  kd_sha256 :: string
  kd_storage_key :: string
  kd_classification :: string
  kd_purposes :: "string list"
  kd_logical :: string
  kd_version :: int
  kd_status :: knowledge_status
  kd_effective_from :: "instant option"
  kd_expires_at :: "instant option"
  kd_created_by :: string
  kd_approved_by :: "string option"
  kd_supersedes :: "string option"
  kd_created_at :: instant
  kd_updated_at :: instant

record derivative =
  dv_id :: string
  dv_knowledge :: string
  dv_tenant :: "string option"
  dv_kind :: string
  dv_storage_key :: "string option"
  dv_sha256 :: "string option"
  dv_size :: "int option"
  dv_status :: string
  dv_extractor :: "string option"
  dv_extractor_version :: "string option"
  dv_source_chars :: "int option"
  dv_canonical_chars :: "int option"
  dv_pages :: "int option"
  dv_warnings :: "string list"
  dv_created_at :: instant
  dv_updated_at :: instant

record section_row =
  sr_id :: string
  sr_knowledge :: string
  sr_derivative :: string
  sr_tenant :: "string option"
  sr_parent :: "string option"
  sr_ordinal :: nat
  sr_heading :: string
  sr_level :: nat
  sr_page_start :: "int option"
  sr_page_end :: "int option"
  sr_start :: nat
  sr_end :: nat
  sr_tokens :: nat
  sr_created_at :: instant

record chunk_row =
  cr_id :: string
  cr_knowledge :: string
  cr_derivative :: string
  cr_section :: "string option"
  cr_tenant :: "string option"
  cr_ordinal :: nat
  cr_start :: nat
  cr_end :: nat
  cr_tokens :: nat
  cr_sha256 :: string
  cr_terms :: "string list"
  cr_created_at :: instant

record selection =
  se_id :: string
  se_knowledge :: string
  se_tenant :: string
  se_user :: string
  se_mode :: string
  se_sections :: "string list"
  se_updated_at :: instant

record cleanup_task =
  ct_id :: string
  ct_tenant :: "string option"
  ct_knowledge :: "string option"
  ct_storage_key :: string
  ct_reason :: string
  ct_status :: string
  ct_attempts :: int
  ct_last_error :: "string option"
  ct_created_at :: instant
  ct_updated_at :: instant

record know_db =
  kb_docs :: "know_doc list"
  kb_derivatives :: "derivative list"
  kb_sections :: "section_row list"
  kb_chunks :: "chunk_row list"
  kb_selections :: "selection list"
  kb_cleanups :: "cleanup_task list"
  kb_audits :: "audit_event list"

definition add_doc :: "know_doc \<Rightarrow> know_db \<Rightarrow> know_db" where
  "add_doc r d = d\<lparr>kb_docs := kb_docs d @ [r]\<rparr>"

definition add_cleanup :: "cleanup_task \<Rightarrow> know_db \<Rightarrow> know_db" where
  "add_cleanup r d = d\<lparr>kb_cleanups := kb_cleanups d @ [r]\<rparr>"

definition add_know_audit :: "audit_event \<Rightarrow> know_db \<Rightarrow> know_db" where
  "add_know_audit a d = d\<lparr>kb_audits := kb_audits d @ [a]\<rparr>"

definition doc_version :: "know_doc \<Rightarrow> string \<times> int" where
  "doc_version r = (kd_logical r, kd_version r)"

interpretation docs_by_id: keyed_table kd_id kb_docs add_doc
  by unfold_locales (simp add: add_doc_def)

interpretation docs_by_version: keyed_table doc_version kb_docs add_doc
  by unfold_locales (simp add: add_doc_def)

interpretation docs_by_key: keyed_table kd_storage_key kb_docs add_doc
  by unfold_locales (simp add: add_doc_def)

interpretation cleanups_by_key: keyed_table ct_storage_key kb_cleanups add_cleanup
  by unfold_locales (simp add: add_cleanup_def)

text \<open>The check constraint on scope, tenant and owner, and the constraints of the tables.\<close>

definition scope_columns :: "know_doc \<Rightarrow> bool" where
  "scope_columns r \<longleftrightarrow> (case kd_scope r of
       Platform \<Rightarrow> kd_tenant r = None \<and> kd_owner r = None
     | Institutional \<Rightarrow> kd_tenant r \<noteq> None \<and> kd_owner r = None
     | Personal \<Rightarrow> kd_tenant r \<noteq> None \<and> kd_owner r \<noteq> None)"

definition doc_constraints :: "know_doc list \<Rightarrow> bool" where
  "doc_constraints rows \<longleftrightarrow> unique_key kd_id rows \<and> unique_key kd_storage_key rows \<and>
     unique_key doc_version rows \<and> (\<forall>r \<in> set rows. scope_columns r \<and> 1 \<le> kd_version r)"

definition cleanup_constraints :: "cleanup_task list \<Rightarrow> bool" where
  "cleanup_constraints rows \<longleftrightarrow> unique_key ct_id rows \<and> unique_key ct_storage_key rows \<and>
     (\<forall>r \<in> set rows. ct_status r \<in> {''PENDING'', ''DONE''} \<and> 0 \<le> ct_attempts r)"

definition know_constraints :: "know_db \<Rightarrow> bool" where
  "know_constraints d \<longleftrightarrow> doc_constraints (kb_docs d) \<and> cleanup_constraints (kb_cleanups d)"

section \<open>Exceptions\<close>

text \<open>The exception classes of the services, a failed commit, and any other exception.\<close>

datatype know_error =
    Policy_Error (ke_code: string) (ke_status: int)
  | Repository_Error (ke_code: string) (ke_status: int)
  | Large_Error (ke_code: string) (ke_status: int)
  | Blob_Error (ke_code: string)
  | Context_Error (ke_code: string)
  | Retrieval_Error (ke_code: string)
  | Integrity_Error
  | Database_Error
  | Other_Error

section \<open>The world of a request\<close>

type_synonym blob_map = "string \<Rightarrow> string option"

record know_world =
  kw_db :: "know_db session"
  kw_blobs :: blob_map

datatype commit_outcome = Commit_Done | Commit_Lost | Commit_Kept

datatype put_outcome = Put_Done | Put_Refused | Put_Unclear

datatype delete_outcome = Delete_Done | Delete_Refused | Delete_Unclear

record know_faults =
  kf_commit :: commit_outcome
  kf_probe :: bool
  kf_queue_commit :: commit_outcome
  kf_put :: put_outcome
  kf_delete :: "string \<Rightarrow> delete_outcome"
  kf_read :: "string \<Rightarrow> bool"

record know_env =
  kn_now :: instant
  kn_logical :: string
  kn_row :: string
  kn_task :: string
  kn_derivative :: string
  kn_selection :: string
  kn_section :: "nat \<Rightarrow> string"
  kn_chunk :: "nat \<Rightarrow> string"
  kn_sha256 :: "string \<Rightarrow> string"

definition on_db :: "(know_db \<Rightarrow> know_db) \<Rightarrow> know_world \<Rightarrow> know_world" where
  [session_simps]: "on_db f w = w\<lparr>kw_db := on_work f (kw_db w)\<rparr>"

definition undo :: "know_world \<Rightarrow> know_world" where
  [session_simps]: "undo w = w\<lparr>kw_db := rollback (kw_db w)\<rparr>"

text \<open>
  \<open>db.commit()\<close>. A violated constraint is an IntegrityError; otherwise the commit does what the
  faults of the request say. A commit that raises leaves the work to be rolled back.
\<close>

definition try_commit :: "commit_outcome \<Rightarrow> know_world \<Rightarrow> know_error option \<times> know_world" where
  "try_commit c w =
     (if \<not> know_constraints (work (kw_db w)) then (Some Integrity_Error, w)
      else case c of
          Commit_Done \<Rightarrow> (None, w\<lparr>kw_db := commit (kw_db w)\<rparr>)
        | Commit_Lost \<Rightarrow> (Some Database_Error, w)
        | Commit_Kept \<Rightarrow> (Some Database_Error, w\<lparr>kw_db := commit (kw_db w)\<rparr>))"

lemma try_commit_cases:
  obtains "try_commit c w = (Some Integrity_Error, w)" and "\<not> know_constraints (work (kw_db w))"
  | "try_commit c w = (None, w\<lparr>kw_db := commit (kw_db w)\<rparr>)" and "c = Commit_Done"
      and "know_constraints (work (kw_db w))"
  | "try_commit c w = (Some Database_Error, w)" and "c = Commit_Lost"
      and "know_constraints (work (kw_db w))"
  | "try_commit c w = (Some Database_Error, w\<lparr>kw_db := commit (kw_db w)\<rparr>)" and "c = Commit_Kept"
      and "know_constraints (work (kw_db w))"
  by (cases "know_constraints (work (kw_db w))"; cases c) (auto simp: try_commit_def)

section \<open>The blob store\<close>

text \<open>
  The BlobStorage protocol over a map: a put never overwrites, a delete removes one key. A put or
  delete that raises may or may not have taken effect (\<open>Put_Unclear\<close>, \<open>Delete_Unclear\<close>).
\<close>

definition blob_put_if_absent ::
  "put_outcome \<Rightarrow> string \<Rightarrow> string \<Rightarrow> blob_map \<Rightarrow> (know_error + bool) \<times> blob_map" where
  "blob_put_if_absent c key data b =
     (if b key \<noteq> None then (Inr False, b)
      else case c of
          Put_Done \<Rightarrow> (Inr True, b(key \<mapsto> data))
        | Put_Refused \<Rightarrow> (Inl (Blob_Error ''BLOB_WRITE_FAILED''), b)
        | Put_Unclear \<Rightarrow> (Inl (Blob_Error ''BLOB_WRITE_FAILED''), b(key \<mapsto> data)))"

definition blob_get :: "(string \<Rightarrow> bool) \<Rightarrow> string \<Rightarrow> blob_map \<Rightarrow> know_error + string" where
  "blob_get r key b =
     (if \<not> r key then Inl (Blob_Error ''BLOB_READ_FAILED'')
      else case b key of None \<Rightarrow> Inl (Blob_Error ''BLOB_NOT_FOUND'') | Some x \<Rightarrow> Inr x)"

definition blob_read_range ::
  "(string \<Rightarrow> bool) \<Rightarrow> string \<Rightarrow> nat \<Rightarrow> nat \<Rightarrow> blob_map \<Rightarrow> know_error + string" where
  "blob_read_range r key start stop b =
     (if stop < start then Inl (Blob_Error ''BLOB_RANGE_INVALID'')
      else case blob_get r key b of Inl e \<Rightarrow> Inl e
        | Inr x \<Rightarrow> Inr (take (stop - start) (drop start x)))"

definition blob_delete ::
  "(string \<Rightarrow> delete_outcome) \<Rightarrow> string \<Rightarrow> blob_map \<Rightarrow> know_error option \<times> blob_map" where
  "blob_delete c key b = (case c key of
       Delete_Done \<Rightarrow> (None, b(key := None))
     | Delete_Refused \<Rightarrow> (Some (Blob_Error ''BLOB_DELETE_FAILED''), b)
     | Delete_Unclear \<Rightarrow> (Some (Blob_Error ''BLOB_DELETE_FAILED''), b(key := None)))"

lemma blob_put_kept: "b k \<noteq> None \<Longrightarrow> snd (blob_put_if_absent c key data b) k = b k"
  by (auto simp: blob_put_if_absent_def split: put_outcome.split)

lemma blob_put_new: "blob_put_if_absent c key data b = (Inr True, b') \<Longrightarrow> b key = None \<and> b' = b(key \<mapsto> data)"
  by (auto simp: blob_put_if_absent_def split: put_outcome.splits if_splits)

lemma blob_delete_other: "k \<noteq> key \<Longrightarrow> snd (blob_delete c key b) k = b k"
  by (auto simp: blob_delete_def split: delete_outcome.split)

end
