(* ===== verification/Know_Policy.thy ===== *)
theory Know_Policy
  imports Know_Model
begin

text \<open>
  Who may upload, list, publish, revoke, supersede and delete knowledge
  (src/src/orkio_v2/services/knowledge_policy.py), and the visibility clause that the repository
  sends to the database (knowledge_repository.py). The clause and the policy are written twice in
  the code; \<open>clause_implies_visible\<close> and \<open>visible_implies_clause\<close> show that they agree on every row
  the check constraints of the table allow.
\<close>

definition scope_names :: "(string \<times> knowledge_scope) list" where
  "scope_names = map (\<lambda>s. (scope_value s, s)) [Personal, Institutional, Platform]"

definition normalize_scope :: "string \<Rightarrow> know_error + knowledge_scope" where
  "normalize_scope value =
     (case map_of scope_names (py_upper (py_strip value)) of
        None \<Rightarrow> Inl (Policy_Error ''KNOWLEDGE_SCOPE_INVALID'' 422)
      | Some s \<Rightarrow> Inr s)"

definition admin_roles :: "string list" where
  "admin_roles = [''admin'', ''orkio_admin'', ''owner'', ''superadmin'', ''platform_owner'']"

definition is_tenant_admin :: "principal \<Rightarrow> bool" where
  "is_tenant_admin p \<longleftrightarrow> (\<exists>r \<in> set (pr_roles p). r \<in> set admin_roles)"

definition is_platform_owner :: "principal \<Rightarrow> bool" where
  "is_platform_owner p \<longleftrightarrow> ''platform_owner'' \<in> set (pr_roles p)"

text \<open>A check of the policy: \<open>None\<close> when it returns, else what it raises.\<close>

definition assert_upload_allowed :: "string \<Rightarrow> principal \<Rightarrow> know_error option" where
  "assert_upload_allowed scope p = (case normalize_scope scope of
       Inl e \<Rightarrow> Some e
     | Inr Personal \<Rightarrow> None
     | Inr Institutional \<Rightarrow>
         (if is_tenant_admin p then None
          else Some (Policy_Error ''KNOWLEDGE_INSTITUTIONAL_ADMIN_REQUIRED'' 403))
     | Inr Platform \<Rightarrow>
         (if is_platform_owner p then None
          else Some (Policy_Error ''KNOWLEDGE_PLATFORM_OWNER_REQUIRED'' 403)))"

definition assert_list_allowed :: "string \<Rightarrow> principal \<Rightarrow> know_error option" where
  "assert_list_allowed scope p = (case normalize_scope scope of
       Inl e \<Rightarrow> Some e
     | Inr s \<Rightarrow>
         (if s = Personal then None
          else if s = Institutional \<and> is_tenant_admin p then None
          else if s = Platform \<and> is_platform_owner p then None
          else if s = Institutional
          then Some (Policy_Error ''KNOWLEDGE_INSTITUTIONAL_ADMIN_REQUIRED'' 403)
          else Some (Policy_Error ''KNOWLEDGE_PLATFORM_OWNER_REQUIRED'' 403)))"

definition knowledge_not_found :: know_error where
  "knowledge_not_found = Policy_Error ''KNOWLEDGE_NOT_FOUND'' 404"

definition assert_visible :: "know_doc \<Rightarrow> principal \<Rightarrow> know_error option" where
  "assert_visible r p =
     (if kd_scope r = Platform
      then (if is_platform_owner p then None else Some knowledge_not_found)
      else if kd_tenant r \<noteq> Some (pr_tenant_id p) then Some knowledge_not_found
      else if kd_scope r = Personal
      then (if kd_owner r \<noteq> Some (pr_user_id p) then Some knowledge_not_found else None)
      else (if is_tenant_admin p then None else Some knowledge_not_found))"

definition assert_can_publish :: "know_doc \<Rightarrow> principal \<Rightarrow> know_error option" where
  "assert_can_publish r p = (case assert_visible r p of Some e \<Rightarrow> Some e | None \<Rightarrow>
     (if kd_scope r = Personal
      then Some (Policy_Error ''KNOWLEDGE_PERSONAL_PUBLISH_NOT_APPLICABLE'' 409)
      else if kd_status r \<noteq> Draft
      then Some (Policy_Error ''KNOWLEDGE_PUBLISH_REQUIRES_DRAFT'' 409) else None))"

definition assert_can_revoke :: "know_doc \<Rightarrow> principal \<Rightarrow> know_error option" where
  "assert_can_revoke r p = (case assert_visible r p of Some e \<Rightarrow> Some e | None \<Rightarrow>
     (if kd_scope r = Personal
      then Some (Policy_Error ''KNOWLEDGE_PERSONAL_REVOKE_NOT_APPLICABLE'' 409)
      else if kd_status r \<noteq> Active
      then Some (Policy_Error ''KNOWLEDGE_REVOKE_REQUIRES_ACTIVE'' 409) else None))"

definition assert_can_supersede :: "know_doc \<Rightarrow> principal \<Rightarrow> know_error option" where
  "assert_can_supersede r p = (case assert_visible r p of Some e \<Rightarrow> Some e | None \<Rightarrow>
     (if kd_scope r = Personal
      then Some (Policy_Error ''KNOWLEDGE_PERSONAL_SUPERSEDE_NOT_APPLICABLE'' 409)
      else if kd_status r \<noteq> Active
      then Some (Policy_Error ''KNOWLEDGE_SUPERSEDE_REQUIRES_ACTIVE'' 409) else None))"

definition assert_can_delete :: "know_doc \<Rightarrow> principal \<Rightarrow> know_error option" where
  "assert_can_delete r p = (case assert_visible r p of Some e \<Rightarrow> Some e | None \<Rightarrow>
     (if kd_scope r = Personal then None
      else if kd_status r = Draft then None
      else Some (Policy_Error ''KNOWLEDGE_DELETE_REQUIRES_PERSONAL_OR_DRAFT'' 409)))"

text \<open>\<open>_management_visibility_clause\<close>: the rows the database may return to this principal.\<close>

definition visibility_clause :: "principal \<Rightarrow> know_doc \<Rightarrow> bool" where
  "visibility_clause p r \<longleftrightarrow>
     (kd_scope r = Personal \<and> kd_tenant r = Some (pr_tenant_id p) \<and> kd_owner r = Some (pr_user_id p)) \<or>
     (is_tenant_admin p \<and> kd_scope r = Institutional \<and> kd_tenant r = Some (pr_tenant_id p)) \<or>
     (is_platform_owner p \<and> kd_scope r = Platform \<and> kd_tenant r = None)"

section \<open>Lemmas\<close>

lemma scope_value_inj: "scope_value s = scope_value t \<Longrightarrow> s = t"
  by (cases s; cases t) (auto simp: scope_value_def)

lemma normalize_scope_value: "normalize_scope (scope_value s) = Inr s"
proof (cases s)
  case Personal
  show ?thesis unfolding Personal by code_simp
next
  case Institutional
  show ?thesis unfolding Institutional by code_simp
next
  case Platform
  show ?thesis unfolding Platform by code_simp
qed

lemma clause_implies_visible: "visibility_clause p r \<Longrightarrow> assert_visible r p = None"
  by (auto simp: visibility_clause_def assert_visible_def)

lemma visible_implies_clause:
  "assert_visible r p = None \<Longrightarrow> scope_columns r \<Longrightarrow> visibility_clause p r"
  by (cases "kd_scope r")
    (auto simp: visibility_clause_def assert_visible_def scope_columns_def split: if_splits)

lemma platform_owner_is_admin: "is_platform_owner p \<Longrightarrow> is_tenant_admin p"
  by (auto simp: is_platform_owner_def is_tenant_admin_def admin_roles_def)

lemma clause_shared_only:
  "visibility_clause p r \<Longrightarrow> kd_scope r \<noteq> Personal \<Longrightarrow> is_tenant_admin p"
  by (auto simp: visibility_clause_def dest: platform_owner_is_admin)

text \<open>What each check leaves of the status of the document.\<close>

lemma can_publishD: "assert_can_publish r p = None \<Longrightarrow> kd_scope r \<noteq> Personal \<and> kd_status r = Draft"
  by (auto simp: assert_can_publish_def split: option.splits if_splits)

lemma can_revokeD: "assert_can_revoke r p = None \<Longrightarrow> kd_scope r \<noteq> Personal \<and> kd_status r = Active"
  by (auto simp: assert_can_revoke_def split: option.splits if_splits)

lemma can_supersedeD:
  "assert_can_supersede r p = None \<Longrightarrow> kd_scope r \<noteq> Personal \<and> kd_status r = Active"
  by (auto simp: assert_can_supersede_def split: option.splits if_splits)

lemma can_deleteD: "assert_can_delete r p = None \<Longrightarrow> kd_scope r = Personal \<or> kd_status r = Draft"
  by (auto simp: assert_can_delete_def split: option.splits if_splits)

end
