(* ===== verification/Know_Repository.thy ===== *)
theory Know_Repository
  imports Know_Policy
begin

text \<open>
  The operations of src/src/orkio_v2/services/knowledge_repository.py on a request's world: creation
  (from memory or from a staged file), listing, publication, revocation, supersession, deletion, and
  the queue that removes orphaned blobs. A document moves DRAFT, ACTIVE, then SUPERSEDED or REVOKED;
  a supersession adds the next version of the same logical document. The blob of a new row is
  written before the row is committed, and a failed commit is resolved by looking whether the row
  is there. \<open>supersede_document_from_file\<close> reads the document without locking it, so it is given in
  two parts, up to the read and from the write on, with the part of the row it holds in between.
\<close>

section \<open>Purposes and keys\<close>

definition allowed_purposes :: "string list" where
  "allowed_purposes = [''chat'', ''team'', ''realtime'']"

fun collect_purposes :: "string list \<Rightarrow> string list \<Rightarrow> know_error + string list" where
  "collect_purposes result [] = Inr result"
| "collect_purposes result (item # items) =
     (let value = py_lower (py_strip item) in
      if value \<notin> set allowed_purposes then Inl (Repository_Error ''KNOWLEDGE_PURPOSE_INVALID'' 422)
      else collect_purposes (if value \<in> set result then result else result @ [value]) items)"

definition normalize_purposes :: "string list \<Rightarrow> know_error + string list" where
  "normalize_purposes values =
     (case collect_purposes [] (if values = [] then [''chat'', ''team'', ''realtime''] else values) of
        Inl e \<Rightarrow> Inl e
      | Inr [] \<Rightarrow> Inl (Repository_Error ''KNOWLEDGE_PURPOSE_REQUIRED'' 422)
      | Inr result \<Rightarrow> Inr result)"

definition namespace_of :: "string option \<Rightarrow> string" where
  "namespace_of tenant = (case tenant of None \<Rightarrow> ''global'' | Some t \<Rightarrow> if t = [] then ''global'' else t)"

definition document_key ::
  "knowledge_scope \<Rightarrow> string option \<Rightarrow> string \<Rightarrow> int \<Rightarrow> string \<Rightarrow> string \<Rightarrow> string" where
  "document_key scope tenant logical version digest filename =
     ''knowledge/'' @ py_lower (scope_value scope) @ ''/'' @ namespace_of tenant @ ''/'' @ logical @
     ''/v'' @ show_int version @ ''/'' @ digest @ ''-'' @ filename"

section \<open>Audit\<close>

definition extra_keys :: "string list" where
  "extra_keys = [''execution_id'', ''purpose'', ''agent_id'', ''thread_id'',
     ''previous_knowledge_id'', ''new_knowledge_id'']"

fun is_scalar :: "json \<Rightarrow> bool" where
  "is_scalar (JList xs) = False"
| "is_scalar (JObj kvs) = False"
| "is_scalar _ = True"

definition know_audit ::
  "string option \<Rightarrow> string option \<Rightarrow> string \<Rightarrow> know_doc \<Rightarrow> (string \<times> json) list \<Rightarrow> know_db \<Rightarrow> know_db" where
  "know_audit tenant actor action r extra d =
     add_know_audit \<lparr>au_tenant = tenant, au_actor = actor, au_action = action,
       au_resource_type = ''knowledge'', au_resource_id = Some (kd_id r), au_outcome = ''success'',
       au_metadata =
         [(''knowledge_id'', JStr (kd_id r)), (''logical_id'', JStr (kd_logical r)),
          (''version'', JInt (kd_version r)), (''scope'', JStr (scope_value (kd_scope r))),
          (''status'', JStr (status_value (kd_status r)))] @
         filter (\<lambda>(k, v). k \<in> set extra_keys \<and> is_scalar v) extra\<rparr> d"

definition actor_audit ::
  "principal \<Rightarrow> string \<Rightarrow> know_doc \<Rightarrow> (string \<times> json) list \<Rightarrow> know_db \<Rightarrow> know_db" where
  "actor_audit p action r extra = know_audit (Some (pr_tenant_id p)) (Some (pr_user_id p)) action r extra"

definition json_option :: "string option \<Rightarrow> json" where
  "json_option x = (case x of None \<Rightarrow> JNull | Some s \<Rightarrow> JStr s)"

definition audit_knowledge_used ::
  "know_doc \<Rightarrow> string \<Rightarrow> string \<Rightarrow> string \<Rightarrow> string \<Rightarrow> string option \<Rightarrow> string option \<Rightarrow> know_db \<Rightarrow> know_db" where
  "audit_knowledge_used r tenant user execution purpose thread agent =
     know_audit (Some tenant) (Some user) ''knowledge.used'' r
       [(''execution_id'', JStr execution), (''purpose'', JStr purpose),
        (''thread_id'', json_option thread), (''agent_id'', json_option agent)]"

section \<open>Orphaned blobs\<close>

definition error_text :: "string \<Rightarrow> string option" where
  "error_text e = (if take 160 e = [] then None else Some (take 160 e))"

definition queue_task ::
  "know_env \<Rightarrow> string \<Rightarrow> string \<Rightarrow> string option \<Rightarrow> string \<Rightarrow> string \<Rightarrow> know_db \<Rightarrow> know_db" where
  "queue_task env key reason tenant knowledge last_error d =
     (case scalar (\<lambda>t. ct_storage_key t = key) (kb_cleanups d) of
        None \<Rightarrow> add_cleanup \<lparr>ct_id = kn_task env, ct_tenant = tenant, ct_knowledge = Some knowledge,
            ct_storage_key = key, ct_reason = take 80 reason, ct_status = ''PENDING'', ct_attempts = 0,
            ct_last_error = error_text last_error, ct_created_at = kn_now env,
            ct_updated_at = kn_now env\<rparr> d
      | Some t \<Rightarrow> d\<lparr>kb_cleanups := put_row ct_id (t\<lparr>ct_reason := take 80 reason,
            ct_status := ''PENDING'', ct_last_error := error_text last_error,
            ct_updated_at := kn_now env\<rparr>) (kb_cleanups d)\<rparr>)"

definition queue_storage_cleanup ::
  "know_env \<Rightarrow> know_faults \<Rightarrow> string \<Rightarrow> string \<Rightarrow> string option \<Rightarrow> string \<Rightarrow> string \<Rightarrow> know_world \<Rightarrow> know_world" where
  "queue_storage_cleanup env f key reason tenant knowledge last_error w =
     (case try_commit (kf_queue_commit f) (on_db (queue_task env key reason tenant knowledge last_error) w) of
        (None, w') \<Rightarrow> w'
      | (Some e, w') \<Rightarrow> undo w')"

definition delete_blob_or_enqueue ::
  "know_env \<Rightarrow> know_faults \<Rightarrow> string \<Rightarrow> string \<Rightarrow> string option \<Rightarrow> string \<Rightarrow> know_world \<Rightarrow> bool \<times> know_world" where
  "delete_blob_or_enqueue env f key reason tenant knowledge w =
     (case blob_delete (kf_delete f) key (kw_blobs w) of
        (None, b) \<Rightarrow> (True, w\<lparr>kw_blobs := b\<rparr>)
      | (Some e, b) \<Rightarrow> (False, queue_storage_cleanup env f key reason tenant knowledge (ke_code e)
            (w\<lparr>kw_blobs := b\<rparr>)))"

datatype commit_fate = Persisted | Absent | Unknown

definition resolve_blob_after_failed_commit ::
  "know_env \<Rightarrow> know_faults \<Rightarrow> string \<Rightarrow> string \<Rightarrow> string option \<Rightarrow> string \<Rightarrow> know_world \<Rightarrow> commit_fate \<times> know_world" where
  "resolve_blob_after_failed_commit env f key row tenant reason w =
     (if \<not> kf_probe f then (Unknown, undo w)
      else if scalar (\<lambda>r. kd_id r = row) (kb_docs (work (kw_db w))) \<noteq> None then (Persisted, w)
      else (Absent, snd (delete_blob_or_enqueue env f key reason tenant row w)))"

definition cleanup_one ::
  "know_env \<Rightarrow> know_faults \<Rightarrow> cleanup_task \<Rightarrow> know_world \<times> nat \<times> nat \<Rightarrow> know_world \<times> nat \<times> nat" where
  "cleanup_one env f t = (\<lambda>(w, processed, failed).
     let t' = t\<lparr>ct_attempts := ct_attempts t + 1, ct_updated_at := kn_now env\<rparr>;
         save = (\<lambda>t. on_db (\<lambda>d. d\<lparr>kb_cleanups := put_row ct_id t (kb_cleanups d)\<rparr>))
     in case blob_delete (kf_delete f) (ct_storage_key t) (kw_blobs w) of
          (None, b) \<Rightarrow> (save (t'\<lparr>ct_status := ''DONE'', ct_last_error := None\<rparr>)
              (w\<lparr>kw_blobs := b\<rparr>), processed + 1, failed)
        | (Some e, b) \<Rightarrow> (save (t'\<lparr>ct_status := ''PENDING'', ct_last_error := Some (take 160 (ke_code e))\<rparr>)
              (w\<lparr>kw_blobs := b\<rparr>), processed, failed + 1))"

definition pending_tasks :: "int \<Rightarrow> know_db \<Rightarrow> cleanup_task list" where
  "pending_tasks limit d =
     take (nat (max 1 (min limit 500)))
       (sort_key ct_created_at (filter (\<lambda>t. ct_status t = ''PENDING'') (kb_cleanups d)))"

definition process_storage_cleanup_tasks ::
  "know_env \<Rightarrow> know_faults \<Rightarrow> int \<Rightarrow> know_world \<Rightarrow> (know_error + nat \<times> nat \<times> nat) \<times> know_world" where
  "process_storage_cleanup_tasks env f limit w =
     (let tasks = pending_tasks limit (work (kw_db w));
          (w', processed, failed) = fold (cleanup_one env f) tasks (w, 0, 0)
      in case try_commit (kf_commit f) w' of
           (Some e, w'') \<Rightarrow> (Inl e, w'')
         | (None, w'') \<Rightarrow> (Inr (processed, failed, length tasks), w''))"

section \<open>Creation\<close>

text \<open>What a request uploads: the metadata the route has checked, and the file.\<close>

record upload =
  up_title :: string
  up_filename :: string
  up_mime :: string
  up_data :: string
  up_size :: int
  up_digest :: "string option"
  up_classification :: string
  up_purposes :: "string list"
  up_agent :: "string option"
  up_expires :: "instant option"

definition scope_status :: "knowledge_scope \<Rightarrow> knowledge_status" where
  "scope_status s = (if s = Personal then Active else Draft)"

definition scope_tenant :: "knowledge_scope \<Rightarrow> principal \<Rightarrow> string option" where
  "scope_tenant s p = (if s = Platform then None else Some (pr_tenant_id p))"

definition scope_owner :: "knowledge_scope \<Rightarrow> principal \<Rightarrow> string option" where
  "scope_owner s p = (if s = Personal then Some (pr_user_id p) else None)"

definition new_document ::
  "know_env \<Rightarrow> principal \<Rightarrow> knowledge_scope \<Rightarrow> upload \<Rightarrow> string list \<Rightarrow> string \<Rightarrow> int \<Rightarrow> string option \<Rightarrow> know_doc" where
  "new_document env p s u purposes digest bytes agent =
     (let active = (scope_status s = Active) in
      \<lparr>kd_id = kn_row env, kd_tenant = scope_tenant s p, kd_owner = scope_owner s p, kd_scope = s,
       kd_agent = agent, kd_title = up_title u, kd_filename = up_filename u, kd_mime = up_mime u,
       kd_size = bytes, kd_sha256 = digest,
       kd_storage_key = document_key s (scope_tenant s p) (kn_logical env) 1 digest (up_filename u),
       kd_classification = up_classification u, kd_purposes = purposes, kd_logical = kn_logical env,
       kd_version = 1, kd_status = scope_status s,
       kd_effective_from = (if active then Some (kn_now env) else None),
       kd_expires_at = up_expires u, kd_created_by = pr_user_id p,
       kd_approved_by = (if active then Some (pr_user_id p) else None), kd_supersedes = None,
       kd_created_at = kn_now env, kd_updated_at = kn_now env\<rparr>)"

definition digest_of :: "know_env \<Rightarrow> upload \<Rightarrow> string" where
  "digest_of env u = (case up_digest u of None \<Rightarrow> kn_sha256 env (up_data u)
     | Some s \<Rightarrow> if s = [] then kn_sha256 env (up_data u) else s)"

definition key_conflict :: know_error where
  "key_conflict = Repository_Error ''KNOWLEDGE_STORAGE_KEY_CONFLICT'' 409"

text \<open>The blob is written; a key that exists already is a conflict.\<close>

definition store_new_blob :: "know_faults \<Rightarrow> string \<Rightarrow> string \<Rightarrow> know_world \<Rightarrow> know_error option \<times> know_world" where
  "store_new_blob f key data w =
     (case blob_put_if_absent (kf_put f) key data (kw_blobs w) of
        (Inl e, b) \<Rightarrow> (Some e, w\<lparr>kw_blobs := b\<rparr>)
      | (Inr False, b) \<Rightarrow> (Some key_conflict, w\<lparr>kw_blobs := b\<rparr>)
      | (Inr True, b) \<Rightarrow> (None, w\<lparr>kw_blobs := b\<rparr>))"

definition doc_by_id :: "string \<Rightarrow> know_world \<Rightarrow> know_doc option" where
  "doc_by_id i w = scalar (\<lambda>r. kd_id r = i) (kb_docs (work (kw_db w)))"

text \<open>
  The commit of a request that added the row, after its blob was stored, and what follows when it
  fails. Creation and supersession, from memory and from a file, differ in the reason they record
  for an orphaned blob and in what they raise.
\<close>

definition commit_new_document ::
  "know_env \<Rightarrow> know_faults \<Rightarrow> know_doc \<Rightarrow> (know_error \<Rightarrow> string) \<Rightarrow> (know_error \<Rightarrow> know_error) \<Rightarrow> know_world \<Rightarrow>
   (know_error + know_doc) \<times> know_world" where
  "commit_new_document env f r reason failure w =
     (case try_commit (kf_commit f) w of
        (None, w') \<Rightarrow> (Inr r, w')
      | (Some e, w') \<Rightarrow>
          (case resolve_blob_after_failed_commit env f (kd_storage_key r) (kd_id r) (kd_tenant r)
                  (reason e) (undo w') of
             (Persisted, w'') \<Rightarrow>
               (Inr (case doc_by_id (kd_id r) w'' of None \<Rightarrow> r | Some x \<Rightarrow> x), w'')
           | (fate, w'') \<Rightarrow> (Inl (failure e), w'')))"

definition create_uploaded_document_from_file ::
  "know_env \<Rightarrow> know_faults \<Rightarrow> principal \<Rightarrow> string \<Rightarrow> upload \<Rightarrow> know_world \<Rightarrow>
   (know_error + know_doc) \<times> know_world" where
  "create_uploaded_document_from_file env f p scope u w =
     (case normalize_scope scope of Inl e \<Rightarrow> (Inl e, w) | Inr s \<Rightarrow>
      case assert_upload_allowed scope p of Some e \<Rightarrow> (Inl e, w) | None \<Rightarrow>
      case normalize_purposes (up_purposes u) of Inl e \<Rightarrow> (Inl e, w) | Inr purposes \<Rightarrow>
      let r = new_document env p s u purposes (case up_digest u of None \<Rightarrow> [] | Some x \<Rightarrow> x)
                (up_size u) (up_agent u)
      in case store_new_blob f (kd_storage_key r) (up_data u) w of
           (Some e, w') \<Rightarrow> (Inl e, w')
         | (None, w') \<Rightarrow>
             commit_new_document env f r (\<lambda>e. ''knowledge_create_commit_failed'')
               (\<lambda>e. Repository_Error ''KNOWLEDGE_CREATE_FAILED'' 409)
               (on_db (\<lambda>d. actor_audit p ''knowledge.uploaded'' r [] (add_doc r d)) w'))"

definition none_if_empty :: "string option \<Rightarrow> string option" where
  "none_if_empty x = (if x = Some [] then None else x)"

definition create_uploaded_document ::
  "know_env \<Rightarrow> know_faults \<Rightarrow> principal \<Rightarrow> string \<Rightarrow> upload \<Rightarrow> know_world \<Rightarrow>
   (know_error + know_doc) \<times> know_world" where
  "create_uploaded_document env f p scope u w =
     (case normalize_scope scope of Inl e \<Rightarrow> (Inl e, w) | Inr s \<Rightarrow>
      case assert_upload_allowed scope p of Some e \<Rightarrow> (Inl e, w) | None \<Rightarrow>
      case normalize_purposes (up_purposes u) of Inl e \<Rightarrow> (Inl e, w) | Inr purposes \<Rightarrow>
      let r = new_document env p s u purposes (digest_of env u) (int (length (up_data u)))
                (none_if_empty (up_agent u))
      in case store_new_blob f (kd_storage_key r) (up_data u) w of
           (Some e, w') \<Rightarrow> (Inl e, w')
         | (None, w') \<Rightarrow>
             commit_new_document env f r (\<lambda>e. ''CREATE_COMMIT_FAILED'') (\<lambda>e. e)
               (on_db (\<lambda>d.
                  let d1 = actor_audit p ''knowledge.created'' r [] (add_doc r d) in
                  if kd_status r = Active then actor_audit p ''knowledge.published'' r [] d1 else d1) w'))"

section \<open>Reading\<close>

definition get_managed_document :: "principal \<Rightarrow> string \<Rightarrow> know_db \<Rightarrow> know_error + know_doc" where
  "get_managed_document p i d =
     (case scalar (\<lambda>r. kd_id r = i \<and> visibility_clause p r) (kb_docs d) of
        None \<Rightarrow> Inl knowledge_not_found
      | Some r \<Rightarrow> (case assert_visible r p of Some e \<Rightarrow> Inl e | None \<Rightarrow> Inr r))"

definition listed :: "principal \<Rightarrow> knowledge_scope \<Rightarrow> know_doc \<Rightarrow> bool" where
  "listed p s r \<longleftrightarrow> kd_scope r = s \<and> (case s of
       Personal \<Rightarrow> kd_tenant r = Some (pr_tenant_id p) \<and> kd_owner r = Some (pr_user_id p)
     | Institutional \<Rightarrow> kd_tenant r = Some (pr_tenant_id p)
     | Platform \<Rightarrow> kd_tenant r = None)"

definition list_documents :: "principal \<Rightarrow> string \<Rightarrow> know_db \<Rightarrow> know_error + know_doc list" where
  "list_documents p scope d =
     (case normalize_scope scope of Inl e \<Rightarrow> Inl e | Inr s \<Rightarrow>
      case assert_list_allowed scope p of Some e \<Rightarrow> Inl e | None \<Rightarrow>
      Inr (sort_key (\<lambda>r. (kd_logical r, - kd_version r, - kd_created_at r))
             (filter (listed p s) (kb_docs d))))"

definition list_versions :: "principal \<Rightarrow> string \<Rightarrow> know_db \<Rightarrow> know_error + know_doc list" where
  "list_versions p logical d =
     (let rows = sort_key kd_version
            (filter (\<lambda>r. kd_logical r = logical \<and> visibility_clause p r) (kb_docs d))
      in if rows = [] then Inl knowledge_not_found
         else case scalar (\<lambda>r. assert_visible r p \<noteq> None) rows of
                Some r \<Rightarrow> Inl knowledge_not_found
              | None \<Rightarrow> Inr rows)"

section \<open>Publication and revocation\<close>

definition save_doc :: "know_doc \<Rightarrow> know_db \<Rightarrow> know_db" where
  "save_doc r d = d\<lparr>kb_docs := put_row kd_id r (kb_docs d)\<rparr>"

definition publish_document ::
  "know_env \<Rightarrow> know_faults \<Rightarrow> principal \<Rightarrow> string \<Rightarrow> know_world \<Rightarrow> (know_error + know_doc) \<times> know_world" where
  "publish_document env f p i w =
     (case get_managed_document p i (work (kw_db w)) of Inl e \<Rightarrow> (Inl e, w) | Inr r \<Rightarrow>
      case assert_can_publish r p of Some e \<Rightarrow> (Inl e, w) | None \<Rightarrow>
      let r' = r\<lparr>kd_status := Active, kd_effective_from := Some (kn_now env),
                 kd_approved_by := Some (pr_user_id p), kd_updated_at := kn_now env\<rparr>
      in case try_commit (kf_commit f)
                (on_db (\<lambda>d. actor_audit p ''knowledge.published'' r' [] (save_doc r' d)) w) of
           (Some e, w') \<Rightarrow> (Inl e, w')
         | (None, w') \<Rightarrow> (Inr r', w'))"

definition revoke_document ::
  "know_env \<Rightarrow> know_faults \<Rightarrow> principal \<Rightarrow> string \<Rightarrow> know_world \<Rightarrow> (know_error + know_doc) \<times> know_world" where
  "revoke_document env f p i w =
     (case get_managed_document p i (work (kw_db w)) of Inl e \<Rightarrow> (Inl e, w) | Inr r \<Rightarrow>
      case assert_can_revoke r p of Some e \<Rightarrow> (Inl e, w) | None \<Rightarrow>
      let r' = r\<lparr>kd_status := Revoked, kd_updated_at := kn_now env\<rparr>
      in case try_commit (kf_commit f)
                (on_db (\<lambda>d. actor_audit p ''knowledge.revoked'' r' [] (save_doc r' d)) w) of
           (Some e, w') \<Rightarrow> (Inl e, w')
         | (None, w') \<Rightarrow> (Inr r', w'))"

end
