(* ===== verification/Know_Supersede.thy ===== *)
theory Know_Supersede
  imports Know_Repository
begin

text \<open>
  Supersession and deletion (src/src/orkio_v2/services/knowledge_repository.py), and one step of a
  history of the knowledge plane: any operation of the repository, the two parts of a supersession
  from a file at different moments, and the cleanup job.
\<close>

section \<open>Supersession\<close>

text \<open>The metadata of a replacement; \<open>None\<close> keeps what the superseded version has.\<close>

record replacement =
  rp_title :: "string option"
  rp_filename :: string
  rp_mime :: string
  rp_data :: string
  rp_size :: int
  rp_digest :: "string option"
  rp_classification :: "string option"
  rp_purposes :: "string list option"
  rp_agent :: "string option"
  rp_expires :: "instant option"

definition non_empty :: "string option \<Rightarrow> string \<Rightarrow> string" where
  "non_empty x y = (case x of None \<Rightarrow> y | Some s \<Rightarrow> if s = [] then y else s)"

definition or_else :: "'a option \<Rightarrow> 'a option \<Rightarrow> 'a option" where
  "or_else x y = (case x of None \<Rightarrow> y | Some v \<Rightarrow> Some v)"

definition next_version ::
  "know_env \<Rightarrow> principal \<Rightarrow> know_doc \<Rightarrow> replacement \<Rightarrow> string list \<Rightarrow> string \<Rightarrow> string \<Rightarrow> int \<Rightarrow> know_doc" where
  "next_version env p old x purposes title digest bytes =
     \<lparr>kd_id = kn_row env, kd_tenant = kd_tenant old, kd_owner = kd_owner old, kd_scope = kd_scope old,
      kd_agent = or_else (rp_agent x) (kd_agent old), kd_title = title,
      kd_filename = rp_filename x, kd_mime = rp_mime x, kd_size = bytes, kd_sha256 = digest,
      kd_storage_key = document_key (kd_scope old) (kd_tenant old) (kd_logical old)
        (kd_version old + 1) digest (rp_filename x),
      kd_classification = non_empty (rp_classification x) (kd_classification old),
      kd_purposes = purposes, kd_logical = kd_logical old, kd_version = kd_version old + 1,
      kd_status = Active, kd_effective_from = Some (kn_now env),
      kd_expires_at = or_else (rp_expires x) (kd_expires_at old), kd_created_by = pr_user_id p,
      kd_approved_by = Some (pr_user_id p), kd_supersedes = Some (kd_id old),
      kd_created_at = kn_now env, kd_updated_at = kn_now env\<rparr>"

text \<open>The two columns the supersession writes to the old row, whatever the row holds by then.\<close>

definition mark_superseded :: "know_env \<Rightarrow> string \<Rightarrow> know_db \<Rightarrow> know_db" where
  "mark_superseded env i d = d\<lparr>kb_docs := update_where (\<lambda>r. kd_id r = i)
     (\<lambda>r. r\<lparr>kd_status := Superseded, kd_updated_at := kn_now env\<rparr>) (kb_docs d)\<rparr>"

definition supersede_file_begin ::
  "principal \<Rightarrow> string \<Rightarrow> replacement \<Rightarrow> know_db \<Rightarrow> know_error + know_doc \<times> string list" where
  "supersede_file_begin p i x d =
     (case get_managed_document p i d of Inl e \<Rightarrow> Inl e | Inr old \<Rightarrow>
      case assert_can_supersede old p of Some e \<Rightarrow> Inl e | None \<Rightarrow>
      if kd_status old \<noteq> Active then Inl (Repository_Error ''KNOWLEDGE_SUPERSEDE_REQUIRES_ACTIVE'' 409)
      else case normalize_purposes (case rp_purposes x of None \<Rightarrow> kd_purposes old | Some ps \<Rightarrow> ps) of
             Inl e \<Rightarrow> Inl e
           | Inr purposes \<Rightarrow> Inr (old, purposes))"

text \<open>
  After a rollback the tenant of the old row is read from the database again, before the outcome of
  the commit is looked up: when the database does not answer, that read raises.
\<close>

definition supersede_file_finish ::
  "know_env \<Rightarrow> know_faults \<Rightarrow> principal \<Rightarrow> replacement \<Rightarrow> know_doc \<times> string list \<Rightarrow> know_world \<Rightarrow>
   (know_error + know_doc) \<times> know_world" where
  "supersede_file_finish env f p x held w =
     (let (old, purposes) = held;
          new = next_version env p old x purposes (non_empty (rp_title x) (kd_title old))
                  (case rp_digest x of None \<Rightarrow> [] | Some s \<Rightarrow> s) (rp_size x)
      in case store_new_blob f (kd_storage_key new) (rp_data x) w of
           (Some e, w') \<Rightarrow> (Inl e, w')
         | (None, w') \<Rightarrow>
             commit_new_document env f new (\<lambda>e. ''knowledge_supersede_commit_failed'')
               (\<lambda>e. if kf_probe f then Repository_Error ''KNOWLEDGE_SUPERSEDE_FAILED'' 409 else Database_Error)
               (on_db (\<lambda>d. actor_audit p ''knowledge.superseded'' new
                  [(''previous_knowledge_id'', JStr (kd_id old))]
                  (add_doc new (mark_superseded env (kd_id old) d))) w'))"

definition supersede_document_from_file ::
  "know_env \<Rightarrow> know_faults \<Rightarrow> principal \<Rightarrow> string \<Rightarrow> replacement \<Rightarrow> know_world \<Rightarrow>
   (know_error + know_doc) \<times> know_world" where
  "supersede_document_from_file env f p i x w =
     (case supersede_file_begin p i x (work (kw_db w)) of
        Inl e \<Rightarrow> (Inl e, w)
      | Inr held \<Rightarrow> supersede_file_finish env f p x held w)"

definition supersede_document ::
  "know_env \<Rightarrow> know_faults \<Rightarrow> principal \<Rightarrow> string \<Rightarrow> replacement \<Rightarrow> know_world \<Rightarrow>
   (know_error + know_doc) \<times> know_world" where
  "supersede_document env f p i x w =
     (case get_managed_document p i (work (kw_db w)) of Inl e \<Rightarrow> (Inl e, w) | Inr old \<Rightarrow>
      case assert_can_supersede old p of Some e \<Rightarrow> (Inl e, w) | None \<Rightarrow>
      case (case rp_purposes x of
              Some ps \<Rightarrow> normalize_purposes ps
            | None \<Rightarrow> Inr (if kd_purposes old = [] then [''chat'', ''team'', ''realtime'']
                           else kd_purposes old)) of
        Inl e \<Rightarrow> (Inl e, w)
      | Inr purposes \<Rightarrow>
        let digest = (case rp_digest x of None \<Rightarrow> kn_sha256 env (rp_data x)
                      | Some s \<Rightarrow> if s = [] then kn_sha256 env (rp_data x) else s);
            new = next_version env p old x purposes
                    (py_strip (non_empty (rp_title x) (kd_title old))) digest (int (length (rp_data x)));
            old' = old\<lparr>kd_status := Superseded, kd_updated_at := kn_now env\<rparr>
        in case store_new_blob f (kd_storage_key new) (rp_data x) w of
             (Some e, w') \<Rightarrow> (Inl e, w')
           | (None, w') \<Rightarrow>
               commit_new_document env f new
                 (\<lambda>e. if e = Integrity_Error then ''SUPERSEDE_VERSION_CONFLICT'' else ''SUPERSEDE_COMMIT_FAILED'')
                 (\<lambda>e. if e = Integrity_Error then Repository_Error ''KNOWLEDGE_VERSION_CONFLICT'' 409 else e)
                 (on_db (\<lambda>d. actor_audit p ''knowledge.published'' new
                    [(''previous_knowledge_id'', JStr (kd_id old))]
                    (actor_audit p ''knowledge.superseded'' old' [(''new_knowledge_id'', JStr (kd_id new))]
                       (add_doc new (mark_superseded env (kd_id old) d)))) w'))"

section \<open>Deletion\<close>

text \<open>\<open>db.delete(document)\<close> with what the foreign keys cascade.\<close>

definition drop_document :: "string \<Rightarrow> know_db \<Rightarrow> know_db" where
  "drop_document i d =
     d\<lparr>kb_docs := filter (\<lambda>r. kd_id r \<noteq> i) (kb_docs d),
       kb_derivatives := filter (\<lambda>r. dv_knowledge r \<noteq> i) (kb_derivatives d),
       kb_sections := filter (\<lambda>r. sr_knowledge r \<noteq> i) (kb_sections d),
       kb_chunks := filter (\<lambda>r. cr_knowledge r \<noteq> i) (kb_chunks d),
       kb_selections := filter (\<lambda>r. se_knowledge r \<noteq> i) (kb_selections d)\<rparr>"

definition delete_document ::
  "know_env \<Rightarrow> know_faults \<Rightarrow> principal \<Rightarrow> string \<Rightarrow> know_world \<Rightarrow> know_error option \<times> know_world" where
  "delete_document env f p i w =
     (case get_managed_document p i (work (kw_db w)) of Inl e \<Rightarrow> (Some e, w) | Inr r \<Rightarrow>
      case assert_can_delete r p of Some e \<Rightarrow> (Some e, w) | None \<Rightarrow>
      case try_commit (kf_commit f)
             (on_db (\<lambda>d. drop_document (kd_id r) (actor_audit p ''knowledge.deleted'' r [] d)) w) of
        (Some e, w') \<Rightarrow> (Some e, w')
      | (None, w') \<Rightarrow> (None, snd (delete_blob_or_enqueue env f (kd_storage_key r)
             ''DELETE_POST_COMMIT_ORPHAN'' (kd_tenant r) (kd_id r) w')))"

end
