(* ===== verification/Know_Versions.thy ===== *)
theory Know_Versions
  imports Know_Supersede
begin

text \<open>
  What holds of the rows of \<open>knowledge_documents\<close> alone. \<open>chain\<close>: the versions of a logical document
  are 1, 2, ..., n without a gap, a DRAFT or ACTIVE row is the last one, and personal rows are ACTIVE.
  \<open>rows_keep\<close>: a published row of a shared scope stays for ever with its content, and its status only
  moves forward. Each lemma is about one way in which the operations change the rows.
\<close>

definition is_open :: "know_doc \<Rightarrow> bool" where
  "is_open r \<longleftrightarrow> kd_status r \<in> {Draft, Active}"

definition chain :: "know_doc list \<Rightarrow> bool" where
  "chain rows \<longleftrightarrow>
     (\<forall>r \<in> set rows. is_open r \<longrightarrow>
        (\<forall>v. (kd_logical r, v) \<in> doc_version ` set rows \<longrightarrow> v \<le> kd_version r)) \<and>
     (\<forall>l v. (l, v) \<in> doc_version ` set rows \<longrightarrow> 1 < v \<longrightarrow> (l, v - 1) \<in> doc_version ` set rows) \<and>
     (\<forall>r \<in> set rows. kd_scope r = Personal \<longrightarrow> kd_status r = Active)"

fun status_rank :: "knowledge_status \<Rightarrow> nat" where
  "status_rank Draft = 0"
| "status_rank Active = 1"
| "status_rank Revoked = 2"
| "status_rank Superseded = 3"

definition settled :: "know_doc \<Rightarrow> bool" where
  "settled r \<longleftrightarrow> kd_scope r \<noteq> Personal \<and> kd_status r \<noteq> Draft"

definition frozen :: "know_doc \<Rightarrow> know_doc" where
  "frozen r = r\<lparr>kd_status := Draft, kd_updated_at := 0\<rparr>"

definition rows_keep :: "know_doc list \<Rightarrow> know_doc list \<Rightarrow> bool" where
  "rows_keep rows rows' \<longleftrightarrow>
     (\<forall>r \<in> set rows. settled r \<longrightarrow>
        (\<exists>r' \<in> set rows'. frozen r' = frozen r \<and> status_rank (kd_status r) \<le> status_rank (kd_status r')))"

section \<open>Growth\<close>

lemma frozenD:
  "frozen r = frozen s \<Longrightarrow> kd_id r = kd_id s \<and> kd_scope r = kd_scope s \<and> kd_tenant r = kd_tenant s \<and>
     kd_owner r = kd_owner s \<and> kd_logical r = kd_logical s \<and> kd_version r = kd_version s \<and>
     kd_storage_key r = kd_storage_key s \<and> kd_sha256 r = kd_sha256 s \<and> doc_version r = doc_version s"
  by (cases r; cases s) (simp add: frozen_def doc_version_def)

lemma settled_later:
  "settled r \<Longrightarrow> frozen r' = frozen r \<Longrightarrow> status_rank (kd_status r) \<le> status_rank (kd_status r') \<Longrightarrow> settled r'"
  by (cases "kd_status r"; cases "kd_status r'") (auto simp: settled_def dest: frozenD)

lemma rows_keep_refl: "rows_keep rows rows"
  by (auto simp: rows_keep_def)

lemma rows_keep_trans:
  assumes "rows_keep a b" and "rows_keep b c"
  shows "rows_keep a c"
  unfolding rows_keep_def
proof (intro ballI impI)
  fix r assume r: "r \<in> set a" "settled r"
  with assms(1) obtain s where s: "s \<in> set b" "frozen s = frozen r"
      "status_rank (kd_status r) \<le> status_rank (kd_status s)"
    unfolding rows_keep_def by blast
  moreover from r s have "settled s" by (blast intro: settled_later)
  ultimately obtain t where "t \<in> set c" "frozen t = frozen s"
      "status_rank (kd_status s) \<le> status_rank (kd_status t)"
    using assms(2) unfolding rows_keep_def by blast
  with s show "\<exists>t \<in> set c. frozen t = frozen r \<and> status_rank (kd_status r) \<le> status_rank (kd_status t)"
    by (auto intro: order_trans)
qed

lemma rows_keep_append: "rows_keep rows (rows @ [r])"
  by (auto simp: rows_keep_def)

lemma rows_keep_put:
  assumes "unique_key kd_id rows" and "r0 \<in> set rows" and "kd_id r0 = kd_id r"
    and "settled r0 \<Longrightarrow> frozen r = frozen r0 \<and> status_rank (kd_status r0) \<le> status_rank (kd_status r)"
  shows "rows_keep rows (put_row kd_id r rows)"
  unfolding rows_keep_def
proof (intro ballI impI)
  fix x assume x: "x \<in> set rows" "settled x"
  show "\<exists>y \<in> set (put_row kd_id r rows). frozen y = frozen x \<and>
      status_rank (kd_status x) \<le> status_rank (kd_status y)"
  proof (cases "kd_id x = kd_id r")
    case True
    with assms(1-3) x(1) have "x = r0"
      by (metis unique_key_eq)
    with assms(4) x(2) put_row_in [OF x(1) True] show ?thesis by blast
  next
    case False
    from put_row_other [OF x(1) False] show ?thesis by blast
  qed
qed

lemma rows_keep_superseded:
  "rows_keep rows (update_where (\<lambda>r. kd_id r = i) (\<lambda>r. r\<lparr>kd_status := Superseded, kd_updated_at := n\<rparr>) rows)"
  unfolding rows_keep_def
proof (intro ballI impI)
  fix x assume "x \<in> set rows" "settled x"
  let ?y = "if kd_id x = i then x\<lparr>kd_status := Superseded, kd_updated_at := n\<rparr> else x"
  have "?y \<in> set (update_where (\<lambda>r. kd_id r = i) (\<lambda>r. r\<lparr>kd_status := Superseded, kd_updated_at := n\<rparr>) rows)"
    using \<open>x \<in> set rows\<close> by (auto simp: update_where_def)
  moreover have "frozen ?y = frozen x" "status_rank (kd_status x) \<le> status_rank (kd_status ?y)"
    by (cases "kd_status x"; simp add: frozen_def)+
  ultimately show "\<exists>y \<in> set (update_where (\<lambda>r. kd_id r = i)
      (\<lambda>r. r\<lparr>kd_status := Superseded, kd_updated_at := n\<rparr>) rows).
      frozen y = frozen x \<and> status_rank (kd_status x) \<le> status_rank (kd_status y)"
    by (intro bexI [of _ ?y] conjI)
qed

lemma rows_keep_drop:
  assumes "unique_key kd_id rows" and "r \<in> set rows" and "\<not> settled r"
  shows "rows_keep rows (filter (\<lambda>x. kd_id x \<noteq> kd_id r) rows)"
  unfolding rows_keep_def
proof (intro ballI impI)
  fix x assume x: "x \<in> set rows" "settled x"
  with assms have "kd_id x \<noteq> kd_id r"
    by (metis unique_key_eq)
  with x show "\<exists>y \<in> set (filter (\<lambda>x. kd_id x \<noteq> kd_id r) rows). frozen y = frozen x \<and>
      status_rank (kd_status x) \<le> status_rank (kd_status y)" by auto
qed

section \<open>Version chains\<close>

lemma chain_open: "chain rows \<Longrightarrow> r \<in> set rows \<Longrightarrow> is_open r \<Longrightarrow> x \<in> set rows \<Longrightarrow>
    kd_logical x = kd_logical r \<Longrightarrow> kd_version x \<le> kd_version r"
  unfolding chain_def doc_version_def by (metis (no_types, lifting) image_eqI)

lemma chain_down:
  assumes "chain rows" and "(l, v) \<in> doc_version ` set rows" and "1 \<le> u" and "u \<le> v"
  shows "(l, u) \<in> doc_version ` set rows"
proof -
  have "1 \<le> v - int n \<Longrightarrow> (l, v - int n) \<in> doc_version ` set rows" for n
  proof (induction n)
    case (Suc n)
    then have "(l, v - int n) \<in> doc_version ` set rows" and "1 < v - int n" by simp_all
    with assms(1) have "(l, v - int n - 1) \<in> doc_version ` set rows"
      unfolding chain_def by blast
    then show ?case by (simp add: algebra_simps)
  qed (simp add: assms(2))
  from this [of "nat (v - u)"] assms(3,4) show ?thesis by simp
qed

lemma chain_Nil [simp]: "chain []"
  by (simp add: chain_def)

text \<open>A row is rewritten in place: its identity stays, and it is not opened by the write.\<close>

lemma chain_put:
  assumes "chain rows" and "unique_key kd_id rows" and "r0 \<in> set rows" and "kd_id r0 = kd_id r"
    and "doc_version r0 = doc_version r" and "is_open r \<Longrightarrow> is_open r0"
    and "kd_scope r = Personal \<Longrightarrow> kd_status r = Active"
  shows "chain (put_row kd_id r rows)"
proof -
  have "map doc_version (put_row kd_id r rows) = map doc_version rows"
    using assms(2-5) by (intro map_put_row) (metis unique_key_eq)
  then have V: "doc_version ` set (put_row kd_id r rows) = doc_version ` set rows"
    by (metis list.set_map)
  have last: "v \<le> kd_version x"
    if "x \<in> set (put_row kd_id r rows)" and x: "is_open x" "(kd_logical x, v) \<in> doc_version ` set rows" for x v
  proof (cases "x = r")
    case True
    with x assms(5,6) have "is_open r0" "(kd_logical r0, v) \<in> doc_version ` set rows"
      by (auto simp: doc_version_def)
    with assms(1,3) have "v \<le> kd_version r0" unfolding chain_def by blast
    with assms(5) True show ?thesis by (simp add: doc_version_def)
  next
    case False
    with set_put_row that(1) have "x \<in> set rows" by fast
    with x assms(1) show ?thesis unfolding chain_def by blast
  qed
  have "kd_status x = Active" if "x \<in> set (put_row kd_id r rows)" "kd_scope x = Personal" for x
    using set_put_row [OF that(1)] that(2) assms(1,7) unfolding chain_def by blast
  with last assms(1) show ?thesis unfolding chain_def V by blast
qed

text \<open>A first version of a logical document that has none.\<close>

lemma chain_first:
  assumes "chain rows" and "unique_key doc_version (rows @ [r])" and "kd_version r = 1"
    and "\<forall>x \<in> set rows. 1 \<le> kd_version x" and "kd_scope r = Personal \<Longrightarrow> kd_status r = Active"
  shows "chain (rows @ [r])"
proof -
  have new: "(kd_logical r, 1) \<notin> doc_version ` set rows"
    using assms(2,3) by (auto simp: unique_key_snoc fresh_key_def doc_version_def)
  have none: "(kd_logical r, v) \<notin> doc_version ` set rows" for v
  proof
    assume v: "(kd_logical r, v) \<in> doc_version ` set rows"
    then have "1 \<le> v" using assms(4) by (auto simp: doc_version_def)
    with chain_down [OF assms(1) v, of 1] new show False by simp
  qed
  have V: "doc_version ` set (rows @ [r]) = insert (kd_logical r, 1) (doc_version ` set rows)"
    using assms(3) by (simp add: doc_version_def)
  have "v \<le> kd_version x" if x: "x \<in> set (rows @ [r])" "is_open x"
    and v: "(kd_logical x, v) \<in> insert (kd_logical r, 1) (doc_version ` set rows)" for x v
  proof (cases "x \<in> set rows")
    case True
    then have "(kd_logical x, kd_version x) \<in> doc_version ` set rows" by (auto simp: doc_version_def)
    with none have "kd_logical x \<noteq> kd_logical r" by metis
    with v have "(kd_logical x, v) \<in> doc_version ` set rows" by simp
    with assms(1) True x(2) show ?thesis unfolding chain_def by blast
  next
    case False
    with x v none assms(3) show ?thesis by simp
  qed
  moreover have "(l, v - 1) \<in> doc_version ` set (rows @ [r])"
    if "(l, v) \<in> doc_version ` set (rows @ [r])" "1 < v" for l v
    using that assms(1) unfolding V chain_def by blast
  moreover have "kd_status x = Active" if "x \<in> set (rows @ [r])" "kd_scope x = Personal" for x
    using that assms(1,5) unfolding chain_def by auto
  ultimately show ?thesis unfolding chain_def V by blast
qed

text \<open>
  A version follows a row that the request has read, possibly a while ago: whatever that row has
  become, the unique key on logical document and version leaves no newer one.
\<close>

lemma chain_next:
  assumes "chain rows" and "unique_key kd_id rows" and "unique_key doc_version rows"
    and old: "r0 \<in> set rows" "kd_scope r0 \<noteq> Personal"
    and new: "doc_version new = (kd_logical r0, kd_version r0 + 1)" "doc_version new \<notin> doc_version ` set rows"
    and "1 \<le> kd_version r0" and "kd_scope new \<noteq> Personal"
  shows "chain (update_where (\<lambda>r. kd_id r = kd_id r0)
     (\<lambda>r. r\<lparr>kd_status := Superseded, kd_updated_at := n\<rparr>) rows @ [new])" (is "chain (?rows @ [new])")
proof -
  let ?V = "doc_version ` set rows"
  let ?mark = "\<lambda>x. if kd_id x = kd_id r0 then x\<lparr>kd_status := Superseded, kd_updated_at := n\<rparr> else x"
  have rows: "set ?rows = ?mark ` set rows"
    by (simp add: update_where_def)
  have ver: "doc_version (?mark x) = doc_version x" for x by (simp add: doc_version_def)
  then have "doc_version ` set ?rows = ?V"
    unfolding rows image_image by (rule image_cong [OF refl])
  then have V: "doc_version ` set (?rows @ [new]) = insert (doc_version new) ?V"
    by (simp only: set_append image_Un) simp
  have r0: "(kd_logical r0, kd_version r0) \<in> ?V" using old(1) by (auto simp: doc_version_def)
  have top: "v \<le> kd_version r0" if "(kd_logical r0, v) \<in> ?V" for v
  proof (rule ccontr)
    assume "\<not> ?thesis"
    then have "(kd_logical r0, kd_version r0 + 1) \<in> ?V"
      using chain_down [OF assms(1) that, of "kd_version r0 + 1"] assms(8) by simp
    with new show False by simp
  qed
  have "v \<le> kd_version y"
    if y: "y \<in> set (?rows @ [new])" "is_open y" and v: "(kd_logical y, v) \<in> insert (doc_version new) ?V" for y v
  proof (cases "y = new")
    case True
    with v new(1) top [of v] show ?thesis by (auto simp: doc_version_def)
  next
    case False
    with y(1) have "y \<in> ?mark ` set rows" by (simp only: set_append rows) simp
    then obtain x where x: "x \<in> set rows" "y = ?mark x" by (rule imageE)
    have id: "kd_id x \<noteq> kd_id r0"
    proof
      assume "kd_id x = kd_id r0"
      then have "kd_status y = Superseded" unfolding x(2) by simp
      with y(2) show False by (simp add: is_open_def)
    qed
    then have yx: "y = x" unfolding x(2) by simp
    have "kd_logical x \<noteq> kd_logical r0"
    proof
      assume l: "kd_logical x = kd_logical r0"
      have "is_open x" using y(2) unfolding yx .
      then have "kd_version r0 \<le> kd_version x"
        using chain_open [OF assms(1) x(1) _ old(1)] l by simp
      moreover have "(kd_logical r0, kd_version x) = doc_version x" using l by (simp add: doc_version_def)
      then have "kd_version x \<le> kd_version r0"
        using x(1) top by (metis imageI)
      ultimately have "doc_version x = doc_version r0" using l by (simp add: doc_version_def)
      with assms(3) x(1) old(1) have "x = r0" by (rule unique_key_eq)
      with id show False by simp
    qed
    with v new(1) have V: "(kd_logical x, v) \<in> ?V" unfolding yx by simp
    have "is_open x" using y(2) unfolding yx .
    with assms(1) x(1) V have "v \<le> kd_version x" unfolding chain_def by blast
    then show ?thesis unfolding yx .
  qed
  moreover have "(l, v - 1) \<in> insert (doc_version new) ?V"
    if "(l, v) \<in> insert (doc_version new) ?V" "1 < v" for l v
  proof (cases "(l, v) = doc_version new")
    case True
    with new(1) r0 show ?thesis by simp
  next
    case False
    with that assms(1) show ?thesis unfolding chain_def by blast
  qed
  moreover have "kd_status y = Active" if y: "y \<in> set (?rows @ [new])" "kd_scope y = Personal" for y
  proof -
    from y(2) assms(9) have "y \<noteq> new" by auto
    with y(1) have "y \<in> ?mark ` set rows" by (simp only: set_append rows) simp
    then obtain x where x: "x \<in> set rows" "y = ?mark x" by (rule imageE)
    with y(2) have "kd_scope x = Personal" by (simp split: if_splits)
    with assms(1) x(1) have "kd_status x = Active" unfolding chain_def by blast
    moreover have "x \<noteq> r0" using old(2) \<open>kd_scope x = Personal\<close> by auto
    then have "kd_id x \<noteq> kd_id r0" using assms(2) x(1) old(1) by (metis unique_key_eq)
    ultimately show ?thesis using x(2) by simp
  qed
  ultimately show ?thesis unfolding chain_def V by blast
qed

text \<open>An open row can be dropped: it is the last of its document.\<close>

lemma chain_drop:
  assumes "chain rows" and "unique_key kd_id rows" and "unique_key doc_version rows"
    and "r \<in> set rows" and "is_open r"
  shows "chain (filter (\<lambda>x. kd_id x \<noteq> kd_id r) rows)" (is "chain ?rows")
proof -
  have sub: "doc_version ` set ?rows \<subseteq> doc_version ` set rows" by auto
  have other: "x \<in> set ?rows" if "x \<in> set rows" "doc_version x \<noteq> doc_version r" for x
    using that assms(2,4) by (auto dest: unique_key_eq)
  have "(l, v - 1) \<in> doc_version ` set ?rows" if lv: "(l, v) \<in> doc_version ` set ?rows" "1 < v" for l v
  proof -
    from lv sub assms(1) have "(l, v - 1) \<in> doc_version ` set rows" unfolding chain_def by blast
    then obtain x where x: "x \<in> set rows" "doc_version x = (l, v - 1)" by force
    have "doc_version x \<noteq> doc_version r"
    proof
      assume same: "doc_version x = doc_version r"
      with x(2) have r: "kd_logical r = l" "kd_version r = v - 1" by (simp_all add: doc_version_def)
      from lv(1) sub have "(kd_logical r, v) \<in> doc_version ` set rows" using r(1) by blast
      with assms(1,4,5) have "v \<le> kd_version r" unfolding chain_def by blast
      with r(2) show False by simp
    qed
    with other x show ?thesis by (metis imageI)
  qed
  with assms(1) show ?thesis unfolding chain_def by auto
qed

end
