(* ===== verification/Know_Runs.thy ===== *)
theory Know_Runs
  imports Know_Versions
begin

text \<open>
  Histories of the knowledge plane: any sequence of requests and cleanup jobs, each with its own
  environment and faults, where a supersession from a file may be interrupted between its read and
  its write by any other requests. \<open>know\<close> interprets the interface of runs: whatever the faults are,
  every run keeps the constraints and the version chains, and published rows are never lost.
\<close>

section \<open>Histories\<close>

type_synonym held = "nat \<times> principal \<times> replacement \<times> know_doc \<times> string list"

record know_state =
  kz_db :: know_db
  kz_blobs :: blob_map
  kz_held :: "held list"

datatype know_op =
    Upload_File know_env know_faults principal string upload
  | Upload_Bytes know_env know_faults principal string upload
  | Publish know_env know_faults principal string
  | Revoke know_env know_faults principal string
  | Supersede know_env know_faults principal string replacement
  | Supersede_Begin nat principal string replacement
  | Supersede_Finish nat know_env know_faults
  | Delete know_env know_faults principal string
  | Cleanup know_env know_faults int

definition world_of :: "know_state \<Rightarrow> know_world" where
  "world_of s = \<lparr>kw_db = open_session (kz_db s), kw_blobs = kz_blobs s\<rparr>"

definition leave :: "know_world \<Rightarrow> know_state \<Rightarrow> know_state" where
  "leave w s = s\<lparr>kz_db := close_session (kw_db w), kz_blobs := kw_blobs w\<rparr>"

fun know_step :: "know_op \<Rightarrow> know_state \<Rightarrow> know_state" where
  "know_step (Upload_File env f p scope u) s =
     leave (snd (create_uploaded_document_from_file env f p scope u (world_of s))) s"
| "know_step (Upload_Bytes env f p scope u) s =
     leave (snd (create_uploaded_document env f p scope u (world_of s))) s"
| "know_step (Publish env f p i) s = leave (snd (publish_document env f p i (world_of s))) s"
| "know_step (Revoke env f p i) s = leave (snd (revoke_document env f p i (world_of s))) s"
| "know_step (Supersede env f p i x) s = leave (snd (supersede_document env f p i x (world_of s))) s"
| "know_step (Supersede_Begin k p i x) s =
     (case supersede_file_begin p i x (kz_db s) of
        Inl e \<Rightarrow> s
      | Inr (old, purposes) \<Rightarrow> s\<lparr>kz_held := (k, p, x, old, purposes) # kz_held s\<rparr>)"
| "know_step (Supersede_Finish k env f) s =
     (case map_of (kz_held s) k of
        None \<Rightarrow> s
      | Some (p, x, h) \<Rightarrow>
          leave (snd (supersede_file_finish env f p x h (world_of s)))
            (s\<lparr>kz_held := filter (\<lambda>e. fst e \<noteq> k) (kz_held s)\<rparr>))"
| "know_step (Delete env f p i) s = leave (snd (delete_document env f p i (world_of s))) s"
| "know_step (Cleanup env f limit) s = leave (snd (process_storage_cleanup_tasks env f limit (world_of s))) s"

section \<open>What every commit keeps\<close>

definition know_inv :: "know_db \<Rightarrow> bool" where
  "know_inv d \<longleftrightarrow> know_constraints d \<and> chain (kb_docs d)"

definition know_grows :: "know_db \<Rightarrow> know_db \<Rightarrow> bool" where
  "know_grows d e \<longleftrightarrow> rows_keep (kb_docs d) (kb_docs e)"

definition fine :: "know_db \<Rightarrow> know_world \<Rightarrow> bool" where
  "fine d w \<longleftrightarrow> know_inv (durable (kw_db w)) \<and> know_grows d (durable (kw_db w))"

definition edit_ok :: "know_world \<Rightarrow> bool" where
  "edit_ok w \<longleftrightarrow> (know_constraints (work (kw_db w)) \<longrightarrow>
     chain (kb_docs (work (kw_db w))) \<and> know_grows (durable (kw_db w)) (work (kw_db w)))"

definition clean :: "know_world \<Rightarrow> bool" where
  "clean w \<longleftrightarrow> work (kw_db w) = durable (kw_db w)"

lemma know_grows_refl: "know_grows d d"
  by (simp add: know_grows_def rows_keep_refl)

lemma know_grows_trans: "know_grows d e \<Longrightarrow> know_grows e g \<Longrightarrow> know_grows d g"
  unfolding know_grows_def by (rule rows_keep_trans)

lemma clean_undo [simp]: "clean (undo w)"
  by (simp add: clean_def undo_def rollback_def)

lemma clean_blobs [simp]: "clean (w\<lparr>kw_blobs := b\<rparr>) = clean w"
  by (simp add: clean_def)

lemma fine_undo [simp]: "fine d (undo w) = fine d w"
  by (simp add: fine_def undo_def rollback_def)

lemma fine_blobs [simp]: "fine d (w\<lparr>kw_blobs := b\<rparr>) = fine d w"
  by (simp add: fine_def)

lemma fine_on_db [simp]: "fine d (on_db g w) = fine d w"
  by (simp add: fine_def on_db_def on_work_def)

lemma fine_commit: "fine d w \<Longrightarrow> edit_ok w \<Longrightarrow> fine d (snd (try_commit c w))"
  by (cases rule: try_commit_cases [of c w])
    (auto simp: fine_def edit_ok_def commit_def know_inv_def intro: know_grows_trans)

lemma clean_commit: "try_commit c w = (None, w') \<Longrightarrow> clean w'"
  by (cases rule: try_commit_cases [of c w]) (auto simp: clean_def commit_def)

text \<open>An edit of other tables, and an edit of the documents by one of the rules for rows.\<close>

lemma edit_other:
  "fine d w \<Longrightarrow> clean w \<Longrightarrow> (\<And>e. kb_docs (g e) = kb_docs e) \<Longrightarrow> edit_ok (on_db g w)"
  by (simp add: edit_ok_def fine_def clean_def on_db_def on_work_def know_inv_def know_grows_def
      rows_keep_refl)

lemma edit_docs:
  assumes "clean w" and "kb_docs (g (durable (kw_db w))) = rows"
    and "doc_constraints rows \<Longrightarrow> chain rows \<and> rows_keep (kb_docs (durable (kw_db w))) rows"
  shows "edit_ok (on_db g w)"
  using assms by (simp add: edit_ok_def clean_def on_db_def on_work_def know_constraints_def know_grows_def)

lemma queue_task_docs [simp]: "kb_docs (queue_task env key reason tenant i e d) = kb_docs d"
  by (simp add: queue_task_def add_cleanup_def split: option.split)

lemma know_audit_docs [simp]:
  "kb_docs (know_audit t a n r x d) = kb_docs d" "kb_docs (actor_audit p n r x d) = kb_docs d"
  by (simp_all add: know_audit_def actor_audit_def add_know_audit_def)

lemma fine_queue: "fine d w \<Longrightarrow> clean w \<Longrightarrow> fine d (queue_storage_cleanup env f key reason tenant i e w)"
  using fine_commit [of d "on_db (queue_task env key reason tenant i e) w" "kf_queue_commit f"]
  by (auto simp: queue_storage_cleanup_def edit_other split: prod.splits option.splits)

lemma fine_delete_blob:
  "fine d w \<Longrightarrow> clean w \<Longrightarrow> fine d (snd (delete_blob_or_enqueue env f key reason tenant i w))"
  by (auto simp: delete_blob_or_enqueue_def fine_queue split: prod.splits option.splits)

lemma fine_resolve:
  "fine d w \<Longrightarrow> clean w \<Longrightarrow> fine d (snd (resolve_blob_after_failed_commit env f key i tenant reason w))"
  by (simp add: resolve_blob_after_failed_commit_def fine_delete_blob)

lemma fine_commit_new:
  assumes "fine d w" and "edit_ok w"
  shows "fine d (snd (commit_new_document env f r reason failure w))"
proof -
  obtain o' w' where c: "try_commit (kf_commit f) w = (o', w')" by fastforce
  with fine_commit [OF assms] have w': "fine d w'" by (metis snd_conv)
  obtain t w3 where res: "resolve_blob_after_failed_commit env f (kd_storage_key r) (kd_id r)
      (kd_tenant r) (reason (the o')) (undo w') = (t, w3)" by fastforce
  with fine_resolve [of d "undo w'"] w' have "fine d w3" by (metis clean_undo fine_undo snd_conv)
  with w' c res show ?thesis
    by (auto simp: commit_new_document_def split: option.split commit_fate.split)
qed

lemma store_new_blobD:
  assumes "store_new_blob f key data w = (o', w')"
  obtains b where "w' = w\<lparr>kw_blobs := b\<rparr>"
  using assms by (auto simp: store_new_blob_def split: prod.splits sum.splits bool.splits)

end
