(* ===== verification/Know_Ops.thy ===== *)
theory Know_Ops
  imports Know_Runs
begin

text \<open>
  Every operation of the knowledge repository keeps the invariant of the committed rows, whatever
  the faults of the request are, and \<open>know\<close>: the interface of runs interpreted on the histories.
\<close>

lemma know_invD:
  assumes "know_inv d"
  shows "unique_key kd_id (kb_docs d)" "unique_key kd_storage_key (kb_docs d)"
    "unique_key doc_version (kb_docs d)" "chain (kb_docs d)"
    "r \<in> set (kb_docs d) \<Longrightarrow> scope_columns r" "r \<in> set (kb_docs d) \<Longrightarrow> 1 \<le> kd_version r"
  using assms by (auto simp: know_inv_def know_constraints_def doc_constraints_def)

lemma fineD: "fine d w \<Longrightarrow> know_inv (durable (kw_db w))"
  by (simp add: fine_def)

section \<open>Edits of the documents\<close>

lemma edit_first:
  assumes "fine d w" and "clean w" and "kb_docs (g (durable (kw_db w))) = kb_docs (durable (kw_db w)) @ [r]"
    and "kd_version r = 1" and "kd_scope r = Personal \<Longrightarrow> kd_status r = Active"
  shows "edit_ok (on_db g w)"
proof (rule edit_docs [where g = g, OF assms(2,3)])
  assume "doc_constraints (kb_docs (durable (kw_db w)) @ [r])"
  then show "chain (kb_docs (durable (kw_db w)) @ [r]) \<and>
      rows_keep (kb_docs (durable (kw_db w))) (kb_docs (durable (kw_db w)) @ [r])"
    using assms(4,5) know_invD [OF fineD [OF assms(1)]]
    by (auto simp: doc_constraints_def rows_keep_append intro: chain_first)
qed

lemma edit_put:
  assumes "fine d w" and "clean w" and "kb_docs (g (durable (kw_db w))) = put_row kd_id r (kb_docs (durable (kw_db w)))"
    and r0: "r0 \<in> set (kb_docs (durable (kw_db w)))" "kd_id r0 = kd_id r" "doc_version r0 = doc_version r"
    and "is_open r \<Longrightarrow> is_open r0" and "kd_scope r = Personal \<Longrightarrow> kd_status r = Active"
    and "settled r0 \<Longrightarrow> frozen r = frozen r0 \<and> status_rank (kd_status r0) \<le> status_rank (kd_status r)"
  shows "edit_ok (on_db g w)"
proof -
  note inv = know_invD [OF fineD [OF assms(1)]]
  show ?thesis
    using chain_put [OF inv(4,1) r0 assms(7,8)] rows_keep_put [OF inv(1) r0(1,2) assms(9)]
    by (intro edit_docs [where g = g, OF assms(2,3)] conjI) simp_all
qed

lemma edit_next:
  assumes "fine d w" and "clean w"
    and g: "kb_docs (g (durable (kw_db w))) = kb_docs (mark_superseded env i (durable (kw_db w))) @ [new]"
    and r0: "r0 \<in> set (kb_docs (durable (kw_db w)))" "kd_id r0 = i" "settled r0"
    and new: "kd_logical new = kd_logical r0" "kd_version new = kd_version r0 + 1" "kd_scope new = kd_scope r0"
  shows "edit_ok (on_db g w)"
proof (rule edit_docs [where g = g, OF assms(2) refl])
  let ?rows = "kb_docs (durable (kw_db w))"
  let ?marked = "update_where (\<lambda>r. kd_id r = kd_id r0) (\<lambda>r. r\<lparr>kd_status := Superseded, kd_updated_at := kn_now env\<rparr>) ?rows"
  have docs: "kb_docs (g (durable (kw_db w))) = ?marked @ [new]"
    using g r0(2) by (simp add: mark_superseded_def)
  note inv = know_invD [OF fineD [OF assms(1)]]
  assume "doc_constraints (kb_docs (g (durable (kw_db w))))"
  then have "unique_key doc_version (?marked @ [new])"
    unfolding docs doc_constraints_def by blast
  then have "doc_version new \<notin> doc_version ` set ?marked"
    by (simp add: unique_key_snoc fresh_key_def)
  moreover have "map doc_version ?marked = map doc_version ?rows"
    by (simp add: update_where_def doc_version_def)
  then have "doc_version ` set ?marked = doc_version ` set ?rows"
    by (metis list.set_map)
  ultimately have "doc_version new \<notin> doc_version ` set ?rows" by simp
  then have "chain (?marked @ [new])"
    using inv r0 new by (intro chain_next) (auto simp: settled_def doc_version_def)
  moreover have "rows_keep ?rows (?marked @ [new])"
    by (rule rows_keep_trans [OF rows_keep_superseded rows_keep_append])
  ultimately show "chain (kb_docs (g (durable (kw_db w)))) \<and> rows_keep ?rows (kb_docs (g (durable (kw_db w))))"
    unfolding docs by simp
qed

lemma edit_drop:
  assumes "fine d w" and "clean w"
    and "kb_docs (g (durable (kw_db w))) = filter (\<lambda>x. kd_id x \<noteq> kd_id r) (kb_docs (durable (kw_db w)))"
    and r: "r \<in> set (kb_docs (durable (kw_db w)))" "\<not> settled r"
  shows "edit_ok (on_db g w)"
proof -
  note inv = know_invD [OF fineD [OF assms(1)]]
  from r inv(4) have "is_open r" by (auto simp: settled_def is_open_def chain_def)
  with inv r show ?thesis
    by (intro edit_docs [where g = g, OF assms(2,3)] conjI chain_drop rows_keep_drop) auto
qed

section \<open>The operations\<close>

lemma managedD:
  "get_managed_document p i d = Inr r \<Longrightarrow>
     r \<in> set (kb_docs d) \<and> kd_id r = i \<and> visibility_clause p r \<and> assert_visible r p = None"
  by (auto simp: get_managed_document_def split: option.splits dest: scalar_SomeD)

lemma new_document_simps [simp]:
  "kd_version (new_document env p s u purposes digest n agent) = 1"
  "kd_scope (new_document env p s u purposes digest n agent) = s"
  "kd_status (new_document env p s u purposes digest n agent) = scope_status s"
  "kd_id (new_document env p s u purposes digest n agent) = kn_row env"
  "kd_logical (new_document env p s u purposes digest n agent) = kn_logical env"
  by (simp_all add: new_document_def Let_def)

lemma fine_create_file:
  "fine d w \<Longrightarrow> clean w \<Longrightarrow> fine d (snd (create_uploaded_document_from_file env f p scope u w))"
  by (auto simp: create_uploaded_document_from_file_def Let_def scope_status_def add_doc_def
      elim!: store_new_blobD intro!: fine_commit_new edit_first
      split: sum.split option.split prod.split)

lemma fine_create:
  "fine d w \<Longrightarrow> clean w \<Longrightarrow> fine d (snd (create_uploaded_document env f p scope u w))"
  by (auto simp: create_uploaded_document_def Let_def scope_status_def add_doc_def
      elim!: store_new_blobD intro!: fine_commit_new edit_first
      split: sum.split option.split prod.split)

lemma snd_commit_case:
  "snd (case try_commit c w of (None, w') \<Rightarrow> (Inr r, w') | (Some e, w') \<Rightarrow> (Inl e, w')) = snd (try_commit c w)"
  by (simp split: prod.split option.split)

lemma fine_publish: "fine d w \<Longrightarrow> clean w \<Longrightarrow> fine d (snd (publish_document env f p i w))"
  by (auto simp: publish_document_def Let_def snd_commit_case clean_def save_doc_def doc_version_def
      is_open_def settled_def dest!: managedD can_publishD
      intro!: fine_commit edit_put split: sum.split option.split)

lemma fine_revoke: "fine d w \<Longrightarrow> clean w \<Longrightarrow> fine d (snd (revoke_document env f p i w))"
  by (auto simp: revoke_document_def Let_def snd_commit_case clean_def save_doc_def doc_version_def
      is_open_def settled_def frozen_def dest!: managedD can_revokeD
      intro!: fine_commit edit_put split: sum.split option.split)

lemma next_version_simps [simp]:
  "kd_logical (next_version env p old x purposes title digest n) = kd_logical old"
  "kd_version (next_version env p old x purposes title digest n) = kd_version old + 1"
  "kd_scope (next_version env p old x purposes title digest n) = kd_scope old"
  "kd_id (next_version env p old x purposes title digest n) = kn_row env"
  by (simp_all add: next_version_def)

text \<open>The row that a request has read, as the database has it later.\<close>

definition held_row :: "know_db \<Rightarrow> know_doc \<Rightarrow> bool" where
  "held_row d old \<longleftrightarrow> settled old \<and>
     (\<exists>r \<in> set (kb_docs d). frozen r = frozen old \<and> status_rank (kd_status old) \<le> status_rank (kd_status r))"

lemma held_row_later: "held_row d old \<Longrightarrow> know_grows d e \<Longrightarrow> held_row e old"
  unfolding held_row_def know_grows_def rows_keep_def by (metis order_trans settled_later)

lemma held_row_now: "r \<in> set (kb_docs d) \<Longrightarrow> settled r \<Longrightarrow> held_row d r"
  by (auto simp: held_row_def)

lemma supersede_beginD:
  "supersede_file_begin p i x d = Inr (old, purposes) \<Longrightarrow> old \<in> set (kb_docs d) \<and> settled old"
  by (auto simp: supersede_file_begin_def settled_def
      dest: managedD can_supersedeD split: sum.splits option.splits if_splits)

lemma edit_held:
  assumes "fine d w" and "clean w" and "held_row (durable (kw_db w)) old"
    and "kb_docs (g (durable (kw_db w))) = kb_docs (mark_superseded env (kd_id old) (durable (kw_db w))) @
       [next_version env p old x purposes title digest n]"
  shows "edit_ok (on_db g w)"
proof -
  from assms(3) obtain r where r: "r \<in> set (kb_docs (durable (kw_db w)))" "frozen r = frozen old"
      "settled r"
    unfolding held_row_def by (metis settled_later)
  from edit_next [where g = g, OF assms(1,2,4) r(1) _ r(3)] frozenD [OF r(2)] show ?thesis by simp
qed

lemma fine_finish:
  assumes "fine d w" and "clean w" and "held_row (durable (kw_db w)) (fst h)"
  shows "fine d (snd (supersede_file_finish env f p x h w))"
proof -
  obtain old purposes where h: "h = (old, purposes)" by fastforce
  with assms show ?thesis
    by (auto simp: supersede_file_finish_def Let_def add_doc_def
        elim!: store_new_blobD intro!: fine_commit_new edit_held split: prod.split option.split)
qed

lemma fine_supersede_file:
  "fine d w \<Longrightarrow> clean w \<Longrightarrow> fine d (snd (supersede_document_from_file env f p i x w))"
  by (auto simp: supersede_document_from_file_def clean_def
      intro!: fine_finish held_row_now dest: supersede_beginD split: sum.split)

lemma fine_supersede: "fine d w \<Longrightarrow> clean w \<Longrightarrow> fine d (snd (supersede_document env f p i x w))"
  by (auto simp: supersede_document_def Let_def add_doc_def settled_def clean_def
      elim!: store_new_blobD dest!: managedD can_supersedeD
      intro!: fine_commit_new edit_held held_row_now split: sum.split option.split prod.split)

lemma fine_delete:
  assumes "fine d w" and "clean w"
  shows "fine d (snd (delete_document env f p i w))"
proof -
  have edit: "edit_ok (on_db (\<lambda>d. drop_document (kd_id r) (actor_audit p n r m d)) w)"
    if "get_managed_document p i (work (kw_db w)) = Inr r" "assert_can_delete r p = None" for r n m
  proof (rule edit_drop [OF assms])
    show "r \<in> set (kb_docs (durable (kw_db w)))"
      using managedD [OF that(1)] assms(2) by (simp add: clean_def)
    show "\<not> settled r" using can_deleteD [OF that(2)] by (auto simp: settled_def)
  qed (simp add: drop_document_def)
  have "fine d w'" if "get_managed_document p i (work (kw_db w)) = Inr r" "assert_can_delete r p = None"
    "try_commit c (on_db (\<lambda>d. drop_document (kd_id r) (actor_audit p n r m d)) w) = (o', w')" for r n m c o' w'
    using fine_commit [OF _ edit [OF that(1,2)]] that(3) assms(1) by (metis fine_on_db snd_conv)
  then show ?thesis
    using assms(1) by (auto simp: delete_document_def dest: clean_commit intro!: fine_delete_blob
        split: sum.split option.split prod.split)
qed

definition same_docs :: "know_world \<Rightarrow> know_world \<Rightarrow> bool" where
  "same_docs w v \<longleftrightarrow> kb_docs (work (kw_db v)) = kb_docs (work (kw_db w)) \<and> durable (kw_db v) = durable (kw_db w)"

lemma cleanup_one_same: "same_docs w (fst (cleanup_one env f t (w, m, n)))"
  by (auto simp: cleanup_one_def same_docs_def on_db_def on_work_def Let_def split: prod.split option.split)

lemma cleanup_all_same: "same_docs w (fst (fold (cleanup_one env f) ts (w, m, n)))"
proof (induction ts arbitrary: w m n)
  case (Cons t ts)
  obtain w' m' n' where s: "cleanup_one env f t (w, m, n) = (w', m', n')" by (metis prod_cases3)
  with Cons [of w' m' n'] cleanup_one_same [of w env f t m n] show ?case
    by (simp add: same_docs_def)
qed (simp add: same_docs_def)

lemma fine_cleanup:
  assumes "fine d w" and "clean w"
  shows "fine d (snd (process_storage_cleanup_tasks env f n w))"
proof -
  obtain w' i j where fold: "fold (cleanup_one env f) (pending_tasks n (work (kw_db w))) (w, 0, 0) = (w', i, j)"
    by (metis prod_cases3)
  with cleanup_all_same [of w env f _ 0 0] have same: "same_docs w w'" by (metis fst_conv)
  then have "fine d w'" and "edit_ok w'"
    using assms by (auto simp: fine_def edit_ok_def same_docs_def clean_def know_inv_def know_grows_def
        rows_keep_refl)
  with fine_commit [of d w' "kf_commit f"] fold show ?thesis
    by (auto simp: process_storage_cleanup_tasks_def Let_def split: prod.split option.split)
qed

section \<open>Runs\<close>

definition know_state_inv :: "know_state \<Rightarrow> bool" where
  "know_state_inv s \<longleftrightarrow> know_inv (kz_db s) \<and>
     (\<forall>(k, p, x, old, ps) \<in> set (kz_held s). held_row (kz_db s) old)"

definition know_state_grows :: "know_state \<Rightarrow> know_state \<Rightarrow> bool" where
  "know_state_grows s t \<longleftrightarrow> know_grows (kz_db s) (kz_db t)"

lemma world_simps [simp]:
  "work (kw_db (world_of s)) = kz_db s" "durable (kw_db (world_of s)) = kz_db s"
  "kw_blobs (world_of s) = kz_blobs s" "clean (world_of s)"
  by (simp_all add: world_of_def open_session_def clean_def)

lemma leave_simps [simp]:
  "kz_db (leave w s) = durable (kw_db w)" "kz_blobs (leave w s) = kw_blobs w" "kz_held (leave w s) = kz_held s"
  by (simp_all add: leave_def close_session_def)

lemma fine_world: "know_inv (kz_db s) \<Longrightarrow> fine (kz_db s) (world_of s)"
  by (simp add: fine_def know_grows_refl)

lemma leave_fine:
  assumes "know_state_inv s" and "fine (kz_db s) w" and "kz_db t = kz_db s" and "set (kz_held t) \<subseteq> set (kz_held s)"
  shows "know_state_inv (leave w t)" and "know_state_grows s (leave w t)"
proof -
  from assms(2) have w: "know_inv (durable (kw_db w))" "know_grows (kz_db s) (durable (kw_db w))"
    by (simp_all add: fine_def)
  have "held_row (durable (kw_db w)) old" if "(k, p, x, old, ps) \<in> set (kz_held t)" for k p x old ps
  proof -
    from that assms(1,4) have "held_row (kz_db s) old" unfolding know_state_inv_def by fast
    then show ?thesis using w(2) by (rule held_row_later)
  qed
  with w show "know_state_inv (leave w t)" and "know_state_grows s (leave w t)"
    unfolding know_state_inv_def know_state_grows_def leave_simps by blast+
qed

lemma know_state_invD: "know_state_inv s \<Longrightarrow> know_inv (kz_db s)"
  by (simp add: know_state_inv_def)

lemma know_step_fine: "know_state_inv s \<Longrightarrow> know_state_inv (know_step e s) \<and> know_state_grows s (know_step e s)"
proof (cases e)
  case (Supersede_Begin k p i x)
  moreover assume "know_state_inv s"
  ultimately show ?thesis
    by (auto simp: know_state_inv_def know_state_grows_def know_grows_refl held_row_now
        dest!: supersede_beginD split: sum.split)
next
  case (Supersede_Finish k env f)
  assume inv: "know_state_inv s"
  show ?thesis
  proof (cases "map_of (kz_held s) k")
    case None
    with inv Supersede_Finish show ?thesis by (simp add: know_state_grows_def know_grows_refl)
  next
    case (Some h)
    obtain p x old ps where h: "h = (p, x, old, ps)" by (metis prod_cases4)
    with Some inv have "held_row (kz_db s) old"
      by (auto simp: know_state_inv_def dest!: map_of_SomeD)
    with inv h have "fine (kz_db s) (snd (supersede_file_finish env f p x (old, ps) (world_of s)))"
      by (intro fine_finish fine_world) (auto simp: know_state_inv_def)
    with inv show ?thesis
      unfolding Supersede_Finish know_step.simps Some h option.case prod.case
      by (intro conjI leave_fine [OF inv]) auto
  qed
qed (auto intro!: leave_fine [where s = s] fine_world fine_create_file fine_create fine_publish fine_revoke fine_supersede
    fine_delete fine_cleanup intro: know_state_invD)

interpretation know: monotone_system "\<lambda>_ _. True" know_step know_state_inv know_state_grows
proof
  show "know_state_grows s s" for s by (simp add: know_state_grows_def know_grows_refl)
  show "know_state_grows s t \<Longrightarrow> know_state_grows t u \<Longrightarrow> know_state_grows s u" for s t u
    unfolding know_state_grows_def by (rule know_grows_trans)
qed (simp_all add: know_step_fine)

lemma run_ok_True [simp]: "run_ok (\<lambda>_ _. True) step es s"
  by (induction es arbitrary: s) simp_all

end
