(* ===== verification/Know_Blobs.thy ===== *)
theory Know_Blobs
  imports Know_Ops
begin

text \<open>
  The blobs of the knowledge plane. \<open>stored\<close>: every committed row has its blob, the blob has the
  digest the row records, and a pending cleanup task names a blob that exists and that no row uses.
  \<open>blobs\<close> interprets the interface of runs: under every commit fault of the requests, however the
  outcome of a commit is found out, and under every refused put or delete, the histories keep it.
  Two faults are excluded: a delete that raises although the blob is gone, and a cleanup job
  whose commit is lost after it deleted blobs (Know_Properties shows what these do).
\<close>

definition blob_of :: "know_doc \<Rightarrow> string \<times> string" where
  "blob_of r = (kd_storage_key r, kd_sha256 r)"

definition doc_keys :: "know_db \<Rightarrow> string set" where
  "doc_keys d = kd_storage_key ` set (kb_docs d)"

definition pending_keys :: "know_db \<Rightarrow> string set" where
  "pending_keys d = ct_storage_key ` {t \<in> set (kb_cleanups d). ct_status t = ''PENDING''}"

definition stored :: "(string \<Rightarrow> string) \<Rightarrow> know_db \<Rightarrow> blob_map \<Rightarrow> bool" where
  "stored sha d b \<longleftrightarrow>
     (\<forall>r \<in> set (kb_docs d). \<exists>x. b (kd_storage_key r) = Some x \<and> sha x = kd_sha256 r) \<and>
     (\<forall>k \<in> pending_keys d. k \<notin> doc_keys d \<and> b k \<noteq> None)"

definition kept :: "(string \<Rightarrow> string) \<Rightarrow> know_world \<Rightarrow> bool" where
  "kept sha w \<longleftrightarrow> stored sha (durable (kw_db w)) (kw_blobs w)"

text \<open>A blob that belongs to no committed row and to no pending task.\<close>

definition loose :: "string \<Rightarrow> know_world \<Rightarrow> bool" where
  "loose k w \<longleftrightarrow> k \<notin> doc_keys (durable (kw_db w)) \<and> k \<notin> pending_keys (durable (kw_db w)) \<and> kw_blobs w k \<noteq> None"

definition gentle :: "know_faults \<Rightarrow> bool" where
  "gentle f \<longleftrightarrow> (\<forall>k. kf_delete f k \<noteq> Delete_Unclear)"

section \<open>Rules\<close>

lemma stored_more:
  "stored sha d b \<Longrightarrow> (\<And>k. b k \<noteq> None \<Longrightarrow> b' k = b k) \<Longrightarrow> stored sha d b'"
  unfolding stored_def by (metis option.distinct(1))

lemma undo_simps [simp]:
  "durable (kw_db (undo w)) = durable (kw_db w)" "kw_blobs (undo w) = kw_blobs w"
  by (simp_all add: undo_def rollback_def)

lemma on_db_simps [simp]:
  "work (kw_db (on_db g w)) = g (work (kw_db w))" "durable (kw_db (on_db g w)) = durable (kw_db w)"
  "kw_blobs (on_db g w) = kw_blobs w"
  by (simp_all add: on_db_def on_work_def)

lemma blob_of_simps [simp]: "fst (blob_of r) = kd_storage_key r" "snd (blob_of r) = kd_sha256 r"
  by (simp_all add: blob_of_def)

lemma kept_undo [simp]: "kept sha (undo w) = kept sha w"
  by (simp add: kept_def undo_def rollback_def)

lemma loose_undo [simp]: "loose k (undo w) = loose k w"
  by (simp add: loose_def undo_def rollback_def)

lemma kept_on_db [simp]: "kept sha (on_db g w) = kept sha w"
  by (simp add: kept_def on_db_def on_work_def)

lemma loose_on_db [simp]: "loose k (on_db g w) = loose k w"
  by (simp add: loose_def on_db_def on_work_def)

lemma kept_commit:
  "kept sha w \<Longrightarrow> (know_constraints (work (kw_db w)) \<Longrightarrow> stored sha (work (kw_db w)) (kw_blobs w)) \<Longrightarrow>
   kept sha (snd (try_commit c w))"
  by (cases rule: try_commit_cases [of c w]) (auto simp: kept_def commit_def)

lemma docs_stored_iff:
  "(\<forall>r \<in> set rows. \<exists>x. b (kd_storage_key r) = Some x \<and> sha x = kd_sha256 r) \<longleftrightarrow>
     (\<forall>(k, h) \<in> blob_of ` set rows. \<exists>x. b k = Some x \<and> sha x = h)"
  by (simp add: blob_of_def)

lemma doc_keys_blob_of: "doc_keys d = fst ` blob_of ` set (kb_docs d)"
  by (simp add: doc_keys_def blob_of_def image_image)

lemma stored_same:
  assumes "stored sha d b" and "map blob_of (kb_docs e) = map blob_of (kb_docs d)" and "kb_cleanups e = kb_cleanups d"
  shows "stored sha e b"
proof -
  have "blob_of ` set (kb_docs e) = blob_of ` set (kb_docs d)" using assms(2) by (metis list.set_map)
  with assms(1,3) show ?thesis
    unfolding stored_def docs_stored_iff doc_keys_blob_of pending_keys_def by simp
qed

lemma queue_task_pending:
  "pending_keys (queue_task env key reason tenant i e d) \<subseteq> insert key (pending_keys d)"
  by (auto simp: queue_task_def pending_keys_def add_cleanup_def put_row_def
      split: option.splits if_splits dest!: scalar_SomeD)

lemma queue_task_doc_keys [simp]: "doc_keys (queue_task env key reason tenant i e d) = doc_keys d"
  by (simp add: doc_keys_def)

lemma kept_queue:
  assumes "kept sha w" and "clean w" and "loose key w"
  shows "kept sha (queue_storage_cleanup env f key reason tenant i e w)"
proof -
  have "stored sha (queue_task env key reason tenant i e (durable (kw_db w))) (kw_blobs w)"
    using assms(1,3) queue_task_pending [of env key reason tenant i e "durable (kw_db w)"]
    by (auto simp: stored_def kept_def loose_def)
  then have "kept sha (snd (try_commit c (on_db (queue_task env key reason tenant i e) w)))" for c
    using assms(1,2) by (intro kept_commit) (simp_all add: clean_def)
  then show ?thesis
    by (auto simp: queue_storage_cleanup_def split: prod.splits option.splits) (metis snd_conv)+
qed

lemma kept_delete_blob:
  assumes "kept sha w" and "clean w" and "loose key w" and "gentle f"
  shows "kept sha (snd (delete_blob_or_enqueue env f key reason tenant i w))"
proof (cases "kf_delete f key")
  case Delete_Done
  with assms(1,3) show ?thesis
    by (auto simp: delete_blob_or_enqueue_def blob_delete_def kept_def stored_def loose_def doc_keys_def)
next
  case Delete_Refused
  with assms kept_queue [OF assms(1-3)] show ?thesis
    by (simp add: delete_blob_or_enqueue_def blob_delete_def)
next
  case Delete_Unclear
  with assms(4) show ?thesis by (simp add: gentle_def)
qed

lemma kept_resolve:
  assumes "kept sha w" and "clean w" and "gentle f"
    and "(\<forall>r \<in> set (kb_docs (durable (kw_db w))). kd_id r \<noteq> i) \<Longrightarrow> loose key w"
  shows "kept sha (snd (resolve_blob_after_failed_commit env f key i tenant reason w))"
  using assms
  by (auto simp: resolve_blob_after_failed_commit_def clean_def scalar_None intro!: kept_delete_blob)

text \<open>The work of a request that adds the row, whose blob it has just stored.\<close>

definition adds_row :: "(string \<Rightarrow> string) \<Rightarrow> know_doc \<Rightarrow> know_world \<Rightarrow> bool" where
  "adds_row sha r w \<longleftrightarrow>
     (\<exists>x. kw_blobs w (kd_storage_key r) = Some x \<and> sha x = kd_sha256 r) \<and>
     map blob_of (kb_docs (work (kw_db w))) = map blob_of (kb_docs (durable (kw_db w))) @ [blob_of r] \<and>
     kb_cleanups (work (kw_db w)) = kb_cleanups (durable (kw_db w)) \<and>
     (\<exists>x \<in> set (kb_docs (work (kw_db w))). kd_id x = kd_id r)"

lemma stored_add:
  assumes "kept sha w" and "loose (kd_storage_key r) w" and "adds_row sha r w"
  shows "stored sha (work (kw_db w)) (kw_blobs w)"
proof -
  have "blob_of ` set (kb_docs (work (kw_db w))) = insert (blob_of r) (blob_of ` set (kb_docs (durable (kw_db w))))"
    using assms(3) unfolding adds_row_def by (metis insert_is_Un list.set_map set_append sup_commute list.set(1,2))
  moreover have "pending_keys (work (kw_db w)) = pending_keys (durable (kw_db w))"
    using assms(3) by (simp add: pending_keys_def adds_row_def)
  ultimately show ?thesis
    using assms unfolding kept_def stored_def docs_stored_iff doc_keys_blob_of loose_def adds_row_def
    by (auto simp: case_prod_beta)
qed

lemma kept_commit_new:
  assumes "kept sha w" and "loose (kd_storage_key r) w" and "adds_row sha r w" and "gentle f"
  shows "kept sha (snd (commit_new_document env f r reason failure w))"
proof -
  obtain o' w' where c: "try_commit (kf_commit f) w = (o', w')" by fastforce
  have w': "kept sha w'"
    using kept_commit [OF assms(1) stored_add [OF assms(1-3)], of "kf_commit f"] c by simp
  have "(\<exists>x \<in> set (kb_docs (durable (kw_db w'))). kd_id x = kd_id r) \<or> loose (kd_storage_key r) w'"
    using c assms(2,3) by (cases rule: try_commit_cases [of "kf_commit f" w])
      (auto simp: adds_row_def commit_def)
  with w' assms(4) have "kept sha (snd (resolve_blob_after_failed_commit env f (kd_storage_key r) (kd_id r)
      (kd_tenant r) (reason e) (undo w')))" for e
    by (intro kept_resolve) auto
  with w' c show ?thesis
    by (auto simp: commit_new_document_def split: option.split prod.split commit_fate.split) (metis snd_conv)+
qed

lemma kept_store_fail:
  "kept sha w \<Longrightarrow> store_new_blob f key data w = (Some e, w') \<Longrightarrow> kept sha w'"
  by (auto simp: store_new_blob_def blob_put_if_absent_def kept_def elim!: stored_more
      split: if_splits put_outcome.splits)

lemma store_newD:
  assumes "kept sha w" and "store_new_blob f key data w = (None, w')"
  shows "kept sha w'" "loose key w'" "kw_blobs w' key = Some data" "kw_db w' = kw_db w"
proof -
  from assms(2) have w': "w' = w\<lparr>kw_blobs := (kw_blobs w)(key \<mapsto> data)\<rparr>" "kw_blobs w key = None"
    by (auto simp: store_new_blob_def blob_put_if_absent_def split: if_splits put_outcome.splits)
  with assms(1) show "kept sha w'" by (auto simp: kept_def elim!: stored_more)
  from assms(1) w' show "loose key w'"
    by (auto simp: kept_def stored_def loose_def doc_keys_def)
  from w' show "kw_blobs w' key = Some data" "kw_db w' = kw_db w" by simp_all
qed

text \<open>A row is stored with its blob: what creation and supersession have in common.\<close>

lemma kept_store_commit:
  assumes "kept sha w" and "clean w" and "gentle f" and "sha data = kd_sha256 r"
    and "map blob_of (kb_docs (g (durable (kw_db w)))) = map blob_of (kb_docs (durable (kw_db w))) @ [blob_of r]"
    and "kb_cleanups (g (durable (kw_db w))) = kb_cleanups (durable (kw_db w))"
    and "\<exists>x \<in> set (kb_docs (g (durable (kw_db w)))). kd_id x = kd_id r"
    and "store_new_blob f (kd_storage_key r) data w = (None, w')"
  shows "kept sha (snd (commit_new_document env f r reason failure (on_db g w')))"
  using store_newD [OF assms(1,8)] assms(2-7)
  by (intro kept_commit_new) (auto simp: adds_row_def clean_def)

section \<open>The operations\<close>

text \<open>The digest that a request passes is the digest of what it stores.\<close>

definition right_digest :: "(string \<Rightarrow> string) \<Rightarrow> string \<Rightarrow> string option \<Rightarrow> bool" where
  "right_digest sha data digest \<longleftrightarrow> digest = Some (sha data)"

definition optional_digest :: "(string \<Rightarrow> string) \<Rightarrow> know_env \<Rightarrow> string \<Rightarrow> string option \<Rightarrow> bool" where
  "optional_digest sha env data digest \<longleftrightarrow> kn_sha256 env = sha \<and> digest \<in> {None, Some [], Some (sha data)}"

lemma know_audit_cleanups [simp]:
  "kb_cleanups (know_audit t a n r x d) = kb_cleanups d" "kb_cleanups (actor_audit p n r x d) = kb_cleanups d"
  by (simp_all add: know_audit_def actor_audit_def add_know_audit_def)

lemma new_document_sha [simp]: "kd_sha256 (new_document env p s u purposes digest n agent) = digest"
  by (simp add: new_document_def Let_def)

lemma next_version_sha [simp]: "kd_sha256 (next_version env p old x purposes title digest n) = digest"
  by (simp add: next_version_def)

lemma kept_create_file:
  assumes "kept sha w" and "clean w" and "gentle f" and "right_digest sha (up_data u) (up_digest u)"
  shows "kept sha (snd (create_uploaded_document_from_file env f p scope u w))"
  using assms
  by (auto simp: create_uploaded_document_from_file_def Let_def add_doc_def right_digest_def
      elim: kept_store_fail intro!: kept_store_commit [where data = "up_data u"]
      split: sum.split option.split prod.split)

lemma kept_create:
  assumes "kept sha w" and "clean w" and "gentle f" and "optional_digest sha env (up_data u) (up_digest u)"
  shows "kept sha (snd (create_uploaded_document env f p scope u w))"
proof -
  have "digest_of env u = sha (up_data u)"
    using assms(4) by (auto simp: optional_digest_def digest_of_def)
  with assms(1-3) show ?thesis
    by (auto simp: create_uploaded_document_def Let_def add_doc_def
        elim: kept_store_fail intro!: kept_store_commit [where data = "up_data u"]
        split: sum.split option.split prod.split)
qed

lemma map_blob_of_put:
  assumes "fine d w" and "r0 \<in> set (kb_docs (durable (kw_db w)))" and "kd_id r0 = kd_id r" and "blob_of r0 = blob_of r"
  shows "map blob_of (put_row kd_id r (kb_docs (durable (kw_db w)))) = map blob_of (kb_docs (durable (kw_db w)))"
  using know_invD(1) [OF fineD [OF assms(1)]] assms(2-4) by (intro map_put_row) (metis unique_key_eq)

lemma kept_same:
  assumes "kept sha w" and "clean w"
    and "map blob_of (kb_docs (g (durable (kw_db w)))) = map blob_of (kb_docs (durable (kw_db w)))"
    and "kb_cleanups (g (durable (kw_db w))) = kb_cleanups (durable (kw_db w))"
  shows "kept sha (snd (try_commit c (on_db g w)))"
  using stored_same [OF _ assms(3,4)] assms(1,2) by (intro kept_commit) (simp_all add: kept_def clean_def)

lemma kept_publish:
  assumes "fine d w" and "kept sha w" and "clean w"
  shows "kept sha (snd (publish_document env f p i w))"
  using assms(2,3)
  by (auto simp: publish_document_def Let_def snd_commit_case save_doc_def clean_def blob_of_def
      dest!: managedD intro!: kept_same map_blob_of_put [OF assms(1)] split: sum.split option.split)

lemma kept_revoke:
  assumes "fine d w" and "kept sha w" and "clean w"
  shows "kept sha (snd (revoke_document env f p i w))"
  using assms(2,3)
  by (auto simp: revoke_document_def Let_def snd_commit_case save_doc_def clean_def blob_of_def
      dest!: managedD intro!: kept_same map_blob_of_put [OF assms(1)] split: sum.split option.split)

lemma map_blob_of_superseded [simp]:
  "map blob_of (kb_docs (mark_superseded env i d)) = map blob_of (kb_docs d)"
  "kb_cleanups (mark_superseded env i d) = kb_cleanups d"
  by (simp_all add: mark_superseded_def update_where_def blob_of_def)

lemma kept_finish:
  assumes "kept sha w" and "clean w" and "gentle f" and "right_digest sha (rp_data x) (rp_digest x)"
  shows "kept sha (snd (supersede_file_finish env f p x h w))"
  using assms
  by (cases h) (auto simp: supersede_file_finish_def Let_def add_doc_def right_digest_def
      elim: kept_store_fail intro!: kept_store_commit [where data = "rp_data x"]
      split: option.split prod.split)

lemma kept_supersede:
  assumes "kept sha w" and "clean w" and "gentle f" and "optional_digest sha env (rp_data x) (rp_digest x)"
  shows "kept sha (snd (supersede_document env f p i x w))"
proof -
  have "(case rp_digest x of None \<Rightarrow> kn_sha256 env (rp_data x)
      | Some s \<Rightarrow> if s = [] then kn_sha256 env (rp_data x) else s) = sha (rp_data x)"
    using assms(4) by (auto simp: optional_digest_def)
  with assms(1-3) show ?thesis
    by (auto simp: supersede_document_def Let_def add_doc_def
        elim: kept_store_fail intro!: kept_store_commit [where data = "rp_data x"]
        split: sum.split option.split prod.split)
qed

lemma stored_drop:
  assumes "stored sha d b" and "kb_docs e = filter P (kb_docs d)" and "kb_cleanups e = kb_cleanups d"
  shows "stored sha e b"
  using assms by (auto simp: stored_def pending_keys_def doc_keys_def)

lemma kept_delete:
  assumes "fine d w" and "kept sha w" and "clean w" and "gentle f"
  shows "kept sha (snd (delete_document env f p i w))"
proof (cases "get_managed_document p i (work (kw_db w))")
  case (Inr r)
  let ?g = "\<lambda>d. drop_document (kd_id r) (actor_audit p ''knowledge.deleted'' r [] d)"
  note inv = know_invD [OF fineD [OF assms(1)]]
  have r: "r \<in> set (kb_docs (durable (kw_db w)))"
    using managedD [OF Inr] assms(3) by (simp add: clean_def)
  have docs: "kb_docs (?g (durable (kw_db w))) = filter (\<lambda>x. kd_id x \<noteq> kd_id r) (kb_docs (durable (kw_db w)))"
    and clean: "kb_cleanups (?g (durable (kw_db w))) = kb_cleanups (durable (kw_db w))"
    by (simp_all add: drop_document_def)
  have st: "stored sha (durable (kw_db w)) (kw_blobs w)" using assms(2) by (simp add: kept_def)
  have kept: "kept sha (snd (try_commit c (on_db ?g w)))" for c
    using stored_drop [OF st docs clean] assms(2,3) by (intro kept_commit) (simp_all add: clean_def)
  have "kd_storage_key r \<notin> doc_keys (?g (durable (kw_db w)))"
    unfolding doc_keys_def docs using inv(2) r by (auto dest: unique_key_eq)
  moreover have "kw_blobs w (kd_storage_key r) \<noteq> None" "kd_storage_key r \<notin> pending_keys (durable (kw_db w))"
    using st r by (auto simp: stored_def doc_keys_def)
  ultimately have loose: "loose (kd_storage_key r) w'" if "try_commit c (on_db ?g w) = (None, w')" for c w'
    using that assms(3) clean
    by (cases rule: try_commit_cases [of c "on_db ?g w"])
      (auto simp: loose_def commit_def pending_keys_def clean_def)
  show ?thesis
    using Inr assms kept [of "kf_commit f"]
    by (auto simp: delete_document_def dest: clean_commit loose
        intro!: kept_delete_blob split: option.split prod.split)
qed (use assms in \<open>simp add: delete_document_def\<close>)

text \<open>The cleanup job: one task, then the list of tasks it has selected.\<close>

definition cleanup_work :: "(string \<Rightarrow> string) \<Rightarrow> cleanup_task list \<Rightarrow> know_world \<Rightarrow> bool" where
  "cleanup_work sha ts w \<longleftrightarrow> know_constraints (work (kw_db w)) \<and> stored sha (work (kw_db w)) (kw_blobs w) \<and>
     set ts \<subseteq> {t \<in> set (kb_cleanups (work (kw_db w))). ct_status t = ''PENDING''} \<and> distinct (map ct_id ts)"

lemma cleanup_saved:
  assumes "cleanup_work sha (t # ts) w" and "ct_id t' = ct_id t" and "ct_storage_key t' = ct_storage_key t"
    and "ct_status t' \<in> {''PENDING'', ''DONE''}" and "0 \<le> ct_attempts t'"
    and "b = (if ct_status t' = ''DONE'' then (kw_blobs w)(ct_storage_key t := None) else kw_blobs w)"
  shows "cleanup_work sha ts (on_db (\<lambda>d. d\<lparr>kb_cleanups := put_row ct_id t' (kb_cleanups d)\<rparr>) (w\<lparr>kw_blobs := b\<rparr>))"
proof -
  let ?d = "work (kw_db w)"
  let ?tasks = "kb_cleanups ?d" and ?tasks' = "put_row ct_id t' (kb_cleanups ?d)"
  from assms(1) have t: "t \<in> set ?tasks" "ct_status t = ''PENDING''" and uniq: "unique_key ct_id ?tasks"
      "unique_key ct_storage_key ?tasks" and st: "stored sha ?d (kw_blobs w)"
    by (auto simp: cleanup_work_def know_constraints_def cleanup_constraints_def)
  have keys: "map ct_storage_key ?tasks' = map ct_storage_key ?tasks"
    using uniq(1) t(1) assms(2,3) by (intro map_put_row) (metis unique_key_eq)
  have con: "cleanup_constraints ?tasks'"
    using assms(1,4,5) keys set_put_row [of _ ct_id t' ?tasks]
    by (auto simp: cleanup_work_def know_constraints_def cleanup_constraints_def unique_key_def)
  have pend: "x \<in> set ?tasks \<and> (ct_id x \<noteq> ct_id t \<or> ct_status t' = ''PENDING'' \<and> x = t)"
    if "x \<in> set ?tasks'" "ct_status x = ''PENDING''" "x \<noteq> t'" for x
    using set_put_row [OF that(1)] that(3) assms(2) by auto
  have other: "ct_storage_key x \<noteq> ct_storage_key t" if "x \<in> set ?tasks" "ct_id x \<noteq> ct_id t" for x
    using uniq(2) that t(1) by (metis unique_key_eq)
  have new: "ct_storage_key t \<notin> doc_keys ?d" "kw_blobs w (ct_storage_key t) \<noteq> None"
    using st t by (auto simp: stored_def pending_keys_def)
  have "\<forall>r \<in> set (kb_docs ?d). \<exists>x. b (kd_storage_key r) = Some x \<and> sha x = kd_sha256 r"
  proof
    fix r assume r: "r \<in> set (kb_docs ?d)"
    with new(1) have "kd_storage_key r \<noteq> ct_storage_key t" unfolding doc_keys_def by (metis imageI)
    with st r assms(6) show "\<exists>x. b (kd_storage_key r) = Some x \<and> sha x = kd_sha256 r"
      by (simp add: stored_def)
  qed
  moreover have "ct_storage_key x \<notin> doc_keys ?d \<and> b (ct_storage_key x) \<noteq> None"
    if x: "x \<in> set ?tasks'" "ct_status x = ''PENDING''" for x
  proof (cases "x = t'")
    case True
    with x new assms(3,6) show ?thesis by simp
  next
    case False
    with pend [OF x] set_put_row [OF x(1)] assms(2) have "x \<in> set ?tasks" "ct_id x \<noteq> ct_id t" by auto
    with st x(2) other [OF this] assms(6) show ?thesis by (auto simp: stored_def pending_keys_def)
  qed
  ultimately have "stored sha (?d\<lparr>kb_cleanups := ?tasks'\<rparr>) b"
    by (auto simp: stored_def pending_keys_def doc_keys_def)
  moreover have "x \<in> set ?tasks' \<and> ct_status x = ''PENDING''" if "x \<in> set ts" for x
  proof -
    have "ct_id t \<notin> ct_id ` set ts" using assms(1) by (simp add: cleanup_work_def)
    with that assms(2) have "ct_id x \<noteq> ct_id t'" by (metis imageI)
    moreover from that assms(1) have "x \<in> set ?tasks" "ct_status x = ''PENDING''"
      by (auto simp: cleanup_work_def)
    ultimately show ?thesis using put_row_other [of x ?tasks ct_id t'] by simp
  qed
  then have "set ts \<subseteq> {t \<in> set ?tasks'. ct_status t = ''PENDING''}" by blast
  ultimately show ?thesis
    using assms(1) con by (simp add: cleanup_work_def know_constraints_def)
qed

lemma cleanup_one_work:
  assumes "cleanup_work sha (t # ts) w" and "gentle f"
  shows "cleanup_work sha ts (fst (cleanup_one env f t (w, m, n)))"
proof -
  have "0 \<le> ct_attempts t"
    using assms(1) by (auto simp: cleanup_work_def know_constraints_def cleanup_constraints_def)
  then have saved: "cleanup_work sha ts (on_db (\<lambda>d. d\<lparr>kb_cleanups := put_row ct_id
      (t\<lparr>ct_attempts := ct_attempts t + 1, ct_updated_at := kn_now env, ct_status := status,
         ct_last_error := e\<rparr>) (kb_cleanups d)\<rparr>) (w\<lparr>kw_blobs := b\<rparr>))"
    if "status \<in> {''PENDING'', ''DONE''}"
      "b = (if status = ''DONE'' then (kw_blobs w)(ct_storage_key t := None) else kw_blobs w)" for status e b
    using that by (intro cleanup_saved [OF assms(1)]) auto
  show ?thesis
  proof (cases "kf_delete f (ct_storage_key t)")
    case Delete_Refused
    with saved [of "''PENDING''" "kw_blobs w"] show ?thesis
      by (simp add: cleanup_one_def blob_delete_def Let_def)
  next
    case Delete_Done
    with saved [of "''DONE''" "(kw_blobs w)(ct_storage_key t := None)"] show ?thesis
      by (simp add: cleanup_one_def blob_delete_def Let_def)
  qed (use assms(2) in \<open>simp add: gentle_def\<close>)
qed

lemma cleanup_all_work:
  "cleanup_work sha ts w \<Longrightarrow> gentle f \<Longrightarrow> cleanup_work sha [] (fst (fold (cleanup_one env f) ts (w, m, n)))"
proof (induction ts arbitrary: w m n)
  case (Cons t ts)
  obtain w' m' n' where s: "cleanup_one env f t (w, m, n) = (w', m', n')" by (metis prod_cases3)
  with cleanup_one_work [OF Cons.prems, of env m n] Cons.IH [of w' m' n'] Cons.prems(2) show ?case by simp
qed simp

lemma cleanup_work_selected:
  assumes "fine d w" and "kept sha w" and "clean w"
  shows "cleanup_work sha (pending_tasks n (work (kw_db w))) w"
proof -
  let ?ts = "pending_tasks n (work (kw_db w))"
  have "know_constraints (work (kw_db w))"
    using assms(1,3) by (simp add: fine_def clean_def know_inv_def)
  moreover from this have "distinct (map ct_id ?ts)"
    unfolding pending_tasks_def know_constraints_def cleanup_constraints_def unique_key_def
    by (metis (no_types, lifting) distinct_map_filter distinct_take take_map distinct_map distinct_sort set_sort)
  moreover have "set ?ts \<subseteq> {t \<in> set (kb_cleanups (work (kw_db w))). ct_status t = ''PENDING''}"
    by (auto simp: pending_tasks_def dest: in_set_takeD)
  ultimately show ?thesis
    using assms(2,3) by (simp add: cleanup_work_def kept_def clean_def)
qed

lemma kept_cleanup:
  assumes "fine d w" and "kept sha w" and "clean w" and "gentle f" and "kf_commit f \<noteq> Commit_Lost"
  shows "kept sha (snd (process_storage_cleanup_tasks env f n w))"
proof -
  let ?ts = "pending_tasks n (work (kw_db w))"
  obtain w' i j where fold: "fold (cleanup_one env f) ?ts (w, 0, 0) = (w', i, j)"
    by (metis prod_cases3)
  with cleanup_all_work [OF cleanup_work_selected [OF assms(1-3), of n], of f env 0 0] assms(4)
  have "know_constraints (work (kw_db w'))" "stored sha (work (kw_db w')) (kw_blobs w')"
    by (simp_all add: cleanup_work_def)
  then have "kept sha (snd (try_commit (kf_commit f) w'))"
    using assms(5) by (cases "kf_commit f") (simp_all add: try_commit_def kept_def commit_def)
  with fold show ?thesis
    by (auto simp: process_storage_cleanup_tasks_def Let_def split: option.split prod.split)
qed

section \<open>Runs\<close>

fun know_gentle :: "(string \<Rightarrow> string) \<Rightarrow> know_op \<Rightarrow> know_state \<Rightarrow> bool" where
  "know_gentle sha (Upload_File env f p scope u) s \<longleftrightarrow> gentle f \<and> right_digest sha (up_data u) (up_digest u)"
| "know_gentle sha (Upload_Bytes env f p scope u) s \<longleftrightarrow> gentle f \<and> optional_digest sha env (up_data u) (up_digest u)"
| "know_gentle sha (Supersede env f p i x) s \<longleftrightarrow> gentle f \<and> optional_digest sha env (rp_data x) (rp_digest x)"
| "know_gentle sha (Supersede_Begin k p i x) s \<longleftrightarrow> right_digest sha (rp_data x) (rp_digest x)"
| "know_gentle sha (Supersede_Finish k env f) s \<longleftrightarrow> gentle f"
| "know_gentle sha (Delete env f p i) s \<longleftrightarrow> gentle f"
| "know_gentle sha (Cleanup env f limit) s \<longleftrightarrow> gentle f \<and> kf_commit f \<noteq> Commit_Lost"
| "know_gentle sha e s \<longleftrightarrow> True"

definition blobs_inv :: "(string \<Rightarrow> string) \<Rightarrow> know_state \<Rightarrow> bool" where
  "blobs_inv sha s \<longleftrightarrow> know_state_inv s \<and> stored sha (kz_db s) (kz_blobs s) \<and>
     (\<forall>(k, p, x, old, ps) \<in> set (kz_held s). right_digest sha (rp_data x) (rp_digest x))"

lemma kept_world: "blobs_inv sha s \<Longrightarrow> kept sha (world_of s)"
  by (simp add: blobs_inv_def kept_def)

lemma fine_of_blobs: "blobs_inv sha s \<Longrightarrow> fine (kz_db s) (world_of s)"
  by (simp add: blobs_inv_def fine_world know_state_invD)

lemma leave_kept:
  "blobs_inv sha s \<Longrightarrow> kept sha w \<Longrightarrow> know_state_inv (leave w t) \<Longrightarrow> set (kz_held t) \<subseteq> set (kz_held s) \<Longrightarrow>
   blobs_inv sha (leave w t)"
  by (auto simp: blobs_inv_def kept_def)

lemma blobs_step:
  assumes "know_gentle sha e s" and "blobs_inv sha s"
  shows "blobs_inv sha (know_step e s)"
proof -
  have inv: "know_state_inv (know_step e s)"
    using assms(2) know_step_fine by (simp add: blobs_inv_def)
  note facts = kept_world [OF assms(2)] fine_of_blobs [OF assms(2)]
  show ?thesis
  proof (cases e)
    case (Supersede_Begin k p i x)
    with assms inv show ?thesis by (auto simp: blobs_inv_def split: sum.splits)
  next
    case (Supersede_Finish k env f)
    show ?thesis
    proof (cases "map_of (kz_held s) k")
      case None
      with assms(2) Supersede_Finish show ?thesis by simp
    next
      case (Some h)
      obtain p x old ps where h: "h = (p, x, old, ps)" by (metis prod_cases4)
      with Some assms(2) have "right_digest sha (rp_data x) (rp_digest x)"
        unfolding blobs_inv_def by (blast dest: map_of_SomeD)
      with facts assms(1) Supersede_Finish
      have "kept sha (snd (supersede_file_finish env f p x (old, ps) (world_of s)))"
        by (intro kept_finish) auto
      then show ?thesis
        using inv unfolding Supersede_Finish know_step.simps Some h option.case prod.case
        by (rule leave_kept [OF assms(2)]) auto
    qed
  qed (use assms inv facts in \<open>auto intro!: leave_kept [OF assms(2)] kept_create_file kept_create
        kept_publish kept_revoke kept_supersede kept_delete kept_cleanup\<close>)
qed

interpretation blobs: invariant_system "know_gentle sha" know_step "blobs_inv sha" for sha
  by unfold_locales (rule blobs_step)

end
