(* ===== verification/Know_Structure.thy ===== *)
theory Know_Structure
  imports Know_Model
begin

text \<open>
  The structural index of a canonical document (src/src/orkio_v2/services/large_document.py,
  \<open>build_structure\<close>, \<open>_terms\<close>, \<open>_token_estimate\<close>) and the choice of chunks for a question
  (\<open>ranked_chunks\<close>). A file is the string of its bytes; \<open>decode\<close> is the UTF-8 decoder with
  replacement, and the characters of decoded text are code points below 256. White space and letter
  case are those of ASCII. The loop over a section is a function whose measure is the rest of the
  section; it yields the spans it has read, from which the chunks with blank text are dropped.
\<close>

section \<open>Terms\<close>

definition char_code :: "char \<Rightarrow> nat" where
  "char_code c = of_char c"

definition word_char :: "char \<Rightarrow> bool" where
  "word_char c \<longleftrightarrow> c \<in> set upper_letters \<or> c \<in> set lower_letters \<or> c \<in> set digit_letters \<or> c = CHR ''_'' \<or>
     192 \<le> char_code c \<and> char_code c \<noteq> 215 \<and> char_code c \<noteq> 247"

function word_runs :: "string \<Rightarrow> string list" where
  "word_runs s = (case dropWhile (\<lambda>c. \<not> word_char c) s of
       [] \<Rightarrow> []
     | t \<Rightarrow> takeWhile word_char t # word_runs (dropWhile word_char t))"
  by pat_completeness auto
termination
proof (relation "measure length", goal_cases)
  case (2 s x xs)
  have "length (x # xs) \<le> length s"
    unfolding 2 [symmetric] by (rule length_dropWhile_le)
  moreover have "word_char x"
    using 2 by (metis hd_dropWhile list.distinct(1) list.sel(1))
  moreover have "length (dropWhile word_char xs) \<le> length xs"
    by (rule length_dropWhile_le)
  ultimately show ?case by simp
qed simp

declare word_runs.simps [simp del]

definition terms_of :: "string \<Rightarrow> nat \<Rightarrow> string list" where
  "terms_of text limit =
     (let words = filter (\<lambda>w. 3 \<le> length w) (word_runs (py_lower text))
      in take limit (sort_key (\<lambda>w. (- int (count_list words w), w)) (remdups words)))"

definition token_estimate :: "string \<Rightarrow> nat" where
  "token_estimate text = (if text = [] then 0 else max 1 ((length text + 3) div 4))"

section \<open>Headings\<close>

record heading =
  hd_start :: nat
  hd_text :: string
  hd_level :: nat
  hd_page :: "int option"

text \<open>\<open>readline\<close> until the end of the file: lines with the offsets at which they start.\<close>

function file_lines :: "nat \<Rightarrow> string \<Rightarrow> (nat \<times> string) list" where
  "file_lines offset s = (if s = [] then []
     else let line = takeWhile (\<lambda>c. c \<noteq> CHR 0x0A) s;
              line' = line @ take 1 (dropWhile (\<lambda>c. c \<noteq> CHR 0x0A) s)
          in (offset, line') # file_lines (offset + length line') (drop (length line') s))"
  by pat_completeness auto
termination
proof (relation "measure (length \<circ> snd)", goal_cases)
  case (2 offset s x xa)
  then have "0 < length (takeWhile (\<lambda>c. c \<noteq> CHR 0x0A) s @ take 1 (dropWhile (\<lambda>c. c \<noteq> CHR 0x0A) s))"
    by (cases s) auto
  with 2 show ?case by simp
qed simp

declare file_lines.simps [simp del]

definition strip_eol :: "string \<Rightarrow> string" where
  "strip_eol s = rev (dropWhile (\<lambda>c. c = CHR 0x0D \<or> c = CHR 0x0A) (rev s))"

text \<open>
  \<open>^(#{1,6})\s+(.+?)\s*$\<close>: one to six signs, white space, and at least one more character. The
  group stripped of white space is the rest of the line stripped of it.
\<close>

definition match_heading :: "string \<Rightarrow> (nat \<times> string) option" where
  "match_heading line =
     (let level = length (takeWhile (\<lambda>c. c = CHR ''#'') line);
          rest = dropWhile (\<lambda>c. c = CHR ''#'') line
      in if 1 \<le> level \<and> level \<le> 6 \<and> 2 \<le> length rest \<and> py_space (hd rest)
         then Some (level, py_strip rest) else None)"

text \<open>The heading of a page of a PDF, in any letter case; the second letter is an a with acute.\<close>

definition page_of :: "string \<Rightarrow> int option" where
  "page_of text =
     (let rest = drop 6 text; digits = dropWhile py_space rest
      in if py_lower (take 1 text) = ''p'' \<and> (take 1 (drop 1 text) = [CHR 0xE1] \<or> take 1 (drop 1 text) = [CHR 0xC1]) \<and>
            py_lower (take 4 (drop 2 text)) = ''gina'' \<and> rest \<noteq> [] \<and> py_space (hd rest) \<and>
            digits \<noteq> [] \<and> list_all py_is_digit digits
         then Some (int (nat_of_digits digits)) else None)"

definition heading_of :: "(string \<Rightarrow> string) \<Rightarrow> nat \<times> string \<Rightarrow> heading list" where
  "heading_of decode = (\<lambda>(offset, line).
     case match_heading (strip_eol (decode line)) of
       None \<Rightarrow> []
     | Some (level, text) \<Rightarrow> [\<lparr>hd_start = offset, hd_text = text, hd_level = level, hd_page = page_of text\<rparr>])"

definition headings :: "(string \<Rightarrow> string) \<Rightarrow> string \<Rightarrow> heading list" where
  "headings decode file =
     (let found = concat (map (heading_of decode) (file_lines 0 file))
      in if found = [] then [\<lparr>hd_start = 0, hd_text = ''Documento'', hd_level = 0, hd_page = None\<rparr>] else found)"

section \<open>Sections\<close>

record doc_section =
  sn_id :: string
  sn_ordinal :: nat
  sn_heading :: string
  sn_level :: nat
  sn_page_start :: "int option"
  sn_page_end :: "int option"
  sn_start :: nat
  sn_end :: nat
  sn_tokens :: nat
  sn_parent :: "string option"

definition next_page :: "heading list \<Rightarrow> int option" where
  "next_page future = (case scalar (\<lambda>h. hd_page h \<noteq> None) future of
       None \<Rightarrow> None | Some h \<Rightarrow> map_option (\<lambda>n. n - 1) (hd_page h))"

text \<open>The stack of open sections has its top first.\<close>

fun sections_from ::
  "(nat \<Rightarrow> string) \<Rightarrow> nat \<Rightarrow> nat \<Rightarrow> (nat \<times> string) list \<Rightarrow> heading list \<Rightarrow> doc_section list" where
  "sections_from ids raw_len ordinal stack [] = []"
| "sections_from ids raw_len ordinal stack (h # hs) =
     (let stop = (case hs of [] \<Rightarrow> raw_len | g # _ \<Rightarrow> hd_start g);
          stack' = dropWhile (\<lambda>(level, _). hd_level h \<le> level) stack;
          parent = (if stack' \<noteq> [] \<and> 0 < hd_level h then Some (snd (hd stack')) else None)
      in \<lparr>sn_id = ids ordinal, sn_ordinal = ordinal, sn_heading = take 500 (hd_text h),
          sn_level = hd_level h, sn_page_start = hd_page h,
          sn_page_end = (if hd_page h = None then None else next_page hs),
          sn_start = hd_start h, sn_end = stop, sn_tokens = (stop - hd_start h + 3) div 4,
          sn_parent = parent\<rparr>
         # sections_from ids raw_len (Suc ordinal)
             (if 0 < hd_level h then (hd_level h, ids ordinal) # stack' else stack') hs)"

definition sections_of :: "(nat \<Rightarrow> string) \<Rightarrow> (string \<Rightarrow> string) \<Rightarrow> string \<Rightarrow> doc_section list" where
  "sections_of ids decode file = sections_from ids (length file) 0 [] (headings decode file)"

section \<open>Chunks\<close>

definition py_rfind :: "string \<Rightarrow> string \<Rightarrow> int" where
  "py_rfind p s =
     (let hits = filter (\<lambda>i. take (length p) (drop i s) = p) [0..<Suc (length s) - length p]
      in if hits = [] then -1 else int (last hits))"

text \<open>One block: cut after the last line break when that lies in its second half.\<close>

definition cut_block :: "string \<Rightarrow> string" where
  "cut_block block =
     (let split = max (py_rfind [CHR 0x0A, CHR 0x0A] block) (py_rfind [CHR 0x0A] block)
      in if int (length block div 2) < split then take (nat (split + 1)) block else block)"

definition read_block :: "nat \<Rightarrow> string \<Rightarrow> nat \<Rightarrow> nat \<Rightarrow> string" where
  "read_block target file cursor stop =
     (let block = take (min target (stop - cursor)) (drop cursor file)
      in if cursor + length block < stop then cut_block block else block)"

lemma cut_block_cases:
  obtains n where "cut_block block = take (Suc n) block" | "cut_block block = block"
proof (cases "int (length block div 2) < max (py_rfind [CHR 0x0A, CHR 0x0A] block) (py_rfind [CHR 0x0A] block)")
  case True
  define m where "m = max (py_rfind [CHR 0x0A, CHR 0x0A] block) (py_rfind [CHR 0x0A] block)"
  with True have "cut_block block = take (nat (m + 1)) block" "0 \<le> m"
    by (simp_all add: cut_block_def)
  then have "cut_block block = take (Suc (nat m)) block" by (simp add: nat_add_distrib)
  then show thesis by (rule that)
next
  case False
  then have "cut_block block = block" by (simp add: cut_block_def)
  then show thesis by (rule that)
qed

lemma cut_block_Nil [simp]: "cut_block block = [] \<longleftrightarrow> block = []"
  by (cases rule: cut_block_cases [of block]) auto

lemma length_cut_block: "length (cut_block block) \<le> length block"
  by (cases rule: cut_block_cases [of block]) auto

lemma length_read_block: "length (read_block target file cursor stop) \<le> min target (stop - cursor)"
proof -
  let ?b = "take (min target (stop - cursor)) (drop cursor file)"
  have "length ?b \<le> min target (stop - cursor)" by (simp only: length_take min.cobounded2)
  moreover from this have "length (cut_block ?b) \<le> min target (stop - cursor)"
    using length_cut_block order_trans by blast
  moreover have "read_block target file cursor stop \<in> {cut_block ?b, ?b}"
    by (simp add: read_block_def Let_def)
  ultimately show ?thesis by (metis empty_iff insert_iff)
qed


lemma read_block_prefix: "\<exists>n. read_block target file cursor stop = take n (drop cursor file)"
proof (cases rule: cut_block_cases [of "take (min target (stop - cursor)) (drop cursor file)"])
  case (1 n)
  then show ?thesis by (auto simp: read_block_def Let_def)
next
  case 2
  then show ?thesis by (auto simp: read_block_def Let_def)
qed

lemma read_block_Nil:
  "0 < target \<Longrightarrow> stop \<le> length file \<Longrightarrow> read_block target file cursor stop = [] \<longleftrightarrow> stop \<le> cursor"
  by (auto simp: read_block_def Let_def)

record span =
  sp_start :: nat
  sp_end :: nat
  sp_block :: string

function spans :: "nat \<Rightarrow> nat \<Rightarrow> string \<Rightarrow> nat \<Rightarrow> nat \<Rightarrow> span list" where
  "spans target overlap file stop cursor =
     (if stop \<le> cursor then []
      else let block = read_block target file cursor stop; next_end = cursor + length block
           in if block = [] then []
              else \<lparr>sp_start = cursor, sp_end = next_end, sp_block = block\<rparr> #
                (if stop \<le> next_end then []
                 else spans target overlap file stop (max (cursor + 1) (next_end - overlap))))"
  by pat_completeness auto
termination by (relation "measure (\<lambda>(target, overlap, file, stop, cursor). stop - cursor)") auto

declare spans.simps [simp del]

record chunk =
  ch_id :: string
  ch_ordinal :: nat
  ch_section :: string
  ch_start :: nat
  ch_end :: nat
  ch_tokens :: nat
  ch_sha256 :: string
  ch_terms :: "string list"

definition block_text :: "(string \<Rightarrow> string) \<Rightarrow> span \<Rightarrow> string" where
  "block_text decode s = py_strip (decode (sp_block s))"

definition section_chunks ::
  "(string \<Rightarrow> string) \<Rightarrow> nat \<Rightarrow> nat \<Rightarrow> string \<Rightarrow> doc_section \<Rightarrow> (doc_section \<times> span) list" where
  "section_chunks decode target overlap file s =
     map (\<lambda>x. (s, x)) (filter (\<lambda>x. block_text decode x \<noteq> [])
       (spans target overlap file (sn_end s) (sn_start s)))"

definition chunk_of ::
  "know_env \<Rightarrow> (string \<Rightarrow> string) \<Rightarrow> nat \<times> doc_section \<times> span \<Rightarrow> chunk" where
  "chunk_of env decode = (\<lambda>(ordinal, s, x).
     \<lparr>ch_id = kn_chunk env ordinal, ch_ordinal = ordinal, ch_section = sn_id s,
      ch_start = sp_start x, ch_end = sp_end x, ch_tokens = token_estimate (block_text decode x),
      ch_sha256 = kn_sha256 env (sp_block x),
      ch_terms = terms_of (sn_heading s @ [CHR 0x0A] @ block_text decode x) 64\<rparr>)"

definition target_bytes :: "int \<Rightarrow> nat" where
  "target_bytes chunk_target = nat (max 1000 chunk_target)"

definition overlap_bytes :: "int \<Rightarrow> int \<Rightarrow> nat" where
  "overlap_bytes chunk_target chunk_overlap = nat (max 0 (min chunk_overlap (int (target_bytes chunk_target) - 1)))"

definition build_structure ::
  "know_env \<Rightarrow> (string \<Rightarrow> string) \<Rightarrow> int \<Rightarrow> int \<Rightarrow> string \<Rightarrow> doc_section list \<times> chunk list" where
  "build_structure env decode chunk_target chunk_overlap file =
     (let sections = sections_of (kn_section env) decode file;
          parts = concat (map (section_chunks decode (target_bytes chunk_target)
                     (overlap_bytes chunk_target chunk_overlap) file) sections)
      in (sections, map (chunk_of env decode) (List.enumerate 0 parts)))"

section \<open>What the chunks cover\<close>

text \<open>
  The spans of a section: not empty, inside the section, no longer than the target, starting later and
  later, and leaving no gap. Their number is bounded by the length of the section.
\<close>

lemma spans_unfold:
  "spans target overlap file stop cursor = (if stop \<le> cursor then []
     else let block = read_block target file cursor stop in
       if block = [] then []
       else \<lparr>sp_start = cursor, sp_end = cursor + length block, sp_block = block\<rparr> #
         spans target overlap file stop (if stop \<le> cursor + length block then stop
           else max (cursor + 1) (cursor + length block - overlap)))"
  by (subst spans.simps) (simp add: Let_def spans.simps [of _ _ _ stop stop])

lemma span_inside:
  "x \<in> set (spans target overlap file stop cursor) \<Longrightarrow>
     cursor \<le> sp_start x \<and> sp_start x < sp_end x \<and> sp_end x \<le> stop \<and> sp_end x - sp_start x \<le> target \<and>
     sp_block x = take (sp_end x - sp_start x) (drop (sp_start x) file)"
proof (induction "stop - cursor" arbitrary: cursor rule: less_induct)
  case less
  let ?b = "read_block target file cursor stop"
  obtain n where n: "?b = take n (drop cursor file)" using read_block_prefix by blast
  have len: "length ?b \<le> target" "length ?b \<le> stop - cursor"
    using length_read_block [of target _ cursor stop] by auto
  have b: "?b = take (length ?b) (drop cursor file)" unfolding n by (metis append_eq_conv_conj append_take_drop_id)
  from less.prems have nz: "cursor < stop" "?b \<noteq> []"
    by (auto simp: spans_unfold [of _ _ _ _ cursor] Let_def split: if_splits)
  let ?next = "if stop \<le> cursor + length ?b then stop else max (cursor + 1) (cursor + length ?b - overlap)"
  from less.prems nz consider "x = \<lparr>sp_start = cursor, sp_end = cursor + length ?b, sp_block = ?b\<rparr>"
    | "x \<in> set (spans target overlap file stop ?next)"
    by (auto simp: spans_unfold [of _ _ _ _ cursor] Let_def)
  then show ?case
  proof cases
    case 1
    with nz len b show ?thesis by simp
  next
    case 2
    have "stop - ?next < stop - cursor" and "cursor \<le> ?next" using nz(1) by auto
    with less.hyps [OF this(1) 2] show ?thesis by simp
  qed
qed

lemma spans_cover:
  assumes "0 < target" and "stop \<le> length file" and "cursor \<le> i" and "i < stop"
  shows "\<exists>x \<in> set (spans target overlap file stop cursor). sp_start x \<le> i \<and> i < sp_end x"
  using assms(3,4)
proof (induction "stop - cursor" arbitrary: cursor rule: less_induct)
  case less
  let ?b = "read_block target file cursor stop"
  have nz: "cursor < stop" "?b \<noteq> []" using less.prems assms(1,2) by (simp_all add: read_block_Nil)
  let ?next = "if stop \<le> cursor + length ?b then stop else max (cursor + 1) (cursor + length ?b - overlap)"
  have spans: "spans target overlap file stop cursor =
      \<lparr>sp_start = cursor, sp_end = cursor + length ?b, sp_block = ?b\<rparr> # spans target overlap file stop ?next"
    using nz by (simp add: spans_unfold [of _ _ _ _ cursor] Let_def)
  show ?case
  proof (cases "i < cursor + length ?b")
    case True
    with less.prems show ?thesis unfolding spans by simp
  next
    case False
    moreover have "0 < length ?b" using nz by simp
    ultimately have "cursor + 1 \<le> i" by linarith
    with False less.prems(2) nz(1) have "?next \<le> i" "stop - ?next < stop - cursor" by auto
    from less.hyps [OF this(2,1) less.prems(2)] show ?thesis unfolding spans by auto
  qed
qed

lemma spans_number: "length (spans target overlap file stop cursor) \<le> stop - cursor"
proof (induction "stop - cursor" arbitrary: cursor rule: less_induct)
  case less
  show ?case
  proof (cases "stop \<le> cursor \<or> read_block target file cursor stop = []")
    case True
    then show ?thesis by (auto simp: spans_unfold [of _ _ _ _ cursor] Let_def)
  next
    case False
    let ?b = "read_block target file cursor stop"
    let ?next = "if stop \<le> cursor + length ?b then stop else max (cursor + 1) (cursor + length ?b - overlap)"
    have "stop - ?next < stop - cursor" using False by auto
    from less [OF this] this False show ?thesis
      by (simp add: spans_unfold [of _ _ _ _ cursor] Let_def)
  qed
qed

text \<open>The sections of a document lie one after the other and end with the file.\<close>

lemma sections_cover:
  assumes "hs \<noteq> []" and "hd_start (hd hs) \<le> i" and "i < raw_len"
  shows "\<exists>s \<in> set (sections_from ids raw_len ordinal stack hs). sn_start s \<le> i \<and> i < sn_end s"
  using assms
proof (induction hs arbitrary: ordinal stack)
  case (Cons h hs)
  show ?case
  proof (cases hs)
    case Nil
    with Cons.prems show ?thesis by (simp add: Let_def)
  next
    case (Cons g gs)
    show ?thesis
    proof (cases "i < hd_start g")
      case True
      with Cons Cons.prems(2) show ?thesis by (simp add: Let_def)
    next
      case False
      then have "hs \<noteq> []" "hd_start (hd hs) \<le> i" using Cons by simp_all
      from Cons.IH [OF this Cons.prems(3)] show ?thesis
        unfolding sections_from.simps Let_def by (meson list.set_intros(2))
    qed
  qed
qed simp

section \<open>Ranking\<close>

definition lexical_query_terms :: "string \<Rightarrow> string list" where
  "lexical_query_terms query = terms_of query 48"

definition chunk_score :: "string list \<Rightarrow> string list \<Rightarrow> nat" where
  "chunk_score query terms = length (filter (\<lambda>t. t \<in> set terms) query)"

definition ranked_chunks ::
  "chunk_row list \<Rightarrow> string \<Rightarrow> string list \<Rightarrow> nat \<Rightarrow> chunk_row list" where
  "ranked_chunks chunks query selected top_k =
     (if selected \<noteq> []
      then filter (\<lambda>c. case cr_section c of None \<Rightarrow> False | Some i \<Rightarrow> i \<in> set selected) (sort_key cr_ordinal chunks)
      else let terms = lexical_query_terms query;
               score = (\<lambda>c. chunk_score terms (cr_terms c));
               scored = filter (\<lambda>c. score c \<noteq> 0) chunks
           in if terms = [] \<or> scored = [] then take top_k (sort_key cr_ordinal chunks)
              else take top_k (sort_key (\<lambda>c. (- int (score c), int (cr_ordinal c))) scored))"

end
