(* ===== verification/Know_Documents.thy ===== *)
theory Know_Documents
  imports Know_Supersede Know_Structure
begin

text \<open>
  The processing of a document into a canonical text with its index
  (src/src/orkio_v2/services/large_document.py): staging of an upload, canonicalization by media
  type. What the readers of PDF, DOCX, PPTX and XLSX files find, or the exception they raise, is a
  parameter (\<open>readers\<close>), and so are the UTF-8 decoder and encoder; the layout of the canonical text
  is modelled.
\<close>

section \<open>Files\<close>

definition path_name :: "string \<Rightarrow> string" where
  "path_name s = (case rev (filter (\<lambda>p. p \<noteq> [] \<and> p \<noteq> ''.'')
       (py_split (CHR ''/'') (map (\<lambda>c. if c = CHR 0x5C then CHR ''/'' else c) s))) of
     [] \<Rightarrow> [] | p # _ \<Rightarrow> p)"

definition sanitize_filename :: "string \<Rightarrow> know_error + string" where
  "sanitize_filename filename =
     (let safe = path_name (if filename = [] then ''file'' else filename)
      in if safe = [] \<or> safe \<in> {''.'', ''..''} then Inl (Large_Error ''FILENAME_INVALID'' 400)
         else Inr (take 255 safe))"

text \<open>\<open>stage_upload\<close>: the blocks that the request body yields, up to the first empty one.\<close>

fun stage_blocks :: "nat \<Rightarrow> string \<Rightarrow> string list \<Rightarrow> know_error + string" where
  "stage_blocks limit got [] = Inr got"
| "stage_blocks limit got (b # bs) =
     (if b = [] then Inr got
      else if limit < length got + length b then Inl (Large_Error ''FILE_TOO_LARGE'' 413)
      else stage_blocks limit (got @ b) bs)"

definition stage_upload :: "know_env \<Rightarrow> int \<Rightarrow> string list \<Rightarrow> know_error + string \<times> int \<times> string" where
  "stage_upload env max_bytes blocks =
     (if max_bytes \<le> 0 then Inl (Large_Error ''FILE_SIZE_LIMIT_INVALID'' 500)
      else case stage_blocks (nat max_bytes) [] blocks of
             Inl e \<Rightarrow> Inl e
           | Inr data \<Rightarrow> Inr (data, int (length data), kn_sha256 env data))"

section \<open>Canonical text\<close>

record readers =
  rd_decode :: "string \<Rightarrow> string"
  rd_encode :: "string \<Rightarrow> string"
  rd_flushed_newline :: bool
  rd_docx :: "string \<Rightarrow> know_error + string option"
  rd_pptx :: "string \<Rightarrow> know_error + (string \<times> string) list"
  rd_xlsx :: "string \<Rightarrow> know_error + (string \<times> string list list) list"
  rd_pdf :: "string \<Rightarrow> string option list option"

text \<open>The writer: the bytes of the file and the number of characters.\<close>

type_synonym writer = "string \<times> nat"

definition write_text :: "readers \<Rightarrow> string \<Rightarrow> writer \<Rightarrow> writer" where
  "write_text rd value = (\<lambda>(bytes, chars). (bytes @ rd_encode rd value, chars + length value))"

definition write_line :: "readers \<Rightarrow> string \<Rightarrow> writer \<Rightarrow> writer" where
  "write_line rd value = write_text rd (py_rstrip value @ [CHR 0x0A])"

definition line_break :: "char \<Rightarrow> bool" where
  "line_break c \<longleftrightarrow> c \<in> set [CHR 0x0A, CHR 0x0D, CHR 0x0B, CHR 0x0C, CHR 0x1C, CHR 0x1D, CHR 0x1E, CHR 0x85]"

text \<open>The lines of a text that have something left when stripped, stripped.\<close>

definition full_lines :: "string \<Rightarrow> string list" where
  "full_lines s = filter (\<lambda>l. l \<noteq> []) (map py_strip
     (py_split (CHR 0x0A) (map (\<lambda>c. if line_break c then CHR 0x0A else c) s)))"

definition write_lines :: "readers \<Rightarrow> string list \<Rightarrow> writer \<Rightarrow> writer" where
  "write_lines rd lines w = fold (write_line rd) lines w"

definition chars_of :: "string list \<Rightarrow> nat" where
  "chars_of lines = sum_list (map length lines)"

definition write_text_source :: "readers \<Rightarrow> string \<Rightarrow> writer \<Rightarrow> nat \<times> writer" where
  "write_text_source rd source w =
     (let text = rd_decode rd source; w' = write_text rd text w
      in (length text, if snd w' \<noteq> 0 \<and> \<not> rd_flushed_newline rd then write_line rd [] w' else w'))"

definition write_docx :: "readers \<Rightarrow> string \<Rightarrow> writer \<Rightarrow> know_error + nat \<times> writer" where
  "write_docx rd source w = (case rd_docx rd source of
       Inl e \<Rightarrow> Inl e
     | Inr None \<Rightarrow> Inl (Large_Error ''DOCUMENT_DOCX_STRUCTURE_INVALID'' 422)
     | Inr (Some text) \<Rightarrow> let lines = full_lines text in
         Inr (chars_of lines, write_lines rd lines (write_line rd ''# Documento'' w)))"

text \<open>A slide is named \<open>ppt/slides/slide<n>.xml\<close>; the slides are taken in the order of \<open>n\<close>.\<close>

definition slide_digits :: "string \<Rightarrow> string" where
  "slide_digits name = (let tail = drop (length ''ppt/slides/slide'') name in take (length tail - 4) tail)"

definition is_slide :: "string \<Rightarrow> bool" where
  "is_slide name \<longleftrightarrow> py_startswith name ''ppt/slides/slide'' \<and> slide_digits name \<noteq> [] \<and>
     list_all py_is_digit (slide_digits name) \<and>
     name = ''ppt/slides/slide'' @ slide_digits name @ ''.xml''"

definition slides :: "(string \<times> string) list \<Rightarrow> string list" where
  "slides members = map snd (sort_key (\<lambda>(name, text). (nat_of_digits (slide_digits name), name))
     (filter (\<lambda>(name, text). is_slide name) members))"

definition write_slide :: "readers \<Rightarrow> nat \<times> string \<Rightarrow> nat \<times> writer \<Rightarrow> nat \<times> writer" where
  "write_slide rd = (\<lambda>(n, text) (chars, w).
     let lines = full_lines text in
     (chars + chars_of lines,
      write_line rd [] (write_lines rd lines (write_line rd (''## Slide '' @ show_nat n) w))))"

definition write_pptx :: "readers \<Rightarrow> string \<Rightarrow> writer \<Rightarrow> know_error + nat \<times> writer" where
  "write_pptx rd source w = (case rd_pptx rd source of Inl e \<Rightarrow> Inl e
     | Inr members \<Rightarrow> Inr (fold (write_slide rd) (List.enumerate 1 (slides members)) (0, w)))"

definition row_line :: "string list \<Rightarrow> string" where
  "row_line cells = py_rstrip (py_join '' | '' cells)"

definition full_row :: "string \<Rightarrow> bool" where
  "full_row line \<longleftrightarrow> (\<exists>c \<in> set line. c \<noteq> CHR '' '' \<and> c \<noteq> CHR ''|'')"

definition write_sheet :: "readers \<Rightarrow> string \<times> string list list \<Rightarrow> nat \<times> writer \<Rightarrow> nat \<times> writer" where
  "write_sheet rd = (\<lambda>(title, rows) (chars, w).
     let lines = filter full_row (map row_line rows) in
     (chars + chars_of lines, write_line rd [] (write_lines rd lines (write_line rd (''## '' @ title) w))))"

definition write_xlsx :: "readers \<Rightarrow> string \<Rightarrow> writer \<Rightarrow> know_error + nat \<times> writer" where
  "write_xlsx rd source w = (case rd_xlsx rd source of Inl e \<Rightarrow> Inl e
     | Inr sheets \<Rightarrow> Inr (fold (write_sheet rd) sheets (0, w)))"

definition page_heading :: "nat \<Rightarrow> string" where
  "page_heading n = ''## P'' @ [CHR 0xE1] @ ''gina '' @ show_nat n"

definition write_page ::
  "readers \<Rightarrow> nat \<times> string option \<Rightarrow> nat \<times> string list \<times> writer \<Rightarrow> nat \<times> string list \<times> writer" where
  "write_page rd = (\<lambda>(n, page) (chars, warnings, w).
     let w1 = write_line rd (page_heading n) w in
     case page of
       None \<Rightarrow> (chars, warnings @ [''PDF_PAGE_'' @ show_nat n @ ''_EXTRACTION_FAILED''], w1)
     | Some text \<Rightarrow>
         let clean = py_strip (filter (\<lambda>c. c \<noteq> CHR 0x00) text);
             w2 = (if clean = [] then w1 else write_line rd clean w1)
         in (chars + length clean, warnings, write_line rd [] w2))"

definition write_pdf ::
  "readers \<Rightarrow> int \<Rightarrow> string \<Rightarrow> writer \<Rightarrow> know_error + nat \<times> nat \<times> string list \<times> writer" where
  "write_pdf rd max_pages source w = (case rd_pdf rd source of
       None \<Rightarrow> Inl (Large_Error ''DOCUMENT_PDF_EXTRACTION_FAILED'' 422)
     | Some pages \<Rightarrow>
        if max_pages < int (length pages) then Inl (Large_Error ''DOCUMENT_PDF_PAGE_LIMIT_EXCEEDED'' 413)
        else let (chars, warnings, w') = fold (write_page rd) (List.enumerate 1 pages) (0, [], w)
             in if pages \<noteq> [] \<and> chars = 0 then Inl (Large_Error ''DOCUMENT_OCR_REQUIRED'' 422)
                else Inr (chars, length pages, warnings, w'))"

record canonical =
  cn_bytes :: string
  cn_source_chars :: nat
  cn_chars :: nat
  cn_pages :: "nat option"
  cn_warnings :: "string list"

definition text_mime :: "string list" where
  "text_mime = [''text/plain'', ''text/csv'', ''text/markdown'', ''application/json'']"

definition office_mime :: "string \<Rightarrow> string" where
  "office_mime kind = ''application/vnd.openxmlformats-officedocument.'' @ kind"

definition plain_canonical :: "nat \<times> writer \<Rightarrow> canonical" where
  "plain_canonical = (\<lambda>(chars, bytes, n).
     \<lparr>cn_bytes = bytes, cn_source_chars = chars, cn_chars = n, cn_pages = None, cn_warnings = []\<rparr>)"

definition canonicalize_source ::
  "readers \<Rightarrow> int \<Rightarrow> string \<Rightarrow> string \<Rightarrow> string \<Rightarrow> know_error + canonical" where
  "canonicalize_source rd max_pages mime filename source =
     (case sanitize_filename filename of Inl e \<Rightarrow> Inl e | Inr name \<Rightarrow>
      let w = write_line rd [] (write_line rd (''# '' @ name) ([], 0)) in
      if mime \<in> set text_mime then Inr (plain_canonical (write_text_source rd source w))
      else if mime = ''application/pdf'' then
        (case write_pdf rd max_pages source w of
           Inl e \<Rightarrow> Inl e
         | Inr (chars, pages, warnings, w') \<Rightarrow>
             Inr (plain_canonical (chars, w')\<lparr>cn_pages := Some pages, cn_warnings := warnings\<rparr>))
      else if mime = office_mime ''wordprocessingml.document'' then
        map_sum id plain_canonical (write_docx rd source w)
      else if mime = office_mime ''presentationml.presentation'' then
        map_sum id plain_canonical (write_pptx rd source w)
      else if mime = office_mime ''spreadsheetml.sheet'' then
        map_sum id plain_canonical (write_xlsx rd source w)
      else Inl (Large_Error ''DOCUMENT_EXTRACTION_UNSUPPORTED'' 415))"

end
