(* ===== verification/Know_Process.thy ===== *)
theory Know_Process
  imports Know_Documents
begin

text \<open>
  The derivative of a document (src/src/orkio_v2/services/large_document.py): its PENDING row, the
  pipeline that stores the canonical text and its index, the navigator's view and selection, and
  the excerpt of a document that is given to a model. A failure of the pipeline rolls back what it
  wrote to the database and leaves the derivative FAILED or OCR_REQUIRED. The commits of the pipeline
  before the last one are taken to succeed; the last one has the fault of the request.
\<close>

definition canonical_kind :: string where
  "canonical_kind = ''CANONICAL_MARKDOWN''"

definition canonical_key :: "know_doc \<Rightarrow> string" where
  "canonical_key r =
     ''knowledge/derived/'' @ py_lower (scope_value (kd_scope r)) @ ''/'' @ namespace_of (kd_tenant r) @ ''/'' @
     kd_logical r @ ''/v'' @ show_int (kd_version r) @ ''/canonical-v1.md''"

definition get_derivative :: "string \<Rightarrow> know_db \<Rightarrow> derivative option" where
  "get_derivative i d = scalar (\<lambda>v. dv_knowledge v = i \<and> dv_kind v = canonical_kind) (kb_derivatives d)"

definition pending_derivative :: "know_env \<Rightarrow> know_doc \<Rightarrow> derivative" where
  "pending_derivative env r =
     \<lparr>dv_id = kn_derivative env, dv_knowledge = kd_id r, dv_tenant = kd_tenant r, dv_kind = canonical_kind,
      dv_storage_key = None, dv_sha256 = None, dv_size = None, dv_status = ''PENDING'',
      dv_extractor = Some ''patroai-deterministic'', dv_extractor_version = Some ''1'',
      dv_source_chars = None, dv_canonical_chars = None, dv_pages = None, dv_warnings = [],
      dv_created_at = kn_now env, dv_updated_at = kn_now env\<rparr>"

definition commit_world :: "know_world \<Rightarrow> know_world" where
  [session_simps]: "commit_world w = w\<lparr>kw_db := commit (kw_db w)\<rparr>"

definition ensure_pending_derivative ::
  "know_env \<Rightarrow> know_doc \<Rightarrow> know_world \<Rightarrow> derivative \<times> know_world" where
  "ensure_pending_derivative env r w =
     (case get_derivative (kd_id r) (work (kw_db w)) of
        Some v \<Rightarrow> (v, w)
      | None \<Rightarrow> let v = pending_derivative env r in
          (v, commit_world (on_db (\<lambda>d. d\<lparr>kb_derivatives := kb_derivatives d @ [v]\<rparr>) w)))"

definition save_derivative :: "derivative \<Rightarrow> know_db \<Rightarrow> know_db" where
  "save_derivative v d = d\<lparr>kb_derivatives := put_row dv_id v (kb_derivatives d)\<rparr>"

section \<open>The pipeline\<close>

text \<open>The canonical blob: a stored one is kept when its digest is the new one.\<close>

definition store_canonical ::
  "know_env \<Rightarrow> know_faults \<Rightarrow> string \<Rightarrow> string \<Rightarrow> blob_map \<Rightarrow> know_error option \<times> blob_map" where
  "store_canonical env f key data b =
     (case blob_put_if_absent (kf_put f) key data b of
        (Inl e, b') \<Rightarrow> (Some e, b')
      | (Inr True, b') \<Rightarrow> (None, b')
      | (Inr False, b') \<Rightarrow>
          (case blob_get (kf_read f) key b' of
             Inl e \<Rightarrow> (Some e, b')
           | Inr old \<Rightarrow>
               (if kn_sha256 env old \<noteq> kn_sha256 env data
                then (Some (Large_Error ''KNOWLEDGE_CANONICAL_STORAGE_CONFLICT'' 409), b')
                else (None, b'))))"

definition section_rows :: "know_env \<Rightarrow> know_doc \<Rightarrow> string \<Rightarrow> doc_section list \<Rightarrow> section_row list" where
  "section_rows env r dv = map (\<lambda>s.
     \<lparr>sr_id = sn_id s, sr_knowledge = kd_id r, sr_derivative = dv, sr_tenant = kd_tenant r,
      sr_parent = sn_parent s, sr_ordinal = sn_ordinal s, sr_heading = sn_heading s,
      sr_level = sn_level s, sr_page_start = sn_page_start s, sr_page_end = sn_page_end s,
      sr_start = sn_start s, sr_end = sn_end s, sr_tokens = sn_tokens s, sr_created_at = kn_now env\<rparr>)"

definition chunk_rows :: "know_env \<Rightarrow> know_doc \<Rightarrow> string \<Rightarrow> chunk list \<Rightarrow> chunk_row list" where
  "chunk_rows env r dv = map (\<lambda>c.
     \<lparr>cr_id = ch_id c, cr_knowledge = kd_id r, cr_derivative = dv, cr_section = Some (ch_section c),
      cr_tenant = kd_tenant r, cr_ordinal = ch_ordinal c, cr_start = ch_start c, cr_end = ch_end c,
      cr_tokens = ch_tokens c, cr_sha256 = ch_sha256 c, cr_terms = ch_terms c,
      cr_created_at = kn_now env\<rparr>)"

definition replace_structure ::
  "know_env \<Rightarrow> know_doc \<Rightarrow> derivative \<Rightarrow> doc_section list \<Rightarrow> chunk list \<Rightarrow> know_db \<Rightarrow> know_db" where
  "replace_structure env r v sections chunks d =
     save_derivative v (d\<lparr>
       kb_sections := filter (\<lambda>s. sr_knowledge s \<noteq> kd_id r) (kb_sections d) @ section_rows env r (dv_id v) sections,
       kb_chunks := filter (\<lambda>c. cr_knowledge c \<noteq> kd_id r) (kb_chunks d) @ chunk_rows env r (dv_id v) chunks\<rparr>)"

definition ready_derivative :: "know_env \<Rightarrow> know_doc \<Rightarrow> canonical \<Rightarrow> derivative \<Rightarrow> derivative" where
  "ready_derivative env r c v =
     v\<lparr>dv_storage_key := Some (canonical_key r), dv_sha256 := Some (kn_sha256 env (cn_bytes c)),
       dv_size := Some (int (length (cn_bytes c))),
       dv_status := (if cn_warnings c = [] then ''READY'' else ''PARTIAL''),
       dv_extractor := Some ''patroai-deterministic'', dv_extractor_version := Some ''1'',
       dv_source_chars := Some (int (cn_source_chars c)), dv_canonical_chars := Some (int (cn_chars c)),
       dv_pages := map_option int (cn_pages c), dv_warnings := cn_warnings c, dv_updated_at := kn_now env\<rparr>"

record pipeline =
  pl_max_pages :: int
  pl_chunk_target :: int
  pl_chunk_overlap :: int

text \<open>The body of the try statement: the canonical text, its blob, the index and the last commit.\<close>

definition run_pipeline ::
  "know_env \<Rightarrow> know_faults \<Rightarrow> readers \<Rightarrow> pipeline \<Rightarrow> know_doc \<Rightarrow> derivative \<Rightarrow> know_world \<Rightarrow>
   (know_error + derivative) \<times> know_world" where
  "run_pipeline env f rd pl r v w =
     (case blob_get (kf_read f) (kd_storage_key r) (kw_blobs w) of Inl e \<Rightarrow> (Inl e, w) | Inr source \<Rightarrow>
      if kn_sha256 env source \<noteq> kd_sha256 r then (Inl (Large_Error ''KNOWLEDGE_SHA256_MISMATCH'' 409), w)
      else case canonicalize_source rd (pl_max_pages pl) (kd_mime r) (kd_filename r) source of
        Inl e \<Rightarrow> (Inl e, w)
      | Inr c \<Rightarrow>
        let b = (case dv_storage_key v of
                   None \<Rightarrow> kw_blobs w
                 | Some k \<Rightarrow> if k \<noteq> [] \<and> k \<noteq> canonical_key r then snd (blob_delete (kf_delete f) k (kw_blobs w))
                             else kw_blobs w)
        in case store_canonical env f (canonical_key r) (cn_bytes c) b of
             (Some e, b') \<Rightarrow> (Inl e, w\<lparr>kw_blobs := b'\<rparr>)
           | (None, b') \<Rightarrow>
             let (sections, chunks) = build_structure env (rd_decode rd) (pl_chunk_target pl) (pl_chunk_overlap pl) (cn_bytes c);
                 v' = ready_derivative env r c v
             in case try_commit (kf_commit f)
                       (on_db (replace_structure env r v' sections chunks) (w\<lparr>kw_blobs := b'\<rparr>)) of
                  (Some e, w') \<Rightarrow> (Inl e, w')
                | (None, w') \<Rightarrow> (Inr v', w'))"

definition failed_derivative :: "know_env \<Rightarrow> string \<Rightarrow> string \<Rightarrow> derivative \<Rightarrow> derivative" where
  "failed_derivative env status warning v =
     v\<lparr>dv_status := status, dv_warnings := [warning], dv_updated_at := kn_now env\<rparr>"

definition canonicalization_failed :: know_error where
  "canonicalization_failed = Large_Error ''KNOWLEDGE_CANONICALIZATION_FAILED'' 500"

definition process_document ::
  "know_env \<Rightarrow> know_faults \<Rightarrow> readers \<Rightarrow> pipeline \<Rightarrow> know_doc \<Rightarrow> know_world \<Rightarrow>
   (know_error + derivative) \<times> know_world" where
  "process_document env f rd pl r w =
     (let (v0, w0) = ensure_pending_derivative env r w;
          v = v0\<lparr>dv_status := ''PROCESSING'', dv_updated_at := kn_now env\<rparr>;
          w1 = commit_world (on_db (save_derivative v) w0);
          fail = (\<lambda>status warning w'.
            let v' = (case scalar (\<lambda>x. dv_id x = dv_id v) (kb_derivatives (work (kw_db (undo w')))) of
                        None \<Rightarrow> v | Some x \<Rightarrow> x)
            in commit_world (on_db (save_derivative (failed_derivative env status warning v')) (undo w')))
      in case run_pipeline env f rd pl r v w1 of
           (Inr v', w') \<Rightarrow> (Inr v', w')
         | (Inl (Large_Error code status), w') \<Rightarrow>
             (Inl (Large_Error code status),
              fail (if code = ''DOCUMENT_OCR_REQUIRED'' then ''OCR_REQUIRED'' else ''FAILED'') code w')
         | (Inl e, w') \<Rightarrow> (Inl canonicalization_failed, fail ''FAILED'' ''KNOWLEDGE_CANONICALIZATION_FAILED'' w'))"

section \<open>Selections\<close>

definition own_selection :: "string \<Rightarrow> string \<Rightarrow> string \<Rightarrow> selection \<Rightarrow> bool" where
  "own_selection i tenant user s \<longleftrightarrow> se_knowledge s = i \<and> se_tenant s = tenant \<and> se_user s = user"

definition get_selection :: "string \<Rightarrow> string \<Rightarrow> string \<Rightarrow> know_db \<Rightarrow> selection option" where
  "get_selection i tenant user d = scalar (own_selection i tenant user) (kb_selections d)"

definition save_selection ::
  "know_env \<Rightarrow> know_doc \<Rightarrow> principal \<Rightarrow> string \<Rightarrow> string list \<Rightarrow> know_world \<Rightarrow>
   (know_error + selection) \<times> know_world" where
  "save_selection env r p mode section_ids w =
     (let mode = py_upper (py_strip mode) in
      if mode \<notin> {''MANUAL'', ''AUTO''} then (Inl (Large_Error ''KNOWLEDGE_SELECTION_MODE_INVALID'' 422), w)
      else
        let d = work (kw_db w);
            known = map sr_id (filter (\<lambda>s. sr_knowledge s = kd_id r) (kb_sections d));
            requested = filter (\<lambda>i. i \<noteq> []) section_ids
        in if \<exists>i \<in> set requested. i \<notin> set known
           then (Inl (Large_Error ''KNOWLEDGE_SELECTION_SECTION_INVALID'' 422), w)
           else case get_selection (kd_id r) (pr_tenant_id p) (pr_user_id p) d of
                  None \<Rightarrow>
                    let s = \<lparr>se_id = kn_selection env, se_knowledge = kd_id r, se_tenant = pr_tenant_id p,
                             se_user = pr_user_id p, se_mode = mode, se_sections = requested,
                             se_updated_at = kn_now env\<rparr>
                    in (Inr s, commit_world (on_db (\<lambda>d. d\<lparr>kb_selections := kb_selections d @ [s]\<rparr>) w))
                | Some s0 \<Rightarrow>
                    let s = s0\<lparr>se_mode := mode, se_sections := requested, se_updated_at := kn_now env\<rparr>
                    in (Inr s, commit_world (on_db (\<lambda>d. d\<lparr>kb_selections := put_row se_id s (kb_selections d)\<rparr>) w)))"

section \<open>The navigator\<close>

definition navigator_not_found :: know_error where
  "navigator_not_found = Large_Error ''KNOWLEDGE_NOT_FOUND'' 404"

definition visible_document_for_navigator :: "principal \<Rightarrow> string \<Rightarrow> know_db \<Rightarrow> know_error + know_doc" where
  "visible_document_for_navigator p i d =
     (case scalar (\<lambda>r. kd_id r = i) (kb_docs d) of
        None \<Rightarrow> Inl navigator_not_found
      | Some r \<Rightarrow>
          if kd_status r \<notin> {Active, Draft} then Inl navigator_not_found
          else case kd_scope r of
            Personal \<Rightarrow>
              (if kd_tenant r \<noteq> Some (pr_tenant_id p) \<or> kd_owner r \<noteq> Some (pr_user_id p)
               then Inl navigator_not_found else Inr r)
          | Institutional \<Rightarrow>
              (if kd_tenant r \<noteq> Some (pr_tenant_id p) then Inl navigator_not_found
               else if kd_status r = Draft then get_managed_document p i d else Inr r)
          | Platform \<Rightarrow>
              (if kd_tenant r \<noteq> None then Inl navigator_not_found
               else if kd_status r = Draft then get_managed_document p i d else Inr r))"

section \<open>The excerpt of a document\<close>

text \<open>\<open>db.scalars(...).order_by(ordinal)\<close> for the chunks and sections of a document.\<close>

definition chunks_of :: "string \<Rightarrow> know_db \<Rightarrow> chunk_row list" where
  "chunks_of i d = sort_key cr_ordinal (filter (\<lambda>c. cr_knowledge c = i) (kb_chunks d))"

definition sections_rows_of :: "string \<Rightarrow> know_db \<Rightarrow> section_row list" where
  "sections_rows_of i d = sort_key sr_ordinal (filter (\<lambda>s. sr_knowledge s = i) (kb_sections d))"

text \<open>The loop over the ranked chunks: pieces, characters given, whether something was cut.\<close>

fun excerpt ::
  "know_env \<Rightarrow> (string \<Rightarrow> string) \<Rightarrow> (nat \<Rightarrow> nat \<Rightarrow> know_error + string) \<Rightarrow> nat \<Rightarrow> (nat \<times> nat) list \<Rightarrow>
   string list \<Rightarrow> nat \<Rightarrow> bool \<Rightarrow> chunk_row list \<Rightarrow> know_error + string list \<times> nat \<times> bool" where
  "excerpt env decode fetch limit seen pieces provided trunc [] = Inr (pieces, provided, trunc)"
| "excerpt env decode fetch limit seen pieces provided trunc (c # cs) =
     (if limit \<le> provided then Inr (pieces, provided, True)
      else if (cr_start c, cr_end c) \<in> set seen then excerpt env decode fetch limit seen pieces provided trunc cs
      else case fetch (cr_start c) (cr_end c) of Inl e \<Rightarrow> Inl e | Inr raw \<Rightarrow>
        if kn_sha256 env raw \<noteq> cr_sha256 c
        then Inl (Large_Error ''KNOWLEDGE_CANONICAL_CHUNK_SHA256_MISMATCH'' 409)
        else let text = py_strip (decode raw); remaining = limit - provided;
                 short = (if remaining < length text then py_rstrip (take remaining text) else text)
             in excerpt env decode fetch limit ((cr_start c, cr_end c) # seen)
                  (if short = [] then pieces else pieces @ [short]) (provided + length short)
                  (trunc \<or> remaining < length text) cs)"

definition canonical_context_for_document ::
  "know_env \<Rightarrow> know_faults \<Rightarrow> (string \<Rightarrow> string) \<Rightarrow> know_doc \<Rightarrow> string \<Rightarrow> string \<Rightarrow> string \<Rightarrow> nat \<Rightarrow> int \<Rightarrow>
   know_world \<Rightarrow> know_error + (string \<times> nat \<times> bool) option" where
  "canonical_context_for_document env f decode r tenant user query max_chars top_k w =
     (let d = work (kw_db w) in
      case get_derivative (kd_id r) d of None \<Rightarrow> Inr None | Some v \<Rightarrow>
      case dv_storage_key v of None \<Rightarrow> Inr None | Some key \<Rightarrow>
      if dv_status v \<notin> {''READY'', ''PARTIAL''} \<or> key = [] then Inr None
      else
        let chunks = chunks_of (kd_id r) d;
            selected = (case get_selection (kd_id r) tenant user d of
                          None \<Rightarrow> [] | Some s \<Rightarrow> if se_mode s = ''MANUAL'' then se_sections s else []);
            ranked = ranked_chunks chunks query selected (nat (max 1 top_k))
        in if chunks = [] then Inr None
           else case excerpt env decode (\<lambda>i j. blob_read_range (kf_read f) key i j (kw_blobs w)) max_chars
                       [] [] 0 False ranked of
                  Inl e \<Rightarrow> Inl e
                | Inr (pieces, provided, trunc) \<Rightarrow>
                    (if pieces = [] then Inr None
                     else Inr (Some (py_join [CHR 0x0A, CHR 0x0A] pieces, provided,
                            trunc \<or> length ranked < length chunks))))"

end
