(* ===== verification/Doc_Extraction.thy ===== *)
theory Doc_Extraction
  imports Know_Model
begin

text \<open>
  The extraction of text from an uploaded file (src/src/orkio_v2/services/document_context.py): the
  check of the first bytes against the media type, the layout of what the readers of each format
  find, and the normal form of the text. The readers are parameters; \<open>None\<close> is an exception of the
  reader.
\<close>

record doc_readers =
  dr_utf8_sig :: "string \<Rightarrow> string option"
  dr_reformat_json :: "string \<Rightarrow> string option"
  dr_zip_names :: "string \<Rightarrow> string list option"
  dr_docx :: "string \<Rightarrow> string + string list list"
  dr_pptx :: "string \<Rightarrow> string list option"
  dr_xlsx :: "string \<Rightarrow> string option list list option"
  dr_pdf :: "string \<Rightarrow> string list option"

definition plain_mime :: "string list" where
  "plain_mime = [''text/plain'', ''text/csv'', ''text/markdown'', ''application/json'']"

definition openxml_mime :: "string \<Rightarrow> string" where
  "openxml_mime kind = ''application/vnd.openxmlformats-officedocument.'' @ kind"

definition docx_mime :: string where
  "docx_mime = openxml_mime ''wordprocessingml.document''"

section \<open>The normal form of a text\<close>

text \<open>A carriage return, with the line feed that may follow it, becomes a line feed.\<close>

fun unify_breaks :: "bool \<Rightarrow> string \<Rightarrow> string" where
  "unify_breaks after [] = []"
| "unify_breaks after (c # cs) =
     (if c = CHR 0x0D then CHR 0x0A # unify_breaks True cs
      else if c = CHR 0x0A \<and> after then unify_breaks False cs
      else c # unify_breaks False cs)"

text \<open>A run of spaces and tabs becomes one space; three or more line breaks become two.\<close>

fun squeeze_blanks :: "bool \<Rightarrow> string \<Rightarrow> string" where
  "squeeze_blanks after [] = []"
| "squeeze_blanks after (c # cs) =
     (if c = CHR '' '' \<or> c = CHR 0x09
      then (if after then squeeze_blanks True cs else CHR '' '' # squeeze_blanks True cs)
      else c # squeeze_blanks False cs)"

fun squeeze_breaks :: "nat \<Rightarrow> string \<Rightarrow> string" where
  "squeeze_breaks n [] = []"
| "squeeze_breaks n (c # cs) =
     (if c = CHR 0x0A
      then (if 2 \<le> n then squeeze_breaks n cs else c # squeeze_breaks (Suc n) cs)
      else c # squeeze_breaks 0 cs)"

definition normalise_text :: "string \<Rightarrow> string" where
  "normalise_text value =
     py_strip (squeeze_breaks 0 (squeeze_blanks False (unify_breaks False (filter (\<lambda>c. c \<noteq> CHR 0x00) value))))"

section \<open>Extraction\<close>

definition zip_magic :: string where
  "zip_magic = ''PK'' @ [CHR 0x03, CHR 0x04]"

definition validate_magic :: "doc_readers \<Rightarrow> string \<Rightarrow> string \<Rightarrow> string option" where
  "validate_magic rd mime raw =
     (if mime = ''application/pdf'' \<and> \<not> py_startswith raw ''%PDF-'' then Some ''DOCUMENT_MAGIC_MISMATCH''
      else if mime = docx_mime \<and> \<not> py_startswith raw zip_magic then Some ''DOCUMENT_MAGIC_MISMATCH''
      else if mime = docx_mime \<and>
        (case dr_zip_names rd raw of None \<Rightarrow> True
         | Some names \<Rightarrow> ''[Content_Types].xml'' \<notin> set names \<or> ''word/document.xml'' \<notin> set names)
      then Some ''DOCUMENT_CONTAINER_INVALID''
      else if mime \<in> set plain_mime \<and> CHR 0x00 \<in> set (take 4096 raw)
      then Some ''DOCUMENT_BINARY_CONTENT_REJECTED''
      else None)"

definition extract_plain :: "doc_readers \<Rightarrow> string \<Rightarrow> string \<Rightarrow> string + string" where
  "extract_plain rd mime raw = (case dr_utf8_sig rd raw of
       None \<Rightarrow> Inl ''DOCUMENT_TEXT_ENCODING_UNSUPPORTED''
     | Some text \<Rightarrow>
         if mime = ''application/json''
         then (case dr_reformat_json rd text of None \<Rightarrow> Inl ''DOCUMENT_JSON_INVALID'' | Some t \<Rightarrow> Inr t)
         else Inr text)"

definition extract_docx :: "doc_readers \<Rightarrow> string \<Rightarrow> string + string" where
  "extract_docx rd raw = (case dr_docx rd raw of Inl e \<Rightarrow> Inl e | Inr paragraphs \<Rightarrow>
     Inr (py_join [CHR 0x0A] (filter (\<lambda>l. l \<noteq> []) (map (\<lambda>parts. py_strip (concat parts)) paragraphs))))"

definition extract_pptx :: "doc_readers \<Rightarrow> string \<Rightarrow> string + string" where
  "extract_pptx rd raw = (case dr_pptx rd raw of
       None \<Rightarrow> Inl ''DOCUMENT_PPTX_EXTRACTION_FAILED''
     | Some texts \<Rightarrow> Inr (py_join [CHR 0x0A] (filter (\<lambda>l. l \<noteq> []) (map py_strip texts))))"

definition full_cells :: "string option list \<Rightarrow> string list" where
  "full_cells cells = concat (map (\<lambda>c. case c of None \<Rightarrow> [] | Some v \<Rightarrow> if py_strip v = [] then [] else [v]) cells)"

definition extract_xlsx :: "doc_readers \<Rightarrow> string \<Rightarrow> string + string" where
  "extract_xlsx rd raw = (case dr_xlsx rd raw of
       None \<Rightarrow> Inl ''DOCUMENT_XLSX_EXTRACTION_FAILED''
     | Some rows \<Rightarrow> Inr (py_join [CHR 0x0A] (map (py_join '' | '') (filter (\<lambda>r. r \<noteq> []) (map full_cells rows)))))"

definition extract_pdf :: "doc_readers \<Rightarrow> int \<Rightarrow> string \<Rightarrow> string + string" where
  "extract_pdf rd max_pages raw = (case dr_pdf rd raw of
       None \<Rightarrow> Inl ''DOCUMENT_PDF_EXTRACTION_FAILED''
     | Some pages \<Rightarrow> Inr (py_join [CHR 0x0A] (take (nat max_pages) pages)))"

definition extract_document ::
  "doc_readers \<Rightarrow> int \<Rightarrow> string \<Rightarrow> string \<Rightarrow> string + string" where
  "extract_document rd max_pages mime raw =
     (case validate_magic rd mime raw of Some e \<Rightarrow> Inl e | None \<Rightarrow>
      case (if mime \<in> set plain_mime then extract_plain rd mime raw
            else if mime = docx_mime then extract_docx rd raw
            else if mime = openxml_mime ''presentationml.presentation'' then extract_pptx rd raw
            else if mime = openxml_mime ''spreadsheetml.sheet'' then extract_xlsx rd raw
            else if mime = ''application/pdf'' then extract_pdf rd max_pages raw
            else Inl ''DOCUMENT_EXTRACTION_UNSUPPORTED'') of
        Inl e \<Rightarrow> Inl e
      | Inr text \<Rightarrow> let t = normalise_text text in
          if t = [] then Inl ''DOCUMENT_EXTRACTION_EMPTY'' else Inr t)"

definition truncation_marker :: string where
  "truncation_marker = [CHR 0x0A] @ ''[document context truncated]''"

definition extract_document_text ::
  "doc_readers \<Rightarrow> int \<Rightarrow> nat \<Rightarrow> string \<Rightarrow> string \<Rightarrow> string + string" where
  "extract_document_text rd max_pages max_chars mime raw =
     (case extract_document rd max_pages mime raw of Inl e \<Rightarrow> Inl e | Inr text \<Rightarrow>
      if max_chars < length text then Inr (py_rstrip (take max_chars text) @ truncation_marker) else Inr text)"

section \<open>Lemmas\<close>

fun normal_from :: "bool \<Rightarrow> nat \<Rightarrow> string \<Rightarrow> bool" where
  "normal_from after n [] = True"
| "normal_from after n (c # cs) =
     (c \<noteq> CHR 0x00 \<and> c \<noteq> CHR 0x0D \<and> c \<noteq> CHR 0x09 \<and> (c = CHR '' '' \<longrightarrow> \<not> after) \<and> (c = CHR 0x0A \<longrightarrow> n < 2) \<and>
      normal_from (c = CHR '' '') (if c = CHR 0x0A then Suc n else 0) cs)"

text \<open>A text in normal form: no control break, no double blank, no empty line twice, no margin.\<close>

definition normal_text :: "string \<Rightarrow> bool" where
  "normal_text s \<longleftrightarrow> normal_from False 0 s \<and> py_strip s = s"

lemma set_unify_breaks: "c \<in> set (unify_breaks a s) \<Longrightarrow> c \<noteq> CHR 0x0D \<and> (c = CHR 0x0A \<or> c \<in> set s)"
  by (induction a s rule: unify_breaks.induct) (auto split: if_splits list.splits)

lemma set_squeeze_blanks: "c \<in> set (squeeze_blanks a s) \<Longrightarrow> c \<noteq> CHR 0x09 \<and> (c = CHR '' '' \<or> c \<in> set s)"
  by (induction a s rule: squeeze_blanks.induct) (auto split: if_splits)

fun single_blanks :: "bool \<Rightarrow> string \<Rightarrow> bool" where
  "single_blanks after [] = True"
| "single_blanks after (c # cs) = ((c = CHR '' '' \<longrightarrow> \<not> after) \<and> single_blanks (c = CHR '' '') cs)"

lemma squeeze_blanks_single: "single_blanks a (squeeze_blanks a s)"
  by (induction a s rule: squeeze_blanks.induct) auto

lemma single_blanks_weaken: "single_blanks True s \<Longrightarrow> single_blanks a s"
  by (cases s) auto

lemma squeeze_breaks_normal:
  "\<lbrakk>\<forall>c \<in> set s. c \<noteq> CHR 0x00 \<and> c \<noteq> CHR 0x0D \<and> c \<noteq> CHR 0x09; single_blanks a s; 0 < n \<longrightarrow> \<not> a\<rbrakk>
   \<Longrightarrow> normal_from a n (squeeze_breaks n s)"
proof (induction n s arbitrary: a rule: squeeze_breaks.induct)
  case (2 n c cs)
  show ?case
  proof (cases "c = CHR 0x0A")
    case True
    with 2 show ?thesis by (cases "2 \<le> n") simp_all
  next
    case False
    with "2.IH"(3) [OF False, of "c = CHR '' ''"] "2.prems" show ?thesis by simp
  qed
qed simp

lemma normal_from_weaken: "normal_from a n s \<Longrightarrow> b \<le> a \<Longrightarrow> m \<le> n \<Longrightarrow> normal_from b m s"
proof (induction s arbitrary: a b n m)
  case (Cons c s)
  show ?case
  proof (cases "c = CHR 0x0A")
    case True
    with Cons.prems Cons.IH [of False "Suc n" False "Suc m"] show ?thesis by auto
  next
    case False
    with Cons.prems show ?thesis by auto
  qed
qed simp

lemma normal_from_dropWhile: "normal_from a n s \<Longrightarrow> normal_from False 0 (dropWhile P s)"
proof (induction s arbitrary: a n)
  case (Cons c s)
  show ?case
  proof (cases "P c")
    case True
    with Cons.IH [of "c = CHR '' ''" "if c = CHR 0x0A then Suc n else 0"] Cons.prems show ?thesis
      by (simp only: normal_from.simps dropWhile.simps if_True)
  next
    case False
    with normal_from_weaken [OF Cons.prems, of False 0] show ?thesis by simp
  qed
qed simp

lemma normal_from_take: "normal_from a n s \<Longrightarrow> normal_from a n (take k s)"
  by (induction s arbitrary: a n k) (auto simp: take_Cons split: nat.split)

lemma normal_from_strip: "normal_from a n s \<Longrightarrow> normal_from False 0 (py_strip s)"
  unfolding py_strip_def py_lstrip_def
  using py_rstrip_eq_take [of "dropWhile py_space s"] normal_from_dropWhile [of a n s py_space]
  by (metis normal_from_take)

lemma normal_text_normalise: "normal_text (normalise_text value)"
proof -
  let ?u = "unify_breaks False (filter (\<lambda>c. c \<noteq> CHR 0x00) value)"
  have "\<forall>c \<in> set (squeeze_blanks False ?u). c \<noteq> CHR 0x00 \<and> c \<noteq> CHR 0x0D \<and> c \<noteq> CHR 0x09"
    by (auto dest!: set_squeeze_blanks set_unify_breaks)
  then have "normal_from False 0 (squeeze_breaks 0 (squeeze_blanks False ?u))"
    by (rule squeeze_breaks_normal [OF _ squeeze_blanks_single]) simp
  then show ?thesis
    unfolding normal_text_def normalise_text_def by (simp add: normal_from_strip)
qed

text \<open>A text in normal form is not changed.\<close>

lemma unify_breaks_normal: "normal_from a n s \<Longrightarrow> unify_breaks False s = s"
  by (induction s arbitrary: a n) auto

lemma squeeze_blanks_normal: "normal_from a n s \<Longrightarrow> squeeze_blanks a s = s"
  by (induction s arbitrary: a n) auto

lemma squeeze_breaks_id: "normal_from a n s \<Longrightarrow> squeeze_breaks n s = s"
  by (induction s arbitrary: a n) auto

lemma filter_normal: "normal_from a n s \<Longrightarrow> filter (\<lambda>c. c \<noteq> CHR 0x00) s = s"
  by (induction s arbitrary: a n) auto

lemma normalise_normal: "normal_text s \<Longrightarrow> normalise_text s = s"
  by (auto simp: normal_text_def normalise_text_def filter_normal unify_breaks_normal squeeze_blanks_normal
      squeeze_breaks_id)

end
