(* ===== verification/Know_Retrieval.thy ===== *)
theory Know_Retrieval
  imports Know_Process Doc_Extraction
begin

text \<open>
  The governed context of a model call (src/src/orkio_v2/services/knowledge_retrieval.py): which
  documents a user's request may read, their order in layers, the budgets of files and characters,
  and the audit of every document used, committed before the context is returned. The text of a
  source comes from the canonical excerpt when selective context is on, else from the checked blob.
  A layer is given by its name and its blocks; the fixed words around them are not modelled.
\<close>

record know_settings =
  ks_plane_enabled :: bool
  ks_large_enabled :: bool
  ks_selective :: bool
  ks_max_files :: int
  ks_max_chars :: int
  ks_per_file :: int
  ks_top_k :: int
  ks_max_upload :: int
  ks_large_max_upload :: int
  ks_auto_process :: int
  ks_pdf_pages :: int
  ks_pipeline :: pipeline

definition active_now :: "instant \<Rightarrow> know_doc \<Rightarrow> bool" where
  "active_now now r \<longleftrightarrow> kd_status r = Active \<and>
     (case kd_effective_from r of None \<Rightarrow> True | Some t \<Rightarrow> t \<le> now) \<and>
     (case kd_expires_at r of None \<Rightarrow> True | Some t \<Rightarrow> now < t)"

definition purpose_allowed :: "string \<Rightarrow> know_doc \<Rightarrow> bool" where
  "purpose_allowed purpose r \<longleftrightarrow> purpose \<in> set (map (\<lambda>x. py_lower (py_strip x)) (kd_purposes r))"

definition readable :: "string \<Rightarrow> string option \<Rightarrow> know_doc \<Rightarrow> bool" where
  "readable tenant user r \<longleftrightarrow>
     (kd_scope r = Platform \<and> kd_tenant r = None) \<or>
     (kd_scope r = Institutional \<and> kd_tenant r = Some tenant) \<or>
     (case user of None \<Rightarrow> False | Some u \<Rightarrow> u \<noteq> [] \<and>
        kd_scope r = Personal \<and> kd_tenant r = Some tenant \<and> kd_owner r = Some u)"

definition candidate_documents :: "string \<Rightarrow> string option \<Rightarrow> know_db \<Rightarrow> know_doc list" where
  "candidate_documents tenant user d =
     sort_key (\<lambda>r. (scope_value (kd_scope r), kd_logical r, - kd_version r))
       (filter (\<lambda>r. kd_status r = Active \<and> readable tenant user r) (kb_docs d))"

definition targeted :: "know_doc \<Rightarrow> bool" where
  "targeted r \<longleftrightarrow> (case kd_agent r of None \<Rightarrow> False | Some a \<Rightarrow> a \<noteq> [])"

definition ordered_layers :: "string option \<Rightarrow> know_doc list \<Rightarrow> (string \<times> know_doc list) list" where
  "ordered_layers agent docs =
     [(''PATROAI_PLATFORM'', filter (\<lambda>r. \<not> targeted r \<and> kd_scope r = Platform) docs),
      (''INSTITUTIONAL'', filter (\<lambda>r. \<not> targeted r \<and> kd_scope r = Institutional) docs),
      (''AGENT_SCOPED'', filter (\<lambda>r. targeted r \<and> kd_agent r = agent) docs),
      (''PERSONAL'', filter (\<lambda>r. \<not> targeted r \<and> kd_scope r = Personal) docs)]"

section \<open>The budget\<close>

record budget =
  bg_used :: "know_doc list"
  bg_provided :: nat
  bg_truncated :: bool

text \<open>One source: \<open>load limit r\<close> is its text and whether the excerpt was cut, or an error (skipped).\<close>

definition block_of :: "know_doc \<Rightarrow> string \<Rightarrow> string" where
  "block_of r visible =
     ''--- knowledge:'' @ kd_id r @ '' logical:'' @ kd_logical r @ '' version:'' @ show_int (kd_version r) @
     '' scope:'' @ scope_value (kd_scope r) @ '' classification:'' @ kd_classification r @ '' ---'' @
     [CHR 0x0A] @ visible"

definition visible_part :: "nat \<Rightarrow> nat \<Rightarrow> string \<Rightarrow> string" where
  "visible_part remaining per_file full = take remaining (take per_file full)"

fun take_sources ::
  "nat \<Rightarrow> nat \<Rightarrow> nat \<Rightarrow> (nat \<Rightarrow> know_doc \<Rightarrow> know_error + string \<times> bool) \<Rightarrow> know_doc list \<Rightarrow>
   budget \<Rightarrow> string list \<Rightarrow> budget \<times> string list" where
  "take_sources max_files max_chars per_file load [] b blocks = (b, blocks)"
| "take_sources max_files max_chars per_file load (r # rs) b blocks =
     (let remaining = max_chars - bg_provided b in
      if max_files \<le> length (bg_used b) \<or> remaining = 0 then (b\<lparr>bg_truncated := True\<rparr>, blocks)
      else case load (min per_file remaining) r of
        Inl e \<Rightarrow> take_sources max_files max_chars per_file load rs b blocks
      | Inr (full, trunc) \<Rightarrow>
          let visible = visible_part remaining per_file full;
              trunc' = (trunc \<or> per_file < length full \<or> length visible < min (length full) per_file \<or> visible = [])
          in if visible = []
             then take_sources max_files max_chars per_file load rs (b\<lparr>bg_truncated := True\<rparr>) blocks
             else take_sources max_files max_chars per_file load rs
               \<lparr>bg_used = bg_used b @ [r], bg_provided = bg_provided b + length visible,
                bg_truncated = (bg_truncated b \<or> trunc')\<rparr> (blocks @ [block_of r visible]))"

fun take_layers ::
  "nat \<Rightarrow> nat \<Rightarrow> nat \<Rightarrow> (nat \<Rightarrow> know_doc \<Rightarrow> know_error + string \<times> bool) \<Rightarrow> (string \<times> know_doc list) list \<Rightarrow>
   budget \<Rightarrow> (string \<times> string list) list \<Rightarrow> budget \<times> (string \<times> string list) list" where
  "take_layers max_files max_chars per_file load [] b messages = (b, messages)"
| "take_layers max_files max_chars per_file load ((name, docs) # layers) b messages =
     (let (b', blocks) = take_sources max_files max_chars per_file load docs b [];
          messages' = (if blocks = [] then messages else messages @ [(name, blocks)])
      in if max_files \<le> length (bg_used b') \<or> max_chars \<le> bg_provided b' then (b', messages')
         else take_layers max_files max_chars per_file load layers b' messages')"

section \<open>The context\<close>

text \<open>The text of a source: the canonical excerpt, or the whole text of the checked blob.\<close>

definition load_source ::
  "know_env \<Rightarrow> know_faults \<Rightarrow> know_settings \<Rightarrow> readers \<Rightarrow> doc_readers \<Rightarrow> string \<Rightarrow> string option \<Rightarrow> string \<Rightarrow>
   know_world \<Rightarrow> nat \<Rightarrow> know_doc \<Rightarrow> know_error + string \<times> bool" where
  "load_source env f st rd drd tenant user query w limit r =
     (case (if ks_selective st
            then canonical_context_for_document env f (rd_decode rd) r tenant
                   (case user of None \<Rightarrow> [] | Some u \<Rightarrow> u) query limit (ks_top_k st) w
            else Inr None) of
        Inl e \<Rightarrow> Inl e
      | Inr (Some (text, provided, trunc)) \<Rightarrow> Inr (text, trunc)
      | Inr None \<Rightarrow>
          (case blob_get (kf_read f) (kd_storage_key r) (kw_blobs w) of Inl e \<Rightarrow> Inl e | Inr raw \<Rightarrow>
           if kn_sha256 env raw \<noteq> kd_sha256 r then Inl (Retrieval_Error ''KNOWLEDGE_SHA256_MISMATCH'')
           else case extract_document drd (ks_pdf_pages st) (kd_mime r) raw of
                  Inl e \<Rightarrow> Inl (Context_Error e) | Inr text \<Rightarrow> Inr (text, False)))"

record context_request =
  cx_tenant :: string
  cx_user :: "string option"
  cx_purpose :: string
  cx_execution :: string
  cx_thread :: "string option"
  cx_agent :: "string option"
  cx_query :: string

record context_bundle =
  cb_messages :: "(string \<times> string list) list"
  cb_used_ids :: "string list"
  cb_used_versions :: "(string \<times> int) list"
  cb_provided :: nat
  cb_truncated :: bool

definition eligible :: "instant \<Rightarrow> string \<Rightarrow> context_request \<Rightarrow> know_db \<Rightarrow> know_doc list" where
  "eligible now purpose q d =
     filter (\<lambda>r. active_now now r \<and> purpose_allowed purpose r) (candidate_documents (cx_tenant q) (cx_user q) d)"

definition build_knowledge_context ::
  "know_env \<Rightarrow> know_faults \<Rightarrow> know_settings \<Rightarrow> readers \<Rightarrow> doc_readers \<Rightarrow> context_request \<Rightarrow> know_world \<Rightarrow>
   (know_error + context_bundle option) \<times> know_world" where
  "build_knowledge_context env f st rd drd q w =
     (if \<not> ks_plane_enabled st then (Inr None, w) else
      let purpose = py_lower (py_strip (cx_purpose q)) in
      if purpose \<notin> {''chat'', ''team'', ''realtime''}
      then (Inl (Retrieval_Error ''KNOWLEDGE_PURPOSE_INVALID''), w) else
      let candidates = eligible (kn_now env) purpose q (work (kw_db w)) in
      if candidates = [] then (Inr None, w) else
      let (b, messages) = take_layers (nat (ks_max_files st)) (nat (ks_max_chars st)) (nat (ks_per_file st))
            (load_source env f st rd drd (cx_tenant q) (cx_user q) (cx_query q) w)
            (ordered_layers (cx_agent q) candidates) \<lparr>bg_used = [], bg_provided = 0, bg_truncated = False\<rparr> []
      in if bg_used b = [] then (Inr None, w)
         else case cx_user q of
             None \<Rightarrow> (Inl (Retrieval_Error ''KNOWLEDGE_USAGE_ACTOR_REQUIRED''), w)
           | Some user \<Rightarrow>
             if user = [] then (Inl (Retrieval_Error ''KNOWLEDGE_USAGE_ACTOR_REQUIRED''), w)
             else case try_commit (kf_commit f) (on_db (fold (\<lambda>r. audit_knowledge_used r (cx_tenant q) user
                       (cx_execution q) purpose (cx_thread q) (cx_agent q)) (bg_used b)) w) of
                 (Some e, w') \<Rightarrow> (Inl (Retrieval_Error ''KNOWLEDGE_USAGE_AUDIT_FAILED''), undo w')
               | (None, w') \<Rightarrow>
                   (Inr (Some \<lparr>cb_messages = messages, cb_used_ids = map kd_id (bg_used b),
                      cb_used_versions = map (\<lambda>r. (kd_logical r, kd_version r)) (bg_used b),
                      cb_provided = bg_provided b, cb_truncated = bg_truncated b\<rparr>), w'))"

definition knowledge_context_messages ::
  "know_env \<Rightarrow> know_faults \<Rightarrow> know_settings \<Rightarrow> readers \<Rightarrow> doc_readers \<Rightarrow> context_request \<Rightarrow> know_world \<Rightarrow>
   (know_error + (string \<times> string list) list) \<times> know_world" where
  "knowledge_context_messages env f st rd drd q w =
     (case build_knowledge_context env f st rd drd q w of
        (Inl e, w') \<Rightarrow> (Inl e, w')
      | (Inr None, w') \<Rightarrow> (Inr [], w')
      | (Inr (Some b), w') \<Rightarrow> (Inr (cb_messages b), w'))"

section \<open>Lemmas\<close>

text \<open>What the loops keep of the budget, and where the used documents come from.\<close>

definition in_budget :: "nat \<Rightarrow> nat \<Rightarrow> nat \<Rightarrow> budget \<Rightarrow> bool" where
  "in_budget max_files max_chars per_file b \<longleftrightarrow> length (bg_used b) \<le> max_files \<and> bg_provided b \<le> max_chars \<and>
     bg_provided b \<le> length (bg_used b) * per_file"

text \<open>
  A predicate on the budget that survives the two things the loops do to it: mark it as truncated,
  and add a source whose text was loaded, within the limits.
\<close>

lemma take_sources_rule:
  assumes "P b" and "\<And>b. P b \<Longrightarrow> P (b\<lparr>bg_truncated := True\<rparr>)"
    and "\<And>b r n full trunc v t. \<lbrakk>P b; r \<in> set rs; load n r = Inr (full, trunc); length (bg_used b) < mf;
       v = visible_part (mc - bg_provided b) pf full; v \<noteq> []\<rbrakk> \<Longrightarrow>
       P \<lparr>bg_used = bg_used b @ [r], bg_provided = bg_provided b + length v, bg_truncated = t\<rparr>"
  shows "P (fst (take_sources mf mc pf load rs b blocks))"
  using assms
proof (induction mf mc pf load rs b blocks rule: take_sources.induct)
  case (2 mf mc pf load r rs b blocks)
  note step = "2.prems"(3)
  show ?case
  proof (cases "mf \<le> length (bg_used b) \<or> mc - bg_provided b = 0")
    case True
    then show ?thesis using "2.prems"(1,2) by (simp only: take_sources.simps Let_def if_True fst_conv)
  next
    case False
    show ?thesis
    proof (cases "load (min pf (mc - bg_provided b)) r")
      case (Inl e)
      from "2.IH"(1) [OF refl False Inl "2.prems"(1,2) step] show ?thesis
        using False Inl by (simp add: Let_def)
    next
      case (Inr x)
      obtain full trunc where x: "x = (full, trunc)" by fastforce
      let ?v = "visible_part (mc - bg_provided b) pf full"
      show ?thesis
      proof (cases "?v = []")
        case True
        from "2.IH"(2) [OF refl False Inr x [symmetric] refl refl True "2.prems"(2) [OF "2.prems"(1)] "2.prems"(2) step]
        show ?thesis using False Inr x True by (simp add: Let_def)
      next
        case v: False
        have "P \<lparr>bg_used = bg_used b @ [r], bg_provided = bg_provided b + length ?v,
            bg_truncated = t\<rparr>" for t
          using False Inr x v by (intro step [OF "2.prems"(1) _ _ _ refl]) auto
        from "2.IH"(3) [OF refl False Inr x [symmetric] refl refl v this "2.prems"(2) step]
        show ?thesis using False Inr x v by (simp add: Let_def)
      qed
    qed
  qed
qed simp

lemma take_layers_rule:
  assumes "P b" and "\<And>b. P b \<Longrightarrow> P (b\<lparr>bg_truncated := True\<rparr>)"
    and "\<And>b name rs r n full trunc v t. \<lbrakk>P b; (name, rs) \<in> set layers; r \<in> set rs; load n r = Inr (full, trunc);
       length (bg_used b) < mf; v = visible_part (mc - bg_provided b) pf full; v \<noteq> []\<rbrakk> \<Longrightarrow>
       P \<lparr>bg_used = bg_used b @ [r], bg_provided = bg_provided b + length v, bg_truncated = t\<rparr>"
  shows "P (fst (take_layers mf mc pf load layers b messages))"
  using assms
proof (induction mf mc pf load layers b messages rule: take_layers.induct)
  case (2 mf mc pf load name docs layers b messages)
  obtain b' blocks where t: "take_sources mf mc pf load docs b [] = (b', blocks)" by fastforce
  have "P (fst (take_sources mf mc pf load docs b []))"
    by (rule take_sources_rule [where P = P, OF "2.prems"(1,2)]) (assumption, rule "2.prems"(3), auto)
  then have b': "P b'" using t by simp
  show ?case
  proof (cases "mf \<le> length (bg_used b') \<or> mc \<le> bg_provided b'")
    case True
    with b' t show ?thesis by (simp add: Let_def)
  next
    case False
    have "P (fst (take_layers mf mc pf load layers b' m))" if "m = (if blocks = [] then messages else messages @ [(name, blocks)])" for m
    proof (rule "2.IH" [OF refl t [symmetric] that False b' "2.prems"(2)])
      fix b nm rs r n full trunc v tr
      assume *: "P b" "(nm, rs) \<in> set layers" "r \<in> set rs" "load n r = Inr (full, trunc)"
        "length (bg_used b) < mf" "v = visible_part (mc - bg_provided b) pf full" "v \<noteq> []"
      show "P \<lparr>bg_used = bg_used b @ [r], bg_provided = bg_provided b + length v, bg_truncated = tr\<rparr>"
        by (rule "2.prems"(3) [OF *(1) list.set_intros(2) [OF *(2)] *(3-7)])
    qed
    with t False show ?thesis by (simp add: Let_def)
  qed
qed simp

lemma take_layers_budget:
  assumes "in_budget mf mc pf b"
  shows "in_budget mf mc pf (fst (take_layers mf mc pf load layers b messages))"
  by (rule take_layers_rule [where P = "in_budget mf mc pf", OF assms]) (auto simp: in_budget_def visible_part_def)

lemma take_layers_used:
  "set (bg_used (fst (take_layers mf mc pf load layers b messages))) \<subseteq> set (bg_used b) \<union>
     {r \<in> \<Union> (set ` snd ` set layers). \<exists>n x. load n r = Inr x}" (is "_ \<subseteq> ?A")
  by (rule take_layers_rule [where P = "\<lambda>b. set (bg_used b) \<subseteq> ?A"]) force+

lemma set_layers: "\<Union> (set ` snd ` set (ordered_layers agent docs)) \<subseteq> set docs"
  by (auto simp: ordered_layers_def)

lemma eligibleD:
  "r \<in> set (eligible now purpose q d) \<Longrightarrow> r \<in> set (kb_docs d) \<and> active_now now r \<and>
     purpose_allowed purpose r \<and> readable (cx_tenant q) (cx_user q) r"
  by (auto simp: eligible_def candidate_documents_def)

end
