(* ===== verification/Know_Routes.thy ===== *)
theory Know_Routes
  imports Know_Retrieval Know_Runs
begin

text \<open>
  The routes of src/src/orkio_v2/knowledge_routes.py. A route takes the world of its request and
  returns its answer, or the status and detail of its error, with the world it leaves. An exception
  that the route does not catch is answered with status 500. The body of an upload is the list of
  blocks the server receives; the answer of a document is the row without its internal columns.
\<close>

section \<open>Errors\<close>

definition internal_error :: http_error where
  "internal_error = HttpError 500 ''Internal Server Error''"

fun raise_known :: "know_error \<Rightarrow> http_error" where
  "raise_known (Policy_Error code status) = HttpError status code"
| "raise_known (Repository_Error code status) = HttpError status code"
| "raise_known (Large_Error code status) = HttpError status code"
| "raise_known (Blob_Error code) = HttpError 503 code"
| "raise_known _ = internal_error"

fun is_policy :: "know_error \<Rightarrow> bool" where
  "is_policy (Policy_Error c s) = True"
| "is_policy _ = False"

fun is_repository :: "know_error \<Rightarrow> bool" where
  "is_repository (Repository_Error c s) = True"
| "is_repository _ = False"

fun is_large :: "know_error \<Rightarrow> bool" where
  "is_large (Large_Error c s) = True"
| "is_large _ = False"

fun is_blob :: "know_error \<Rightarrow> bool" where
  "is_blob (Blob_Error c) = True"
| "is_blob _ = False"

text \<open>\<open>except (...) as exc: _raise_known(exc)\<close> for the classes the route names.\<close>

definition caught :: "(know_error \<Rightarrow> bool) \<Rightarrow> know_error \<Rightarrow> http_error" where
  "caught classes e = (if classes e then raise_known e else internal_error)"

definition answer :: "(know_error \<Rightarrow> bool) \<Rightarrow> ('a \<Rightarrow> 'b) \<Rightarrow> (know_error + 'a) \<times> know_world \<Rightarrow> (http_error + 'b) \<times> know_world" where
  "answer classes view = (\<lambda>(r, w). (case r of Inl e \<Rightarrow> Inl (caught classes e) | Inr x \<Rightarrow> Inr (view x), w))"

definition upload_classes :: "know_error \<Rightarrow> bool" where
  "upload_classes e \<longleftrightarrow> is_policy e \<or> is_repository e \<or> is_blob e \<or> is_large e"

section \<open>Metadata\<close>

definition dot_index :: "string \<Rightarrow> nat option" where
  "dot_index name = (if CHR ''.'' \<in> set name
     then Some (length name - 1 - length (takeWhile (\<lambda>c. c \<noteq> CHR ''.'') (rev name))) else None)"

definition path_stem :: "string \<Rightarrow> string" where
  "path_stem name = (case dot_index name of None \<Rightarrow> name
     | Some i \<Rightarrow> if 0 < i \<and> i < length name - 1 then take i name else name)"

definition path_suffix :: "string \<Rightarrow> string" where
  "path_suffix name = (case dot_index name of None \<Rightarrow> []
     | Some i \<Rightarrow> if 0 < i \<and> i < length name - 1 then drop i name else [])"

definition allowed_mime :: "string list" where
  "allowed_mime = [''application/pdf'', ''text/plain'', ''text/csv'', ''text/markdown'', ''application/json'',
     office_mime ''wordprocessingml.document'', office_mime ''spreadsheetml.sheet'',
     office_mime ''presentationml.presentation'']"

definition suffix_mime :: "(string \<times> string) list" where
  "suffix_mime = [(''.pdf'', ''application/pdf''), (''.txt'', ''text/plain''), (''.csv'', ''text/csv''),
     (''.md'', ''text/markdown''), (''.markdown'', ''text/markdown''), (''.json'', ''application/json''),
     (''.docx'', office_mime ''wordprocessingml.document''), (''.xlsx'', office_mime ''spreadsheetml.sheet''),
     (''.pptx'', office_mime ''presentationml.presentation'')]"

definition parse_purposes :: "string \<Rightarrow> string list" where
  "parse_purposes raw =
     (let values = map (\<lambda>x. py_lower (py_strip x)) (filter (\<lambda>x. py_strip x \<noteq> []) (py_split (CHR '','') raw))
      in if values = [] then [''chat'', ''team'', ''realtime''] else values)"

definition safe_name :: "string \<Rightarrow> http_error + string" where
  "safe_name filename =
     (let safe = path_name (if filename = [] then ''file'' else filename)
      in if safe = [] \<or> safe \<in> {''.'', ''..''} \<or> CHR 0x00 \<in> set safe
         then Inl (HttpError 400 ''FILENAME_INVALID'') else Inr safe)"

definition agent_char :: "char \<Rightarrow> bool" where
  "agent_char c \<longleftrightarrow> c \<in> set upper_letters \<or> c \<in> set lower_letters \<or> c \<in> set digit_letters \<or> c \<in> set ''._:-''"

definition clean_title :: "string option \<Rightarrow> string \<Rightarrow> http_error + string" where
  "clean_title title safe =
     (let t = py_strip (non_empty title (path_stem safe)) in
      if t = [] then Inl (HttpError 422 ''KNOWLEDGE_TITLE_REQUIRED'')
      else if 240 < length t then Inl (HttpError 422 ''KNOWLEDGE_TITLE_TOO_LONG'') else Inr t)"

definition clean_agent :: "string option \<Rightarrow> http_error + string option" where
  "clean_agent agent =
     (let a = py_strip (non_empty agent []) in
      if a = [] then Inr None
      else if length a \<le> 80 \<and> list_all agent_char a then Inr (Some a)
      else Inl (HttpError 422 ''KNOWLEDGE_AGENT_ID_INVALID''))"

record metadata =
  md_title :: string
  md_filename :: string
  md_classification :: string
  md_agent :: "string option"
  md_expires :: "instant option"

definition clean_metadata ::
  "instant \<Rightarrow> string option \<Rightarrow> string \<Rightarrow> string \<Rightarrow> string option \<Rightarrow> instant option \<Rightarrow> http_error + metadata" where
  "clean_metadata now title filename classification agent expires =
     (case safe_name filename of Inl e \<Rightarrow> Inl e | Inr safe \<Rightarrow>
      if 255 < length safe then Inl (HttpError 400 ''FILENAME_TOO_LONG'') else
      case clean_title title safe of Inl e \<Rightarrow> Inl e | Inr t \<Rightarrow>
      let c = py_lower (py_strip (if classification = [] then ''internal'' else classification)) in
      if c \<notin> {''public'', ''internal'', ''confidential'', ''restricted''}
      then Inl (HttpError 422 ''KNOWLEDGE_CLASSIFICATION_INVALID'') else
      case clean_agent agent of Inl e \<Rightarrow> Inl e | Inr a \<Rightarrow>
      if (case expires of None \<Rightarrow> False | Some x \<Rightarrow> x \<le> now)
      then Inl (HttpError 422 ''KNOWLEDGE_EXPIRY_MUST_BE_FUTURE'')
      else Inr \<lparr>md_title = t, md_filename = safe, md_classification = c, md_agent = a, md_expires = expires\<rparr>)"

record file_part =
  fp_name :: string
  fp_type :: string
  fp_blocks :: "string list"

definition upload_identity :: "file_part \<Rightarrow> http_error + string \<times> string" where
  "upload_identity part = (case safe_name (fp_name part) of Inl e \<Rightarrow> Inl e | Inr safe \<Rightarrow>
     let mime = (if fp_type part \<in> set allowed_mime then fp_type part
                 else case map_of suffix_mime (py_lower (path_suffix safe)) of
                        None \<Rightarrow> fp_type part | Some m \<Rightarrow> m)
     in if mime \<in> set allowed_mime then Inr (safe, mime) else Inl (HttpError 415 ''MIME_TYPE_NOT_ALLOWED''))"

definition read_upload :: "int \<Rightarrow> file_part \<Rightarrow> http_error + string \<times> string \<times> string" where
  "read_upload limit part =
     (let data = take (nat (limit + 1)) (concat (fp_blocks part)) in
      if limit < int (length data) then Inl (HttpError 413 ''FILE_TOO_LARGE'')
      else if data = [] then Inl (HttpError 422 ''FILE_EMPTY'')
      else case upload_identity part of Inl e \<Rightarrow> Inl e | Inr (safe, mime) \<Rightarrow> Inr (data, safe, mime))"

section \<open>Answers\<close>

record doc_view =
  vw_id :: string
  vw_logical :: string
  vw_version :: int
  vw_scope :: string
  vw_agent :: "string option"
  vw_title :: string
  vw_filename :: string
  vw_mime :: string
  vw_size :: int
  vw_sha256 :: string
  vw_classification :: string
  vw_purposes :: "string list"
  vw_status :: string
  vw_effective_from :: "instant option"
  vw_expires_at :: "instant option"
  vw_created_by :: string
  vw_approved_by :: "string option"
  vw_supersedes :: "string option"
  vw_created_at :: instant
  vw_updated_at :: instant

definition document_payload :: "know_doc \<Rightarrow> doc_view" where
  "document_payload r =
     \<lparr>vw_id = kd_id r, vw_logical = kd_logical r, vw_version = kd_version r,
      vw_scope = scope_value (kd_scope r), vw_agent = kd_agent r, vw_title = kd_title r,
      vw_filename = kd_filename r, vw_mime = kd_mime r, vw_size = kd_size r, vw_sha256 = kd_sha256 r,
      vw_classification = kd_classification r, vw_purposes = kd_purposes r,
      vw_status = status_value (kd_status r), vw_effective_from = kd_effective_from r,
      vw_expires_at = kd_expires_at r, vw_created_by = kd_created_by r, vw_approved_by = kd_approved_by r,
      vw_supersedes = kd_supersedes r, vw_created_at = kd_created_at r, vw_updated_at = kd_updated_at r\<rparr>"

record derivative_view =
  dw_id :: string
  dw_kind :: string
  dw_status :: string
  dw_size :: "int option"
  dw_sha256 :: "string option"
  dw_source_chars :: "int option"
  dw_canonical_chars :: "int option"
  dw_pages :: "int option"
  dw_warnings :: "string list"
  dw_extractor :: "string option"
  dw_extractor_version :: "string option"
  dw_updated_at :: instant

definition derivative_payload :: "derivative \<Rightarrow> derivative_view" where
  "derivative_payload v =
     \<lparr>dw_id = dv_id v, dw_kind = dv_kind v, dw_status = dv_status v, dw_size = dv_size v,
      dw_sha256 = dv_sha256 v, dw_source_chars = dv_source_chars v,
      dw_canonical_chars = dv_canonical_chars v, dw_pages = dv_pages v, dw_warnings = dv_warnings v,
      dw_extractor = dv_extractor v, dw_extractor_version = dv_extractor_version v,
      dw_updated_at = dv_updated_at v\<rparr>"

definition document_response :: "know_doc \<Rightarrow> know_db \<Rightarrow> doc_view \<times> derivative_view option" where
  "document_response r d = (document_payload r, map_option derivative_payload (get_derivative (kd_id r) d))"

record section_view =
  sv_id :: string
  sv_parent :: "string option"
  sv_ordinal :: nat
  sv_heading :: string
  sv_level :: nat
  sv_page_start :: "int option"
  sv_page_end :: "int option"
  sv_tokens :: nat
  sv_chunk_count :: nat

record structure_view =
  st_knowledge :: string
  st_logical :: string
  st_title :: string
  st_filename :: string
  st_derivative :: "derivative_view option"
  st_sections :: "section_view list"
  st_chunk_count :: nat

definition structure_payload :: "know_doc \<Rightarrow> know_db \<Rightarrow> structure_view" where
  "structure_payload r d =
     \<lparr>st_knowledge = kd_id r, st_logical = kd_logical r, st_title = kd_title r, st_filename = kd_filename r,
      st_derivative = map_option derivative_payload (get_derivative (kd_id r) d),
      st_sections = map (\<lambda>s. \<lparr>sv_id = sr_id s, sv_parent = sr_parent s, sv_ordinal = sr_ordinal s,
          sv_heading = sr_heading s, sv_level = sr_level s, sv_page_start = sr_page_start s,
          sv_page_end = sr_page_end s, sv_tokens = sr_tokens s,
          sv_chunk_count = length (filter (\<lambda>c. cr_section c = Some (sr_id s)) (chunks_of (kd_id r) d))\<rparr>)
        (sections_rows_of (kd_id r) d),
      st_chunk_count = length (chunks_of (kd_id r) d)\<rparr>"

record selection_view =
  sl_mode :: string
  sl_sections :: "string list"
  sl_updated_at :: "instant option"

definition selection_payload :: "selection option \<Rightarrow> selection_view" where
  "selection_payload s = (case s of
       None \<Rightarrow> \<lparr>sl_mode = ''AUTO'', sl_sections = [], sl_updated_at = None\<rparr>
     | Some x \<Rightarrow> \<lparr>sl_mode = se_mode x, sl_sections = se_sections x, sl_updated_at = Some (se_updated_at x)\<rparr>)"

end
