(* ===== verification/Know_Handlers.thy ===== *)
theory Know_Handlers
  imports Know_Routes
begin

text \<open>
  The handlers of src/src/orkio_v2/knowledge_routes.py, on the definitions of the services. An upload
  that goes through the staging pipeline may fail while it is processed after it is stored: the answer
  is then that of the stored document (\<open>g\<close> are the faults of the processing).
\<close>

type_synonym 'a reply = "(http_error + 'a) \<times> know_world"

definition plane_disabled :: http_error where
  "plane_disabled = HttpError 403 ''KNOWLEDGE_PLANE_DISABLED''"

text \<open>\<open>staged\<close>: the staged file with its size and digest, when it is not empty.\<close>

definition stage_part :: "know_env \<Rightarrow> know_settings \<Rightarrow> file_part \<Rightarrow> http_error + string \<times> int \<times> string" where
  "stage_part env st part = (case stage_upload env (ks_large_max_upload st) (fp_blocks part) of
       Inl e \<Rightarrow> Inl (caught upload_classes e)
     | Inr (data, n, digest) \<Rightarrow> if n \<le> 0 then Inl (HttpError 422 ''FILE_EMPTY'') else Inr (data, n, digest))"

definition finish_upload ::
  "know_env \<Rightarrow> know_faults \<Rightarrow> know_settings \<Rightarrow> readers \<Rightarrow> int \<Rightarrow> (know_error + know_doc) \<times> know_world \<Rightarrow>
   (doc_view \<times> derivative_view option) reply" where
  "finish_upload env g st rd n = (\<lambda>(res, w). case res of
       Inl e \<Rightarrow> (Inl (caught upload_classes e), w)
     | Inr r \<Rightarrow>
         let (v, w1) = ensure_pending_derivative env r w;
             w2 = (if n \<le> ks_auto_process st then snd (process_document env g rd (ks_pipeline st) r w1) else w1)
         in (Inr (document_response r (work (kw_db w2))), w2))"

definition plain_view :: "know_doc \<Rightarrow> doc_view \<times> derivative_view option" where
  "plain_view r = (document_payload r, None)"

definition upload_knowledge ::
  "know_env \<Rightarrow> know_faults \<Rightarrow> know_faults \<Rightarrow> know_settings \<Rightarrow> readers \<Rightarrow> principal \<Rightarrow> file_part \<Rightarrow> string \<Rightarrow>
   string option \<Rightarrow> string \<Rightarrow> string \<Rightarrow> string option \<Rightarrow> instant option \<Rightarrow> know_world \<Rightarrow>
   (doc_view \<times> derivative_view option) reply" where
  "upload_knowledge env f g st rd p part scope title classification purposes agent expires w =
     (if \<not> ks_plane_enabled st then (Inl plane_disabled, w) else
      case normalize_scope scope of Inl e \<Rightarrow> (Inl (caught upload_classes e), w) | Inr s \<Rightarrow>
      if ks_large_enabled st then
        (case upload_identity part of Inl e \<Rightarrow> (Inl e, w) | Inr (safe, mime) \<Rightarrow>
         case stage_part env st part of Inl e \<Rightarrow> (Inl e, w) | Inr (data, n, digest) \<Rightarrow>
         case clean_metadata (kn_now env) title safe classification agent expires of
           Inl e \<Rightarrow> (Inl e, w)
         | Inr m \<Rightarrow>
             finish_upload env g st rd n (create_uploaded_document_from_file env f p (scope_value s)
               \<lparr>up_title = md_title m, up_filename = md_filename m, up_mime = mime, up_data = data, up_size = n,
                up_digest = Some digest, up_classification = md_classification m,
                up_purposes = parse_purposes purposes, up_agent = md_agent m, up_expires = md_expires m\<rparr> w))
      else
        (case read_upload (ks_max_upload st) part of Inl e \<Rightarrow> (Inl e, w) | Inr (data, safe, mime) \<Rightarrow>
         case clean_metadata (kn_now env) title safe classification agent expires of
           Inl e \<Rightarrow> (Inl e, w)
         | Inr m \<Rightarrow>
             answer upload_classes plain_view (create_uploaded_document env f p (scope_value s)
               \<lparr>up_title = md_title m, up_filename = md_filename m, up_mime = mime, up_data = data,
                up_size = int (length data), up_digest = Some (kn_sha256 env data),
                up_classification = md_classification m, up_purposes = parse_purposes purposes,
                up_agent = md_agent m, up_expires = md_expires m\<rparr> w)))"

text \<open>The metadata of a replacement is checked only when the request gives some of it.\<close>

definition clean_replacement ::
  "instant \<Rightarrow> string option \<Rightarrow> string \<Rightarrow> string option \<Rightarrow> string option \<Rightarrow> instant option \<Rightarrow>
   http_error + string option \<times> string \<times> string option \<times> string option \<times> instant option" where
  "clean_replacement now title safe classification agent expires =
     (if title = None \<and> classification = None \<and> agent = None \<and> expires = None
      then Inr (None, safe, None, None, None)
      else case clean_metadata now title safe (non_empty classification ''internal'') agent expires of
             Inl e \<Rightarrow> Inl e
           | Inr m \<Rightarrow> Inr (if title = None then None else Some (md_title m), md_filename m,
               if classification = None then None else Some (md_classification m),
               if agent = None then None else md_agent m, md_expires m))"

definition supersede_knowledge ::
  "know_env \<Rightarrow> know_faults \<Rightarrow> know_faults \<Rightarrow> know_settings \<Rightarrow> readers \<Rightarrow> principal \<Rightarrow> string \<Rightarrow> file_part \<Rightarrow>
   string option \<Rightarrow> string option \<Rightarrow> string option \<Rightarrow> string option \<Rightarrow> instant option \<Rightarrow> know_world \<Rightarrow>
   (doc_view \<times> derivative_view option) reply" where
  "supersede_knowledge env f g st rd p i part title classification purposes agent expires w =
     (if \<not> ks_plane_enabled st then (Inl plane_disabled, w)
      else if ks_large_enabled st then
        (case upload_identity part of Inl e \<Rightarrow> (Inl e, w) | Inr (safe, mime) \<Rightarrow>
         case stage_part env st part of Inl e \<Rightarrow> (Inl e, w) | Inr (data, n, digest) \<Rightarrow>
         case clean_replacement (kn_now env) title safe classification agent expires of
           Inl e \<Rightarrow> (Inl e, w)
         | Inr (t, name, c, a, x) \<Rightarrow>
             finish_upload env g st rd n (supersede_document_from_file env f p i
               \<lparr>rp_title = t, rp_filename = name, rp_mime = mime, rp_data = data, rp_size = n,
                rp_digest = Some digest, rp_classification = c,
                rp_purposes = map_option parse_purposes purposes, rp_agent = a, rp_expires = x\<rparr> w))
      else
        (case read_upload (ks_max_upload st) part of Inl e \<Rightarrow> (Inl e, w) | Inr (data, safe, mime) \<Rightarrow>
         case clean_replacement (kn_now env) title safe classification agent expires of
           Inl e \<Rightarrow> (Inl e, w)
         | Inr (t, name, c, a, x) \<Rightarrow>
             answer upload_classes plain_view (supersede_document env f p i
               \<lparr>rp_title = t, rp_filename = name, rp_mime = mime, rp_data = data,
                rp_size = int (length data), rp_digest = Some (kn_sha256 env data), rp_classification = c,
                rp_purposes = map_option parse_purposes purposes, rp_agent = a, rp_expires = x\<rparr> w)))"

section \<open>The other routes\<close>

definition policy_or_repository :: "know_error \<Rightarrow> bool" where
  "policy_or_repository e \<longleftrightarrow> is_policy e \<or> is_repository e"

definition if_enabled :: "know_settings \<Rightarrow> know_world \<Rightarrow> 'a reply \<Rightarrow> 'a reply" where
  "if_enabled st w r = (if ks_plane_enabled st then r else (Inl plane_disabled, w))"

definition get_knowledge :: "know_settings \<Rightarrow> principal \<Rightarrow> string \<Rightarrow> know_world \<Rightarrow> (doc_view list \<times> nat) reply" where
  "get_knowledge st p scope w = if_enabled st w
     (answer policy_or_repository (\<lambda>rows. (map document_payload rows, length rows))
        (list_documents p scope (work (kw_db w)), w))"

definition get_knowledge_versions ::
  "know_settings \<Rightarrow> principal \<Rightarrow> string \<Rightarrow> know_world \<Rightarrow> (doc_view list \<times> nat) reply" where
  "get_knowledge_versions st p logical w = if_enabled st w
     (answer is_policy (\<lambda>rows. (map document_payload rows, length rows))
        (list_versions p logical (work (kw_db w)), w))"

definition publish_knowledge ::
  "know_env \<Rightarrow> know_faults \<Rightarrow> know_settings \<Rightarrow> principal \<Rightarrow> string \<Rightarrow> know_world \<Rightarrow> doc_view reply" where
  "publish_knowledge env f st p i w = if_enabled st w
     (answer policy_or_repository document_payload (publish_document env f p i w))"

definition revoke_knowledge ::
  "know_env \<Rightarrow> know_faults \<Rightarrow> know_settings \<Rightarrow> principal \<Rightarrow> string \<Rightarrow> know_world \<Rightarrow> doc_view reply" where
  "revoke_knowledge env f st p i w = if_enabled st w
     (answer policy_or_repository document_payload (revoke_document env f p i w))"

definition process_knowledge ::
  "know_env \<Rightarrow> know_faults \<Rightarrow> know_settings \<Rightarrow> readers \<Rightarrow> principal \<Rightarrow> string \<Rightarrow> know_world \<Rightarrow>
   (string \<times> derivative_view) reply" where
  "process_knowledge env f st rd p i w = if_enabled st w
     (if \<not> ks_large_enabled st then (Inl (HttpError 403 ''LARGE_DOCUMENT_PIPELINE_DISABLED''), w)
      else case get_managed_document p i (work (kw_db w)) of
             Inl e \<Rightarrow> (Inl (caught upload_classes e), w)
           | Inr r \<Rightarrow> answer upload_classes (\<lambda>v. (kd_id r, derivative_payload v))
                 (process_document env f rd (ks_pipeline st) r w))"

definition get_knowledge_structure ::
  "know_settings \<Rightarrow> principal \<Rightarrow> string \<Rightarrow> know_world \<Rightarrow> (structure_view \<times> selection_view) reply" where
  "get_knowledge_structure st p i w = if_enabled st w
     (answer is_large (\<lambda>r. (structure_payload r (work (kw_db w)),
          selection_payload (get_selection (kd_id r) (pr_tenant_id p) (pr_user_id p) (work (kw_db w)))))
        (visible_document_for_navigator p i (work (kw_db w)), w))"

definition put_knowledge_selection ::
  "know_env \<Rightarrow> know_settings \<Rightarrow> principal \<Rightarrow> string \<Rightarrow> string \<Rightarrow> string list \<Rightarrow> know_world \<Rightarrow> selection_view reply" where
  "put_knowledge_selection env st p i mode section_ids w = if_enabled st w
     (if \<not> ks_selective st then (Inl (HttpError 403 ''KNOWLEDGE_SELECTIVE_CONTEXT_DISABLED''), w)
      else case visible_document_for_navigator p i (work (kw_db w)) of
             Inl e \<Rightarrow> (Inl (caught is_large e), w)
           | Inr r \<Rightarrow> answer is_large (\<lambda>s. selection_payload (Some s))
                 (save_selection env r p (if mode = [] then ''AUTO'' else mode) section_ids w))"

text \<open>The preview of sections: at most \<open>max_chars\<close> characters in all.\<close>

fun preview ::
  "(string \<Rightarrow> string) \<Rightarrow> (nat \<Rightarrow> nat \<Rightarrow> know_error + string) \<Rightarrow> nat \<Rightarrow> section_row list \<Rightarrow>
   know_error + (string \<times> string \<times> string) list \<times> nat \<times> bool" where
  "preview decode fetch remaining [] = Inr ([], remaining, False)"
| "preview decode fetch remaining (s # ss) =
     (if remaining = 0 then Inr ([], 0, True)
      else case fetch (sr_start s) (sr_end s) of Inl e \<Rightarrow> Inl e | Inr raw \<Rightarrow>
        let text = decode raw; short = take remaining text in
        case preview decode fetch (remaining - length short) ss of Inl e \<Rightarrow> Inl e
        | Inr (pieces, left, trunc) \<Rightarrow>
            Inr ((sr_id s, sr_heading s, short) # pieces, left, trunc \<or> remaining < length text))"

record content_view =
  cv_knowledge :: string
  cv_pieces :: "(string \<times> string \<times> string) list"
  cv_provided :: nat
  cv_truncated :: bool

definition section_content ::
  "know_faults \<Rightarrow> (string \<Rightarrow> string) \<Rightarrow> string list \<Rightarrow> nat \<Rightarrow> know_doc \<Rightarrow> know_world \<Rightarrow> know_error + content_view" where
  "section_content f decode section_ids max_chars r w =
     (case get_derivative (kd_id r) (work (kw_db w)) of
        None \<Rightarrow> Inl (Large_Error ''KNOWLEDGE_CANONICAL_NOT_READY'' 409)
      | Some v \<Rightarrow>
        (case dv_storage_key v of
           None \<Rightarrow> Inl (Large_Error ''KNOWLEDGE_CANONICAL_NOT_READY'' 409)
         | Some key \<Rightarrow>
           if dv_status v \<notin> {''READY'', ''PARTIAL''} \<or> key = []
           then Inl (Large_Error ''KNOWLEDGE_CANONICAL_NOT_READY'' 409)
           else let rows = filter (\<lambda>s. section_ids = [] \<or> sr_id s \<in> set section_ids)
                      (sections_rows_of (kd_id r) (work (kw_db w)))
                in if rows = [] then Inl (Large_Error ''KNOWLEDGE_SECTION_NOT_FOUND'' 404)
                   else case preview decode (\<lambda>i j. blob_read_range (kf_read f) key i j (kw_blobs w)) max_chars rows of
                          Inl e \<Rightarrow> Inl e
                        | Inr (pieces, left, trunc) \<Rightarrow>
                            Inr \<lparr>cv_knowledge = kd_id r, cv_pieces = pieces,
                              cv_provided = max_chars - left, cv_truncated = trunc\<rparr>))"

definition get_knowledge_content ::
  "know_faults \<Rightarrow> know_settings \<Rightarrow> (string \<Rightarrow> string) \<Rightarrow> principal \<Rightarrow> string \<Rightarrow> string list \<Rightarrow> nat \<Rightarrow> know_world \<Rightarrow>
   content_view reply" where
  "get_knowledge_content f st decode p i section_ids max_chars w = if_enabled st w
     (case visible_document_for_navigator p i (work (kw_db w)) of
        Inl e \<Rightarrow> (Inl (caught (\<lambda>e. is_blob e \<or> is_large e) e), w)
      | Inr r \<Rightarrow> answer (\<lambda>e. is_blob e \<or> is_large e) (\<lambda>x. x) (section_content f decode section_ids max_chars r w, w))"

definition delete_knowledge ::
  "know_env \<Rightarrow> know_faults \<Rightarrow> know_settings \<Rightarrow> principal \<Rightarrow> string \<Rightarrow> know_world \<Rightarrow> string reply" where
  "delete_knowledge env f st p i w = if_enabled st w
     (case delete_document env f p i w of
        (Some e, w') \<Rightarrow> (Inl (caught (\<lambda>e. is_policy e \<or> is_repository e \<or> is_blob e) e), w')
      | (None, w') \<Rightarrow> (Inr i, w'))"

section \<open>Lemmas\<close>

lemma preview_bound:
  "preview decode fetch remaining ss = Inr (pieces, left, trunc) \<Longrightarrow>
     left \<le> remaining \<and> sum_list (map (\<lambda>(i, h, t). length t) pieces) = remaining - left"
proof (induction ss arbitrary: remaining pieces left trunc)
  case (Cons s ss)
  show ?case
  proof (cases "remaining = 0")
    case True
    with Cons.prems show ?thesis by simp
  next
    case False
    with Cons.prems obtain raw pieces' trunc' where
      raw: "fetch (sr_start s) (sr_end s) = Inr raw"
      and rest: "preview decode fetch (remaining - length (take remaining (decode raw))) ss = Inr (pieces', left, trunc')"
      and pieces: "pieces = (sr_id s, sr_heading s, take remaining (decode raw)) # pieces'"
      by (auto simp: Let_def split: sum.splits)
    from Cons.IH [OF rest] pieces show ?thesis by auto
  qed
qed simp

end
