(* ===== verification/Know_Facts.thy ===== *)
theory Know_Facts
  imports Know_Blobs Know_Handlers
begin

text \<open>
  Lemmas for the properties of the knowledge plane: the empty state and its runs, what a run says of
  one row, the reference for managed access, the coverage of a document by its chunks, the canonical
  blob after processing, and the progress of the cleanup job.
\<close>

section \<open>Runs from the empty state\<close>

definition know_start :: know_state where
  "know_start = \<lparr>kz_db = \<lparr>kb_docs = [], kb_derivatives = [], kb_sections = [], kb_chunks = [],
     kb_selections = [], kb_cleanups = [], kb_audits = []\<rparr>, kz_blobs = (\<lambda>k. None), kz_held = []\<rparr>"

definition know_run :: "know_op list \<Rightarrow> know_state" where
  "know_run es = fold know_step es know_start"

lemma start_inv: "know_state_inv know_start"
  by (simp add: know_state_inv_def know_inv_def know_constraints_def doc_constraints_def
      cleanup_constraints_def unique_key_def know_start_def)

lemma start_blobs: "blobs_inv sha know_start"
  using start_inv by (simp add: blobs_inv_def stored_def pending_keys_def) (simp add: know_start_def)

lemma know_run_inv: "know_state_inv (know_run es)"
  unfolding know_run_def using know.run_inv [of es know_start] start_inv by simp

lemmas run_docs = know_invD [OF know_state_invD [OF know_run_inv]]

lemma open_unique:
  assumes "know_inv d" and "x \<in> set (kb_docs d)" and "y \<in> set (kb_docs d)" and "is_open x" and "is_open y"
    and "kd_logical x = kd_logical y"
  shows "x = y"
proof -
  note inv = know_invD [OF assms(1)]
  have "kd_version x = kd_version y"
    using chain_open [OF inv(4) assms(2,4,3)] chain_open [OF inv(4) assms(3,5,2)] assms(6) by simp
  then have "doc_version x = doc_version y" using assms(6) by (simp add: doc_version_def)
  with inv(3) assms(2,3) show ?thesis by (rule unique_key_eq)
qed

lemma retired_later:
  assumes "know_state_inv s" and "r \<in> set (kb_docs (kz_db s))" and "kd_status r \<in> {Superseded, Revoked}"
    and "x \<in> set (kb_docs (kz_db (fold know_step es s)))" and "kd_id x = kd_id r"
  shows "kd_status x \<in> {Superseded, Revoked}"
proof -
  have inv: "know_inv (kz_db (fold know_step es s))"
    using know.run_inv [of es s] assms(1) by (simp add: know_state_invD)
  have "settled r"
    using assms(2,3) know_invD(4) [OF know_state_invD [OF assms(1)]] by (auto simp: settled_def chain_def)
  moreover have "know_state_grows s (fold know_step es s)"
    using know.run_grows [of es s] assms(1) by simp
  ultimately obtain y where y: "y \<in> set (kb_docs (kz_db (fold know_step es s)))" "frozen y = frozen r"
      "status_rank (kd_status r) \<le> status_rank (kd_status y)"
    using assms(2) unfolding know_state_grows_def know_grows_def rows_keep_def by blast
  then have "y = x"
    using assms(4,5) know_invD(1) [OF inv] frozenD [OF y(2)] by (metis unique_key_eq)
  with y(3) assms(3) show ?thesis by (cases "kd_status x") auto
qed

section \<open>Managed access\<close>

text \<open>The policy alone, applied to the row with the identifier, if there is one.\<close>

definition managed_reference :: "principal \<Rightarrow> string \<Rightarrow> know_db \<Rightarrow> know_error + know_doc" where
  "managed_reference p i d = (case scalar (\<lambda>r. kd_id r = i) (kb_docs d) of
       None \<Rightarrow> Inl knowledge_not_found
     | Some r \<Rightarrow> (case assert_visible r p of Some e \<Rightarrow> Inl e | None \<Rightarrow> Inr r))"

lemma assert_visible_error: "assert_visible r p = Some e \<Longrightarrow> e = knowledge_not_found"
  by (auto simp: assert_visible_def split: if_splits)

lemma scalar_key:
  assumes "unique_key key rows"
  shows "scalar (\<lambda>r. key r = k \<and> P r) rows =
    (case scalar (\<lambda>r. key r = k) rows of None \<Rightarrow> None | Some r \<Rightarrow> if P r then Some r else None)"
  using assms
proof (induction rows)
  case (Cons x rows)
  show ?case
  proof (cases "key x = k")
    case True
    from Cons.prems have "key x \<notin> key ` set rows" by (simp add: unique_key_def)
    with True have "key r \<noteq> k" if "r \<in> set rows" for r
      using that by (metis imageI)
    then have "scalar (\<lambda>r. key r = k \<and> P r) rows = None" by (auto simp: scalar_None)
    with True show ?thesis by simp
  next
    case False
    with Cons show ?thesis by (simp add: unique_key_def)
  qed
qed simp

lemma managed_exact:
  assumes "know_inv d"
  shows "get_managed_document p i d = managed_reference p i d"
proof (cases "scalar (\<lambda>r. kd_id r = i) (kb_docs d)")
  case None
  then show ?thesis
    using know_invD(1) [OF assms] by (simp add: get_managed_document_def managed_reference_def scalar_key)
next
  case (Some r)
  then have "r \<in> set (kb_docs d)" by (auto dest: scalar_SomeD)
  then have "visibility_clause p r \<longleftrightarrow> assert_visible r p = None"
    using know_invD(5) [OF assms] visible_implies_clause clause_implies_visible by blast
  with Some know_invD(1) [OF assms] show ?thesis
    by (auto simp: get_managed_document_def managed_reference_def scalar_key
        split: option.split dest: assert_visible_error)
qed

section \<open>The chunks of a document\<close>

text \<open>A decoder that keeps the characters that are not white space.\<close>

definition keeps_text :: "(string \<Rightarrow> string) \<Rightarrow> bool" where
  "keeps_text decode \<longleftrightarrow> (\<forall>b c. c \<in> set b \<longrightarrow> \<not> py_space c \<longrightarrow> py_strip (decode b) \<noteq> [])"

lemma snd_enumerate: "snd ` set (List.enumerate n xs) = set xs"
  by (metis list.set_map map_snd_enumerate)

lemma chunk_from_span:
  assumes "s \<in> set (sections_of (kn_section env) decode doc)"
    and "x \<in> set (spans (target_bytes ct) (overlap_bytes ct co) doc (sn_end s) (sn_start s))"
    and "block_text decode x \<noteq> []"
  shows "\<exists>c \<in> set (snd (build_structure env decode ct co doc)).
     ch_start c = sp_start x \<and> ch_end c = sp_end x \<and> ch_section c = sn_id s"
proof -
  let ?parts = "concat (map (section_chunks decode (target_bytes ct) (overlap_bytes ct co) doc)
      (sections_of (kn_section env) decode doc))"
  have "(s, x) \<in> set ?parts"
    using assms by (force simp: section_chunks_def)
  then have "(s, x) \<in> snd ` set (List.enumerate 0 ?parts)" by (simp only: snd_enumerate)
  then obtain n where "(n, s, x) \<in> set (List.enumerate 0 ?parts)" by force
  then have "chunk_of env decode (n, s, x) \<in> set (snd (build_structure env decode ct co doc))"
    by (force simp: build_structure_def Let_def)
  moreover have "ch_start (chunk_of env decode (n, s, x)) = sp_start x"
    "ch_end (chunk_of env decode (n, s, x)) = sp_end x" "ch_section (chunk_of env decode (n, s, x)) = sn_id s"
    by (simp_all add: chunk_of_def)
  ultimately show ?thesis by blast
qed

lemma span_from_chunk:
  assumes "c \<in> set (snd (build_structure env decode ct co doc))"
  obtains s x where "s \<in> set (sections_of (kn_section env) decode doc)"
    and "x \<in> set (spans (target_bytes ct) (overlap_bytes ct co) doc (sn_end s) (sn_start s))"
    and "ch_start c = sp_start x" and "ch_end c = sp_end x" and "ch_sha256 c = kn_sha256 env (sp_block x)"
    and "ch_section c = sn_id s"
proof -
  let ?parts = "concat (map (section_chunks decode (target_bytes ct) (overlap_bytes ct co) doc)
      (sections_of (kn_section env) decode doc))"
  from assms obtain n s x where c: "c = chunk_of env decode (n, s, x)" "(n, s, x) \<in> set (List.enumerate 0 ?parts)"
    by (auto simp: build_structure_def Let_def)
  then have "(s, x) \<in> set ?parts"
    using imageI [OF c(2), of snd] by (simp only: snd_enumerate prod.sel)
  then have "s \<in> set (sections_of (kn_section env) decode doc)"
    "x \<in> set (spans (target_bytes ct) (overlap_bytes ct co) doc (sn_end s) (sn_start s))"
    by (auto simp: section_chunks_def)
  with c(1) show thesis by (intro that) (simp_all add: chunk_of_def)
qed

lemma file_lines_start: "s \<noteq> [] \<Longrightarrow> \<exists>l ls. file_lines n s = (n, l) # ls"
  by (subst file_lines.simps) (simp add: Let_def)

lemma sections_inside:
  assumes "\<forall>h \<in> set hs. hd_start h \<le> raw" and "s \<in> set (sections_from ids raw n stack hs)"
  shows "sn_end s \<le> raw"
  using assms
proof (induction hs arbitrary: n stack)
  case (Cons h hs)
  then show ?case by (cases hs) (auto simp: Let_def)
qed simp

lemma file_lines_bound: "(i, l) \<in> set (file_lines n s) \<Longrightarrow> n \<le> i \<and> i < n + length s"
proof (induction "length s" arbitrary: n s rule: less_induct)
  case less
  let ?line = "takeWhile (\<lambda>c. c \<noteq> CHR 0x0A) s @ take 1 (dropWhile (\<lambda>c. c \<noteq> CHR 0x0A) s)"
  from less.prems have ne: "s \<noteq> []" by (auto simp: file_lines.simps)
  then have pos: "0 < length ?line" by (cases s) auto
  have "length ?line \<le> length s"
    by (metis append_take_drop_id length_append nat_add_left_cancel_le takeWhile_dropWhile_id le_add1)
  from less.prems ne consider "i = n" | "(i, l) \<in> set (file_lines (n + length ?line) (drop (length ?line) s))"
    by (subst (asm) file_lines.simps) (auto simp: Let_def)
  then show ?case
  proof cases
    case 2
    have "length (drop (length ?line) s) < length s" using pos ne by simp
    from less.hyps [OF this 2] \<open>length ?line \<le> length s\<close> show ?thesis by auto
  qed (use ne in simp)
qed

lemma headings_bound: "h \<in> set (headings decode doc) \<Longrightarrow> hd_start h \<le> length doc"
  using file_lines_bound [of _ _ 0 doc]
  by (fastforce simp: headings_def heading_of_def Let_def split: if_splits option.splits)

lemma headings_not_Nil: "headings decode doc \<noteq> []"
  by (simp add: headings_def Let_def)

lemma section_end: "s \<in> set (sections_of ids decode doc) \<Longrightarrow> sn_end s \<le> length doc"
  unfolding sections_of_def by (rule sections_inside) (auto dest: headings_bound)

lemma section_at:
  "hd_start (hd (headings decode doc)) \<le> i \<Longrightarrow> i < length doc \<Longrightarrow>
   \<exists>s \<in> set (sections_of ids decode doc). sn_start s \<le> i \<and> i < sn_end s"
  unfolding sections_of_def by (rule sections_cover) (simp_all add: headings_not_Nil)

section \<open>The excerpt of a processed document\<close>

lemma scalar_put_found:
  "scalar P rows = Some v0 \<Longrightarrow> pk v = pk v0 \<Longrightarrow> P v \<Longrightarrow> scalar P (put_row pk v rows) = Some v"
  by (induction rows) (auto simp: put_row_def split: if_splits)

lemma ranked_subset: "set (ranked_chunks chunks query selected k) \<subseteq> set chunks"
  by (auto simp: ranked_chunks_def Let_def dest: in_set_takeD)

lemma excerpt_total:
  "\<lbrakk>\<forall>c \<in> set cs. \<exists>raw. fetch (cr_start c) (cr_end c) = Inr raw \<and> kn_sha256 env raw = cr_sha256 c; provided \<le> limit\<rbrakk>
   \<Longrightarrow> \<exists>ps n t. excerpt env decode fetch limit seen pieces provided trunc cs = Inr (ps, n, t) \<and> n \<le> limit"
proof (induction cs arbitrary: seen pieces provided trunc)
  case (Cons c cs)
  from Cons.prems obtain raw where raw: "fetch (cr_start c) (cr_end c) = Inr raw" "kn_sha256 env raw = cr_sha256 c"
    by auto
  let ?t = "py_strip (decode raw)"
  let ?s = "if limit - provided < length ?t then py_rstrip (take (limit - provided) ?t) else ?t"
  obtain m where "py_rstrip (take (limit - provided) ?t) = take m (take (limit - provided) ?t)"
    using py_rstrip_eq_take by blast
  then have short: "length ?s \<le> limit - provided" by auto
  show ?case
  proof (cases "limit \<le> provided \<or> (cr_start c, cr_end c) \<in> set seen")
    case True
    with Cons show ?thesis by auto
  next
    case False
    with short have "provided + length ?s \<le> limit" by auto
    from Cons.IH [OF _ this, of "(cr_start c, cr_end c) # seen"
        "if ?s = [] then pieces else pieces @ [?s]" "trunc \<or> limit - provided < length ?t"] Cons.prems(1) False raw
    show ?thesis by (simp add: Let_def)
  qed
qed simp

text \<open>The rows that a successful run of the pipeline leaves.\<close>

definition indexed :: "know_env \<Rightarrow> know_doc \<Rightarrow> string \<Rightarrow> know_world \<Rightarrow> bool" where
  "indexed env r doc w \<longleftrightarrow> kw_blobs w (canonical_key r) = Some doc \<and>
     (\<forall>c \<in> set (chunks_of (kd_id r) (work (kw_db w))). cr_start c < cr_end c \<and> cr_end c \<le> length doc \<and>
        kn_sha256 env (take (cr_end c - cr_start c) (drop (cr_start c) doc)) = cr_sha256 c)"

lemma chunk_rows_indexed:
  assumes "build_structure env decode ct co doc = (sections, chunks)" and "c \<in> set (chunk_rows env r v chunks)"
  shows "cr_start c < cr_end c \<and> cr_end c \<le> length doc \<and>
     kn_sha256 env (take (cr_end c - cr_start c) (drop (cr_start c) doc)) = cr_sha256 c"
proof -
  from assms(2) obtain h where h: "h \<in> set chunks" "cr_start c = ch_start h" "cr_end c = ch_end h" "cr_sha256 c = ch_sha256 h"
    by (auto simp: chunk_rows_def)
  with assms(1) have "h \<in> set (snd (build_structure env decode ct co doc))" by simp
  then obtain s x where x: "s \<in> set (sections_of (kn_section env) decode doc)"
      "x \<in> set (spans (target_bytes ct) (overlap_bytes ct co) doc (sn_end s) (sn_start s))"
      "ch_start h = sp_start x" "ch_end h = sp_end x" "ch_sha256 h = kn_sha256 env (sp_block x)"
    by (rule span_from_chunk)
  from span_inside [OF x(2)] section_end [OF x(1)] h x(3-5) show ?thesis by auto
qed

lemma store_canonicalD:
  assumes "store_canonical env f key data b = (None, b')"
  shows "(b key = None \<longrightarrow> b' key = Some data) \<and>
     (\<forall>old. b key = Some old \<longrightarrow> b' key = Some old \<and> kn_sha256 env old = kn_sha256 env data)"
  using assms by (auto simp: store_canonical_def blob_put_if_absent_def blob_get_def
      split: if_splits put_outcome.splits)

lemma chunks_of_replaced:
  "chunks_of (kd_id r) (replace_structure env r v sections chunks d) = sort_key cr_ordinal (chunk_rows env r (dv_id v) chunks)"
  by (simp add: chunks_of_def replace_structure_def save_derivative_def chunk_rows_def filter_empty_conv o_def)

lemma get_derivative_replaced:
  "get_derivative i (replace_structure env r v sections chunks d) = get_derivative i (save_derivative v d)"
  by (simp add: get_derivative_def replace_structure_def save_derivative_def)

lemma commit_None_work: "try_commit c w = (None, w') \<Longrightarrow> work (kw_db w') = work (kw_db w) \<and> kw_blobs w' = kw_blobs w"
  by (cases rule: try_commit_cases [of c w]) (auto simp: commit_def)

lemma pipeline_indexed:
  assumes "run_pipeline env f rd pl r v w = (Inr v', w')"
    and "\<And>x y. kw_blobs w (canonical_key r) = Some x \<Longrightarrow> kn_sha256 env x = kn_sha256 env y \<Longrightarrow> x = y"
    and "get_derivative (kd_id r) (work (kw_db w)) = Some v0" and "dv_id v0 = dv_id v"
    and "dv_knowledge v = kd_id r" and "dv_kind v = canonical_kind"
  shows "\<exists>doc. indexed env r doc w'" and "get_derivative (kd_id r) (work (kw_db w')) = Some v'"
    and "dv_storage_key v' = Some (canonical_key r)" and "dv_status v' \<in> {''READY'', ''PARTIAL''}"
proof -
  let ?b = "case dv_storage_key v of None \<Rightarrow> kw_blobs w
      | Some k \<Rightarrow> if k \<noteq> [] \<and> k \<noteq> canonical_key r then snd (blob_delete (kf_delete f) k (kw_blobs w)) else kw_blobs w"
  from assms(1) obtain c b' sections chunks where
    c: "store_canonical env f (canonical_key r) (cn_bytes c) ?b = (None, b')"
    and s: "build_structure env (rd_decode rd) (pl_chunk_target pl) (pl_chunk_overlap pl) (cn_bytes c) = (sections, chunks)"
    and v': "v' = ready_derivative env r c v"
    and w': "try_commit (kf_commit f) (on_db (replace_structure env r v' sections chunks) (w\<lparr>kw_blobs := b'\<rparr>)) = (None, w')"
    by (auto simp: run_pipeline_def Let_def split: sum.splits if_splits prod.splits option.splits)
  have same: "?b (canonical_key r) = kw_blobs w (canonical_key r)"
    by (auto simp: blob_delete_other split: option.split)
  have doc: "b' (canonical_key r) = Some (cn_bytes c)"
    using store_canonicalD [OF c] assms(2) unfolding same by (cases "kw_blobs w (canonical_key r)") auto
  have W: "work (kw_db w') = replace_structure env r v' sections chunks (work (kw_db w))" "kw_blobs w' = b'"
    using commit_None_work [OF w'] by simp_all
  have "indexed env r (cn_bytes c) w'"
    unfolding indexed_def W chunks_of_replaced using doc chunk_rows_indexed [OF s] by auto
  then show "\<exists>doc. indexed env r doc w'" by blast
  have "dv_id v' = dv_id v0" "dv_knowledge v' = kd_id r" "dv_kind v' = canonical_kind"
    using assms(4-6) by (simp_all add: v' ready_derivative_def)
  then show "get_derivative (kd_id r) (work (kw_db w')) = Some v'"
    using assms(3) unfolding W get_derivative_replaced
    by (simp add: get_derivative_def save_derivative_def scalar_put_found)
  show "dv_storage_key v' = Some (canonical_key r)" "dv_status v' \<in> {''READY'', ''PARTIAL''}"
    by (simp_all add: v' ready_derivative_def)
qed

lemma processing_derivative:
  assumes "ensure_pending_derivative env r w = (v0, w0)" and "v = v0\<lparr>dv_status := st, dv_updated_at := n\<rparr>"
  shows "get_derivative (kd_id r) (work (kw_db (commit_world (on_db (save_derivative v) w0)))) = Some v"
    and "dv_knowledge v = kd_id r" and "dv_kind v = canonical_kind"
    and "kw_blobs (commit_world (on_db (save_derivative v) w0)) = kw_blobs w"
proof -
  have "get_derivative (kd_id r) (work (kw_db w0)) = Some v0 \<and> kw_blobs w0 = kw_blobs w"
    using assms(1)
    by (auto simp: ensure_pending_derivative_def Let_def get_derivative_def commit_world_def commit_def scalar_append
        pending_derivative_def split: option.splits)
  moreover from this have "dv_knowledge v0 = kd_id r" "dv_kind v0 = canonical_kind"
    by (auto simp: get_derivative_def dest: scalar_SomeD)
  ultimately show "get_derivative (kd_id r) (work (kw_db (commit_world (on_db (save_derivative v) w0)))) = Some v"
    and "dv_knowledge v = kd_id r" and "dv_kind v = canonical_kind"
    and "kw_blobs (commit_world (on_db (save_derivative v) w0)) = kw_blobs w"
    using assms(2) by (auto simp: commit_world_def commit_def save_derivative_def get_derivative_def
        intro!: scalar_put_found)
qed

lemma process_indexed:
  assumes "process_document env f rd pl r w = (Inr v', w')"
    and "\<And>x y. kw_blobs w (canonical_key r) = Some x \<Longrightarrow> kn_sha256 env x = kn_sha256 env y \<Longrightarrow> x = y"
  shows "\<exists>doc. indexed env r doc w'" and "get_derivative (kd_id r) (work (kw_db w')) = Some v'"
    and "dv_storage_key v' = Some (canonical_key r)" and "dv_status v' \<in> {''READY'', ''PARTIAL''}"
proof -
  obtain v0 w0 where e: "ensure_pending_derivative env r w = (v0, w0)" by fastforce
  define v where "v = v0\<lparr>dv_status := ''PROCESSING'', dv_updated_at := kn_now env\<rparr>"
  note d = processing_derivative [OF e v_def]
  have run: "run_pipeline env f rd pl r v (commit_world (on_db (save_derivative v) w0)) = (Inr v', w')"
    using assms(1) by (auto simp: process_document_def e v_def Let_def split: sum.splits know_error.splits prod.splits)
  have col: "kw_blobs (commit_world (on_db (save_derivative v) w0)) (canonical_key r) = Some x \<Longrightarrow>
      kn_sha256 env x = kn_sha256 env y \<Longrightarrow> x = y" for x y
    using assms(2) unfolding d(4) .
  show "\<exists>doc. indexed env r doc w'" "get_derivative (kd_id r) (work (kw_db w')) = Some v'"
    "dv_storage_key v' = Some (canonical_key r)" "dv_status v' \<in> {''READY'', ''PARTIAL''}"
    by (rule pipeline_indexed [OF run _ d(1) refl d(2,3)]; erule (1) col)+
qed

section \<open>The cleanup job\<close>

definition pending_count :: "know_db \<Rightarrow> nat" where
  "pending_count d = length (filter (\<lambda>t. ct_status t = ''PENDING'') (kb_cleanups d))"

definition calm :: "know_faults \<Rightarrow> bool" where
  "calm f \<longleftrightarrow> kf_commit f = Commit_Done \<and> (\<forall>k. kf_delete f k = Delete_Done)"

definition job_size :: "int \<Rightarrow> nat" where
  "job_size limit = nat (max 1 (min limit 500))"

lemma cleanup_one_count:
  assumes "cleanup_work sha (t # ts) w" and "calm f"
  shows "pending_count (work (kw_db (fst (cleanup_one env f t (w, m, n))))) + 1 = pending_count (work (kw_db w))"
proof -
  let ?rows = "kb_cleanups (work (kw_db w))"
  from assms(1) have t: "t \<in> set ?rows" "ct_status t = ''PENDING''" "unique_key ct_id ?rows"
    by (auto simp: cleanup_work_def know_constraints_def cleanup_constraints_def)
  let ?t = "t\<lparr>ct_attempts := ct_attempts t + 1, ct_updated_at := kn_now env, ct_status := ''DONE'', ct_last_error := None\<rparr>"
  obtain xs ys where "?rows = xs @ t # ys" "put_row ct_id ?t ?rows = xs @ ?t # ys"
    by (rule put_row_split [OF t(3,1), of ?t]) simp_all
  with assms(2) t(2) show ?thesis
    by (simp add: pending_count_def cleanup_one_def blob_delete_def calm_def Let_def)
qed

lemma cleanup_all_count:
  assumes "cleanup_work sha ts w" and "calm f"
  shows "pending_count (work (kw_db (fst (fold (cleanup_one env f) ts (w, m, n))))) + length ts =
     pending_count (work (kw_db w))"
  using assms(1)
proof (induction ts arbitrary: w m n)
  case (Cons t ts)
  have g: "gentle f" using assms(2) by (simp add: calm_def gentle_def)
  obtain w' m' n' where s: "cleanup_one env f t (w, m, n) = (w', m', n')" by (metis prod_cases3)
  with cleanup_one_work [OF Cons.prems g, of env m n] cleanup_one_count [OF Cons.prems assms(2), of env m n]
    Cons.IH [of w' m' n'] show ?case by simp
qed simp

lemma cleanup_job_count:
  assumes "blobs_inv sha s" and "calm f"
  shows "pending_count (kz_db (know_step (Cleanup env f limit) s)) = pending_count (kz_db s) - job_size limit"
proof -
  let ?ts = "pending_tasks limit (kz_db s)"
  have work: "cleanup_work sha ?ts (world_of s)"
    using cleanup_work_selected [OF fine_of_blobs [OF assms(1)] kept_world [OF assms(1)], of limit] by simp
  obtain w' i j where fold: "fold (cleanup_one env f) ?ts (world_of s, 0, 0) = (w', i, j)"
    by (metis prod_cases3)
  with cleanup_all_work [OF work, of f env 0 0] assms(2) have con: "know_constraints (work (kw_db w'))"
    by (simp add: calm_def gentle_def cleanup_work_def)
  have "length ?ts = min (job_size limit) (pending_count (kz_db s))"
    by (simp add: pending_tasks_def job_size_def pending_count_def min.commute)
  with cleanup_all_count [OF work assms(2), of env 0 0] fold con assms(2) show ?thesis
    by (simp add: process_storage_cleanup_tasks_def Let_def try_commit_def calm_def commit_def)
qed

lemma drain:
  assumes "blobs_inv sha s" and "list_all (\<lambda>(env, f). calm f) jobs"
  shows "pending_count (kz_db (fold know_step (map (\<lambda>(env, f). Cleanup env f limit) jobs) s)) =
    pending_count (kz_db s) - length jobs * job_size limit"
  using assms
proof (induction jobs arbitrary: s)
  case (Cons j jobs)
  obtain env f where j: "j = (env, f)" by fastforce
  with Cons.prems(2) have f: "calm f" and jobs: "list_all (\<lambda>(env, f). calm f) jobs" by simp_all
  then have "know_gentle sha (Cleanup env f limit) s" by (simp add: calm_def gentle_def)
  then have "blobs_inv sha (know_step (Cleanup env f limit) s)" using Cons.prems(1) by (rule blobs_step)
  from Cons.IH [OF this jobs] cleanup_job_count [OF Cons.prems(1) f, of env limit] j
  show ?case by (simp add: diff_diff_left)
qed simp

section \<open>The context\<close>

lemma context_facts:
  assumes "build_knowledge_context env f st rd drd q (world_of s) = (Inr (Some b), w)"
  shows "\<exists>u rs. cx_user q = Some u \<and> cb_used_ids b = map kd_id rs \<and>
    length rs \<le> nat (ks_max_files st) \<and> cb_provided b \<le> nat (ks_max_chars st) \<and>
    cb_provided b \<le> length rs * nat (ks_per_file st) \<and>
    (\<forall>r \<in> set rs. r \<in> set (kb_docs (kz_db s)) \<and> active_now (kn_now env) r \<and>
       purpose_allowed (py_lower (py_strip (cx_purpose q))) r \<and> readable (cx_tenant q) (Some u) r \<and>
       (targeted r \<longrightarrow> kd_agent r = cx_agent q)) \<and>
    durable (kw_db w) = fold (\<lambda>r. audit_knowledge_used r (cx_tenant q) u (cx_execution q)
       (py_lower (py_strip (cx_purpose q))) (cx_thread q) (cx_agent q)) rs (kz_db s)"
proof -
  let ?purpose = "py_lower (py_strip (cx_purpose q))"
  let ?docs = "eligible (kn_now env) ?purpose q (kz_db s)"
  let ?layers = "ordered_layers (cx_agent q) ?docs"
  let ?load = "load_source env f st rd drd (cx_tenant q) (cx_user q) (cx_query q) (world_of s)"
  let ?b0 = "\<lparr>bg_used = [], bg_provided = 0, bg_truncated = False\<rparr>"
  obtain bg messages where t: "take_layers (nat (ks_max_files st)) (nat (ks_max_chars st)) (nat (ks_per_file st))
      ?load ?layers ?b0 [] = (bg, messages)" by fastforce
  from assms t obtain u where u: "cx_user q = Some u" and ids: "cb_used_ids b = map kd_id (bg_used bg)"
    and prov: "cb_provided b = bg_provided bg"
    and commit: "try_commit (kf_commit f) (on_db (fold (\<lambda>r. audit_knowledge_used r (cx_tenant q) u
        (cx_execution q) ?purpose (cx_thread q) (cx_agent q)) (bg_used bg)) (world_of s)) = (None, w)"
    by (auto simp: build_knowledge_context_def Let_def split: if_splits option.splits prod.splits)
  have "in_budget (nat (ks_max_files st)) (nat (ks_max_chars st)) (nat (ks_per_file st)) ?b0"
    by (simp add: in_budget_def)
  from take_layers_budget [OF this, of ?load ?layers "[]"] t
  have budget: "in_budget (nat (ks_max_files st)) (nat (ks_max_chars st)) (nat (ks_per_file st)) bg" by simp
  have layers: "\<Union> (set ` snd ` set ?layers) \<subseteq> {r \<in> set ?docs. targeted r \<longrightarrow> kd_agent r = cx_agent q}"
    by (auto simp: ordered_layers_def)
  have "set (bg_used bg) \<subseteq> \<Union> (set ` snd ` set ?layers)"
    using take_layers_used [of "nat (ks_max_files st)" "nat (ks_max_chars st)" "nat (ks_per_file st)" ?load ?layers ?b0 "[]"] t
    by auto
  then have used: "\<forall>r \<in> set (bg_used bg). r \<in> set (kb_docs (kz_db s)) \<and> active_now (kn_now env) r \<and>
      purpose_allowed ?purpose r \<and> readable (cx_tenant q) (Some u) r \<and> (targeted r \<longrightarrow> kd_agent r = cx_agent q)"
    using layers eligibleD [of _ "kn_now env" ?purpose q "kz_db s"] unfolding u by blast
  have "durable (kw_db w) = fold (\<lambda>r. audit_knowledge_used r (cx_tenant q) u (cx_execution q) ?purpose
      (cx_thread q) (cx_agent q)) (bg_used bg) (kz_db s)"
    using commit_None_work [OF commit] clean_commit [OF commit] by (simp add: clean_def)
  with u ids prov budget used show ?thesis unfolding in_budget_def by auto
qed

section \<open>Chunks and excerpts\<close>

lemma chunk_at:
  assumes "keeps_text decode" and "hd_start (hd (headings decode doc)) \<le> i" and "i < length doc"
    and "\<not> py_space (doc ! i)"
  shows "\<exists>c \<in> set (snd (build_structure env decode ct co doc)). ch_start c \<le> i \<and> i < ch_end c \<and>
    ch_end c \<le> length doc \<and> int (ch_end c - ch_start c) \<le> max 1000 ct \<and>
    ch_sha256 c = kn_sha256 env (take (ch_end c - ch_start c) (drop (ch_start c) doc))"
proof -
  obtain s where s: "s \<in> set (sections_of (kn_section env) decode doc)" "sn_start s \<le> i" "i < sn_end s"
    using section_at [OF assms(2,3)] by blast
  have "0 < target_bytes ct" by (simp add: target_bytes_def)
  from spans_cover [OF this section_end [OF s(1)] s(2,3)] obtain x where
    x: "x \<in> set (spans (target_bytes ct) (overlap_bytes ct co) doc (sn_end s) (sn_start s))"
      "sp_start x \<le> i" "i < sp_end x" by blast
  note inside = span_inside [OF x(1)]
  have "doc ! i = sp_block x ! (i - sp_start x)" "i - sp_start x < length (sp_block x)"
    using inside x(2,3) section_end [OF s(1)] by auto
  then have "doc ! i \<in> set (sp_block x)" by simp
  with assms(1,4) have "block_text decode x \<noteq> []"
    unfolding keeps_text_def block_text_def by blast
  from chunk_from_span [OF s(1) x(1) this] obtain c where
    c: "c \<in> set (snd (build_structure env decode ct co doc))" "ch_start c = sp_start x" "ch_end c = sp_end x" by blast
  from span_from_chunk [OF c(1)] obtain s' x' where x': "s' \<in> set (sections_of (kn_section env) decode doc)"
      "x' \<in> set (spans (target_bytes ct) (overlap_bytes ct co) doc (sn_end s') (sn_start s'))"
      "ch_start c = sp_start x'" "ch_end c = sp_end x'" "ch_sha256 c = kn_sha256 env (sp_block x')" by metis
  have "ch_end c - ch_start c \<le> target_bytes ct"
    using span_inside [OF x'(2)] x'(3,4) by linarith
  then have "int (ch_end c - ch_start c) \<le> max 1000 ct"
    unfolding target_bytes_def by linarith
  with c x' x(2,3) span_inside [OF x'(2)] section_end [OF x'(1)] show ?thesis by (intro bexI [of _ c]) auto
qed

lemma context_of_indexed:
  assumes "\<exists>doc. indexed env r doc w" and "get_derivative (kd_id r) (work (kw_db w)) = Some v"
    and "dv_storage_key v = Some (canonical_key r)" and "dv_status v \<in> {''READY'', ''PARTIAL''}"
    and "kf_read f (canonical_key r)"
  shows "\<exists>res. canonical_context_for_document env f decode r tenant user query max_chars top_k w = Inr res \<and>
    (case res of None \<Rightarrow> True | Some (text, provided, trunc) \<Rightarrow> provided \<le> max_chars)"
proof -
  let ?chunks = "chunks_of (kd_id r) (work (kw_db w))"
  let ?fetch = "\<lambda>i j. blob_read_range (kf_read f) (canonical_key r) i j (kw_blobs w)"
  have key: "canonical_key r \<noteq> []" by (simp add: canonical_key_def)
  have fetch: "\<exists>raw. ?fetch (cr_start c) (cr_end c) = Inr raw \<and> kn_sha256 env raw = cr_sha256 c"
    if "c \<in> set ?chunks" for c
    using assms(1,5) that by (auto simp: indexed_def blob_read_range_def blob_get_def)
  define ranked where "ranked = ranked_chunks ?chunks query
      (case get_selection (kd_id r) tenant user (work (kw_db w)) of
         None \<Rightarrow> [] | Some s \<Rightarrow> if se_mode s = ''MANUAL'' then se_sections s else []) (nat (max 1 top_k))"
  have "\<forall>c \<in> set ranked. \<exists>raw. ?fetch (cr_start c) (cr_end c) = Inr raw \<and> kn_sha256 env raw = cr_sha256 c"
    using fetch ranked_subset unfolding ranked_def by blast
  from excerpt_total [OF this, of 0 max_chars decode "[]" "[]" False] obtain ps n t where
    "excerpt env decode ?fetch max_chars [] [] 0 False ranked = Inr (ps, n, t)" "n \<le> max_chars" by auto
  with assms(2-4) key show ?thesis
    by (simp add: canonical_context_for_document_def Let_def ranked_def [symmetric])
qed

end
