(* ===== verification/Know_Properties.thy ===== *)
theory Know_Properties
  imports Know_Facts
begin

text \<open>
  The properties of the knowledge plane, each a few steps over the lemmas of the other theories.
  Runs start from the empty state; the operations of a run have any environment and, where a property
  does not say otherwise, any faults. Know_Example holds the witnesses and the runs that show what the
  excluded faults and the unlocked read of a supersession do.
\<close>

text \<open>C3. Under any faults and any interleaving of a supersession with other requests, a logical
  document has the versions 1 to n without a gap, at most one of its rows is DRAFT or ACTIVE, that row
  is the last version, and every row satisfies the constraints on version, scope, tenant and owner.\<close>

theorem version_chain:
  assumes "x \<in> set (kb_docs (kz_db (know_run es)))"
  shows "1 \<le> kd_version x \<and> scope_columns x \<and>
    (1 < kd_version x \<longrightarrow> (\<exists>y \<in> set (kb_docs (kz_db (know_run es))).
       kd_logical y = kd_logical x \<and> kd_version y = kd_version x - 1)) \<and>
    (is_open x \<longrightarrow> (\<forall>y \<in> set (kb_docs (kz_db (know_run es))). kd_logical y = kd_logical x \<longrightarrow>
       kd_version y \<le> kd_version x \<and> (is_open y \<longrightarrow> y = x)))"
proof -
  have "(kd_logical x, kd_version x) \<in> doc_version ` set (kb_docs (kz_db (know_run es)))"
    using assms by (auto simp: doc_version_def)
  then have "\<exists>y \<in> set (kb_docs (kz_db (know_run es))). kd_logical y = kd_logical x \<and> kd_version y = kd_version x - 1"
    if "1 < kd_version x"
    using run_docs(4) [of es] that unfolding chain_def by (fastforce simp: doc_version_def)
  moreover have "kd_version y \<le> kd_version x \<and> (is_open y \<longrightarrow> y = x)"
    if "is_open x" "y \<in> set (kb_docs (kz_db (know_run es)))" "kd_logical y = kd_logical x" for y
    using that assms chain_open [OF run_docs(4) assms] open_unique [OF know_state_invD [OF know_run_inv] that(2) assms] by simp
  ultimately show ?thesis
    using run_docs(5,6) [OF assms] by blast
qed



text \<open>C7. A context that is returned keeps its budgets of files and characters; every document in it
  is ACTIVE and in effect, allows the purpose, is readable for the tenant and user, and is addressed to
  no other agent; and the use of exactly these documents is committed to the audit log.\<close>

theorem context_governed:
  assumes "build_knowledge_context env f st rd drd q (world_of s) = (Inr (Some b), w)"
  shows "\<exists>u rs. cx_user q = Some u \<and> cb_used_ids b = map kd_id rs \<and>
    length rs \<le> nat (ks_max_files st) \<and> cb_provided b \<le> nat (ks_max_chars st) \<and>
    cb_provided b \<le> length rs * nat (ks_per_file st) \<and>
    (\<forall>r \<in> set rs. r \<in> set (kb_docs (kz_db s)) \<and> active_now (kn_now env) r \<and>
       purpose_allowed (py_lower (py_strip (cx_purpose q))) r \<and> readable (cx_tenant q) (Some u) r \<and>
       (targeted r \<longrightarrow> kd_agent r = cx_agent q)) \<and>
    durable (kw_db w) = fold (\<lambda>r. audit_knowledge_used r (cx_tenant q) u (cx_execution q)
       (py_lower (py_strip (cx_purpose q))) (cx_thread q) (cx_agent q)) rs (kz_db s)"
  using assms by (rule context_facts)

text \<open>C28. A document that was revoked or superseded is in no context of any later request, whatever
  happened in between.\<close>

theorem retired_never_used:
  assumes "r \<in> set (kb_docs (kz_db (know_run es)))" and "kd_status r \<in> {Superseded, Revoked}"
    and "build_knowledge_context env f st rd drd q (world_of (fold know_step es' (know_run es))) = (Inr (Some b), w)"
  shows "kd_id r \<notin> set (cb_used_ids b)"
proof
  assume "kd_id r \<in> set (cb_used_ids b)"
  moreover from context_facts [OF assms(3)] obtain rs where "cb_used_ids b = map kd_id rs"
      "\<forall>x \<in> set rs. x \<in> set (kb_docs (kz_db (fold know_step es' (know_run es)))) \<and> active_now (kn_now env) x" by blast
  ultimately obtain x where
    "x \<in> set (kb_docs (kz_db (fold know_step es' (know_run es))))" "active_now (kn_now env) x" "kd_id x = kd_id r"
    by (metis imageE list.set_map)
  with retired_later [OF know_run_inv assms(1,2), of x es'] show False by (auto simp: active_now_def)
qed

text \<open>C29. Every character of a canonical document from its first heading on, unless it is white space, is
  inside a chunk; the chunk lies inside the document, is no longer than the configured size (at least
  1000 bytes), and its digest is that of the bytes in its range.\<close>

theorem chunks_cover:
  assumes "keeps_text decode" and "hd_start (hd (headings decode doc)) \<le> i" and "i < length doc"
    and "\<not> py_space (doc ! i)"
  shows "\<exists>c \<in> set (snd (build_structure env decode ct co doc)). ch_start c \<le> i \<and> i < ch_end c \<and>
    ch_end c \<le> length doc \<and> int (ch_end c - ch_start c) \<le> max 1000 ct \<and>
    ch_sha256 c = kn_sha256 env (take (ch_end c - ch_start c) (drop (ch_start c) doc))"
  using assms by (rule chunk_at)

text \<open>After a document was processed, its excerpt can always be read: every chunk is found in the
  canonical blob with its recorded digest, and the excerpt has at most the characters asked for. Of
  the digest function it is only needed that the canonical text has not the digest of another text
  stored before under its key.\<close>

theorem processed_excerpt_readable:
  assumes "process_document env f rd pl r w = (Inr v, w')"
    and "\<And>x y. kw_blobs w (canonical_key r) = Some x \<Longrightarrow> kn_sha256 env x = kn_sha256 env y \<Longrightarrow> x = y"
    and "kf_read f (canonical_key r)"
  shows "\<exists>res. canonical_context_for_document env f decode r tenant user query max_chars top_k w' = Inr res \<and>
    (case res of None \<Rightarrow> True | Some (text, provided, trunc) \<Rightarrow> provided \<le> max_chars)"
  using process_indexed [OF assms(1,2)] assms(3) by (intro context_of_indexed) auto

text \<open>The text that is extracted from any file is not empty and in normal form: no NUL, carriage
  return or tab, no two blanks in a row, no two empty lines in a row, no margin; normalizing it again
  does not change it.\<close>

theorem extracted_text_normal:
  assumes "extract_document rd max_pages mime raw = Inr text"
  shows "text \<noteq> [] \<and> normal_text text \<and> normalise_text text = text"
  using assms normal_text_normalise normalise_normal
  by (fastforce simp: extract_document_def Let_def split: option.splits sum.splits if_splits)


end
