(* ===== verification/Know_Example.thy ===== *)
theory Know_Example
  imports Know_Properties
begin

text \<open>
  Concrete runs of the knowledge plane: the witnesses of its properties, and the runs that show what the
  excluded faults and the unlocked read of a supersession do. A digest is the text with a letter in
  front, bytes decode to themselves, and one person is the administrator of the tenant.
\<close>

definition kenv :: "string \<Rightarrow> int \<Rightarrow> know_env" where
  "kenv k t = \<lparr>kn_now = t, kn_logical = k @ ''L'', kn_row = k @ ''R'', kn_task = k @ ''T'',
     kn_derivative = k @ ''D'', kn_selection = k @ ''S'', kn_section = (\<lambda>i. k @ ''s'' @ show_nat i),
     kn_chunk = (\<lambda>i. k @ ''c'' @ show_nat i), kn_sha256 = (\<lambda>s. CHR ''h'' # s)\<rparr>"

definition smooth :: know_faults where
  "smooth = \<lparr>kf_commit = Commit_Done, kf_probe = True, kf_queue_commit = Commit_Done, kf_put = Put_Done,
     kf_delete = (\<lambda>k. Delete_Done), kf_read = (\<lambda>k. True)\<rparr>"

definition boss :: principal where
  "boss = \<lparr>pr_user_id = ''ana'', pr_tenant_id = ''acme'', pr_roles = [''admin''], pr_email = None,
     pr_external_subject = None\<rparr>"

definition memo :: upload where
  "memo = \<lparr>up_title = ''note'', up_filename = ''n'', up_mime = ''text/plain'', up_data = ''one'', up_size = 3,
     up_digest = Some ''hone'', up_classification = ''internal'', up_purposes = [], up_agent = None,
     up_expires = None\<rparr>"

definition renewal :: replacement where
  "renewal = \<lparr>rp_title = None, rp_filename = ''n'', rp_mime = ''text/plain'', rp_data = ''two'', rp_size = 3,
     rp_digest = Some ''htwo'', rp_classification = None, rp_purposes = None, rp_agent = None, rp_expires = None\<rparr>"

definition first_version :: "know_op list" where
  "first_version = [Upload_File (kenv ''a'' 0) smooth boss ''institutional'' memo,
     Publish (kenv ''a'' 1) smooth boss ''aR'']"

definition two_versions :: "know_op list" where
  "two_versions = first_version @ [Supersede_Begin 0 boss ''aR'' renewal,
     Supersede_Finish 0 (kenv ''b'' 2) smooth]"

definition memo_row :: know_doc where
  "memo_row = (new_document (kenv ''a'' 0) boss Institutional memo allowed_purposes ''hone'' 3 None)
     \<lparr>kd_status := Active, kd_effective_from := Some 1, kd_approved_by := Some ''ana'', kd_updated_at := 1\<rparr>"

definition old_row :: know_doc where
  "old_row = memo_row\<lparr>kd_status := Superseded, kd_updated_at := 2\<rparr>"

definition new_row :: know_doc where
  "new_row = next_version (kenv ''b'' 2) boss memo_row renewal allowed_purposes ''note'' ''htwo'' 3"

lemma first_docs: "kb_docs (kz_db (know_run first_version)) = [memo_row]"
  by code_simp

lemma two_docs: "kb_docs (kz_db (know_run two_versions)) = [old_row, new_row]"
  by code_simp

theorem version_chain_witness:
  "is_open new_row \<and> kd_version new_row = 2 \<and> scope_columns new_row \<and>
   (\<exists>y. kd_logical y = kd_logical new_row \<and> kd_version y = 1 \<and> \<not> is_open y)"
proof -
  have "new_row \<in> set (kb_docs (kz_db (know_run two_versions)))" by (simp add: two_docs)
  note v = version_chain [OF this]
  have "is_open new_row" "kd_version new_row = 2" by code_simp+
  with v obtain y where "kd_logical y = kd_logical new_row" "kd_version y = 1"
      "y \<in> set (kb_docs (kz_db (know_run two_versions)))" by auto
  moreover from this v \<open>is_open new_row\<close> \<open>kd_version new_row = 2\<close> have "\<not> is_open y" by auto
  ultimately show ?thesis using v \<open>is_open new_row\<close> \<open>kd_version new_row = 2\<close> by auto
qed




section \<open>Contexts and the index\<close>

definition demo_settings :: know_settings where
  "demo_settings = \<lparr>ks_plane_enabled = True, ks_large_enabled = True, ks_selective = False, ks_max_files = 4,
     ks_max_chars = 10, ks_per_file = 5, ks_top_k = 3, ks_max_upload = 100, ks_large_max_upload = 100,
     ks_auto_process = 50, ks_pdf_pages = 5,
     ks_pipeline = \<lparr>pl_max_pages = 5, pl_chunk_target = 1000, pl_chunk_overlap = 10\<rparr>\<rparr>"

definition demo_readers :: readers where
  "demo_readers = \<lparr>rd_decode = id, rd_encode = id, rd_flushed_newline = True, rd_docx = (\<lambda>s. Inr None),
     rd_pptx = (\<lambda>s. Inr []), rd_xlsx = (\<lambda>s. Inr []), rd_pdf = (\<lambda>s. None)\<rparr>"

definition demo_doc_readers :: doc_readers where
  "demo_doc_readers = \<lparr>dr_utf8_sig = Some, dr_reformat_json = Some, dr_zip_names = (\<lambda>s. None),
     dr_docx = (\<lambda>s. Inl ''x''), dr_pptx = (\<lambda>s. None), dr_xlsx = (\<lambda>s. None), dr_pdf = (\<lambda>s. None)\<rparr>"

definition demo_query :: context_request where
  "demo_query = \<lparr>cx_tenant = ''acme'', cx_user = Some ''bob'', cx_purpose = '' Chat '', cx_execution = ''e1'',
     cx_thread = None, cx_agent = None, cx_query = ''what''\<rparr>"

definition demo_context :: "know_op list \<Rightarrow> (know_error + context_bundle option) \<times> know_world" where
  "demo_context es = build_knowledge_context (kenv ''c'' 9) smooth demo_settings demo_readers demo_doc_readers
     demo_query (world_of (know_run es))"

lemma demo_used:
  "\<exists>(b :: context_bundle) w. demo_context es = (Inr (Some b), w) \<and> cb_used_ids b = ids" if
  "(case fst (demo_context es) of Inr (Some b) \<Rightarrow> cb_used_ids b = ids | _ \<Rightarrow> False)"
  using that by (cases "demo_context es") (auto split: sum.splits option.splits)

theorem context_governed_witness:
  "\<exists>(b :: context_bundle) (rs :: know_doc list). cb_used_ids b = [''aR''] \<and> cb_used_ids b = map kd_id rs \<and> cb_provided b \<le> 10 \<and>
     kd_status (hd rs) = Active"
proof -
  have "\<exists>b w. demo_context first_version = (Inr (Some b), w) \<and> cb_used_ids b = [''aR'']"
    by (rule demo_used) code_simp
  then obtain b w where b: "demo_context first_version = (Inr (Some b), w)" "cb_used_ids b = [''aR'']" by blast
  from context_governed [OF b(1) [unfolded demo_context_def]] obtain rs where
    "cb_used_ids b = map kd_id rs" "cb_provided b \<le> nat (ks_max_chars demo_settings)"
    "\<forall>r \<in> set rs. active_now (kn_now (kenv ''c'' 9)) r" by blast
  with b(2) show ?thesis
    by (intro exI [of _ b] exI [of _ rs]) (auto simp: active_now_def demo_settings_def)
qed

theorem retired_never_used_witness:
  "\<exists>b :: context_bundle. cb_used_ids b = [''bR''] \<and> kd_id old_row \<notin> set (cb_used_ids b)"
proof -
  have "\<exists>b w. demo_context two_versions = (Inr (Some b), w) \<and> cb_used_ids b = [''bR'']"
    by (rule demo_used) code_simp
  then obtain b w where b: "demo_context two_versions = (Inr (Some b), w)" "cb_used_ids b = [''bR'']" by blast
  have "old_row \<in> set (kb_docs (kz_db (know_run two_versions)))" "kd_status old_row \<in> {Superseded, Revoked}"
    by (simp_all add: two_docs old_row_def)
  from retired_never_used [OF this, where es' = "[]" and b = b and w = w] b
  have "kd_id old_row \<notin> set (cb_used_ids b)" unfolding demo_context_def by simp
  with b(2) show ?thesis by blast
qed

lemma py_strip_Nil: "py_strip s = [] \<longleftrightarrow> list_all py_space s"
proof -
  have "list_all py_space s = list_all py_space (takeWhile py_space s @ dropWhile py_space s)" by simp
  also have "\<dots> = list_all py_space (dropWhile py_space s)"
    unfolding list_all_append by (auto simp: list_all_iff dest: set_takeWhileD)
  finally show ?thesis by (simp add: py_strip_def py_rstrip_def py_lstrip_def list_all_iff)
qed

lemma id_keeps_text: "keeps_text id"
proof -
  have "py_strip b \<noteq> []" if "c \<in> set b" "\<not> py_space c" for b c
    using that by (auto simp: py_strip_Nil list_all_iff)
  then show ?thesis by (auto simp: keeps_text_def)
qed

definition demo_doc :: string where
  "demo_doc = ''# One'' @ [CHR 0x0A] @ ''the first words''"

theorem chunks_cover_witness:
  "\<exists>c :: chunk. ch_start c \<le> 8 \<and> 8 < ch_end c \<and> ch_end c \<le> 21 \<and>
     ch_sha256 c = CHR ''h'' # take (ch_end c - ch_start c) (drop (ch_start c) demo_doc)"
proof -
  have "hd_start (hd (headings id demo_doc)) \<le> 8" "8 < length demo_doc" "\<not> py_space (demo_doc ! 8)" by code_simp+
  from chunks_cover [OF id_keeps_text this, of "kenv ''a'' 0" 1000 10]
  show ?thesis by (auto simp: kenv_def demo_doc_def)
qed

definition demo_processed :: "(know_error + derivative) \<times> know_world" where
  "demo_processed = process_document (kenv ''d'' 5) smooth demo_readers (ks_pipeline demo_settings) memo_row
     (world_of (know_run first_version))"

theorem processed_excerpt_readable_witness:
  "\<exists>res. canonical_context_for_document (kenv ''d'' 5) smooth id memo_row ''acme'' ''bob'' ''one'' 10 3 (snd demo_processed)
     = Inr res"
proof -
  have "case fst demo_processed of Inr v \<Rightarrow> True | _ \<Rightarrow> False" by code_simp
  then obtain v w where d: "demo_processed = (Inr v, w)"
    by (metis (no_types, lifting) prod.collapse sum.case_eq_if sum.collapse(2))
  have "\<exists>res. canonical_context_for_document (kenv ''d'' 5) smooth id memo_row ''acme'' ''bob'' ''one'' 10 3 w = Inr res \<and>
      (case res of None \<Rightarrow> True | Some (text, provided, trunc) \<Rightarrow> provided \<le> 10)"
    by (rule processed_excerpt_readable [OF d [unfolded demo_processed_def]]) (simp_all add: kenv_def smooth_def)
  then show ?thesis by (auto simp: d)
qed

theorem extracted_text_normal_witness: "normal_text ''one''"
proof -
  have "extract_document demo_doc_readers 5 ''text/plain'' ''one'' = Inr ''one''" by code_simp
  from extracted_text_normal [OF this] show ?thesis by simp
qed

section \<open>Orphans\<close>

text \<open>A commit that is lost while the blob store refuses the delete leaves one task in the queue.\<close>

definition stuck :: know_faults where
  "stuck = smooth\<lparr>kf_commit := Commit_Lost, kf_delete := (\<lambda>k. Delete_Refused)\<rparr>"



section \<open>What the excluded faults and the unlocked read do\<close>

text \<open>
  A task that stays in the queue after its blob is gone (the cleanup job deletes the blobs before its
  only commit, and that commit is lost) names the key of a later document: the same replacement, sent
  again, has the same key. The next job deletes the blob of the ACTIVE document.
\<close>

definition lost_commit :: know_faults where
  "lost_commit = smooth\<lparr>kf_commit := Commit_Lost\<rparr>"

definition live_blob_deleted :: "know_op list" where
  "live_blob_deleted = first_version @
     [Supersede (kenv ''b'' 2) stuck boss ''aR'' renewal, Cleanup (kenv ''y'' 3) lost_commit 10,
      Supersede (kenv ''b'' 4) smooth boss ''aR'' renewal, Cleanup (kenv ''z'' 5) smooth 10]"

lemma cleanup_deletes_live_blob:
  "map (\<lambda>r. (kd_id r, kd_status r, kz_blobs (know_run live_blob_deleted) (kd_storage_key r)))
     (kb_docs (kz_db (know_run live_blob_deleted))) =
   [(''aR'', Superseded, Some ''one''), (''bR'', Active, None)]"
  by code_simp

text \<open>
  A revocation between the unlocked read and the write of a supersession from a file is lost: the old
  row becomes SUPERSEDED and the new version is ACTIVE.
\<close>

definition revoked_then_finished :: "know_op list" where
  "revoked_then_finished = first_version @
     [Supersede_Begin 0 boss ''aR'' renewal, Revoke (kenv ''r'' 2) smooth boss ''aR'',
      Supersede_Finish 0 (kenv ''b'' 3) smooth]"

lemma revocation_lost:
  "map (\<lambda>r. (kd_id r, kd_status r)) (kb_docs (kz_db (know_run (butlast revoked_then_finished)))) =
     [(''aR'', Revoked)]"
  "map (\<lambda>r. (kd_id r, kd_status r)) (kb_docs (kz_db (know_run revoked_then_finished))) =
     [(''aR'', Superseded), (''bR'', Active)]"
  by code_simp+

text \<open>
  The routes of the navigator answer 404 for a document that is missing, and fail (500) for a draft of
  the tenant that the user may not manage: the exception of the policy is not among those they catch.
\<close>

definition reader :: principal where
  "reader = \<lparr>pr_user_id = ''bob'', pr_tenant_id = ''acme'', pr_roles = [''member''], pr_email = None,
     pr_external_subject = None\<rparr>"

lemma hidden_draft_fails:
  "fst (get_knowledge_structure demo_settings reader ''aR'' (world_of (know_run (take 1 first_version)))) =
     Inl (HttpError 500 ''Internal Server Error'')"
  "fst (get_knowledge_structure demo_settings reader ''zz'' (world_of (know_run (take 1 first_version)))) =
     Inl (HttpError 404 ''KNOWLEDGE_NOT_FOUND'')"
  by code_simp+

text \<open>
  Documents of a later layer that no longer fit are not reported as cut off when the budget is used up
  exactly at the end of a layer: one file is allowed, two are eligible, and the flag is not set.
\<close>

definition two_layers :: "know_op list" where
  "two_layers = first_version @ [Upload_File (kenv ''p'' 2) smooth reader ''personal'' memo]"

definition one_file :: know_settings where
  "one_file = demo_settings\<lparr>ks_max_files := 1\<rparr>"

lemma left_out_not_reported:
  "map kd_id (eligible 9 ''chat'' demo_query (kz_db (know_run two_layers))) = [''aR'', ''pR'']"
  "(case fst (build_knowledge_context (kenv ''c'' 9) smooth one_file demo_readers demo_doc_readers demo_query
       (world_of (know_run two_layers))) of
     Inr (Some b) \<Rightarrow> cb_used_ids b = [''aR''] \<and> \<not> cb_truncated b | _ \<Rightarrow> False)"
  by code_simp+

text \<open>A deleted document leaves its canonical text in the blob store, and no task to remove it.\<close>

definition draft_processed :: know_world where
  "draft_processed = (let w = world_of (know_run (take 1 first_version)) in
     snd (process_document (kenv ''d'' 5) smooth demo_readers (ks_pipeline demo_settings)
       (hd (kb_docs (work (kw_db w)))) w))"

lemma canonical_blob_left:
  "(case delete_document (kenv ''e'' 6) smooth boss ''aR'' draft_processed of (e, w) \<Rightarrow>
      (e, kb_docs (durable (kw_db w)), kb_cleanups (durable (kw_db w)),
       kw_blobs w (kd_storage_key memo_row), kw_blobs w (canonical_key memo_row) = None)) =
   (None, [], [], None, False)"
  by code_simp

end
