(* ===== verification/Audit_Base.thy ===== *)
theory Audit_Base
  imports Py_Values "HOL-Library.Char_ord" "HOL-Library.List_Lexorder" "HOL-Library.Multiset"
begin

text \<open>
  What the audit plane computes with: the exceptions of its services, compact JSON with sorted keys,
  strict UTF-8, and the detector of secrets (src/src/orkio_v2/services/audit_secret_policy.py). In
  this plane a string is the string of its UTF-8 bytes, so the length of an encoded text is its
  length; \<open>utf8_valid\<close> says that bytes are the encoding of a text. White space and letter case are
  those of ASCII.
\<close>

section \<open>Exceptions\<close>

text \<open>One constructor per exception class, with the text of the exception.\<close>

datatype audit_exn =
    Secret_Exn string
  | Path_Exn string
  | File_Exn string
  | Runtime_Exn string
  | Archive_Exn string
  | Source_Exn string
  | Guard_Exn string
  | Directive_Exn string
  | Evidence_Exn string
  | Repository_Exn string
  | Rate_Exn string
  | Invocation_Exn string int
  | Other_Exn string

text \<open>The \<open>code\<close> attribute: of the class for some, of the instance for others.\<close>

fun exn_code :: "audit_exn \<Rightarrow> string option" where
  "exn_code (Secret_Exn t) = Some ''AUDIT_SECRET_CONTENT_BLOCKED''"
| "exn_code (Path_Exn t) = Some ''AUDIT_PATH_NOT_ALLOWED''"
| "exn_code (File_Exn t) = Some ''AUDIT_FILE_ERROR''"
| "exn_code (Runtime_Exn t) = Some ''AUDIT_RUNTIME_MODULE_NOT_ALLOWED''"
| "exn_code (Archive_Exn t) = Some ''AUDIT_ARCHIVE_ERROR''"
| "exn_code (Source_Exn t) = Some ''AUDIT_ARCHIVE_SOURCE_ERROR''"
| "exn_code (Guard_Exn t) = Some t"
| "exn_code (Directive_Exn t) = Some t"
| "exn_code (Evidence_Exn t) = Some ''AUDIT_EVIDENCE_ERROR''"
| "exn_code (Repository_Exn t) = Some t"
| "exn_code (Rate_Exn t) = Some t"
| "exn_code (Invocation_Exn t status) = Some t"
| "exn_code (Other_Exn t) = None"

fun exn_text :: "audit_exn \<Rightarrow> string" where
  "exn_text (Secret_Exn t) = t"
| "exn_text (Path_Exn t) = t"
| "exn_text (File_Exn t) = t"
| "exn_text (Runtime_Exn t) = t"
| "exn_text (Archive_Exn t) = t"
| "exn_text (Source_Exn t) = t"
| "exn_text (Guard_Exn t) = t"
| "exn_text (Directive_Exn t) = t"
| "exn_text (Evidence_Exn t) = t"
| "exn_text (Repository_Exn t) = t"
| "exn_text (Rate_Exn t) = t"
| "exn_text (Invocation_Exn t status) = t"
| "exn_text (Other_Exn t) = t"

definition py_endswith :: "string \<Rightarrow> string \<Rightarrow> bool" where
  "py_endswith s p \<longleftrightarrow> take (length p) (rev s) = rev p"

lemma find_in: "find P xs = Some x \<Longrightarrow> x \<in> set xs \<and> P x"
  by (induction xs) (auto split: if_splits)

lemma map_sum_Inr_iff: "map_sum id f r = Inr y \<longleftrightarrow> (\<exists>x. r = Inr x \<and> f x = y)"
  by (cases r) auto

section \<open>JSON\<close>

text \<open>\<open>json.dumps(x, ensure_ascii=False, sort_keys=True, separators=(",", ":"))\<close>, encoded.\<close>

definition escape_char :: "char \<Rightarrow> string" where
  "escape_char c =
     (if c = CHR 0x22 then [CHR 0x5C, CHR 0x22]
      else if c = CHR 0x5C then [CHR 0x5C, CHR 0x5C]
      else if c = CHR 0x0A then [CHR 0x5C, CHR ''n'']
      else if c = CHR 0x0D then [CHR 0x5C, CHR ''r'']
      else if c = CHR 0x09 then [CHR 0x5C, CHR ''t'']
      else if c = CHR 0x08 then [CHR 0x5C, CHR ''b'']
      else if c = CHR 0x0C then [CHR 0x5C, CHR ''f'']
      else if of_char c < (32 :: nat)
      then CHR 0x5C # ''u00'' @ [hex_letters ! (of_char c div 16), hex_letters ! (of_char c mod 16)]
      else [c])"

definition quote :: "string \<Rightarrow> string" where
  "quote s = CHR 0x22 # concat (map escape_char s) @ [CHR 0x22]"

fun dump_json :: "json \<Rightarrow> string" where
  "dump_json JNull = ''null''"
| "dump_json (JBool b) = (if b then ''true'' else ''false'')"
| "dump_json (JInt i) = show_int i"
| "dump_json (JFloat r) = r"
| "dump_json (JStr s) = quote s"
| "dump_json (JList xs) = ''['' @ py_join '','' (map dump_json xs) @ '']''"
| "dump_json (JObj kvs) = ''{'' @ py_join '','' (map (\<lambda>(k, s). quote k @ '':'' @ s)
     (sort_key fst (map (\<lambda>(k, v). (k, dump_json v)) kvs))) @ ''}''"

section \<open>UTF-8\<close>

definition tail_byte :: "char \<Rightarrow> bool" where
  "tail_byte c \<longleftrightarrow> 128 \<le> (of_char c :: nat) \<and> (of_char c :: nat) < 192"

text \<open>The width announced by a lead byte, 0 when it cannot begin a character.\<close>

definition lead_width :: "char \<Rightarrow> nat" where
  "lead_width c = (let n = (of_char c :: nat) in
     if n < 128 then 1 else if 194 \<le> n \<and> n < 224 then 2 else if 224 \<le> n \<and> n < 240 then 3
     else if 240 \<le> n \<and> n < 245 then 4 else 0)"

text \<open>No overlong form, no surrogate, nothing above U+10FFFF.\<close>

definition second_ok :: "char \<Rightarrow> string \<Rightarrow> bool" where
  "second_ok c cs \<longleftrightarrow> (case cs of [] \<Rightarrow> True | d # _ \<Rightarrow>
     (c = CHR 0xE0 \<longrightarrow> 160 \<le> (of_char d :: nat)) \<and> (c = CHR 0xED \<longrightarrow> (of_char d :: nat) < 160) \<and>
     (c = CHR 0xF0 \<longrightarrow> 144 \<le> (of_char d :: nat)) \<and> (c = CHR 0xF4 \<longrightarrow> (of_char d :: nat) < 144))"

text \<open>The number of bytes of the first character, 0 when the bytes do not begin with one.\<close>

definition utf8_width :: "string \<Rightarrow> nat" where
  "utf8_width s = (case s of [] \<Rightarrow> 0 | c # cs \<Rightarrow>
     if lead_width c - 1 \<le> length cs \<and> list_all tail_byte (take (lead_width c - 1) cs) \<and>
       (1 < lead_width c \<longrightarrow> second_ok c cs)
     then lead_width c else 0)"

lemma lead_width_4: "lead_width c \<le> 4"
  by (simp add: lead_width_def Let_def)

lemma utf8_width_bounds: "utf8_width s \<le> length s" "utf8_width s \<le> 4"
  using lead_width_4 [of "hd s"] by (cases s; simp add: utf8_width_def; linarith)+

function utf8_valid :: "string \<Rightarrow> bool" where
  "utf8_valid s = (if s = [] then True else if utf8_width s = 0 then False else utf8_valid (drop (utf8_width s) s))"
  by pat_completeness auto
termination
  by (relation "measure length") auto

declare utf8_valid.simps [simp del]

lemma utf8_valid_Nil [simp]: "utf8_valid []"
  by (simp add: utf8_valid.simps)

lemma utf8_width_append: "0 < utf8_width s \<Longrightarrow> utf8_width (s @ t) = utf8_width s"
proof (cases s)
  case (Cons c cs)
  assume "0 < utf8_width s"
  then have w: "lead_width c - 1 \<le> length cs" "list_all tail_byte (take (lead_width c - 1) cs)"
      "1 < lead_width c \<longrightarrow> second_ok c cs" "utf8_width s = lead_width c"
    using Cons by (auto simp: utf8_width_def split: if_splits)
  have "second_ok c (cs @ t)" if "1 < lead_width c"
    using w(1,3) that by (cases cs) (auto simp: second_ok_def)
  with w show ?thesis using Cons by (simp add: utf8_width_def)
qed (simp add: utf8_width_def)

lemma utf8_valid_append: "utf8_valid s \<Longrightarrow> utf8_valid (s @ t) = utf8_valid t"
proof (induction s rule: utf8_valid.induct)
  case (1 s)
  show ?case
  proof (cases "s = []")
    case False
    with "1.prems" have w: "0 < utf8_width s" "utf8_valid (drop (utf8_width s) s)"
      by (simp_all add: utf8_valid.simps [of s] split: if_splits)
    have "utf8_valid (s @ t) = utf8_valid (drop (utf8_width s) s @ t)"
      using utf8_valid.simps [of "s @ t"] w(1) False utf8_width_bounds(1) [of s]
      by (simp add: utf8_width_append)
    with "1.IH" False w show ?thesis by simp
  qed simp
qed

text \<open>No character of category Cc (C0, DEL, C1) other than the allowed ones.\<close>

fun control_free :: "char list \<Rightarrow> string \<Rightarrow> bool" where
  "control_free allowed [] = True"
| "control_free allowed (c # cs) =
     ((c \<in> set allowed \<or> 32 \<le> (of_char c :: nat) \<and> c \<noteq> CHR 0x7F) \<and>
      \<not> (c = CHR 0xC2 \<and> (case cs of [] \<Rightarrow> False | d # _ \<Rightarrow> tail_byte d \<and> (of_char d :: nat) < 160)) \<and>
      control_free allowed cs)"

definition text_controls :: "char list" where
  "text_controls = [CHR 0x09, CHR 0x0A, CHR 0x0D]"

text \<open>The text of some bytes, when they are UTF-8 without control characters.\<close>

definition safe_text :: "string \<Rightarrow> bool" where
  "safe_text raw \<longleftrightarrow> utf8_valid raw \<and> control_free text_controls raw"

text \<open>\<open>raw[offset:end]\<close>, and the greatest end from which on back the bytes are a text.\<close>

definition slice :: "nat \<Rightarrow> nat \<Rightarrow> 'a list \<Rightarrow> 'a list" where
  "slice i j xs = take (j - i) (drop i xs)"

fun utf8_cut :: "string \<Rightarrow> nat \<Rightarrow> nat \<Rightarrow> nat" where
  "utf8_cut raw offset 0 = offset"
| "utf8_cut raw offset (Suc n) =
     (if Suc n \<le> offset then offset
      else if utf8_valid (slice offset (Suc n) raw) then Suc n else utf8_cut raw offset n)"

lemma utf8_cut_sound:
  "offset \<le> n \<Longrightarrow> offset \<le> utf8_cut raw offset n \<and> utf8_cut raw offset n \<le> n \<and>
     utf8_valid (slice offset (utf8_cut raw offset n) raw)"
proof (induction n)
  case (Suc n)
  then show ?case by (cases "offset \<le> n") (auto simp: slice_def)
qed (simp add: slice_def)

lemma utf8_cut_greatest:
  "\<lbrakk>utf8_valid (slice offset m raw); offset \<le> m; m \<le> n\<rbrakk> \<Longrightarrow> m \<le> utf8_cut raw offset n"
proof (induction n)
  case (Suc n)
  then show ?case by (cases "m \<le> n"; cases "m = Suc n") auto
qed simp

text \<open>A text that is not empty has a first character, of at most four bytes, and the rest is a text.\<close>

lemma utf8_first_width:
  assumes "0 < utf8_width s"
  shows "utf8_width (take (utf8_width s) s) = utf8_width s"
proof -
  obtain c cs where s: "s = c # cs" using assms by (cases s) (auto simp: utf8_width_def)
  from assms s have k: "lead_width c - 1 \<le> length cs" "list_all tail_byte (take (lead_width c - 1) cs)"
      "1 < lead_width c \<longrightarrow> second_ok c cs" "utf8_width s = lead_width c" "0 < lead_width c"
    by (auto simp: utf8_width_def split: if_splits)
  then have t: "take (utf8_width s) s = c # take (lead_width c - 1) cs" using s by (cases "lead_width c") auto
  have "second_ok c (take (lead_width c - 1) cs)" if "1 < lead_width c"
    using k(1,3) that by (cases cs; cases "lead_width c - 1") (auto simp: second_ok_def)
  with k t show ?thesis by (simp add: utf8_width_def)
qed

lemma utf8_first:
  assumes "utf8_valid s" and "s \<noteq> []"
  shows "0 < utf8_width s" and "utf8_valid (take (utf8_width s) s)"
proof -
  show w: "0 < utf8_width s"
    using assms by (simp add: utf8_valid.simps [of s] split: if_splits)
  with utf8_first_width [OF this] utf8_width_bounds(1) [of s] show "utf8_valid (take (utf8_width s) s)"
    by (simp add: utf8_valid.simps [of "take (utf8_width s) s"])
qed

section \<open>Secrets\<close>

definition ascii_alnum :: "char \<Rightarrow> bool" where
  "ascii_alnum c \<longleftrightarrow> c \<in> set upper_letters \<or> c \<in> set lower_letters \<or> c \<in> set digit_letters"

definition word_byte :: "char \<Rightarrow> bool" where
  "word_byte c \<longleftrightarrow> ascii_alnum c \<or> c = CHR ''_''"

text \<open>Whether the neighbour of a position, if there is one, is a word character.\<close>

definition beside :: "string \<Rightarrow> bool" where
  "beside s \<longleftrightarrow> (case s of [] \<Rightarrow> False | c # _ \<Rightarrow> word_byte c)"

definition private_key_at :: "string \<Rightarrow> bool" where
  "private_key_at t \<longleftrightarrow> (\<exists>kind \<in> set ['''', ''RSA '', ''EC '', ''OPENSSH '', ''DSA ''].
     py_startswith t (''-----BEGIN '' @ kind @ ''PRIVATE KEY-----''))"

definition aws_key_at :: "string \<Rightarrow> bool" where
  "aws_key_at t \<longleftrightarrow> take 4 t \<in> {''AKIA'', ''ASIA''} \<and> 20 \<le> length t \<and>
     list_all (\<lambda>c. c \<in> set upper_letters \<or> c \<in> set digit_letters) (take 16 (drop 4 t)) \<and> \<not> beside (drop 20 t)"

definition github_token_at :: "string \<Rightarrow> bool" where
  "github_token_at t \<longleftrightarrow> take 2 t = ''gh'' \<and> take 1 (drop 2 t) \<in> {''p'', ''o'', ''u'', ''s'', ''r''} \<and>
     take 1 (drop 3 t) = ''_'' \<and>
     (let n = length (takeWhile ascii_alnum (drop 4 t)) in 30 \<le> n \<and> n \<le> 255 \<and> \<not> beside (drop (4 + n) t))"

text \<open>Twenty or more characters of the class up to a boundary; the class includes \<open>proj-\<close>.\<close>

definition openai_key_at :: "string \<Rightarrow> bool" where
  "openai_key_at t \<longleftrightarrow> py_startswith t ''sk-'' \<and>
     (let body = takeWhile (\<lambda>c. word_byte c \<or> c = CHR ''-'') (drop 3 t)
      in list_ex (\<lambda>n. word_byte (body ! (n - 1)) \<noteq> beside (drop (3 + n) t)) [20..<Suc (length body)])"

text \<open>\<open>pattern.search\<close>, for a pattern that begins at a word boundary and for one that does not.\<close>

fun search_from :: "(string \<Rightarrow> bool) \<Rightarrow> bool \<Rightarrow> string \<Rightarrow> bool" where
  "search_from at after_word [] = (\<not> after_word \<and> at [])"
| "search_from at after_word (c # cs) = ((\<not> after_word \<and> at (c # cs)) \<or> search_from at (word_byte c) cs)"

fun search_any :: "(string \<Rightarrow> bool) \<Rightarrow> string \<Rightarrow> bool" where
  "search_any at [] = at []"
| "search_any at (c # cs) = (at (c # cs) \<or> search_any at cs)"

definition detect_high_confidence_secrets :: "string \<Rightarrow> string list" where
  "detect_high_confidence_secrets raw =
     (if search_any private_key_at raw then [''private_key''] else []) @
     (if search_from aws_key_at False raw then [''aws_access_key''] else []) @
     (if search_from github_token_at False raw then [''github_token''] else []) @
     (if search_from openai_key_at False raw then [''openai_key''] else [])"

definition assert_no_high_confidence_secrets :: "string \<Rightarrow> audit_exn option" where
  "assert_no_high_confidence_secrets raw =
     (let found = detect_high_confidence_secrets raw in
      if found = [] then None
      else Some (Secret_Exn (''AUDIT_SECRET_CONTENT_BLOCKED:'' @ py_join '','' (sort found))))"

section \<open>Evaluation\<close>

text \<open>
  Equations that evaluate faster on concrete texts: a text without the first two characters of a secret
  holds none, and most characters are not escaped.
\<close>

definition suspicious_start :: "char \<Rightarrow> char \<Rightarrow> bool" where
  "suspicious_start c d \<longleftrightarrow> (if c = CHR ''-'' then d = CHR ''-''
     else if c = CHR ''A'' then d = CHR ''K'' \<or> d = CHR ''S''
     else if c = CHR ''g'' then d = CHR ''h''
     else c = CHR ''s'' \<and> d = CHR ''k'')"

fun suspicious :: "string \<Rightarrow> bool" where
  "suspicious (c # d # cs) = (suspicious_start c d \<or> suspicious (d # cs))"
| "suspicious _ = False"

definition starts_with_hint :: "string \<Rightarrow> bool" where
  "starts_with_hint t \<longleftrightarrow> (\<exists>c d cs. t = c # d # cs \<and> suspicious_start c d)"

lemma search_any_hint: "\<lbrakk>search_any f s; \<And>t. f t \<Longrightarrow> starts_with_hint t\<rbrakk> \<Longrightarrow> suspicious s"
proof (induction s rule: suspicious.induct)
  case (1 c d cs)
  then consider "f (c # d # cs)" | "search_any f (d # cs)" by auto
  then show ?case
  proof cases
    case 1
    with "1.prems"(2) have "suspicious_start c d" by (auto simp: starts_with_hint_def)
    then show ?thesis by simp
  next
    case 2
    with "1.IH" "1.prems"(2) show ?thesis by auto
  qed
qed (auto simp: starts_with_hint_def)

lemma search_from_any: "search_from f w s \<Longrightarrow> search_any f s"
  by (induction f w s rule: search_from.induct) auto

lemma hintI: "\<lbrakk>take (Suc (Suc n)) t = c # d # p; suspicious_start c d\<rbrakk> \<Longrightarrow> starts_with_hint t"
  by (cases t; cases "tl t") (auto simp: starts_with_hint_def)

lemma starts_hint: "\<lbrakk>py_startswith t (c # d # p); suspicious_start c d\<rbrakk> \<Longrightarrow> starts_with_hint t"
  using hintI [of "length p" t c d p] by (simp add: py_startswith_def)

lemma private_key_hint: "private_key_at t \<Longrightarrow> starts_with_hint t"
  unfolding private_key_at_def append.simps
  by (erule bexE, erule starts_hint) (simp add: suspicious_start_def)

lemma aws_key_hint: "aws_key_at t \<Longrightarrow> starts_with_hint t"
  by (auto simp: aws_key_at_def suspicious_start_def eval_nat_numeral intro: hintI)

lemma github_token_hint: "github_token_at t \<Longrightarrow> starts_with_hint t"
  by (auto simp: github_token_at_def suspicious_start_def eval_nat_numeral intro: hintI)

lemma openai_key_hint: "openai_key_at t \<Longrightarrow> starts_with_hint t"
  unfolding openai_key_at_def by (erule conjE, erule starts_hint) (simp add: suspicious_start_def)

lemma not_suspicious:
  assumes "\<not> suspicious s"
  shows "detect_high_confidence_secrets s = []"
proof -
  have "\<not> search_any private_key_at s" "\<not> search_any aws_key_at s" "\<not> search_any github_token_at s"
    "\<not> search_any openai_key_at s"
    using assms search_any_hint private_key_hint aws_key_hint github_token_hint openai_key_hint by blast+
  with search_from_any show ?thesis unfolding detect_high_confidence_secrets_def by auto
qed

lemma detect_code [code]: "detect_high_confidence_secrets s = (if suspicious s then
     (if search_any private_key_at s then [''private_key''] else []) @
     (if search_from aws_key_at False s then [''aws_access_key''] else []) @
     (if search_from github_token_at False s then [''github_token''] else []) @
     (if search_from openai_key_at False s then [''openai_key''] else []) else [])"
  using not_suspicious by (simp add: detect_high_confidence_secrets_def)

text \<open>The same without writing the JSON text out, and a bound of its length.\<close>

fun calm_json :: "json \<Rightarrow> bool" where
  "calm_json (JStr s) = (\<not> suspicious (quote s))"
| "calm_json (JList xs) = list_all calm_json xs"
| "calm_json (JObj kvs) = list_all (\<lambda>(k, v). \<not> suspicious (quote k) \<and> calm_json v) kvs"
| "calm_json (JInt i) = (\<not> suspicious (show_int i))"
| "calm_json (JFloat r) = (\<not> suspicious r)"
| "calm_json _ = True"

lemma suspicious_append:
  "suspicious (xs @ ys) \<longleftrightarrow> suspicious xs \<or> suspicious ys \<or>
     (xs \<noteq> [] \<and> ys \<noteq> [] \<and> suspicious_start (last xs) (hd ys))"
proof (induction xs rule: suspicious.induct, goal_cases)
  case (3 c)
  then show ?case by (cases ys) auto
qed auto

lemma suspicious_guard:
  assumes "c \<in> {CHR 0x22, CHR '','', CHR '':'', CHR ''{'', CHR ''}'', CHR ''['', CHR '']''}"
  shows "suspicious (c # s) \<longleftrightarrow> suspicious s" and "suspicious (s @ [c]) \<longleftrightarrow> suspicious s"
    and "suspicious (s @ c # t) \<longleftrightarrow> suspicious s \<or> suspicious t"
proof -
  have g: "\<not> suspicious_start c d" "\<not> suspicious_start d c" for d
    using assms by (auto simp: suspicious_start_def)
  show 1: "suspicious (c # s) \<longleftrightarrow> suspicious s" for s by (cases s) (auto simp: g)
  show "suspicious (s @ [c]) \<longleftrightarrow> suspicious s" "suspicious (s @ c # t) \<longleftrightarrow> suspicious s \<or> suspicious t"
    by (auto simp: suspicious_append 1 g)
qed

lemma calm_join: "\<forall>p \<in> set ps. \<not> suspicious p \<Longrightarrow> \<not> suspicious (py_join '','' ps)"
  by (induction "'','' :: string" ps rule: py_join.induct) (simp_all add: suspicious_guard)

lemma calm_dump: "calm_json v \<Longrightarrow> \<not> suspicious (dump_json v)"
proof (induction v rule: dump_json.induct)
  case (2 b)
  show ?case by (simp add: suspicious_start_def)
next
  case (6 xs)
  then have "\<not> suspicious (py_join '','' (map dump_json xs))"
    by (intro calm_join) (auto simp: list_all_iff)
  then show ?case by (simp add: suspicious_guard)
next
  case (7 kvs)
  have "\<not> suspicious (quote k @ '':'' @ dump_json x)" if "(k, x) \<in> set kvs" for k x
    using 7 that by (fastforce simp: suspicious_guard list_all_iff)
  then have "\<not> suspicious (py_join '','' (map (\<lambda>(k, s). quote k @ '':'' @ s)
      (sort_key fst (map (\<lambda>(k, v). (k, dump_json v)) kvs))))"
    by (intro calm_join) auto
  then show ?case by (simp add: suspicious_guard)
qed (simp_all add: suspicious_start_def)

fun text_size :: "json \<Rightarrow> nat" where
  "text_size (JStr s) = length (quote s)"
| "text_size (JList xs) = 2 + sum_list (map (\<lambda>x. 1 + text_size x) xs)"
| "text_size (JObj kvs) = 2 + sum_list (map (\<lambda>(k, v). 2 + length (quote k) + text_size v) kvs)"
| "text_size v = length (dump_json v)"

lemma length_join: "length (py_join '','' ps) \<le> sum_list (map (\<lambda>p. 1 + length p) ps)"
  by (induction "'','' :: string" ps rule: py_join.induct) auto

lemma sum_list_sort_key: "sum_list (map f (sort_key g xs)) = sum_list (map f xs)" for f :: "'a \<Rightarrow> nat"
  by (metis mset_map mset_sort sum_mset_sum_list)

lemma dump_size: "length (dump_json v) \<le> text_size v"
proof (induction v rule: dump_json.induct)
  case (6 xs)
  then have "sum_list (map (\<lambda>x. 1 + length (dump_json x)) xs) \<le> sum_list (map (\<lambda>x. 1 + text_size x) xs)"
    by (intro sum_list_mono) auto
  then show ?case using length_join [of "map dump_json xs"] by (simp add: o_def)
next
  case (7 kvs)
  let ?item = "\<lambda>(k, s). quote k @ '':'' @ s" and ?ds = "map (\<lambda>(k, v). (k, dump_json v)) kvs"
  have "sum_list (map (\<lambda>p. 1 + length p) (map ?item (sort_key fst ?ds))) =
      sum_list (map (\<lambda>x. 1 + length (?item x)) ?ds)"
    using sum_list_sort_key [of "\<lambda>x. 1 + length (?item x)" fst ?ds] by (simp add: o_def)
  also have "\<dots> \<le> sum_list (map (\<lambda>(k, v). 2 + length (quote k) + text_size v) kvs)"
    unfolding map_map o_def using 7 by (intro sum_list_mono) fastforce
  finally show ?case using length_join [of "map ?item (sort_key fst ?ds)"] by simp
qed auto

lemma escape_char_code [code]:
  "escape_char c = (case c of Char b0 b1 b2 b3 b4 b5 b6 b7 \<Rightarrow>
     if b6 \<or> b7 then (if c = CHR 0x5C then [CHR 0x5C, CHR 0x5C] else [c])
     else if b5 then (if c = CHR 0x22 then [CHR 0x5C, CHR 0x22] else [c])
     else if c = CHR 0x0A then [CHR 0x5C, CHR ''n'']
     else if c = CHR 0x0D then [CHR 0x5C, CHR ''r'']
     else if c = CHR 0x09 then [CHR 0x5C, CHR ''t'']
     else if c = CHR 0x08 then [CHR 0x5C, CHR ''b'']
     else if c = CHR 0x0C then [CHR 0x5C, CHR ''f'']
     else CHR 0x5C # ''u00'' @ [hex_letters ! (of_char c div 16), hex_letters ! (of_char c mod 16)])"
  by (cases c) (auto simp: escape_char_def of_char_Char)

end
