(* ===== verification/Audit_Files.thy ===== *)
theory Audit_Files
  imports Audit_Base
begin

text \<open>
  Files that the audit capabilities read: the path policy
  (src/src/orkio_v2/services/audit_path_policy.py), the bounded reads of one file
  (audit_file_adapter.py) and of an allow-listed module (audit_runtime_adapter.py). A directory tree
  is a value; \<open>race\<close> is what a name refers to when it is opened, given what it was when it was
  examined just before. A file keeps its bytes while it is open.
\<close>

section \<open>Paths\<close>

datatype fs_node =
    Fs_File "nat \<times> nat" string
  | Fs_Dir "(string \<times> fs_node) list"
  | Fs_Link
  | Fs_Special "nat \<times> nat"

text \<open>\<open>PurePosixPath(s).parts\<close> without the root: empty parts and single dots are dropped.\<close>

definition pure_parts :: "string \<Rightarrow> string list" where
  "pure_parts s = filter (\<lambda>p. p \<noteq> [] \<and> p \<noteq> ''.'') (py_split (CHR ''/'') s)"

definition is_absolute :: "string \<Rightarrow> bool" where
  "is_absolute s \<longleftrightarrow> py_startswith s ''/''"

definition secret_like_basenames :: "string list" where
  "secret_like_basenames = [''.env'', ''.aws'', ''.ssh'', ''.gnupg'', ''id_rsa'', ''id_ed25519'', ''credentials'',
     ''credentials.json'', ''secrets'', ''secrets.json'']"

definition secret_like_part :: "string \<Rightarrow> bool" where
  "secret_like_part part \<longleftrightarrow> (let folded = py_lower part in
     folded \<in> set secret_like_basenames \<or> py_startswith folded ''.env.'' \<or>
     (\<exists>suffix \<in> set [''.key'', ''.pem'', ''.p12'', ''.pfx'']. py_endswith folded suffix))"

definition path_not_allowed :: audit_exn where
  "path_not_allowed = Path_Exn ''AUDIT_PATH_NOT_ALLOWED''"

definition odd_path :: "string \<Rightarrow> bool" where
  "odd_path s \<longleftrightarrow> s = [] \<or> CHR 0x5C \<in> set s \<or> CHR 0x00 \<in> set s"

definition safe_components :: "string \<Rightarrow> audit_exn + string list" where
  "safe_components path =
     (if odd_path path \<or> is_absolute path then Inl path_not_allowed
      else let parts = pure_parts path in
        if parts = [] \<or> (\<exists>p \<in> set parts. p \<in> {[], ''.'', ''..''}) then Inl path_not_allowed
        else if \<exists>p \<in> set parts. secret_like_part p
        then Inl (Path_Exn ''AUDIT_PATH_SECRET_LIKE_FORBIDDEN'')
        else Inr parts)"

text \<open>\<open>AuditPathPolicy(roots)\<close>: each root with whether its path is absolute.\<close>

type_synonym roots = "(string \<times> fs_node) list"

fun path_policy :: "(string \<times> bool \<times> fs_node) list \<Rightarrow> audit_exn + roots" where
  "path_policy [] = Inr []"
| "path_policy ((root_id, absolute, node) # rest) =
     (if py_strip root_id = [] \<or> \<not> absolute then Inl (Path_Exn ''AUDIT_ROOT_INVALID'')
      else case node of
          Fs_Dir es \<Rightarrow> (case path_policy rest of Inl e \<Rightarrow> Inl e
            | Inr more \<Rightarrow> Inr (if map_of more (py_strip root_id) = None then (py_strip root_id, node) # more else more))
        | _ \<Rightarrow> Inl (Path_Exn ''AUDIT_ROOT_INVALID''))"

text \<open>The directories on the way, each opened without following links.\<close>

fun descend :: "fs_node \<Rightarrow> string list \<Rightarrow> fs_node option" where
  "descend node [] = (case node of Fs_Dir es \<Rightarrow> Some node | _ \<Rightarrow> None)"
| "descend node (p # ps) = (case node of
     Fs_Dir es \<Rightarrow> (case map_of es p of None \<Rightarrow> None | Some child \<Rightarrow> descend child ps)
   | _ \<Rightarrow> None)"

record verified_file =
  vf_root :: string
  vf_path :: string
  vf_identity :: "nat \<times> nat"
  vf_raw :: string

definition vf_size :: "verified_file \<Rightarrow> nat" where
  "vf_size v = length (vf_raw v)"

definition open_entry ::
  "(fs_node \<Rightarrow> fs_node option) \<Rightarrow> string \<Rightarrow> string \<Rightarrow> fs_node \<Rightarrow> audit_exn + verified_file" where
  "open_entry race root_id path entry = (case entry of
       Fs_Link \<Rightarrow> Inl (Path_Exn ''AUDIT_PATH_SYMLINK_FORBIDDEN'')
     | Fs_Dir es \<Rightarrow> Inl (Path_Exn ''AUDIT_PATH_SPECIAL_FILE_FORBIDDEN'')
     | Fs_Special i \<Rightarrow> Inl (Path_Exn ''AUDIT_PATH_SPECIAL_FILE_FORBIDDEN'')
     | Fs_File before raw \<Rightarrow> (case race entry of
           None \<Rightarrow> Inl path_not_allowed
         | Some Fs_Link \<Rightarrow> Inl path_not_allowed
         | Some (Fs_File after raw') \<Rightarrow>
             (if before \<noteq> after then Inl (Path_Exn ''AUDIT_PATH_IDENTITY_CHANGED'')
              else Inr \<lparr>vf_root = root_id, vf_path = path, vf_identity = after, vf_raw = raw'\<rparr>)
         | Some other \<Rightarrow> Inl (Path_Exn ''AUDIT_PATH_IDENTITY_CHANGED'')))"

definition open_verified_file ::
  "roots \<Rightarrow> (fs_node \<Rightarrow> fs_node option) \<Rightarrow> string \<Rightarrow> string \<Rightarrow> audit_exn + verified_file" where
  "open_verified_file roots race root_id path = (case map_of roots root_id of
       None \<Rightarrow> Inl (Path_Exn ''AUDIT_ROOT_NOT_REGISTERED'')
     | Some root \<Rightarrow> (case safe_components path of Inl e \<Rightarrow> Inl e | Inr parts \<Rightarrow>
         (case descend root (butlast parts) of
            Some (Fs_Dir es) \<Rightarrow> (case map_of es (last parts) of
                None \<Rightarrow> Inl path_not_allowed
              | Some entry \<Rightarrow> open_entry race root_id (py_join ''/'' parts) entry)
          | _ \<Rightarrow> Inl path_not_allowed)))"

section \<open>One file\<close>

type_synonym result = "(string \<times> json) list"

definition no_secrets :: "string \<Rightarrow> audit_exn + unit" where
  "no_secrets raw = (case assert_no_high_confidence_secrets raw of Some e \<Rightarrow> Inl e | None \<Rightarrow> Inr ())"

definition validate_marker :: "string \<Rightarrow> audit_exn + string" where
  "validate_marker marker =
     (if marker = [] \<or> 512 < length marker then Inl (File_Exn ''AUDIT_MARKER_BOUNDS_INVALID'')
      else if \<not> control_free [] marker then Inl (File_Exn ''AUDIT_MARKER_CONTROL_CHAR_FORBIDDEN'')
      else map_sum id (\<lambda>_. marker) (no_secrets marker))"

definition read_full_safe_text :: "verified_file \<Rightarrow> audit_exn + string" where
  "read_full_safe_text v =
     (if 10000000 < vf_size v then Inl (File_Exn ''AUDIT_FILE_SECRET_SCAN_LIMIT_EXCEEDED'')
      else case no_secrets (vf_raw v) of Inl e \<Rightarrow> Inl e | Inr _ \<Rightarrow>
        if safe_text (vf_raw v) then Inr (vf_raw v) else Inl (File_Exn ''AUDIT_FILE_BINARY_AS_TEXT_FORBIDDEN''))"

definition reference :: "verified_file \<Rightarrow> result" where
  "reference v = [(''root_id'', JStr (vf_root v)), (''relative_path'', JStr (vf_path v))]"

definition file_metadata :: "verified_file \<Rightarrow> result" where
  "file_metadata v = reference v @
     [(''size_bytes'', JInt (int (vf_size v))), (''device'', JInt (int (fst (vf_identity v)))),
      (''inode'', JInt (int (snd (vf_identity v))))]"

record text_page =
  tp_offset :: nat
  tp_bytes :: nat
  tp_eof :: bool
  tp_content :: string

text \<open>The page of a text from an offset; \<open>exn\<close> is the exception class of the adapter.\<close>

definition cut_page :: "string \<Rightarrow> nat \<Rightarrow> nat \<Rightarrow> text_page" where
  "cut_page raw offset n =
     (let stop = utf8_cut raw offset (min (length raw) (offset + n))
      in \<lparr>tp_offset = offset, tp_bytes = stop - offset, tp_eof = length raw \<le> stop,
          tp_content = slice offset stop raw\<rparr>)"

definition page_at ::
  "(string \<Rightarrow> audit_exn) \<Rightarrow> string \<Rightarrow> string \<Rightarrow> int \<Rightarrow> int \<Rightarrow> audit_exn + text_page" where
  "page_at exn prefix raw offset max_bytes =
     (if int (length raw) < offset then Inl (exn (prefix @ ''_OFFSET_OUT_OF_RANGE''))
      else if \<not> utf8_valid (take (nat offset) raw) then Inl (exn (prefix @ ''_UTF8_BOUNDARY_INVALID''))
      else Inr (cut_page raw (nat offset) (nat max_bytes)))"

definition page_result :: "text_page \<Rightarrow> result" where
  "page_result p = [(''offset'', JInt (int (tp_offset p))), (''bytes_read'', JInt (int (tp_bytes p))),
     (''eof'', JBool (tp_eof p)), (''content'', JStr (tp_content p))]"

definition read_page :: "verified_file \<Rightarrow> int \<Rightarrow> int \<Rightarrow> audit_exn + text_page" where
  "read_page v offset max_bytes =
     (if offset < 0 \<or> max_bytes < 1 \<or> 64000 < max_bytes then Inl (File_Exn ''AUDIT_FILE_READ_BOUNDS_INVALID'')
      else case read_full_safe_text v of Inl e \<Rightarrow> Inl e
        | Inr raw \<Rightarrow> page_at File_Exn ''AUDIT_FILE'' raw offset max_bytes)"

definition read_text :: "verified_file \<Rightarrow> int \<Rightarrow> int \<Rightarrow> audit_exn + result" where
  "read_text v offset max_bytes = map_sum id (\<lambda>p. reference v @ page_result p) (read_page v offset max_bytes)"

text \<open>The offsets at which the marker begins, without overlap: \<open>skip\<close> bytes belong to the last hit.\<close>

fun marker_offsets :: "string \<Rightarrow> nat \<Rightarrow> nat \<Rightarrow> string \<Rightarrow> nat list" where
  "marker_offsets m pos skip [] = []"
| "marker_offsets m pos (Suc k) (c # cs) = marker_offsets m (Suc pos) k cs"
| "marker_offsets m pos 0 (c # cs) =
     (if py_startswith (c # cs) m then pos # marker_offsets m (Suc pos) (length m - 1) cs
      else marker_offsets m (Suc pos) 0 cs)"

definition line_number :: "string \<Rightarrow> nat \<Rightarrow> nat" where
  "line_number raw i = count_list (take i raw) (CHR 0x0A) + 1"

definition find_literal_marker ::
  "(string \<Rightarrow> string) \<Rightarrow> verified_file \<Rightarrow> string \<Rightarrow> int option \<Rightarrow> int \<Rightarrow> audit_exn + result" where
  "find_literal_marker sha v marker max_scan max_matches =
     (case validate_marker marker of Inl e \<Rightarrow> Inl e | Inr m \<Rightarrow>
      let limit = (case max_scan of None \<Rightarrow> 1000000 | Some n \<Rightarrow> n) in
      if limit < 1 \<or> 1000000 < limit then Inl (File_Exn ''AUDIT_MARKER_SCAN_BOUNDS_INVALID'')
      else if max_matches < 1 \<or> 256 < max_matches then Inl (File_Exn ''AUDIT_MARKER_MATCH_BOUNDS_INVALID'')
      else case read_full_safe_text v of Inl e \<Rightarrow> Inl e | Inr raw \<Rightarrow>
        let scan = take (nat limit) raw; offsets = marker_offsets m 0 0 scan;
            visible = take (nat max_matches) offsets; cut = length scan < length raw
        in Inr (reference v @
          [(''marker_sha256'', JStr (sha m)), (''marker_found'', JBool (offsets \<noteq> [])),
           (''match_count'', JInt (int (length offsets))),
           (''line_numbers'', JList (map (\<lambda>i. JInt (int (line_number scan i))) visible)),
           (''truncated_matches'', JBool (length visible < length offsets)),
           (''max_matches'', JInt max_matches), (''bytes_scanned'', JInt (int (length scan))),
           (''scan_truncated'', JBool cut), (''match_count_complete'', JBool (\<not> cut))]))"

section \<open>Modules of the program\<close>

definition module_path :: "(string \<times> string) list \<Rightarrow> string \<Rightarrow> audit_exn + string" where
  "module_path allowlist module_id = (case map_of allowlist module_id of
       None \<Rightarrow> Inl (Runtime_Exn ''AUDIT_RUNTIME_MODULE_NOT_ALLOWED'')
     | Some path \<Rightarrow> Inr path)"

definition open_module ::
  "roots \<Rightarrow> (fs_node \<Rightarrow> fs_node option) \<Rightarrow> (string \<times> string) list \<Rightarrow> string \<Rightarrow> audit_exn + verified_file" where
  "open_module roots race allowlist module_id = (case module_path allowlist module_id of Inl e \<Rightarrow> Inl e
     | Inr path \<Rightarrow> open_verified_file roots race ''runtime'' path)"

definition module_sha256 ::
  "(string \<Rightarrow> string) \<Rightarrow> roots \<Rightarrow> (fs_node \<Rightarrow> fs_node option) \<Rightarrow> (string \<times> string) list \<Rightarrow> string \<Rightarrow> audit_exn + result" where
  "module_sha256 sha roots race allowlist module_id =
     (case open_module roots race allowlist module_id of Inl e \<Rightarrow> Inl e | Inr v \<Rightarrow>
      if 10000000 < vf_size v then Inl (Runtime_Exn ''AUDIT_RUNTIME_MODULE_TOO_LARGE'')
      else Inr [(''module_id'', JStr module_id), (''relative_path'', JStr (vf_path v)),
        (''bytes_hashed'', JInt (int (vf_size v))), (''sha256'', JStr (sha (vf_raw v)))])"

definition module_search ::
  "(string \<Rightarrow> string) \<Rightarrow> roots \<Rightarrow> (fs_node \<Rightarrow> fs_node option) \<Rightarrow> (string \<times> string) list \<Rightarrow> string \<Rightarrow> string \<Rightarrow>
   int \<Rightarrow> int \<Rightarrow> audit_exn + result" where
  "module_search sha roots race allowlist module_id marker max_scan max_matches =
     (case open_module roots race allowlist module_id of Inl e \<Rightarrow> Inl e | Inr v \<Rightarrow>
      case find_literal_marker sha v marker (Some max_scan) max_matches of Inl e \<Rightarrow> Inl e | Inr r \<Rightarrow>
        Inr ([(''module_id'', JStr module_id), (''relative_path'', JStr (vf_path v))] @
          filter (\<lambda>(k, x). k \<notin> {''root_id'', ''relative_path''}) r))"

end
