(* ===== verification/Audit_Archive.thy ===== *)
theory Audit_Archive
  imports Audit_Files
begin

text \<open>
  ZIP artifacts: the bounded inspection (src/src/orkio_v2/services/audit_archive_adapter.py) and the
  resolution of an artifact to an open, verified file (audit_archive_source_resolver.py). What the
  zipfile module finds in some bytes is a parameter: the directory, or \<open>None\<close> for a file that is no
  archive, and for each member the blocks its stream yields or the exception it ends with.
\<close>

section \<open>The directory of an archive\<close>

datatype stream_end = Stream_Done | Stream_Runtime_Error | Stream_Bad_Zip

record zip_member =
  zm_filename :: string
  zm_mode :: nat
  zm_encrypted :: bool
  zm_file_size :: nat
  zm_compress_size :: nat
  zm_crc :: string
  zm_blocks :: "string list"
  zm_end :: stream_end

type_synonym unzip = "string \<Rightarrow> zip_member list option"

definition archive_exn :: "string \<Rightarrow> audit_exn" where
  "archive_exn t = Archive_Exn (''AUDIT_ARCHIVE_'' @ t)"

definition zm_is_dir :: "zip_member \<Rightarrow> bool" where
  "zm_is_dir m \<longleftrightarrow> py_endswith (zm_filename m) ''/''"

definition safe_member_name :: "(string \<Rightarrow> string) \<Rightarrow> string \<Rightarrow> audit_exn + string" where
  "safe_member_name nfc name =
     (if odd_path name then Inl (archive_exn ''UNSAFE_PATH'')
      else let normalized = nfc name in
        if is_absolute normalized \<or> ''..'' \<in> set (pure_parts normalized) then Inl (archive_exn ''UNSAFE_PATH'')
        else Inr (if pure_parts normalized = [] then ''.'' else py_join ''/'' (pure_parts normalized)))"

definition separators :: string where
  "separators = ''._-''"

definition secret_words :: "string list" where
  "secret_words = [''secret'', ''secrets'', ''token'', ''tokens'', ''credential'', ''credentials'',
     ''privatekey'', ''private_key'', ''private-key'']"

text \<open>A word at this position, up to a separator or the end (or a final line break).\<close>

definition secret_word_at :: "string \<Rightarrow> bool" where
  "secret_word_at t \<longleftrightarrow> (\<exists>w \<in> set secret_words. py_startswith t w \<and>
     (case drop (length w) t of [] \<Rightarrow> True | c # cs \<Rightarrow> c \<in> set separators \<or> c = CHR 0x0A \<and> cs = []))"

fun secret_word_after :: "string \<Rightarrow> bool" where
  "secret_word_after [] = False"
| "secret_word_after (c # cs) = ((c \<in> set separators \<and> secret_word_at cs) \<or> secret_word_after cs)"

definition secret_like_member :: "string \<Rightarrow> bool" where
  "secret_like_member name \<longleftrightarrow> (let base = py_lower (case rev (pure_parts name) of [] \<Rightarrow> [] | p # _ \<Rightarrow> p) in
     base \<in> {''.env'', ''id_rsa'', ''id_ed25519'', ''credentials.json'', ''secrets.json''} \<or>
     py_startswith base ''.env.'' \<or> (\<exists>s \<in> {''.key'', ''.p12'', ''.pfx''}. py_endswith base s) \<or>
     secret_word_at base \<or> secret_word_after base)"

text \<open>\<open>stat.S_IFMT\<close> of the mode, in the units of its four bits: a link is 10, a file 8, a directory 4.\<close>

definition file_type :: "nat \<Rightarrow> nat" where
  "file_type mode = (mode div 4096) mod 16"

definition member_error :: "zip_member \<Rightarrow> string option" where
  "member_error m =
     (if file_type (zm_mode m) = 10 then Some ''SYMLINK_FORBIDDEN''
      else if file_type (zm_mode m) \<notin> {0, 8, 4} then Some ''SPECIAL_FILE_FORBIDDEN''
      else if zm_encrypted m then Some ''ENCRYPTED_MEMBER_FORBIDDEN''
      else if 10000000 < zm_file_size m then Some ''MEMBER_TOO_LARGE''
      else None)"

definition ratio_exceeded :: "nat \<Rightarrow> zip_member \<Rightarrow> bool" where
  "ratio_exceeded n m \<longleftrightarrow> (if zm_compress_size m = 0 then 0 < n else 200 * zm_compress_size m < n)"

definition strip_slashes :: "string \<Rightarrow> string" where
  "strip_slashes s = rev (dropWhile (\<lambda>c. c = CHR ''/'') (rev s))"

definition member_name :: "zip_member \<Rightarrow> string" where
  "member_name m = (let s = strip_slashes (zm_filename m) in if s = [] then zm_filename m else s)"

fun index_members ::
  "(string \<Rightarrow> string) \<Rightarrow> string list \<Rightarrow> nat \<Rightarrow> zip_member list \<Rightarrow> audit_exn + (string \<times> zip_member) list \<times> nat" where
  "index_members nfc seen acc [] = Inr ([], acc)"
| "index_members nfc seen acc (m # ms) =
     (case safe_member_name nfc (member_name m) of Inl e \<Rightarrow> Inl e | Inr name \<Rightarrow>
      if py_lower name \<in> set seen then Inl (archive_exn ''DUPLICATE_PATH'')
      else if secret_like_member name then Inl (archive_exn ''SECRET_LIKE_MEMBER_FORBIDDEN'')
      else case member_error m of Some t \<Rightarrow> Inl (archive_exn t) | None \<Rightarrow>
      let acc' = acc + zm_file_size m in
      if 50000000 < acc' then Inl (archive_exn ''TOTAL_SIZE_EXCEEDED'')
      else if ratio_exceeded (zm_file_size m) m then Inl (archive_exn ''COMPRESSION_RATIO_EXCEEDED'')
      else case index_members nfc (py_lower name # seen) acc' ms of
             Inl e \<Rightarrow> Inl e
           | Inr (rest, t) \<Rightarrow> Inr ((name, m) # rest, t))"

definition metadata_index ::
  "(string \<Rightarrow> string) \<Rightarrow> zip_member list \<Rightarrow> audit_exn + (string \<times> zip_member) list \<times> nat" where
  "metadata_index nfc members =
     (if 512 < length members then Inl (archive_exn ''ENTRY_LIMIT_EXCEEDED'')
      else index_members nfc [] 0 members)"

section \<open>Members\<close>

definition bad_zip :: audit_exn where
  "bad_zip = Other_Exn ''BadZipFile''"

text \<open>The loop over the blocks of a stream: the bytes read and the sum over all members.\<close>

fun read_blocks :: "string \<Rightarrow> nat \<Rightarrow> stream_end \<Rightarrow> string list \<Rightarrow> audit_exn + string \<times> nat" where
  "read_blocks got acc ending [] = (case ending of
       Stream_Done \<Rightarrow> Inr (got, acc)
     | Stream_Runtime_Error \<Rightarrow> Inl (archive_exn ''MEMBER_READ_FAILED'')
     | Stream_Bad_Zip \<Rightarrow> Inl bad_zip)"
| "read_blocks got acc ending (b # bs) =
     (if b = [] then Inr (got, acc)
      else if 10000000 < length got + length b then Inl (archive_exn ''STREAM_LIMIT_EXCEEDED'')
      else if 50000000 < acc + length b then Inl (archive_exn ''TOTAL_SIZE_EXCEEDED'')
      else read_blocks (got @ b) (acc + length b) ending bs)"

definition zip_signature :: "string \<Rightarrow> bool" where
  "zip_signature raw \<longleftrightarrow> take 2 raw = ''PK'' \<and>
     take 2 (drop 2 raw) \<in> {[CHR 0x03, CHR 0x04], [CHR 0x05, CHR 0x06], [CHR 0x07, CHR 0x08]}"

definition read_member_actual :: "nat \<Rightarrow> zip_member \<Rightarrow> audit_exn + string \<times> nat" where
  "read_member_actual acc m =
     (if zm_is_dir m then Inr ([], acc)
      else case read_blocks [] acc (zm_end m) (zm_blocks m) of Inl e \<Rightarrow> Inl e | Inr (raw, acc') \<Rightarrow>
        if zip_signature raw then Inl (archive_exn ''NESTED_ARCHIVE_FORBIDDEN'')
        else case no_secrets raw of Inl e \<Rightarrow> Inl e | Inr _ \<Rightarrow>
          if ratio_exceeded (length raw) m then Inl (archive_exn ''COMPRESSION_RATIO_EXCEEDED'')
          else Inr (raw, acc'))"

record zip_entry =
  ze_name :: string
  ze_declared :: nat
  ze_actual :: nat
  ze_compressed :: nat
  ze_crc :: string
  ze_dir :: bool

fun read_members :: "nat \<Rightarrow> (string \<times> zip_member) list \<Rightarrow> audit_exn + zip_entry list \<times> nat" where
  "read_members acc [] = Inr ([], acc)"
| "read_members acc ((name, m) # rest) =
     (case read_member_actual acc m of Inl e \<Rightarrow> Inl e | Inr (raw, acc') \<Rightarrow>
      case read_members acc' rest of Inl e \<Rightarrow> Inl e | Inr (entries, t) \<Rightarrow>
        Inr (\<lparr>ze_name = name, ze_declared = zm_file_size m, ze_actual = length raw,
              ze_compressed = zm_compress_size m, ze_crc = zm_crc m, ze_dir = zm_is_dir m\<rparr> # entries, t))"

record zip_report =
  zr_declared :: nat
  zr_actual :: nat
  zr_entries :: "zip_entry list"

text \<open>\<open>except zipfile.BadZipFile\<close>; opening the archive is outside of the try statement.\<close>

definition catch_bad_zip :: "audit_exn + 'a \<Rightarrow> audit_exn + 'a" where
  "catch_bad_zip r = (case r of Inl e \<Rightarrow> Inl (if e = bad_zip then archive_exn ''INVALID_ZIP'' else e) | Inr x \<Rightarrow> Inr x)"

definition preflight_report ::
  "unzip \<Rightarrow> (string \<Rightarrow> string) \<Rightarrow> verified_file \<Rightarrow> audit_exn + zip_report" where
  "preflight_report unzip nfc v = (case unzip (vf_raw v) of None \<Rightarrow> Inl bad_zip | Some members \<Rightarrow>
     catch_bad_zip (case metadata_index nfc members of Inl e \<Rightarrow> Inl e | Inr (indexed, declared) \<Rightarrow>
       case read_members 0 indexed of Inl e \<Rightarrow> Inl e | Inr (entries, actual) \<Rightarrow>
         Inr \<lparr>zr_declared = declared, zr_actual = actual, zr_entries = entries\<rparr>))"

definition entry_result :: "zip_entry \<Rightarrow> result" where
  "entry_result e = [(''name'', JStr (ze_name e)), (''uncompressed_bytes'', JInt (int (ze_declared e))),
     (''actual_decompressed_bytes'', JInt (int (ze_actual e))),
     (''compressed_bytes'', JInt (int (ze_compressed e))), (''crc32'', JStr (ze_crc e)),
     (''is_directory'', JBool (ze_dir e))]"

definition report_head :: "verified_file \<Rightarrow> zip_report \<Rightarrow> result" where
  "report_head v r = reference v @
     [(''entry_count'', JInt (int (length (zr_entries r)))),
      (''declared_total_uncompressed_bytes'', JInt (int (zr_declared r))),
      (''actual_total_decompressed_bytes'', JInt (int (zr_actual r))),
      (''total_uncompressed_bytes'', JInt (int (zr_actual r))), (''nested_archive_max_depth'', JInt 0)]"

definition entries_json :: "zip_entry list \<Rightarrow> json" where
  "entries_json es = JList (map (\<lambda>e. JObj (entry_result e)) es)"

definition preflight :: "unzip \<Rightarrow> (string \<Rightarrow> string) \<Rightarrow> verified_file \<Rightarrow> audit_exn + result" where
  "preflight unzip nfc v =
     map_sum id (\<lambda>r. report_head v r @ [(''entries'', entries_json (zr_entries r))]) (preflight_report unzip nfc v)"

definition manifest ::
  "unzip \<Rightarrow> (string \<Rightarrow> string) \<Rightarrow> verified_file \<Rightarrow> int \<Rightarrow> int \<Rightarrow> audit_exn + result" where
  "manifest unzip nfc v offset limit =
     (if offset < 0 \<or> limit < 1 \<or> 512 < limit then Inl (archive_exn ''MANIFEST_BOUNDS_INVALID'')
      else map_sum id (\<lambda>r.
        let page = take (nat limit) (drop (nat offset) (zr_entries r))
        in report_head v r @
          [(''manifest_offset'', JInt offset), (''manifest_limit'', JInt limit),
           (''returned_entries'', JInt (int (length page))),
           (''manifest_truncated'', JBool (nat offset + length page < length (zr_entries r))),
           (''entries'', entries_json page)]) (preflight_report unzip nfc v))"

definition member_metadata ::
  "unzip \<Rightarrow> (string \<Rightarrow> string) \<Rightarrow> verified_file \<Rightarrow> string \<Rightarrow> audit_exn + result" where
  "member_metadata unzip nfc v name =
     (case preflight_report unzip nfc v of Inl e \<Rightarrow> Inl e | Inr r \<Rightarrow>
      case safe_member_name nfc name of Inl e \<Rightarrow> Inl e | Inr safe \<Rightarrow>
      case filter (\<lambda>e. ze_name e = safe) (zr_entries r) of
        [] \<Rightarrow> Inl (archive_exn ''MEMBER_NOT_FOUND'')
      | e # _ \<Rightarrow> Inr (reference v @ entry_result e))"

text \<open>The member that an operation reads, after the whole archive was checked.\<close>

definition member_bytes ::
  "unzip \<Rightarrow> (string \<Rightarrow> string) \<Rightarrow> verified_file \<Rightarrow> string \<Rightarrow> audit_exn + string \<times> string" where
  "member_bytes unzip nfc v name =
     (case unzip (vf_raw v) of None \<Rightarrow> Inl bad_zip | Some members \<Rightarrow>
      case safe_member_name nfc name of Inl e \<Rightarrow> Inl e | Inr safe \<Rightarrow>
      case metadata_index nfc members of Inl e \<Rightarrow> Inl e | Inr (indexed, declared) \<Rightarrow>
      case map_of (rev indexed) safe of
        None \<Rightarrow> Inl (archive_exn ''MEMBER_NOT_FOUND'')
      | Some m \<Rightarrow>
          if zm_is_dir m then Inl (archive_exn ''MEMBER_NOT_FILE'')
          else map_sum id (\<lambda>(raw, acc). (safe, raw)) (read_member_actual 0 m))"

definition read_text_member ::
  "unzip \<Rightarrow> (string \<Rightarrow> string) \<Rightarrow> verified_file \<Rightarrow> string \<Rightarrow> int \<Rightarrow> int \<Rightarrow> audit_exn + result" where
  "read_text_member unzip nfc v name offset max_bytes =
     (if offset < 0 \<or> max_bytes < 1 \<or> 64000 < max_bytes then Inl (archive_exn ''READ_BOUNDS_INVALID'')
      else case preflight_report unzip nfc v of Inl e \<Rightarrow> Inl e | Inr r \<Rightarrow>
        case member_bytes unzip nfc v name of Inl e \<Rightarrow> Inl e | Inr (safe, raw) \<Rightarrow>
        if \<not> safe_text raw then Inl (archive_exn ''BINARY_AS_TEXT_FORBIDDEN'')
        else map_sum id (\<lambda>p. reference v @ (''member'', JStr safe) # page_result p)
          (page_at Archive_Exn ''AUDIT_ARCHIVE'' raw offset max_bytes))"

definition hash_member ::
  "unzip \<Rightarrow> (string \<Rightarrow> string) \<Rightarrow> (string \<Rightarrow> string) \<Rightarrow> verified_file \<Rightarrow> string \<Rightarrow> audit_exn + result" where
  "hash_member unzip nfc sha v name = (case preflight_report unzip nfc v of Inl e \<Rightarrow> Inl e | Inr r \<Rightarrow>
     catch_bad_zip (map_sum id (\<lambda>(safe, raw). reference v @
       [(''member'', JStr safe), (''actual_decompressed_bytes'', JInt (int (length raw))),
        (''sha256'', JStr (sha raw))]) (member_bytes unzip nfc v name)))"

section \<open>Artifacts\<close>

record artifact_row =
  af_id :: string
  af_tenant :: string
  af_storage_key :: string
  af_sha256 :: string

definition source_exn :: "string \<Rightarrow> audit_exn" where
  "source_exn t = Source_Exn (''AUDIT_ARCHIVE_'' @ t)"

definition safe_storage_key :: "string \<Rightarrow> string \<Rightarrow> audit_exn + string" where
  "safe_storage_key key tenant =
     (if odd_path key \<or> is_absolute key \<or> pure_parts key = [] \<or> ''..'' \<in> set (pure_parts key) \<or>
         tenant = [] \<or> hd (pure_parts key) \<noteq> tenant
      then Inl (source_exn ''SOURCE_NOT_ALLOWED'')
      else Inr (py_join ''/'' (pure_parts key)))"

definition resolve_artifact ::
  "(string \<Rightarrow> string) \<Rightarrow> roots \<Rightarrow> (fs_node \<Rightarrow> fs_node option) \<Rightarrow> artifact_row list \<Rightarrow> string \<Rightarrow> string \<Rightarrow>
   audit_exn + verified_file" where
  "resolve_artifact sha roots race artifacts artifact_id tenant =
     (case find (\<lambda>a. af_id a = artifact_id) artifacts of
        None \<Rightarrow> Inl (source_exn ''NOT_FOUND'')
      | Some a \<Rightarrow>
        if af_tenant a \<noteq> tenant then Inl (source_exn ''ARTIFACT_TENANT_MISMATCH'')
        else case safe_storage_key (af_storage_key a) tenant of Inl e \<Rightarrow> Inl e | Inr key \<Rightarrow>
          (case open_verified_file roots race ''artifact-storage'' key of
             Inl e \<Rightarrow> Inl (source_exn ''SOURCE_NOT_ALLOWED'')
           | Inr v \<Rightarrow>
             (let expected = py_lower (py_strip (af_sha256 a)) in
              if length expected \<noteq> 64 \<or> sha (vf_raw v) \<noteq> expected
              then Inl (source_exn ''SOURCE_INTEGRITY_MISMATCH'')
              else Inr (v\<lparr>vf_root := ''artifact'', vf_path := artifact_id\<rparr>))))"

end
