(* ===== verification/Audit_Policy.thy ===== *)
theory Audit_Policy
  imports Complex_Main Audit_Base
begin

text \<open>
  The policy of capabilities, read from the environment
  (src/src/orkio_v2/services/capability_policy.py). \<open>from_env\<close> reads the variables in the order of
  the code and returns the text of the first exception. A float is a rational number, NaN or an
  infinity; \<open>float()\<close> of a text and \<open>urlparse\<close> are parameters.
\<close>

section \<open>Reading one variable\<close>

type_synonym environ = "string \<Rightarrow> string option"

datatype py_float = Finite rat | Nan | Pos_Inf | Neg_Inf

fun float_less :: "py_float \<Rightarrow> py_float \<Rightarrow> bool" where
  "float_less (Finite x) (Finite y) = (x < y)"
| "float_less Neg_Inf (Finite y) = True"
| "float_less Neg_Inf Pos_Inf = True"
| "float_less (Finite x) Pos_Inf = True"
| "float_less _ _ = False"

record url_parts =
  ur_scheme :: string
  ur_netloc :: string
  ur_hostname :: "string option"
  ur_username :: "string option"
  ur_password :: "string option"
  ur_query :: string
  ur_fragment :: string

record parsers =
  ps_float :: "string \<Rightarrow> py_float option"
  ps_url :: "string \<Rightarrow> url_parts option"

definition bind :: "'e + 'a \<Rightarrow> ('a \<Rightarrow> 'e + 'b) \<Rightarrow> 'e + 'b" where
  "bind m f = (case m of Inl e \<Rightarrow> Inl e | Inr x \<Rightarrow> f x)"

lemma bind_simps [simp]: "bind (Inl e) f = Inl e" "bind (Inr x) f = f x"
  by (simp_all add: bind_def)

lemma bind_Inr: "bind m f = Inr y \<longleftrightarrow> (\<exists>x. m = Inr x \<and> f x = Inr y)"
  by (simp add: bind_def split: sum.split)

definition env_text :: "environ \<Rightarrow> string \<Rightarrow> string" where
  "env_text env name = (case env name of None \<Rightarrow> [] | Some raw \<Rightarrow> raw)"

definition env_bool :: "environ \<Rightarrow> string \<Rightarrow> string + bool" where
  "env_bool env name = (case env name of
       None \<Rightarrow> Inr False
     | Some raw \<Rightarrow> let value = py_lower (py_strip raw) in
         if value \<in> {''1'', ''true'', ''yes'', ''on''} then Inr True
         else if value \<in> {''0'', ''false'', ''no'', ''off''} then Inr False
         else Inl (name @ ''_INVALID''))"

definition env_int :: "environ \<Rightarrow> string \<Rightarrow> int \<Rightarrow> int \<Rightarrow> int \<Rightarrow> string + int" where
  "env_int env name fallback minimum maximum =
     (if py_strip (env_text env name) = [] then Inr fallback
      else case parse_int (env_text env name) of
          None \<Rightarrow> Inl (name @ ''_INVALID'')
        | Some value \<Rightarrow> if value < minimum \<or> maximum < value then Inl (name @ ''_OUT_OF_RANGE'') else Inr value)"

definition env_float :: "parsers \<Rightarrow> environ \<Rightarrow> string \<Rightarrow> rat \<Rightarrow> rat \<Rightarrow> rat \<Rightarrow> string + py_float" where
  "env_float ps env name fallback minimum maximum =
     (if py_strip (env_text env name) = [] then Inr (Finite fallback)
      else case ps_float ps (env_text env name) of
          None \<Rightarrow> Inl (name @ ''_INVALID'')
        | Some value \<Rightarrow>
            if float_less value (Finite minimum) \<or> float_less (Finite maximum) value
            then Inl (name @ ''_OUT_OF_RANGE'') else Inr value)"

definition env_choice :: "environ \<Rightarrow> string \<Rightarrow> string \<Rightarrow> string list \<Rightarrow> string + string" where
  "env_choice env name fallback allowed =
     (let value = (case env name of None \<Rightarrow> fallback | Some raw \<Rightarrow> py_lower (py_strip raw))
      in if value \<in> set allowed then Inr value else Inl (name @ ''_INVALID''))"

definition environments :: "string list" where
  "environments = [''development'', ''test'', ''staging'', ''production'']"

definition alnum_tokens :: "string \<Rightarrow> string list" where
  "alnum_tokens s = filter (\<lambda>t. t \<noteq> []) (py_split (CHR '' '')
     (map (\<lambda>c. if c \<in> set lower_letters \<or> c \<in> set digit_letters then c else CHR '' '') s))"

definition environment_aliases :: "(string \<times> string list) list" where
  "environment_aliases = [(''development'', [''development'', ''dev'']), (''test'', [''test'', ''testing'']),
     (''staging'', [''staging'', ''stage'']), (''production'', [''production'', ''prod''])]"

definition normalize_railway_environment :: "string \<Rightarrow> string" where
  "normalize_railway_environment raw =
     (let value = py_lower (py_strip raw) in
      if value = [] then ''unknown''
      else if value \<in> set environments then value
      else case filter (\<lambda>(canonical, accepted). \<exists>t \<in> set (alnum_tokens value). t \<in> set accepted)
              environment_aliases of
          [(canonical, accepted)] \<Rightarrow> canonical
        | _ \<Rightarrow> ''unknown'')"

definition python_runtime_environment :: "environ \<Rightarrow> string + string" where
  "python_runtime_environment env = (case env ''PLATFORM_ENVIRONMENT'' of
       Some raw \<Rightarrow> let value = py_lower (py_strip raw) in
         if value \<in> set environments then Inr value else Inl ''PLATFORM_ENVIRONMENT_INVALID''
     | None \<Rightarrow> (case env ''RAILWAY_ENVIRONMENT_NAME'' of
         None \<Rightarrow> Inr ''unknown''
       | Some raw \<Rightarrow> Inr (normalize_railway_environment raw)))"

definition rstrip_char :: "char \<Rightarrow> string \<Rightarrow> string" where
  "rstrip_char c s = rev (dropWhile (\<lambda>d. d = c) (rev s))"

definition strip_char :: "char \<Rightarrow> string \<Rightarrow> string" where
  "strip_char c s = rstrip_char c (dropWhile (\<lambda>d. d = c) s)"

definition has_text :: "string option \<Rightarrow> bool" where
  "has_text x \<longleftrightarrow> x \<noteq> None \<and> x \<noteq> Some []"

definition python_runtime_base_url :: "parsers \<Rightarrow> environ \<Rightarrow> string \<Rightarrow> string + string" where
  "python_runtime_base_url ps env environment =
     (let raw = rstrip_char (CHR ''/'') (py_strip (env_text env ''PLATFORM_PYTHON_SANDBOX_BASE_URL'')) in
      if raw = [] then Inr []
      else case ps_url ps raw of None \<Rightarrow> Inl ''ValueError'' | Some u \<Rightarrow>
        if has_text (ur_username u) \<or> has_text (ur_password u) \<or> ur_query u \<noteq> [] \<or> ur_fragment u \<noteq> []
        then Inl ''PLATFORM_PYTHON_SANDBOX_BASE_URL_INVALID''
        else if ur_scheme u = ''https'' \<and> ur_netloc u \<noteq> [] then Inr raw
        else if environment \<in> {''development'', ''test''} \<and> ur_scheme u = ''http'' \<and>
            ur_hostname u \<in> {Some ''127.0.0.1'', Some ''localhost''} \<and> ur_netloc u \<noteq> [] then Inr raw
        else Inl ''PLATFORM_PYTHON_SANDBOX_BASE_URL_HTTPS_REQUIRED'')"

definition runtime_image_digest :: "environ \<Rightarrow> string \<Rightarrow> string + string" where
  "runtime_image_digest env name =
     (let value = py_lower (py_strip (env_text env name)) in
      if value = [] then Inr []
      else if py_startswith value ''sha256:'' \<and> length value = 71 \<and>
          list_all (\<lambda>c. c \<in> set hex_letters) (drop 7 value) then Inr value
      else Inl (name @ ''_INVALID''))"

definition runtime_signing_key :: "environ \<Rightarrow> string \<Rightarrow> string + string" where
  "runtime_signing_key env name =
     (let value = env_text env name in
      if value \<noteq> [] \<and> length value < 32 then Inl (name @ ''_TOO_SHORT'') else Inr value)"

text \<open>The items of a list separated by commas, each once, in order.\<close>

fun collect_items :: "(string \<Rightarrow> bool) \<Rightarrow> string \<Rightarrow> string list \<Rightarrow> string list \<Rightarrow> string + string list" where
  "collect_items ok error got [] = Inr got"
| "collect_items ok error got (item # items) =
     (if item = [] then collect_items ok error got items
      else if \<not> ok item then Inl error
      else collect_items ok error (if item \<in> set got then got else got @ [item]) items)"

definition csv_items :: "environ \<Rightarrow> string \<Rightarrow> string list" where
  "csv_items env name = map (\<lambda>raw. py_lower (py_strip raw)) (py_split (CHR '','') (env_text env name))"

definition csv_tokens :: "environ \<Rightarrow> string \<Rightarrow> string + string list" where
  "csv_tokens env name = collect_items
     (list_all (\<lambda>c. c \<in> set lower_letters \<or> c \<in> set digit_letters \<or> c \<in> set ''-_.:''))
     (name @ ''_INVALID'') [] (csv_items env name)"

definition domain_ok :: "string \<Rightarrow> bool" where
  "domain_ok item \<longleftrightarrow> list_all (\<lambda>c. c \<in> set lower_letters \<or> c \<in> set digit_letters \<or> c \<in> set ''-.'') item \<and>
     \<not> search_any (\<lambda>t. py_startswith t ''..'') item \<and> \<not> py_startswith item ''-'' \<and> \<not> py_endswith item ''-''"

definition domains :: "environ \<Rightarrow> string + string list" where
  "domains env = collect_items domain_ok ''PLATFORM_EXTERNAL_READ_ALLOWED_DOMAINS_INVALID'' []
     (map (strip_char (CHR ''.'')) (csv_items env ''PLATFORM_EXTERNAL_READ_ALLOWED_DOMAINS''))"

section \<open>The policy\<close>

record capability_policy =
  cp_python_enabled :: bool
  cp_python_timeout :: py_float
  cp_python_max_code :: int
  cp_python_max_output :: int
  cp_external_enabled :: bool
  cp_external_domains :: "string list"
  cp_external_timeout :: py_float
  cp_external_max_bytes :: int
  cp_external_max_urls :: int
  cp_mode :: string
  cp_adapter :: string
  cp_legacy :: bool
  cp_environment :: string
  cp_profile :: string
  cp_qualified :: bool
  cp_base_url :: string
  cp_api_token :: string
  cp_signing_key :: string
  cp_provider :: string
  cp_image :: string
  cp_request_timeout :: py_float
  cp_request_ttl :: int
  cp_wall_clock :: py_float
  cp_cpu :: py_float
  cp_memory :: int
  cp_processes :: int
  cp_output_files :: int
  cp_output_bytes :: int
  cp_audit_enabled :: bool
  cp_audit_file :: bool
  cp_audit_archive :: bool
  cp_audit_runtime :: bool
  cp_audit_sha256 :: bool
  cp_audit_search :: bool
  cp_audit_agents :: "string list"
  cp_audit_tenants :: "string list"
  cp_audit_environments :: "string list"
  cp_audit_timeout :: py_float
  cp_audit_max_output :: int
  cp_audit_governed :: bool
  cp_rate_window :: int
  cp_user_limit :: int
  cp_tenant_limit :: int
  cp_directive_limit :: int

text \<open>The cross-field checks at the end of \<open>from_env\<close>.\<close>

definition policy_error :: "capability_policy \<Rightarrow> string option" where
  "policy_error p =
     (if cp_external_enabled p \<and> cp_external_domains p = [] then Some ''EXTERNAL_READ_ALLOWED_DOMAINS_REQUIRED''
      else if cp_tenant_limit p < cp_user_limit p then Some ''PLATFORM_AUDIT_RATE_LIMIT_INVALID''
      else if cp_mode p = ''external'' \<and> cp_adapter p = ''remote_http'' then
        (if cp_base_url p = [] then Some ''PYTHON_SANDBOX_BASE_URL_REQUIRED''
         else if cp_api_token p = [] then Some ''PYTHON_SANDBOX_API_TOKEN_REQUIRED''
         else if cp_signing_key p = [] then Some ''PYTHON_SANDBOX_SIGNING_KEY_REQUIRED''
         else if cp_provider p = [] then Some ''PYTHON_SANDBOX_EXPECTED_PROVIDER_REQUIRED''
         else if cp_image p = [] then Some ''PYTHON_SANDBOX_EXPECTED_IMAGE_DIGEST_REQUIRED''
         else None)
      else None)"

definition from_env :: "parsers \<Rightarrow> environ \<Rightarrow> string + capability_policy" where
  "from_env ps env =
    bind (python_runtime_environment env) (\<lambda>runtime_environment.
    bind (env_bool env ''PLATFORM_PYTHON_TOOL_ENABLED'') (\<lambda>python_enabled.
    bind (env_float ps env ''PLATFORM_PYTHON_TOOL_TIMEOUT_SECONDS'' 3 (1/4) 10) (\<lambda>python_timeout.
    bind (env_int env ''PLATFORM_PYTHON_TOOL_MAX_CODE_BYTES'' 20000 256 100000) (\<lambda>python_max_code.
    bind (env_int env ''PLATFORM_PYTHON_TOOL_MAX_OUTPUT_BYTES'' 64000 1024 250000) (\<lambda>python_max_output.
    bind (env_bool env ''PLATFORM_EXTERNAL_READ_ENABLED'') (\<lambda>external_enabled.
    bind (domains env) (\<lambda>external_domains.
    bind (env_float ps env ''PLATFORM_EXTERNAL_READ_TIMEOUT_SECONDS'' 5 (1/2) 15) (\<lambda>external_timeout.
    bind (env_int env ''PLATFORM_EXTERNAL_READ_MAX_BYTES'' 500000 1024 2000000) (\<lambda>external_max_bytes.
    bind (env_int env ''PLATFORM_EXTERNAL_READ_MAX_URLS_PER_TURN'' 2 1 4) (\<lambda>external_max_urls.
    bind (env_choice env ''PLATFORM_PYTHON_RUNTIME_MODE'' ''disabled''
      [''disabled'', ''legacy_local_test'', ''external'']) (\<lambda>mode.
    bind (env_choice env ''PLATFORM_PYTHON_RUNTIME_ADAPTER'' ''unconfigured''
      [''unconfigured'', ''remote_http'']) (\<lambda>adapter.
    bind (env_bool env ''PLATFORM_PYTHON_LEGACY_LOCAL_TEST_ENABLED'') (\<lambda>legacy.
    bind (env_bool env ''PLATFORM_PYTHON_RUNTIME_QUALIFIED'') (\<lambda>qualified.
    bind (python_runtime_base_url ps env runtime_environment) (\<lambda>base_url.
    bind (runtime_signing_key env ''PLATFORM_PYTHON_SANDBOX_SIGNING_KEY'') (\<lambda>signing_key.
    bind (runtime_image_digest env ''PLATFORM_PYTHON_SANDBOX_EXPECTED_IMAGE_DIGEST'') (\<lambda>image.
    bind (env_float ps env ''PLATFORM_PYTHON_SANDBOX_REQUEST_TIMEOUT_SECONDS'' 10 1 60) (\<lambda>request_timeout.
    bind (env_int env ''PLATFORM_PYTHON_SANDBOX_REQUEST_TTL_SECONDS'' 30 5 120) (\<lambda>request_ttl.
    bind (env_float ps env ''PLATFORM_PYTHON_SANDBOX_WALL_CLOCK_SECONDS'' 5 (1/2) 60) (\<lambda>wall_clock.
    bind (env_float ps env ''PLATFORM_PYTHON_SANDBOX_CPU_CORES'' 1 (1/10) 8) (\<lambda>cpu.
    bind (env_int env ''PLATFORM_PYTHON_SANDBOX_MEMORY_MB'' 512 64 8192) (\<lambda>memory.
    bind (env_int env ''PLATFORM_PYTHON_SANDBOX_MAX_PROCESSES'' 16 1 128) (\<lambda>processes.
    bind (env_int env ''PLATFORM_PYTHON_SANDBOX_MAX_OUTPUT_FILES'' 8 0 32) (\<lambda>output_files.
    bind (env_int env ''PLATFORM_PYTHON_SANDBOX_MAX_OUTPUT_BYTES'' 10000000 0 100000000) (\<lambda>output_bytes.
    bind (env_bool env ''PLATFORM_AUDIT_EVIDENCE_CAPABILITIES_ENABLED'') (\<lambda>audit_enabled.
    bind (env_bool env ''PLATFORM_AUDIT_FILE_INSPECT_ENABLED'') (\<lambda>audit_file.
    bind (env_bool env ''PLATFORM_AUDIT_ARCHIVE_INSPECT_ENABLED'') (\<lambda>audit_archive.
    bind (env_bool env ''PLATFORM_AUDIT_RUNTIME_INSPECT_ENABLED'') (\<lambda>audit_runtime.
    bind (env_bool env ''PLATFORM_AUDIT_RUNTIME_FILE_SHA256_ENABLED'') (\<lambda>audit_sha256.
    bind (env_bool env ''PLATFORM_AUDIT_RUNTIME_SEARCH_MARKER_ENABLED'') (\<lambda>audit_search.
    bind (csv_tokens env ''PLATFORM_AUDIT_ALLOWED_AGENT_IDS'') (\<lambda>agents.
    bind (csv_tokens env ''PLATFORM_AUDIT_ALLOWED_TENANT_IDS'') (\<lambda>tenants.
    bind (csv_tokens env ''PLATFORM_AUDIT_ALLOWED_ENVIRONMENTS'') (\<lambda>audit_environments.
    bind (env_float ps env ''PLATFORM_AUDIT_TIMEOUT_SECONDS'' 3 (1/4) 15) (\<lambda>audit_timeout.
    bind (env_int env ''PLATFORM_AUDIT_MAX_OUTPUT_BYTES'' 128000 1024 1000000) (\<lambda>audit_max_output.
    bind (env_bool env ''PLATFORM_AUDIT_GOVERNED_INVOCATION_ENABLED'') (\<lambda>governed.
    bind (env_int env ''PLATFORM_AUDIT_RATE_LIMIT_WINDOW_SECONDS'' 60 60 60) (\<lambda>rate_window.
    bind (env_int env ''PLATFORM_AUDIT_USER_RATE_LIMIT_PER_WINDOW'' 4 1 100) (\<lambda>user_limit.
    bind (env_int env ''PLATFORM_AUDIT_TENANT_RATE_LIMIT_PER_WINDOW'' 20 1 1000) (\<lambda>tenant_limit.
    bind (env_int env ''PLATFORM_AUDIT_DIRECTIVE_USER_RATE_LIMIT'' 12 1 100) (\<lambda>directive_limit.
    let profile = py_strip (case env ''PLATFORM_PYTHON_RUNTIME_PROFILE_ID'' of
          None \<Rightarrow> ''python-analysis-lite-v1'' | Some s \<Rightarrow> s);
        p = \<lparr>cp_python_enabled = python_enabled, cp_python_timeout = python_timeout,
          cp_python_max_code = python_max_code, cp_python_max_output = python_max_output,
          cp_external_enabled = external_enabled, cp_external_domains = external_domains,
          cp_external_timeout = external_timeout, cp_external_max_bytes = external_max_bytes,
          cp_external_max_urls = external_max_urls, cp_mode = mode, cp_adapter = adapter,
          cp_legacy = legacy, cp_environment = runtime_environment,
          cp_profile = (if profile = [] then ''python-analysis-lite-v1'' else profile),
          cp_qualified = qualified, cp_base_url = base_url,
          cp_api_token = py_strip (env_text env ''PLATFORM_PYTHON_SANDBOX_API_TOKEN''),
          cp_signing_key = signing_key,
          cp_provider = py_lower (py_strip (env_text env ''PLATFORM_PYTHON_SANDBOX_EXPECTED_PROVIDER'')),
          cp_image = image, cp_request_timeout = request_timeout, cp_request_ttl = request_ttl,
          cp_wall_clock = wall_clock, cp_cpu = cpu, cp_memory = memory, cp_processes = processes,
          cp_output_files = output_files, cp_output_bytes = output_bytes,
          cp_audit_enabled = audit_enabled, cp_audit_file = audit_file, cp_audit_archive = audit_archive,
          cp_audit_runtime = audit_runtime, cp_audit_sha256 = audit_sha256, cp_audit_search = audit_search,
          cp_audit_agents = agents, cp_audit_tenants = tenants, cp_audit_environments = audit_environments,
          cp_audit_timeout = audit_timeout, cp_audit_max_output = audit_max_output,
          cp_audit_governed = governed, cp_rate_window = rate_window, cp_user_limit = user_limit,
          cp_tenant_limit = tenant_limit, cp_directive_limit = directive_limit\<rparr>
    in case policy_error p of Some e \<Rightarrow> Inl e | None \<Rightarrow> Inr p)))))))))))))))))))))))))))))))))))))))))"

section \<open>What the policy offers\<close>

record runtime_state =
  rs_enabled :: bool
  rs_execute :: bool
  rs_runtime :: string
  rs_legacy :: bool
  rs_legacy_requested :: bool
  rs_external_configured :: bool
  rs_external_approved :: bool
  rs_artifact_bound :: bool
  rs_signing :: bool
  rs_network_policy :: string
  rs_network_enforced :: bool
  rs_filesystem_policy :: string
  rs_filesystem_isolated :: bool
  rs_isolation_required :: bool

definition python_runtime_state :: "capability_policy \<Rightarrow> bool \<Rightarrow> runtime_state" where
  "python_runtime_state p privileged =
     (let legacy = (cp_python_enabled p \<and> privileged \<and> cp_mode p = ''legacy_local_test'' \<and> cp_legacy p \<and>
            cp_environment p \<in> {''development'', ''test''});
          requested = (cp_python_enabled p \<and> privileged \<and> cp_mode p = ''external'');
          configured = (requested \<and> cp_adapter p = ''remote_http'' \<and> cp_base_url p \<noteq> [] \<and> cp_api_token p \<noteq> [] \<and>
            cp_signing_key p \<noteq> [] \<and> cp_provider p \<noteq> [] \<and> cp_image p \<noteq> []);
          available = (configured \<and> cp_qualified p);
          local_mode = (cp_mode p = ''legacy_local_test'')
      in \<lparr>rs_enabled = (cp_python_enabled p \<and> privileged), rs_execute = (legacy \<or> available),
          rs_runtime = (if local_mode then ''legacy_same_host_subprocess''
            else if cp_mode p = ''external'' then ''external_isolated_sandbox'' else ''disabled''),
          rs_legacy = legacy, rs_legacy_requested = (local_mode \<and> cp_legacy p),
          rs_external_configured = configured, rs_external_approved = available,
          rs_artifact_bound = (configured \<and> cp_image p \<noteq> []), rs_signing = (configured \<and> cp_signing_key p \<noteq> []),
          rs_network_policy = (if local_mode then ''NOT_OS_ENFORCED'' else ''DENY_REQUIRED''),
          rs_network_enforced = False,
          rs_filesystem_policy = (if local_mode then ''TEMP_CWD_NOT_SECURITY_BOUNDARY''
            else ''EPHEMERAL_ISOLATED_REQUIRED''),
          rs_filesystem_isolated = False, rs_isolation_required = (cp_mode p = ''external'')\<rparr>)"

record policy_manifest =
  pm_python :: runtime_state
  pm_external :: bool
  pm_governed :: bool
  pm_evidence :: bool
  pm_file :: bool
  pm_archive :: bool
  pm_sha256 :: bool
  pm_search :: bool

definition policy_manifest_of :: "capability_policy \<Rightarrow> bool \<Rightarrow> policy_manifest" where
  "policy_manifest_of p privileged =
     \<lparr>pm_python = python_runtime_state p privileged, pm_external = (cp_external_enabled p \<and> privileged),
      pm_governed = (cp_audit_governed p \<and> privileged), pm_evidence = (cp_audit_enabled p \<and> privileged),
      pm_file = (cp_audit_enabled p \<and> cp_audit_file p \<and> privileged),
      pm_archive = (cp_audit_enabled p \<and> cp_audit_archive p \<and> privileged),
      pm_sha256 = (cp_audit_enabled p \<and> cp_audit_runtime p \<and> cp_audit_sha256 p \<and> privileged),
      pm_search = (cp_audit_enabled p \<and> cp_audit_runtime p \<and> cp_audit_search p \<and> privileged)\<rparr>"

end
