(* ===== verification/Audit_Directive.thy ===== *)
theory Audit_Directive
  imports Audit_Policy
begin

text \<open>
  The frozen operations of the audit plane (src/src/orkio_v2/services/audit_invocation_contracts.py),
  the parser of \<open>/audit\<close> directives (audit_invocation_directive.py), and the authorization of a
  capability (capability_registry.py). \<open>raw_decode\<close> of the json module is a parameter: the value at
  the beginning of a text and the rest of the text.
\<close>

section \<open>Operations\<close>

definition capability :: "string \<Rightarrow> string" where
  "capability name = ''audit.'' @ name @ ''@1.0.0''"

definition audit_file_inspect :: string where
  "audit_file_inspect = capability ''file.inspect''"

definition audit_archive_inspect :: string where
  "audit_archive_inspect = capability ''archive.inspect''"

definition audit_runtime_sha256 :: string where
  "audit_runtime_sha256 = capability ''runtime.file_sha256''"

definition audit_runtime_search :: string where
  "audit_runtime_search = capability ''runtime.search_marker''"

datatype operation =
    File_Metadata | File_Read_Text | File_Find_Marker
  | Archive_Preflight | Archive_Manifest | Archive_Metadata | Archive_Read_Text | Archive_Hash
  | Runtime_Sha256 | Runtime_Search

fun operation_name :: "operation \<Rightarrow> string" where
  "operation_name File_Metadata = ''file.metadata''"
| "operation_name File_Read_Text = ''file.read_text''"
| "operation_name File_Find_Marker = ''file.find_literal_marker''"
| "operation_name Archive_Preflight = ''archive.preflight''"
| "operation_name Archive_Manifest = ''archive.manifest''"
| "operation_name Archive_Metadata = ''archive.file_metadata''"
| "operation_name Archive_Read_Text = ''archive.read_text_member''"
| "operation_name Archive_Hash = ''archive.hash_member''"
| "operation_name Runtime_Sha256 = ''runtime.file_sha256''"
| "operation_name Runtime_Search = ''runtime.search_marker''"

definition all_operations :: "operation list" where
  "all_operations = [File_Metadata, File_Read_Text, File_Find_Marker, Archive_Preflight, Archive_Manifest,
     Archive_Metadata, Archive_Read_Text, Archive_Hash, Runtime_Sha256, Runtime_Search]"

fun operation_capability :: "operation \<Rightarrow> string" where
  "operation_capability Runtime_Sha256 = audit_runtime_sha256"
| "operation_capability Runtime_Search = audit_runtime_search"
| "operation_capability File_Metadata = audit_file_inspect"
| "operation_capability File_Read_Text = audit_file_inspect"
| "operation_capability File_Find_Marker = audit_file_inspect"
| "operation_capability _ = audit_archive_inspect"

fun required_fields :: "operation \<Rightarrow> string list" where
  "required_fields File_Find_Marker = [''artifact_id'', ''marker'']"
| "required_fields Archive_Metadata = [''artifact_id'', ''member_name'']"
| "required_fields Archive_Read_Text = [''artifact_id'', ''member_name'']"
| "required_fields Archive_Hash = [''artifact_id'', ''member_name'']"
| "required_fields Runtime_Sha256 = [''module_id'']"
| "required_fields Runtime_Search = [''module_id'', ''marker'']"
| "required_fields _ = [''artifact_id'']"

fun optional_fields :: "operation \<Rightarrow> string list" where
  "optional_fields File_Read_Text = [''offset'', ''max_bytes'']"
| "optional_fields File_Find_Marker = [''max_scan_bytes'', ''max_matches'']"
| "optional_fields Archive_Manifest = [''offset'', ''limit'']"
| "optional_fields Archive_Read_Text = [''offset'', ''max_bytes'']"
| "optional_fields Runtime_Search = [''max_scan_bytes'', ''max_matches'']"
| "optional_fields _ = []"

definition operation_spec :: "string \<Rightarrow> operation option" where
  "operation_spec name = find (\<lambda>op. operation_name op = name) all_operations"

section \<open>Directives\<close>

record directive =
  dr_operation :: operation
  dr_arguments :: "(string \<times> json) list"

definition forbidden_fields :: "string list" where
  "forbidden_fields = [''tenant_id'', ''user_id'', ''agent_id'', ''requested_agent_id'', ''resolved_agent_id'',
     ''turn_owner_agent_id'', ''environment'', ''deployment_id'', ''privileged_user'', ''write_allowed'',
     ''execution_allowed'', ''root_id'', ''relative_path'', ''path'', ''absolute_path'', ''shell'', ''command'',
     ''sql'', ''query'', ''url'', ''network'', ''http'', ''https'']"

definition string_limits :: "(string \<times> nat) list" where
  "string_limits = [(''artifact_id'', 128), (''module_id'', 120), (''member_name'', 1024), (''marker'', 512)]"

definition looks_like_audit_directive :: "string \<Rightarrow> bool" where
  "looks_like_audit_directive message = py_startswith (py_lstrip message) ''/audit''"

definition directive_error :: "string \<Rightarrow> audit_exn" where
  "directive_error t = Directive_Exn (''AUDIT_DIRECTIVE_'' @ t)"

text \<open>\<open>_validate_value\<close>; the fields of every operation are strings with a limit or integers.\<close>

definition validate_value :: "string \<Rightarrow> json \<Rightarrow> audit_exn option" where
  "validate_value name value = (case map_of string_limits name of
       Some limit \<Rightarrow> (case value of
           JStr s \<Rightarrow>
             (if py_strip s = [] then Some (directive_error ''FIELD_INVALID'')
              else if limit < length s then Some (directive_error ''FIELD_TOO_LARGE'')
              else if CHR 0x00 \<in> set s then Some (directive_error ''FIELD_INVALID'')
              else None)
         | _ \<Rightarrow> Some (directive_error ''FIELD_INVALID''))
     | None \<Rightarrow>
         if name \<in> {''offset'', ''max_bytes'', ''max_scan_bytes'', ''max_matches'', ''limit''}
         then (case value of JInt i \<Rightarrow> if i < 0 then Some (directive_error ''FIELD_INVALID'') else None
               | _ \<Rightarrow> Some (directive_error ''FIELD_INVALID''))
         else None)"

fun first_invalid :: "(string \<times> json) list \<Rightarrow> audit_exn option" where
  "first_invalid [] = None"
| "first_invalid ((name, value) # rest) = (case validate_value name value of
     Some e \<Rightarrow> Some e | None \<Rightarrow> first_invalid rest)"

definition directive_of_payload :: "(string \<times> json) list \<Rightarrow> audit_exn + directive" where
  "directive_of_payload payload =
     (if \<exists>f \<in> set (map fst payload). f \<in> set forbidden_fields then Inl (directive_error ''FORBIDDEN_FIELD'')
      else if obj_get payload ''version'' \<noteq> JStr ''1'' then Inl (directive_error ''VERSION_INVALID'')
      else case obj_get payload ''operation'' of
          JStr name \<Rightarrow>
            (if py_strip name = [] then Inl (directive_error ''OPERATION_REQUIRED'')
             else case operation_spec name of
                 None \<Rightarrow> Inl (Directive_Exn ''AUDIT_OPERATION_UNKNOWN'')
               | Some op \<Rightarrow>
                   let allowed = [''version'', ''operation''] @ required_fields op @ optional_fields op;
                       arguments = filter (\<lambda>(k, v). k \<notin> {''version'', ''operation''}) payload in
                   if \<exists>f \<in> set (map fst payload). f \<notin> set allowed then Inl (directive_error ''UNKNOWN_FIELD'')
                   else if \<exists>f \<in> set (required_fields op). f \<notin> set (map fst payload)
                   then Inl (directive_error ''REQUIRED_FIELD_MISSING'')
                   else case first_invalid arguments of Some e \<Rightarrow> Inl e
                     | None \<Rightarrow> Inr \<lparr>dr_operation = op, dr_arguments = arguments\<rparr>)
        | _ \<Rightarrow> Inl (directive_error ''OPERATION_REQUIRED''))"

type_synonym json_decoder = "string \<Rightarrow> (json \<times> string) option"

definition parse_audit_directive :: "json_decoder \<Rightarrow> string \<Rightarrow> audit_exn + directive option" where
  "parse_audit_directive decode text =
     (if \<not> looks_like_audit_directive text then Inr None
      else if \<not> py_startswith text ''/audit '' then Inl (directive_error ''FORMAT_INVALID'')
      else if 20000 < length text then Inl (directive_error ''TOO_LARGE'')
      else case decode (drop 7 text) of
          None \<Rightarrow> Inl (directive_error ''JSON_INVALID'')
        | Some (payload, rest) \<Rightarrow>
            if py_strip rest \<noteq> [] then Inl (directive_error ''TRAILING_TEXT_FORBIDDEN'')
            else case payload of
                JObj kvs \<Rightarrow> map_sum id Some (directive_of_payload kvs)
              | _ \<Rightarrow> Inl (directive_error ''OBJECT_REQUIRED''))"

section \<open>Authorization\<close>

definition capability_enabled :: "capability_policy \<Rightarrow> string \<Rightarrow> bool" where
  "capability_enabled p capability_id \<longleftrightarrow> cp_audit_enabled p \<and>
     (if capability_id = audit_file_inspect then cp_audit_file p
      else if capability_id = audit_archive_inspect then cp_audit_archive p
      else if capability_id = audit_runtime_sha256 then cp_audit_runtime p \<and> cp_audit_sha256 p
      else capability_id = audit_runtime_search \<and> cp_audit_runtime p \<and> cp_audit_search p)"

record trusted_context =
  tc_user :: string
  tc_tenant :: string
  tc_environment :: string
  tc_requested :: "string option"
  tc_resolved :: string
  tc_privileged :: bool

text \<open>
  \<open>CapabilityRegistry.authorize\<close> with exact agent binding: the reason it gives, \<open>ALLOW\<close> when it
  allows. The rate limit is asked last; it may raise.
\<close>

definition authorize ::
  "capability_policy \<Rightarrow> (string \<Rightarrow> trusted_context \<Rightarrow> audit_exn + bool) \<Rightarrow> string \<Rightarrow> trusted_context \<Rightarrow>
   audit_exn + string" where
  "authorize p rate capability_id c =
     (let subject = py_lower (py_strip (tc_resolved c)); tenant = py_lower (py_strip (tc_tenant c));
          environment = py_lower (py_strip (tc_environment c)) in
      if \<not> capability_enabled p capability_id then Inr ''AUDIT_CAPABILITY_DISABLED''
      else if \<not> tc_privileged c then Inr ''AUDIT_CAPABILITY_USER_DENIED''
      else if subject = [] \<or> subject \<notin> set (cp_audit_agents p) then Inr ''AUDIT_CAPABILITY_AGENT_DENIED''
      else if (case tc_requested c of None \<Rightarrow> False
          | Some r \<Rightarrow> r \<noteq> [] \<and> py_lower (py_strip r) \<noteq> subject)
      then Inr ''AUDIT_CAPABILITY_AGENT_IDENTITY_MISMATCH''
      else if tenant = [] \<or> tenant \<notin> set (cp_audit_tenants p) then Inr ''AUDIT_CAPABILITY_TENANT_DENIED''
      else if environment = [] \<or> environment \<notin> set (cp_audit_environments p)
      then Inr ''AUDIT_CAPABILITY_ENVIRONMENT_DENIED''
      else case rate capability_id c of Inl e \<Rightarrow> Inl e
        | Inr ok \<Rightarrow> Inr (if ok then ''ALLOW'' else ''AUDIT_REQUEST_RATE_LIMITED''))"

section \<open>Lemmas\<close>

lemma operation_spec_name: "operation_spec name = Some op \<Longrightarrow> operation_name op = name"
  by (auto simp: operation_spec_def find_Some_iff)

lemma operation_spec_of_name: "operation_spec (operation_name op) = Some op"
  by (cases op) (simp_all add: operation_spec_def all_operations_def)

lemma operation_name_inj: "operation_name op = operation_name op' \<Longrightarrow> op = op'"
  by (metis operation_spec_of_name option.inject)

lemma authorize_allow:
  assumes "authorize p rate capability_id c = Inr ''ALLOW''"
  shows "capability_enabled p capability_id \<and> tc_privileged c \<and>
    py_lower (py_strip (tc_resolved c)) \<in> set (cp_audit_agents p) \<and>
    py_lower (py_strip (tc_tenant c)) \<in> set (cp_audit_tenants p) \<and>
    py_lower (py_strip (tc_environment c)) \<in> set (cp_audit_environments p) \<and>
    rate capability_id c = Inr True"
  using assms by (auto simp: authorize_def Let_def split: if_splits sum.splits)

lemma first_invalid_None:
  "first_invalid kvs = None \<longleftrightarrow> (\<forall>(k, v) \<in> set kvs. validate_value k v = None)"
  by (induction kvs rule: first_invalid.induct) (auto split: option.splits)

lemma directive_of_payloadD:
  assumes "directive_of_payload payload = Inr d"
  shows "obj_get payload ''operation'' = JStr (operation_name (dr_operation d))"
    and "dr_arguments d = filter (\<lambda>(k, v). k \<notin> {''version'', ''operation''}) payload"
    and "set (map fst (dr_arguments d)) \<subseteq> set (required_fields (dr_operation d) @ optional_fields (dr_operation d))"
    and "set (required_fields (dr_operation d)) \<subseteq> set (map fst payload)"
    and "\<forall>(k, v) \<in> set (dr_arguments d). validate_value k v = None"
proof -
  obtain name op where *: "obj_get payload ''operation'' = JStr name" "operation_spec name = Some op"
    "d = \<lparr>dr_operation = op, dr_arguments = filter (\<lambda>(k, v). k \<notin> {''version'', ''operation''}) payload\<rparr>"
    "\<not> (\<exists>f \<in> set (map fst payload). f \<notin> set ([''version'', ''operation''] @ required_fields op @ optional_fields op))"
    "\<not> (\<exists>f \<in> set (required_fields op). f \<notin> set (map fst payload))"
    "first_invalid (dr_arguments d) = None"
    using assms unfolding directive_of_payload_def Let_def
    by (auto split: if_splits json.splits option.splits)
  show "obj_get payload ''operation'' = JStr (operation_name (dr_operation d))"
    using *(1-3) operation_spec_name by simp
  show "dr_arguments d = filter (\<lambda>(k, v). k \<notin> {''version'', ''operation''}) payload"
    using *(3) by simp
  show "set (map fst (dr_arguments d)) \<subseteq> set (required_fields (dr_operation d) @ optional_fields (dr_operation d))"
    using *(3,4) by auto
  show "set (required_fields (dr_operation d)) \<subseteq> set (map fst payload)"
    using *(3,5) by auto
  show "\<forall>(k, v) \<in> set (dr_arguments d). validate_value k v = None"
    using *(6) first_invalid_None by blast
qed

end
