(* ===== verification/Audit_Ledger.thy ===== *)
theory Audit_Ledger
  imports Audit_Base Models "HOL-Library.Product_Lexorder"
begin

text \<open>
  Evidence of the audit plane: the envelope (src/src/orkio_v2/services/audit_evidence.py) and the
  append-only ledger (audit_evidence_repository.py). \<open>append_evidence\<close> opens a session of its own for
  every step, so it is given with the rows that other requests commit between its look-up and its
  commit, and with what happens to its reads and its commit. NFC normalization, the canonical form of
  a timestamp and SHA-256 are parameters.
\<close>

section \<open>Envelopes\<close>

record evidence =
  ev_execution :: string
  ev_request :: string
  ev_turn :: string
  ev_tenant :: string
  ev_user :: string
  ev_capability :: string
  ev_version :: string
  ev_environment :: string
  ev_deployment :: string
  ev_requested :: "string option"
  ev_resolved :: string
  ev_owner :: "string option"
  ev_decision :: string
  ev_reason :: string
  ev_status :: string
  ev_artifact :: "string option"
  ev_root :: "string option"
  ev_sanitized :: bool
  ev_read :: bool
  ev_started :: string
  ev_finished :: string
  ev_data :: "(string \<times> json) list option"
  ev_error :: "string option"
  ev_created :: string

definition text_or_null :: "string option \<Rightarrow> json" where
  "text_or_null x = (case x of None \<Rightarrow> JNull | Some s \<Rightarrow> JStr s)"

definition envelope_dict :: "evidence \<Rightarrow> (string \<times> json) list" where
  "envelope_dict e =
     [(''schema_version'', JStr ''1.0''), (''audit_execution_id'', JStr (ev_execution e)),
      (''request_id'', JStr (ev_request e)), (''execution_id'', JStr (ev_turn e)),
      (''tenant_id'', JStr (ev_tenant e)), (''user_id'', JStr (ev_user e)),
      (''capability_id'', JStr (ev_capability e)), (''capability_version'', JStr (ev_version e)),
      (''environment'', JStr (ev_environment e)), (''deployment_id'', JStr (ev_deployment e)),
      (''requested_agent_id'', text_or_null (ev_requested e)), (''resolved_agent_id'', JStr (ev_resolved e)),
      (''turn_owner_agent_id'', text_or_null (ev_owner e)), (''capability_decision'', JStr (ev_decision e)),
      (''capability_decision_reason'', JStr (ev_reason e)), (''status'', JStr (ev_status e)),
      (''artifact_id'', text_or_null (ev_artifact e)), (''root_id'', text_or_null (ev_root e)),
      (''sanitized'', JBool (ev_sanitized e)), (''read_executed'', JBool (ev_read e)),
      (''write_executed'', JBool False), (''migration_executed'', JBool False),
      (''deploy_executed'', JBool False), (''human_approval_required'', JBool True),
      (''started_at'', JStr (ev_started e)), (''finished_at'', JStr (ev_finished e)),
      (''data'', case ev_data e of None \<Rightarrow> JNull | Some d \<Rightarrow> JObj d),
      (''error_code'', text_or_null (ev_error e)), (''created_at'', JStr (ev_created e))]"

text \<open>\<open>build_evidence_envelope\<close>: the checks on the values of an envelope.\<close>

definition build_envelope :: "evidence \<Rightarrow> audit_exn + evidence" where
  "build_envelope e =
     (if ev_decision e \<notin> {''ALLOW'', ''DENY''} then Inl (Evidence_Exn ''AUDIT_EVIDENCE_DECISION_INVALID'')
      else if ev_status e \<notin> {''completed'', ''failed'', ''denied''} then Inl (Evidence_Exn ''AUDIT_EVIDENCE_STATUS_INVALID'')
      else if ev_decision e = ''DENY'' \<and> ev_read e then Inl (Evidence_Exn ''AUDIT_EVIDENCE_DENIED_READ_EXECUTED'')
      else if py_strip (ev_version e) = [] then Inl (Evidence_Exn ''AUDIT_EVIDENCE_CAPABILITY_VERSION_REQUIRED'')
      else if py_strip (ev_environment e) = [] then Inl (Evidence_Exn ''AUDIT_EVIDENCE_ENVIRONMENT_REQUIRED'')
      else if py_strip (ev_deployment e) = [] then Inl (Evidence_Exn ''AUDIT_EVIDENCE_DEPLOYMENT_ID_REQUIRED'')
      else Inr e)"

section \<open>Canonical payloads\<close>

datatype dialect = Postgres | Sqlite | Other_Dialect

record ledger_env =
  le_nfc :: "string \<Rightarrow> string"
  le_time :: "string \<Rightarrow> string option"
  le_sha256 :: "string \<Rightarrow> string"
  le_dialect :: dialect
  le_now :: instant
  le_record :: string

definition evidence_exn :: "string \<Rightarrow> audit_exn" where
  "evidence_exn t = Repository_Exn (''AUDIT_EVIDENCE_'' @ t)"

definition normalize_text :: "ledger_env \<Rightarrow> string option \<Rightarrow> string \<Rightarrow> audit_exn + json" where
  "normalize_text env key s =
     (if key \<in> {Some ''started_at'', Some ''finished_at'', Some ''created_at''}
      then (case le_time env (le_nfc env s) of
              None \<Rightarrow> Inl (evidence_exn ''TIMESTAMP_INVALID'')
            | Some t \<Rightarrow> Inr (JStr t))
      else Inr (JStr (le_nfc env s)))"

fun normalize :: "ledger_env \<Rightarrow> string option \<Rightarrow> json \<Rightarrow> audit_exn + json"
and normalize_list :: "ledger_env \<Rightarrow> json list \<Rightarrow> audit_exn + json list"
and normalize_items ::
  "ledger_env \<Rightarrow> (string \<times> json) list \<Rightarrow> (string \<times> json) list \<Rightarrow> audit_exn + (string \<times> json) list" where
  "normalize env key JNull = Inr JNull"
| "normalize env key (JBool b) = Inr (JBool b)"
| "normalize env key (JStr s) = normalize_text env key s"
| "normalize env key (JInt i) = (if i < - (2 ^ 63) \<or> 2 ^ 63 - 1 < i
     then Inl (evidence_exn ''INTEGER_OUT_OF_RANGE'') else Inr (JInt i))"
| "normalize env key (JFloat r) = Inl (evidence_exn ''FLOAT_FORBIDDEN'')"
| "normalize env key (JList xs) = map_sum id JList (normalize_list env xs)"
| "normalize env key (JObj kvs) = map_sum id JObj (normalize_items env [] kvs)"
| "normalize_list env [] = Inr []"
| "normalize_list env (x # xs) = (case normalize env None x of Inl e \<Rightarrow> Inl e | Inr y \<Rightarrow>
     map_sum id (\<lambda>ys. y # ys) (normalize_list env xs))"
| "normalize_items env got [] = Inr got"
| "normalize_items env got ((k, v) # rest) =
     (if le_nfc env k \<in> set (map fst got) then Inl (evidence_exn ''NFC_KEY_COLLISION'')
      else case normalize env (Some (le_nfc env k)) v of Inl e \<Rightarrow> Inl e | Inr w \<Rightarrow>
        normalize_items env (got @ [(le_nfc env k, w)]) rest)"

type_synonym payload = "(string \<times> json) list"

definition required_keys :: "string list" where
  "required_keys = [''schema_version'', ''audit_execution_id'', ''request_id'', ''execution_id'', ''tenant_id'',
     ''user_id'', ''capability_id'', ''capability_version'', ''environment'', ''deployment_id'',
     ''resolved_agent_id'', ''capability_decision'', ''status'', ''sanitized'', ''read_executed'',
     ''write_executed'', ''migration_executed'', ''deploy_executed'', ''started_at'', ''finished_at'', ''created_at'']"

definition required_texts :: "string list" where
  "required_texts = [''schema_version'', ''audit_execution_id'', ''request_id'', ''execution_id'', ''tenant_id'',
     ''user_id'', ''capability_id'', ''capability_version'', ''environment'', ''deployment_id'', ''resolved_agent_id'']"

fun full_text :: "json \<Rightarrow> bool" where
  "full_text (JStr s) = (py_strip s \<noteq> [])"
| "full_text _ = False"

definition payload_error :: "payload \<Rightarrow> string option" where
  "payload_error d =
     (if \<exists>k \<in> set required_keys. k \<notin> set (map fst d) then Some ''REQUIRED_FIELD_MISSING''
      else if obj_get d ''capability_decision'' \<notin> {JStr ''ALLOW'', JStr ''DENY''} then Some ''DECISION_INVALID''
      else if obj_get d ''status'' \<notin> {JStr ''completed'', JStr ''failed'', JStr ''denied''} then Some ''STATUS_INVALID''
      else if obj_get d ''sanitized'' \<noteq> JBool True then Some ''SANITIZATION_REQUIRED''
      else if \<exists>k \<in> {''write_executed'', ''migration_executed'', ''deploy_executed''}. obj_get d k = JBool True
      then Some ''READONLY_INVARIANT_VIOLATED''
      else if obj_get d ''capability_decision'' = JStr ''DENY'' \<and> obj_get d ''read_executed'' = JBool True
      then Some ''DENIED_READ_EXECUTED''
      else if \<exists>k \<in> set required_texts. \<not> full_text (obj_get d k) then Some ''REQUIRED_FIELD_INVALID''
      else None)"

definition payload_of_dict :: "ledger_env \<Rightarrow> payload \<Rightarrow> audit_exn + payload" where
  "payload_of_dict env d = (case normalize_items env [] d of Inl e \<Rightarrow> Inl e | Inr n \<Rightarrow>
     (case payload_error n of Some t \<Rightarrow> Inl (evidence_exn t) | None \<Rightarrow> Inr n))"

definition max_serialized :: nat where
  "max_serialized = 128000"

definition payload_of_envelope :: "ledger_env \<Rightarrow> evidence \<Rightarrow> audit_exn + payload" where
  "payload_of_envelope env e =
     (if max_serialized < length (dump_json (JObj (envelope_dict e)))
      then Inl (evidence_exn ''OUTPUT_TOO_LARGE'') else payload_of_dict env (envelope_dict e))"

definition canonicalize_evidence :: "ledger_env \<Rightarrow> payload \<Rightarrow> audit_exn + string" where
  "canonicalize_evidence env d =
     (case payload_of_dict env d of Inl e \<Rightarrow> Inl e | Inr p \<Rightarrow>
      case normalize_items env [] p of Inl e \<Rightarrow> Inl e | Inr n \<Rightarrow>
      let encoded = dump_json (JObj n) in
      if max_serialized < length encoded then Inl (evidence_exn ''OUTPUT_TOO_LARGE'')
      else case assert_no_high_confidence_secrets encoded of
          Some e \<Rightarrow> Inl (evidence_exn ''SECRET_CONTENT_BLOCKED'')
        | None \<Rightarrow> Inr encoded)"

definition evidence_sha256 :: "ledger_env \<Rightarrow> payload \<Rightarrow> audit_exn + string" where
  "evidence_sha256 env d = map_sum id (le_sha256 env) (canonicalize_evidence env d)"

section \<open>The ledger\<close>

record evidence_row =
  er_id :: string
  er_schema :: json
  er_execution :: json
  er_tenant :: json
  er_user :: json
  er_request :: json
  er_turn :: json
  er_capability :: json
  er_version :: json
  er_environment :: json
  er_deployment :: json
  er_agent :: json
  er_decision :: json
  er_status :: json
  er_artifact :: json
  er_root :: json
  er_error :: json
  er_envelope :: payload
  er_sha256 :: string
  er_created :: instant

type_synonym ledger = "evidence_row list"

definition row_of :: "ledger_env \<Rightarrow> payload \<Rightarrow> string \<Rightarrow> evidence_row" where
  "row_of env p digest =
     \<lparr>er_id = le_record env, er_schema = obj_get p ''schema_version'',
      er_execution = obj_get p ''audit_execution_id'', er_tenant = obj_get p ''tenant_id'',
      er_user = obj_get p ''user_id'', er_request = obj_get p ''request_id'', er_turn = obj_get p ''execution_id'',
      er_capability = obj_get p ''capability_id'', er_version = obj_get p ''capability_version'',
      er_environment = obj_get p ''environment'', er_deployment = obj_get p ''deployment_id'',
      er_agent = obj_get p ''resolved_agent_id'', er_decision = obj_get p ''capability_decision'',
      er_status = obj_get p ''status'', er_artifact = obj_get p ''artifact_id'', er_root = obj_get p ''root_id'',
      er_error = obj_get p ''error_code'', er_envelope = p, er_sha256 = digest, er_created = le_now env\<rparr>"

text \<open>The columns that the verification compares with the payload.\<close>

definition row_bindings :: "evidence_row \<Rightarrow> (string \<times> json) list" where
  "row_bindings r =
     [(''schema_version'', er_schema r), (''audit_execution_id'', er_execution r), (''tenant_id'', er_tenant r),
      (''user_id'', er_user r), (''request_id'', er_request r), (''execution_id'', er_turn r),
      (''capability_id'', er_capability r), (''capability_version'', er_version r),
      (''environment'', er_environment r), (''deployment_id'', er_deployment r),
      (''resolved_agent_id'', er_agent r), (''capability_decision'', er_decision r), (''status'', er_status r),
      (''artifact_id'', er_artifact r), (''root_id'', er_root r), (''error_code'', er_error r)]"

text \<open>The widths of the columns, which PostgreSQL enforces.\<close>

definition fits_in :: "nat \<Rightarrow> json \<Rightarrow> bool" where
  "fits_in n v \<longleftrightarrow> (case v of JStr s \<Rightarrow> length s \<le> n | _ \<Rightarrow> True)"

definition row_fits :: "evidence_row \<Rightarrow> bool" where
  "row_fits r \<longleftrightarrow> list_all2 (\<lambda>n (k, v). fits_in n v)
     [16, 64, 64, 64, 64, 64, 120, 40, 40, 120, 120, 16, 16, 64, 64, 120] (row_bindings r)"

definition row_checks :: "evidence_row \<Rightarrow> bool" where
  "row_checks r \<longleftrightarrow> er_decision r \<in> {JStr ''ALLOW'', JStr ''DENY''} \<and>
     er_status r \<in> {JStr ''completed'', JStr ''failed'', JStr ''denied''} \<and> length (er_sha256 r) = 64"

record append_result =
  ar_record :: string
  ar_sha256 :: string
  ar_replay :: bool

definition compare_existing :: "evidence_row \<Rightarrow> json \<Rightarrow> string \<Rightarrow> audit_exn + append_result" where
  "compare_existing r tenant digest =
     (if er_tenant r = tenant \<and> er_sha256 r = digest
      then Inr \<lparr>ar_record = er_id r, ar_sha256 = er_sha256 r, ar_replay = True\<rparr>
      else Inl (evidence_exn ''IDEMPOTENCY_CONFLICT''))"

definition by_execution :: "json \<Rightarrow> ledger \<Rightarrow> evidence_row option" where
  "by_execution i db = scalar (\<lambda>r. er_execution r = i) db"

definition is_sha256 :: "string \<Rightarrow> bool" where
  "is_sha256 s \<longleftrightarrow> length s = 64 \<and> list_all (\<lambda>c. c \<in> set hex_letters) s"

definition verify_persisted_evidence ::
  "ledger_env \<Rightarrow> json \<Rightarrow> string \<Rightarrow> ledger \<Rightarrow> audit_exn + evidence_row" where
  "verify_persisted_evidence env tenant record db =
     (case scalar (\<lambda>r. er_id r = record \<and> er_tenant r = tenant) db of
        None \<Rightarrow> Inl (evidence_exn ''NOT_FOUND'')
      | Some r \<Rightarrow> (case evidence_sha256 env (er_envelope r) of Inl e \<Rightarrow> Inl e | Inr digest \<Rightarrow>
          if \<not> is_sha256 (er_sha256 r) \<or> digest \<noteq> er_sha256 r
          then Inl (evidence_exn ''PERSISTENCE_INTEGRITY_MISMATCH'')
          else if \<exists>(k, v) \<in> set (row_bindings r). obj_get (er_envelope r) k \<noteq> v
          then Inl (evidence_exn ''COLUMN_BINDING_MISMATCH'')
          else Inr r))"

datatype ledger_commit = Ledger_Done | Ledger_Lost | Ledger_Kept

record ledger_faults =
  lf_lookup :: bool
  lf_commit :: ledger_commit
  lf_verify :: bool

text \<open>The insertion: the integrity error of a constraint, of the execution id, or the commit.\<close>

definition insert_row ::
  "ledger_env \<Rightarrow> ledger_faults \<Rightarrow> evidence_row \<Rightarrow> ledger \<Rightarrow> audit_exn option \<times> ledger" where
  "insert_row env f r db =
     (if \<not> row_checks r \<or> er_id r \<in> set (map er_id db) then (Some (evidence_exn ''PERSISTENCE_INTEGRITY_ERROR''), db)
      else if le_dialect env = Postgres \<and> \<not> row_fits r then (Some (evidence_exn ''PERSISTENCE_FAILED''), db)
      else case lf_commit f of
          Ledger_Done \<Rightarrow> (None, db @ [r])
        | Ledger_Lost \<Rightarrow> (Some (evidence_exn ''PERSISTENCE_FAILED''), db)
        | Ledger_Kept \<Rightarrow> (Some (evidence_exn ''PERSISTENCE_FAILED''), db @ [r]))"

definition append_payload ::
  "ledger_env \<Rightarrow> ledger_faults \<Rightarrow> ledger \<Rightarrow> payload \<Rightarrow> ledger \<Rightarrow> (audit_exn + append_result) \<times> ledger" where
  "append_payload env f others p db =
     (case evidence_sha256 env p of Inl e \<Rightarrow> (Inl e, db) | Inr digest \<Rightarrow>
      let execution = obj_get p ''audit_execution_id''; tenant = obj_get p ''tenant_id'' in
      if \<not> lf_lookup f then (Inl (Other_Exn ''OperationalError''), db)
      else case by_execution execution db of
        Some r \<Rightarrow> (compare_existing r tenant digest, db)
      | None \<Rightarrow>
        let db' = db @ others; r = row_of env p digest in
        case by_execution execution db' of
          Some winner \<Rightarrow>
            ((if le_dialect env = Other_Dialect \<or> er_id r \<in> set (map er_id db')
              then Inl (evidence_exn ''PERSISTENCE_INTEGRITY_ERROR'')
              else compare_existing winner tenant digest), db')
        | None \<Rightarrow> (case insert_row env f r db' of
            (Some e, db'') \<Rightarrow> (Inl e, db'')
          | (None, db'') \<Rightarrow>
              if \<not> lf_verify f then (Inl (Other_Exn ''OperationalError''), db'')
              else (case verify_persisted_evidence env tenant (le_record env) db'' of
                  Inl e \<Rightarrow> Inl e
                | Inr v \<Rightarrow> if er_sha256 v \<noteq> digest then Inl (evidence_exn ''PERSISTENCE_INTEGRITY_MISMATCH'')
                    else Inr \<lparr>ar_record = le_record env, ar_sha256 = digest, ar_replay = False\<rparr>, db'')))"

definition append_evidence ::
  "ledger_env \<Rightarrow> ledger_faults \<Rightarrow> ledger \<Rightarrow> evidence \<Rightarrow> ledger \<Rightarrow> (audit_exn + append_result) \<times> ledger" where
  "append_evidence env f others e db = (case payload_of_envelope env e of
       Inl x \<Rightarrow> (Inl x, db) | Inr p \<Rightarrow> append_payload env f others p db)"

definition get_evidence_for_tenant :: "json \<Rightarrow> string \<Rightarrow> ledger \<Rightarrow> audit_exn + evidence_row" where
  "get_evidence_for_tenant tenant record db = (case scalar (\<lambda>r. er_id r = record \<and> er_tenant r = tenant) db of
       None \<Rightarrow> Inl (evidence_exn ''NOT_FOUND'') | Some r \<Rightarrow> Inr r)"

definition newest_first :: "ledger \<Rightarrow> ledger" where
  "newest_first rows = rev (sort_key (\<lambda>r. (er_created r, er_id r)) rows)"

definition list_evidence_for_execution ::
  "json \<Rightarrow> json \<Rightarrow> int \<Rightarrow> string option \<Rightarrow> ledger \<Rightarrow> ledger" where
  "list_evidence_for_execution tenant turn limit cursor db =
     (let mine = (\<lambda>r. er_tenant r = tenant \<and> er_turn r = turn); n = nat (max 1 (min limit 100)) in
      case cursor of
        None \<Rightarrow> take n (newest_first (filter mine db))
      | Some c \<Rightarrow>
          if c = [] then take n (newest_first (filter mine db))
          else case scalar (\<lambda>r. er_id r = c \<and> mine r) db of
            None \<Rightarrow> []
          | Some x \<Rightarrow> take n (newest_first (filter (\<lambda>r. mine r \<and>
              (er_created r < er_created x \<or> er_created r = er_created x \<and> er_id r < er_id x)) db)))"

end
