(* ===== verification/Audit_Limits.thy ===== *)
theory Audit_Limits
  imports Audit_Ledger "HOL-Library.Multiset"
begin

text \<open>
  The two rate limits of the audit plane (src/src/orkio_v2/services/audit_invocation_rate_limit.py):
  the limiter of \<open>/audit\<close> texts, which the process keeps in memory, and the limit on invocations,
  which counts the rows of the ledger. Both are sliding windows; the locale \<open>sliding_window\<close> states
  what they promise and proves once how many requests a window can hold. Instants are microseconds.
\<close>

section \<open>Sliding windows\<close>

text \<open>
  \<open>fits\<close> says which requests belong to the limiter, \<open>held\<close> is what the limiter remembers as the instants of counted events, \<open>inside now t\<close> says that it
  still counts \<open>t\<close> at \<open>now\<close>, and \<open>ok\<close> that it grants a request.
\<close>

locale sliding_window =
  fixes fits :: "'i \<Rightarrow> bool"
    and time :: "'i \<Rightarrow> int"
    and ok :: "'i \<Rightarrow> 's \<Rightarrow> bool"
    and step :: "'i \<Rightarrow> 's \<Rightarrow> 's"
    and held :: "'s \<Rightarrow> int multiset"
    and inside :: "int \<Rightarrow> int \<Rightarrow> bool"
    and limit :: nat
  assumes grants_below: "\<lbrakk>fits i; ok i s\<rbrakk> \<Longrightarrow> size (filter_mset (inside (time i)) (held s)) < limit"
    and remembers: "fits i \<Longrightarrow> filter_mset (inside (time i)) (held s) + (if ok i s then {#time i#} else {#})
      \<subseteq># held (step i s)"
    and older: "\<lbrakk>inside now' t; now \<le> now'\<rbrakk> \<Longrightarrow> inside now t"
begin

fun granted :: "'i list \<Rightarrow> 's \<Rightarrow> int list" where
  "granted [] s = []"
| "granted (i # is) s = (if ok i s then [time i] else []) @ granted is (step i s)"

lemma granted_times: "t \<in> set (granted is s) \<Longrightarrow> t \<in> set (map time is)"
  by (induction "is" arbitrary: s) (auto split: if_splits)

lemma room_left:
  assumes "sorted (map time is)" and "list_all fits is"
  shows "length (filter (\<lambda>t. inside a t \<and> t \<le> a) (granted is s))
    \<le> limit - size (filter_mset (inside a) (held s))"
  using assms
proof (induction "is" arbitrary: s)
  case (Cons i "is")
  let ?s = "step i s" and ?n = "\<lambda>s. size (filter_mset (inside a) (held s))"
  show ?case
  proof (cases "time i \<le> a")
    case False
    then have "\<forall>t \<in> set (granted (i # is) s). \<not> t \<le> a"
      using granted_times [of _ "i # is" s] Cons.prems by force
    then show ?thesis by (simp add: filter_empty_conv)
  next
    case True
    have again: "filter_mset (inside a) (filter_mset (inside (time i)) (held s)) = filter_mset (inside a) (held s)"
      unfolding filter_filter_mset using older True by (intro filter_mset_cong) auto
    then have sub: "filter_mset (inside a) (held s) \<subseteq># filter_mset (inside (time i)) (held s)"
      by (metis multiset_filter_subset)
    have fits: "fits i" "list_all fits is" using Cons.prems by auto
    have "filter_mset (inside a) (filter_mset (inside (time i)) (held s) + (if ok i s then {#time i#} else {#}))
        \<subseteq># filter_mset (inside a) (held ?s)"
      by (rule multiset_filter_mono [OF remembers [OF fits(1)]])
    with again have more: "?n s + (if ok i s \<and> inside a (time i) then 1 else 0) \<le> ?n ?s"
      by (auto dest!: size_mset_mono split: if_splits)
    have "?n s < limit" if "ok i s"
      using grants_below [OF fits(1) that] size_mset_mono [OF sub] by linarith
    with more Cons.IH [of ?s] Cons.prems fits show ?thesis
      by (auto split: if_splits)
  qed
qed simp

lemma window_bound:
  assumes "sorted (map time is)" and "list_all fits is"
  shows "length (filter (\<lambda>t. inside a t \<and> t \<le> a) (granted is s)) \<le> limit"
  using room_left [OF assms, of a s] by linarith

end

section \<open>The limiter of directives\<close>

definition window :: int where
  "window = 60 * 1000000"

text \<open>The instants kept for each tenant and user; an absent key is an empty deque.\<close>

type_synonym events = "string \<times> string \<Rightarrow> int list"

definition directive_limiter :: "int \<Rightarrow> int \<Rightarrow> audit_exn + int" where
  "directive_limiter window_seconds per_user_limit =
     (if window_seconds \<noteq> 60 \<or> per_user_limit < 1 then Inl (Rate_Exn ''AUDIT_DIRECTIVE_RATE_LIMIT_INVALID'')
      else Inr per_user_limit)"

definition consume :: "int \<Rightarrow> int \<Rightarrow> string \<times> string \<Rightarrow> events \<Rightarrow> bool \<times> events" where
  "consume limit now key ev =
     (let kept = dropWhile (\<lambda>t. t \<le> now - window) (ev key) in
      if limit \<le> int (length kept) then (False, ev(key := kept))
      else (True, ev(key := kept @ [now])))"

definition reset_events :: "events \<Rightarrow> events" where
  "reset_events ev = (\<lambda>key. [])"

text \<open>A request of this limiter: the instant and the key.\<close>

type_synonym attempt = "int \<times> (string \<times> string)"

definition consume_step :: "int \<Rightarrow> attempt \<Rightarrow> events \<Rightarrow> events" where
  "consume_step limit a ev = snd (consume limit (fst a) (snd a) ev)"

definition consume_ok :: "int \<Rightarrow> string \<times> string \<Rightarrow> attempt \<Rightarrow> events \<Rightarrow> bool" where
  "consume_ok limit key a ev \<longleftrightarrow> snd a = key \<and> fst (consume limit (fst a) key ev)"

lemma filter_dropWhile_old:
  "filter_mset (\<lambda>t. now - w < t) (mset (dropWhile (\<lambda>t. t \<le> now - w) ts)) = filter_mset (\<lambda>t. now - w < t) (mset ts)"
  for now w :: int
  by (induction ts) auto

interpretation directives: sliding_window "\<lambda>_. True" fst "consume_ok limit key" "consume_step limit" "\<lambda>ev. mset (ev key)"
    "\<lambda>now t. now - window < t" "nat limit" for limit :: int and key
proof (unfold_locales, goal_cases)
  case (1 i s)
  then have "int (length (dropWhile (\<lambda>t. t \<le> fst i - window) (s key))) < limit"
    by (auto simp: consume_ok_def consume_def Let_def split: if_splits)
  moreover have "size (filter_mset (\<lambda>t. fst i - window < t) (mset (s key)))
      \<le> length (dropWhile (\<lambda>t. t \<le> fst i - window) (s key))"
    using size_mset_mono [OF multiset_filter_subset]
    by (metis filter_dropWhile_old size_mset)
  ultimately show ?case by linarith
next
  case (2 i s)
  have "filter_mset (\<lambda>t. fst i - window < t) (mset (s key)) \<subseteq># mset (dropWhile (\<lambda>t. t \<le> fst i - window) (s key))"
    by (metis filter_dropWhile_old multiset_filter_subset)
  then show ?case
    by (cases "snd i = key") (auto simp: consume_ok_def consume_step_def consume_def Let_def)
qed auto

section \<open>The limit on invocations\<close>

record rate_limits =
  rl_user :: int
  rl_tenant :: int

definition ledger_rate_limit :: "int \<Rightarrow> int \<Rightarrow> int \<Rightarrow> audit_exn + rate_limits" where
  "ledger_rate_limit window_seconds user_limit tenant_limit =
     (if window_seconds \<noteq> 60 then Inl (Rate_Exn ''AUDIT_RATE_LIMIT_WINDOW_INVALID'')
      else if user_limit < 1 \<or> tenant_limit < user_limit then Inl (Rate_Exn ''AUDIT_RATE_LIMIT_VALUE_INVALID'')
      else Inr \<lparr>rl_user = user_limit, rl_tenant = tenant_limit\<rparr>)"

definition counted :: "string \<Rightarrow> string \<Rightarrow> instant \<Rightarrow> evidence_row \<Rightarrow> bool" where
  "counted tenant capability_id cutoff r \<longleftrightarrow>
     er_tenant r = JStr tenant \<and> er_capability r = JStr capability_id \<and> cutoff \<le> er_created r"

text \<open>\<open>readable\<close> says whether the two counts could be read.\<close>

definition rate_check ::
  "rate_limits \<Rightarrow> bool \<Rightarrow> instant \<Rightarrow> ledger \<Rightarrow> string \<Rightarrow> string \<Rightarrow> string \<Rightarrow> audit_exn + bool" where
  "rate_check limits readable now db capability_id user tenant =
     (let rows = filter (counted tenant capability_id (now - window)) db in
      if \<not> readable then Inl (Rate_Exn ''AUDIT_RATE_LIMITER_UNAVAILABLE'')
      else Inr (int (length (filter (\<lambda>r. er_user r = JStr user) rows)) < rl_user limits \<and>
        int (length rows) < rl_tenant limits))"

end
