(* ===== verification/Audit_Guard.thy ===== *)
theory Audit_Guard
  imports Audit_Base
begin

text \<open>
  The seam through which every audit operation runs (src/src/orkio_v2/services/audit_capability_guard.py):
  its result is sanitized and bounded before anything else sees it. Whether the operation outlives the
  timeout is a parameter.
\<close>

section \<open>Sanitizing\<close>

text \<open>The characters of category Cc are removed, except tab, line feed and carriage return.\<close>

fun strip_controls :: "string \<Rightarrow> string" where
  "strip_controls [] = []"
| "strip_controls [c] = (if c \<in> set text_controls \<or> 32 \<le> (of_char c :: nat) \<and> c \<noteq> CHR 0x7F then [c] else [])"
| "strip_controls (c # d # cs) =
     (if c = CHR 0xC2 \<and> tail_byte d \<and> (of_char d :: nat) < 160 then strip_controls cs
      else if c \<in> set text_controls \<or> 32 \<le> (of_char c :: nat) \<and> c \<noteq> CHR 0x7F then c # strip_controls (d # cs)
      else strip_controls (d # cs))"

definition guard_exn :: "string \<Rightarrow> audit_exn" where
  "guard_exn t = Guard_Exn (''AUDIT_OUTPUT_'' @ t)"

definition sanitize_string :: "string \<Rightarrow> audit_exn + string \<times> bool" where
  "sanitize_string value = (case assert_no_high_confidence_secrets value of
       Some e \<Rightarrow> Inl (guard_exn ''SECRET_BLOCKED'')
     | None \<Rightarrow> Inr (strip_controls value, strip_controls value \<noteq> value))"

definition sensitive_words :: "string list" where
  "sensitive_words = [''authorization'', ''cookie'', ''token'', ''secret'', ''password'', ''apikey'', ''api_key'',
     ''api-key'', ''credential'']"

definition sensitive_key :: "string \<Rightarrow> bool" where
  "sensitive_key key \<longleftrightarrow> search_any (\<lambda>t. \<exists>w \<in> set sensitive_words. py_startswith t w) (py_lower key)"

text \<open>The value without what it may not contain, and whether that changed it.\<close>

fun sanitize :: "nat \<Rightarrow> json \<Rightarrow> audit_exn + json \<times> bool"
and sanitize_list :: "nat \<Rightarrow> json list \<Rightarrow> audit_exn + json list \<times> bool"
and sanitize_items :: "nat \<Rightarrow> (string \<times> json) list \<Rightarrow> audit_exn + (string \<times> json) list \<times> bool" where
  "sanitize depth (JStr s) =
     (if 8 < depth then Inl (guard_exn ''STRUCTURE_TOO_DEEP'')
      else map_sum id (\<lambda>(t, ch). (JStr t, ch)) (sanitize_string s))"
| "sanitize depth (JList xs) =
     (if 8 < depth then Inl (guard_exn ''STRUCTURE_TOO_DEEP'')
      else if 512 < length xs then Inl (guard_exn ''TOO_MANY_ITEMS'')
      else map_sum id (\<lambda>(ys, ch). (JList ys, ch)) (sanitize_list depth xs))"
| "sanitize depth (JObj kvs) =
     (if 8 < depth then Inl (guard_exn ''STRUCTURE_TOO_DEEP'')
      else if 512 < length kvs then Inl (guard_exn ''TOO_MANY_ITEMS'')
      else map_sum id (\<lambda>(ys, ch). (JObj ys, ch)) (sanitize_items depth kvs))"
| "sanitize depth v = (if 8 < depth then Inl (guard_exn ''STRUCTURE_TOO_DEEP'') else Inr (v, False))"
| "sanitize_list depth [] = Inr ([], False)"
| "sanitize_list depth (x # xs) = (case sanitize (Suc depth) x of Inl e \<Rightarrow> Inl e | Inr (y, ch) \<Rightarrow>
     map_sum id (\<lambda>(ys, more). (y # ys, ch \<or> more)) (sanitize_list depth xs))"
| "sanitize_items depth [] = Inr ([], False)"
| "sanitize_items depth ((k, v) # kvs) =
     (if sensitive_key k then map_sum id (\<lambda>(ys, more). (ys, True)) (sanitize_items depth kvs)
      else case sanitize (Suc depth) v of Inl e \<Rightarrow> Inl e | Inr (w, ch) \<Rightarrow>
        map_sum id (\<lambda>(ys, more). ((k, w) # ys, ch \<or> more)) (sanitize_items depth kvs))"

record guarded =
  gd_data :: json
  gd_sanitized :: bool
  gd_bytes :: nat

text \<open>\<open>AuditCapabilityGuard.execute\<close>; \<open>raw\<close> is what the operation returns or raises.\<close>

definition guard_execute :: "nat \<Rightarrow> bool \<Rightarrow> audit_exn + json \<Rightarrow> audit_exn + guarded" where
  "guard_execute max_output timed_out raw =
     (if timed_out then Inl (Guard_Exn ''AUDIT_REQUEST_TIMEOUT'')
      else case raw of Inl e \<Rightarrow> Inl e | Inr v \<Rightarrow>
        case sanitize 0 v of Inl e \<Rightarrow> Inl e | Inr (clean, changed) \<Rightarrow>
        if max_output < length (dump_json clean) then Inl (guard_exn ''TOO_LARGE'')
        else Inr \<lparr>gd_data = clean, gd_sanitized = changed, gd_bytes = length (dump_json clean)\<rparr>)"

section \<open>What a sanitized value looks like\<close>

text \<open>No control characters, no sensitive key, no more than \<open>levels\<close> levels below this one.\<close>

fun clean_json :: "nat \<Rightarrow> json \<Rightarrow> bool" where
  "clean_json levels (JStr s) = (strip_controls s = s)"
| "clean_json levels (JList xs) = (length xs \<le> 512 \<and>
     (xs = [] \<or> 0 < levels \<and> list_all (clean_json (levels - 1)) xs))"
| "clean_json levels (JObj kvs) = (length kvs \<le> 512 \<and>
     (kvs = [] \<or> 0 < levels \<and> list_all (\<lambda>(k, v). \<not> sensitive_key k \<and> clean_json (levels - 1) v) kvs))"
| "clean_json levels _ = True"

text \<open>On a text, the removal works character by character.\<close>

definition plain :: "char \<Rightarrow> bool" where
  "plain c \<longleftrightarrow> c \<in> set text_controls \<or> 32 \<le> (of_char c :: nat) \<and> c \<noteq> CHR 0x7F"

lemma strip_step: "c \<noteq> CHR 0xC2 \<Longrightarrow> strip_controls (c # cs) = (if plain c then [c] else []) @ strip_controls cs"
  by (cases cs) (auto simp: plain_def)

lemma tail_plain: "tail_byte d \<Longrightarrow> d \<noteq> CHR 0xC2 \<and> plain d"
  by (auto simp: tail_byte_def plain_def)

lemma strip_tails: "list_all tail_byte ts \<Longrightarrow> strip_controls (ts @ cs) = ts @ strip_controls cs"
  using tail_plain by (induction ts) (auto simp: strip_step)

lemma strip_char:
  assumes "utf8_width x = length x" and "x \<noteq> []"
  shows "strip_controls (x @ y) = strip_controls x @ strip_controls y" and "strip_controls x \<in> {[], x}"
proof -
  obtain c ts where x: "x = c # ts" using assms(2) by (cases x) auto
  have w: "lead_width c = Suc (length ts)" and ts: "list_all tail_byte ts"
    using assms x by (auto simp: utf8_width_def split: if_splits)
  show "strip_controls (x @ y) = strip_controls x @ strip_controls y" and "strip_controls x \<in> {[], x}"
  proof (atomize (full), cases "c = CHR 0xC2")
    case True
    then have "length ts = 1" using w by (simp add: lead_width_def)
    then obtain d where d: "ts = [d]" by (auto simp: length_Suc_conv)
    then have "tail_byte d" using ts by simp
    then show "strip_controls (x @ y) = strip_controls x @ strip_controls y \<and> strip_controls x \<in> {[], x}"
      using True x d tail_plain [of d] by (auto simp: strip_step)
  next
    case False
    have "plain c" if "ts \<noteq> []"
      using w that by (auto simp: lead_width_def plain_def Let_def split: if_splits)
    then show "strip_controls (x @ y) = strip_controls x @ strip_controls y \<and> strip_controls x \<in> {[], x}"
      using x False strip_step [OF False] strip_tails [OF ts, of y] strip_tails [OF ts, of "[]"] by auto
  qed
qed

lemma strip_text:
  assumes "utf8_valid s"
  shows "utf8_valid (strip_controls s) \<and> strip_controls (strip_controls s) = strip_controls s"
  using assms
proof (induction s rule: utf8_valid.induct)
  case (1 s)
  show ?case
  proof (cases "s = []")
    case False
    let ?x = "take (utf8_width s) s" and ?r = "drop (utf8_width s) s"
    have w: "0 < utf8_width s" "utf8_valid ?x" "utf8_valid ?r"
      using utf8_first [OF "1.prems" False] "1.prems" False
      by (simp_all add: utf8_valid.simps [of s] split: if_splits)
    then have x: "?x \<noteq> []" "utf8_width ?x = length ?x"
      using False utf8_width_bounds(1) [of s] utf8_valid.simps [of ?x] utf8_first_width [OF w(1)]
      by auto
    have ih: "utf8_valid (strip_controls ?r)" "strip_controls (strip_controls ?r) = strip_controls ?r"
      using "1.IH" False w by auto
    have "strip_controls s = strip_controls ?x @ strip_controls ?r"
      using strip_char(1) [OF x(2,1), of ?r] by simp
    with strip_char(2) [OF x(2,1)] strip_char(1) [OF x(2,1), of "strip_controls ?r"] ih w(2)
    show ?thesis by (auto simp: utf8_valid_append)
  qed simp
qed

text \<open>The texts of a value are texts.\<close>

fun text_json :: "json \<Rightarrow> bool" where
  "text_json (JStr s) = utf8_valid s"
| "text_json (JList xs) = list_all text_json xs"
| "text_json (JObj kvs) = list_all (\<lambda>(k, v). text_json v) kvs"
| "text_json _ = True"

lemma sanitize_clean:
  "\<lbrakk>sanitize depth v = Inr (w, ch); text_json v\<rbrakk> \<Longrightarrow> depth \<le> 8 \<and> clean_json (8 - depth) w"
  "\<lbrakk>sanitize_list depth vs = Inr (ws, ch); list_all text_json vs\<rbrakk> \<Longrightarrow>
     length ws = length vs \<and> (ws = [] \<or> depth < 8 \<and> list_all (clean_json (8 - Suc depth)) ws)"
  "\<lbrakk>sanitize_items depth kvs = Inr (kws, ch); list_all (\<lambda>(k, v). text_json v) kvs\<rbrakk> \<Longrightarrow>
     length kws \<le> length kvs \<and>
     (kws = [] \<or> depth < 8 \<and> list_all (\<lambda>(k, v). \<not> sensitive_key k \<and> clean_json (8 - Suc depth) v) kws)"
proof (induction depth v and depth vs and depth kvs arbitrary: w ch and ws ch and kws ch
    rule: sanitize_sanitize_list_sanitize_items.induct)
  case (1 depth s)
  then show ?case using strip_text [of s] by (auto simp: sanitize_string_def split: if_splits option.splits)
next
  case (2 depth xs)
  then show ?case by (cases "sanitize_list depth xs") (auto split: if_splits)
next
  case (3 depth kvs)
  then show ?case by (cases "sanitize_items depth kvs") (auto split: if_splits)
next
  case (6 depth x xs)
  then show ?case
    by (cases "sanitize_list depth xs") (fastforce split: sum.splits)+
next
  case (8 depth k v kvs)
  then show ?case
    by (cases "sanitize_items depth kvs") (fastforce split: sum.splits if_splits)+
qed (auto split: if_splits)

end
