(* ===== verification/Audit_Target.thy ===== *)
theory Audit_Target
  imports Audit_Base
begin

text \<open>
  Resolution of the agent that a user names (src/src/orkio_v2/services/target_resolver.py,
  src/src/orkio_v2/agents/registry.py, src/src/orkio_v2/agents/contracts.py). \<open>folded\<close> is what Unicode
  does to a text here (NFKD, without combining characters, case-folded); the folded text is ASCII.
\<close>

section \<open>Agents\<close>

record agent =
  ag_slug :: string
  ag_enabled :: bool
  ag_canonical :: string
  ag_display :: string
  ag_role_code :: string
  ag_role_label :: string
  ag_names :: "(string \<times> string) list"
  ag_roles :: "(string \<times> string) list"
  ag_aliases :: "string list"
  ag_specialties :: "string list"

definition list_agents :: "agent list \<Rightarrow> agent list" where
  "list_agents agents = filter ag_enabled agents"

definition technical_key :: "string \<Rightarrow> string" where
  "technical_key value = py_lower (py_strip value)"

text \<open>\<open>_BY_ID\<close> keeps the last agent of a key.\<close>

definition resolve_agent_by_id :: "agent list \<Rightarrow> string \<Rightarrow> agent option" where
  "resolve_agent_by_id agents agent_id =
     find (\<lambda>a. technical_key (ag_slug a) = technical_key agent_id) (rev (list_agents agents))"

section \<open>Names\<close>

definition normalize_target :: "(string \<Rightarrow> string) \<Rightarrow> string \<Rightarrow> string" where
  "normalize_target folded value = py_join '' ''
     (py_words (map (\<lambda>c. if ascii_alnum c then c else CHR '' '') (folded value)))"

definition candidate_terms :: "agent \<Rightarrow> (string \<times> string) list" where
  "candidate_terms a =
     [(ag_canonical a, ''canonical_name''), (ag_display a, ''display_name''), (ag_role_code a, ''role_code''),
      (ag_role_label a, ''role_label'')] @
     map (\<lambda>(locale_id, v). (v, ''localized_name:'' @ locale_id)) (ag_names a) @
     map (\<lambda>(locale_id, v). (v, ''localized_role:'' @ locale_id)) (ag_roles a) @
     map (\<lambda>v. (v, ''alias'')) (ag_aliases a) @ map (\<lambda>v. (v, ''specialty'')) (ag_specialties a)"

text \<open>The entries of the index, in the order in which the constructor adds them.\<close>

record index_entry =
  ix_term :: string
  ix_slug :: string
  ix_source :: string

definition index_of :: "(string \<Rightarrow> string) \<Rightarrow> agent list \<Rightarrow> index_entry list" where
  "index_of folded agents = filter (\<lambda>x. ix_term x \<noteq> []) (concat (map (\<lambda>a.
     map (\<lambda>(raw, source). \<lparr>ix_term = normalize_target folded raw, ix_slug = ag_slug a, ix_source = source\<rparr>)
       (candidate_terms a)) agents))"

definition slugs_of :: "index_entry list \<Rightarrow> string \<Rightarrow> string list" where
  "slugs_of index t = remdups (map ix_slug (filter (\<lambda>x. ix_term x = t) index))"

definition source_of :: "index_entry list \<Rightarrow> string \<Rightarrow> string \<Rightarrow> string" where
  "source_of index t slug = (case find (\<lambda>x. ix_term x = t \<and> ix_slug x = slug) index of
     None \<Rightarrow> ''catalog'' | Some x \<Rightarrow> ix_source x)"

section \<open>Resolution\<close>

datatype target_exn = Target_Not_Found | Target_Ambiguous "string list" | Agent_Not_Found

record resolution =
  rn_agent :: agent
  rn_key :: string
  rn_source :: string
  rn_technical :: bool

definition handle_char :: "char \<Rightarrow> bool" where
  "handle_char c \<longleftrightarrow> ascii_alnum c \<or> c \<in> set ''_.-''"

text \<open>\<open>id: <handle>\<close>, with white space around its parts.\<close>

definition technical_handle :: "string \<Rightarrow> string option" where
  "technical_handle raw =
     (let body = py_lstrip (drop 2 (py_strip raw)); handle = py_lstrip (drop 1 body) in
      if py_lower (take 2 (py_strip raw)) = ''id'' \<and> take 1 body = '':'' \<and> handle \<noteq> [] \<and> list_all handle_char handle
      then Some handle else None)"

definition contained :: "string \<Rightarrow> string \<Rightarrow> bool" where
  "contained t key \<longleftrightarrow> search_any (\<lambda>s. py_startswith s ('' '' @ t @ '' '')) ('' '' @ key @ '' '')"

text \<open>The best term of each agent that occurs in the phrase: the first of the longest.\<close>

fun better :: "(string \<times> string) list \<Rightarrow> string \<Rightarrow> string list \<Rightarrow> (string \<times> string) list" where
  "better found t [] = found"
| "better found t (slug # slugs) =
     (case map_of found slug of
        None \<Rightarrow> better (found @ [(slug, t)]) t slugs
      | Some old \<Rightarrow>
          if length old < length t
          then better (map (\<lambda>(s, o'). if s = slug then (s, t) else (s, o')) found) t slugs
          else better found t slugs)"

definition matches :: "index_entry list \<Rightarrow> string \<Rightarrow> (string \<times> string) list" where
  "matches index key = foldl (\<lambda>found t. better found t (slugs_of index t)) []
     (filter (\<lambda>t. 2 \<le> length t \<and> contained t key) (rev (remdups (rev (map ix_term index)))))"

definition found_agent ::
  "agent list \<Rightarrow> index_entry list \<Rightarrow> string \<Rightarrow> string \<Rightarrow> target_exn + resolution" where
  "found_agent agents index slug t = (case resolve_agent_by_id agents slug of
       None \<Rightarrow> Inl Agent_Not_Found
     | Some a \<Rightarrow> Inr \<lparr>rn_agent = a, rn_key = t, rn_source = source_of index t slug, rn_technical = False\<rparr>)"

definition resolve_target :: "(string \<Rightarrow> string) \<Rightarrow> agent list \<Rightarrow> string \<Rightarrow> target_exn + resolution" where
  "resolve_target folded agents raw = (case technical_handle raw of
       Some handle \<Rightarrow> (case resolve_agent_by_id agents (py_lower handle) of
           None \<Rightarrow> Inl Target_Not_Found
         | Some a \<Rightarrow> Inr \<lparr>rn_agent = a, rn_key = ''id:'' @ ag_slug a, rn_source = ''technical_handle'',
             rn_technical = True\<rparr>)
     | None \<Rightarrow>
         let index = index_of folded (list_agents agents); key = normalize_target folded raw in
         if key = [] then Inl Target_Not_Found
         else case slugs_of index key of
             [slug] \<Rightarrow> found_agent agents index slug key
           | s # t # rest \<Rightarrow> Inl (Target_Ambiguous (sort (s # t # rest)))
           | [] \<Rightarrow> (case matches index key of
               [] \<Rightarrow> Inl Target_Not_Found
             | [(slug, t)] \<Rightarrow> found_agent agents index slug t
             | u # v # rest \<Rightarrow> Inl (Target_Ambiguous (sort (map fst (u # v # rest))))))"

section \<open>What a resolution shows\<close>

lemma resolve_agent_by_id_enabled:
  "resolve_agent_by_id agents i = Some a \<Longrightarrow> a \<in> set agents \<and> ag_enabled a \<and> technical_key (ag_slug a) = technical_key i"
  unfolding resolve_agent_by_id_def list_agents_def using find_in by fastforce

text \<open>Two enabled agents with the same name are never told apart by guessing.\<close>

lemma same_name_ambiguous:
  assumes a: "a \<in> set agents" "ag_enabled a" "(n, source) \<in> set (candidate_terms a)"
    and b: "b \<in> set agents" "ag_enabled b" "(n', source') \<in> set (candidate_terms b)"
    and key: "normalize_target folded n = normalize_target folded raw"
      "normalize_target folded n' = normalize_target folded raw" "normalize_target folded raw \<noteq> []"
    and "ag_slug a \<noteq> ag_slug b" and "technical_handle raw = None"
  shows "\<exists>slugs. resolve_target folded agents raw = Inl (Target_Ambiguous slugs) \<and> {ag_slug a, ag_slug b} \<subseteq> set slugs"
proof -
  let ?index = "index_of folded (list_agents agents)" and ?key = "normalize_target folded raw"
  have "{ag_slug a, ag_slug b} \<subseteq> set (slugs_of ?index ?key)"
    using a b key by (force simp: slugs_of_def index_of_def list_agents_def)
  with assms(10,11) key(3) show ?thesis
    by (cases "slugs_of ?index ?key" rule: remdups_adj.cases) (auto simp: resolve_target_def Let_def set_insort_key)
qed

lemma found_agent_enabled:
  "found_agent agents index slug t = Inr r \<Longrightarrow> rn_agent r \<in> set agents \<and> ag_enabled (rn_agent r)"
  using resolve_agent_by_id_enabled by (auto simp: found_agent_def split: option.splits)

lemma resolve_target_enabled:
  assumes "resolve_target folded agents raw = Inr r"
  shows "rn_agent r \<in> set agents \<and> ag_enabled (rn_agent r)"
  using assms found_agent_enabled resolve_agent_by_id_enabled
  unfolding resolve_target_def Let_def
  by (auto split: option.splits if_splits list.splits)

end
