(* ===== verification/Audit_Service.thy ===== *)
theory Audit_Service
  imports Audit_Archive Audit_Directive Audit_Limits Audit_Guard Audit_Target
begin

text \<open>
  The governed bridge from an \<open>/audit\<close> message to one read-only capability and one row of the ledger
  (src/src/orkio_v2/services/audit_invocation_service.py). The state is the ledger, the limiter of
  directives, and \<open>as_reads\<close>, which is not in the program: it lists the operations that were started,
  so that theorems can speak of them. Traces are not modelled. One request uses one reading of each
  clock; the request's rows are written by at most one append, so one \<open>ledger_faults\<close> is enough.
\<close>

section \<open>Turns\<close>

datatype runtime_channel = Chat_Json | Chat_Sse | Realtime_Channel

datatype route_family = Direct_Agent | Team_Route

fun channel_value :: "runtime_channel \<Rightarrow> string" where
  "channel_value Chat_Json = ''chat_json''"
| "channel_value Chat_Sse = ''chat_sse''"
| "channel_value Realtime_Channel = ''realtime''"

fun route_value :: "route_family \<Rightarrow> string" where
  "route_value Direct_Agent = ''direct_agent''"
| "route_value Team_Route = ''team''"

record turn =
  tn_execution :: string
  tn_request :: string
  tn_thread :: string
  tn_tenant :: string
  tn_user :: string
  tn_requested :: string
  tn_resolved :: string
  tn_owner :: string
  tn_display :: string
  tn_display_name :: string
  tn_lead :: "string option"
  tn_route :: route_family
  tn_channel :: runtime_channel
  tn_locked :: bool
  tn_governance :: string
  tn_internal :: bool
  tn_external_write :: bool
  tn_execution_allowed :: bool
  tn_orchestrator :: "string option"

section \<open>What the service works with\<close>

record audit_env =
  au_policy :: capability_policy
  au_environment :: string
  au_deployment :: "string list"
  au_decode :: json_decoder
  au_folded :: "string \<Rightarrow> string"
  au_agents :: "agent list"
  au_backend :: string
  au_storage :: fs_node
  au_project :: "bool \<times> fs_node"
  au_race :: "fs_node \<Rightarrow> fs_node option"
  au_allowlist :: "(string \<times> string) list"
  au_artifacts :: "artifact_row list"
  au_lookup :: bool
  au_unzip :: unzip
  au_timed_out :: bool
  au_monotonic :: int
  au_countable :: bool
  au_execution :: string
  au_started :: string
  au_finished :: string
  au_created :: string
  au_ledger :: ledger_env
  au_faults :: ledger_faults
  au_others :: ledger

record audit_state =
  as_ledger :: ledger
  as_events :: events
  as_reads :: "(string \<times> operation) list"

record audit_reference =
  rf_execution :: string
  rf_capability :: string
  rf_version :: string
  rf_status :: string
  rf_sha256 :: string

record outcome =
  oc_operation :: operation
  oc_reference :: audit_reference
  oc_data :: json

type_synonym failure = "audit_exn \<times> audit_reference option"

section \<open>Errors\<close>

definition error_code :: "audit_exn \<Rightarrow> string \<Rightarrow> string" where
  "error_code e fallback = (case exn_code e of
       Some c \<Rightarrow> if py_startswith c ''AUDIT_'' then c
         else if py_startswith (exn_text e) ''AUDIT_'' \<and> length (exn_text e) \<le> 160 then exn_text e else fallback
     | None \<Rightarrow> if py_startswith (exn_text e) ''AUDIT_'' \<and> length (exn_text e) \<le> 160 then exn_text e else fallback)"

definition http_status_for :: "string \<Rightarrow> int" where
  "http_status_for code =
     (if code \<in> {''AUDIT_DIRECTIVE_FORMAT_INVALID'', ''AUDIT_DIRECTIVE_JSON_INVALID'',
        ''AUDIT_DIRECTIVE_TRAILING_TEXT_FORBIDDEN'', ''AUDIT_DIRECTIVE_OBJECT_REQUIRED'',
        ''AUDIT_DIRECTIVE_FORBIDDEN_FIELD'', ''AUDIT_DIRECTIVE_VERSION_INVALID'',
        ''AUDIT_DIRECTIVE_OPERATION_REQUIRED'', ''AUDIT_OPERATION_UNKNOWN'', ''AUDIT_DIRECTIVE_UNKNOWN_FIELD'',
        ''AUDIT_DIRECTIVE_REQUIRED_FIELD_MISSING'', ''AUDIT_DIRECTIVE_FIELD_INVALID'',
        ''AUDIT_DIRECTIVE_FIELD_TOO_LARGE''} then 400
      else if code = ''AUDIT_DIRECTIVE_TOO_LARGE'' then 413
      else if code \<in> {''AUDIT_DIRECTIVE_RATE_LIMITED'', ''AUDIT_REQUEST_RATE_LIMITED''} then 429
      else if code \<in> {''AUDIT_RATE_LIMITER_UNAVAILABLE'', ''AUDIT_EVIDENCE_PERSISTENCE_FAILED'',
        ''AUDIT_EVIDENCE_PERSISTENCE_INTEGRITY_ERROR'', ''AUDIT_EVIDENCE_PERSISTENCE_INTEGRITY_MISMATCH''} then 503
      else if code = ''AUDIT_REQUEST_RESULT_BINDING_MISMATCH'' then 500
      else if code = ''AUDIT_REQUEST_TIMEOUT'' then 504
      else if code = ''AUDIT_ARCHIVE_NOT_FOUND'' then 404
      else if code \<in> {''AUDIT_GOVERNED_INVOCATION_DISABLED'', ''AUDIT_INVOCATION_ROUTE_DENIED'',
        ''AUDIT_INVOCATION_CHANNEL_DENIED'', ''AUDIT_INVOCATION_OWNERSHIP_REQUIRED'',
        ''AUDIT_INVOCATION_AGENT_DENIED'', ''AUDIT_INVOCATION_AGENT_IDENTITY_MISMATCH'',
        ''AUDIT_INVOCATION_EXECUTION_DENIED'', ''AUDIT_INVOCATION_EXTERNAL_WRITE_FORBIDDEN'',
        ''AUDIT_CAPABILITY_DISABLED'', ''AUDIT_CAPABILITY_USER_DENIED'', ''AUDIT_CAPABILITY_AGENT_DENIED'',
        ''AUDIT_CAPABILITY_AGENT_IDENTITY_MISMATCH'', ''AUDIT_CAPABILITY_TENANT_DENIED'',
        ''AUDIT_CAPABILITY_ENVIRONMENT_DENIED''} then 403
      else 422)"

definition invocation_error :: "string \<Rightarrow> audit_exn" where
  "invocation_error code = Invocation_Exn code (http_status_for code)"

section \<open>Binding a request to its result\<close>

text \<open>The literal fields of the request; \<open>sorted(directive.arguments)\<close>.\<close>

definition bound_argument :: "(string \<Rightarrow> string) \<Rightarrow> string \<Rightarrow> json \<Rightarrow> json" where
  "bound_argument sha name value =
     (if name \<in> {''artifact_id'', ''member_name'', ''marker''} \<and> is_str value
      then JObj [(''binding'', JStr ''sha256''), (''sha256'', JStr (sha (case value of JStr s \<Rightarrow> s | _ \<Rightarrow> []))),
        (''source'', JStr ''current_parsed_directive'')]
      else JObj [(''binding'', JStr ''literal''), (''value'', value),
        (''source'', JStr ''current_parsed_directive'')])"

definition directive_json :: "directive \<Rightarrow> json" where
  "directive_json d = JObj ([(''version'', JStr ''1''), (''operation'', JStr (operation_name (dr_operation d)))] @
     dr_arguments d)"

definition request_turn :: "turn \<Rightarrow> json" where
  "request_turn t = JObj
     [(''request_id'', JStr (tn_request t)), (''execution_id'', JStr (tn_execution t)),
      (''thread_id'', JStr (tn_thread t)), (''tenant_id'', JStr (tn_tenant t)),
      (''requested_agent'', JStr (tn_requested t)), (''resolved_agent'', JStr (tn_resolved t)),
      (''turn_owner'', JStr (tn_owner t)), (''route_family'', JStr (route_value (tn_route t))),
      (''channel'', JStr (channel_value (tn_channel t))), (''ownership_locked'', JBool (tn_locked t))]"

definition build_request_binding :: "(string \<Rightarrow> string) \<Rightarrow> directive \<Rightarrow> turn \<Rightarrow> result" where
  "build_request_binding sha d t =
     [(''contract'', JStr ''ORKIO-AUDIT-REQUEST-BINDING-1''), (''canonicalization'', JStr ''json-sort-keys-v1''),
      (''directive_sha256'', JStr (sha (dump_json (directive_json d)))),
      (''source'', JStr ''current_parsed_directive_and_canonical_turn''), (''version'', JStr ''1''),
      (''operation'', JStr (operation_name (dr_operation d))), (''turn'', request_turn t),
      (''arguments'', JObj (map (\<lambda>(k, v). (k, bound_argument sha k v)) (sort_key fst (dr_arguments d))))]"

text \<open>\<open>d.get(k, {})\<close> along a path.\<close>

definition path_get :: "result \<Rightarrow> string \<Rightarrow> string \<Rightarrow> string \<Rightarrow> json" where
  "path_get kvs a b c = obj_get (dict_items (obj_get (dict_items (obj_get kvs a)) b)) c"

definition same_text :: "json \<Rightarrow> json \<Rightarrow> bool" where
  "same_text x y \<longleftrightarrow> is_str x \<and> x = y"

definition verify_request_result_binding :: "directive \<Rightarrow> result \<Rightarrow> result \<Rightarrow> audit_exn + result" where
  "verify_request_result_binding d binding res =
     (if dr_operation d \<in> {Runtime_Sha256, Runtime_Search} \<and>
         \<not> same_text (path_get binding ''arguments'' ''module_id'' ''value'') (obj_get res ''module_id'')
      then Inl (Invocation_Exn ''AUDIT_REQUEST_RESULT_BINDING_MISMATCH'' 500)
      else if dr_operation d \<in> {File_Find_Marker, Runtime_Search} \<and>
         \<not> same_text (path_get binding ''arguments'' ''marker'' ''sha256'') (obj_get res ''marker_sha256'')
      then Inl (Invocation_Exn ''AUDIT_REQUEST_RESULT_BINDING_MISMATCH'' 500)
      else Inr ((if dr_operation d \<in> {Runtime_Sha256, Runtime_Search}
          then [(''module_id_matches_request'', JBool True)] else []) @
        (if dr_operation d \<in> {File_Find_Marker, Runtime_Search}
          then [(''marker_sha256_matches_request'', JBool True)] else [])))"

section \<open>The operation\<close>

definition arg_text :: "directive \<Rightarrow> string \<Rightarrow> string" where
  "arg_text d name = (case obj_get (dr_arguments d) name of JStr s \<Rightarrow> s | _ \<Rightarrow> [])"

definition arg_int :: "directive \<Rightarrow> string \<Rightarrow> int \<Rightarrow> int" where
  "arg_int d name fallback = (case obj_get (dr_arguments d) name of JInt i \<Rightarrow> i | _ \<Rightarrow> fallback)"

definition arg_int_or_none :: "directive \<Rightarrow> string \<Rightarrow> int option" where
  "arg_int_or_none d name = (case obj_get (dr_arguments d) name of JInt i \<Rightarrow> Some i | _ \<Rightarrow> None)"

text \<open>\<open>AuditArchiveSourceResolver.from_local_runtime\<close> and \<open>resolve_artifact\<close>.\<close>

definition open_artifact :: "audit_env \<Rightarrow> string \<Rightarrow> string \<Rightarrow> audit_exn + verified_file" where
  "open_artifact env artifact_id tenant =
     (if py_lower (if au_backend env = [] then ''local'' else au_backend env) \<noteq> ''local''
      then Inl (source_exn ''SOURCE_NOT_ALLOWED'')
      else case path_policy [(''artifact-storage'', True, au_storage env)] of Inl e \<Rightarrow> Inl e | Inr roots \<Rightarrow>
        if \<not> au_lookup env then Inl (Other_Exn ''OperationalError'')
        else resolve_artifact (le_sha256 (au_ledger env)) roots (au_race env) (au_artifacts env) artifact_id tenant)"

definition read_artifact :: "audit_env \<Rightarrow> directive \<Rightarrow> verified_file \<Rightarrow> audit_exn + result" where
  "read_artifact env d v =
     (let nfc = le_nfc (au_ledger env); sha = le_sha256 (au_ledger env); unzip = au_unzip env;
          member = arg_text d ''member_name'' in
      case dr_operation d of
        File_Metadata \<Rightarrow> Inr (file_metadata v)
      | File_Read_Text \<Rightarrow> read_text v (arg_int d ''offset'' 0) (arg_int d ''max_bytes'' 16000)
      | File_Find_Marker \<Rightarrow> find_literal_marker sha v (arg_text d ''marker'') (arg_int_or_none d ''max_scan_bytes'')
          (arg_int d ''max_matches'' 256)
      | Archive_Preflight \<Rightarrow> preflight unzip nfc v
      | Archive_Manifest \<Rightarrow> manifest unzip nfc v (arg_int d ''offset'' 0) (arg_int d ''limit'' 100)
      | Archive_Metadata \<Rightarrow> member_metadata unzip nfc v member
      | Archive_Read_Text \<Rightarrow> read_text_member unzip nfc v member (arg_int d ''offset'' 0)
          (arg_int d ''max_bytes'' 16000)
      | Archive_Hash \<Rightarrow> hash_member unzip nfc sha v member
      | _ \<Rightarrow> Inl (invocation_error ''AUDIT_OPERATION_UNKNOWN''))"

definition with_module_roots :: "audit_env \<Rightarrow> (roots \<Rightarrow> audit_exn + result) \<Rightarrow> audit_exn + result" where
  "with_module_roots env f = (case path_policy [(''runtime'', au_project env)] of
     Inl e \<Rightarrow> Inl e | Inr roots \<Rightarrow> f roots)"

definition run_operation :: "audit_env \<Rightarrow> directive \<Rightarrow> string \<Rightarrow> audit_exn + result" where
  "run_operation env d tenant =
     (let sha = le_sha256 (au_ledger env); module_id = arg_text d ''module_id'' in
      case dr_operation d of
        Runtime_Sha256 \<Rightarrow> with_module_roots env (\<lambda>roots.
          module_sha256 sha roots (au_race env) (au_allowlist env) module_id)
      | Runtime_Search \<Rightarrow> with_module_roots env (\<lambda>roots.
          module_search sha roots (au_race env) (au_allowlist env) module_id (arg_text d ''marker'')
            (arg_int d ''max_scan_bytes'' 1000000) (arg_int d ''max_matches'' 256))
      | _ \<Rightarrow> (case open_artifact env (arg_text d ''artifact_id'') tenant of Inl e \<Rightarrow> Inl e
          | Inr v \<Rightarrow> read_artifact env d v))"

section \<open>Persisting\<close>

definition deployment_id :: "audit_env \<Rightarrow> string" where
  "deployment_id env = (case find (\<lambda>v. py_strip v \<noteq> []) (au_deployment env) of
     None \<Rightarrow> ''unknown'' | Some v \<Rightarrow> py_strip v)"

definition requested_agent :: "audit_env \<Rightarrow> turn \<Rightarrow> string option" where
  "requested_agent env t = (case resolve_target (au_folded env) (au_agents env) (tn_requested t) of
     Inl e \<Rightarrow> None | Inr r \<Rightarrow> Some (ag_slug (rn_agent r)))"

definition evidence_root :: "operation \<Rightarrow> string option" where
  "evidence_root op = Some (if op \<in> {Runtime_Sha256, Runtime_Search} then ''runtime'' else ''artifact'')"

definition evidence_for ::
  "audit_env \<Rightarrow> turn \<Rightarrow> directive \<Rightarrow> string \<Rightarrow> string \<Rightarrow> string \<Rightarrow> bool \<Rightarrow> result \<Rightarrow> string option \<Rightarrow> evidence" where
  "evidence_for env t d decision reason status read data error =
     \<lparr>ev_execution = au_execution env, ev_request = tn_request t, ev_turn = tn_execution t,
      ev_tenant = tn_tenant t, ev_user = tn_user t, ev_capability = operation_capability (dr_operation d),
      ev_version = ''1.0.0'', ev_environment = au_environment env, ev_deployment = deployment_id env,
      ev_requested = requested_agent env t, ev_resolved = tn_resolved t, ev_owner = Some (tn_owner t),
      ev_decision = decision, ev_reason = reason, ev_status = status,
      ev_artifact = (if ''artifact_id'' \<in> set (map fst (dr_arguments d)) then Some (arg_text d ''artifact_id'')
        else None),
      ev_root = evidence_root (dr_operation d), ev_sanitized = True, ev_read = read,
      ev_started = au_started env, ev_finished = au_finished env, ev_data = Some data, ev_error = error,
      ev_created = au_created env\<rparr>"

definition persist ::
  "audit_env \<Rightarrow> evidence \<Rightarrow> audit_state \<Rightarrow> (audit_exn + append_result) \<times> audit_state" where
  "persist env e st = (case build_envelope e of
       Inl x \<Rightarrow> (Inl x, st)
     | Inr e' \<Rightarrow> (case append_evidence (au_ledger env) (au_faults env) (au_others env) e' (as_ledger st) of
         (r, db) \<Rightarrow>
           ((case r of Inl x \<Rightarrow> Inl (invocation_error (error_code x ''AUDIT_EVIDENCE_PERSISTENCE_FAILED''))
             | Inr a \<Rightarrow> Inr a), st\<lparr>as_ledger := db\<rparr>)))"

definition reference_of :: "evidence \<Rightarrow> append_result \<Rightarrow> audit_reference" where
  "reference_of e a = \<lparr>rf_execution = ev_execution e, rf_capability = ev_capability e,
     rf_version = ev_version e, rf_status = ev_status e, rf_sha256 = ar_sha256 a\<rparr>"

text \<open>The end of a refused invocation: the row first, then the error.\<close>

definition refuse ::
  "audit_env \<Rightarrow> evidence \<Rightarrow> string \<Rightarrow> audit_state \<Rightarrow> (failure + outcome option) \<times> audit_state" where
  "refuse env e code st = (case persist env e st of
       (Inl x, st') \<Rightarrow> (Inl (x, None), st')
     | (Inr a, st') \<Rightarrow> (Inl (invocation_error code, Some (reference_of e a)), st'))"

definition deny ::
  "audit_env \<Rightarrow> turn \<Rightarrow> directive \<Rightarrow> string \<Rightarrow> string \<Rightarrow> audit_state \<Rightarrow> (failure + outcome option) \<times> audit_state" where
  "deny env t d reason public_reason st =
     (if \<not> tn_internal t then (Inl (Invocation_Exn ''AUDIT_INVOCATION_INTERNAL_PERSISTENCE_REQUIRED'' 403, None), st)
      else refuse env (evidence_for env t d ''DENY'' reason ''denied'' False
        [(''operation'', JStr (operation_name (dr_operation d)))] (Some reason)) public_reason st)"

section \<open>The gates\<close>

definition canonical_agent :: string where
  "canonical_agent = ''auditor''"

definition preflight_reason :: "audit_env \<Rightarrow> turn \<Rightarrow> string option" where
  "preflight_reason env t =
     (if \<not> cp_audit_governed (au_policy env) then Some ''AUDIT_GOVERNED_INVOCATION_DISABLED''
      else if tn_route t \<noteq> Direct_Agent then Some ''AUDIT_INVOCATION_ROUTE_DENIED''
      else if tn_channel t \<notin> {Chat_Json, Chat_Sse} then Some ''AUDIT_INVOCATION_CHANNEL_DENIED''
      else if \<not> tn_locked t then Some ''AUDIT_INVOCATION_OWNERSHIP_REQUIRED''
      else if tn_resolved t \<noteq> canonical_agent \<or> tn_owner t \<noteq> canonical_agent
      then Some ''AUDIT_INVOCATION_AGENT_DENIED''
      else if requested_agent env t \<noteq> Some canonical_agent then Some ''AUDIT_INVOCATION_AGENT_IDENTITY_MISMATCH''
      else if \<not> tn_execution_allowed t then Some ''AUDIT_INVOCATION_EXECUTION_DENIED''
      else if tn_external_write t then Some ''AUDIT_INVOCATION_EXTERNAL_WRITE_FORBIDDEN''
      else None)"

definition trusted_context_of :: "audit_env \<Rightarrow> turn \<Rightarrow> string list \<Rightarrow> trusted_context" where
  "trusted_context_of env t roles =
     \<lparr>tc_user = tn_user t, tc_tenant = tn_tenant t, tc_environment = au_environment env,
      tc_requested = requested_agent env t, tc_resolved = tn_resolved t,
      tc_privileged = (''admin'' \<in> set roles \<or> ''orkio_admin'' \<in> set roles)\<rparr>"

definition limits_of :: "audit_env \<Rightarrow> rate_limits" where
  "limits_of env = \<lparr>rl_user = cp_user_limit (au_policy env), rl_tenant = cp_tenant_limit (au_policy env)\<rparr>"

definition authorize_reason :: "audit_env \<Rightarrow> turn \<Rightarrow> directive \<Rightarrow> string list \<Rightarrow> ledger \<Rightarrow> string" where
  "authorize_reason env t d roles db =
     (case authorize (au_policy env)
        (\<lambda>capability_id c. rate_check (limits_of env) (au_countable env) (le_now (au_ledger env)) db
          capability_id (tc_user c) (tc_tenant c))
        (operation_capability (dr_operation d)) (trusted_context_of env t roles) of
      Inl e \<Rightarrow> ''AUDIT_RATE_LIMITER_UNAVAILABLE'' | Inr reason \<Rightarrow> reason)"

section \<open>The invocation\<close>

text \<open>The adapter behind the guard, and the data of the evidence.\<close>

definition completed_data :: "directive \<Rightarrow> result \<Rightarrow> result \<Rightarrow> guarded \<Rightarrow> result" where
  "completed_data d binding checks g =
     [(''governance_mode'', JStr ''audit_readonly''), (''operation'', JStr (operation_name (dr_operation d))),
      (''request_binding'', JObj binding), (''request_result_binding'', JObj checks),
      (''output_changed_by_sanitizer'', JBool (gd_sanitized g)), (''serialized_bytes'', JInt (int (gd_bytes g))),
      (''result'', gd_data g)]"

definition execute :: "audit_env \<Rightarrow> turn \<Rightarrow> directive \<Rightarrow> audit_exn + result" where
  "execute env t d =
     (let binding = build_request_binding (le_sha256 (au_ledger env)) d t in
      case guard_execute (nat (cp_audit_max_output (au_policy env))) (au_timed_out env)
          (map_sum id JObj (run_operation env d (tn_tenant t))) of
        Inl e \<Rightarrow> Inl e
      | Inr g \<Rightarrow> (case gd_data g of
          JObj res \<Rightarrow> (case verify_request_result_binding d binding res of
              Inl e \<Rightarrow> Inl e
            | Inr checks \<Rightarrow> Inr (completed_data d binding checks g))
        | _ \<Rightarrow> Inl (invocation_error ''AUDIT_OUTPUT_TYPE_FORBIDDEN'')))"

definition hidden_source :: "audit_exn \<Rightarrow> bool" where
  "hidden_source e \<longleftrightarrow> e \<in> {Source_Exn ''AUDIT_ARCHIVE_NOT_FOUND'', Source_Exn ''AUDIT_ARCHIVE_ARTIFACT_TENANT_MISMATCH''}"

definition failed_data :: "audit_env \<Rightarrow> turn \<Rightarrow> directive \<Rightarrow> result" where
  "failed_data env t d =
     [(''governance_mode'', JStr ''audit_readonly''), (''operation'', JStr (operation_name (dr_operation d))),
      (''request_binding'', JObj (build_request_binding (le_sha256 (au_ledger env)) d t))]"

definition dispatch ::
  "audit_env \<Rightarrow> turn \<Rightarrow> directive \<Rightarrow> audit_state \<Rightarrow> (failure + outcome option) \<times> audit_state" where
  "dispatch env t d st0 =
     (let st = st0\<lparr>as_reads := as_reads st0 @ [(tn_tenant t, dr_operation d)]\<rparr> in
      case execute env t d of
        Inl x \<Rightarrow>
          if hidden_source x then deny env t d (exn_text x) ''AUDIT_ARCHIVE_NOT_FOUND'' st
          else let code = error_code x ''AUDIT_CAPABILITY_EXECUTION_FAILED'' in
            refuse env (evidence_for env t d ''ALLOW'' ''ALLOW'' ''failed'' True (failed_data env t d) (Some code))
              code st
      | Inr data \<Rightarrow>
          let e = evidence_for env t d ''ALLOW'' ''ALLOW'' ''completed'' True data None in
          (case persist env e st of
             (Inl x, st') \<Rightarrow> (Inl (x, None), st')
           | (Inr a, st') \<Rightarrow> (Inr (Some \<lparr>oc_operation = dr_operation d, oc_reference = reference_of e a,
               oc_data = JObj data\<rparr>), st')))"

definition invoke_directive ::
  "audit_env \<Rightarrow> turn \<Rightarrow> string list \<Rightarrow> directive \<Rightarrow> audit_state \<Rightarrow> (failure + outcome option) \<times> audit_state" where
  "invoke_directive env t roles d st = (case preflight_reason env t of
       Some reason \<Rightarrow> deny env t d reason reason st
     | None \<Rightarrow> (let reason = authorize_reason env t d roles (as_ledger st) in
         if reason = ''ALLOW'' then dispatch env t d st else deny env t d reason reason st))"

definition invoke_if_directive ::
  "audit_env \<Rightarrow> turn \<Rightarrow> string list \<Rightarrow> string \<Rightarrow> audit_state \<Rightarrow> (failure + outcome option) \<times> audit_state" where
  "invoke_if_directive env t roles message st =
     (if \<not> looks_like_audit_directive message then (Inr None, st)
      else case consume (cp_directive_limit (au_policy env)) (au_monotonic env) (tn_tenant t, tn_user t) (as_events st) of
        (granted, ev) \<Rightarrow>
          let st' = st\<lparr>as_events := ev\<rparr> in
          if \<not> granted then (Inl (Invocation_Exn ''AUDIT_DIRECTIVE_RATE_LIMITED'' 429, None), st')
          else case parse_audit_directive (au_decode env) message of
              Inl x \<Rightarrow> (Inl (invocation_error (exn_text x), None), st')
            | Inr None \<Rightarrow> (Inr None, st')
            | Inr (Some d) \<Rightarrow> invoke_directive env t roles d st')"

end
