(* ===== verification/Audit_Evidence.thy ===== *)
theory Audit_Evidence
  imports Audit_Limits
begin

text \<open>
  Lemmas on the ledger of evidence: what a row says of its envelope, that appending keeps every row
  verifiable and every execution id unique, what an append answers, and the refinement of an
  append to the insertion into a write-once map from execution ids to digests.
\<close>

section \<open>What the parameters are assumed to do\<close>

text \<open>NFC leaves ASCII texts alone, and a hexadecimal SHA-256 is 64 characters long.\<close>

definition ascii :: "string \<Rightarrow> bool" where
  "ascii s \<longleftrightarrow> list_all (\<lambda>c. (of_char c :: nat) < 128) s"

definition codec_ok :: "ledger_env \<Rightarrow> bool" where
  "codec_ok env \<longleftrightarrow> (\<forall>s. ascii s \<longrightarrow> le_nfc env s = s) \<and> (\<forall>s. is_sha256 (le_sha256 env s))"

lemma codec_okD: "codec_ok env \<Longrightarrow> ascii s \<Longrightarrow> le_nfc env s = s" "codec_ok env \<Longrightarrow> is_sha256 (le_sha256 env s)"
  by (simp_all add: codec_ok_def)

text \<open>The functions of a ledger that do not change from request to request.\<close>

definition same_codec :: "ledger_env \<Rightarrow> ledger_env \<Rightarrow> bool" where
  "same_codec a b \<longleftrightarrow> le_nfc a = le_nfc b \<and> le_time a = le_time b \<and> le_sha256 a = le_sha256 b"

lemma normalize_codec:
  "same_codec a b \<Longrightarrow> normalize a key v = normalize b key v"
  "same_codec a b \<Longrightarrow> normalize_list a vs = normalize_list b vs"
  "same_codec a b \<Longrightarrow> normalize_items a got kvs = normalize_items b got kvs"
  by (induction a key v and a vs and a got kvs rule: normalize_normalize_list_normalize_items.induct)
    (simp_all add: normalize_text_def same_codec_def split: sum.splits)

lemma evidence_sha256_codec: "same_codec a b \<Longrightarrow> evidence_sha256 a p = evidence_sha256 b p"
  by (simp add: evidence_sha256_def canonicalize_evidence_def payload_of_dict_def normalize_codec(3) [of a b] cong: sum.case_cong)
    (simp add: same_codec_def)

section \<open>Normalized payloads\<close>

definition normal_item :: "ledger_env \<Rightarrow> string \<times> json \<Rightarrow> string \<times> json \<Rightarrow> bool" where
  "normal_item env x y \<longleftrightarrow> fst y = le_nfc env (fst x) \<and> normalize env (Some (fst y)) (snd x) = Inr (snd y)"

lemma normalize_itemsD:
  "normalize_items env got kvs = Inr n \<Longrightarrow> \<exists>m. n = got @ m \<and> list_all2 (normal_item env) kvs m"
proof (induction kvs arbitrary: got)
  case (Cons x kvs)
  obtain k v where x: "x = (k, v)" by force
  with Cons.prems obtain w where w: "normalize env (Some (le_nfc env k)) v = Inr w"
    "normalize_items env (got @ [(le_nfc env k, w)]) kvs = Inr n"
    by (auto split: if_splits sum.splits)
  with Cons.IH [OF w(2)] x show ?case by (auto simp: normal_item_def)
qed simp

lemma normalized_get:
  assumes "list_all2 (normal_item env) kvs m" and "\<forall>x \<in> set kvs. le_nfc env (fst x) = fst x"
    and "map_of kvs k = Some v"
  shows "\<exists>w. map_of m k = Some w \<and> normalize env (Some k) v = Inr w"
  using assms
proof (induction kvs m rule: list_all2_induct)
  case (Cons x xs y ys)
  then show ?case by (cases x; cases y) (auto simp: normal_item_def split: if_splits)
qed simp

text \<open>The payload of an envelope has the keys of the envelope and its normalized values.\<close>

lemma envelope_keys_ascii: "x \<in> set (envelope_dict e) \<Longrightarrow> ascii (fst x)"
  by (auto simp: envelope_dict_def ascii_def)

lemma payload_of_envelopeD:
  assumes "payload_of_envelope env e = Inr p" and "codec_ok env"
  shows "payload_error p = None" and "list_all2 (normal_item env) (envelope_dict e) p"
    and "length (dump_json (JObj (envelope_dict e))) \<le> max_serialized"
  using assms normalize_itemsD [of env "[]" "envelope_dict e"]
  by (auto simp: payload_of_envelope_def payload_of_dict_def split: if_splits sum.splits option.splits)

lemma payload_get:
  assumes "payload_of_envelope env e = Inr p" and "codec_ok env" and "map_of (envelope_dict e) k = Some v"
  shows "\<exists>w. obj_get p k = w \<and> normalize env (Some k) v = Inr w"
proof -
  have "\<forall>x \<in> set (envelope_dict e). le_nfc env (fst x) = fst x"
    using assms(2) envelope_keys_ascii by (auto simp: codec_okD)
  from normalized_get [OF payload_of_envelopeD(2) [OF assms(1,2)] this assms(3)]
  show ?thesis by (auto simp: obj_get_def)
qed

definition time_fields :: "string set" where
  "time_fields = {''started_at'', ''finished_at'', ''created_at''}"

lemma payload_text:
  assumes "payload_of_envelope env e = Inr p" and "codec_ok env"
    and "map_of (envelope_dict e) k = Some (JStr s)" and "k \<notin> time_fields"
  shows "obj_get p k = JStr (le_nfc env s)"
  using payload_get [OF assms(1-3)] assms(4) by (auto simp: normalize_text_def time_fields_def)

lemma payload_columns:
  assumes "payload_of_envelope env e = Inr p" and "codec_ok env"
  shows "obj_get p ''audit_execution_id'' = JStr (le_nfc env (ev_execution e))"
    and "obj_get p ''tenant_id'' = JStr (le_nfc env (ev_tenant e))"
    and "obj_get p ''user_id'' = JStr (le_nfc env (ev_user e))"
    and "obj_get p ''capability_id'' = JStr (le_nfc env (ev_capability e))"
    and "obj_get p ''capability_decision'' = JStr (le_nfc env (ev_decision e))"
    and "obj_get p ''status'' = JStr (le_nfc env (ev_status e))"
  by (intro payload_text [OF assms]; simp add: envelope_dict_def time_fields_def)+

section \<open>Sealed rows\<close>

definition sealed :: "ledger_env \<Rightarrow> evidence_row \<Rightarrow> bool" where
  "sealed env r \<longleftrightarrow> evidence_sha256 env (er_envelope r) = Inr (er_sha256 r) \<and> is_sha256 (er_sha256 r) \<and>
     (\<forall>(k, v) \<in> set (row_bindings r). obj_get (er_envelope r) k = v)"

definition ledger_ok :: "ledger_env \<Rightarrow> ledger \<Rightarrow> bool" where
  "ledger_ok env db \<longleftrightarrow> (\<forall>r \<in> set db. sealed env r) \<and> unique_key er_id db \<and> unique_key er_execution db"

lemma ledger_ok_codec: "same_codec a b \<Longrightarrow> ledger_ok a db = ledger_ok b db"
  by (simp add: ledger_ok_def sealed_def evidence_sha256_codec [of a b])

lemma digest_sha256: "\<lbrakk>evidence_sha256 env p = Inr digest; codec_ok env\<rbrakk> \<Longrightarrow> is_sha256 digest"
  by (cases "canonicalize_evidence env p") (auto simp: evidence_sha256_def codec_okD(2))

lemma row_of_bindings: "row_bindings (row_of env p digest) = map (\<lambda>k. (k, obj_get p k))
    [''schema_version'', ''audit_execution_id'', ''tenant_id'', ''user_id'', ''request_id'', ''execution_id'',
     ''capability_id'', ''capability_version'', ''environment'', ''deployment_id'', ''resolved_agent_id'',
     ''capability_decision'', ''status'', ''artifact_id'', ''root_id'', ''error_code'']"
  by (simp only: row_bindings_def row_of_def list.map evidence_row.select_convs)

lemma row_of_envelope: "er_envelope (row_of env p digest) = p" "er_sha256 (row_of env p digest) = digest"
  by (simp_all only: row_of_def evidence_row.select_convs)

lemma row_of_sealed:
  assumes "evidence_sha256 env p = Inr digest" and "codec_ok env"
  shows "sealed env (row_of env p digest)"
  using assms digest_sha256 [OF assms] by (simp add: sealed_def row_of_bindings row_of_envelope)

lemma scalar_only:
  assumes "r \<in> set rows" and "P r" and "\<And>x. \<lbrakk>x \<in> set rows; P x\<rbrakk> \<Longrightarrow> x = r"
  shows "scalar P rows = Some r"
  using scalar_None [of P rows] scalar_SomeD [of P rows] assms by (cases "scalar P rows") blast+

text \<open>A row that is sealed verifies, and what verifies has the digest of its envelope.\<close>

lemma sealed_verifies:
  assumes "ledger_ok env db" and "r \<in> set db"
  shows "verify_persisted_evidence env (er_tenant r) (er_id r) db = Inr r"
proof -
  have "scalar (\<lambda>x. er_id x = er_id r \<and> er_tenant x = er_tenant r) db = Some r"
    using assms unique_key_eq [of er_id db] by (intro scalar_only) (auto simp: ledger_ok_def)
  moreover have "sealed env r" using assms by (simp add: ledger_ok_def)
  ultimately show ?thesis
    by (auto simp: verify_persisted_evidence_def sealed_def)
qed

lemma verified_sealed:
  "verify_persisted_evidence env tenant record db = Inr r \<Longrightarrow>
     r \<in> set db \<and> sealed env r \<and> er_id r = record \<and> er_tenant r = tenant"
  by (auto simp: verify_persisted_evidence_def sealed_def dest!: scalar_SomeD split: option.splits sum.splits if_splits)

section \<open>Appending\<close>

lemma by_execution_None: "by_execution i db = None \<longleftrightarrow> (\<forall>r \<in> set db. er_execution r \<noteq> i)"
  by (auto simp: by_execution_def scalar_None)

lemma insert_rowD:
  assumes "insert_row env f r db = (x, db')"
  shows "db' = db \<or> db' = db @ [r] \<and> row_checks r \<and> er_id r \<notin> set (map er_id db)"
    and "x = None \<Longrightarrow> db' = db @ [r]"
  using assms by (auto simp: insert_row_def split: if_splits ledger_commit.splits)

lemma append_payloadD:
  assumes "append_payload env f others p db = (r, db')"
  shows "db' = db \<or> db' = db @ others \<or> (\<exists>digest. evidence_sha256 env p = Inr digest \<and>
      db' = db @ others @ [row_of env p digest] \<and> le_record env \<notin> set (map er_id (db @ others)) \<and>
      by_execution (obj_get p ''audit_execution_id'') (db @ others) = None)"
    and "r = Inr a \<Longrightarrow> evidence_sha256 env p = Inr (ar_sha256 a) \<and>
      (if ar_replay a
       then (db' = db \<or> db' = db @ others) \<and> (\<exists>x \<in> set db'. er_execution x = obj_get p ''audit_execution_id'' \<and> er_id x = ar_record a \<and>
         er_tenant x = obj_get p ''tenant_id'' \<and> er_sha256 x = ar_sha256 a)
       else ar_record a = le_record env \<and> db' = db @ others @ [row_of env p (ar_sha256 a)] \<and>
         verify_persisted_evidence env (obj_get p ''tenant_id'') (le_record env) db' =
           Inr (row_of env p (ar_sha256 a)))"
proof -
  let ?i = "obj_get p ''audit_execution_id''"
  note D = assms [unfolded append_payload_def Let_def]
  consider (same) "db' = db" "r = Inr a \<Longrightarrow> \<exists>x. by_execution ?i db = Some x \<and>
        (\<exists>digest. evidence_sha256 env p = Inr digest \<and> compare_existing x (obj_get p ''tenant_id'') digest = Inr a)"
    | (late) "db' = db @ others" "r = Inr a \<Longrightarrow> \<exists>x. by_execution ?i (db @ others) = Some x \<and>
        (\<exists>digest. evidence_sha256 env p = Inr digest \<and> compare_existing x (obj_get p ''tenant_id'') digest = Inr a)"
    | (fresh) digest y where "evidence_sha256 env p = Inr digest" "by_execution ?i (db @ others) = None"
        "insert_row env f (row_of env p digest) (db @ others) = (y, db')"
        "r = Inr a \<Longrightarrow> y = None \<and> a = \<lparr>ar_record = le_record env, ar_sha256 = digest, ar_replay = False\<rparr> \<and>
          (\<exists>v. verify_persisted_evidence env (obj_get p ''tenant_id'') (le_record env) db' = Inr v \<and> er_sha256 v = digest)"
    using D by (auto split: sum.splits if_splits option.splits prod.splits)
  note three = this
  have old: "\<exists>x \<in> set xs. er_execution x = ?i \<and> er_id x = ar_record a \<and> er_tenant x = t \<and>
      er_sha256 x = ar_sha256 a \<and> ar_sha256 a = digest \<and> ar_replay a"
    if "by_execution ?i xs = Some x" "compare_existing x t digest = Inr a" for xs x t digest
    using that by (auto simp: by_execution_def compare_existing_def dest!: scalar_SomeD split: if_splits)
  from three show "db' = db \<or> db' = db @ others \<or> (\<exists>digest. evidence_sha256 env p = Inr digest \<and>
      db' = db @ others @ [row_of env p digest] \<and> le_record env \<notin> set (map er_id (db @ others)) \<and>
      by_execution ?i (db @ others) = None)"
    by cases (auto dest: insert_rowD(1) simp: row_of_def)
  assume r: "r = Inr a"
  from three show "evidence_sha256 env p = Inr (ar_sha256 a) \<and>
      (if ar_replay a
       then (db' = db \<or> db' = db @ others) \<and> (\<exists>x \<in> set db'. er_execution x = ?i \<and> er_id x = ar_record a \<and>
         er_tenant x = obj_get p ''tenant_id'' \<and> er_sha256 x = ar_sha256 a)
       else ar_record a = le_record env \<and> db' = db @ others @ [row_of env p (ar_sha256 a)] \<and>
         verify_persisted_evidence env (obj_get p ''tenant_id'') (le_record env) db' =
           Inr (row_of env p (ar_sha256 a)))"
  proof cases
    case fresh
    then have db': "db' = (db @ others) @ [row_of env p digest]" "a = \<lparr>ar_record = le_record env, ar_sha256 = digest, ar_replay = False\<rparr>"
      using r insert_rowD(2) [OF fresh(3)] fresh(4) by auto
    obtain v where v: "verify_persisted_evidence env (obj_get p ''tenant_id'') (le_record env) db' = Inr v"
      using fresh r by auto
    have "le_record env \<notin> set (map er_id (db @ others))"
      using insert_rowD(1) [OF fresh(3)] db'(1) by (auto simp: row_of_def)
    then have "v = row_of env p digest"
      using verified_sealed [OF v] db'(1) by (auto simp: image_iff)
    with v db' fresh(1) show ?thesis by simp
  qed (use r old in \<open>fastforce+\<close>)
qed

lemma append_payload_grows: "append_payload env f others p db = (r, db') \<Longrightarrow> \<exists>new. db' = db @ new"
  using append_payloadD(1) by (metis append_Nil2)

lemma append_payload_ok:
  assumes "append_payload env f others p db = (r, db')" and "ledger_ok env (db @ others)" and "codec_ok env"
  shows "ledger_ok env db'"
proof -
  have db: "ledger_ok env db"
    using assms(2) by (auto simp: ledger_ok_def unique_key_def)
  consider "db' = db" | "db' = db @ others" | digest where "evidence_sha256 env p = Inr digest"
      "db' = (db @ others) @ [row_of env p digest]" "le_record env \<notin> set (map er_id (db @ others))"
      "by_execution (obj_get p ''audit_execution_id'') (db @ others) = None"
    using append_payloadD(1) [OF assms(1)] by auto
  then show ?thesis
  proof cases
    case 3
    have "fresh_key er_id (er_id (row_of env p digest)) (db @ others)"
      "fresh_key er_execution (er_execution (row_of env p digest)) (db @ others)"
      using 3(3,4) by (auto simp: fresh_key_def by_execution_None row_of_def image_iff)
    with 3 assms(2) row_of_sealed [OF 3(1) assms(3)] show ?thesis
      by (auto simp: ledger_ok_def unique_key_snoc simp del: append_assoc)
  qed (use db assms(2) in auto)
qed

text \<open>Without rows of others a replay changes nothing.\<close>

lemma append_payload_replay: "\<lbrakk>append_payload env f [] p db = (Inr a, db'); ar_replay a\<rbrakk> \<Longrightarrow> db' = db"
  using append_payloadD(2) [of env f "[]" p db "Inr a" db' a] by simp

section \<open>The ledger as a write-once map\<close>

definition digests :: "ledger \<Rightarrow> json \<Rightarrow> string option" where
  "digests db i = map_option er_sha256 (by_execution i db)"

lemma digests_append: "digests (db @ new) i = (case digests db i of None \<Rightarrow> digests new i | Some d \<Rightarrow> Some d)"
  by (simp add: digests_def by_execution_def scalar_append split: option.splits)

lemma digests_row: "digests [row_of env p d] = [obj_get p ''audit_execution_id'' \<mapsto> d]"
  by (rule ext) (simp add: digests_def by_execution_def row_of_def)

lemma digests_grow: "digests db i = Some d \<Longrightarrow> digests (db @ new) i = Some d"
  by (simp add: digests_append)

lemma digests_of:
  "\<lbrakk>ledger_ok env db; r \<in> set db\<rbrakk> \<Longrightarrow> digests db (er_execution r) = Some (er_sha256 r)"
  using scalar_unique [of er_execution db r] by (simp add: digests_def by_execution_def ledger_ok_def)

lemma append_payload_digest:
  assumes "append_payload env f others p db = (Inr a, db')"
  shows "evidence_sha256 env p = Inr (ar_sha256 a)"
  using assms by (auto simp: append_payload_def compare_existing_def Let_def
    split: sum.splits option.splits if_splits prod.splits)

lemma append_payload_once:
  assumes "append_payload env f [] p db = (Inr a, db')" and "ledger_ok env db" and "codec_ok env"
  defines "i \<equiv> obj_get p ''audit_execution_id''"
  shows "digests db' = (digests db)(i \<mapsto> ar_sha256 a)" and "ar_replay a \<longleftrightarrow> digests db i \<noteq> None"
    and "\<exists>r \<in> set db'. er_id r = ar_record a \<and> er_execution r = i \<and> er_sha256 r = ar_sha256 a \<and>
      verify_persisted_evidence env (er_tenant r) (er_id r) db' = Inr r"
proof -
  note D = append_payloadD(2) [OF assms(1) refl] and ok' = append_payload_ok [OF assms(1) _ assms(3)]
  have ok': "ledger_ok env db'" using ok' assms(2) by simp
  show "\<exists>r \<in> set db'. er_id r = ar_record a \<and> er_execution r = i \<and> er_sha256 r = ar_sha256 a \<and>
      verify_persisted_evidence env (er_tenant r) (er_id r) db' = Inr r"
  proof (cases "ar_replay a")
    case True
    with D obtain x where "x \<in> set db'" "er_execution x = i" "er_id x = ar_record a" "er_sha256 x = ar_sha256 a"
      by (auto simp: i_def)
    with sealed_verifies [OF ok'] show ?thesis by auto
  next
    case False
    with D have "row_of env p (ar_sha256 a) \<in> set db'" "ar_record a = le_record env" by auto
    with sealed_verifies [OF ok', of "row_of env p (ar_sha256 a)"] show ?thesis
      by (intro bexI [of _ "row_of env p (ar_sha256 a)"]) (simp_all add: row_of_def i_def)
  qed
  then have at: "digests db' i = Some (ar_sha256 a)" using digests_of [OF ok'] by auto
  show "ar_replay a \<longleftrightarrow> digests db i \<noteq> None" "digests db' = (digests db)(i \<mapsto> ar_sha256 a)"
  proof (atomize (full), cases "ar_replay a")
    case True
    have "db' = db \<or> (\<exists>d. db' = db @ [row_of env p d] \<and> digests db i = None)"
      using append_payloadD(1) [OF assms(1)] by (auto simp: digests_def i_def)
    then show "(ar_replay a \<longleftrightarrow> digests db i \<noteq> None) \<and> digests db' = (digests db)(i \<mapsto> ar_sha256 a)"
      using True at append_payload_replay [OF assms(1)] by (auto simp: fun_upd_idem)
  next
    case False
    then have db': "db' = db @ [row_of env p (ar_sha256 a)]" using D by simp
    then have "digests db i = None"
      using append_payloadD(1) [OF assms(1)] by (auto simp: digests_def i_def)
    moreover from this db' have "digests db' = (digests db)(i \<mapsto> ar_sha256 a)"
      by (auto simp: fun_eq_iff digests_append digests_row i_def split: option.splits)
    ultimately show "(ar_replay a \<longleftrightarrow> digests db i \<noteq> None) \<and> digests db' = (digests db)(i \<mapsto> ar_sha256 a)"
      using False by simp
  qed
qed

end
