(* ===== verification/Audit_Reads.thy ===== *)
theory Audit_Reads
  imports Audit_Archive
begin

text \<open>
  Lemmas on what the audit adapters read: a verified file lies below its root and was not exchanged,
  an artifact belongs to the tenant and has the recorded digest, the pages of a text cover it, the
  marker search finds what occurs, and the archive checks bound what was decompressed.
\<close>

section \<open>Verified files\<close>

lemma safe_componentsD:
  assumes "safe_components path = Inr parts"
  shows "parts = pure_parts path" and "parts \<noteq> []" and "''..'' \<notin> set parts"
    and "\<forall>p \<in> set parts. p \<noteq> [] \<and> p \<noteq> ''.'' \<and> \<not> secret_like_part p" and "\<not> is_absolute path"
  using assms by (auto simp: safe_components_def Let_def split: if_splits)

text \<open>The entry of a path below a directory, following no link.\<close>

definition entry_at :: "fs_node \<Rightarrow> string list \<Rightarrow> fs_node option" where
  "entry_at root parts = (case descend root (butlast parts) of
     Some (Fs_Dir es) \<Rightarrow> map_of es (last parts) | _ \<Rightarrow> None)"

text \<open>Joining the parts of a path and taking them apart again gives the same parts.\<close>

lemma pure_parts_join: "pure_parts (py_join ''/'' (pure_parts s)) = pure_parts s"
proof (cases "pure_parts s = []")
  case False
  moreover have "\<forall>p \<in> set (pure_parts s). CHR ''/'' \<notin> set p"
    using py_split_parts by (auto simp: pure_parts_def)
  ultimately have "py_split (CHR ''/'') (py_join ''/'' (pure_parts s)) = pure_parts s"
    by (rule py_split_join)
  then show ?thesis by (simp add: pure_parts_def)
qed (simp add: pure_parts_def)

lemma open_verified_fileD:
  assumes "open_verified_file roots race root_id path = Inr v"
  obtains root parts raw where "map_of roots root_id = Some root" and "safe_components path = Inr parts"
    and "entry_at root parts = Some (Fs_File (vf_identity v) raw)"
    and "race (Fs_File (vf_identity v) raw) = Some (Fs_File (vf_identity v) (vf_raw v))"
    and "vf_root v = root_id" and "vf_path v = py_join ''/'' parts"
proof -
  obtain root parts es entry where *: "map_of roots root_id = Some root" "safe_components path = Inr parts"
    "descend root (butlast parts) = Some (Fs_Dir es)" "map_of es (last parts) = Some entry"
    "open_entry race root_id (py_join ''/'' parts) entry = Inr v"
    using assms unfolding open_verified_file_def
    by (auto split: option.splits sum.splits fs_node.splits)
  then obtain i raw where "entry = Fs_File i raw" "race entry = Some (Fs_File i (vf_raw v))" "vf_identity v = i"
      "vf_root v = root_id" "vf_path v = py_join ''/'' parts"
    by (auto simp: open_entry_def split: fs_node.splits option.splits if_splits)
  with * that show ?thesis by (simp add: entry_at_def)
qed

lemma resolve_artifactD:
  assumes "resolve_artifact sha roots race artifacts artifact_id tenant = Inr v"
  obtains a root parts raw where "a \<in> set artifacts" and "af_id a = artifact_id" and "af_tenant a = tenant"
    and "sha (vf_raw v) = py_lower (py_strip (af_sha256 a))"
    and "hd parts = tenant" and "''..'' \<notin> set parts"
    and "map_of roots ''artifact-storage'' = Some root"
    and "entry_at root parts = Some (Fs_File (vf_identity v) raw)"
proof -
  obtain a key w where a: "find (\<lambda>a. af_id a = artifact_id) artifacts = Some a" "af_tenant a = tenant"
    and key: "safe_storage_key (af_storage_key a) tenant = Inr key"
    and w: "open_verified_file roots race ''artifact-storage'' key = Inr w"
      "sha (vf_raw w) = py_lower (py_strip (af_sha256 a))" "vf_raw v = vf_raw w" "vf_identity v = vf_identity w"
    using assms unfolding resolve_artifact_def Let_def
    by (auto split: option.splits sum.splits if_splits)
  obtain root parts raw where *: "map_of roots ''artifact-storage'' = Some root" "safe_components key = Inr parts"
      "entry_at root parts = Some (Fs_File (vf_identity w) raw)"
    by (rule open_verified_fileD [OF w(1)])
  have key': "key = py_join ''/'' (pure_parts (af_storage_key a))" "pure_parts (af_storage_key a) \<noteq> []"
      "hd (pure_parts (af_storage_key a)) = tenant"
    using key by (auto simp: safe_storage_key_def split: if_splits)
  have "pure_parts key = pure_parts (af_storage_key a)"
    unfolding key'(1) by (rule pure_parts_join)
  then have "hd parts = tenant"
    using safe_componentsD(1) [OF *(2)] key'(3) by simp
  with that find_in [OF a(1)] a(2) w * safe_componentsD(3) [OF *(2)] show ?thesis
    by metis
qed

section \<open>The pages of a text\<close>

text \<open>A reader that follows the pages until one says that it is the last; \<open>n\<close> bounds their number.\<close>

fun read_pages :: "nat \<Rightarrow> verified_file \<Rightarrow> int \<Rightarrow> int \<Rightarrow> string option" where
  "read_pages 0 v offset max_bytes = None"
| "read_pages (Suc n) v offset max_bytes = (case read_page v offset max_bytes of
     Inl e \<Rightarrow> None
   | Inr p \<Rightarrow> if tp_eof p then Some (tp_content p)
       else map_option (\<lambda>rest. tp_content p @ rest) (read_pages n v (offset + int (tp_bytes p)) max_bytes))"

lemma read_full_safe_textD:
  "read_full_safe_text v = Inr raw \<Longrightarrow> raw = vf_raw v \<and> utf8_valid raw \<and> vf_size v \<le> 10000000"
  by (auto simp: read_full_safe_text_def safe_text_def split: if_splits sum.splits)

lemma cut_page_bounds:
  fixes n :: nat
  assumes "utf8_valid raw" and "utf8_valid (take offset raw)" and "offset \<le> length raw"
  defines "p \<equiv> cut_page raw offset n"
  shows "offset + tp_bytes p \<le> length raw" and "tp_content p = slice offset (offset + tp_bytes p) raw"
    and "tp_eof p \<longleftrightarrow> offset + tp_bytes p = length raw" and "utf8_valid (take (offset + tp_bytes p) raw)"
    and "tp_bytes p \<le> n"
proof -
  let ?stop = "utf8_cut raw offset (min (length raw) (offset + n))"
  have stop: "offset \<le> ?stop" "?stop \<le> length raw" "?stop \<le> offset + n" "utf8_valid (slice offset ?stop raw)"
    using utf8_cut_sound [of offset "min (length raw) (offset + n)" raw] assms(3) by auto
  have p: "offset + tp_bytes p = ?stop" using stop(1) by (simp add: p_def cut_page_def Let_def)
  then show "offset + tp_bytes p \<le> length raw" "tp_content p = slice offset (offset + tp_bytes p) raw"
    "tp_eof p \<longleftrightarrow> offset + tp_bytes p = length raw" "tp_bytes p \<le> n"
    using stop by (auto simp: p_def cut_page_def Let_def)
  have "take ?stop raw = take offset raw @ slice offset ?stop raw"
    using stop(1) by (simp add: slice_def) (metis le_add_diff_inverse take_add)
  then show "utf8_valid (take (offset + tp_bytes p) raw)"
    using p stop(4) assms(2) by (simp add: utf8_valid_append)
qed

text \<open>A page of at least four bytes makes progress, because a character has at most four.\<close>

lemma cut_page_progress:
  assumes "utf8_valid raw" and "utf8_valid (take offset raw)" and "offset < length raw" and "4 \<le> n"
  shows "0 < tp_bytes (cut_page raw offset n)"
proof -
  let ?rest = "drop offset raw"
  have "utf8_valid ?rest"
    using assms(1,2) utf8_valid_append [of "take offset raw" ?rest] by simp
  moreover have "?rest \<noteq> []" using assms(3) by simp
  ultimately have w: "0 < utf8_width ?rest" "utf8_valid (take (utf8_width ?rest) ?rest)"
    by (auto simp: utf8_first)
  have "utf8_width ?rest \<le> 4" "offset + utf8_width ?rest \<le> length raw"
    using utf8_width_bounds [of ?rest] assms(3) by auto
  then have "offset + utf8_width ?rest \<le> utf8_cut raw offset (min (length raw) (offset + n))"
    using w(2) assms(4) by (intro utf8_cut_greatest) (auto simp: slice_def)
  with w(1) show ?thesis by (simp add: cut_page_def Let_def)
qed

lemma read_page_at:
  assumes "read_full_safe_text v = Inr raw" and "4 \<le> m" and "m \<le> 64000" and "utf8_valid (take k raw)"
    and "k \<le> length raw"
  shows "read_page v (int k) m = Inr (cut_page raw k (nat m))"
  using assms by (simp add: read_page_def page_at_def)

lemma read_pages_from:
  assumes "read_full_safe_text v = Inr raw" and "4 \<le> m" and "m \<le> 64000"
  shows "\<lbrakk>utf8_valid (take k raw); k \<le> length raw; length raw - k < n\<rbrakk>
    \<Longrightarrow> read_pages n v (int k) m = Some (drop k raw)"
proof (induction n arbitrary: k)
  case (Suc n)
  let ?p = "cut_page raw k (nat m)"
  note b = cut_page_bounds [OF conjunct1 [OF conjunct2 [OF read_full_safe_textD [OF assms(1)]]] Suc.prems(1,2), of "nat m"]
  show ?case
  proof (cases "tp_eof ?p")
    case True
    with b(2,3) Suc.prems show ?thesis by (simp add: read_page_at [OF assms] slice_def)
  next
    case False
    then have "k < length raw" using b(1,3) Suc.prems(2) by auto
    then have "0 < tp_bytes ?p"
      using cut_page_progress [OF _ Suc.prems(1), of "nat m"] read_full_safe_textD [OF assms(1)] assms(2)
      by (auto simp: le_nat_iff)
    then have "read_pages n v (int (k + tp_bytes ?p)) m = Some (drop (k + tp_bytes ?p) raw)"
      using Suc.prems(3) b(1,4) by (intro Suc.IH) auto
    moreover have "slice k (k + tp_bytes ?p) raw @ drop (k + tp_bytes ?p) raw = drop k raw"
      by (simp add: slice_def) (metis append_take_drop_id drop_drop add.commute)
    ultimately show ?thesis using False b(2) Suc.prems by (simp add: read_page_at [OF assms])
  qed
qed simp

section \<open>The marker search\<close>

lemma startswith_append: "py_startswith s m \<longleftrightarrow> (\<exists>q. s = m @ q)"
  by (auto simp: py_startswith_def) (metis append_take_drop_id)

lemma marker_offsets_sound:
  "i \<in> set (marker_offsets m pos skip s) \<Longrightarrow>
     pos + skip \<le> i \<and> i < pos + length s \<and> py_startswith (drop (i - pos) s) m"
proof (induction m pos skip s rule: marker_offsets.induct)
  case (3 m pos c cs)
  then show ?case by (auto split: if_splits simp: drop_Cons')
qed (auto simp: drop_Cons')

lemma marker_offsets_found:
  assumes "m \<noteq> []"
  shows "marker_offsets m pos 0 s \<noteq> [] \<longleftrightarrow> (\<exists>p q. s = p @ m @ q)"
proof
  assume "marker_offsets m pos 0 s \<noteq> []"
  then obtain i where "i \<in> set (marker_offsets m pos 0 s)" by fastforce
  then obtain q where "drop (i - pos) s = m @ q"
    using marker_offsets_sound startswith_append by blast
  then show "\<exists>p q. s = p @ m @ q" by (metis append_take_drop_id)
next
  assume "\<exists>p q. s = p @ m @ q"
  then obtain p q where "s = p @ m @ q" by blast
  then show "marker_offsets m pos 0 s \<noteq> []"
  proof (induction p arbitrary: s pos)
    case Nil
    then show ?case using assms by (cases m) (auto simp: startswith_append)
  qed auto
qed

text \<open>The offsets do not overlap.\<close>

lemma marker_offsets_apart:
  "m \<noteq> [] \<Longrightarrow> sorted_wrt (\<lambda>i j. i + length m \<le> j) (marker_offsets m pos skip s)"
proof (induction m pos skip s rule: marker_offsets.induct)
  case (3 m pos c cs)
  have "pos + length m \<le> j" if "j \<in> set (marker_offsets m (Suc pos) (length m - 1) cs)" for j
    using marker_offsets_sound [OF that] 3(3) by (cases m) auto
  with 3 show ?case by auto
qed auto

section \<open>What an archive may hold\<close>

lemma join_not_absolute: "\<forall>p \<in> set ps. p \<noteq> [] \<and> CHR ''/'' \<notin> set p \<Longrightarrow> \<not> is_absolute (py_join ''/'' ps)"
  by (induction "''/''" ps rule: py_join.induct) (auto simp: is_absolute_def py_startswith_def neq_Nil_conv)

lemma safe_member_nameD:
  assumes "safe_member_name nfc name = Inr safe"
  shows "\<not> is_absolute safe \<and> ''..'' \<notin> set (pure_parts safe)"
proof (cases "pure_parts (nfc name) = []")
  case True
  then show ?thesis
    using assms by (auto simp: safe_member_name_def Let_def is_absolute_def py_startswith_def pure_parts_def split: if_splits)
next
  case False
  then have safe: "safe = py_join ''/'' (pure_parts (nfc name))" "''..'' \<notin> set (pure_parts (nfc name))"
    using assms by (auto simp: safe_member_name_def Let_def split: if_splits)
  have "\<forall>p \<in> set (pure_parts (nfc name)). p \<noteq> [] \<and> CHR ''/'' \<notin> set p"
    using py_split_parts by (auto simp: pure_parts_def)
  from join_not_absolute [OF this] safe show ?thesis by (simp add: pure_parts_join)
qed

lemma index_membersD:
  "index_members nfc seen acc ms = Inr (indexed, t) \<Longrightarrow>
     map snd indexed = ms \<and> t = acc + sum_list (map zm_file_size ms) \<and> (ms \<noteq> [] \<longrightarrow> t \<le> 50000000) \<and>
     distinct (map (py_lower \<circ> fst) indexed) \<and> (\<forall>x \<in> set indexed. py_lower (fst x) \<notin> set seen \<and>
       \<not> secret_like_member (fst x) \<and> member_error (snd x) = None \<and>
       safe_member_name nfc (member_name (snd x)) = Inr (fst x))"
proof (induction nfc seen acc ms arbitrary: indexed t rule: index_members.induct)
  case (2 nfc seen acc m ms)
  then obtain name rest where *: "safe_member_name nfc (member_name m) = Inr name"
    "py_lower name \<notin> set seen" "\<not> secret_like_member name" "member_error m = None"
    "acc + zm_file_size m \<le> 50000000" "index_members nfc (py_lower name # seen) (acc + zm_file_size m) ms = Inr (rest, t)"
    "indexed = (name, m) # rest"
    by (auto simp: Let_def split: sum.splits if_splits option.splits)
  with "2.IH" [OF *(1) *(2) *(3) *(4) refl _ _ *(6)] "2.prems" show ?case
    by (cases ms) (auto simp: Let_def split: if_splits)
qed simp

lemma read_blocks_bound:
  "\<lbrakk>read_blocks got acc ending bs = Inr (raw, acc'); length got \<le> 10000000; acc \<le> 50000000; length got \<le> acc\<rbrakk> \<Longrightarrow>
     length raw \<le> 10000000 \<and> acc' \<le> 50000000 \<and> acc' = acc + (length raw - length got) \<and> length got \<le> length raw"
proof (induction got acc ending bs rule: read_blocks.induct)
  case (2 got acc ending b bs)
  show ?case
  proof (cases "b = []")
    case False
    with 2 show ?thesis by (fastforce split: if_splits)
  qed (use 2 in simp)
qed (auto split: stream_end.splits)

lemma read_member_bound:
  assumes "read_member_actual acc m = Inr (raw, acc')" and "acc \<le> 50000000"
  shows "length raw \<le> 10000000 \<and> acc' = acc + length raw \<and> acc' \<le> 50000000 \<and>
    length raw \<le> 200 * zm_compress_size m"
proof (cases "zm_is_dir m")
  case False
  then have r: "read_blocks [] acc (zm_end m) (zm_blocks m) = Inr (raw, acc')" "\<not> ratio_exceeded (length raw) m"
    using assms by (auto simp: read_member_actual_def split: sum.splits if_splits prod.splits)
  have "length raw \<le> 10000000 \<and> acc' \<le> 50000000 \<and> acc' = acc + length raw"
    using read_blocks_bound [OF r(1)] assms(2) by simp
  with r(2) show ?thesis by (auto simp: ratio_exceeded_def split: if_splits)
qed (use assms in \<open>simp add: read_member_actual_def\<close>)

lemma read_membersD:
  "\<lbrakk>read_members acc xs = Inr (es, t); acc \<le> 50000000\<rbrakk> \<Longrightarrow>
     map ze_name es = map fst xs \<and> t = acc + sum_list (map ze_actual es) \<and> t \<le> 50000000 \<and>
     (\<forall>e \<in> set es. ze_actual e \<le> 10000000 \<and> ze_actual e \<le> 200 * ze_compressed e)"
proof (induction acc xs arbitrary: es t rule: read_members.induct)
  case (2 acc name m rest)
  then obtain raw acc' entries where *: "read_member_actual acc m = Inr (raw, acc')"
    "read_members acc' rest = Inr (entries, t)"
    "es = \<lparr>ze_name = name, ze_declared = zm_file_size m, ze_actual = length raw,
      ze_compressed = zm_compress_size m, ze_crc = zm_crc m, ze_dir = zm_is_dir m\<rparr> # entries"
    by (auto split: sum.splits prod.splits)
  note b = read_member_bound [OF *(1) "2.prems"(2)]
  with "2.IH" [OF *(1) refl *(2)] * show ?case by auto
qed simp

end
