(* ===== verification/Audit_Runs.thy ===== *)
theory Audit_Runs
  imports Audit_Service Audit_Evidence Audit_Reads Db_Session
begin

text \<open>
  Invocations one after the other: what one invocation changes, the gates that stand before every
  read, and the interpretations of the sliding window (at most so many recorded executions in a
  minute) and of the run interface (the ledger stays verifiable and only grows).
\<close>

section \<open>The gates\<close>

definition gates_open :: "audit_env \<Rightarrow> turn \<Rightarrow> string list \<Rightarrow> directive \<Rightarrow> ledger \<Rightarrow> bool" where
  "gates_open env t roles d db \<longleftrightarrow>
     cp_audit_governed (au_policy env) \<and>
     capability_enabled (au_policy env) (operation_capability (dr_operation d)) \<and>
     (''admin'' \<in> set roles \<or> ''orkio_admin'' \<in> set roles) \<and>
     tn_route t = Direct_Agent \<and> tn_channel t \<in> {Chat_Json, Chat_Sse} \<and> tn_locked t \<and>
     tn_resolved t = canonical_agent \<and> tn_owner t = canonical_agent \<and>
     requested_agent env t = Some canonical_agent \<and> tn_execution_allowed t \<and> \<not> tn_external_write t \<and>
     canonical_agent \<in> set (cp_audit_agents (au_policy env)) \<and>
     py_lower (py_strip (tn_tenant t)) \<in> set (cp_audit_tenants (au_policy env)) \<and>
     py_lower (py_strip (au_environment env)) \<in> set (cp_audit_environments (au_policy env)) \<and>
     rate_check (limits_of env) (au_countable env) (le_now (au_ledger env)) db
       (operation_capability (dr_operation d)) (tn_user t) (tn_tenant t) = Inr True"

lemma canonical_agent_plain: "py_lower (py_strip canonical_agent) = canonical_agent"
  by code_simp

lemma gates_openI:
  assumes "preflight_reason env t = None" and "authorize_reason env t d roles db = ''ALLOW''"
  shows "gates_open env t roles d db"
proof -
  have pre: "cp_audit_governed (au_policy env)" "tn_route t = Direct_Agent" "tn_channel t \<in> {Chat_Json, Chat_Sse}"
    "tn_locked t" "tn_resolved t = canonical_agent" "tn_owner t = canonical_agent"
    "requested_agent env t = Some canonical_agent" "tn_execution_allowed t" "\<not> tn_external_write t"
    using assms(1) by (simp_all add: preflight_reason_def split: if_splits)
  have "authorize (au_policy env) (\<lambda>capability_id c. rate_check (limits_of env) (au_countable env)
      (le_now (au_ledger env)) db capability_id (tc_user c) (tc_tenant c))
      (operation_capability (dr_operation d)) (trusted_context_of env t roles) = Inr ''ALLOW''"
    using assms(2) by (simp add: authorize_reason_def split: sum.splits)
  from authorize_allow [OF this] pre show ?thesis
    by (simp add: gates_open_def trusted_context_of_def canonical_agent_plain)
qed

section \<open>One invocation\<close>

definition started :: "audit_env \<Rightarrow> turn \<Rightarrow> string list \<Rightarrow> string \<Rightarrow> audit_state \<Rightarrow> directive option" where
  "started env t roles message st =
     (if fst (consume (cp_directive_limit (au_policy env)) (au_monotonic env) (tn_tenant t, tn_user t) (as_events st))
      then (case parse_audit_directive (au_decode env) message of
          Inr (Some d) \<Rightarrow>
            if preflight_reason env t = None \<and> authorize_reason env t d roles (as_ledger st) = ''ALLOW'' then Some d
            else None
        | _ \<Rightarrow> None)
      else None)"

lemma persist_frame:
  assumes "persist env e st = (r, st')"
  shows "as_reads st' = as_reads st \<and> as_events st' = as_events st"
  using assms by (auto simp: persist_def split: sum.splits prod.splits)

lemma refuse_frame:
  assumes "refuse env e code st = (r, st')"
  shows "as_reads st' = as_reads st \<and> as_events st' = as_events st \<and> (\<exists>x. r = Inl x)"
  using assms persist_frame by (auto simp: refuse_def split: sum.splits prod.splits)

lemma deny_frame:
  assumes "deny env t d reason public_reason st = (r, st')"
  shows "as_reads st' = as_reads st \<and> as_events st' = as_events st \<and> (\<exists>x. r = Inl x)"
  using assms refuse_frame by (auto simp: deny_def split: if_splits)

lemma dispatch_frame:
  assumes "dispatch env t d st = (r, st')"
  shows "as_reads st' = as_reads st @ [(tn_tenant t, dr_operation d)] \<and> as_events st' = as_events st"
  using assms deny_frame refuse_frame persist_frame unfolding dispatch_def Let_def
  by (fastforce split: sum.splits prod.splits if_splits)

lemma looks_parse: "parse_audit_directive decode message = Inr (Some d) \<Longrightarrow> looks_like_audit_directive message"
  by (auto simp: parse_audit_directive_def split: if_splits)

lemma invoke_started:
  assumes "invoke_if_directive env t roles message st = (r, st')"
  shows "case started env t roles message st of
      None \<Rightarrow> as_reads st' = as_reads st \<and> (\<forall>oc. r \<noteq> Inr (Some oc))
    | Some d \<Rightarrow> parse_audit_directive (au_decode env) message = Inr (Some d) \<and>
        gates_open env t roles d (as_ledger st) \<and>
        as_reads st' = as_reads st @ [(tn_tenant t, dr_operation d)] \<and>
        (\<exists>ev. dispatch env t d (st\<lparr>as_events := ev\<rparr>) = (r, st'))"
proof -
  let ?parse = "parse_audit_directive (au_decode env) message"
  obtain granted ev where ev: "consume (cp_directive_limit (au_policy env)) (au_monotonic env)
      (tn_tenant t, tn_user t) (as_events st) = (granted, ev)" by force
  show ?thesis
  proof (cases "looks_like_audit_directive message \<and> granted \<and> (\<exists>d. ?parse = Inr (Some d))")
    case False
    then have "started env t roles message st = None"
      using looks_parse by (auto simp: started_def ev split: sum.splits option.splits)
    moreover have "as_reads st' = as_reads st \<and> (\<forall>oc. r \<noteq> Inr (Some oc))"
      using assms False ev by (auto simp: invoke_if_directive_def Let_def split: if_splits sum.splits option.splits)
    ultimately show ?thesis by simp
  next
    case True
    then obtain d where d: "?parse = Inr (Some d)" by blast
    with True assms ev have inv: "invoke_directive env t roles d (st\<lparr>as_events := ev\<rparr>) = (r, st')"
      by (simp add: invoke_if_directive_def)
    show ?thesis
    proof (cases "preflight_reason env t = None \<and> authorize_reason env t d roles (as_ledger st) = ''ALLOW''")
      case allowed: True
      with inv have dis: "dispatch env t d (st\<lparr>as_events := ev\<rparr>) = (r, st')"
        by (simp add: invoke_directive_def)
      with allowed d True ev dispatch_frame [OF dis] gates_openI show ?thesis
        by (auto simp: started_def)
    next
      case denied: False
      then obtain reason where "deny env t d reason reason (st\<lparr>as_events := ev\<rparr>) = (r, st')"
        using inv by (auto simp: invoke_directive_def Let_def split: option.splits if_splits)
      from deny_frame [OF this] have "as_reads st' = as_reads st" "\<forall>oc. r \<noteq> Inr (Some oc)" by auto
      moreover have "started env t roles message st = None"
        using denied d ev by (auto simp: started_def)
      ultimately show ?thesis by simp
    qed
  qed
qed

section \<open>The ledger after one invocation\<close>

text \<open>Every change of the ledger is one append of one envelope.\<close>

definition appended :: "audit_env \<Rightarrow> ledger \<Rightarrow> ledger \<Rightarrow> bool" where
  "appended env db db' \<longleftrightarrow> db' = db \<or> (\<exists>r p. append_payload (au_ledger env) (au_faults env) (au_others env) p db = (r, db'))"

lemma appended_refl [simp]: "appended env db db"
  by (simp add: appended_def)

lemma persist_appended: "persist env e st = (r, st') \<Longrightarrow> appended env (as_ledger st) (as_ledger st')"
  by (auto simp: persist_def appended_def append_evidence_def split: sum.splits prod.splits)

lemma refuse_appended: "refuse env e code st = (r, st') \<Longrightarrow> appended env (as_ledger st) (as_ledger st')"
  using persist_appended by (auto simp: refuse_def split: sum.splits prod.splits)

lemma deny_appended: "deny env t d reason code st = (r, st') \<Longrightarrow> appended env (as_ledger st) (as_ledger st')"
  using refuse_appended by (auto simp: deny_def appended_def split: if_splits)

lemma dispatch_appended:
  assumes "dispatch env t d st = (r, st')"
  shows "appended env (as_ledger st) (as_ledger st')"
proof -
  let ?st = "st\<lparr>as_reads := as_reads st @ [(tn_tenant t, dr_operation d)]\<rparr>"
  have "appended env (as_ledger ?st) (as_ledger st')"
    using assms deny_appended [of env t d _ _ ?st] refuse_appended [of env _ _ ?st] persist_appended [of env _ ?st]
    unfolding dispatch_def Let_def by (fastforce split: sum.splits prod.splits if_splits)
  then show ?thesis by simp
qed

lemma invoke_appended:
  assumes "invoke_if_directive env t roles message st = (r, st')"
  shows "appended env (as_ledger st) (as_ledger st')"
proof -
  have inv: "appended env (as_ledger s) (as_ledger s')" if "invoke_directive env t roles d s = (x, s')" for d s x s'
    using that deny_appended dispatch_appended
    by (auto simp: invoke_directive_def Let_def split: option.splits if_splits)
  show ?thesis
    using assms inv [of _ "st\<lparr>as_events := _\<rparr>"] unfolding invoke_if_directive_def Let_def
    by (auto split: if_splits prod.splits sum.splits option.splits)
qed

lemma appended_grows: "appended env db db' \<Longrightarrow> \<exists>new. db' = db @ new"
  using append_payload_grows unfolding appended_def by blast

lemma appended_ok:
  assumes "appended env db db'" and "ledger_ok (au_ledger env) (db @ au_others env)" and "codec_ok (au_ledger env)"
  shows "ledger_ok (au_ledger env) db'"
proof -
  have "ledger_ok (au_ledger env) db" using assms(2) by (auto simp: ledger_ok_def unique_key_def)
  with assms append_payload_ok show ?thesis unfolding appended_def by blast
qed

section \<open>The row of an outcome\<close>

text \<open>What a row of the ledger records of an envelope.\<close>

definition records :: "ledger_env \<Rightarrow> evidence \<Rightarrow> evidence_row \<Rightarrow> bool" where
  "records env e r \<longleftrightarrow> er_execution r = JStr (le_nfc env (ev_execution e)) \<and>
     er_tenant r = JStr (le_nfc env (ev_tenant e)) \<and> er_user r = JStr (le_nfc env (ev_user e)) \<and>
     er_capability r = JStr (le_nfc env (ev_capability e)) \<and> er_decision r = JStr (le_nfc env (ev_decision e)) \<and>
     er_status r = JStr (le_nfc env (ev_status e)) \<and> er_created r = le_now env"

lemma row_of_records:
  "\<lbrakk>payload_of_envelope env e = Inr p; codec_ok env\<rbrakk> \<Longrightarrow> records env e (row_of env p digest)"
  by (simp add: records_def row_of_def payload_columns)

text \<open>An identifier drawn for this request, so no row has it yet.\<close>

definition new_execution :: "audit_env \<Rightarrow> ledger \<Rightarrow> bool" where
  "new_execution env db \<longleftrightarrow> ascii (au_execution env) \<and>
     by_execution (JStr (au_execution env)) (db @ au_others env) = None"

lemma persist_row:
  assumes "persist env e st = (Inr a, st')" and "codec_ok (au_ledger env)" and "ev_execution e = au_execution env"
    and "new_execution env (as_ledger st)"
  shows "\<exists>row text. as_ledger st' = as_ledger st @ au_others env @ [row] \<and> records (au_ledger env) e row \<and>
    er_sha256 row = ar_sha256 a \<and> canonicalize_evidence (au_ledger env) (er_envelope row) = Inr text \<and>
    ar_sha256 a = le_sha256 (au_ledger env) text \<and>
    verify_persisted_evidence (au_ledger env) (er_tenant row) (er_id row) (as_ledger st') = Inr row"
proof -
  let ?env = "au_ledger env"
  from assms(1) obtain p where p: "payload_of_envelope ?env e = Inr p"
    and ap: "append_payload ?env (au_faults env) (au_others env) p (as_ledger st) = (Inr a, as_ledger st')"
    by (auto simp: persist_def build_envelope_def append_evidence_def split: sum.splits prod.splits if_splits)
  have i: "obj_get p ''audit_execution_id'' = JStr (au_execution env)"
    using payload_columns(1) [OF p assms(2)] assms(2-4) by (simp add: new_execution_def codec_okD(1))
  note D = append_payloadD(2) [OF ap refl]
  have "\<not> ar_replay a"
    using D assms(4) i by (auto simp: new_execution_def by_execution_None split: if_splits)
  with D have *: "as_ledger st' = as_ledger st @ au_others env @ [row_of ?env p (ar_sha256 a)]"
    "verify_persisted_evidence ?env (obj_get p ''tenant_id'') (le_record ?env) (as_ledger st') = Inr (row_of ?env p (ar_sha256 a))"
    "evidence_sha256 ?env p = Inr (ar_sha256 a)" by auto
  from *(3) obtain encoded where "canonicalize_evidence ?env p = Inr encoded" "ar_sha256 a = le_sha256 ?env encoded"
    by (cases "canonicalize_evidence ?env p") (auto simp: evidence_sha256_def)
  moreover have "er_tenant (row_of ?env p (ar_sha256 a)) = obj_get p ''tenant_id''"
    "er_id (row_of ?env p (ar_sha256 a)) = le_record ?env" by (simp_all add: row_of_def)
  ultimately show ?thesis
    using * row_of_records [OF p assms(2)] row_of_envelope
    by (intro exI [of _ "row_of ?env p (ar_sha256 a)"] exI [of _ encoded]) simp
qed

lemma canonical_no_secret:
  "canonicalize_evidence env p = Inr text \<Longrightarrow> detect_high_confidence_secrets text = [] \<and> length text \<le> max_serialized"
  by (auto simp: canonicalize_evidence_def assert_no_high_confidence_secrets_def Let_def
      split: sum.splits if_splits option.splits)

text \<open>An outcome comes from a dispatch that executed the operation and persisted its evidence.\<close>

lemma dispatch_outcome:
  assumes "dispatch env t d st = (Inr (Some oc), st')"
  obtains data a where "execute env t d = Inr data" and "oc_operation oc = dr_operation d" and "oc_data oc = JObj data"
    and "persist env (evidence_for env t d ''ALLOW'' ''ALLOW'' ''completed'' True data None)
      (st\<lparr>as_reads := as_reads st @ [(tn_tenant t, dr_operation d)]\<rparr>) = (Inr a, st')"
    and "rf_sha256 (oc_reference oc) = ar_sha256 a"
proof -
  let ?st = "st\<lparr>as_reads := as_reads st @ [(tn_tenant t, dr_operation d)]\<rparr>"
  have no: "(Inr (Some oc), st') \<noteq> deny env t d x y s" "(Inr (Some oc), st') \<noteq> refuse env e c s" for x y s e c
    using deny_frame [of env t d x y s "Inr (Some oc)" st'] refuse_frame [of env e c s "Inr (Some oc)" st'] by auto
  show ?thesis
  proof (cases "execute env t d")
    case (Inl x)
    with assms no [symmetric] show ?thesis by (auto simp: dispatch_def Let_def split: if_splits)
  next
    case (Inr data)
    with assms that show ?thesis
      by (auto simp: dispatch_def Let_def reference_of_def split: sum.splits prod.splits)
  qed
qed

section \<open>Runs\<close>

record invocation =
  iv_env :: audit_env
  iv_turn :: turn
  iv_roles :: "string list"
  iv_message :: string

definition invoke_step :: "invocation \<Rightarrow> audit_state \<Rightarrow> audit_state" where
  "invoke_step q st = snd (invoke_if_directive (iv_env q) (iv_turn q) (iv_roles q) (iv_message q) st)"

definition invoke_result :: "invocation \<Rightarrow> audit_state \<Rightarrow> failure + outcome option" where
  "invoke_result q st = fst (invoke_if_directive (iv_env q) (iv_turn q) (iv_roles q) (iv_message q) st)"

definition invoke_time :: "invocation \<Rightarrow> instant" where
  "invoke_time q = le_now (au_ledger (iv_env q))"

lemma invoke_step_appended: "appended (iv_env q) (as_ledger st) (as_ledger (invoke_step q st))"
  unfolding invoke_step_def by (rule invoke_appended) (rule surjective_pairing)

text \<open>
  A key of the limit: a tenant, a capability and, for the limit of a user, the user. A request counts
  for a key when it completes with an outcome.
\<close>

lemma ascii_capability: "ascii (operation_capability op)"
  by (cases op) (simp_all add: ascii_def audit_file_inspect_def audit_archive_inspect_def
      audit_runtime_sha256_def audit_runtime_search_def capability_def)

record limit_key =
  lk_tenant :: string
  lk_capability :: string
  lk_user :: "string option"

definition key_row :: "limit_key \<Rightarrow> evidence_row \<Rightarrow> bool" where
  "key_row k r \<longleftrightarrow> er_tenant r = JStr (lk_tenant k) \<and> er_capability r = JStr (lk_capability k) \<and>
     (case lk_user k of None \<Rightarrow> True | Some u \<Rightarrow> er_user r = JStr u)"

definition key_turn :: "limit_key \<Rightarrow> turn \<Rightarrow> bool" where
  "key_turn k t \<longleftrightarrow> tn_tenant t = lk_tenant k \<and> (case lk_user k of None \<Rightarrow> True | Some u \<Rightarrow> tn_user t = u)"

definition completes :: "limit_key \<Rightarrow> invocation \<Rightarrow> audit_state \<Rightarrow> bool" where
  "completes k q st \<longleftrightarrow> key_turn k (iv_turn q) \<and> (case invoke_result q st of
     Inr (Some oc) \<Rightarrow> operation_capability (oc_operation oc) = lk_capability k | _ \<Rightarrow> False)"

definition key_limit :: "limit_key \<Rightarrow> capability_policy \<Rightarrow> int" where
  "key_limit k p = (case lk_user k of None \<Rightarrow> cp_tenant_limit p | Some u \<Rightarrow> cp_user_limit p)"

text \<open>The requests of one deployment: the parameters behave, the identifiers are ASCII and new.\<close>

definition served :: "limit_key \<Rightarrow> int \<Rightarrow> invocation \<Rightarrow> bool" where
  "served k n q \<longleftrightarrow> codec_ok (au_ledger (iv_env q)) \<and> key_limit k (au_policy (iv_env q)) = n \<and>
     ascii (tn_tenant (iv_turn q)) \<and> ascii (tn_user (iv_turn q))"

fun completed_times :: "limit_key \<Rightarrow> invocation list \<Rightarrow> audit_state \<Rightarrow> instant list" where
  "completed_times k [] st = []"
| "completed_times k (q # qs) st =
     (if completes k q st \<and> new_execution (iv_env q) (as_ledger st) then [invoke_time q] else []) @
     completed_times k qs (invoke_step q st)"

definition held_times :: "limit_key \<Rightarrow> audit_state \<Rightarrow> int multiset" where
  "held_times k st = mset (map er_created (filter (key_row k) (as_ledger st)))"

lemma held_grows: "as_ledger st' = as_ledger st @ new \<Longrightarrow> held_times k st' = held_times k st + held_times k (st\<lparr>as_ledger := new\<rparr>)"
  by (simp add: held_times_def)

lemma size_held:
  "size (filter_mset (\<lambda>t. now - window \<le> t) (held_times k st)) =
     length (filter (\<lambda>r. now - window \<le> er_created r) (filter (key_row k) (as_ledger st)))"
  by (simp add: held_times_def filter_map o_def del: mset_map mset_filter filter_filter flip: mset_filter)

lemma rate_check_below:
  assumes "rate_check limits readable now db (lk_capability k) user (lk_tenant k) = Inr True"
    and "case lk_user k of None \<Rightarrow> True | Some u \<Rightarrow> user = u"
  shows "int (length (filter (\<lambda>r. now - window \<le> er_created r) (filter (key_row k) db))) <
    (case lk_user k of None \<Rightarrow> rl_tenant limits | Some u \<Rightarrow> rl_user limits)"
proof -
  have "filter (\<lambda>r. now - window \<le> er_created r) (filter (key_row k) db) =
      (case lk_user k of None \<Rightarrow> filter (counted (lk_tenant k) (lk_capability k) (now - window)) db
       | Some u \<Rightarrow> filter (\<lambda>r. er_user r = JStr user) (filter (counted (lk_tenant k) (lk_capability k) (now - window)) db))"
    using assms(2) by (auto simp: key_row_def counted_def split: option.splits intro!: filter_cong)
  with assms(1) show ?thesis by (auto simp: rate_check_def Let_def split: if_splits option.splits)
qed

lemma completes_row:
  assumes "completes k q st" and "served k n q" and "new_execution (iv_env q) (as_ledger st)"
  shows "\<exists>row. as_ledger (invoke_step q st) = as_ledger st @ au_others (iv_env q) @ [row] \<and> key_row k row \<and>
      er_created row = invoke_time q"
    and "size (filter_mset (\<lambda>t. invoke_time q - window \<le> t) (held_times k st)) < nat n"
proof -
  let ?env = "iv_env q" and ?t = "iv_turn q" and ?db = "as_ledger st"
  obtain oc where inv: "invoke_if_directive ?env ?t (iv_roles q) (iv_message q) st = (Inr (Some oc), invoke_step q st)"
    and cap: "operation_capability (oc_operation oc) = lk_capability k" and turn: "key_turn k ?t"
    using assms(1) unfolding completes_def invoke_result_def invoke_step_def
    by (auto split: sum.splits option.splits) (metis prod.collapse)+
  obtain d ev where d: "gates_open ?env ?t (iv_roles q) d ?db"
    "dispatch ?env ?t d (st\<lparr>as_events := ev\<rparr>) = (Inr (Some oc), invoke_step q st)"
    using invoke_started [OF inv] by (auto split: option.splits)
  obtain data a where data: "oc_operation oc = dr_operation d"
    and p: "persist ?env (evidence_for ?env ?t d ''ALLOW'' ''ALLOW'' ''completed'' True data None)
      (st\<lparr>as_events := ev, as_reads := as_reads st @ [(tn_tenant ?t, dr_operation d)]\<rparr>) = (Inr a, invoke_step q st)"
    by (rule dispatch_outcome [OF d(2)]) auto
  have cap': "operation_capability (dr_operation d) = lk_capability k" "ascii (lk_capability k)"
    using cap data ascii_capability by metis+
  have codec: "codec_ok (au_ledger ?env)" using assms(2) by (simp add: served_def)
  have "new_execution ?env ?db" using assms(3) .
  then obtain row where row: "as_ledger (invoke_step q st) = ?db @ au_others ?env @ [row]"
    "records (au_ledger ?env) (evidence_for ?env ?t d ''ALLOW'' ''ALLOW'' ''completed'' True data None) row"
    using persist_row [OF p codec] by (auto simp: evidence_for_def)
  moreover have "key_row k row" "er_created row = invoke_time q"
    using row(2) turn cap' assms(2)
    by (auto simp: records_def evidence_for_def key_row_def key_turn_def served_def invoke_time_def codec_okD(1) [OF codec]
      split: option.splits)
  ultimately show "\<exists>row. as_ledger (invoke_step q st) = ?db @ au_others ?env @ [row] \<and> key_row k row \<and>
      er_created row = invoke_time q" by blast
  have "rate_check (limits_of ?env) (au_countable ?env) (invoke_time q) ?db (lk_capability k) (tn_user ?t) (lk_tenant k) = Inr True"
    using d(1) cap' turn by (simp add: gates_open_def key_turn_def invoke_time_def)
  from rate_check_below [OF this] turn assms(2)
  show "size (filter_mset (\<lambda>t. invoke_time q - window \<le> t) (held_times k st)) < nat n"
    by (auto simp: size_held key_turn_def served_def key_limit_def limits_of_def split: option.splits)
qed

interpretation invocations: sliding_window "served k n" invoke_time
    "\<lambda>q st. completes k q st \<and> new_execution (iv_env q) (as_ledger st)" invoke_step
    "held_times k" "\<lambda>now t. now - window \<le> t" "nat n" for k :: limit_key and n :: int
proof (unfold_locales, goal_cases)
  case (1 q st)
  then show ?case using completes_row(2) by blast
next
  case (2 q st)
  obtain new where new: "as_ledger (invoke_step q st) = as_ledger st @ new"
    using appended_grows [OF invoke_step_appended] by blast
  have keep: "filter_mset P (held_times k st) \<subseteq># held_times k st" for P by simp
  show ?case
  proof (cases "completes k q st \<and> new_execution (iv_env q) (as_ledger st)")
    case True
    with 2 obtain row where "as_ledger (invoke_step q st) = as_ledger st @ au_others (iv_env q) @ [row]"
        "key_row k row" "er_created row = invoke_time q"
      using completes_row(1) by blast
    then have "held_times k (invoke_step q st) =
        held_times k st + (held_times k (st\<lparr>as_ledger := au_others (iv_env q)\<rparr>) + {#invoke_time q#})"
      by (simp add: held_times_def)
    with True show ?thesis by (auto intro: subset_mset.order_trans [OF keep])
  next
    case False
    with held_grows [OF new, of k] show ?thesis by (auto intro: subset_mset.order_trans [OF keep])
  qed
next
  case (3 now' t now)
  then show ?case by simp
qed

lemma completed_times_eq: "completed_times k qs st = invocations.granted k qs st"
  by (induction qs arbitrary: st) simp_all

section \<open>The ledger over a run\<close>

text \<open>A request of the deployment whose ledger has the functions of \<open>base\<close>, with no others beside it.\<close>

definition serial :: "ledger_env \<Rightarrow> invocation \<Rightarrow> audit_state \<Rightarrow> bool" where
  "serial base q st \<longleftrightarrow> same_codec (au_ledger (iv_env q)) base \<and> codec_ok base \<and> au_others (iv_env q) = []"

definition audit_grows :: "audit_state \<Rightarrow> audit_state \<Rightarrow> bool" where
  "audit_grows st st' \<longleftrightarrow> (\<exists>new. as_ledger st' = as_ledger st @ new)"

lemma codec_ok_same: "same_codec a b \<Longrightarrow> codec_ok a = codec_ok b"
  by (simp add: same_codec_def codec_ok_def)

interpretation audits: monotone_system "serial base" invoke_step "\<lambda>st. ledger_ok base (as_ledger st)" audit_grows
  for base :: ledger_env
proof (unfold_locales, goal_cases)
  case (1 q st)
  then show ?case
    using appended_ok [OF invoke_step_appended [of q st]] codec_ok_same ledger_ok_codec by (auto simp: serial_def)
next
  case (3 s t u)
  then show ?case by (auto simp: audit_grows_def)
next
  case (4 q st)
  show ?case using appended_grows [OF invoke_step_appended [of q st]] by (simp add: audit_grows_def)
qed (simp add: audit_grows_def)

end
