(* ===== verification/Audit_Policy_Facts.thy ===== *)
theory Audit_Policy_Facts
  imports Audit_Directive
begin

text \<open>
  Lemmas on the policy that \<open>from_env\<close> accepts: every number lies in its range, what a switch needs is
  there when the switch is on, and what that means for running Python.
\<close>

lemma env_intD:
  "\<lbrakk>env_int env name fallback minimum maximum = Inr v; minimum \<le> fallback; fallback \<le> maximum\<rbrakk>
    \<Longrightarrow> minimum \<le> v \<and> v \<le> maximum"
  by (auto simp: env_int_def split: if_splits option.splits)

definition float_in :: "py_float \<Rightarrow> rat \<Rightarrow> rat \<Rightarrow> bool" where
  "float_in v minimum maximum \<longleftrightarrow> \<not> float_less v (Finite minimum) \<and> \<not> float_less (Finite maximum) v"

lemma env_floatD:
  "\<lbrakk>env_float ps env name fallback minimum maximum = Inr v; minimum \<le> fallback; fallback \<le> maximum\<rbrakk>
    \<Longrightarrow> float_in v minimum maximum"
  by (auto simp: env_float_def float_in_def split: if_splits option.splits)

lemma env_choiceD: "env_choice env name fallback allowed = Inr v \<Longrightarrow> v \<in> set allowed"
  by (auto simp: env_choice_def Let_def split: if_splits)

lemma runtime_signing_keyD: "runtime_signing_key env name = Inr v \<Longrightarrow> v = [] \<or> 32 \<le> length v"
  by (auto simp: runtime_signing_key_def Let_def split: if_splits)

lemma runtime_image_digestD:
  "runtime_image_digest env name = Inr v \<Longrightarrow> v = [] \<or> py_startswith v ''sha256:'' \<and> length v = 71"
  by (auto simp: runtime_image_digest_def Let_def split: if_splits)

text \<open>A base URL that is given is https, or http to this host in development and test.\<close>

definition base_url_ok :: "parsers \<Rightarrow> string \<Rightarrow> string \<Rightarrow> bool" where
  "base_url_ok ps environment url \<longleftrightarrow> url = [] \<or> (\<exists>u. ps_url ps url = Some u \<and> ur_netloc u \<noteq> [] \<and>
     \<not> has_text (ur_username u) \<and> \<not> has_text (ur_password u) \<and> ur_query u = [] \<and> ur_fragment u = [] \<and>
     (ur_scheme u = ''https'' \<or> environment \<in> {''development'', ''test''} \<and> ur_scheme u = ''http'' \<and>
        ur_hostname u \<in> {Some ''127.0.0.1'', Some ''localhost''}))"

lemma python_runtime_base_urlD: "python_runtime_base_url ps env environment = Inr url \<Longrightarrow> base_url_ok ps environment url"
  by (auto simp: python_runtime_base_url_def base_url_ok_def Let_def split: if_splits option.splits)

lemma collect_items_ok:
  "\<lbrakk>collect_items ok error got items = Inr found; [] \<notin> set got\<rbrakk> \<Longrightarrow> [] \<notin> set found"
proof (induction items arbitrary: got)
  case (Cons item items)
  then show ?case by (cases "item = []"; cases "ok item"; cases "item \<in> set got") auto
qed simp

lemma csv_tokensD: "csv_tokens env name = Inr found \<Longrightarrow> [] \<notin> set found"
  unfolding csv_tokens_def by (erule collect_items_ok) simp

definition policy_in_bounds :: "parsers \<Rightarrow> capability_policy \<Rightarrow> bool" where
  "policy_in_bounds ps p \<longleftrightarrow>
     1 \<le> cp_user_limit p \<and> cp_user_limit p \<le> 100 \<and> cp_user_limit p \<le> cp_tenant_limit p \<and>
     cp_tenant_limit p \<le> 1000 \<and> 1 \<le> cp_directive_limit p \<and> cp_directive_limit p \<le> 100 \<and> cp_rate_window p = 60 \<and>
     1024 \<le> cp_audit_max_output p \<and> cp_audit_max_output p \<le> 1000000 \<and> float_in (cp_audit_timeout p) (1/4) 15 \<and>
     256 \<le> cp_python_max_code p \<and> cp_python_max_code p \<le> 100000 \<and>
     1024 \<le> cp_python_max_output p \<and> cp_python_max_output p \<le> 250000 \<and> float_in (cp_python_timeout p) (1/4) 10 \<and>
     1024 \<le> cp_external_max_bytes p \<and> cp_external_max_bytes p \<le> 2000000 \<and>
     1 \<le> cp_external_max_urls p \<and> cp_external_max_urls p \<le> 4 \<and> float_in (cp_external_timeout p) (1/2) 15 \<and>
     64 \<le> cp_memory p \<and> cp_memory p \<le> 8192 \<and> 1 \<le> cp_processes p \<and> cp_processes p \<le> 128 \<and>
     0 \<le> cp_output_files p \<and> cp_output_files p \<le> 32 \<and> 0 \<le> cp_output_bytes p \<and> cp_output_bytes p \<le> 100000000 \<and>
     5 \<le> cp_request_ttl p \<and> cp_request_ttl p \<le> 120 \<and>
     cp_mode p \<in> {''disabled'', ''legacy_local_test'', ''external''} \<and>
     (cp_signing_key p = [] \<or> 32 \<le> length (cp_signing_key p)) \<and>
     (cp_image p = [] \<or> py_startswith (cp_image p) ''sha256:'' \<and> length (cp_image p) = 71) \<and>
     base_url_ok ps (cp_environment p) (cp_base_url p) \<and>
     [] \<notin> set (cp_audit_tenants p) \<and> [] \<notin> set (cp_audit_agents p) \<and>
     (cp_external_enabled p \<longrightarrow> cp_external_domains p \<noteq> [])"

text \<open>What each field was read as.\<close>

lemma bindE: "\<lbrakk>bind m f = Inr y; \<And>x. \<lbrakk>m = Inr x; f x = Inr y\<rbrakk> \<Longrightarrow> P\<rbrakk> \<Longrightarrow> P"
  by (auto simp: bind_Inr)

lemma checkE: "\<lbrakk>(case policy_error q of None \<Rightarrow> Inr q | Some e \<Rightarrow> Inl e) = Inr p; \<lbrakk>policy_error q = None; p = q\<rbrakk> \<Longrightarrow> P\<rbrakk> \<Longrightarrow> P"
  by (auto split: option.splits)

lemma from_env_all:
  assumes "from_env ps env = Inr p"
  shows "policy_error p = None \<and>
    env_float ps env ''PLATFORM_PYTHON_TOOL_TIMEOUT_SECONDS'' 3 (1/4) 10 = Inr (cp_python_timeout p) \<and>
    env_int env ''PLATFORM_PYTHON_TOOL_MAX_CODE_BYTES'' 20000 256 100000 = Inr (cp_python_max_code p) \<and>
    env_int env ''PLATFORM_PYTHON_TOOL_MAX_OUTPUT_BYTES'' 64000 1024 250000 = Inr (cp_python_max_output p) \<and>
    env_float ps env ''PLATFORM_EXTERNAL_READ_TIMEOUT_SECONDS'' 5 (1/2) 15 = Inr (cp_external_timeout p) \<and>
    env_int env ''PLATFORM_EXTERNAL_READ_MAX_BYTES'' 500000 1024 2000000 = Inr (cp_external_max_bytes p) \<and>
    env_int env ''PLATFORM_EXTERNAL_READ_MAX_URLS_PER_TURN'' 2 1 4 = Inr (cp_external_max_urls p) \<and>
    env_choice env ''PLATFORM_PYTHON_RUNTIME_MODE'' ''disabled''
      [''disabled'', ''legacy_local_test'', ''external''] = Inr (cp_mode p) \<and>
    env_choice env ''PLATFORM_PYTHON_RUNTIME_ADAPTER'' ''unconfigured'' [''unconfigured'', ''remote_http''] =
      Inr (cp_adapter p) \<and>
    python_runtime_base_url ps env (cp_environment p) = Inr (cp_base_url p) \<and>
    runtime_signing_key env ''PLATFORM_PYTHON_SANDBOX_SIGNING_KEY'' = Inr (cp_signing_key p) \<and>
    runtime_image_digest env ''PLATFORM_PYTHON_SANDBOX_EXPECTED_IMAGE_DIGEST'' = Inr (cp_image p) \<and>
    env_int env ''PLATFORM_PYTHON_SANDBOX_REQUEST_TTL_SECONDS'' 30 5 120 = Inr (cp_request_ttl p) \<and>
    env_int env ''PLATFORM_PYTHON_SANDBOX_MEMORY_MB'' 512 64 8192 = Inr (cp_memory p) \<and>
    env_int env ''PLATFORM_PYTHON_SANDBOX_MAX_PROCESSES'' 16 1 128 = Inr (cp_processes p) \<and>
    env_int env ''PLATFORM_PYTHON_SANDBOX_MAX_OUTPUT_FILES'' 8 0 32 = Inr (cp_output_files p) \<and>
    env_int env ''PLATFORM_PYTHON_SANDBOX_MAX_OUTPUT_BYTES'' 10000000 0 100000000 = Inr (cp_output_bytes p) \<and>
    csv_tokens env ''PLATFORM_AUDIT_ALLOWED_AGENT_IDS'' = Inr (cp_audit_agents p) \<and>
    csv_tokens env ''PLATFORM_AUDIT_ALLOWED_TENANT_IDS'' = Inr (cp_audit_tenants p) \<and>
    env_float ps env ''PLATFORM_AUDIT_TIMEOUT_SECONDS'' 3 (1/4) 15 = Inr (cp_audit_timeout p) \<and>
    env_int env ''PLATFORM_AUDIT_MAX_OUTPUT_BYTES'' 128000 1024 1000000 = Inr (cp_audit_max_output p) \<and>
    env_int env ''PLATFORM_AUDIT_RATE_LIMIT_WINDOW_SECONDS'' 60 60 60 = Inr (cp_rate_window p) \<and>
    env_int env ''PLATFORM_AUDIT_USER_RATE_LIMIT_PER_WINDOW'' 4 1 100 = Inr (cp_user_limit p) \<and>
    env_int env ''PLATFORM_AUDIT_TENANT_RATE_LIMIT_PER_WINDOW'' 20 1 1000 = Inr (cp_tenant_limit p) \<and>
    env_int env ''PLATFORM_AUDIT_DIRECTIVE_USER_RATE_LIMIT'' 12 1 100 = Inr (cp_directive_limit p)"
  using assms unfolding from_env_def Let_def
  by (elim bindE checkE) (simp only: capability_policy.select_convs simp_thms)

lemma from_env_fields:
  assumes "from_env ps env = Inr p"
  shows "policy_error p = None"
    and "env_float ps env ''PLATFORM_PYTHON_TOOL_TIMEOUT_SECONDS'' 3 (1/4) 10 = Inr (cp_python_timeout p)"
    and "env_int env ''PLATFORM_PYTHON_TOOL_MAX_CODE_BYTES'' 20000 256 100000 = Inr (cp_python_max_code p)"
    and "env_int env ''PLATFORM_PYTHON_TOOL_MAX_OUTPUT_BYTES'' 64000 1024 250000 = Inr (cp_python_max_output p)"
    and "env_float ps env ''PLATFORM_EXTERNAL_READ_TIMEOUT_SECONDS'' 5 (1/2) 15 = Inr (cp_external_timeout p)"
    and "env_int env ''PLATFORM_EXTERNAL_READ_MAX_BYTES'' 500000 1024 2000000 = Inr (cp_external_max_bytes p)"
    and "env_int env ''PLATFORM_EXTERNAL_READ_MAX_URLS_PER_TURN'' 2 1 4 = Inr (cp_external_max_urls p)"
    and "env_choice env ''PLATFORM_PYTHON_RUNTIME_MODE'' ''disabled''
      [''disabled'', ''legacy_local_test'', ''external''] = Inr (cp_mode p)"
    and "env_choice env ''PLATFORM_PYTHON_RUNTIME_ADAPTER'' ''unconfigured'' [''unconfigured'', ''remote_http''] =
      Inr (cp_adapter p)"
    and "python_runtime_base_url ps env (cp_environment p) = Inr (cp_base_url p)"
    and "runtime_signing_key env ''PLATFORM_PYTHON_SANDBOX_SIGNING_KEY'' = Inr (cp_signing_key p)"
    and "runtime_image_digest env ''PLATFORM_PYTHON_SANDBOX_EXPECTED_IMAGE_DIGEST'' = Inr (cp_image p)"
    and "env_int env ''PLATFORM_PYTHON_SANDBOX_REQUEST_TTL_SECONDS'' 30 5 120 = Inr (cp_request_ttl p)"
    and "env_int env ''PLATFORM_PYTHON_SANDBOX_MEMORY_MB'' 512 64 8192 = Inr (cp_memory p)"
    and "env_int env ''PLATFORM_PYTHON_SANDBOX_MAX_PROCESSES'' 16 1 128 = Inr (cp_processes p)"
    and "env_int env ''PLATFORM_PYTHON_SANDBOX_MAX_OUTPUT_FILES'' 8 0 32 = Inr (cp_output_files p)"
    and "env_int env ''PLATFORM_PYTHON_SANDBOX_MAX_OUTPUT_BYTES'' 10000000 0 100000000 = Inr (cp_output_bytes p)"
    and "csv_tokens env ''PLATFORM_AUDIT_ALLOWED_AGENT_IDS'' = Inr (cp_audit_agents p)"
    and "csv_tokens env ''PLATFORM_AUDIT_ALLOWED_TENANT_IDS'' = Inr (cp_audit_tenants p)"
    and "env_float ps env ''PLATFORM_AUDIT_TIMEOUT_SECONDS'' 3 (1/4) 15 = Inr (cp_audit_timeout p)"
    and "env_int env ''PLATFORM_AUDIT_MAX_OUTPUT_BYTES'' 128000 1024 1000000 = Inr (cp_audit_max_output p)"
    and "env_int env ''PLATFORM_AUDIT_RATE_LIMIT_WINDOW_SECONDS'' 60 60 60 = Inr (cp_rate_window p)"
    and "env_int env ''PLATFORM_AUDIT_USER_RATE_LIMIT_PER_WINDOW'' 4 1 100 = Inr (cp_user_limit p)"
    and "env_int env ''PLATFORM_AUDIT_TENANT_RATE_LIMIT_PER_WINDOW'' 20 1 1000 = Inr (cp_tenant_limit p)"
    and "env_int env ''PLATFORM_AUDIT_DIRECTIVE_USER_RATE_LIMIT'' 12 1 100 = Inr (cp_directive_limit p)"
  using from_env_all [OF assms] by simp_all

lemma policy_errorD:
  assumes "policy_error p = None"
  shows "cp_external_enabled p \<Longrightarrow> cp_external_domains p \<noteq> []" and "cp_user_limit p \<le> cp_tenant_limit p"
    and "\<lbrakk>cp_mode p = ''external''; cp_adapter p = ''remote_http''\<rbrakk> \<Longrightarrow> cp_base_url p \<noteq> [] \<and> cp_api_token p \<noteq> [] \<and>
      cp_signing_key p \<noteq> [] \<and> cp_provider p \<noteq> [] \<and> cp_image p \<noteq> []"
  using assms by (auto simp: policy_error_def split: if_splits)

lemma from_env_bounds:
  assumes "from_env ps env = Inr p"
  shows "policy_in_bounds ps p"
proof -
  note F = from_env_fields [OF assms] and E = policy_errorD [OF from_env_fields(1) [OF assms]]
  have python_max_code: "256 \<le> cp_python_max_code p \<and> cp_python_max_code p \<le> 100000"
    by (rule env_intD [OF F(3)]) simp_all
  have python_max_output: "1024 \<le> cp_python_max_output p \<and> cp_python_max_output p \<le> 250000"
    by (rule env_intD [OF F(4)]) simp_all
  have external_max_bytes: "1024 \<le> cp_external_max_bytes p \<and> cp_external_max_bytes p \<le> 2000000"
    by (rule env_intD [OF F(6)]) simp_all
  have external_max_urls: "1 \<le> cp_external_max_urls p \<and> cp_external_max_urls p \<le> 4"
    by (rule env_intD [OF F(7)]) simp_all
  have request_ttl: "5 \<le> cp_request_ttl p \<and> cp_request_ttl p \<le> 120"
    by (rule env_intD [OF F(13)]) simp_all
  have memory: "64 \<le> cp_memory p \<and> cp_memory p \<le> 8192"
    by (rule env_intD [OF F(14)]) simp_all
  have processes: "1 \<le> cp_processes p \<and> cp_processes p \<le> 128"
    by (rule env_intD [OF F(15)]) simp_all
  have output_files: "0 \<le> cp_output_files p \<and> cp_output_files p \<le> 32"
    by (rule env_intD [OF F(16)]) simp_all
  have output_bytes: "0 \<le> cp_output_bytes p \<and> cp_output_bytes p \<le> 100000000"
    by (rule env_intD [OF F(17)]) simp_all
  have audit_max_output: "1024 \<le> cp_audit_max_output p \<and> cp_audit_max_output p \<le> 1000000"
    by (rule env_intD [OF F(21)]) simp_all
  have rate_window: "60 \<le> cp_rate_window p \<and> cp_rate_window p \<le> 60"
    by (rule env_intD [OF F(22)]) simp_all
  have user_limit: "1 \<le> cp_user_limit p \<and> cp_user_limit p \<le> 100"
    by (rule env_intD [OF F(23)]) simp_all
  have tenant_limit: "1 \<le> cp_tenant_limit p \<and> cp_tenant_limit p \<le> 1000"
    by (rule env_intD [OF F(24)]) simp_all
  have directive_limit: "1 \<le> cp_directive_limit p \<and> cp_directive_limit p \<le> 100"
    by (rule env_intD [OF F(25)]) simp_all
  have python_timeout: "float_in (cp_python_timeout p) (1/4) 10"
    by (rule env_floatD [OF F(2)]) simp_all
  have external_timeout: "float_in (cp_external_timeout p) (1/2) 15"
    by (rule env_floatD [OF F(5)]) simp_all
  have audit_timeout: "float_in (cp_audit_timeout p) (1/4) 15"
    by (rule env_floatD [OF F(20)]) simp_all
  have "cp_rate_window p = 60" and "cp_external_enabled p \<longrightarrow> cp_external_domains p \<noteq> []"
    using rate_window E(1) by (linarith, blast)
  then show ?thesis
    unfolding policy_in_bounds_def
    using python_max_code python_max_output external_max_bytes external_max_urls request_ttl memory processes output_files output_bytes audit_max_output rate_window user_limit tenant_limit directive_limit python_timeout external_timeout audit_timeout
      env_choiceD [OF F(8)] runtime_signing_keyD [OF F(11)]
      runtime_image_digestD [OF F(12)] python_runtime_base_urlD [OF F(10)]
      csv_tokensD [OF F(19)] csv_tokensD [OF F(18)] E(2)
    by (intro conjI) (simp_all only: list.set simp_thms)
qed

text \<open>Python runs only for a privileged user, and only in one of the two ways.\<close>

lemma python_execute:
  assumes "from_env ps env = Inr p" and "rs_execute (python_runtime_state p privileged)"
  shows "privileged \<and> cp_python_enabled p \<and>
    (cp_mode p = ''legacy_local_test'' \<and> cp_legacy p \<and> cp_environment p \<in> {''development'', ''test''} \<or>
     cp_mode p = ''external'' \<and> cp_adapter p = ''remote_http'' \<and> cp_qualified p \<and> 32 \<le> length (cp_signing_key p) \<and>
       py_startswith (cp_image p) ''sha256:'' \<and> length (cp_image p) = 71 \<and> cp_api_token p \<noteq> [] \<and>
       cp_base_url p \<noteq> [] \<and> base_url_ok ps (cp_environment p) (cp_base_url p))"
  using from_env_bounds [OF assms(1)] assms(2)
  by (auto simp: python_runtime_state_def policy_in_bounds_def Let_def)

end
