(* ===== verification/Audit_Properties.thy ===== *)
theory Audit_Properties
  imports Audit_Runs Audit_Policy_Facts
begin

text \<open>
  The properties of the audit plane. Their witnesses are in Audit_Example.
\<close>

text \<open>C5. An /audit message gets an outcome only when every gate was open, and then exactly one row was
  added, which records the completed execution of this tenant's operation, has the digest the outcome
  cites, contains no secret and verifies.\<close>

theorem governed_outcome:
  assumes "invoke_if_directive env t roles message st = (Inr (Some oc), st')"
    and "codec_ok (au_ledger env)" and "new_execution env (as_ledger st)"
  shows "\<exists>d row encoded. parse_audit_directive (au_decode env) message = Inr (Some d) \<and>
    oc_operation oc = dr_operation d \<and> gates_open env t roles d (as_ledger st) \<and>
    as_ledger st' = as_ledger st @ au_others env @ [row] \<and>
    er_decision row = JStr ''ALLOW'' \<and> er_status row = JStr ''completed'' \<and>
    er_tenant row = JStr (le_nfc (au_ledger env) (tn_tenant t)) \<and>
    er_capability row = JStr (operation_capability (dr_operation d)) \<and>
    canonicalize_evidence (au_ledger env) (er_envelope row) = Inr encoded \<and>
    rf_sha256 (oc_reference oc) = le_sha256 (au_ledger env) encoded \<and>
    detect_high_confidence_secrets encoded = [] \<and>
    verify_persisted_evidence (au_ledger env) (er_tenant row) (er_id row) (as_ledger st') = Inr row"
proof -
  obtain d ev where d: "parse_audit_directive (au_decode env) message = Inr (Some d)"
    "gates_open env t roles d (as_ledger st)"
    "dispatch env t d (st\<lparr>as_events := ev\<rparr>) = (Inr (Some oc), st')"
    using invoke_started [OF assms(1)] by (auto split: option.splits)
  obtain data a where o: "oc_operation oc = dr_operation d" "rf_sha256 (oc_reference oc) = ar_sha256 a"
    and p: "persist env (evidence_for env t d ''ALLOW'' ''ALLOW'' ''completed'' True data None)
      (st\<lparr>as_events := ev, as_reads := as_reads st @ [(tn_tenant t, dr_operation d)]\<rparr>) = (Inr a, st')"
    by (rule dispatch_outcome [OF d(3)]) auto
  have "ev_execution (evidence_for env t d ''ALLOW'' ''ALLOW'' ''completed'' True data None) = au_execution env"
    by (simp add: evidence_for_def)
  from persist_row [OF p assms(2) this] assms(3) obtain row encoded where
    row: "as_ledger st' = as_ledger st @ au_others env @ [row]"
      "records (au_ledger env) (evidence_for env t d ''ALLOW'' ''ALLOW'' ''completed'' True data None) row"
      "canonicalize_evidence (au_ledger env) (er_envelope row) = Inr encoded"
      "ar_sha256 a = le_sha256 (au_ledger env) encoded"
      "verify_persisted_evidence (au_ledger env) (er_tenant row) (er_id row) (as_ledger st') = Inr row"
    by auto
  have "le_nfc (au_ledger env) (operation_capability (dr_operation d)) = operation_capability (dr_operation d)"
    by (rule codec_okD(1) [OF assms(2) ascii_capability])
  moreover have "le_nfc (au_ledger env) ''ALLOW'' = ''ALLOW''" "le_nfc (au_ledger env) ''completed'' = ''completed''"
    by (simp_all add: codec_okD(1) [OF assms(2)] ascii_def)
  ultimately have "er_decision row = JStr ''ALLOW''" "er_status row = JStr ''completed''"
    "er_tenant row = JStr (le_nfc (au_ledger env) (tn_tenant t))"
    "er_capability row = JStr (operation_capability (dr_operation d))"
    using row(2) by (simp_all add: records_def evidence_for_def)
  with d o row canonical_no_secret [OF row(3)] show ?thesis by auto
qed

text \<open>C19. An operation is started at most once per message, for the tenant of the turn, and only when
  every gate was open; a refused message starts nothing.\<close>

theorem reads_only_behind_gates:
  "(case started env t roles message st of
      None \<Rightarrow> as_reads (snd (invoke_if_directive env t roles message st)) = as_reads st
    | Some d \<Rightarrow> gates_open env t roles d (as_ledger st) \<and>
        as_reads (snd (invoke_if_directive env t roles message st)) =
          as_reads st @ [(tn_tenant t, dr_operation d)])"
  using invoke_started [of env t roles message st] by (auto split: option.splits simp: prod_eq_iff)

text \<open>C17. The outcome of an operation on an artifact is the sanitized result of reading the bytes of an
  artifact of the turn's own tenant, from below that tenant's directory, with the recorded digest.\<close>

theorem outcome_artifact_of_tenant:
  assumes "invoke_if_directive env t roles message st = (Inr (Some oc), st')"
    and "oc_operation oc \<notin> {Runtime_Sha256, Runtime_Search}"
  shows "\<exists>d a v raw parts res w ch. parse_audit_directive (au_decode env) message = Inr (Some d) \<and>
    a \<in> set (au_artifacts env) \<and> af_id a = arg_text d ''artifact_id'' \<and> af_tenant a = tn_tenant t \<and>
    le_sha256 (au_ledger env) (vf_raw v) = py_lower (py_strip (af_sha256 a)) \<and>
    hd parts = tn_tenant t \<and> ''..'' \<notin> set parts \<and>
    entry_at (au_storage env) parts = Some (Fs_File (vf_identity v) raw) \<and>
    read_artifact env d v = Inr res \<and> sanitize 0 (JObj res) = Inr (w, ch) \<and>
    obj_get (dict_items (oc_data oc)) ''result'' = w"
proof -
  obtain d ev where d: "parse_audit_directive (au_decode env) message = Inr (Some d)"
    "dispatch env t d (st\<lparr>as_events := ev\<rparr>) = (Inr (Some oc), st')"
    using invoke_started [OF assms(1)] by (auto split: option.splits)
  obtain data where data: "execute env t d = Inr data" "oc_operation oc = dr_operation d" "oc_data oc = JObj data"
    by (rule dispatch_outcome [OF d(2)]) auto
  obtain g res binding checks where g: "data = completed_data d binding checks g"
    "run_operation env d (tn_tenant t) = Inr res"
    "guard_execute (nat (cp_audit_max_output (au_policy env))) (au_timed_out env) (Inr (JObj res)) = Inr g"
    using data(1) unfolding execute_def Let_def
    by (cases "run_operation env d (tn_tenant t)") (auto simp: guard_execute_def split: sum.splits json.splits if_splits)
  obtain w ch where w: "sanitize 0 (JObj res) = Inr (w, ch)" "gd_data g = w"
    using g(3) by (auto simp: guard_execute_def split: sum.splits if_splits prod.splits)
  have "dr_operation d \<notin> {Runtime_Sha256, Runtime_Search}" using assms(2) data(2) by simp
  with g(2) obtain v where v: "open_artifact env (arg_text d ''artifact_id'') (tn_tenant t) = Inr v"
      "read_artifact env d v = Inr res"
    by (auto simp: run_operation_def Let_def split: operation.splits sum.splits)
  then obtain roots where roots: "path_policy [(''artifact-storage'', True, au_storage env)] = Inr roots"
      "resolve_artifact (le_sha256 (au_ledger env)) roots (au_race env) (au_artifacts env)
        (arg_text d ''artifact_id'') (tn_tenant t) = Inr v"
    by (auto simp: open_artifact_def split: sum.splits if_splits)
  have "py_strip ''artifact-storage'' = ''artifact-storage''" by code_simp
  with roots(1) have "roots = [(''artifact-storage'', au_storage env)]"
    by (auto split: fs_node.splits if_splits)
  with roots(2) obtain a parts raw where "a \<in> set (au_artifacts env)" "af_id a = arg_text d ''artifact_id''"
      "af_tenant a = tn_tenant t" "le_sha256 (au_ledger env) (vf_raw v) = py_lower (py_strip (af_sha256 a))"
      "hd parts = tn_tenant t" "''..'' \<notin> set parts" "entry_at (au_storage env) parts = Some (Fs_File (vf_identity v) raw)"
    by (auto elim!: resolve_artifactD)
  moreover have "obj_get (dict_items (oc_data oc)) ''result'' = w"
    using data(3) g(1) w(2) by (simp add: completed_data_def obj_get_def)
  ultimately show ?thesis using d(1) v(2) w(1) by blast
qed


text \<open>The instants at which the limiter of directives let a text of one tenant and user through.\<close>

fun accepted_times :: "int \<Rightarrow> string \<times> string \<Rightarrow> attempt list \<Rightarrow> events \<Rightarrow> int list" where
  "accepted_times limit key [] ev = []"
| "accepted_times limit key (a # as) ev =
     (if snd a = key \<and> fst (consume limit (fst a) key ev) then [fst a] else []) @
     accepted_times limit key as (snd (consume limit (fst a) (snd a) ev))"

lemma accepted_times_eq: "accepted_times limit key as ev = directives.granted limit key as ev"
  by (induction "as" arbitrary: ev) (simp_all add: consume_ok_def consume_step_def)

text \<open>C31. In any minute the process accepts at most the configured number of /audit texts of a user,
  malformed ones included.\<close>

theorem directives_within_limit:
  assumes "sorted (map fst as)"
  shows "length (filter (\<lambda>u. a - window < u \<and> u \<le> a) (accepted_times limit key as ev)) \<le> nat limit"
  unfolding accepted_times_eq by (rule directives.window_bound [OF assms]) (simp add: list_all_iff)

text \<open>C18. After any serial run of messages every row of the ledger, new or old, verifies: its digest is
  that of its envelope and its columns are bound to it; no row is changed or removed.\<close>

theorem ledger_verifiable_forever:
  assumes "run_ok (serial base) invoke_step qs st" and "ledger_ok base (as_ledger st)"
  shows "\<exists>new. as_ledger (fold invoke_step qs st) = as_ledger st @ new \<and>
    (\<forall>r \<in> set (as_ledger st @ new).
      verify_persisted_evidence base (er_tenant r) (er_id r) (as_ledger st @ new) = Inr r)"
proof -
  obtain new where "as_ledger (fold invoke_step qs st) = as_ledger st @ new"
    using audits.run_grows [OF assms] by (auto simp: audit_grows_def)
  moreover have "ledger_ok base (as_ledger (fold invoke_step qs st))"
    by (rule audits.run_inv [OF assms])
  ultimately show ?thesis using sealed_verifies by metis
qed

text \<open>C13. An append is a write to a write-once map from execution ids to digests: when it answers, the
  digest it returns is that of the evidence given, the map has it at the id and is otherwise the same, it says replay exactly when the id was there,
  and the row verifies; when it fails, no earlier entry is changed.\<close>

theorem append_write_once:
  assumes "append_evidence env f [] e db = (r, db')" and "ledger_ok env db" and "codec_ok env"
  shows "case r of
      Inl x \<Rightarrow> digests db \<subseteq>\<^sub>m digests db'
    | Inr a \<Rightarrow> let i = JStr (le_nfc env (ev_execution e)) in
        (\<exists>p. payload_of_envelope env e = Inr p \<and> evidence_sha256 env p = Inr (ar_sha256 a)) \<and>
        digests db' = (digests db)(i \<mapsto> ar_sha256 a) \<and> digests db i \<in> {None, Some (ar_sha256 a)} \<and>
        (ar_replay a \<longleftrightarrow> digests db i \<noteq> None) \<and>
        (\<exists>row \<in> set db'. er_id row = ar_record a \<and> er_execution row = i \<and> er_sha256 row = ar_sha256 a \<and>
          verify_persisted_evidence env (er_tenant row) (er_id row) db' = Inr row)"
proof (cases r)
  case (Inl x)
  have "\<exists>new. db' = db @ new"
    using assms(1) append_payload_grows by (auto simp: append_evidence_def split: sum.splits)
  then show ?thesis using Inl digests_grow by (auto simp: map_le_def)
next
  case (Inr a)
  then obtain p where p: "payload_of_envelope env e = Inr p" "append_payload env f [] p db = (Inr a, db')"
    using assms(1) by (auto simp: append_evidence_def split: sum.splits)
  note O = append_payload_once [OF p(2) assms(2,3), unfolded payload_columns(1) [OF p(1) assms(3)]]
  have "digests db (JStr (le_nfc env (ev_execution e))) \<in> {None, Some (ar_sha256 a)}"
    using O(1,2) append_payload_replay [OF p(2)] by (cases "ar_replay a") (auto simp: fun_eq_iff split: if_splits)
  with O Inr p(1) append_payload_digest [OF p(2)] show ?thesis by (auto simp: Let_def)
qed

text \<open>C21. A file that the path policy opens lies below the registered root on a path without dots, links or
  names of secrets, and it is the very file that was examined: between the two looks nothing was exchanged.\<close>

theorem verified_file_contained:
  assumes "open_verified_file roots race root_id path = Inr v"
  shows "\<exists>root raw. map_of roots root_id = Some root \<and> \<not> is_absolute path \<and> ''..'' \<notin> set (pure_parts path) \<and>
    (\<forall>p \<in> set (pure_parts path). \<not> secret_like_part p) \<and>
    entry_at root (pure_parts path) = Some (Fs_File (vf_identity v) raw) \<and>
    race (Fs_File (vf_identity v) raw) = Some (Fs_File (vf_identity v) (vf_raw v))"
proof -
  obtain root parts raw where *: "map_of roots root_id = Some root" "safe_components path = Inr parts"
    "entry_at root parts = Some (Fs_File (vf_identity v) raw)"
    "race (Fs_File (vf_identity v) raw) = Some (Fs_File (vf_identity v) (vf_raw v))"
    by (rule open_verified_fileD [OF assms])
  with safe_componentsD [OF *(2)] show ?thesis by auto
qed

text \<open>C33. Reading a file page by page, each page beginning where the last one ended, gives the whole text
  of the file, when pages have at least four bytes.\<close>

theorem pages_cover_file:
  assumes "read_full_safe_text v = Inr raw" and "4 \<le> max_bytes" and "max_bytes \<le> 64000"
  shows "read_pages (Suc (vf_size v)) v 0 max_bytes = Some (vf_raw v)"
  using read_pages_from [OF assms, of 0 "Suc (vf_size v)"] read_full_safe_textD [OF assms(1)]
  by (simp add: vf_size_def)

text \<open>C35. The marker search reports occurrences of the marker in the scanned part, none that overlap, with
  their lines, and it reports none only when there is none.\<close>

theorem marker_found_exactly:
  assumes "find_literal_marker sha v marker max_scan max_matches = Inr res"
  shows "\<exists>offsets. let scan = take (nat (case max_scan of None \<Rightarrow> 1000000 | Some n \<Rightarrow> n)) (vf_raw v) in
    (\<forall>i \<in> set offsets. py_startswith (drop i scan) marker) \<and>
    sorted_wrt (\<lambda>i j. i + length marker \<le> j) offsets \<and>
    (offsets = [] \<longleftrightarrow> (\<nexists>p q. scan = p @ marker @ q)) \<and>
    obj_get res ''marker_found'' = JBool (offsets \<noteq> []) \<and>
    obj_get res ''match_count'' = JInt (int (length offsets)) \<and>
    obj_get res ''line_numbers'' = JList (map (\<lambda>i. JInt (int (count_list (take i scan) (CHR 0x0A) + 1)))
      (take (nat max_matches) offsets))"
proof -
  let ?scan = "take (nat (case max_scan of None \<Rightarrow> 1000000 | Some n \<Rightarrow> n)) (vf_raw v)"
  let ?offsets = "marker_offsets marker 0 0 ?scan"
  obtain m where m: "validate_marker marker = Inr m" "read_full_safe_text v = Inr (vf_raw v)"
    using assms read_full_safe_textD unfolding find_literal_marker_def Let_def
    by (auto split: sum.splits if_splits)
  then have marker: "m = marker" "marker \<noteq> []"
    by (auto simp: validate_marker_def no_secrets_def split: if_splits option.splits)
  have "obj_get res ''marker_found'' = JBool (?offsets \<noteq> [])"
    "obj_get res ''match_count'' = JInt (int (length ?offsets))"
    "obj_get res ''line_numbers'' = JList (map (\<lambda>i. JInt (int (line_number ?scan i))) (take (nat max_matches) ?offsets))"
    using assms m marker unfolding find_literal_marker_def Let_def
    by (auto simp: obj_get_def reference_def split: if_splits)
  with marker_offsets_sound [of _ marker 0 0 ?scan] marker_offsets_apart [OF marker(2), of 0 0 ?scan]
    marker_offsets_found [OF marker(2), of 0 ?scan]
  show ?thesis by (intro exI [of _ ?offsets]) (auto simp: Let_def line_number_def)
qed

text \<open>C32. An archive that passes the checks has at most 512 entries with different, safe names; what was
  decompressed is what the report says, at most 10 MB for an entry and 50 MB together, and at most 200
  times the compressed size of the entry.\<close>

theorem archive_within_limits:
  assumes "preflight_report unzip nfc v = Inr r"
  shows "length (zr_entries r) \<le> 512 \<and> distinct (map (py_lower \<circ> ze_name) (zr_entries r)) \<and>
    zr_actual r = sum_list (map ze_actual (zr_entries r)) \<and> zr_actual r \<le> 50000000 \<and> zr_declared r \<le> 50000000 \<and>
    (\<forall>e \<in> set (zr_entries r). ze_actual e \<le> 10000000 \<and> ze_actual e \<le> 200 * ze_compressed e \<and>
      \<not> secret_like_member (ze_name e) \<and> \<not> is_absolute (ze_name e) \<and> ''..'' \<notin> set (pure_parts (ze_name e)))"
proof -
  obtain members indexed declared entries actual where *: "unzip (vf_raw v) = Some members"
    "metadata_index nfc members = Inr (indexed, declared)" "read_members 0 indexed = Inr (entries, actual)"
    "r = \<lparr>zr_declared = declared, zr_actual = actual, zr_entries = entries\<rparr>"
    using assms unfolding preflight_report_def catch_bad_zip_def
    by (auto split: option.splits sum.splits prod.splits if_splits)
  have im: "index_members nfc [] 0 members = Inr (indexed, declared)" "length members \<le> 512"
    using *(2) by (auto simp: metadata_index_def split: if_splits)
  note I = index_membersD [OF im(1)] and R = read_membersD [OF *(3)]
  have names: "map ze_name entries = map fst indexed" using R by simp
  have "length indexed = length members" using I by (metis length_map)
  then have "length entries \<le> 512" using names im(2) by (metis length_map)
  moreover have "distinct (map (py_lower \<circ> ze_name) entries)"
    using I names by (metis map_map)
  moreover have "\<not> secret_like_member (ze_name e) \<and> \<not> is_absolute (ze_name e) \<and> ''..'' \<notin> set (pure_parts (ze_name e))"
    if "e \<in> set entries" for e
  proof -
    have "ze_name e \<in> set (map fst indexed)" using names that by (metis image_eqI list.set_map)
    then obtain x where "x \<in> set indexed" "fst x = ze_name e" by auto
    with I have "\<not> secret_like_member (ze_name e)" "safe_member_name nfc (member_name (snd x)) = Inr (ze_name e)"
      by auto
    with safe_member_nameD show ?thesis by blast
  qed
  moreover have "declared \<le> 50000000" using I by (cases members) auto
  ultimately show ?thesis using R *(4) by auto
qed

text \<open>Every number of a policy that from_env accepts lies in its range, a limit of a user is at most that
  of the tenant, and what a switch needs is configured.\<close>

theorem policy_accepted_in_bounds:
  assumes "from_env ps env = Inr p"
  shows "policy_in_bounds ps p"
  using assms by (rule from_env_bounds)


text \<open>C34. A directive that is accepted is short, names one of the frozen operations, has the required fields
  and no other than the optional ones (so no field by which a message could choose an identity, a path or
  a command), texts within their limits and numbers that are not negative.\<close>

theorem directive_fields_checked:
  assumes "parse_audit_directive decode message = Inr (Some d)"
  shows "py_startswith message ''/audit '' \<and> length message \<le> 20000 \<and>
    set (required_fields (dr_operation d)) \<subseteq> set (map fst (dr_arguments d)) \<and>
    set (map fst (dr_arguments d)) \<subseteq> set (required_fields (dr_operation d) @ optional_fields (dr_operation d)) \<and>
    set (map fst (dr_arguments d)) \<inter> set forbidden_fields = {} \<and>
    (\<forall>(k, x) \<in> set (dr_arguments d). case map_of string_limits k of
        Some limit \<Rightarrow> \<exists>s. x = JStr s \<and> py_strip s \<noteq> [] \<and> length s \<le> limit \<and> CHR 0x00 \<notin> set s
      | None \<Rightarrow> \<exists>i. x = JInt i \<and> 0 \<le> i)"
proof -
  obtain kvs where kvs: "directive_of_payload kvs = Inr d" "py_startswith message ''/audit ''" "length message \<le> 20000"
    using assms unfolding parse_audit_directive_def
    by (auto simp: map_sum_Inr_iff split: if_splits option.splits json.splits prod.splits)
  note D = directive_of_payloadD [OF kvs(1)]
  have req: "set (required_fields op) \<inter> {''version'', ''operation''} = {}" for op by (cases op) auto
  have "set (required_fields (dr_operation d)) \<subseteq> set (map fst (dr_arguments d))"
    using D(4) req [of "dr_operation d"] unfolding D(2) by (force simp: image_iff)
  moreover have "set (required_fields op @ optional_fields op) \<inter> set forbidden_fields = {}" for op
    by (cases op) (simp_all add: forbidden_fields_def)
  moreover have "case map_of string_limits k of
        Some limit \<Rightarrow> \<exists>s. x = JStr s \<and> py_strip s \<noteq> [] \<and> length s \<le> limit \<and> CHR 0x00 \<notin> set s
      | None \<Rightarrow> \<exists>i. x = JInt i \<and> 0 \<le> i" if "(k, x) \<in> set (dr_arguments d)" for k x
  proof -
    have "k \<in> set (required_fields (dr_operation d) @ optional_fields (dr_operation d))"
      using D(3) that by (auto dest: image_eqI [of k fst "(k, x)"])
    then have "map_of string_limits k = None \<Longrightarrow> k \<in> {''offset'', ''max_bytes'', ''max_scan_bytes'', ''max_matches'', ''limit''}"
      by (cases "dr_operation d") (auto simp: string_limits_def split: if_splits)
    moreover have "validate_value k x = None" using D(5) that by auto
    ultimately show ?thesis by (auto simp: validate_value_def split: option.splits json.splits if_splits)
  qed
  ultimately show ?thesis using D(3) kvs(2,3) by blast
qed

text \<open>What leaves the guard has no control characters, no field with a sensitive name, at most eight levels
  with at most 512 items each, and its size is the one reported and within the limit.\<close>

theorem guarded_output_clean:
  assumes "guard_execute max_output timed_out (Inr v) = Inr g" and "text_json v"
  shows "clean_json 8 (gd_data g) \<and> gd_bytes g = length (dump_json (gd_data g)) \<and> gd_bytes g \<le> max_output"
proof -
  obtain w ch where "sanitize 0 v = Inr (w, ch)" "gd_data g = w" "gd_bytes g = length (dump_json w)"
      "length (dump_json w) \<le> max_output"
    using assms(1) by (auto simp: guard_execute_def split: sum.splits if_splits prod.splits)
  with sanitize_clean(1) [OF this(1) assms(2)] show ?thesis by simp
qed

text \<open>When two enabled agents share a name, a message that names it selects neither: it is ambiguous.\<close>

theorem same_name_fails_closed:
  assumes "{a, b} \<subseteq> set agents" and "ag_enabled a" and "ag_enabled b" and "ag_slug a \<noteq> ag_slug b"
    and "n \<in> set (map fst (candidate_terms a))" and "n' \<in> set (map fst (candidate_terms b))"
    and "normalize_target folded n = normalize_target folded raw"
    and "normalize_target folded n' = normalize_target folded raw" and "normalize_target folded raw \<noteq> []"
    and "technical_handle raw = None"
  shows "\<exists>slugs. resolve_target folded agents raw = Inl (Target_Ambiguous slugs) \<and> {ag_slug a, ag_slug b} \<subseteq> set slugs"
  using assms same_name_ambiguous [of a agents n _ b n'] by (auto simp: image_iff)

end
