(* ===== verification/Audit_Example.thy ===== *)
theory Audit_Example
  imports Audit_Properties "HOL-Library.Code_Target_Nat"
begin

text \<open>
  A concrete audit plane: the witnesses of its properties, and the runs behind the findings. The digest
  depends on the length of a text only, texts are in normal form, and one agent is in the catalog.
\<close>

definition digest :: "string \<Rightarrow> string" where
  "digest s = replicate 63 (CHR ''a'') @ [hex_letters ! (length s mod 16)]"

definition store :: "string \<Rightarrow> instant \<Rightarrow> ledger_env" where
  "store record now = \<lparr>le_nfc = (\<lambda>s. s), le_time = Some, le_sha256 = digest, le_dialect = Sqlite,
     le_now = now, le_record = record\<rparr>"

definition smooth_ledger :: ledger_faults where
  "smooth_ledger = \<lparr>lf_lookup = True, lf_commit = Ledger_Done, lf_verify = True\<rparr>"

lemma digest_ok: "is_sha256 (digest s)"
proof -
  have "length s mod 16 < length hex_letters" by (simp add: hex_letters_def)
  then have "hex_letters ! (length s mod 16) \<in> set hex_letters" by (rule nth_mem)
  moreover have "CHR ''a'' \<in> set hex_letters" by (simp add: hex_letters_def)
  ultimately show ?thesis by (simp add: is_sha256_def digest_def list_all_iff)
qed

lemma store_ok: "codec_ok (store record now)"
  by (simp add: codec_ok_def store_def digest_ok)

definition variables :: environ where
  "variables = map_of
     [(''PLATFORM_ENVIRONMENT'', ''production''), (''PLATFORM_AUDIT_EVIDENCE_CAPABILITIES_ENABLED'', ''1''),
      (''PLATFORM_AUDIT_FILE_INSPECT_ENABLED'', ''true''), (''PLATFORM_AUDIT_GOVERNED_INVOCATION_ENABLED'', ''on''),
      (''PLATFORM_AUDIT_ALLOWED_AGENT_IDS'', ''auditor''), (''PLATFORM_AUDIT_ALLOWED_TENANT_IDS'', ''acme''),
      (''PLATFORM_AUDIT_ALLOWED_ENVIRONMENTS'', ''production''), (''PLATFORM_AUDIT_USER_RATE_LIMIT_PER_WINDOW'', ''2''),
      (''PLATFORM_PYTHON_TOOL_ENABLED'', ''yes''), (''PLATFORM_PYTHON_RUNTIME_MODE'', ''external''),
      (''PLATFORM_PYTHON_RUNTIME_ADAPTER'', ''remote_http''), (''PLATFORM_PYTHON_RUNTIME_QUALIFIED'', ''1''),
      (''PLATFORM_PYTHON_SANDBOX_BASE_URL'', ''https://s''), (''PLATFORM_PYTHON_SANDBOX_API_TOKEN'', ''t''),
      (''PLATFORM_PYTHON_SANDBOX_SIGNING_KEY'', replicate 32 (CHR ''k'')),
      (''PLATFORM_PYTHON_SANDBOX_EXPECTED_PROVIDER'', ''p''),
      (''PLATFORM_PYTHON_SANDBOX_EXPECTED_IMAGE_DIGEST'', ''sha256:'' @ replicate 64 (CHR ''0''))]"

definition readers :: parsers where
  "readers = \<lparr>ps_float = (\<lambda>s. if s = ''nan'' then Some Nan else None), ps_url = (\<lambda>s. Some \<lparr>ur_scheme = ''https'', ur_netloc = ''s'',
     ur_hostname = Some ''s'', ur_username = None, ur_password = None, ur_query = [], ur_fragment = []\<rparr>)\<rparr>"

definition live_policy :: capability_policy where
  "live_policy = (case from_env readers variables of Inr p \<Rightarrow> p | Inl e \<Rightarrow> undefined)"

lemma live_policy_read: "case from_env readers variables of Inl e \<Rightarrow> False
    | Inr p \<Rightarrow> cp_environment p = ''production'' \<and> rs_execute (python_runtime_state p True) \<and> cp_user_limit p = 2"
  by code_simp

lemma live_policy_env: "from_env readers variables = Inr live_policy"
  using live_policy_read by (simp add: live_policy_def split: sum.splits)

section \<open>One artifact, one auditor\<close>

definition auditor :: agent where
  "auditor = \<lparr>ag_slug = ''auditor'', ag_enabled = True, ag_canonical = ''Nata'', ag_display = ''Nata'',
     ag_role_code = ''AUD'', ag_role_label = ''Auditor'', ag_names = [], ag_roles = [], ag_aliases = [''audit''],
     ag_specialties = []\<rparr>"

definition tree :: fs_node where
  "tree = Fs_Dir [(''acme'', Fs_Dir [(''memo'', Fs_File (1, 2) ''one fine day'')])]"

definition memo_artifact :: artifact_row where
  "memo_artifact = \<lparr>af_id = ''m1'', af_tenant = ''acme'', af_storage_key = ''acme/memo'',
     af_sha256 = digest ''one fine day''\<rparr>"

definition payload_of :: "string \<Rightarrow> (string \<times> json) list \<Rightarrow> json_decoder" where
  "payload_of operation arguments =
     (\<lambda>s. Some (JObj ([(''version'', JStr ''1''), (''operation'', JStr operation)] @ arguments), []))"

definition file_policy :: capability_policy where
  "file_policy = \<lparr>
     cp_python_enabled = False, cp_python_timeout = Finite 3, cp_python_max_code = 1,
     cp_python_max_output = 1, cp_external_enabled = False, cp_external_domains = [],
     cp_external_timeout = Finite 3, cp_external_max_bytes = 1, cp_external_max_urls = 1,
     cp_mode = ''disabled'', cp_adapter = [], cp_legacy = False, cp_environment = ''production'',
     cp_profile = [], cp_qualified = False, cp_base_url = [], cp_api_token = [], cp_signing_key = [],
     cp_provider = [], cp_image = [], cp_request_timeout = Finite 3, cp_request_ttl = 1,
     cp_wall_clock = Finite 3, cp_cpu = Finite 3, cp_memory = 1, cp_processes = 1, cp_output_files = 1,
     cp_output_bytes = 1, cp_audit_enabled = True, cp_audit_file = True, cp_audit_archive = False,
     cp_audit_runtime = False, cp_audit_sha256 = False, cp_audit_search = False,
     cp_audit_agents = [''auditor''], cp_audit_tenants = [''acme''],
     cp_audit_environments = [''production''], cp_audit_timeout = Finite 3, cp_audit_max_output = 128000,
     cp_audit_governed = True, cp_rate_window = 60, cp_user_limit = 2, cp_tenant_limit = 20,
     cp_directive_limit = 12\<rparr>"

definition host :: "string \<Rightarrow> instant \<Rightarrow> json_decoder \<Rightarrow> audit_env" where
  "host i now decode = \<lparr>au_policy = file_policy, au_environment = ''production'', au_deployment = [''d1''],
     au_decode = decode, au_folded = py_lower, au_agents = [auditor], au_backend = ''local'', au_storage = tree,
     au_project = (True, tree), au_race = Some, au_allowlist = [(''routes'', ''acme/memo'')],
     au_artifacts = [memo_artifact], au_lookup = True, au_unzip = (\<lambda>raw. None), au_timed_out = False,
     au_monotonic = now, au_countable = True, au_execution = i @ ''x'', au_started = ''t'', au_finished = ''t'',
     au_created = ''t'', au_ledger = store (i @ ''r'') now,
     au_faults = smooth_ledger, au_others = []\<rparr>"

definition turn_of_ana :: turn where
  "turn_of_ana = \<lparr>tn_execution = ''e'', tn_request = ''q'', tn_thread = ''th'', tn_tenant = ''acme'', tn_user = ''ana'',
     tn_requested = ''Nata'', tn_resolved = ''auditor'', tn_owner = ''auditor'', tn_display = ''auditor'',
     tn_display_name = ''Nata'', tn_lead = None, tn_route = Direct_Agent, tn_channel = Chat_Json, tn_locked = True,
     tn_governance = ''direct'', tn_internal = True, tn_external_write = False, tn_execution_allowed = True,
     tn_orchestrator = None\<rparr>"

definition read_memo :: json_decoder where
  "read_memo = payload_of ''file.read_text'' [(''artifact_id'', JStr ''m1'')]"

definition nothing :: audit_state where
  "nothing = \<lparr>as_ledger = [], as_events = (\<lambda>k. []), as_reads = []\<rparr>"

definition ask :: "string \<Rightarrow> instant \<Rightarrow> invocation" where
  "ask i now = \<lparr>iv_env = host i now read_memo, iv_turn = turn_of_ana, iv_roles = [''admin''], iv_message = ''/audit x''\<rparr>"

definition answered :: "failure + outcome option \<Rightarrow> bool" where
  "answered r = (case r of Inr (Some oc) \<Rightarrow> oc_operation oc = File_Read_Text | _ \<Rightarrow> False)"

section \<open>Storing evidence\<close>

text \<open>Values that the ledger stores as they are, with its digests; they make the evaluations short.\<close>

fun plain_json :: "json \<Rightarrow> bool" where
  "plain_json (JFloat r) = False"
| "plain_json (JInt i) = (- (2 ^ 63) \<le> i \<and> i \<le> 2 ^ 63 - 1)"
| "plain_json (JList xs) = list_all plain_json xs"
| "plain_json (JObj kvs) = (distinct (map fst kvs) \<and> list_all (\<lambda>(k, v). plain_json v) kvs)"
| "plain_json _ = True"

lemma store_normalize:
  "plain_json v \<Longrightarrow> normalize (store r now) key v = Inr v"
  "list_all plain_json vs \<Longrightarrow> normalize_list (store r now) vs = Inr vs"
  "\<lbrakk>distinct (map fst (got @ kvs)); list_all (\<lambda>(k, v). plain_json v) kvs\<rbrakk> \<Longrightarrow>
     normalize_items (store r now) got kvs = Inr (got @ kvs)"
proof (induction "store r now" key v and "store r now" vs and "store r now" got kvs
    rule: normalize_normalize_list_normalize_items.induct)
  case (3 key s)
  then show ?case by (simp add: normalize_text_def store_def)
next
  case (11 got k v rest)
  then show ?case by (auto simp: store_def)
qed auto

definition envelope_text :: "evidence \<Rightarrow> string" where
  "envelope_text e = dump_json (JObj (envelope_dict e))"

definition storable :: "evidence \<Rightarrow> bool" where
  "storable e \<longleftrightarrow> plain_json (JObj (envelope_dict e)) \<and> payload_error (envelope_dict e) = None \<and>
     text_size (JObj (envelope_dict e)) \<le> 128000 \<and> calm_json (JObj (envelope_dict e))"

lemma store_sha256:
  assumes "storable e"
  shows "evidence_sha256 (store r now) (envelope_dict e) = Inr (digest (envelope_text e))"
    and "payload_of_envelope (store r now) e = Inr (envelope_dict e)"
proof -
  have n: "normalize_items (store r now) [] (envelope_dict e) = Inr (envelope_dict e)"
    using store_normalize(3) [of "[]" "envelope_dict e"] assms by (simp add: storable_def)
  with assms have "payload_of_dict (store r now) (envelope_dict e) = Inr (envelope_dict e)"
    by (simp add: payload_of_dict_def storable_def)
  with n assms show "evidence_sha256 (store r now) (envelope_dict e) = Inr (digest (envelope_text e))"
    "payload_of_envelope (store r now) e = Inr (envelope_dict e)"
    using not_suspicious [OF calm_dump [of "JObj (envelope_dict e)"]] dump_size [of "JObj (envelope_dict e)"]
    by (simp_all add: evidence_sha256_def canonicalize_evidence_def payload_of_envelope_def storable_def
      max_serialized_def envelope_text_def assert_no_high_confidence_secrets_def Let_def)
      (simp add: store_def)
qed

definition stored_row :: "ledger_env \<Rightarrow> evidence \<Rightarrow> evidence_row" where
  "stored_row env e = row_of env (envelope_dict e) (digest (envelope_text e))"

lemma stored_row_checks: "storable e \<Longrightarrow> row_checks (stored_row (store r now) e)"
  by (auto simp: stored_row_def row_checks_def row_of_def digest_def storable_def payload_error_def split: if_splits)

lemma store_append:
  assumes "storable e" and "r \<notin> set (map er_id db)" and "by_execution (JStr (ev_execution e)) db = None"
  shows "append_evidence (store r now) smooth_ledger [] e db =
    (Inr \<lparr>ar_record = r, ar_sha256 = digest (envelope_text e), ar_replay = False\<rparr>, db @ [stored_row (store r now) e])"
proof -
  let ?env = "store r now" and ?row = "stored_row (store r now) e"
  have id: "er_id ?row = r" "er_sha256 ?row = digest (envelope_text e)" "er_tenant ?row = obj_get (envelope_dict e) ''tenant_id''"
    by (simp_all add: stored_row_def row_of_def store_def)
  have i: "obj_get (envelope_dict e) ''audit_execution_id'' = JStr (ev_execution e)"
    by (simp add: envelope_dict_def obj_get_def)
  have "sealed ?env ?row"
    unfolding stored_row_def by (rule row_of_sealed [OF store_sha256(1) [OF assms(1)] store_ok])
  moreover have "scalar (\<lambda>x. er_id x = r \<and> er_tenant x = er_tenant ?row) (db @ [?row]) = Some ?row"
    using assms(2) id by (intro scalar_only) auto
  ultimately have "verify_persisted_evidence ?env (obj_get (envelope_dict e) ''tenant_id'') r (db @ [?row]) = Inr ?row"
    using id by (auto simp: verify_persisted_evidence_def sealed_def)
  moreover have "insert_row ?env smooth_ledger ?row db = (None, db @ [?row])"
    using stored_row_checks [OF assms(1), of r now] assms(2) id(1)
    by (simp add: insert_row_def smooth_ledger_def store_def)
  ultimately show ?thesis
    using assms(3) id(2) i store_sha256 [OF assms(1), of r now]
    by (simp add: append_evidence_def append_payload_def smooth_ledger_def stored_row_def) (simp add: store_def)
qed

section \<open>A first outcome\<close>

definition read_directive :: directive where
  "read_directive = \<lparr>dr_operation = File_Read_Text, dr_arguments = [(''artifact_id'', JStr ''m1'')]\<rparr>"

definition host_a :: audit_env where
  "host_a = host ''a'' 0 read_memo"

definition first_data :: result where
  "first_data = (case execute host_a turn_of_ana read_directive of Inr data \<Rightarrow> data | Inl e \<Rightarrow> [])"

definition first_evidence :: evidence where
  "first_evidence = evidence_for host_a turn_of_ana read_directive ''ALLOW'' ''ALLOW'' ''completed'' True first_data None"

definition is_right :: "'a + 'b \<Rightarrow> bool" where
  "is_right r = (case r of Inr x \<Rightarrow> True | Inl e \<Rightarrow> False)"

lemma first_executes: "is_right (execute host_a turn_of_ana read_directive)"
  by code_simp

lemma first_storable: "storable first_evidence"
  by code_simp

lemma host_a_ledger: "au_ledger host_a = store ''ar'' 0" "au_faults host_a = smooth_ledger" "au_others host_a = []"
  "au_execution host_a = ''ax''"
  by (simp_all add: host_a_def host_def)

definition first_outcome :: outcome where
  "first_outcome = \<lparr>oc_operation = File_Read_Text,
     oc_reference = reference_of first_evidence
       \<lparr>ar_record = ''ar'', ar_sha256 = digest (envelope_text first_evidence), ar_replay = False\<rparr>,
     oc_data = JObj first_data\<rparr>"

lemma first_gates: "preflight_reason host_a turn_of_ana = None"
  "authorize_reason host_a turn_of_ana read_directive [''admin''] [] = ''ALLOW''"
  by code_simp+

lemma first_parse: "parse_audit_directive (au_decode host_a) ''/audit x'' = Inr (Some read_directive)"
  by code_simp

lemma first_persist:
  assumes "as_ledger st = []"
  shows "persist host_a first_evidence st =
    (Inr \<lparr>ar_record = ''ar'', ar_sha256 = digest (envelope_text first_evidence), ar_replay = False\<rparr>,
     st\<lparr>as_ledger := [stored_row (store ''ar'' 0) first_evidence]\<rparr>)"
proof -
  have "build_envelope first_evidence = Inr first_evidence"
    by (simp add: first_evidence_def evidence_for_def build_envelope_def host_a_def host_def deployment_id_def)
      (code_simp)
  then show ?thesis
    using store_append [OF first_storable, of "''ar''" "[]" 0] assms
    by (simp add: persist_def host_a_ledger by_execution_def)
qed

lemma first_run: "\<exists>st'. invoke_if_directive host_a turn_of_ana [''admin''] ''/audit x'' nothing = (Inr (Some first_outcome), st') \<and>
    as_ledger st' = [stored_row (store ''ar'' 0) first_evidence]"
proof -
  have e: "execute host_a turn_of_ana read_directive = Inr first_data"
    using first_executes by (auto simp: is_right_def first_data_def split: sum.splits)
  have c: "consume (cp_directive_limit (au_policy host_a)) (au_monotonic host_a) (tn_tenant turn_of_ana, tn_user turn_of_ana)
      (as_events nothing) = (True, (as_events nothing) ((''acme'', ''ana'') := [0]))"
    by (simp add: host_a_def host_def file_policy_def consume_def nothing_def turn_of_ana_def)
  have d: "dispatch host_a turn_of_ana read_directive st =
      (Inr (Some first_outcome), st\<lparr>as_reads := as_reads st @ [(''acme'', File_Read_Text)],
        as_ledger := [stored_row (store ''ar'' 0) first_evidence]\<rparr>)" if "as_ledger st = []" for st
    using e first_persist that
    by (simp add: dispatch_def first_outcome_def first_evidence_def [symmetric])
      (simp add: read_directive_def turn_of_ana_def)
  have "looks_like_audit_directive ''/audit x''" by code_simp
  with c d first_gates first_parse show ?thesis
    by (simp add: invoke_if_directive_def invoke_directive_def nothing_def)
qed

section \<open>Witnesses\<close>

lemma first_new: "new_execution host_a (as_ledger nothing)"
  by (simp add: new_execution_def host_a_ledger by_execution_def nothing_def ascii_def)

theorem governed_outcome_witness:
  "\<exists>row. er_status row = JStr ''completed'' \<and> er_tenant row = JStr ''acme'' \<and>
    gates_open host_a turn_of_ana [''admin''] read_directive [] \<and>
    verify_persisted_evidence (store ''ar'' 0) (JStr ''acme'') (er_id row) [row] = Inr row"
proof -
  obtain st' where run: "invoke_if_directive host_a turn_of_ana [''admin''] ''/audit x'' nothing = (Inr (Some first_outcome), st')"
    using first_run by blast
  have "codec_ok (au_ledger host_a)" by (simp add: host_a_ledger store_ok)
  from governed_outcome [OF run this first_new] obtain row where
    "gates_open host_a turn_of_ana [''admin''] read_directive []" "as_ledger st' = [row]" "er_status row = JStr ''completed''"
    "er_tenant row = JStr ''acme''"
    "verify_persisted_evidence (store ''ar'' 0) (er_tenant row) (er_id row) (as_ledger st') = Inr row"
    using first_parse by (auto simp: host_a_ledger nothing_def turn_of_ana_def store_def)
  then show ?thesis by auto
qed

theorem outcome_artifact_of_tenant_witness:
  "\<exists>(v :: verified_file) parts raw. digest (vf_raw v) = py_lower (py_strip (digest ''one fine day'')) \<and> hd parts = ''acme'' \<and>
    entry_at tree parts = Some (Fs_File (vf_identity v) raw)"
proof -
  obtain st' where run: "invoke_if_directive host_a turn_of_ana [''admin''] ''/audit x'' nothing = (Inr (Some first_outcome), st')"
    using first_run by blast
  have "oc_operation first_outcome \<notin> {Runtime_Sha256, Runtime_Search}" by (simp add: first_outcome_def)
  from outcome_artifact_of_tenant [OF run this] obtain a :: artifact_row and v :: verified_file and raw parts where "a \<in> set (au_artifacts host_a)"
    "le_sha256 (au_ledger host_a) (vf_raw v) = py_lower (py_strip (af_sha256 a))" "hd parts = tn_tenant turn_of_ana"
    "entry_at (au_storage host_a) parts = Some (Fs_File (vf_identity v) raw)" by (elim exE conjE) (rule that, assumption+)
  moreover have "au_artifacts host_a = [memo_artifact]" "au_storage host_a = tree" "tn_tenant turn_of_ana = ''acme''"
    "le_sha256 (au_ledger host_a) = digest" by (simp_all add: host_a_def host_def turn_of_ana_def store_def)
  ultimately show ?thesis by (auto simp: memo_artifact_def)
qed




theorem directives_within_limit_witness:
  "accepted_times 2 (''acme'', ''ana'') (map (\<lambda>i. (i, (''acme'', ''ana''))) [0, 1, 2]) (\<lambda>k. []) = [0, 1] \<and>
   length (filter (\<lambda>u. 2 - window < u \<and> u \<le> 2)
     (accepted_times 2 (''acme'', ''ana'') (map (\<lambda>i. (i, (''acme'', ''ana''))) [0, 1, 2]) (\<lambda>k. []))) \<le> 2"
proof -
  have "sorted (map fst (map (\<lambda>i :: int. (i, (''acme'', ''ana''))) [0, 1, 2]))" by simp
  from directives_within_limit [OF this, of 2 2 "(''acme'', ''ana'')" "\<lambda>k. []"] show ?thesis
    by (simp add: consume_def window_def Let_def)
qed

theorem ledger_verifiable_forever_witness:
  "\<exists>row. as_ledger (fold invoke_step [ask ''a'' 0] nothing) = [row] \<and>
    verify_persisted_evidence (store ''ar'' 0) (er_tenant row) (er_id row) [row] = Inr row"
proof -
  have "run_ok (serial (store ''ar'' 0)) invoke_step [ask ''a'' 0] nothing"
    by (simp add: serial_def ask_def host_def store_ok) (simp add: same_codec_def store_def)
  moreover have "ledger_ok (store ''ar'' 0) (as_ledger nothing)"
    by (simp add: nothing_def ledger_ok_def unique_key_def)
  moreover have "as_ledger (fold invoke_step [ask ''a'' 0] nothing) = [stored_row (store ''ar'' 0) first_evidence]"
    using first_run by (auto simp: invoke_step_def ask_def host_a_def)
  ultimately show ?thesis
    using ledger_verifiable_forever [of "store ''ar'' 0" "[ask ''a'' 0]" nothing] by (auto simp: nothing_def)
qed

theorem append_write_once_witness:
  "\<exists>db'. append_evidence (store ''ar'' 0) smooth_ledger [] first_evidence [] =
      (Inr \<lparr>ar_record = ''ar'', ar_sha256 = digest (envelope_text first_evidence), ar_replay = False\<rparr>, db') \<and>
    digests db' = [JStr ''ax'' \<mapsto> digest (envelope_text first_evidence)]"
proof -
  obtain db' where a: "append_evidence (store ''ar'' 0) smooth_ledger [] first_evidence [] =
      (Inr \<lparr>ar_record = ''ar'', ar_sha256 = digest (envelope_text first_evidence), ar_replay = False\<rparr>, db')"
    using store_append [OF first_storable, of "''ar''" "[]" 0] by (simp add: by_execution_def)
  have "ledger_ok (store ''ar'' 0) []" by (simp add: ledger_ok_def unique_key_def)
  from append_write_once [OF a this store_ok] have "digests db' = (digests [])(JStr ''ax'' \<mapsto> digest (envelope_text first_evidence))"
    by (simp add: Let_def first_evidence_def evidence_for_def host_a_ledger store_def)
  moreover have "digests [] = Map.empty" by (rule ext) (simp add: digests_def by_execution_def)
  ultimately show ?thesis using a by auto
qed

definition memo_file :: verified_file where
  "memo_file = \<lparr>vf_root = ''artifact-storage'', vf_path = ''acme/memo'', vf_identity = (1, 2), vf_raw = ''one fine day''\<rparr>"

theorem verified_file_contained_witness:
  "open_verified_file [(''artifact-storage'', tree)] Some ''artifact-storage'' ''acme/memo'' = Inr memo_file \<and>
   entry_at tree (pure_parts ''acme/memo'') = Some (Fs_File (1, 2) ''one fine day'')"
proof -
  have o: "open_verified_file [(''artifact-storage'', tree)] Some ''artifact-storage'' ''acme/memo'' = Inr memo_file"
    by code_simp
  from verified_file_contained [OF o] obtain raw where "entry_at tree (pure_parts ''acme/memo'') = Some (Fs_File (1, 2) raw)"
      "raw = ''one fine day''" by (auto simp: memo_file_def)
  with o show ?thesis by simp
qed

lemma memo_text: "read_full_safe_text memo_file = Inr ''one fine day''"
  by code_simp

theorem pages_cover_file_witness: "read_pages (Suc (vf_size memo_file)) memo_file 0 4 = Some ''one fine day''"
  using pages_cover_file [OF memo_text, of 4] by (simp add: memo_file_def)

theorem marker_found_exactly_witness:
  "\<exists>res. find_literal_marker digest memo_file ''ne'' None 5 = Inr res \<and> obj_get res ''marker_found'' = JBool True"
proof -
  have "is_right (find_literal_marker digest memo_file ''ne'' None 5)" by code_simp
  then obtain res where res: "find_literal_marker digest memo_file ''ne'' None 5 = Inr res"
    by (auto simp: is_right_def split: sum.splits)
  from marker_found_exactly [OF this] obtain offsets :: "nat list" where
    "(offsets = []) = (\<nexists>p q. take (nat 1000000) (vf_raw memo_file) = p @ ''ne'' @ q)"
    "obj_get res ''marker_found'' = JBool (offsets \<noteq> [])"
    unfolding Let_def option.case by (elim exE conjE) (rule that, assumption+)
  moreover have "take (nat 1000000) (vf_raw memo_file) = ''o'' @ ''ne'' @ '' fine day''" by (simp add: memo_file_def)
  then have "\<exists>p q. take (nat 1000000) (vf_raw memo_file) = p @ ''ne'' @ q" by (intro exI)
  ultimately show ?thesis using res by (intro exI conjI) simp_all
qed

definition two_members :: unzip where
  "two_members = (\<lambda>raw. Some
     [\<lparr>zm_filename = ''doc/a.txt'', zm_mode = 0, zm_encrypted = False, zm_file_size = 3, zm_compress_size = 5,
       zm_crc = ''0'', zm_blocks = [''abc''], zm_end = Stream_Done\<rparr>,
      \<lparr>zm_filename = ''doc/'', zm_mode = 0, zm_encrypted = False, zm_file_size = 0, zm_compress_size = 0,
       zm_crc = ''0'', zm_blocks = [], zm_end = Stream_Done\<rparr>])"

theorem archive_within_limits_witness:
  "\<exists>r. preflight_report two_members (\<lambda>s. s) memo_file = Inr r \<and> zr_actual r \<le> 50000000 \<and> length (zr_entries r) \<le> 512"
proof -
  have "is_right (preflight_report two_members (\<lambda>s. s) memo_file)" by code_simp
  then obtain r where "preflight_report two_members (\<lambda>s. s) memo_file = Inr r"
    by (auto simp: is_right_def split: sum.splits)
  with archive_within_limits [OF this] show ?thesis by auto
qed

theorem policy_accepted_in_bounds_witness: "policy_in_bounds readers live_policy"
  by (rule policy_accepted_in_bounds [OF live_policy_env])


theorem directive_fields_checked_witness:
  "set (map fst (dr_arguments read_directive)) \<inter> set forbidden_fields = {} \<and>
   ''artifact_id'' \<in> set (map fst (dr_arguments read_directive))"
  using directive_fields_checked [OF first_parse] by (simp add: read_directive_def)

theorem guarded_output_clean_witness:
  "\<exists>g. guard_execute 100 False (Inr (JObj [(''content'', JStr ''a b''), (''token'', JStr ''t'')])) = Inr g \<and>
    clean_json 8 (gd_data g) \<and> gd_bytes g \<le> 100"
proof -
  have "is_right (guard_execute 100 False (Inr (JObj [(''content'', JStr ''a b''), (''token'', JStr ''t'')])))" by code_simp
  then obtain g where g: "guard_execute 100 False (Inr (JObj [(''content'', JStr ''a b''), (''token'', JStr ''t'')])) = Inr g"
    by (auto simp: is_right_def split: sum.splits)
  have "text_json (JObj [(''content'', JStr ''a b''), (''token'', JStr ''t'')])" by code_simp
  with guarded_output_clean [OF g] g show ?thesis by auto
qed

theorem same_name_fails_closed_witness:
  "\<exists>slugs. resolve_target py_lower [auditor, auditor\<lparr>ag_slug := ''checker''\<rparr>] ''Audit!'' = Inl (Target_Ambiguous slugs) \<and>
    {''auditor'', ''checker''} \<subseteq> set slugs"
proof -
  have "technical_handle ''Audit!'' = None" "normalize_target py_lower ''Audit!'' = ''audit''"
    "normalize_target py_lower ''audit'' = ''audit''" by code_simp+
  with same_name_fails_closed [of auditor "auditor\<lparr>ag_slug := ''checker''\<rparr>" "[auditor, auditor\<lparr>ag_slug := ''checker''\<rparr>]"
      "''audit''" "''audit''" py_lower "''Audit!''"]
  show ?thesis by (simp add: auditor_def candidate_terms_def)
qed

section \<open>What the code also does\<close>

text \<open>The guard looks for secrets before it removes control characters, so the removal can make one.\<close>

lemma stripping_makes_secret:
  "sanitize_string (''AK'' @ [CHR 0x01] @ ''IA0123456789ABCDEF'') = Inr (''AKIA0123456789ABCDEF'', True)"
  "detect_high_confidence_secrets ''AKIA0123456789ABCDEF'' = [''aws_access_key'']"
  by code_simp+

text \<open>A float that is not a number is in every range.\<close>

lemma nan_in_range: "env_float readers (\<lambda>name. Some ''nan'') name 3 (1/4) 15 = Inr Nan"
proof -
  have "py_strip ''nan'' \<noteq> []" by code_simp
  then show ?thesis by (simp add: env_float_def env_text_def readers_def)
qed

text \<open>With pages of one byte a reader never gets past a character of three.\<close>

definition euro_file :: verified_file where
  "euro_file = memo_file\<lparr>vf_raw := [CHR 0xE2, CHR 0x82, CHR 0xAC]\<rparr>"

lemma small_pages_stick: "read_pages n euro_file 0 1 = None"
proof -
  have "read_page euro_file 0 1 = Inr \<lparr>tp_offset = 0, tp_bytes = 0, tp_eof = False, tp_content = []\<rparr>" by code_simp
  then show ?thesis by (induction n) simp_all
qed

text \<open>The exceptions of a class with a code of its own all answer with that code.\<close>

lemma error_codes_collapse:
  "error_code (Runtime_Exn ''AUDIT_RUNTIME_MODULE_TOO_LARGE'') f = ''AUDIT_RUNTIME_MODULE_NOT_ALLOWED''"
  "error_code (Archive_Exn ''AUDIT_ARCHIVE_MEMBER_TOO_LARGE'') f = ''AUDIT_ARCHIVE_ERROR''"
  by (simp_all add: error_code_def py_startswith_def)

text \<open>An output that the guard lets through can be too large for its envelope; then it was read and nothing
  in the ledger says so, and the request does not count for the limit.\<close>

lemma read_without_evidence:
  fixes env t d data
  defines "e \<equiv> evidence_for env t d ''ALLOW'' ''ALLOW'' ''completed'' True data None"
  assumes "execute env t d = Inr data" and "build_envelope e = Inr e"
    and "max_serialized < length (dump_json (JObj (envelope_dict e)))"
  shows "as_ledger (snd (dispatch env t d st)) = as_ledger st \<and>
    as_reads (snd (dispatch env t d st)) = as_reads st @ [(tn_tenant t, dr_operation d)]"
  using assms by (simp add: dispatch_def persist_def append_evidence_def payload_of_envelope_def)

end
