(* ===== verification/Doc_Attachments.thy ===== *)
theory Doc_Attachments
  imports Know_Model
begin

text \<open>
  The attachments of a thread (src/src/orkio_v2/services/attachment_service.py): a row per stored file,
  under a unique storage key, written idempotently. \<open>doc_faults\<close> says what the outside does to one
  request: the blob store, the commit, and the rows that other requests commit after this one has
  looked for the row (\<open>df_others\<close>). A row whose commit raises may be durable all the same.
\<close>

section \<open>Rows\<close>

record attachment =
  at_id :: string
  at_tenant :: string
  at_thread :: string
  at_uploaded_by :: string
  at_filename :: string
  at_mime :: string
  at_bytes :: int
  at_sha256 :: string
  at_key :: string
  at_status :: string
  at_created :: instant

record doc_world =
  dw_rows :: "attachment list"
  dw_blobs :: blob_map
  dw_audits :: "audit_event list"

definition attachment_constraints :: "attachment list \<Rightarrow> bool" where
  "attachment_constraints rows \<longleftrightarrow> unique_key at_id rows \<and> unique_key at_key rows"

text \<open>The exceptions of this plane; \<open>Raised\<close> carries those of the stores and of the database.\<close>

datatype doc_error =
    Intake_Error string int
  | Identity_Conflict
  | Raised know_error

record doc_faults =
  df_put :: "string \<Rightarrow> put_outcome"
  df_delete :: "string \<Rightarrow> delete_outcome"
  df_read :: "string \<Rightarrow> bool"
  df_others :: "attachment list"
  df_commit :: commit_outcome
  df_names_constraint :: bool
  df_audit_commit :: commit_outcome

section \<open>Persisting\<close>

text \<open>Where the bytes go: to the blob store, to a path, or the caller named neither.\<close>

datatype place = In_Store | At_Path string | Nowhere

definition find_existing :: "attachment \<Rightarrow> attachment list \<Rightarrow> attachment option" where
  "find_existing a rows = scalar (\<lambda>r. at_tenant r = at_tenant a \<and> at_thread r = at_thread a \<and> at_key r = at_key a) rows"

definition same_logical_attachment :: "attachment \<Rightarrow> attachment \<Rightarrow> bool" where
  "same_logical_attachment r a \<longleftrightarrow>
     at_filename r = at_filename a \<and> at_mime r = at_mime a \<and> at_bytes r = at_bytes a \<and> at_sha256 r = at_sha256 a"

text \<open>\<open>_ensure_blob\<close>: a file that exists is left alone.\<close>

definition ensure_blob :: "string \<Rightarrow> string \<Rightarrow> blob_map \<Rightarrow> bool \<times> blob_map" where
  "ensure_blob path data b = (if b path \<noteq> None then (False, b) else (True, b(path \<mapsto> data)))"

definition put_data ::
  "doc_faults \<Rightarrow> place \<Rightarrow> string \<Rightarrow> string \<Rightarrow> doc_world \<Rightarrow> (doc_error + bool) \<times> doc_world" where
  "put_data f where_to key data w = (case where_to of
       In_Store \<Rightarrow> (case blob_put_if_absent (df_put f key) key data (dw_blobs w) of
           (r, b) \<Rightarrow> (map_sum Raised id r, w\<lparr>dw_blobs := b\<rparr>))
     | At_Path path \<Rightarrow> (case ensure_blob path data (dw_blobs w) of (new, b) \<Rightarrow> (Inr new, w\<lparr>dw_blobs := b\<rparr>))
     | Nowhere \<Rightarrow> (Inl (Raised (Blob_Error ''STORAGE_BACKEND_REQUIRED'')), w))"

text \<open>The blob that this request created is removed; a store that fails at this is ignored.\<close>

definition drop_data :: "doc_faults \<Rightarrow> place \<Rightarrow> string \<Rightarrow> doc_world \<Rightarrow> doc_world" where
  "drop_data f where_to key w = (case where_to of
       In_Store \<Rightarrow> w\<lparr>dw_blobs := snd (blob_delete (df_delete f) key (dw_blobs w))\<rparr>
     | At_Path path \<Rightarrow> w\<lparr>dw_blobs := (dw_blobs w)(path := None)\<rparr>
     | Nowhere \<Rightarrow> w)"

text \<open>
  The commit of the new row. PostgreSQL reports the primary key before the storage key, and only the
  name of the violated constraint makes a conflict recognisable.
\<close>

definition storage_key_conflict :: "doc_faults \<Rightarrow> attachment \<Rightarrow> attachment list \<Rightarrow> bool" where
  "storage_key_conflict f a rows \<longleftrightarrow>
     df_names_constraint f \<and> at_id a \<notin> set (map at_id rows) \<and> at_key a \<in> set (map at_key rows)"

definition commit_row :: "doc_faults \<Rightarrow> attachment \<Rightarrow> attachment list \<Rightarrow> know_error option \<times> attachment list" where
  "commit_row f a rows =
     (if \<not> (fresh_key at_id (at_id a) rows \<and> fresh_key at_key (at_key a) rows) then (Some Integrity_Error, rows)
      else case df_commit f of
          Commit_Done \<Rightarrow> (None, rows @ [a])
        | Commit_Lost \<Rightarrow> (Some Database_Error, rows)
        | Commit_Kept \<Rightarrow> (Some Database_Error, rows @ [a]))"

record persist_result =
  pr_row :: attachment
  pr_created :: bool
  pr_reused :: bool

definition reuse :: "attachment \<Rightarrow> persist_result" where
  "reuse r = \<lparr>pr_row = r, pr_created = False, pr_reused = True\<rparr>"

text \<open>After an IntegrityError: the row of a winner is reused, or the blob is cleaned up.\<close>

definition resolve_conflict ::
  "doc_faults \<Rightarrow> place \<Rightarrow> attachment \<Rightarrow> bool \<Rightarrow> doc_world \<Rightarrow> (doc_error + persist_result) \<times> doc_world" where
  "resolve_conflict f where_to a created w =
     (case find_existing a (dw_rows w) of
        Some r \<Rightarrow>
          if storage_key_conflict f a (dw_rows w) \<and> same_logical_attachment r a then (Inr (reuse r), w)
          else (Inl (Raised Integrity_Error), w)
      | None \<Rightarrow> (Inl (Raised Integrity_Error), if created then drop_data f where_to (at_key a) w else w))"

definition persist_attachment ::
  "doc_faults \<Rightarrow> place \<Rightarrow> attachment \<Rightarrow> string \<Rightarrow> doc_world \<Rightarrow> (doc_error + persist_result) \<times> doc_world" where
  "persist_attachment f where_to a data w =
     (case find_existing a (dw_rows w) of
        Some r \<Rightarrow>
          if \<not> same_logical_attachment r a then (Inl Identity_Conflict, w)
          else (case put_data f where_to (at_key a) data w of
              (Inl e, w') \<Rightarrow> (Inl e, w')
            | (Inr created, w') \<Rightarrow> (Inr (reuse r), w'))
      | None \<Rightarrow> (case put_data f where_to (at_key a) data w of
            (Inl e, w') \<Rightarrow> (Inl e, w')
          | (Inr created, w') \<Rightarrow>
              (case commit_row f a (dw_rows w' @ df_others f) of
                 (None, rows) \<Rightarrow> (Inr \<lparr>pr_row = a, pr_created = True, pr_reused = False\<rparr>, w'\<lparr>dw_rows := rows\<rparr>)
               | (Some Integrity_Error, rows) \<Rightarrow> resolve_conflict f where_to a created (w'\<lparr>dw_rows := rows\<rparr>)
               | (Some e, rows) \<Rightarrow> (Inl (Raised e), w'\<lparr>dw_rows := rows\<rparr>))))"

lemma put_data_rows [simp]: "dw_rows (snd (put_data f where_to key data w)) = dw_rows w"
  by (auto simp: put_data_def split: place.splits prod.splits)

lemma drop_data_rows [simp]: "dw_rows (drop_data f where_to key w) = dw_rows w"
  by (auto simp: drop_data_def split: place.splits)

end
