(* ===== verification/Doc_Storage.thy ===== *)
theory Doc_Storage
  imports Know_Model Audit_Files "HOL-Library.Sublist"
begin

text \<open>
  The blob stores (src/src/orkio_v2/services/blob_storage.py): the local store, on a disk of files and
  directories without links, and the S3 store, whose client is a parameter. The locale
  \<open>blob_protocol\<close> states what the services rely on; both the map of Know_Model, which the other
  theories use, and the local store are interpretations of it, so the same requests get the same
  answers from both.
\<close>

section \<open>A disk\<close>

text \<open>A path is the list of its components from the root of the file system.\<close>

record disk =
  dk_files :: "string list \<Rightarrow> string option"
  dk_dirs :: "string list \<Rightarrow> bool"

definition on_disk :: "string list \<Rightarrow> disk \<Rightarrow> bool" where
  "on_disk p d \<longleftrightarrow> dk_files d p \<noteq> None \<or> dk_dirs d p"

definition file_above :: "string list \<Rightarrow> disk \<Rightarrow> bool" where
  "file_above p d \<longleftrightarrow> (\<exists>q \<in> set (prefixes (butlast p)). dk_files d q \<noteq> None)"

text \<open>\<open>mkdir(parents=True, exist_ok=True)\<close>: fails when a file is in the way.\<close>

definition make_dirs :: "string list \<Rightarrow> disk \<Rightarrow> disk option" where
  "make_dirs p d = (if \<exists>q \<in> set (prefixes p). dk_files d q \<noteq> None then None
     else Some (d\<lparr>dk_dirs := (\<lambda>q. dk_dirs d q \<or> q \<in> set (prefixes p))\<rparr>))"

definition write_file :: "string list \<Rightarrow> string \<Rightarrow> disk \<Rightarrow> disk" where
  "write_file p data d = d\<lparr>dk_files := (dk_files d)(p \<mapsto> data)\<rparr>"

definition remove_file :: "string list \<Rightarrow> disk \<Rightarrow> disk" where
  "remove_file p d = d\<lparr>dk_files := (dk_files d)(p := None)\<rparr>"

section \<open>The local store\<close>

text \<open>\<open>(root / key).resolve()\<close>: two dots go up, also out of the root.\<close>

fun resolve_parts :: "string list \<Rightarrow> string list \<Rightarrow> string list" where
  "resolve_parts at [] = at"
| "resolve_parts at (p # ps) = resolve_parts (if p = ''..'' then butlast at else at @ [p]) ps"

definition target_of :: "string list \<Rightarrow> string \<Rightarrow> know_error + string list" where
  "target_of root key =
     (let target = resolve_parts (if is_absolute key then [] else root) (pure_parts key)
      in if take (length root) target = root then Inr target else Inl (Blob_Error ''STORAGE_KEY_INVALID''))"

definition uploading :: "string list \<Rightarrow> string list" where
  "uploading p = butlast p @ [last p @ ''.uploading'']"

text \<open>What the disk does to a write: all of it, nothing or a part of it before it raises, or no renaming.\<close>

datatype write_outcome = Written | Write_Raises "string option" | Replace_Raises

definition local_put ::
  "string list \<Rightarrow> write_outcome \<Rightarrow> string \<Rightarrow> string \<Rightarrow> disk \<Rightarrow> (know_error + bool) \<times> disk" where
  "local_put root c key data d =
     (case target_of root key of Inl e \<Rightarrow> (Inl e, d) | Inr target \<Rightarrow>
      case make_dirs (butlast target) d of None \<Rightarrow> (Inl Other_Error, d) | Some d1 \<Rightarrow>
      if on_disk target d1 then (Inr False, d1)
      else if dk_dirs d1 (uploading target) then (Inl Other_Error, d1)
      else case c of
          Written \<Rightarrow> (Inr True, write_file target data (remove_file (uploading target) d1))
        | Write_Raises None \<Rightarrow> (Inl Other_Error, d1)
        | Write_Raises (Some part) \<Rightarrow> (Inl Other_Error, write_file (uploading target) part d1)
        | Replace_Raises \<Rightarrow> (Inl Other_Error, write_file (uploading target) data d1))"

text \<open>\<open>put_file_if_absent\<close> creates the temporary file exclusively and cleans up.\<close>

definition local_put_file ::
  "string list \<Rightarrow> write_outcome \<Rightarrow> string \<Rightarrow> string \<Rightarrow> disk \<Rightarrow> (know_error + bool) \<times> disk" where
  "local_put_file root c key data d =
     (case target_of root key of Inl e \<Rightarrow> (Inl e, d) | Inr target \<Rightarrow>
      case make_dirs (butlast target) d of None \<Rightarrow> (Inl Other_Error, d) | Some d1 \<Rightarrow>
      if on_disk target d1 then (Inr False, d1)
      else if on_disk (uploading target) d1 then (Inr False, d1)
      else if c = Written then (Inr True, write_file target data d1)
      else (Inl (Blob_Error ''BLOB_WRITE_FAILED''), d1))"

text \<open>Opening a file for reading; \<open>readable\<close> is what the disk does to the attempt.\<close>

definition read_file :: "(string list \<Rightarrow> bool) \<Rightarrow> string list \<Rightarrow> disk \<Rightarrow> know_error + string" where
  "read_file readable target d =
     (case dk_files d target of
        None \<Rightarrow> if dk_dirs d target \<or> file_above target d then Inl (Blob_Error ''BLOB_READ_FAILED'')
          else Inl (Blob_Error ''BLOB_NOT_FOUND'')
      | Some data \<Rightarrow> if readable target then Inr data else Inl (Blob_Error ''BLOB_READ_FAILED''))"

definition local_get :: "string list \<Rightarrow> (string list \<Rightarrow> bool) \<Rightarrow> string \<Rightarrow> disk \<Rightarrow> know_error + string" where
  "local_get root readable key d = (case target_of root key of
     Inl e \<Rightarrow> Inl e | Inr target \<Rightarrow> read_file readable target d)"

definition local_read_range ::
  "string list \<Rightarrow> (string list \<Rightarrow> bool) \<Rightarrow> string \<Rightarrow> int \<Rightarrow> int \<Rightarrow> disk \<Rightarrow> know_error + string" where
  "local_read_range root readable key start stop d =
     (if start < 0 \<or> stop < start then Inl (Blob_Error ''BLOB_RANGE_INVALID'')
      else case local_get root readable key d of
        Inl e \<Rightarrow> Inl e | Inr data \<Rightarrow> Inr (take (nat (stop - start)) (drop (nat start) data)))"

text \<open>\<open>materialize\<close>: the bytes copied to the destination, a new file of the caller.\<close>

definition local_materialize ::
  "string list \<Rightarrow> (string list \<Rightarrow> bool) \<Rightarrow> string \<Rightarrow> string list \<Rightarrow> disk \<Rightarrow> (know_error option) \<times> disk" where
  "local_materialize root readable key destination d =
     (case target_of root key of Inl e \<Rightarrow> (Some e, d) | Inr target \<Rightarrow>
      case make_dirs (butlast destination) d of None \<Rightarrow> (Some Other_Error, d) | Some d1 \<Rightarrow>
      case read_file readable target d1 of
        Inl e \<Rightarrow> (Some e, d1)
      | Inr data \<Rightarrow> if dk_dirs d1 destination then (Some (Blob_Error ''BLOB_READ_FAILED''), d1)
          else (None, write_file destination data d1))"

definition local_delete ::
  "string list \<Rightarrow> (string list \<Rightarrow> bool) \<Rightarrow> string \<Rightarrow> disk \<Rightarrow> know_error option \<times> disk" where
  "local_delete root removable key d =
     (case target_of root key of Inl e \<Rightarrow> (Some e, d) | Inr target \<Rightarrow>
      case dk_files d target of
        Some data \<Rightarrow> if removable target then (None, remove_file target d)
          else (Some (Blob_Error ''BLOB_DELETE_FAILED''), d)
      | None \<Rightarrow> if dk_dirs d target \<or> file_above target d then (Some (Blob_Error ''BLOB_DELETE_FAILED''), d)
          else (None, d))"

section \<open>The S3 store\<close>

record s3_config =
  sc_bucket :: string
  sc_prefix :: string
  sc_encryption :: string
  sc_kms_key :: string

text \<open>The answers of the client: whether it is installed, and for each call the code of the error it
  raised, if it raised one, or what it returned.\<close>

record s3_client =
  s3_installed :: bool
  s3_head :: "string \<Rightarrow> string option"
  s3_put :: "string \<Rightarrow> bool"
  s3_upload :: "string \<Rightarrow> bool"
  s3_download :: "string \<Rightarrow> string + string"
  s3_body :: "string \<Rightarrow> string + string"
  s3_range :: "string \<Rightarrow> int \<Rightarrow> int \<Rightarrow> string + string"
  s3_delete :: "string \<Rightarrow> bool"

definition py_trim :: "char \<Rightarrow> string \<Rightarrow> string" where
  "py_trim c s = rev (dropWhile (\<lambda>x. x = c) (rev (dropWhile (\<lambda>x. x = c) s)))"

definition s3_key :: "s3_config \<Rightarrow> string \<Rightarrow> know_error + string" where
  "s3_key cfg key =
     (let clean = dropWhile (\<lambda>c. c = CHR ''/'') (map (\<lambda>c. if c = CHR 0x5C then CHR ''/'' else c) key);
          prefix = py_trim (CHR ''/'') (sc_prefix cfg)
      in if clean = [] \<or> ''..'' \<in> set (py_split (CHR ''/'') clean) then Inl (Blob_Error ''STORAGE_KEY_INVALID'')
         else Inr (if prefix = [] then clean else prefix @ ''/'' @ clean))"

definition s3_missing :: "string \<Rightarrow> bool" where
  "s3_missing code \<longleftrightarrow> code \<in> {''404'', ''NoSuchKey'', ''NotFound''}"

record s3_request =
  sq_bucket :: string
  sq_key :: string
  sq_body :: string
  sq_type :: string
  sq_encryption :: string
  sq_kms_key :: "string option"

text \<open>
  The result and the request that was sent, if one was. \<open>put_if_absent\<close> sends it with \<open>put_object\<close>,
  \<open>put_file_if_absent\<close> with \<open>upload_fileobj\<close>.
\<close>

definition s3_store ::
  "(string \<Rightarrow> bool) \<Rightarrow> s3_config \<Rightarrow> s3_client \<Rightarrow> string \<Rightarrow> string \<Rightarrow> string \<Rightarrow>
   (know_error + bool) \<times> s3_request option" where
  "s3_store send cfg c key data content_type =
     (if \<not> s3_installed c then (Inl (Blob_Error ''S3_CLIENT_NOT_INSTALLED''), None)
      else case s3_key cfg key of Inl e \<Rightarrow> (Inl e, None) | Inr object_key \<Rightarrow>
      case s3_head c object_key of
        None \<Rightarrow> (Inr False, None)
      | Some code \<Rightarrow>
          if \<not> s3_missing code then (Inl (Blob_Error ''BLOB_HEAD_FAILED''), None)
          else ((if send object_key then Inr True else Inl (Blob_Error ''BLOB_WRITE_FAILED'')),
            Some \<lparr>sq_bucket = sc_bucket cfg, sq_key = object_key, sq_body = data, sq_type = content_type,
              sq_encryption = sc_encryption cfg,
              sq_kms_key = (if sc_encryption cfg = ''aws:kms'' then Some (sc_kms_key cfg) else None)\<rparr>))"

definition s3_put_if_absent ::
  "s3_config \<Rightarrow> s3_client \<Rightarrow> string \<Rightarrow> string \<Rightarrow> string \<Rightarrow> (know_error + bool) \<times> s3_request option" where
  "s3_put_if_absent cfg c = s3_store (s3_put c) cfg c"

definition s3_put_file_if_absent ::
  "s3_config \<Rightarrow> s3_client \<Rightarrow> string \<Rightarrow> string \<Rightarrow> string \<Rightarrow> (know_error + bool) \<times> s3_request option" where
  "s3_put_file_if_absent cfg c = s3_store (s3_upload c) cfg c"

text \<open>In the other operations every exception, of the key and of the import too, is caught.\<close>

definition s3_answer :: "string + string \<Rightarrow> know_error + string" where
  "s3_answer r = (case r of
       Inl code \<Rightarrow> Inl (Blob_Error (if s3_missing code then ''BLOB_NOT_FOUND'' else ''BLOB_READ_FAILED''))
     | Inr data \<Rightarrow> Inr data)"

definition s3_get :: "s3_config \<Rightarrow> s3_client \<Rightarrow> string \<Rightarrow> know_error + string" where
  "s3_get cfg c key =
     (if \<not> s3_installed c then Inl (Blob_Error ''BLOB_READ_FAILED'')
      else case s3_key cfg key of
        Inl e \<Rightarrow> Inl (Blob_Error ''BLOB_READ_FAILED'')
      | Inr object_key \<Rightarrow> s3_answer (s3_body c object_key))"

text \<open>\<open>materialize\<close>: what arrives at the destination.\<close>

definition s3_materialize :: "s3_config \<Rightarrow> s3_client \<Rightarrow> string \<Rightarrow> know_error + string" where
  "s3_materialize cfg c key =
     (if \<not> s3_installed c then Inl (Blob_Error ''BLOB_READ_FAILED'')
      else case s3_key cfg key of
        Inl e \<Rightarrow> Inl (Blob_Error ''BLOB_READ_FAILED'')
      | Inr object_key \<Rightarrow> s3_answer (s3_download c object_key))"

definition s3_read_range :: "s3_config \<Rightarrow> s3_client \<Rightarrow> string \<Rightarrow> int \<Rightarrow> int \<Rightarrow> know_error + string" where
  "s3_read_range cfg c key start stop =
     (if start < 0 \<or> stop < start then Inl (Blob_Error ''BLOB_RANGE_INVALID'')
      else if stop = start then Inr []
      else if \<not> s3_installed c then Inl (Blob_Error ''BLOB_READ_FAILED'')
      else case s3_key cfg key of
        Inl e \<Rightarrow> Inl (Blob_Error ''BLOB_READ_FAILED'')
      | Inr object_key \<Rightarrow> s3_answer (s3_range c object_key start (stop - 1)))"

definition s3_remove :: "s3_config \<Rightarrow> s3_client \<Rightarrow> string \<Rightarrow> know_error option" where
  "s3_remove cfg c key =
     (case s3_key cfg key of
        Inl e \<Rightarrow> Some (Blob_Error ''BLOB_DELETE_FAILED'')
      | Inr object_key \<Rightarrow> if s3_installed c \<and> s3_delete c object_key then None
          else Some (Blob_Error ''BLOB_DELETE_FAILED''))"

text \<open>\<open>build_blob_storage\<close>.\<close>

datatype store_kind = Local_Store | S3_Store

definition build_blob_storage :: "string \<Rightarrow> know_error + store_kind" where
  "build_blob_storage backend =
     (let name = py_lower (if backend = [] then ''local'' else backend) in
      if name = ''local'' then Inr Local_Store
      else if name = ''s3'' then Inr S3_Store
      else Inl (Blob_Error ''STORAGE_BACKEND_UNSUPPORTED''))"

section \<open>The protocol\<close>

text \<open>A client's requests, and what a store answers to them.\<close>

datatype blob_request = Put string string | Get string | Remove string

datatype blob_answer = Put_Answer "know_error + bool" | Get_Answer "know_error + string" | Remove_Answer "know_error option"

fun request_key :: "blob_request \<Rightarrow> string" where
  "request_key (Put k x) = k"
| "request_key (Get k) = k"
| "request_key (Remove k) = k"

fun answers :: "(blob_request \<Rightarrow> 's \<Rightarrow> blob_answer \<times> 's) \<Rightarrow> blob_request list \<Rightarrow> 's \<Rightarrow> blob_answer list" where
  "answers step [] s = []"
| "answers step (q # qs) s = (case step q s of (a, s') \<Rightarrow> a # answers step qs s')"

text \<open>The store of Know_Model, when nothing fails.\<close>

fun map_step :: "blob_request \<Rightarrow> blob_map \<Rightarrow> blob_answer \<times> blob_map" where
  "map_step (Put k x) b = (case blob_put_if_absent Put_Done k x b of (r, b') \<Rightarrow> (Put_Answer r, b'))"
| "map_step (Get k) b = (Get_Answer (blob_get (\<lambda>_. True) k b), b)"
| "map_step (Remove k) b = (case blob_delete (\<lambda>_. Delete_Done) k b of (r, b') \<Rightarrow> (Remove_Answer r, b'))"

text \<open>
  \<open>fine\<close> is the invariant of the store, \<open>view\<close> what it holds under the keys of the client, and \<open>step\<close> one
  request.
\<close>

locale blob_protocol =
  fixes keys :: "string set"
    and fine :: "'s \<Rightarrow> bool"
    and view :: "'s \<Rightarrow> blob_map"
    and step :: "blob_request \<Rightarrow> 's \<Rightarrow> blob_answer \<times> 's"
  assumes follows: "\<lbrakk>fine s; request_key q \<in> keys; step q s = (a, s')\<rbrakk> \<Longrightarrow>
    fine s' \<and> map_step q (view s) = (a, view s')"
begin

lemma same_answers:
  "\<lbrakk>fine s; request_key ` set qs \<subseteq> keys\<rbrakk> \<Longrightarrow> answers step qs s = answers map_step qs (view s)"
proof (induction qs arbitrary: s)
  case (Cons q qs)
  obtain a s' where step: "step q s = (a, s')" by fastforce
  with Cons.prems follows have "fine s'" "map_step q (view s) = (a, view s')" by auto
  with Cons step show ?case by simp
qed simp

lemma first_put_wins:
  assumes "fine s" and "k \<in> keys" and "view s k = None"
  shows "answers step [Put k x, Put k y, Get k] s =
    [Put_Answer (Inr True), Put_Answer (Inr False), Get_Answer (Inr x)]"
proof -
  have "answers step [Put k x, Put k y, Get k] s = answers map_step [Put k x, Put k y, Get k] (view s)"
    by (rule same_answers) (use assms in auto)
  then show ?thesis using assms(3) by (simp add: blob_put_if_absent_def blob_get_def)
qed

end

interpretation map_store: blob_protocol UNIV "\<lambda>_. True" "\<lambda>b. b" map_step
  by unfold_locales simp

section \<open>The local store follows it\<close>

fun local_step :: "string list \<Rightarrow> blob_request \<Rightarrow> disk \<Rightarrow> blob_answer \<times> disk" where
  "local_step root (Put k x) d = (case local_put root Written k x d of (r, d') \<Rightarrow> (Put_Answer r, d'))"
| "local_step root (Get k) d = (Get_Answer (local_get root (\<lambda>_. True) k d), d)"
| "local_step root (Remove k) d = (case local_delete root (\<lambda>_. True) k d of (r, d') \<Rightarrow> (Remove_Answer r, d'))"

text \<open>
  The keys of a client, by the components they stand for: relative, without dots, none above another
  one, and none that is the temporary name of another one.
\<close>

definition plain_key :: "string \<Rightarrow> bool" where
  "plain_key k \<longleftrightarrow> \<not> is_absolute k \<and> pure_parts k \<noteq> [] \<and> ''..'' \<notin> set (pure_parts k)"

definition apart_keys :: "string \<Rightarrow> string \<Rightarrow> bool" where
  "apart_keys k k' \<longleftrightarrow> \<not> prefix (pure_parts k) (pure_parts k') \<and>
     \<not> prefix (uploading (pure_parts k)) (pure_parts k')"

definition clean_keys :: "string set \<Rightarrow> bool" where
  "clean_keys ks \<longleftrightarrow> (\<forall>k \<in> ks. plain_key k \<and> (\<forall>k' \<in> ks. k' \<noteq> k \<longrightarrow> apart_keys k k'))"

text \<open>No file above a key, no directory in its place, nothing under its temporary name.\<close>

definition room_for :: "string list \<Rightarrow> string \<Rightarrow> disk \<Rightarrow> bool" where
  "room_for root k d \<longleftrightarrow> (let p = root @ pure_parts k in
     \<not> file_above p d \<and> \<not> dk_dirs d p \<and> \<not> on_disk (uploading p) d)"

definition local_fine :: "string list \<Rightarrow> string set \<Rightarrow> disk \<Rightarrow> bool" where
  "local_fine root ks d \<longleftrightarrow> (\<forall>k \<in> ks. room_for root k d)"

definition local_view :: "string list \<Rightarrow> string set \<Rightarrow> disk \<Rightarrow> blob_map" where
  "local_view root ks d = (\<lambda>k. if k \<in> ks then dk_files d (root @ pure_parts k) else None)"

lemma resolve_plain: "''..'' \<notin> set ps \<Longrightarrow> resolve_parts at ps = at @ ps"
  by (induction ps arbitrary: at) auto

lemma target_plain: "plain_key k \<Longrightarrow> target_of root k = Inr (root @ pure_parts k)"
  by (simp add: target_of_def plain_key_def resolve_plain)

lemma uploading_append: "ps \<noteq> [] \<Longrightarrow> uploading (root @ ps) = root @ uploading ps"
  by (simp add: uploading_def butlast_append)

lemma uploading_other: "uploading ps \<noteq> ps"
  by (cases ps rule: rev_cases) (simp_all add: uploading_def)

lemma length_uploading: "ps \<noteq> [] \<Longrightarrow> length (uploading ps) = length ps"
  by (simp add: uploading_def)

lemma prefix_butlastD: "prefix xs (butlast ys) \<Longrightarrow> prefix xs ys"
  by (meson prefix_order.trans prefixeq_butlast)

lemma not_prefix_butlast: "ys \<noteq> [] \<Longrightarrow> length ys \<le> length xs \<Longrightarrow> \<not> prefix xs (butlast ys)"
  by (cases ys rule: rev_cases) (auto dest!: prefix_length_le)

lemma same_key: "clean_keys ks \<Longrightarrow> k \<in> ks \<Longrightarrow> k' \<in> ks \<Longrightarrow> prefix (pure_parts k) (pure_parts k') \<Longrightarrow> k' = k"
  by (auto simp: clean_keys_def apart_keys_def)

lemma upload_apart: "clean_keys ks \<Longrightarrow> k \<in> ks \<Longrightarrow> k' \<in> ks \<Longrightarrow> \<not> prefix (uploading (pure_parts k)) (pure_parts k')"
  using uploading_other [of "pure_parts k"] length_uploading [of "pure_parts k"]
  by (cases "k' = k") (auto simp: clean_keys_def apart_keys_def plain_key_def dest: prefix_length_le not_equal_is_parallel)

lemma put_room:
  assumes ks: "clean_keys ks" "k \<in> ks" and ok: "local_fine root ks d"
  shows "local_fine root ks (snd (local_put root Written k x d))"
    and "local_view root ks (snd (local_put root Written k x d)) =
      (if local_view root ks d k = None then (local_view root ks d)(k \<mapsto> x) else local_view root ks d)"
    and "fst (local_put root Written k x d) = Inr (local_view root ks d k = None)"
proof -
  let ?p = "root @ pure_parts k"
  have k: "plain_key k" and ne: "pure_parts k \<noteq> []" using ks by (auto simp: clean_keys_def plain_key_def)
  have room: "room_for root k d" using ok ks(2) by (simp add: local_fine_def)
  define d1 where "d1 = d\<lparr>dk_dirs := (\<lambda>q. dk_dirs d q \<or> prefix q (butlast ?p))\<rparr>"
  have d1: "make_dirs (butlast ?p) d = Some d1"
    using room by (auto simp: make_dirs_def d1_def room_for_def file_above_def Let_def)
  have at: "on_disk ?p d1 \<longleftrightarrow> dk_files d ?p \<noteq> None" "\<not> dk_dirs d1 (uploading ?p)"
    using room not_prefix_butlast [of ?p ?p] not_prefix_butlast [of ?p "uploading ?p"] ne
    by (auto simp: on_disk_def d1_def room_for_def Let_def length_uploading)
  have fine1: "room_for root k' d1" if "k' \<in> ks" for k'
  proof -
    have ne': "pure_parts k' \<noteq> []" using ks(1) that by (auto simp: clean_keys_def plain_key_def)
    have "\<not> prefix (root @ pure_parts k') (butlast ?p)"
    proof
      assume a: "prefix (root @ pure_parts k') (butlast ?p)"
      then have "prefix (pure_parts k') (pure_parts k)" using prefix_butlastD by fastforce
      then have "k' = k" using same_key [OF ks(1) that ks(2)] by simp
      then show False using a not_prefix_butlast [of ?p ?p] ne by simp
    qed
    moreover have "\<not> prefix (uploading (root @ pure_parts k')) (butlast ?p)"
      using upload_apart [OF ks(1) that ks(2)] prefix_butlastD uploading_append [OF ne', of root]
      by (metis same_prefix_prefix)
    ultimately show ?thesis
      using ok that by (auto simp: local_fine_def room_for_def Let_def d1_def on_disk_def file_above_def)
  qed
  show "fst (local_put root Written k x d) = Inr (local_view root ks d k = None)"
    using at ks(2) by (simp add: local_put_def target_plain [OF k] d1 local_view_def)
  let ?d2 = "write_file ?p x (remove_file (uploading ?p) d1)"
  have put: "snd (local_put root Written k x d) = (if local_view root ks d k = None then ?d2 else d1)"
    using at ks(2) by (simp add: local_put_def target_plain [OF k] d1 local_view_def)
  have fine2: "room_for root k' ?d2" if "k' \<in> ks" for k'
  proof -
    have ne': "pure_parts k' \<noteq> []" using ks(1) that by (auto simp: clean_keys_def plain_key_def)
    have "\<not> prefix ?p (butlast (root @ pure_parts k'))"
    proof
      assume a: "prefix ?p (butlast (root @ pure_parts k'))"
      then have "prefix (pure_parts k) (pure_parts k')" using prefix_butlastD by fastforce
      then have "k' = k" using same_key [OF ks(1,2) that] by simp
      then show False using a not_prefix_butlast [of ?p ?p] ne by simp
    qed
    moreover have "uploading (root @ pure_parts k') \<noteq> ?p"
      using upload_apart [OF ks(1) that ks(2)] uploading_append [OF ne', of root] by auto
    ultimately show ?thesis
      using fine1 [OF that]
      by (auto simp: room_for_def Let_def write_file_def remove_file_def on_disk_def file_above_def split: if_splits)
  qed
  show "local_fine root ks (snd (local_put root Written k x d))"
    unfolding put using fine1 fine2 by (simp add: local_fine_def)
  have "root @ pure_parts k' \<noteq> uploading ?p" if "k' \<in> ks" for k'
    using upload_apart [OF ks(1,2) that] uploading_append [OF ne, of root] by auto
  moreover have "k' = k" if "k' \<in> ks" "root @ pure_parts k' = ?p" for k'
    using same_key [OF ks(1,2) that(1)] that(2) by simp
  ultimately show "local_view root ks (snd (local_put root Written k x d)) =
      (if local_view root ks d k = None then (local_view root ks d)(k \<mapsto> x) else local_view root ks d)"
    unfolding put using ks(2)
    by (auto simp: local_view_def fun_eq_iff write_file_def remove_file_def d1_def)
qed

lemma remove_room:
  assumes ks: "clean_keys ks" "k \<in> ks" and ok: "local_fine root ks d"
  shows "local_fine root ks (snd (local_delete root (\<lambda>_. True) k d))"
    and "local_view root ks (snd (local_delete root (\<lambda>_. True) k d)) = (local_view root ks d)(k := None)"
    and "fst (local_delete root (\<lambda>_. True) k d) = None"
proof -
  let ?p = "root @ pure_parts k"
  have k: "plain_key k" using ks by (auto simp: clean_keys_def)
  have room: "\<not> dk_dirs d ?p" "\<not> file_above ?p d"
    using ok ks(2) by (auto simp: local_fine_def room_for_def Let_def)
  then have del: "local_delete root (\<lambda>_. True) k d = (None, if dk_files d ?p = None then d else remove_file ?p d)"
    by (auto simp: local_delete_def target_plain [OF k] split: option.splits)
  have "room_for root k' (remove_file ?p d)" if "k' \<in> ks" for k'
    using ok that
    by (auto simp: local_fine_def room_for_def Let_def remove_file_def file_above_def on_disk_def split: if_splits)
  then show "local_fine root ks (snd (local_delete root (\<lambda>_. True) k d))"
    using ok by (simp add: del local_fine_def)
  have "k' = k" if "k' \<in> ks" "root @ pure_parts k' = ?p" for k'
    using same_key [OF ks(1,2) that(1)] that(2) by simp
  then show "local_view root ks (snd (local_delete root (\<lambda>_. True) k d)) = (local_view root ks d)(k := None)"
    by (auto simp: del local_view_def fun_eq_iff remove_file_def)
  show "fst (local_delete root (\<lambda>_. True) k d) = None" by (simp add: del)
qed

lemma get_room:
  assumes "clean_keys ks" "k \<in> ks" and "local_fine root ks d"
  shows "local_get root (\<lambda>_. True) k d = blob_get (\<lambda>_. True) k (local_view root ks d)"
  using assms target_plain [of k root]
  by (auto simp: local_get_def read_file_def blob_get_def local_view_def clean_keys_def local_fine_def room_for_def
      Let_def split: option.splits)

lemma local_follows:
  assumes "clean_keys ks" and "local_fine root ks d" and "request_key q \<in> ks" and "local_step root q d = (a, d')"
  shows "local_fine root ks d' \<and> map_step q (local_view root ks d) = (a, local_view root ks d')"
proof (cases q)
  case (Put k x)
  with assms put_room [OF assms(1) _ assms(2), of k x] show ?thesis
    by (auto simp: blob_put_if_absent_def prod_eq_iff split: prod.splits)
next
  case (Get k)
  with assms get_room [OF assms(1) _ assms(2), of k] show ?thesis by auto
next
  case (Remove k)
  with assms remove_room [OF assms(1) _ assms(2), of k] show ?thesis
    by (auto simp: blob_delete_def prod_eq_iff split: prod.splits)
qed

text \<open>A store with keys that are not clean serves no client.\<close>

interpretation local_store: blob_protocol "if clean_keys ks then ks else {}" "local_fine root ks" "local_view root ks"
    "local_step root" for root ks
  by unfold_locales (auto dest: local_follows split: if_splits)

end
