(* ===== verification/Doc_Intake.thy ===== *)
theory Doc_Intake
  imports Doc_Attachments Doc_Storage Know_Documents
begin

text \<open>
  A large paste becomes an attachment with a manifest of its sections and chunks
  (src/src/orkio_v2/services/unified_document_intake.py). The canonical text and its structure are those
  of Know_Documents and Know_Structure. The manifest is a blob next to the canonical one; \<open>de_loads\<close> is
  the decoding and parsing of its bytes.
\<close>

record doc_env =
  de_know :: know_env
  de_readers :: readers
  de_loads :: "string \<Rightarrow> json option"
  de_id :: string

record intake_settings =
  is_enabled :: bool
  is_threshold :: int
  is_max_chars :: int
  is_max_bytes :: int
  is_manifest_max :: int
  is_chunk_target :: int
  is_chunk_overlap :: int
  is_max_pages :: int
  is_backend :: string

definition manifest_key_for_storage :: "string \<Rightarrow> string" where
  "manifest_key_for_storage key = key @ ''.intake-v1.json''"

definition manifest_schema :: string where
  "manifest_schema = ''efata.thread_document_intake.v1''"

definition safe_title :: "string option \<Rightarrow> string \<Rightarrow> string" where
  "safe_title value sha =
     (let title = py_strip (py_join '' '' (py_words (filter (\<lambda>c. c \<noteq> CHR 0x00) (case value of None \<Rightarrow> [] | Some v \<Rightarrow> v))))
      in take 240 (if title = [] then ''Documento colado '' @ take 12 sha else title))"

section \<open>The manifest\<close>

text \<open>The keys are listed in the order in which \<open>sort_keys\<close> writes them.\<close>

definition json_or_null :: "('a \<Rightarrow> json) \<Rightarrow> 'a option \<Rightarrow> json" where
  "json_or_null f x = (case x of None \<Rightarrow> JNull | Some v \<Rightarrow> f v)"

definition section_json :: "doc_section \<Rightarrow> json" where
  "section_json s = JObj
     [(''byte_end'', JInt (int (sn_end s))), (''byte_start'', JInt (int (sn_start s))),
      (''estimated_tokens'', JInt (int (sn_tokens s))), (''heading'', JStr (sn_heading s)), (''id'', JStr (sn_id s)),
      (''level'', JInt (int (sn_level s))), (''ordinal'', JInt (int (sn_ordinal s))),
      (''page_end'', json_or_null JInt (sn_page_end s)), (''page_start'', json_or_null JInt (sn_page_start s)),
      (''parent_id'', json_or_null JStr (sn_parent s))]"

definition chunk_json :: "chunk \<Rightarrow> json" where
  "chunk_json c = JObj
     [(''byte_end'', JInt (int (ch_end c))), (''byte_start'', JInt (int (ch_start c))),
      (''estimated_tokens'', JInt (int (ch_tokens c))), (''id'', JStr (ch_id c)),
      (''ordinal'', JInt (int (ch_ordinal c))), (''section_id'', JStr (ch_section c)),
      (''terms'', JList (map JStr (ch_terms c))), (''text_sha256'', JStr (ch_sha256 c))]"

record paste =
  pp_tenant :: string
  pp_thread :: string
  pp_title :: string
  pp_source_sha :: string
  pp_source_chars :: nat
  pp_canonical :: canonical
  pp_canonical_sha :: string
  pp_sections :: "doc_section list"
  pp_chunks :: "chunk list"
  pp_filename :: string

definition manifest_payload :: "paste \<Rightarrow> (string \<times> json) list" where
  "manifest_payload p =
     [(''canonical_chars'', JInt (int (cn_chars (pp_canonical p)))), (''canonical_sha256'', JStr (pp_canonical_sha p)),
      (''canonical_size_bytes'', JInt (int (length (cn_bytes (pp_canonical p))))),
      (''chunks'', JList (map chunk_json (pp_chunks p))), (''schema'', JStr manifest_schema),
      (''sections'', JList (map section_json (pp_sections p))), (''source_chars'', JInt (int (pp_source_chars p))),
      (''source_kind'', JStr ''LARGE_PASTE''), (''source_sha256'', JStr (pp_source_sha p)),
      (''tenant_id'', JStr (pp_tenant p)), (''thread_id'', JStr (pp_thread p)), (''title'', JStr (pp_title p))]"

definition manifest_bytes :: "readers \<Rightarrow> paste \<Rightarrow> string" where
  "manifest_bytes rd p = rd_encode rd (dump_json (JObj (manifest_payload p)) @ [CHR 0x0A])"

definition validate_existing_manifest :: "(string \<Rightarrow> json option) \<Rightarrow> paste \<Rightarrow> string \<Rightarrow> doc_error option" where
  "validate_existing_manifest loads p raw = (case loads raw of
       Some (JObj kvs) \<Rightarrow>
         if obj_get kvs ''schema'' \<noteq> JStr manifest_schema \<or> obj_get kvs ''tenant_id'' \<noteq> JStr (pp_tenant p) \<or>
            obj_get kvs ''thread_id'' \<noteq> JStr (pp_thread p) \<or> obj_get kvs ''source_sha256'' \<noteq> JStr (pp_source_sha p) \<or>
            obj_get kvs ''canonical_sha256'' \<noteq> JStr (pp_canonical_sha p)
         then Some (Intake_Error ''DOCUMENT_INTAKE_MANIFEST_CONFLICT'' 409) else None
     | _ \<Rightarrow> Some (Intake_Error ''DOCUMENT_INTAKE_MANIFEST_CONFLICT'' 409))"

section \<open>Before anything is stored\<close>

definition paste_error :: "intake_settings \<Rightarrow> readers \<Rightarrow> string \<Rightarrow> doc_error option" where
  "paste_error s rd content =
     (let threshold = max 1 (is_threshold s) in
      if \<not> is_enabled s then Some (Intake_Error ''DOCUMENT_INTAKE_DISABLED'' 403)
      else if CHR 0x00 \<in> set content then Some (Intake_Error ''PASTE_CONTENT_INVALID'' 422)
      else if int (length content) \<le> threshold then Some (Intake_Error ''PASTE_BELOW_DOCUMENT_THRESHOLD'' 422)
      else if max (threshold + 1) (is_max_chars s) < int (length content) then Some (Intake_Error ''PASTE_TOO_LARGE'' 413)
      else if max 1 (is_max_bytes s) < int (length (rd_encode rd content)) then Some (Intake_Error ''PASTE_TOO_LARGE'' 413)
      else None)"

definition paste_filename :: "string \<Rightarrow> string" where
  "paste_filename source_sha = ''paste-'' @ take 12 source_sha @ ''.md''"

definition prepare_paste ::
  "doc_env \<Rightarrow> intake_settings \<Rightarrow> string \<Rightarrow> string \<Rightarrow> string \<Rightarrow> string option \<Rightarrow> doc_error + paste" where
  "prepare_paste env s tenant thread content title =
     (let rd = de_readers env; sha = kn_sha256 (de_know env) in
      case paste_error s rd content of Some e \<Rightarrow> Inl e | None \<Rightarrow>
      let source = rd_encode rd content; filename = paste_filename (sha source) in
      case canonicalize_source rd (is_max_pages s) ''text/markdown'' filename source of
        Inl (Large_Error code status) \<Rightarrow> Inl (Intake_Error code status)
      | Inl e \<Rightarrow> Inl (Raised e)
      | Inr canonical \<Rightarrow>
        let (sections, chunks) = build_structure (de_know env) (rd_decode rd) (is_chunk_target s) (is_chunk_overlap s)
              (cn_bytes canonical)
        in Inr \<lparr>pp_tenant = tenant, pp_thread = thread, pp_title = safe_title title (sha source),
          pp_source_sha = sha source, pp_source_chars = length content, pp_canonical = canonical,
          pp_canonical_sha = sha (cn_bytes canonical), pp_sections = sections, pp_chunks = chunks,
          pp_filename = filename\<rparr>)"

definition paste_key :: "paste \<Rightarrow> string" where
  "paste_key p = pp_tenant p @ ''/'' @ pp_thread p @ ''/document-intake/'' @ pp_canonical_sha p @ ''-'' @ pp_filename p"

definition paste_row :: "doc_env \<Rightarrow> string \<Rightarrow> paste \<Rightarrow> attachment" where
  "paste_row env user p =
     \<lparr>at_id = de_id env, at_tenant = pp_tenant p, at_thread = pp_thread p, at_uploaded_by = user,
      at_filename = pp_filename p, at_mime = ''text/markdown'', at_bytes = int (length (cn_bytes (pp_canonical p))),
      at_sha256 = pp_canonical_sha p, at_key = paste_key p, at_status = ''ready'', at_created = kn_now (de_know env)\<rparr>"

section \<open>Storing\<close>

record paste_result =
  ps_row :: attachment
  ps_reused :: bool
  ps_paste :: paste
  ps_manifest_key :: string

text \<open>How an exception of the stores leaves the service.\<close>

fun intake_failure :: "doc_error \<Rightarrow> doc_error" where
  "intake_failure Identity_Conflict = Intake_Error ''DOCUMENT_INTAKE_IDENTITY_CONFLICT'' 409"
| "intake_failure (Raised (Blob_Error code)) = Intake_Error code 503"
| "intake_failure e = e"

text \<open>A manifest that was there already must be of the same paste.\<close>

definition check_manifest :: "doc_env \<Rightarrow> doc_faults \<Rightarrow> paste \<Rightarrow> doc_world \<Rightarrow> doc_error option" where
  "check_manifest env f p w =
     (case blob_get (df_read f) (manifest_key_for_storage (paste_key p)) (dw_blobs w) of
        Inl e \<Rightarrow> Some (Raised e)
      | Inr raw \<Rightarrow> validate_existing_manifest (de_loads env) p raw)"

definition paste_audit :: "string \<Rightarrow> persist_result \<Rightarrow> paste \<Rightarrow> audit_event" where
  "paste_audit user r p =
     \<lparr>au_tenant = Some (pp_tenant p), au_actor = Some user, au_action = ''document_intake.paste.ready'',
      au_resource_type = ''attachment'', au_resource_id = Some (at_id (pr_row r)), au_outcome = ''SUCCESS'',
      au_metadata =
        [(''thread_id'', JStr (pp_thread p)), (''source_kind'', JStr ''LARGE_PASTE''),
         (''source_sha256'', JStr (pp_source_sha p)), (''canonical_sha256'', JStr (pp_canonical_sha p)),
         (''source_chars'', JInt (int (pp_source_chars p))),
         (''canonical_chars'', JInt (int (cn_chars (pp_canonical p)))),
         (''sections'', JInt (int (length (pp_sections p)))), (''chunks'', JInt (int (length (pp_chunks p)))),
         (''reused'', JBool (pr_reused r))]\<rparr>"

text \<open>The audit event has a commit of its own, whose failure is only logged.\<close>

definition record_paste :: "doc_faults \<Rightarrow> audit_event \<Rightarrow> doc_world \<Rightarrow> doc_world" where
  "record_paste f e w = (if df_audit_commit f = Commit_Lost then w else w\<lparr>dw_audits := dw_audits w @ [e]\<rparr>)"

definition store_paste ::
  "doc_env \<Rightarrow> doc_faults \<Rightarrow> string \<Rightarrow> paste \<Rightarrow> doc_world \<Rightarrow> (doc_error + paste_result) \<times> doc_world" where
  "store_paste env f user p w =
     (let manifest_key = manifest_key_for_storage (paste_key p) in
      case put_data f In_Store manifest_key (manifest_bytes (de_readers env) p) w of
        (Inl e, w1) \<Rightarrow> (Inl (intake_failure e), w1)
      | (Inr created, w1) \<Rightarrow>
        case (if created then None else check_manifest env f p w1) of
          Some e \<Rightarrow> (Inl (intake_failure e), w1)
        | None \<Rightarrow>
          case persist_attachment f In_Store (paste_row env user p) (cn_bytes (pp_canonical p)) w1 of
            (Inl e, w2) \<Rightarrow> (Inl (intake_failure e), if created then drop_data f In_Store manifest_key w2 else w2)
          | (Inr r, w2) \<Rightarrow>
              (Inr \<lparr>ps_row = pr_row r, ps_reused = pr_reused r, ps_paste = p, ps_manifest_key = manifest_key\<rparr>,
               record_paste f (paste_audit user r p) w2))"

definition ingest_large_paste ::
  "doc_env \<Rightarrow> doc_faults \<Rightarrow> intake_settings \<Rightarrow> string \<Rightarrow> string \<Rightarrow> string \<Rightarrow> string \<Rightarrow> string option \<Rightarrow> doc_world \<Rightarrow>
   (doc_error + paste_result) \<times> doc_world" where
  "ingest_large_paste env f s tenant user thread content title w =
     (case prepare_paste env s tenant thread content title of Inl e \<Rightarrow> (Inl e, w) | Inr p \<Rightarrow>
      if is_manifest_max s < int (length (manifest_bytes (de_readers env) p))
      then (Inl (Intake_Error ''DOCUMENT_INTAKE_MANIFEST_TOO_LARGE'' 413), w)
      else case build_blob_storage (is_backend s) of
        Inl e \<Rightarrow> (Inl (Raised e), w)
      | Inr store \<Rightarrow> store_paste env f user p w)"

end
