(* ===== verification/Doc_Context.thy ===== *)
theory Doc_Context
  imports Doc_Intake Doc_Extraction
begin

text \<open>
  The document context of a thread (src/src/orkio_v2/services/document_context.py): the attachments in
  the order of their creation, each either by the chunks of its manifest that fit the question or by
  the text extracted from its file, within a budget for the source and one for all of them, with the
  provenance of what was supplied. Exceptions outside of the handled classes end the whole request.
  \<open>preamble\<close> is the fixed text above the sources.
\<close>

text \<open>A handled error with its code, or an exception that leaves the function.\<close>

datatype source_error = Code (source_code: string) | Escapes

record context_settings =
  cs_enabled :: bool
  cs_max_files :: nat
  cs_max_chars :: int
  cs_max_chars_per_file :: int
  cs_max_pages :: int
  cs_manifest_max :: int
  cs_top_k :: int
  cs_root :: "string list"
  cs_backend :: string

text \<open>What a request reads with: \<open>ce_blobs\<close> is the configured store, \<open>ce_disk\<close> the disk of the process.\<close>

record context_env =
  ce_readers :: doc_readers
  ce_decode :: "string \<Rightarrow> string"
  ce_encode :: "string \<Rightarrow> string"
  ce_sha256 :: "string \<Rightarrow> string"
  ce_loads :: "string \<Rightarrow> json option"
  ce_read :: "string \<Rightarrow> bool"
  ce_blobs :: blob_map
  ce_disk :: disk
  ce_readable :: "string list \<Rightarrow> bool"

section \<open>Manifests\<close>

definition load_intake_manifest ::
  "context_env \<Rightarrow> context_settings \<Rightarrow> attachment \<Rightarrow> source_error + (string \<times> json) list option" where
  "load_intake_manifest env s a =
     (case blob_get (ce_read env) (manifest_key_for_storage (at_key a)) (ce_blobs env) of
        Inl e \<Rightarrow> if e = Blob_Error ''BLOB_NOT_FOUND'' then Inr None else Inl (Code ''DOCUMENT_INTAKE_MANIFEST_READ_FAILED'')
      | Inr raw \<Rightarrow>
          if cs_manifest_max s < int (length raw) then Inl (Code ''DOCUMENT_INTAKE_MANIFEST_TOO_LARGE'')
          else (case ce_loads env raw of
              Some (JObj kvs) \<Rightarrow>
                if obj_get kvs ''schema'' \<noteq> JStr manifest_schema \<or> obj_get kvs ''tenant_id'' \<noteq> JStr (at_tenant a) \<or>
                   obj_get kvs ''thread_id'' \<noteq> JStr (at_thread a) \<or>
                   obj_get kvs ''canonical_sha256'' \<noteq> JStr (at_sha256 a) \<or>
                   (case obj_get kvs ''chunks'' of JList xs \<Rightarrow> False | _ \<Rightarrow> True)
                then Inl (Code ''DOCUMENT_INTAKE_MANIFEST_INVALID'') else Inr (Some kvs)
            | _ \<Rightarrow> Inl (Code ''DOCUMENT_INTAKE_MANIFEST_INVALID'')))"

text \<open>The items of a list that are dicts.\<close>

definition manifest_chunks :: "(string \<times> json) list \<Rightarrow> json list" where
  "manifest_chunks kvs = (case obj_get kvs ''chunks'' of JList xs \<Rightarrow> xs | _ \<Rightarrow> [])"

definition dict_rows :: "json list \<Rightarrow> (string \<times> json) list list" where
  "dict_rows xs = map dict_items (filter is_dict xs)"

text \<open>\<open>int(row.get("ordinal", 0))\<close>; \<open>None\<close> is an exception.\<close>

definition row_ordinal :: "(string \<times> json) list \<Rightarrow> int option" where
  "row_ordinal row =
     (if ''ordinal'' \<notin> set (map fst row) then Some 0
      else case py_int (obj_get row ''ordinal'') of Inl e \<Rightarrow> None | Inr n \<Rightarrow> Some n)"

text \<open>\<open>{str(item) for item in (row.get("terms") or [])}\<close>.\<close>

definition row_terms :: "(string \<times> json) list \<Rightarrow> string list option" where
  "row_terms row =
     (let terms = obj_get row ''terms'' in
      if \<not> truthy terms then Some []
      else case terms of
          JList xs \<Rightarrow> Some (map py_str xs)
        | JStr t \<Rightarrow> Some (map (\<lambda>c. [c]) t)
        | JObj kvs \<Rightarrow> Some (map fst kvs)
        | _ \<Rightarrow> None)"

definition with_ordinals :: "(string \<times> json) list list \<Rightarrow> (int \<times> (string \<times> json) list) list option" where
  "with_ordinals rows = those (map (\<lambda>r. map_option (\<lambda>n. (n, r)) (row_ordinal r)) rows)"

definition with_scores ::
  "string list \<Rightarrow> (int \<times> (string \<times> json) list) list \<Rightarrow> (nat \<times> int \<times> (string \<times> json) list) list option" where
  "with_scores terms rows = those (map (\<lambda>(n, r). map_option (\<lambda>ts. (chunk_score terms ts, n, r)) (row_terms r)) rows)"

definition rank_intake_chunks :: "json list \<Rightarrow> string \<Rightarrow> int \<Rightarrow> (string \<times> json) list list option" where
  "rank_intake_chunks chunks query top_k =
     (let n = nat (max 1 top_k); terms = lexical_query_terms query in
      case with_ordinals (dict_rows chunks) of None \<Rightarrow> None | Some rows \<Rightarrow>
      let safe = sort_key fst rows in
      if terms = [] then Some (take n (map snd safe))
      else case with_scores terms safe of None \<Rightarrow> None | Some all \<Rightarrow>
        let scored = filter (\<lambda>(score, _). score \<noteq> 0) all in
        if scored = [] then Some (take n (map snd safe))
        else Some (take n (map (snd \<circ> snd) (sort_key (\<lambda>(score, ordinal, _). (- int score, ordinal)) scored))))"

section \<open>The text of a paste\<close>

text \<open>\<open>int(row["byte_start"])\<close>, \<open>int(row["byte_end"])\<close> and \<open>str(row["text_sha256"])\<close>.\<close>

definition manifest_int :: "(string \<times> json) list \<Rightarrow> string \<Rightarrow> source_error + int" where
  "manifest_int row name =
     (if name \<notin> set (map fst row) then Inl (Code ''DOCUMENT_INTAKE_MANIFEST_INVALID'')
      else case py_int (obj_get row name) of
        Inl e \<Rightarrow> Inl (if e \<in> {TypeError, ValueError} then Code ''DOCUMENT_INTAKE_MANIFEST_INVALID'' else Escapes)
      | Inr n \<Rightarrow> Inr n)"

definition chunk_range :: "(string \<times> json) list \<Rightarrow> source_error + int \<times> int \<times> string" where
  "chunk_range row =
     (case manifest_int row ''byte_start'' of Inl e \<Rightarrow> Inl e | Inr start \<Rightarrow>
      case manifest_int row ''byte_end'' of Inl e \<Rightarrow> Inl e | Inr stop \<Rightarrow>
      if ''text_sha256'' \<notin> set (map fst row) \<or> start < 0 \<or> stop \<le> start
      then Inl (Code ''DOCUMENT_INTAKE_MANIFEST_INVALID'')
      else Inr (start, stop, py_str (obj_get row ''text_sha256'')))"

definition chunk_text :: "context_env \<Rightarrow> string \<Rightarrow> (string \<times> json) list \<Rightarrow> source_error + string" where
  "chunk_text env key row =
     (case chunk_range row of Inl e \<Rightarrow> Inl e | Inr (start, stop, sha) \<Rightarrow>
      case blob_read_range (ce_read env) key (nat start) (nat stop) (ce_blobs env) of
        Inl e \<Rightarrow> Inl (Code ''DOCUMENT_STORAGE_ERROR'')
      | Inr raw \<Rightarrow> if ce_sha256 env raw \<noteq> sha then Inl (Code ''DOCUMENT_INTAKE_CHUNK_SHA256_MISMATCH'')
          else Inr (py_strip (ce_decode env raw)))"

text \<open>The loop: pieces are taken until the budget is used up, the last one cut to what is left.\<close>

definition cut_piece :: "nat \<Rightarrow> string \<Rightarrow> string" where
  "cut_piece remaining t = (if remaining < length t then py_rstrip (take remaining t) else t)"

fun take_pieces ::
  "context_env \<Rightarrow> string \<Rightarrow> nat \<Rightarrow> nat \<Rightarrow> (string \<times> json) list list \<Rightarrow> source_error + string list" where
  "take_pieces env key budget provided [] = Inr []"
| "take_pieces env key budget provided (row # rows) =
     (if budget \<le> provided then Inr []
      else case chunk_text env key row of Inl e \<Rightarrow> Inl e | Inr t \<Rightarrow>
        let piece = cut_piece (budget - provided) t in
        case take_pieces env key budget (provided + length piece) rows of
          Inl e \<Rightarrow> Inl e
        | Inr pieces \<Rightarrow> Inr (if piece = [] then pieces else piece # pieces))"

record selected =
  sx_text :: string
  sx_source_chars :: int
  sx_provided :: nat
  sx_truncated :: bool
  sx_sha :: string

definition int_or_zero :: "json \<Rightarrow> int option" where
  "int_or_zero v = (if \<not> truthy v then Some 0 else case py_int v of Inl e \<Rightarrow> None | Inr n \<Rightarrow> Some n)"

definition select_intake_context ::
  "context_env \<Rightarrow> attachment \<Rightarrow> (string \<times> json) list \<Rightarrow> string \<Rightarrow> nat \<Rightarrow> nat \<Rightarrow> int \<Rightarrow> source_error + selected" where
  "select_intake_context env a manifest query per_limit remaining top_k =
     (let chunks = manifest_chunks manifest; budget = min per_limit remaining in
      case rank_intake_chunks chunks query top_k of None \<Rightarrow> Inl Escapes | Some ranked \<Rightarrow>
      case take_pieces env (at_key a) budget 0 ranked of Inl e \<Rightarrow> Inl e | Inr pieces \<Rightarrow>
      let provided = sum_list (map length pieces) in
      case int_or_zero (obj_get manifest ''source_chars'') of None \<Rightarrow> Inl Escapes | Some source_chars \<Rightarrow>
      case int_or_zero (obj_get manifest ''canonical_chars'') of None \<Rightarrow> Inl Escapes | Some canonical_chars \<Rightarrow>
        Inr \<lparr>sx_text = py_join [CHR 0x0A, CHR 0x0A] pieces, sx_source_chars = source_chars, sx_provided = provided,
          sx_truncated = (int provided < canonical_chars \<or> length ranked < length chunks \<or> budget \<le> provided),
          sx_sha = (let v = obj_get manifest ''source_sha256'' in if truthy v then py_str v else at_sha256 a)\<rparr>)"

section \<open>One source\<close>

record source =
  so_text :: string
  so_source_chars :: int
  so_provided :: nat
  so_truncated :: bool
  so_file_cut :: bool
  so_total_cut :: bool
  so_sha :: string

definition manifest_source :: "nat \<Rightarrow> selected \<Rightarrow> source" where
  "manifest_source remaining x =
     \<lparr>so_text = sx_text x, so_source_chars = sx_source_chars x, so_provided = sx_provided x,
      so_truncated = sx_truncated x, so_file_cut = sx_truncated x,
      so_total_cut = (remaining \<le> sx_provided x \<and> sx_truncated x), so_sha = sx_sha x\<rparr>"

text \<open>\<open>_safe_storage_path\<close> and \<open>read_bytes\<close>: of the errors of the disk only a missing file is handled.\<close>

definition read_attachment :: "context_env \<Rightarrow> context_settings \<Rightarrow> string \<Rightarrow> source_error + string" where
  "read_attachment env s key =
     (case target_of (cs_root s) key of
        Inl e \<Rightarrow> Inl (Code ''DOCUMENT_STORAGE_PATH_INVALID'')
      | Inr target \<Rightarrow> (case read_file (ce_readable env) target (ce_disk env) of
            Inl e \<Rightarrow> Inl (if e = Blob_Error ''BLOB_NOT_FOUND'' then Code ''DOCUMENT_STORAGE_MISSING'' else Escapes)
          | Inr raw \<Rightarrow> Inr raw))"

definition file_source ::
  "context_env \<Rightarrow> context_settings \<Rightarrow> attachment \<Rightarrow> nat \<Rightarrow> nat \<Rightarrow> source_error + source" where
  "file_source env s a per_limit remaining =
     (case read_attachment env s (at_key a) of Inl e \<Rightarrow> Inl e | Inr raw \<Rightarrow>
      if ce_sha256 env raw \<noteq> at_sha256 a then Inl (Code ''DOCUMENT_SHA256_MISMATCH'')
      else case extract_document (ce_readers env) (cs_max_pages s) (at_mime a) raw of
        Inl e \<Rightarrow> Inl (Code e)
      | Inr full \<Rightarrow>
          let per_file = take per_limit full; text = take remaining per_file;
              file_cut = length per_file < length full; total_cut = length text < length per_file
          in Inr \<lparr>so_text = text, so_source_chars = int (length full), so_provided = length text,
               so_truncated = (file_cut \<or> total_cut), so_file_cut = file_cut, so_total_cut = total_cut,
               so_sha = ce_sha256 env (ce_encode env full)\<rparr>)"

definition read_source ::
  "context_env \<Rightarrow> context_settings \<Rightarrow> string \<Rightarrow> attachment \<Rightarrow> nat \<Rightarrow> source_error + source" where
  "read_source env s query a remaining =
     (let per_limit = nat (cs_max_chars_per_file s) in
      case load_intake_manifest env s a of Inl e \<Rightarrow> Inl e
      | Inr (Some manifest) \<Rightarrow> map_sum id (manifest_source remaining)
          (select_intake_context env a manifest query per_limit remaining (cs_top_k s))
      | Inr None \<Rightarrow> file_source env s a per_limit remaining)"

section \<open>The bundle\<close>

record source_provenance =
  pv_attachment :: string
  pv_filename :: string
  pv_source_chars :: int
  pv_provided :: nat
  pv_truncated :: bool
  pv_sha :: string

record provenance =
  pc_available :: bool
  pc_sources :: nat
  pc_source_ids :: "string list"
  pc_status :: string
  pc_source_chars :: int
  pc_provided :: nat
  pc_file_truncated :: bool
  pc_total_truncated :: bool
  pc_truncated :: bool
  pc_provenance :: "source_provenance list"

record doc_bundle =
  bu_blocks :: "string list"
  bu_provenance :: provenance
  bu_errors :: "(string \<times> string) list"

definition status_for :: "nat \<Rightarrow> nat \<Rightarrow> bool \<Rightarrow> string" where
  "status_for successful errors truncated =
     (if successful = 0 then (if errors \<noteq> 0 then ''failed'' else ''none'')
      else if errors \<noteq> 0 \<or> truncated then ''partial'' else ''ready'')"

text \<open>The variables of the loop; the totals are sums over the provenance.\<close>

record gathered =
  ga_remaining :: nat
  ga_blocks :: "string list"
  ga_errors :: "(string \<times> string) list"
  ga_sources :: "source_provenance list"
  ga_file_cut :: bool
  ga_total_cut :: bool

definition source_header :: "attachment \<Rightarrow> string" where
  "source_header a = [CHR 0x0A] @ ''--- attachment:'' @ at_id a @ '' filename:'' @ at_filename a @ '' mime:'' @ at_mime a @
     '' ---'' @ [CHR 0x0A]"

definition source_block :: "attachment \<Rightarrow> source \<Rightarrow> string" where
  "source_block a x = source_header a @ so_text x @ (if so_truncated x then truncation_marker else [])"

definition provenance_of :: "attachment \<Rightarrow> source \<Rightarrow> source_provenance" where
  "provenance_of a x =
     \<lparr>pv_attachment = at_id a, pv_filename = at_filename a, pv_source_chars = so_source_chars x,
      pv_provided = so_provided x, pv_truncated = so_truncated x, pv_sha = so_sha x\<rparr>"

definition add_source :: "attachment \<Rightarrow> source \<Rightarrow> gathered \<Rightarrow> gathered" where
  "add_source a x g =
     \<lparr>ga_remaining = ga_remaining g - so_provided x,
      ga_blocks = ga_blocks g @ (if so_provided x \<noteq> 0 then [source_block a x] else []),
      ga_errors = ga_errors g, ga_sources = ga_sources g @ [provenance_of a x],
      ga_file_cut = (ga_file_cut g \<or> so_file_cut x), ga_total_cut = (ga_total_cut g \<or> so_total_cut x)\<rparr>"

fun gather ::
  "context_env \<Rightarrow> context_settings \<Rightarrow> string \<Rightarrow> attachment list \<Rightarrow> gathered \<Rightarrow> gathered option" where
  "gather env s query [] g = Some g"
| "gather env s query (a # rows) g =
     (case read_source env s query a (ga_remaining g) of
        Inr x \<Rightarrow> gather env s query rows (add_source a x g)
      | Inl (Code code) \<Rightarrow> gather env s query rows (g\<lparr>ga_errors := ga_errors g @ [(at_id a, code)]\<rparr>)
      | Inl Escapes \<Rightarrow> None)"

definition error_blocks :: "(string \<times> string) list \<Rightarrow> string list" where
  "error_blocks errors = (if errors = [] then []
     else ([CHR 0x0A] @ ''DOCUMENT EXTRACTION ERRORS:'') #
       map (\<lambda>(i, code). ''- attachment:'' @ i @ '' code:'' @ code) errors)"

definition bundle_of :: "gathered \<Rightarrow> doc_bundle" where
  "bundle_of g =
     (let total_cut = (ga_total_cut g \<or> (\<exists>p \<in> set (ga_sources g). pv_provided p = 0 \<and> 0 < pv_source_chars p));
          truncated = (ga_file_cut g \<or> total_cut); provided = sum_list (map pv_provided (ga_sources g))
      in \<lparr>bu_blocks = ga_blocks g @ error_blocks (ga_errors g),
          bu_provenance = \<lparr>pc_available = (0 < provided), pc_sources = length (ga_sources g),
            pc_source_ids = map pv_attachment (ga_sources g),
            pc_status = status_for (length (ga_sources g)) (length (ga_errors g)) truncated,
            pc_source_chars = sum_list (map pv_source_chars (ga_sources g)), pc_provided = provided,
            pc_file_truncated = ga_file_cut g, pc_total_truncated = total_cut, pc_truncated = truncated,
            pc_provenance = ga_sources g\<rparr>,
          bu_errors = ga_errors g\<rparr>)"

definition thread_rows :: "context_settings \<Rightarrow> string \<Rightarrow> string \<Rightarrow> attachment list \<Rightarrow> attachment list" where
  "thread_rows s tenant thread rows =
     take (cs_max_files s) (sort_key (\<lambda>a. (at_created a, at_id a))
       (filter (\<lambda>a. at_tenant a = tenant \<and> at_thread a = thread) rows))"

text \<open>\<open>build_document_context\<close>: the outer \<open>None\<close> is an exception, the inner one no context.\<close>

definition build_document_context ::
  "context_env \<Rightarrow> context_settings \<Rightarrow> string \<Rightarrow> string \<Rightarrow> string \<Rightarrow> string \<Rightarrow> attachment list \<Rightarrow> doc_bundle option option" where
  "build_document_context env s preamble tenant thread query rows =
     (let mine = thread_rows s tenant thread rows in
      if \<not> cs_enabled s \<or> mine = [] then Some None
      else case build_blob_storage (cs_backend s) of Inl e \<Rightarrow> None | Inr store \<Rightarrow>
      map_option (\<lambda>g. Some (bundle_of g)) (gather env s query mine
        \<lparr>ga_remaining = nat (cs_max_chars s), ga_blocks = [preamble], ga_errors = [], ga_sources = [],
         ga_file_cut = False, ga_total_cut = False\<rparr>))"

definition bundle_content :: "doc_bundle \<Rightarrow> string" where
  "bundle_content b = py_join [CHR 0x0A] (bu_blocks b)"

definition document_context_message ::
  "context_env \<Rightarrow> context_settings \<Rightarrow> string \<Rightarrow> string \<Rightarrow> string \<Rightarrow> string \<Rightarrow> attachment list \<Rightarrow> string option option" where
  "document_context_message env s preamble tenant thread query rows =
     map_option (map_option bundle_content) (build_document_context env s preamble tenant thread query rows)"

section \<open>The compatibility wrapper\<close>

text \<open>\<open>content.find(p, from)\<close>.\<close>

fun find_from :: "string \<Rightarrow> string \<Rightarrow> nat \<Rightarrow> nat option" where
  "find_from p [] n = (if p = [] then Some n else None)"
| "find_from p (c # cs) n = (if py_startswith (c # cs) p then Some n else find_from p cs (Suc n))"

definition py_find :: "string \<Rightarrow> string \<Rightarrow> nat \<Rightarrow> nat option" where
  "py_find content p start = find_from p (drop start content) start"

definition visible_text :: "string \<Rightarrow> source_provenance \<Rightarrow> string option" where
  "visible_text content p =
     (case py_find content (''--- attachment:'' @ pv_attachment p @ '' filename:'' @ pv_filename p @ '' '') 0 of
        None \<Rightarrow> None
      | Some found \<Rightarrow> (case py_find content [CHR 0x0A] found of
          None \<Rightarrow> None
        | Some start \<Rightarrow>
          let stop = (case py_find content ([CHR 0x0A] @ ''--- attachment:'') (start + 1) of
              Some e \<Rightarrow> e
            | None \<Rightarrow> (case py_find content ([CHR 0x0A] @ ''DOCUMENT EXTRACTION ERRORS:'') (start + 1) of
                Some e \<Rightarrow> e | None \<Rightarrow> length content))
          in Some (take (stop - (start + 1)) (drop (start + 1) content))))"

definition load_thread_documents ::
  "context_env \<Rightarrow> context_settings \<Rightarrow> string \<Rightarrow> string \<Rightarrow> string \<Rightarrow> attachment list \<Rightarrow>
   ((string \<times> string \<times> string) list \<times> (string \<times> string) list) option" where
  "load_thread_documents env s preamble tenant thread rows =
     (case build_document_context env s preamble tenant thread [] rows of
        None \<Rightarrow> None
      | Some None \<Rightarrow> Some ([], [])
      | Some (Some b) \<Rightarrow> Some
          (concat (map (\<lambda>p. case visible_text (bundle_content b) p of
               None \<Rightarrow> [] | Some t \<Rightarrow> [(pv_attachment p, pv_filename p, t)]) (pc_provenance (bu_provenance b))),
           bu_errors b))"

end
