(* ===== verification/Doc_Routes.thy ===== *)
theory Doc_Routes
  imports Doc_Context Know_Routes
begin

text \<open>
  The routes of attachments, of pastes and of the document context (src/src/orkio_v2/routes.py): who may
  use a thread, what is checked before anything is stored, and the answer to each exception. An
  exception that no handler of the route names is the answer 500.
\<close>

definition uncaught_error :: http_error where
  "uncaught_error = HttpError 500 ''Internal Server Error''"

section \<open>Threads\<close>

record thread_row =
  tr_id :: string
  tr_tenant :: string

record participant =
  pt_thread :: string
  pt_user :: string
  pt_role :: string
  pt_view :: bool
  pt_upload :: bool
  pt_active :: bool

record caller =
  cl_tenant :: string
  cl_user :: string

record threads =
  ts_threads :: "thread_row list"
  ts_participants :: "participant list"

definition thread_access :: "threads \<Rightarrow> string \<Rightarrow> caller \<Rightarrow> http_error + participant" where
  "thread_access ts thread p =
     (case scalar (\<lambda>t. tr_id t = thread) (ts_threads ts) of
        None \<Rightarrow> Inl (HttpError 404 ''THREAD_NOT_FOUND'')
      | Some t \<Rightarrow>
          if tr_tenant t \<noteq> cl_tenant p then Inl (HttpError 404 ''THREAD_NOT_FOUND'')
          else (case scalar (\<lambda>m. pt_thread m = thread \<and> pt_user m = cl_user p \<and> pt_active m) (ts_participants ts) of
              None \<Rightarrow> Inl (HttpError 403 ''THREAD_ACCESS_DENIED'')
            | Some m \<Rightarrow> Inr m))"

section \<open>Pastes\<close>

definition intake_large_paste ::
  "threads \<Rightarrow> bool \<Rightarrow> doc_env \<Rightarrow> doc_faults \<Rightarrow> intake_settings \<Rightarrow> caller \<Rightarrow> string \<Rightarrow> string \<Rightarrow> string option \<Rightarrow>
   doc_world \<Rightarrow> (http_error + paste_result) \<times> doc_world" where
  "intake_large_paste ts artifacts_enabled env f s p thread content title w =
     (if \<not> artifacts_enabled then (Inl (HttpError 403 ''ARTIFACTS_DISABLED''), w)
      else case thread_access ts thread p of Inl e \<Rightarrow> (Inl e, w) | Inr m \<Rightarrow>
      if pt_role m = ''viewer'' then (Inl (HttpError 403 ''THREAD_READ_ONLY''), w)
      else if \<not> pt_upload m then (Inl (HttpError 403 ''UPLOAD_PERMISSION_REQUIRED''), w)
      else case ingest_large_paste env f s (cl_tenant p) (cl_user p) thread content title w of
        (Inr r, w') \<Rightarrow> (Inr r, w')
      | (Inl (Intake_Error code status), w') \<Rightarrow> (Inl (HttpError status code), w')
      | (Inl e, w') \<Rightarrow> (Inl uncaught_error, w'))"

section \<open>Uploads\<close>

record upload_settings =
  us_artifacts :: bool
  us_max_bytes :: nat
  us_root :: "string list"
  us_backend :: string

definition allowed_mimes :: "string list" where
  "allowed_mimes = [''application/pdf'', ''text/plain'', ''text/csv'', ''text/markdown'', ''application/json'',
     office_mime ''wordprocessingml.document'', office_mime ''spreadsheetml.sheet'',
     office_mime ''presentationml.presentation'']"

definition suffix_mimes :: "(string \<times> string) list" where
  "suffix_mimes = [(''.pdf'', ''application/pdf''), (''.txt'', ''text/plain''), (''.csv'', ''text/csv''),
     (''.md'', ''text/markdown''), (''.markdown'', ''text/markdown''), (''.json'', ''application/json''),
     (''.docx'', office_mime ''wordprocessingml.document''), (''.xlsx'', office_mime ''spreadsheetml.sheet''),
     (''.pptx'', office_mime ''presentationml.presentation'')]"

definition upload_mime :: "string \<Rightarrow> string option \<Rightarrow> string option" where
  "upload_mime safe content_type =
     (case content_type of
        Some m \<Rightarrow> if m \<in> set allowed_mimes then Some m
          else (case map_of suffix_mimes (py_lower (path_suffix safe)) of None \<Rightarrow> Some m | Some x \<Rightarrow> Some x)
      | None \<Rightarrow> map_of suffix_mimes (py_lower (path_suffix safe)))"

definition upload_key :: "caller \<Rightarrow> string \<Rightarrow> string \<Rightarrow> string \<Rightarrow> string" where
  "upload_key p thread digest safe = cl_tenant p @ ''/'' @ thread @ ''/'' @ digest @ ''-'' @ safe"

definition upload_row :: "doc_env \<Rightarrow> caller \<Rightarrow> string \<Rightarrow> string \<Rightarrow> string \<Rightarrow> string \<Rightarrow> attachment" where
  "upload_row env p thread safe mime data =
     (let digest = kn_sha256 (de_know env) data in
      \<lparr>at_id = de_id env, at_tenant = cl_tenant p, at_thread = thread, at_uploaded_by = cl_user p,
       at_filename = safe, at_mime = mime, at_bytes = int (length data), at_sha256 = digest,
       at_key = upload_key p thread digest safe, at_status = ''ready'', at_created = kn_now (de_know env)\<rparr>)"

definition upload_answer :: "doc_error \<Rightarrow> http_error" where
  "upload_answer e = (case e of
       Identity_Conflict \<Rightarrow> HttpError 409 ''ATTACHMENT_IDENTITY_CONFLICT''
     | Raised (Blob_Error code) \<Rightarrow> HttpError 503 code
     | _ \<Rightarrow> uncaught_error)"

text \<open>The checks of the route, up to the row and the bytes that are to be stored.\<close>

definition check_upload ::
  "threads \<Rightarrow> upload_settings \<Rightarrow> doc_env \<Rightarrow> caller \<Rightarrow> string \<Rightarrow> string option \<Rightarrow> string option \<Rightarrow> string \<Rightarrow>
   http_error + attachment \<times> string" where
  "check_upload ts s env p thread filename content_type body =
     (if \<not> us_artifacts s then Inl (HttpError 403 ''ARTIFACTS_DISABLED'')
      else case thread_access ts thread p of Inl e \<Rightarrow> Inl e | Inr m \<Rightarrow>
      if \<not> pt_upload m then Inl (HttpError 403 ''UPLOAD_PERMISSION_REQUIRED'')
      else let data = take (us_max_bytes s + 1) body;
          safe = path_name (case filename of None \<Rightarrow> ''file'' | Some n \<Rightarrow> if n = [] then ''file'' else n) in
      if us_max_bytes s < length data then Inl (HttpError 413 ''FILE_TOO_LARGE'')
      else if safe = [] \<or> safe \<in> {''.'', ''..''} then Inl (HttpError 400 ''FILENAME_INVALID'')
      else case upload_mime safe content_type of
        None \<Rightarrow> Inl (HttpError 415 ''MIME_TYPE_NOT_ALLOWED'')
      | Some mime \<Rightarrow>
        if mime \<notin> set allowed_mimes then Inl (HttpError 415 ''MIME_TYPE_NOT_ALLOWED'')
        else let a = upload_row env p thread safe mime data in
        case target_of (us_root s) (at_key a) of
          Inl e \<Rightarrow> Inl (HttpError 400 ''STORAGE_PATH_INVALID'')
        | Inr target \<Rightarrow> Inr (a, data))"

definition upload_attachment ::
  "threads \<Rightarrow> upload_settings \<Rightarrow> doc_env \<Rightarrow> doc_faults \<Rightarrow> caller \<Rightarrow> string \<Rightarrow> string option \<Rightarrow> string option \<Rightarrow> string \<Rightarrow>
   doc_world \<Rightarrow> (http_error + persist_result) \<times> doc_world" where
  "upload_attachment ts s env f p thread filename content_type body w =
     (case check_upload ts s env p thread filename content_type body of
        Inl e \<Rightarrow> (Inl e, w)
      | Inr (a, data) \<Rightarrow> (case build_blob_storage (us_backend s) of
            Inl e \<Rightarrow> (Inl (upload_answer (Raised e)), w)
          | Inr store \<Rightarrow> (case persist_attachment f In_Store a data w of
              (Inl e, w') \<Rightarrow> (Inl (upload_answer e), w')
            | (Inr r, w') \<Rightarrow> (Inr r, w'))))"

section \<open>The context of a thread\<close>

text \<open>The answer is the provenance without the digests of the sources.\<close>

definition no_provenance :: provenance where
  "no_provenance = \<lparr>pc_available = False, pc_sources = 0, pc_source_ids = [], pc_status = ''none'',
     pc_source_chars = 0, pc_provided = 0, pc_file_truncated = False, pc_total_truncated = False,
     pc_truncated = False, pc_provenance = []\<rparr>"

definition document_context_provenance ::
  "threads \<Rightarrow> context_env \<Rightarrow> context_settings \<Rightarrow> string \<Rightarrow> caller \<Rightarrow> string \<Rightarrow> attachment list \<Rightarrow>
   http_error + provenance" where
  "document_context_provenance ts env s preamble p thread rows =
     (case thread_access ts thread p of Inl e \<Rightarrow> Inl e | Inr m \<Rightarrow>
      if \<not> pt_view m then Inl (HttpError 403 ''ATTACHMENT_VIEW_PERMISSION_REQUIRED'')
      else case build_document_context env s preamble (cl_tenant p) thread [] rows of
        None \<Rightarrow> Inl uncaught_error
      | Some None \<Rightarrow> Inr no_provenance
      | Some (Some b) \<Rightarrow> Inr (bu_provenance b))"

end
