(* ===== verification/Doc_Facts.thy ===== *)
theory Doc_Facts
  imports Doc_Routes Know_Facts
begin

text \<open>
  The attachments as a state machine: uploads and pastes, each with its environment and its faults. The
  invariant says that every row has its blob, and that a blob is named by its digest; rows are never
  lost.
\<close>

section \<open>Names\<close>

text \<open>
  A key names the digest of its blob: its last component starts with it, and the first two are the
  tenant and the thread. Manifests are the keys of four components with the suffix of a manifest.
\<close>

definition key_digest :: "string \<Rightarrow> string" where
  "key_digest key = take 64 (last (py_split (CHR ''/'') key))"

definition key_scope :: "string \<Rightarrow> string list" where
  "key_scope key = take 2 (py_split (CHR ''/'') key)"

definition is_manifest :: "string \<Rightarrow> bool" where
  "is_manifest key \<longleftrightarrow> length (py_split (CHR ''/'') key) = 4 \<and> suffix ''.intake-v1.json'' key"

definition row_named :: "attachment \<Rightarrow> bool" where
  "row_named r \<longleftrightarrow> at_sha256 r = key_digest (at_key r) \<and> key_scope (at_key r) = [at_tenant r, at_thread r] \<and>
     \<not> is_manifest (at_key r)"

definition has_blob :: "(string \<Rightarrow> string) \<Rightarrow> blob_map \<Rightarrow> attachment \<Rightarrow> bool" where
  "has_blob sha b r \<longleftrightarrow> (\<exists>x. b (at_key r) = Some x \<and> sha x = at_sha256 r)"

definition blobs_named :: "(string \<Rightarrow> string) \<Rightarrow> blob_map \<Rightarrow> bool" where
  "blobs_named sha b \<longleftrightarrow> (\<forall>k x. b k = Some x \<longrightarrow> is_manifest k \<or> sha x = key_digest k)"

definition doc_ok :: "(string \<Rightarrow> string) \<Rightarrow> doc_world \<Rightarrow> bool" where
  "doc_ok sha w \<longleftrightarrow> (\<forall>r \<in> set (dw_rows w). row_named r \<and> has_blob sha (dw_blobs w) r) \<and>
     blobs_named sha (dw_blobs w) \<and> attachment_constraints (dw_rows w)"

text \<open>The rows of the others: they are in order, and their blobs are there or come under the same key.\<close>

definition others_ok :: "(string \<Rightarrow> string) \<Rightarrow> doc_faults \<Rightarrow> string \<Rightarrow> doc_world \<Rightarrow> bool" where
  "others_ok sha f key w \<longleftrightarrow> attachment_constraints (dw_rows w @ df_others f) \<and>
     (\<forall>r \<in> set (df_others f). row_named r \<and> (at_key r = key \<or> has_blob sha (dw_blobs w) r))"

lemma has_blob_mono: "has_blob sha b r \<Longrightarrow> b \<subseteq>\<^sub>m b' \<Longrightarrow> has_blob sha b' r"
  by (force simp: has_blob_def map_le_def dom_def)

lemma put_grows: "b \<subseteq>\<^sub>m snd (blob_put_if_absent c key data b)"
  by (auto simp: map_le_def blob_put_if_absent_def split: put_outcome.split)

lemma put_named:
  assumes "blobs_named sha b" and "is_manifest key \<or> sha data = key_digest key"
  shows "blobs_named sha (snd (blob_put_if_absent c key data b))"
  using assms by (auto simp: blobs_named_def blob_put_if_absent_def split: put_outcome.split if_splits)

lemma put_answer: "fst (blob_put_if_absent c key data b) = Inr new \<Longrightarrow>
  snd (blob_put_if_absent c key data b) key \<noteq> None \<and> (new \<longleftrightarrow> b key = None)"
  by (auto simp: blob_put_if_absent_def split: put_outcome.splits if_splits)

text \<open>A put into the store, seen as a step of the world.\<close>

lemma put_data_cases:
  obtains r b where "put_data f In_Store key data w = (r, w\<lparr>dw_blobs := b\<rparr>)"
    and "b = snd (blob_put_if_absent (df_put f key) key data (dw_blobs w))"
    and "r = map_sum Raised id (fst (blob_put_if_absent (df_put f key) key data (dw_blobs w)))"
  by (cases "blob_put_if_absent (df_put f key) key data (dw_blobs w)") (simp add: put_data_def)

lemma put_data_ok:
  assumes "doc_ok sha w" and "is_manifest key \<or> sha data = key_digest key"
    and "put_data f In_Store key data w = (r, w')"
  shows "doc_ok sha w'" and "dw_rows w' = dw_rows w" and "dw_blobs w \<subseteq>\<^sub>m dw_blobs w'"
    and "r = Inr new \<Longrightarrow> dw_blobs w' key \<noteq> None"
proof -
  obtain b r' where *: "put_data f In_Store key data w = (r', w\<lparr>dw_blobs := b\<rparr>)"
    "b = snd (blob_put_if_absent (df_put f key) key data (dw_blobs w))"
    "r' = map_sum Raised id (fst (blob_put_if_absent (df_put f key) key data (dw_blobs w)))"
    by (rule put_data_cases)
  with assms(3) have w': "w' = w\<lparr>dw_blobs := b\<rparr>" "r = r'" by simp_all
  show grows: "dw_blobs w \<subseteq>\<^sub>m dw_blobs w'" "dw_rows w' = dw_rows w"
    by (simp_all add: w' *(2) put_grows)
  show "doc_ok sha w'"
    using assms(1) put_named [of sha "dw_blobs w" key data "df_put f key"] assms(2) has_blob_mono [OF _ grows(1), of sha]
    by (simp add: doc_ok_def w' *(2))
  show "dw_blobs w' key \<noteq> None" if "r = Inr new"
    using put_answer [of "df_put f key" key data "dw_blobs w"] that w' *
    by (cases "fst (blob_put_if_absent (df_put f key) key data (dw_blobs w))") auto
qed

lemma drop_data_ok:
  assumes "doc_ok sha w" and "key \<notin> at_key ` set (dw_rows w)"
  shows "doc_ok sha (drop_data f In_Store key w)"
proof -
  have b: "snd (blob_delete (df_delete f) key (dw_blobs w)) \<in> {dw_blobs w, (dw_blobs w)(key := None)}"
    by (auto simp: blob_delete_def split: delete_outcome.split)
  have "has_blob sha ((dw_blobs w)(key := None)) r" if "r \<in> set (dw_rows w)" for r
    using assms that by (auto simp: doc_ok_def has_blob_def)
  moreover have "blobs_named sha (dw_blobs w) \<Longrightarrow> blobs_named sha ((dw_blobs w)(key := None))"
    by (simp add: blobs_named_def)
  ultimately show ?thesis using assms(1) b by (auto simp: doc_ok_def drop_data_def)
qed

lemma named_same_scope: "row_named r \<Longrightarrow> row_named a \<Longrightarrow> at_key r = at_key a \<Longrightarrow>
  at_tenant r = at_tenant a \<and> at_thread r = at_thread a \<and> at_sha256 r = at_sha256 a"
  by (auto simp: row_named_def)

lemma find_existing_None:
  assumes "\<forall>r \<in> set rows. row_named r" and "row_named a"
  shows "find_existing a rows = None \<longleftrightarrow> at_key a \<notin> at_key ` set rows"
proof -
  have "at_tenant r = at_tenant a \<and> at_thread r = at_thread a \<and> at_key r = at_key a \<longleftrightarrow> at_key r = at_key a"
    if "r \<in> set rows" for r
    using named_same_scope [OF _ assms(2)] assms(1) that by auto
  then have "find_existing a rows = None \<longleftrightarrow> (\<forall>r \<in> set rows. at_key r \<noteq> at_key a)"
    by (auto simp: find_existing_def scalar_None)
  then show ?thesis by (simp add: image_iff) metis
qed

section \<open>Persisting\<close>

lemma merge_others:
  assumes "doc_ok sha w" and "others_ok sha f key w0" and "dw_rows w = dw_rows w0" and "dw_blobs w0 \<subseteq>\<^sub>m dw_blobs w"
    and "dw_blobs w key \<noteq> None" and "\<not> is_manifest key"
  shows "doc_ok sha (w\<lparr>dw_rows := dw_rows w @ df_others f\<rparr>)"
proof -
  obtain x where x: "dw_blobs w key = Some x" "sha x = key_digest key"
    using assms by (auto simp: doc_ok_def blobs_named_def)
  have "has_blob sha (dw_blobs w) r" if "r \<in> set (df_others f)" for r
  proof (cases "at_key r = key")
    case True
    with assms(2) that x show ?thesis by (simp add: others_ok_def has_blob_def row_named_def)
  next
    case False
    with assms(2) that have "has_blob sha (dw_blobs w0) r" unfolding others_ok_def by blast
    then show ?thesis using assms(4) by (rule has_blob_mono)
  qed
  with assms show ?thesis by (auto simp: doc_ok_def others_ok_def)
qed

lemma add_row_ok:
  assumes "doc_ok sha w" and "fresh_key at_id (at_id a) (dw_rows w)" and "fresh_key at_key (at_key a) (dw_rows w)"
    and "row_named a" and "dw_blobs w (at_key a) \<noteq> None"
  shows "doc_ok sha (w\<lparr>dw_rows := dw_rows w @ [a]\<rparr>)"
proof -
  have "has_blob sha (dw_blobs w) a"
    using assms by (auto simp: doc_ok_def blobs_named_def has_blob_def row_named_def)
  with assms show ?thesis by (auto simp: doc_ok_def attachment_constraints_def unique_key_snoc)
qed

lemma persist_ok:
  assumes "doc_ok sha w" and "row_named a" and "at_sha256 a = sha data" and "others_ok sha f (at_key a) w"
    and "persist_attachment f In_Store a data w = (r, w')"
  shows "doc_ok sha w'" and "\<exists>new. dw_rows w' = dw_rows w @ new"
    and "\<forall>x \<in> set (dw_rows w). dw_blobs w' (at_key x) = dw_blobs w (at_key x)"
proof -
  obtain p w1 where put: "put_data f In_Store (at_key a) data w = (p, w1)" by fastforce
  have named: "is_manifest (at_key a) \<or> sha data = key_digest (at_key a)" using assms(2,3) by (simp add: row_named_def)
  note P = put_data_ok [OF assms(1) named put]
  have kept: "dw_blobs w1 (at_key x) = dw_blobs w (at_key x)" if "x \<in> set (dw_rows w)" for x
    using P(3) assms(1) that by (force simp: doc_ok_def has_blob_def map_le_def dom_def)
  have "doc_ok sha w' \<and> (\<exists>new. dw_rows w' = dw_rows w @ new) \<and>
    (\<forall>x \<in> set (dw_rows w). dw_blobs w' (at_key x) = dw_blobs w (at_key x))"
  proof (cases "(\<exists>e. p = Inl e) \<or> find_existing a (dw_rows w) \<noteq> None")
    case True
    then have "w' = w1 \<or> w' = w"
      using assms(5) put by (auto simp: persist_attachment_def split: option.splits if_splits sum.splits)
    with P(1,2) assms(1) kept show ?thesis by auto
  next
    case False
    then obtain created where p: "p = Inr created" and none: "find_existing a (dw_rows w) = None" by (cases p) auto
    let ?w2 = "w1\<lparr>dw_rows := dw_rows w1 @ df_others f\<rparr>"
    have ok2: "doc_ok sha ?w2"
      using merge_others [OF P(1) assms(4) P(2,3) P(4) [OF p]] assms(2) by (simp add: row_named_def)
    have ok3: "doc_ok sha (?w2\<lparr>dw_rows := dw_rows ?w2 @ [a]\<rparr>)"
      if "fresh_key at_id (at_id a) (dw_rows ?w2)" "fresh_key at_key (at_key a) (dw_rows ?w2)"
      using add_row_ok [OF ok2 that assms(2)] P(4) [OF p] by simp
    have "doc_ok sha (snd (resolve_conflict f In_Store a created ?w2))"
      using ok2 drop_data_ok [OF ok2] find_existing_None [of "dw_rows ?w2" a] assms(2)
      by (auto simp: resolve_conflict_def doc_ok_def split: option.split)
    moreover have "dw_rows (snd (resolve_conflict f In_Store a created ?w2)) = dw_rows ?w2"
      by (auto simp: resolve_conflict_def drop_data_def split: option.split)
    moreover have "dw_blobs (snd (resolve_conflict f In_Store a created ?w2)) (at_key x) = dw_blobs w (at_key x)"
      if "x \<in> set (dw_rows w)" for x
    proof -
      have "at_key x \<noteq> at_key a"
        using that find_existing_None [of "dw_rows w" a] none assms(1,2)
        by (simp add: doc_ok_def image_iff) metis
      with kept [OF that] show ?thesis
        by (auto simp: resolve_conflict_def drop_data_def blob_delete_def split: option.split delete_outcome.split)
    qed
    moreover have "w' = snd (resolve_conflict f In_Store a created ?w2) \<or> w' = ?w2 \<or>
        w' = ?w2\<lparr>dw_rows := dw_rows ?w2 @ [a]\<rparr> \<and> fresh_key at_id (at_id a) (dw_rows ?w2) \<and>
          fresh_key at_key (at_key a) (dw_rows ?w2)"
      using assms(5) put p none
      by (auto simp: persist_attachment_def commit_row_def split: if_splits commit_outcome.splits)
    ultimately show ?thesis using ok2 ok3 P(2) kept by auto
  qed
  then show "doc_ok sha w'" "\<exists>new. dw_rows w' = dw_rows w @ new"
    "\<forall>x \<in> set (dw_rows w). dw_blobs w' (at_key x) = dw_blobs w (at_key x)" by auto
qed

section \<open>Uploads and pastes\<close>

definition digest_ok :: "(string \<Rightarrow> string) \<Rightarrow> bool" where
  "digest_ok sha \<longleftrightarrow> (\<forall>x. length (sha x) = 64 \<and> CHR ''/'' \<notin> set (sha x))"

definition plain_id :: "string \<Rightarrow> bool" where
  "plain_id i \<longleftrightarrow> CHR ''/'' \<notin> set i"

lemma slash_string: "s @ ''/'' @ t = s @ CHR ''/'' # t"
  by simp

lemma split_three:
  assumes "plain_id a" and "plain_id b" and "CHR ''/'' \<notin> set c"
  shows "py_split (CHR ''/'') (a @ ''/'' @ b @ ''/'' @ c) = [a, b, c]"
  using assms by (simp add: plain_id_def py_split_append py_split_no_sep)

lemma split_four:
  assumes "plain_id a" and "plain_id b" and "CHR ''/'' \<notin> set c" and "CHR ''/'' \<notin> set d"
  shows "py_split (CHR ''/'') (a @ ''/'' @ b @ ''/'' @ c @ ''/'' @ d) = [a, b, c, d]"
  using assms by (simp add: plain_id_def py_split_append py_split_no_sep)

lemma path_name_plain: "CHR ''/'' \<notin> set (path_name s)"
proof (cases "rev (filter (\<lambda>p. p \<noteq> [] \<and> p \<noteq> ''.'')
    (py_split (CHR ''/'') (map (\<lambda>c. if c = CHR 0x5C then CHR ''/'' else c) s)))")
  case (Cons p ps)
  then have "p \<in> set (rev (filter (\<lambda>p. p \<noteq> [] \<and> p \<noteq> ''.'')
    (py_split (CHR ''/'') (map (\<lambda>c. if c = CHR 0x5C then CHR ''/'' else c) s))))" by simp
  then have "CHR ''/'' \<notin> set p" using py_split_parts by auto
  with Cons show ?thesis by (simp add: path_name_def)
qed (simp add: path_name_def)

lemma upload_row_named:
  assumes "digest_ok sha" and "sha = kn_sha256 (de_know env)" and "plain_id (cl_tenant p)" and "plain_id thread"
    and "CHR ''/'' \<notin> set safe"
  shows "row_named (upload_row env p thread safe mime data)"
    and "at_sha256 (upload_row env p thread safe mime data) = sha data"
proof -
  have d: "length (sha data) = 64" "CHR ''/'' \<notin> set (sha data @ ''-'' @ safe)"
    using assms by (auto simp: digest_ok_def)
  have "py_split (CHR ''/'') (upload_key p thread (sha data) safe) = [cl_tenant p, thread, sha data @ ''-'' @ safe]"
    unfolding upload_key_def by (rule split_three [OF assms(3,4) d(2)])
  then show "row_named (upload_row env p thread safe mime data)"
    using d(1) assms(2) by (simp add: row_named_def upload_row_def Let_def key_digest_def key_scope_def is_manifest_def)
  show "at_sha256 (upload_row env p thread safe mime data) = sha data"
    using assms(2) by (simp add: upload_row_def Let_def)
qed

lemma check_upload_row:
  assumes "check_upload ts s env p thread filename content_type body = Inr (a, data)"
  obtains safe mime where "a = upload_row env p thread safe mime data" and "CHR ''/'' \<notin> set safe"
    and "data = body" and "mime \<in> set allowed_mimes"
proof -
  define safe where "safe = path_name (case filename of None \<Rightarrow> ''file'' | Some n \<Rightarrow> if n = [] then ''file'' else n)"
  define got where "got = take (us_max_bytes s + 1) body"
  have on: "us_artifacts s" by (rule ccontr) (use assms in \<open>simp add: check_upload_def\<close>)
  then obtain m where m: "thread_access ts thread p = Inr m"
    using assms by (cases "thread_access ts thread p") (simp_all add: check_upload_def)
  then have up: "pt_upload m" using assms on by (cases "pt_upload m") (simp_all add: check_upload_def)
  define rest where "rest = (case upload_mime safe content_type of None \<Rightarrow> Inl (HttpError 415 ''MIME_TYPE_NOT_ALLOWED'')
      | Some mime \<Rightarrow> if mime \<notin> set allowed_mimes then Inl (HttpError 415 ''MIME_TYPE_NOT_ALLOWED'')
        else case target_of (us_root s) (at_key (upload_row env p thread safe mime got)) of
          Inl e \<Rightarrow> Inl (HttpError 400 ''STORAGE_PATH_INVALID'')
        | Inr target \<Rightarrow> Inr (upload_row env p thread safe mime got, got))"
  have step: "(if us_max_bytes s < length got then Inl (HttpError 413 ''FILE_TOO_LARGE'')
      else if safe = [] \<or> safe \<in> {''.'', ''..''} then Inl (HttpError 400 ''FILENAME_INVALID'') else rest) = Inr (a, data)"
    using assms unfolding check_upload_def Let_def safe_def [symmetric] got_def [symmetric] rest_def [symmetric]
    by (simp only: on m up not_True_eq_False if_False sum.case)
  have ok: "\<not> us_max_bytes s < length got" by (rule ccontr) (use step in simp)
  have "\<not> (safe = [] \<or> safe \<in> {''.'', ''..''})" by (rule ccontr) (use step ok in \<open>simp only: not_not if_True if_False sum.distinct\<close>)
  with step ok have "rest = Inr (a, data)" by (simp only: if_False)
  then obtain mime where mime: "upload_mime safe content_type = Some mime"
    by (cases "upload_mime safe content_type") (simp_all only: rest_def option.case sum.distinct)
  with \<open>rest = Inr (a, data)\<close> have "mime \<in> set allowed_mimes"
    by (cases "mime \<in> set allowed_mimes") (simp_all only: rest_def option.case if_True not_False_eq_True sum.distinct)
  moreover from this have "a = upload_row env p thread safe mime got \<and> data = got"
    using \<open>rest = Inr (a, data)\<close> mime
    by (cases "target_of (us_root s) (at_key (upload_row env p thread safe mime got))",
        simp_all only: rest_def option.case if_False not_True_eq_False sum.distinct sum.case sum.inject prod.inject simp_thms)
  moreover have "got = body" using ok by (simp add: got_def)
  moreover have "CHR ''/'' \<notin> set safe" unfolding safe_def by (rule path_name_plain)
  ultimately show thesis by (intro that) simp_all
qed

lemma prepare_pasteD:
  assumes "prepare_paste env s tenant thread content title = Inr p"
  shows "pp_tenant p = tenant \<and> pp_thread p = thread \<and> pp_source_chars p = length content \<and>
    pp_source_sha p = kn_sha256 (de_know env) (rd_encode (de_readers env) content) \<and>
    pp_filename p = paste_filename (pp_source_sha p) \<and>
    pp_canonical_sha p = kn_sha256 (de_know env) (cn_bytes (pp_canonical p)) \<and>
    build_structure (de_know env) (rd_decode (de_readers env)) (is_chunk_target s) (is_chunk_overlap s)
      (cn_bytes (pp_canonical p)) = (pp_sections p, pp_chunks p)"
  using assms unfolding prepare_paste_def Let_def
  by (auto split: option.splits sum.splits know_error.splits prod.splits)

lemma paste_keys:
  assumes "digest_ok sha" and "sha = kn_sha256 (de_know env)" and "plain_id tenant" and "plain_id thread"
    and "prepare_paste env s tenant thread content title = Inr p"
  shows "row_named (paste_row env user p)" and "at_sha256 (paste_row env user p) = sha (cn_bytes (pp_canonical p))"
    and "is_manifest (manifest_key_for_storage (paste_key p))"
proof -
  note P = prepare_pasteD [OF assms(5)]
  have sha: "length (pp_canonical_sha p) = 64" "CHR ''/'' \<notin> set (pp_canonical_sha p)" "CHR ''/'' \<notin> set (pp_source_sha p)"
    using P assms(1,2) by (auto simp: digest_ok_def)
  have plain: "CHR ''/'' \<notin> set (pp_filename p)"
    using sha(3) P by (auto simp: paste_filename_def dest: in_set_takeD)
  have key: "py_split (CHR ''/'') (pp_tenant p @ ''/'' @ pp_thread p @ ''/'' @ ''document-intake'' @ ''/'' @ r) =
      [pp_tenant p, pp_thread p, ''document-intake'', r]" if "CHR ''/'' \<notin> set r" for r
    by (rule split_four) (use P assms(3,4) that in auto)
  have paste: "paste_key p @ e = pp_tenant p @ ''/'' @ pp_thread p @ ''/'' @ ''document-intake'' @ ''/'' @
      (pp_canonical_sha p @ ''-'' @ pp_filename p @ e)" for e
    by (simp add: paste_key_def)
  have split: "py_split (CHR ''/'') (paste_key p @ e) =
      [pp_tenant p, pp_thread p, ''document-intake'', pp_canonical_sha p @ ''-'' @ pp_filename p @ e]"
    if "CHR ''/'' \<notin> set e" for e
    unfolding paste by (rule key) (use sha plain that in auto)
  have "last (paste_key p) = CHR ''d''"
    using P by (simp add: paste_key_def paste_filename_def)
  moreover have "last k = CHR ''n''" if "suffix ''.intake-v1.json'' k" for k
    using that by (auto simp: suffix_def)
  ultimately have "\<not> suffix ''.intake-v1.json'' (paste_key p)" by force
  then show "row_named (paste_row env user p)"
    using split [of "[]"] sha(1)
    by (simp add: row_named_def paste_row_def key_digest_def key_scope_def is_manifest_def)
  show "at_sha256 (paste_row env user p) = sha (cn_bytes (pp_canonical p))"
    using P assms(2) by (simp add: paste_row_def)
  show "is_manifest (manifest_key_for_storage (paste_key p))"
    using split [of "''.intake-v1.json''"] by (simp add: is_manifest_def manifest_key_for_storage_def suffix_def)
qed

lemma others_ok_grow:
  assumes "others_ok sha f key w" and "dw_rows w' = dw_rows w" and "dw_blobs w \<subseteq>\<^sub>m dw_blobs w'"
  shows "others_ok sha f key w'"
  using assms(1,2) has_blob_mono [OF _ assms(3)] unfolding others_ok_def by auto

section \<open>The state machine\<close>

definition doc_grows :: "doc_world \<Rightarrow> doc_world \<Rightarrow> bool" where
  "doc_grows w w' \<longleftrightarrow> (\<exists>new. dw_rows w' = dw_rows w @ new) \<and>
     (\<forall>r \<in> set (dw_rows w). dw_blobs w' (at_key r) = dw_blobs w (at_key r))"

lemma doc_grows_refl: "doc_grows w w"
  by (simp add: doc_grows_def)

lemma doc_grows_trans: "doc_grows w w' \<Longrightarrow> doc_grows w' w'' \<Longrightarrow> doc_grows w w''"
  by (auto simp: doc_grows_def)

lemma persist_grows:
  assumes "doc_ok sha w" and "row_named a" and "at_sha256 a = sha data" and "others_ok sha f (at_key a) w"
    and "persist_attachment f In_Store a data w = (r, w')"
  shows "doc_ok sha w' \<and> doc_grows w w'"
  using persist_ok [OF assms] by (simp add: doc_grows_def)

lemma manifest_frame:
  assumes "doc_ok sha w" and "is_manifest key"
  shows "key \<notin> at_key ` set (dw_rows w)"
  using assms by (auto simp: doc_ok_def row_named_def)

lemma put_manifest:
  assumes "doc_ok sha w" and "is_manifest key" and "put_data f In_Store key data w = (r, w')"
  shows "doc_ok sha w' \<and> doc_grows w w' \<and> dw_rows w' = dw_rows w \<and> dw_blobs w \<subseteq>\<^sub>m dw_blobs w'"
proof -
  have named: "is_manifest key \<or> sha data = key_digest key" using assms(2) by simp
  note P = put_data_ok [OF assms(1) named assms(3)]
  have "dw_blobs w' (at_key r) = dw_blobs w (at_key r)" if "r \<in> set (dw_rows w)" for r
    using P(3) assms(1) that by (force simp: doc_ok_def has_blob_def map_le_def dom_def)
  with P show ?thesis by (simp add: doc_grows_def)
qed

lemma drop_manifest:
  assumes "doc_ok sha w" and "is_manifest key"
  shows "doc_ok sha (drop_data f In_Store key w) \<and> doc_grows w (drop_data f In_Store key w)"
  using assms drop_data_ok [OF assms(1) manifest_frame [OF assms]] manifest_frame [OF assms]
  by (auto simp: doc_grows_def drop_data_def blob_delete_def split: delete_outcome.split)

lemma record_paste_frame [simp]:
  "doc_ok sha (record_paste f e w) \<longleftrightarrow> doc_ok sha w" "doc_grows w' (record_paste f e w) \<longleftrightarrow> doc_grows w' w"
  "dw_rows (record_paste f e w) = dw_rows w" "dw_blobs (record_paste f e w) = dw_blobs w"
  by (simp_all add: record_paste_def doc_ok_def doc_grows_def)

lemma store_paste_ok:
  assumes "doc_ok sha w" and "is_manifest (manifest_key_for_storage (paste_key p))" and "row_named (paste_row env user p)"
    and "at_sha256 (paste_row env user p) = sha (cn_bytes (pp_canonical p))"
    and "others_ok sha f (paste_key p) w" and "store_paste env f user p w = (r, w')"
  shows "doc_ok sha w' \<and> doc_grows w w'"
proof -
  let ?k = "manifest_key_for_storage (paste_key p)"
  obtain m w1 where put: "put_data f In_Store ?k (manifest_bytes (de_readers env) p) w = (m, w1)" by fastforce
  note M = put_manifest [OF assms(1,2) put]
  obtain x w2 where per: "persist_attachment f In_Store (paste_row env user p) (cn_bytes (pp_canonical p)) w1 = (x, w2)"
    by fastforce
  have "at_key (paste_row env user p) = paste_key p" by (simp add: paste_row_def)
  then have "others_ok sha f (at_key (paste_row env user p)) w1"
    using others_ok_grow [OF assms(5)] M by simp
  then have P: "doc_ok sha w2 \<and> doc_grows w1 w2"
    using persist_grows [of sha w1 "paste_row env user p" "cn_bytes (pp_canonical p)", OF _ assms(3,4) _ per] M by blast
  have D: "doc_ok sha (drop_data f In_Store ?k w2) \<and> doc_grows w2 (drop_data f In_Store ?k w2)"
    using drop_manifest [OF _ assms(2)] P by blast
  have G: "doc_grows w w2" "doc_grows w (drop_data f In_Store ?k w2)"
    using M P D doc_grows_trans by blast+
  have "w' = w1 \<or> w' = w2 \<or> w' = drop_data f In_Store ?k w2 \<or> (\<exists>e. w' = record_paste f e w2)"
    using assms(6) put per unfolding store_paste_def Let_def
    by (cases m; cases x) (auto split: option.split_asm if_split_asm)
  with M P D G show ?thesis by auto
qed

text \<open>A request with what its environment and the outside do to it.\<close>

datatype doc_event =
    Upload threads upload_settings doc_env doc_faults caller string "string option" "string option" string
  | Paste threads bool doc_env doc_faults intake_settings caller string string "string option"

fun doc_step :: "doc_event \<Rightarrow> doc_world \<Rightarrow> doc_world" where
  "doc_step (Upload ts s env f p thread filename content_type body) w =
     snd (upload_attachment ts s env f p thread filename content_type body w)"
| "doc_step (Paste ts on env f s p thread content title) w =
     snd (intake_large_paste ts on env f s p thread content title w)"

text \<open>One digest function, identifiers without a slash, and rows of others that are in order.\<close>

fun event_ok :: "(string \<Rightarrow> string) \<Rightarrow> doc_event \<Rightarrow> doc_world \<Rightarrow> bool" where
  "event_ok sha (Upload ts s env f p thread filename content_type body) w \<longleftrightarrow>
     sha = kn_sha256 (de_know env) \<and> plain_id (cl_tenant p) \<and> plain_id thread \<and>
     (case check_upload ts s env p thread filename content_type body of Inl e \<Rightarrow> True
      | Inr (a, data) \<Rightarrow> others_ok sha f (at_key a) w)"
| "event_ok sha (Paste ts on env f s p thread content title) w \<longleftrightarrow>
     sha = kn_sha256 (de_know env) \<and> plain_id (cl_tenant p) \<and> plain_id thread \<and>
     (case prepare_paste env s (cl_tenant p) thread content title of Inl e \<Rightarrow> True
      | Inr q \<Rightarrow> others_ok sha f (paste_key q) w)"

lemma upload_step:
  assumes "digest_ok sha" and "doc_ok sha w"
    and "event_ok sha (Upload ts s env f p thread filename content_type body) w"
    and "upload_attachment ts s env f p thread filename content_type body w = (r, w')"
  shows "doc_ok sha w' \<and> doc_grows w w'"
proof (cases "check_upload ts s env p thread filename content_type body")
  case (Inl e)
  with assms(2,4) show ?thesis by (simp add: upload_attachment_def doc_grows_refl)
next
  case (Inr c)
  then obtain a data where c: "check_upload ts s env p thread filename content_type body = Inr (a, data)" by (cases c) simp
  obtain safe mime where a: "a = upload_row env p thread safe mime data" "CHR ''/'' \<notin> set safe"
    by (rule check_upload_row [OF c])
  have ev: "sha = kn_sha256 (de_know env)" "plain_id (cl_tenant p)" "plain_id thread" "others_ok sha f (at_key a) w"
    using assms(3) c unfolding event_ok.simps by (simp only: sum.case prod.case; blast)+
  note named = upload_row_named [OF assms(1) ev(1-3) a(2), of mime data, folded a(1)]
  obtain x w1 where per: "persist_attachment f In_Store a data w = (x, w1)" by fastforce
  have "w' = w \<or> w' = w1"
    using assms(4) c per by (cases x) (auto simp: upload_attachment_def split: sum.split_asm)
  with persist_grows [OF assms(2) named ev(4) per] assms(2) doc_grows_refl show ?thesis by auto
qed

lemma paste_step:
  assumes "digest_ok sha" and "doc_ok sha w" and "event_ok sha (Paste ts on env f s p thread content title) w"
    and "intake_large_paste ts on env f s p thread content title w = (r, w')"
  shows "doc_ok sha w' \<and> doc_grows w w'"
proof -
  obtain x w1 where ing: "ingest_large_paste env f s (cl_tenant p) (cl_user p) thread content title w = (x, w1)" by fastforce
  have "w' = w \<or> w' = w1"
    using assms(4) ing unfolding intake_large_paste_def
    by (cases x) (auto split: if_split_asm sum.split_asm doc_error.split_asm)
  moreover have "doc_ok sha w1 \<and> doc_grows w w1"
  proof (cases "prepare_paste env s (cl_tenant p) thread content title")
    case (Inl e)
    with ing assms(2) show ?thesis by (simp add: ingest_large_paste_def doc_grows_refl)
  next
    case (Inr q)
    have ev: "sha = kn_sha256 (de_know env)" "plain_id (cl_tenant p)" "plain_id thread" "others_ok sha f (paste_key q) w"
      using assms(3) Inr unfolding event_ok.simps by (simp only: sum.case; blast)+
    note K = paste_keys [OF assms(1) ev(1-3) Inr]
    obtain y w2 where st: "store_paste env f (cl_user p) q w = (y, w2)" by fastforce
    have "w1 = w \<or> w1 = w2"
      using ing Inr st by (auto simp: ingest_large_paste_def split: if_split_asm sum.split_asm)
    with store_paste_ok [OF assms(2) K(3,1,2) ev(4) st] assms(2) doc_grows_refl show ?thesis by auto
  qed
  ultimately show ?thesis using assms(2) doc_grows_refl by auto
qed

lemma doc_step_ok:
  assumes "digest_ok sha" and "event_ok sha e w" and "doc_ok sha w"
  shows "doc_ok sha (doc_step e w) \<and> doc_grows w (doc_step e w)"
proof (cases e)
  case (Upload ts s env f p thread filename content_type body)
  show ?thesis unfolding Upload doc_step.simps
    by (rule upload_step [OF assms(1,3) assms(2) [unfolded Upload] prod.collapse [symmetric]])
next
  case (Paste ts on env f s p thread content title)
  show ?thesis unfolding Paste doc_step.simps
    by (rule paste_step [OF assms(1,3) assms(2) [unfolded Paste] prod.collapse [symmetric]])
qed

interpretation documents: monotone_system "\<lambda>e w. digest_ok sha \<and> event_ok sha e w" doc_step "doc_ok sha" doc_grows for sha
  by unfold_locales (auto simp: doc_step_ok doc_grows_refl intro: doc_grows_trans)

section \<open>Repeated uploads\<close>

lemma put_existing: "dw_blobs w key \<noteq> None \<Longrightarrow> put_data f In_Store key data w = (Inr False, w)"
  by (simp add: put_data_def blob_put_if_absent_def)

lemma persist_repeated:
  assumes "doc_ok sha w" and "x \<in> set (dw_rows w)" and "at_tenant x = at_tenant a" and "at_thread x = at_thread a"
    and "at_key x = at_key a" and "same_logical_attachment x a"
  shows "persist_attachment f In_Store a data w = (Inr (reuse x), w)"
proof -
  have "unique_key at_key (dw_rows w)" using assms(1) by (simp add: doc_ok_def attachment_constraints_def)
  then have "scalar (\<lambda>r. at_key r = at_key x) (dw_rows w) = Some x" using assms(2) by (rule scalar_unique)
  obtain y where y: "find_existing a (dw_rows w) = Some y"
    using assms(2-5) by (cases "find_existing a (dw_rows w)") (auto simp: find_existing_def scalar_None)
  then have "y \<in> set (dw_rows w)" "at_key y = at_key a" by (auto simp: find_existing_def dest: scalar_SomeD)
  with \<open>unique_key at_key (dw_rows w)\<close> have "y = x" using unique_key_eq assms(2,5) by metis
  moreover have "dw_blobs w (at_key a) \<noteq> None" using assms(1,2,5) by (force simp: doc_ok_def has_blob_def)
  ultimately show ?thesis using y assms(6) put_existing by (simp add: persist_attachment_def)
qed

text \<open>The row that a persisted attachment answers with: it is there and means the same.\<close>

lemma persist_answer:
  assumes "persist_attachment f In_Store a data w = (Inr r, w')"
  shows "pr_row r \<in> set (dw_rows w') \<and> at_tenant (pr_row r) = at_tenant a \<and> at_thread (pr_row r) = at_thread a \<and>
    at_key (pr_row r) = at_key a \<and> same_logical_attachment (pr_row r) a"
proof -
  obtain p w1 where put: "put_data f In_Store (at_key a) data w = (p, w1)" by fastforce
  have rows: "dw_rows w1 = dw_rows w" using put_data_rows [of f In_Store "at_key a" data w] put by simp
  have found: "x \<in> set rows \<and> at_tenant x = at_tenant a \<and> at_thread x = at_thread a \<and> at_key x = at_key a"
    if "find_existing a rows = Some x" for x rows
    using that by (auto simp: find_existing_def dest: scalar_SomeD)
  have self: "same_logical_attachment a a" by (simp add: same_logical_attachment_def)
  show ?thesis
    using assms put rows self
    by (auto simp: persist_attachment_def commit_row_def resolve_conflict_def reuse_def dest!: found
        split: option.split_asm sum.split_asm if_split_asm commit_outcome.split_asm)
qed

text \<open>The same upload again, after any run: the same row, and nothing changes.\<close>

lemma upload_answer_row:
  assumes "upload_attachment ts s env f p thread filename content_type body w = (Inr r, w')"
  obtains safe mime store where
    "check_upload ts s env p thread filename content_type body = Inr (upload_row env p thread safe mime body, body)"
    and "build_blob_storage (us_backend s) = Inr store"
    and "persist_attachment f In_Store (upload_row env p thread safe mime body) body w = (Inr r, w')"
proof -
  obtain c where c: "check_upload ts s env p thread filename content_type body = Inr c"
    using assms by (cases "check_upload ts s env p thread filename content_type body") (simp_all add: upload_attachment_def)
  obtain a data where "c = (a, data)" by fastforce
  with c obtain safe mime where a: "a = upload_row env p thread safe mime body" "data = body"
    by (metis check_upload_row)
  obtain store where b: "build_blob_storage (us_backend s) = Inr store"
    using assms c \<open>c = (a, data)\<close>
    by (cases "build_blob_storage (us_backend s)") (simp_all add: upload_attachment_def)
  have "persist_attachment f In_Store a data w = (Inr r, w')"
    using assms c b \<open>c = (a, data)\<close> by (auto simp: upload_attachment_def split: prod.split_asm sum.split_asm)
  with a b c \<open>c = (a, data)\<close> show thesis by (intro that) simp_all
qed

lemma upload_again:
  assumes "digest_ok sha" and "doc_ok sha w" and "doc_ok sha w2" and "doc_grows w1 w2"
    and "sha = kn_sha256 (de_know env)" and "sha = kn_sha256 (de_know env')"
    and "upload_attachment ts s env f p thread filename content_type body w = (Inr r, w1)"
    and "check_upload ts' s' env' p' thread filename' content_type' body = Inr (a, data)"
    and "build_blob_storage (us_backend s') = Inr store" and "cl_tenant p' = cl_tenant p"
    and "at_filename a = at_filename (pr_row r)" and "at_mime a = at_mime (pr_row r)"
  shows "upload_attachment ts' s' env' f' p' thread filename' content_type' body w2 = (Inr (reuse (pr_row r)), w2)"
proof -
  obtain safe mime where per: "persist_attachment f In_Store (upload_row env p thread safe mime body) body w = (Inr r, w1)"
    by (rule upload_answer_row [OF assms(7)])
  note A = persist_answer [OF per]
  obtain safe' mime' where a: "a = upload_row env' p' thread safe' mime' data" "data = body"
    by (rule check_upload_row [OF assms(8)])
  have same: "safe' = safe" "mime' = mime"
    using A a assms(11,12) by (simp_all add: same_logical_attachment_def upload_row_def Let_def)
  have "at_tenant (pr_row r) = at_tenant a" "at_thread (pr_row r) = at_thread a" "at_key (pr_row r) = at_key a"
    "same_logical_attachment (pr_row r) a"
    using A a same assms(5,6,10) by (simp_all add: same_logical_attachment_def upload_row_def upload_key_def Let_def)
  moreover have "pr_row r \<in> set (dw_rows w2)" using A assms(4) by (auto simp: doc_grows_def)
  ultimately have "persist_attachment f' In_Store a body w2 = (Inr (reuse (pr_row r)), w2)"
    using persist_repeated [OF assms(3)] by blast
  with assms(8,9) a(2) show ?thesis by (simp add: upload_attachment_def)
qed

end
