(* ===== verification/Doc_Context_Facts.thy ===== *)
theory Doc_Context_Facts
  imports Doc_Facts
begin

text \<open>
  Lemmas on the document context: what a source supplies, how the budget is kept, and how the sources
  and errors of a bundle account for the rows; then what a stored paste supplies.
\<close>

section \<open>Pieces\<close>

lemma cut_piece_prefix: "prefix (cut_piece n t) t"
proof -
  obtain k where "py_rstrip (take n t) = take k (take n t)" using py_rstrip_eq_take by blast
  then show ?thesis by (auto simp: cut_piece_def take_is_prefix)
qed

lemma cut_piece_length: "length (cut_piece n t) \<le> n"
proof -
  obtain k where "py_rstrip (take n t) = take k (take n t)" using py_rstrip_eq_take by blast
  then show ?thesis by (simp add: cut_piece_def)
qed

text \<open>The loop, one step at a time.\<close>

lemma take_pieces_step:
  assumes "take_pieces env key budget provided (row # rows) = Inr pieces" and "\<not> budget \<le> provided"
  obtains t rest where "chunk_text env key row = Inr t"
    and "take_pieces env key budget (provided + length (cut_piece (budget - provided) t)) rows = Inr rest"
    and "pieces = (if cut_piece (budget - provided) t = [] then rest else cut_piece (budget - provided) t # rest)"
  using assms by (auto simp: Let_def split: sum.splits)

lemma take_pieces_bound:
  "\<lbrakk>take_pieces env key budget provided rows = Inr pieces; provided \<le> budget\<rbrakk> \<Longrightarrow>
     provided + sum_list (map length pieces) \<le> budget"
proof (induction rows arbitrary: provided pieces)
  case (Cons row rows)
  show ?case
  proof (cases "budget \<le> provided")
    case True
    with Cons.prems show ?thesis by simp
  next
    case False
    obtain t rest where t: "take_pieces env key budget (provided + length (cut_piece (budget - provided) t)) rows = Inr rest"
      "pieces = (if cut_piece (budget - provided) t = [] then rest else cut_piece (budget - provided) t # rest)"
      by (rule take_pieces_step [OF Cons.prems(1) False])
    have "provided + length (cut_piece (budget - provided) t) \<le> budget"
      using cut_piece_length [of "budget - provided" t] Cons.prems(2) by linarith
    from Cons.IH [OF t(1) this] t(2) show ?thesis by simp
  qed
qed simp

lemma take_pieces_from:
  "\<lbrakk>take_pieces env key budget provided rows = Inr pieces; piece \<in> set pieces\<rbrakk> \<Longrightarrow>
     \<exists>row \<in> set rows. \<exists>t. chunk_text env key row = Inr t \<and> prefix piece t"
proof (induction rows arbitrary: provided pieces)
  case (Cons row rows)
  have lt: "\<not> budget \<le> provided" using Cons.prems by auto
  obtain t rest where t: "chunk_text env key row = Inr t"
    "take_pieces env key budget (provided + length (cut_piece (budget - provided) t)) rows = Inr rest"
    "pieces = (if cut_piece (budget - provided) t = [] then rest else cut_piece (budget - provided) t # rest)"
    by (rule take_pieces_step [OF Cons.prems(1) lt])
  show ?case
  proof (cases "piece \<in> set rest")
    case True
    from Cons.IH [OF t(2) this] show ?thesis by auto
  next
    case False
    with t(3) Cons.prems(2) have "piece = cut_piece (budget - provided) t" by (auto split: if_splits)
    with t(1) cut_piece_prefix show ?thesis by auto
  qed
qed simp

section \<open>One source\<close>

text \<open>The two ways a source is supplied: from its file, or from verified chunks of its paste.\<close>

definition file_supplied :: "context_env \<Rightarrow> context_settings \<Rightarrow> attachment \<Rightarrow> source \<Rightarrow> bool" where
  "file_supplied env s a x \<longleftrightarrow> (\<exists>raw full. load_intake_manifest env s a = Inr None \<and>
     read_attachment env s (at_key a) = Inr raw \<and> ce_sha256 env raw = at_sha256 a \<and>
     extract_document (ce_readers env) (cs_max_pages s) (at_mime a) raw = Inr full \<and>
     so_text x = take (so_provided x) full \<and> so_source_chars x = int (length full) \<and>
     (so_truncated x \<longleftrightarrow> so_provided x < length full))"

definition paste_supplied :: "context_env \<Rightarrow> context_settings \<Rightarrow> attachment \<Rightarrow> source \<Rightarrow> bool" where
  "paste_supplied env s a x \<longleftrightarrow> (\<exists>manifest pieces. load_intake_manifest env s a = Inr (Some manifest) \<and>
     so_text x = py_join [CHR 0x0A, CHR 0x0A] pieces \<and> so_provided x = sum_list (map length pieces) \<and>
     (\<forall>piece \<in> set pieces. \<exists>row \<in> set (dict_rows (manifest_chunks manifest)). \<exists>t.
        chunk_text env (at_key a) row = Inr t \<and> prefix piece t))"

lemma file_source_supplied:
  assumes "file_source env s a per_limit remaining = Inr x" and "load_intake_manifest env s a = Inr None"
  shows "file_supplied env s a x \<and> so_provided x \<le> per_limit \<and> so_provided x \<le> remaining"
proof -
  obtain raw where raw: "read_attachment env s (at_key a) = Inr raw" "ce_sha256 env raw = at_sha256 a"
    using assms(1) by (auto simp: file_source_def split: sum.splits if_splits)
  then obtain full where full: "extract_document (ce_readers env) (cs_max_pages s) (at_mime a) raw = Inr full"
    using assms(1) by (auto simp: file_source_def split: sum.splits)
  define shown where "shown = take remaining (take per_limit full)"
  have x: "so_text x = shown" "so_provided x = length shown" "so_source_chars x = int (length full)"
    "so_truncated x \<longleftrightarrow> length (take per_limit full) < length full \<or> length shown < length (take per_limit full)"
    using assms(1) raw full by (auto simp: file_source_def Let_def shown_def)
  have "shown = take (min remaining per_limit) full" by (simp add: shown_def)
  then have prefix: "so_text x = take (so_provided x) full"
    unfolding x by (metis append_eq_conv_conj append_take_drop_id)
  have "so_truncated x \<longleftrightarrow> so_provided x < length full" unfolding x(2,4) by (auto simp: shown_def)
  with raw full x(3) prefix assms(2) have "file_supplied env s a x" unfolding file_supplied_def by blast
  moreover have "so_provided x \<le> per_limit \<and> so_provided x \<le> remaining" unfolding x(2) by (auto simp: shown_def)
  ultimately show ?thesis by blast
qed

lemma with_ordinals_rows: "with_ordinals rows = Some xs \<Longrightarrow> map snd xs = rows"
  unfolding with_ordinals_def by (induction rows arbitrary: xs) (auto split: option.splits)

lemma with_scores_rows: "with_scores terms rows = Some xs \<Longrightarrow> map (snd \<circ> snd) xs = map snd rows"
  unfolding with_scores_def by (induction rows arbitrary: xs) (auto split: option.splits)

lemma ranked_rows:
  assumes "rank_intake_chunks chunks query top_k = Some ranked"
  shows "set ranked \<subseteq> set (dict_rows chunks)"
proof -
  obtain rows where rows: "with_ordinals (dict_rows chunks) = Some rows"
    using assms by (auto simp: rank_intake_chunks_def Let_def split: option.splits)
  have all: "set (map snd (sort_key fst rows)) \<subseteq> set (dict_rows chunks)"
    using with_ordinals_rows [OF rows] by (metis list.set_map set_sort subsetI)
  have sub: "set (take n (map snd (sort_key fst rows))) \<subseteq> set (dict_rows chunks)" for n
    using all set_take_subset by fastforce
  show ?thesis
  proof (cases "ranked = take (nat (max 1 top_k)) (map snd (sort_key fst rows))")
    case True
    then show ?thesis using sub by simp
  next
    case False
    then obtain scored where s: "with_scores (lexical_query_terms query) (sort_key fst rows) = Some scored"
      "ranked = take (nat (max 1 top_k)) (map (snd \<circ> snd) (sort_key (\<lambda>(score, ordinal, _). (- int score, ordinal))
        (filter (\<lambda>(score, _). score \<noteq> 0) scored)))"
      using assms rows by (auto simp: rank_intake_chunks_def Let_def split: option.splits if_splits)
    have "set ranked \<subseteq> set (map (snd \<circ> snd) scored)"
      unfolding s(2) using set_take_subset by fastforce
    with with_scores_rows [OF s(1)] all show ?thesis by simp
  qed
qed

lemma paste_source_supplied:
  assumes "select_intake_context env a manifest query per_limit remaining top_k = Inr y"
    and "load_intake_manifest env s a = Inr (Some manifest)"
  shows "paste_supplied env s a (manifest_source remaining y) \<and> sx_provided y \<le> per_limit \<and> sx_provided y \<le> remaining"
proof -
  obtain ranked where ranked: "rank_intake_chunks (manifest_chunks manifest) query top_k = Some ranked"
    using assms(1) by (auto simp: select_intake_context_def Let_def split: option.splits)
  then obtain pieces where p: "take_pieces env (at_key a) (min per_limit remaining) 0 ranked = Inr pieces"
    using assms(1) by (auto simp: select_intake_context_def Let_def split: sum.splits)
  have y: "sx_text y = py_join [CHR 0x0A, CHR 0x0A] pieces" "sx_provided y = sum_list (map length pieces)"
    using assms(1) ranked p by (auto simp: select_intake_context_def Let_def split: option.splits)
  have "\<exists>row \<in> set (dict_rows (manifest_chunks manifest)). \<exists>t. chunk_text env (at_key a) row = Inr t \<and> prefix piece t"
    if "piece \<in> set pieces" for piece
    using take_pieces_from [OF p that] ranked_rows [OF ranked] by blast
  with y assms(2) have "paste_supplied env s a (manifest_source remaining y)"
    unfolding paste_supplied_def manifest_source_def by auto
  with take_pieces_bound [OF p] y(2) show ?thesis by simp
qed

lemma read_source_supplied:
  assumes "read_source env s query a remaining = Inr x"
  shows "(file_supplied env s a x \<or> paste_supplied env s a x) \<and> so_provided x \<le> nat (cs_max_chars_per_file s) \<and>
    so_provided x \<le> remaining"
proof (cases "load_intake_manifest env s a")
  case (Inr m)
  show ?thesis
  proof (cases m)
    case None
    with Inr assms have "file_source env s a (nat (cs_max_chars_per_file s)) remaining = Inr x"
      by (simp add: read_source_def Let_def)
    from file_source_supplied [OF this] Inr None show ?thesis by simp
  next
    case (Some manifest)
    with Inr assms obtain y where y: "x = manifest_source remaining y"
      "select_intake_context env a manifest query (nat (cs_max_chars_per_file s)) remaining (cs_top_k s) = Inr y"
      by (auto simp: read_source_def Let_def map_sum_Inr_iff)
    from paste_source_supplied [OF y(2)] Inr Some show ?thesis by (simp add: y(1) manifest_source_def)
  qed
qed (use assms in \<open>simp add: read_source_def\<close>)

section \<open>The loop over the rows\<close>

definition accounts_for ::
  "context_env \<Rightarrow> context_settings \<Rightarrow> string list \<Rightarrow> attachment list \<Rightarrow> source_provenance \<Rightarrow> bool" where
  "accounts_for env s blocks rows p \<longleftrightarrow> (\<exists>a \<in> set rows. \<exists>x. p = provenance_of a x \<and>
     (file_supplied env s a x \<or> paste_supplied env s a x) \<and> so_provided x \<le> nat (cs_max_chars_per_file s) \<and>
     (so_provided x \<noteq> 0 \<longrightarrow> source_block a x \<in> set blocks))"

lemma accounts_for_mono:
  "accounts_for env s blocks rows p \<Longrightarrow> set blocks \<subseteq> set blocks' \<Longrightarrow> set rows \<subseteq> set rows' \<Longrightarrow>
     accounts_for env s blocks' rows' p"
  unfolding accounts_for_def by blast

lemma gather_accounts:
  assumes "gather env s query rows g = Some g'"
  shows "\<exists>xs errs. ga_sources g' = ga_sources g @ xs \<and> ga_errors g' = ga_errors g @ errs \<and>
    mset (map pv_attachment xs) + mset (map fst errs) = mset (map at_id rows) \<and>
    sum_list (map pv_provided xs) + ga_remaining g' = ga_remaining g \<and> set (ga_blocks g) \<subseteq> set (ga_blocks g') \<and>
    (\<forall>p \<in> set xs. accounts_for env s (ga_blocks g') rows p)"
  using assms
proof (induction rows arbitrary: g)
  case (Cons a rows)
  show ?case
  proof (cases "read_source env s query a (ga_remaining g)")
    case (Inl e)
    with Cons.prems obtain code where "e = Code code"
      and g: "gather env s query rows (g\<lparr>ga_errors := ga_errors g @ [(at_id a, code)]\<rparr>) = Some g'"
      by (cases e) auto
    from Cons.IH [OF g] obtain xs errs where *: "ga_sources g' = ga_sources g @ xs"
      "ga_errors g' = ga_errors g @ (at_id a, code) # errs"
      "mset (map pv_attachment xs) + mset (map fst errs) = mset (map at_id rows)"
      "sum_list (map pv_provided xs) + ga_remaining g' = ga_remaining g" "set (ga_blocks g) \<subseteq> set (ga_blocks g')"
      "\<forall>p \<in> set xs. accounts_for env s (ga_blocks g') rows p" by auto
    have "\<forall>p \<in> set xs. accounts_for env s (ga_blocks g') (a # rows) p"
      using *(6) accounts_for_mono [of env s "ga_blocks g'" rows _ "ga_blocks g'" "a # rows"] by auto
    with * show ?thesis by (intro exI [of _ xs] exI [of _ "(at_id a, code) # errs"]) auto
  next
    case (Inr x)
    with Cons.prems have g: "gather env s query rows (add_source a x g) = Some g'" by simp
    note S = read_source_supplied [OF Inr]
    from Cons.IH [OF g] obtain xs errs where *: "ga_sources g' = ga_sources g @ provenance_of a x # xs"
      "ga_errors g' = ga_errors g @ errs"
      "mset (map pv_attachment xs) + mset (map fst errs) = mset (map at_id rows)"
      "sum_list (map pv_provided xs) + ga_remaining g' = ga_remaining g - so_provided x"
      "set (ga_blocks (add_source a x g)) \<subseteq> set (ga_blocks g')"
      "\<forall>p \<in> set xs. accounts_for env s (ga_blocks g') rows p" by (auto simp: add_source_def)
    have "accounts_for env s (ga_blocks g') (a # rows) (provenance_of a x)"
      unfolding accounts_for_def using S *(5) by (auto simp: add_source_def)
    moreover have "\<forall>p \<in> set xs. accounts_for env s (ga_blocks g') (a # rows) p"
      using *(6) accounts_for_mono [of env s "ga_blocks g'" rows _ "ga_blocks g'" "a # rows"] by auto
    ultimately show ?thesis using * S
      by (intro exI [of _ "provenance_of a x # xs"] exI [of _ errs]) (auto simp: provenance_of_def add_source_def)
  qed
qed simp

section \<open>A stored paste\<close>

text \<open>What a chunk of the structure says is true of its bytes, and its text is not blank.\<close>

lemma chunk_block:
  assumes "c \<in> set (snd (build_structure env decode ct co doc))"
  defines "block \<equiv> take (ch_end c - ch_start c) (drop (ch_start c) doc)"
  shows "ch_start c < ch_end c \<and> ch_end c \<le> length doc \<and> kn_sha256 env block = ch_sha256 c \<and> py_strip (decode block) \<noteq> []"
proof -
  let ?parts = "concat (map (section_chunks decode (target_bytes ct) (overlap_bytes ct co) doc)
      (sections_of (kn_section env) decode doc))"
  from assms(1) obtain n s x where c: "c = chunk_of env decode (n, s, x)" "(n, s, x) \<in> set (List.enumerate 0 ?parts)"
    by (auto simp: build_structure_def Let_def)
  then have "(s, x) \<in> set ?parts"
    using imageI [OF c(2), of snd] by (simp only: snd_enumerate prod.sel)
  then have x: "s \<in> set (sections_of (kn_section env) decode doc)"
    "x \<in> set (spans (target_bytes ct) (overlap_bytes ct co) doc (sn_end s) (sn_start s))" "block_text decode x \<noteq> []"
    by (auto simp: section_chunks_def)
  have h: "ch_start c = sp_start x" "ch_end c = sp_end x" "ch_sha256 c = kn_sha256 env (sp_block x)"
    by (simp_all add: c(1) chunk_of_def)
  from span_inside [OF x(2)] section_end [OF x(1)] h have "block = sp_block x"
    "ch_start c < ch_end c" "ch_end c \<le> length doc" by (auto simp: block_def)
  with h x(3) show ?thesis by (simp add: block_text_def)
qed

definition chunk_row_of :: "chunk \<Rightarrow> (string \<times> json) list" where
  "chunk_row_of c = dict_items (chunk_json c)"

lemma chunk_row_fields:
  "obj_get (chunk_row_of c) ''byte_start'' = JInt (int (ch_start c))"
  "obj_get (chunk_row_of c) ''byte_end'' = JInt (int (ch_end c))"
  "obj_get (chunk_row_of c) ''text_sha256'' = JStr (ch_sha256 c)"
  "obj_get (chunk_row_of c) ''ordinal'' = JInt (int (ch_ordinal c))"
  "obj_get (chunk_row_of c) ''terms'' = JList (map JStr (ch_terms c))"
  "{''byte_start'', ''byte_end'', ''text_sha256'', ''ordinal''} \<subseteq> set (map fst (chunk_row_of c))"
  by (simp_all add: chunk_row_of_def chunk_json_def obj_get_def)

lemma manifest_fields:
  "obj_get (manifest_payload p) ''schema'' = JStr manifest_schema"
  "obj_get (manifest_payload p) ''tenant_id'' = JStr (pp_tenant p)"
  "obj_get (manifest_payload p) ''thread_id'' = JStr (pp_thread p)"
  "obj_get (manifest_payload p) ''canonical_sha256'' = JStr (pp_canonical_sha p)"
  "obj_get (manifest_payload p) ''chunks'' = JList (map chunk_json (pp_chunks p))"
  "obj_get (manifest_payload p) ''source_chars'' = JInt (int (pp_source_chars p))"
  "obj_get (manifest_payload p) ''canonical_chars'' = JInt (int (cn_chars (pp_canonical p)))"
  by (simp_all add: manifest_payload_def obj_get_def)

lemma chunk_range_row: "ch_start c < ch_end c \<Longrightarrow>
  chunk_range (chunk_row_of c) = Inr (int (ch_start c), int (ch_end c), ch_sha256 c)"
  using chunk_row_fields(6) [of c] by (simp add: chunk_range_def manifest_int_def chunk_row_fields)

lemma chunk_text_row:
  assumes "c \<in> set (snd (build_structure env (ce_decode cx) ct co doc))" and "ce_sha256 cx = kn_sha256 env"
    and "ce_blobs cx key = Some doc" and "ce_read cx key"
  obtains t where "chunk_text cx key (chunk_row_of c) = Inr t" and "t \<noteq> []" and "py_strip t = t"
proof -
  note B = chunk_block [OF assms(1)]
  then have "chunk_text cx key (chunk_row_of c) =
      Inr (py_strip (ce_decode cx (take (ch_end c - ch_start c) (drop (ch_start c) doc))))"
    using assms(2-4) by (simp add: chunk_text_def chunk_range_row blob_read_range_def blob_get_def)
  with B show thesis by (intro that) auto
qed

lemma row_ordinal_chunk: "row_ordinal (chunk_row_of c) = Some (int (ch_ordinal c))"
  using chunk_row_fields(6) [of c] by (simp add: row_ordinal_def chunk_row_fields)

lemma row_terms_chunk: "row_terms (chunk_row_of c) = Some (ch_terms c)"
  by (simp add: row_terms_def Let_def chunk_row_fields comp_def)

lemma with_ordinals_total: "\<forall>r \<in> set rows. row_ordinal r \<noteq> None \<Longrightarrow> \<exists>xs. with_ordinals rows = Some xs"
  unfolding with_ordinals_def by (induction rows) auto

lemma with_scores_total: "\<forall>r \<in> set rows. row_terms (snd r) \<noteq> None \<Longrightarrow> \<exists>xs. with_scores terms rows = Some xs"
  unfolding with_scores_def by (induction rows) (auto split: prod.splits)

lemma dict_rows_chunks: "dict_rows (map chunk_json cs) = map chunk_row_of cs"
  by (induction cs) (simp_all add: dict_rows_def chunk_row_of_def, simp add: chunk_json_def)

lemma rank_total: "\<exists>ranked. rank_intake_chunks (map chunk_json cs) query top_k = Some ranked \<and> (cs \<noteq> [] \<longrightarrow> ranked \<noteq> [])"
proof -
  obtain rows where rows: "with_ordinals (map chunk_row_of cs) = Some rows"
    using with_ordinals_total [of "map chunk_row_of cs"] by (auto simp: row_ordinal_chunk)
  have snds: "map snd rows = map chunk_row_of cs" by (rule with_ordinals_rows [OF rows])
  then have "length rows = length cs" by (metis length_map)
  have "row_terms (snd r) \<noteq> None" if "r \<in> set (sort_key fst rows)" for r
  proof -
    have "snd r \<in> set (map snd rows)" using that by auto
    then show ?thesis unfolding snds by (auto simp: row_terms_chunk)
  qed
  then obtain scored where "with_scores (lexical_query_terms query) (sort_key fst rows) = Some scored"
    using with_scores_total by blast
  moreover have "nat (max 1 top_k) \<noteq> 0" by simp
  moreover have "cs \<noteq> [] \<longrightarrow> sort_key fst rows \<noteq> []" using \<open>length rows = length cs\<close> by (metis length_0_conv length_sort)
  moreover have "sort_key f xs = [] \<longleftrightarrow> xs = []" for f :: "nat \<times> int \<times> (string \<times> json) list \<Rightarrow> int \<times> int" and xs
    by (metis length_0_conv length_sort)
  ultimately show ?thesis
    by (simp add: rank_intake_chunks_def Let_def dict_rows_chunks rows)
qed

lemma take_pieces_total:
  assumes "\<forall>row \<in> set rows. \<exists>t. chunk_text env key row = Inr t"
  shows "\<exists>pieces. take_pieces env key budget provided rows = Inr pieces"
  using assms
proof (induction rows arbitrary: provided)
  case (Cons row rows)
  then obtain t where t: "chunk_text env key row = Inr t" by auto
  obtain pieces where "take_pieces env key budget (provided + length (cut_piece (budget - provided) t)) rows = Inr pieces"
    using Cons by auto
  with t show ?case by (simp add: Let_def)
qed simp

lemma cut_piece_not_Nil: "0 < n \<Longrightarrow> t \<noteq> [] \<Longrightarrow> py_strip t = t \<Longrightarrow> cut_piece n t \<noteq> []"
proof -
  assume n: "0 < n" "t \<noteq> []" "py_strip t = t"
  then obtain c cs where t: "t = c # cs" by (cases t) auto
  with n(3) have "\<not> py_space c" by (metis py_strip_no_lead)
  moreover have "take n t = c # take (n - 1) cs" using n(1) t by (cases n) auto
  ultimately have "py_rstrip (take n t) \<noteq> []" by (simp add: py_rstrip_def)
  then show ?thesis using n(2) by (simp add: cut_piece_def)
qed

lemma take_pieces_some:
  assumes "take_pieces env key budget 0 (row # rows) = Inr pieces" and "0 < budget"
    and "chunk_text env key row = Inr t" and "t \<noteq> []" and "py_strip t = t"
  shows "0 < sum_list (map length pieces)"
proof -
  obtain t' rest where "chunk_text env key row = Inr t'"
    "pieces = (if cut_piece (budget - 0) t' = [] then rest else cut_piece (budget - 0) t' # rest)"
    using assms(2) by (auto intro: take_pieces_step [OF assms(1)])
  with assms(2-5) cut_piece_not_Nil [of budget t] show ?thesis by auto
qed

lemma load_stored_manifest:
  assumes "ce_blobs cx (manifest_key_for_storage (at_key a)) = Some raw" and "\<forall>k. ce_read cx k"
    and "int (length raw) \<le> cs_manifest_max cs" and "ce_loads cx raw = Some (JObj (manifest_payload p))"
    and "at_tenant a = pp_tenant p" and "at_thread a = pp_thread p" and "at_sha256 a = pp_canonical_sha p"
  shows "load_intake_manifest cx cs a = Inr (Some (manifest_payload p))"
  using assms by (simp add: load_intake_manifest_def blob_get_def manifest_fields)

lemma read_stored_paste:
  assumes "load_intake_manifest cx cs a = Inr (Some (manifest_payload p))" and "\<forall>k. ce_read cx k"
    and "ce_blobs cx (at_key a) = Some (cn_bytes (pp_canonical p))" and "ce_sha256 cx = kn_sha256 env"
    and "build_structure env (ce_decode cx) ct co (cn_bytes (pp_canonical p)) = (pp_sections p, pp_chunks p)"
  shows "\<exists>x. read_source cx cs query a remaining = Inr x \<and> so_source_chars x = int (pp_source_chars p) \<and>
    (pp_chunks p \<noteq> [] \<and> 0 < remaining \<and> 0 < cs_max_chars_per_file cs \<longrightarrow> 0 < so_provided x)"
proof -
  let ?per = "nat (cs_max_chars_per_file cs)"
  obtain ranked where ranked: "rank_intake_chunks (map chunk_json (pp_chunks p)) query (cs_top_k cs) = Some ranked"
    and some: "pp_chunks p \<noteq> [] \<longrightarrow> ranked \<noteq> []"
    using rank_total by blast
  have chunks: "manifest_chunks (manifest_payload p) = map chunk_json (pp_chunks p)"
    by (simp add: manifest_chunks_def manifest_fields)
  have texts: "\<exists>t. chunk_text cx (at_key a) row = Inr t \<and> t \<noteq> [] \<and> py_strip t = t" if "row \<in> set ranked" for row
  proof -
    have "row \<in> set (map chunk_row_of (pp_chunks p))"
      using ranked_rows [OF ranked] that by (auto simp: dict_rows_chunks)
    then obtain c where c: "c \<in> set (pp_chunks p)" "row = chunk_row_of c" by auto
    then have "c \<in> set (snd (build_structure env (ce_decode cx) ct co (cn_bytes (pp_canonical p))))"
      using assms(5) by simp
    from chunk_text_row [OF this assms(4,3)] assms(2) c(2) show ?thesis by metis
  qed
  then obtain pieces where pieces: "take_pieces cx (at_key a) (min ?per remaining) 0 ranked = Inr pieces"
    using take_pieces_total [of ranked cx "at_key a"] by blast
  have "0 < sum_list (map length pieces)"
    if room: "pp_chunks p \<noteq> []" "0 < remaining" "0 < cs_max_chars_per_file cs"
  proof -
    obtain row rows where "ranked = row # rows" using some room(1) by (cases ranked) auto
    with pieces texts [of row] room(2,3) show ?thesis by (auto intro: take_pieces_some)
  qed
  then show ?thesis
    by (auto simp: read_source_def Let_def assms(1) select_intake_context_def chunks ranked pieces manifest_fields
        int_or_zero_def manifest_source_def)
qed

text \<open>A paste stored for the first time: both blobs are there, and the row is that of the paste.\<close>

lemma put_data_new:
  assumes "put_data f In_Store key data w = (Inr new, w')" and "dw_blobs w key = None"
  shows "w' = w\<lparr>dw_blobs := (dw_blobs w)(key \<mapsto> data)\<rparr> \<and> new"
  using assms by (auto simp: put_data_def blob_put_if_absent_def split: put_outcome.splits)

lemma persist_blobs:
  assumes "persist_attachment f In_Store a data w = (Inr r, w')" and "dw_blobs w (at_key a) = None"
  shows "dw_blobs w' = (dw_blobs w)(at_key a \<mapsto> data)"
proof -
  obtain p w1 where put: "put_data f In_Store (at_key a) data w = (p, w1)" by fastforce
  then obtain new where "p = Inr new" using assms(1)
    by (cases p) (auto simp: persist_attachment_def split: option.split_asm if_split_asm)
  with put_data_new put assms(2) have "dw_blobs w1 = (dw_blobs w)(at_key a \<mapsto> data)" by fastforce
  with put \<open>p = Inr new\<close> assms(1) show ?thesis
    by (auto simp: persist_attachment_def resolve_conflict_def
        split: option.split_asm if_split_asm prod.split_asm know_error.split_asm)
qed

lemma ingest_new:
  assumes "ingest_large_paste env f s tenant user thread content title w = (Inr r, w')"
    and "dw_blobs w (paste_key (ps_paste r)) = None" and "dw_blobs w (manifest_key_for_storage (paste_key (ps_paste r))) = None"
  defines "p \<equiv> ps_paste r"
  shows "prepare_paste env s tenant thread content title = Inr p"
    and "int (length (manifest_bytes (de_readers env) p)) \<le> is_manifest_max s"
    and "dw_blobs w' = (dw_blobs w)(manifest_key_for_storage (paste_key p) \<mapsto> manifest_bytes (de_readers env) p,
      paste_key p \<mapsto> cn_bytes (pp_canonical p))"
    and "at_tenant (ps_row r) = pp_tenant p \<and> at_thread (ps_row r) = pp_thread p \<and> at_key (ps_row r) = paste_key p \<and>
      at_sha256 (ps_row r) = pp_canonical_sha p"
proof -
  obtain q where q: "prepare_paste env s tenant thread content title = Inr q"
    using assms(1) by (cases "prepare_paste env s tenant thread content title") (simp_all add: ingest_large_paste_def)
  have small: "int (length (manifest_bytes (de_readers env) q)) \<le> is_manifest_max s"
    using assms(1) q by (cases "is_manifest_max s < int (length (manifest_bytes (de_readers env) q))")
      (simp_all add: ingest_large_paste_def)
  have st: "store_paste env f user q w = (Inr r, w')"
    using assms(1) q small by (auto simp: ingest_large_paste_def split: sum.split_asm)
  let ?k = "manifest_key_for_storage (paste_key q)"
  obtain m w1 where put: "put_data f In_Store ?k (manifest_bytes (de_readers env) q) w = (m, w1)" by fastforce
  then obtain created where m: "m = Inr created" using st by (cases m) (auto simp: store_paste_def)
  obtain x w2 where per: "persist_attachment f In_Store (paste_row env user q) (cn_bytes (pp_canonical q)) w1 = (x, w2)"
    by fastforce
  note step = st [unfolded store_paste_def Let_def put m, simplified]
  have "\<exists>b. x = Inr b \<and> r = \<lparr>ps_row = pr_row b, ps_reused = pr_reused b, ps_paste = q, ps_manifest_key = ?k\<rparr> \<and>
      dw_blobs w' = dw_blobs w2"
    using step per by (cases x) (auto split: option.split_asm if_split_asm)
  then obtain b where b: "x = Inr b"
    and r: "r = \<lparr>ps_row = pr_row b, ps_reused = pr_reused b, ps_paste = q, ps_manifest_key = ?k\<rparr>"
      "dw_blobs w' = dw_blobs w2"
    by auto
  then have p: "p = q" by (simp add: p_def)
  have new: "dw_blobs w (paste_key q) = None" "dw_blobs w ?k = None" using assms(2,3) r(1) by simp_all
  have w1: "dw_blobs w1 = (dw_blobs w)(?k \<mapsto> manifest_bytes (de_readers env) q)"
    using put_data_new [OF put [unfolded m] new(2)] by simp
  have key: "at_key (paste_row env user q) = paste_key q" by (simp add: paste_row_def)
  have "paste_key q \<noteq> ?k" by (simp add: manifest_key_for_storage_def)
  then have "dw_blobs w2 = (dw_blobs w1)(paste_key q \<mapsto> cn_bytes (pp_canonical q))"
    using persist_blobs [OF per [unfolded b]] new(1) w1 key by simp
  then show "dw_blobs w' = (dw_blobs w)(manifest_key_for_storage (paste_key p) \<mapsto> manifest_bytes (de_readers env) p,
      paste_key p \<mapsto> cn_bytes (pp_canonical p))"
    using r(2) w1 p by simp
  show "prepare_paste env s tenant thread content title = Inr p" using q p by simp
  show "int (length (manifest_bytes (de_readers env) p)) \<le> is_manifest_max s" using small p by simp
  show "at_tenant (ps_row r) = pp_tenant p \<and> at_thread (ps_row r) = pp_thread p \<and> at_key (ps_row r) = paste_key p \<and>
      at_sha256 (ps_row r) = pp_canonical_sha p"
    using persist_answer [OF per [unfolded b]] r(1) p
    by (simp add: same_logical_attachment_def paste_row_def)
qed

end
