(* ===== verification/Doc_Properties.thy ===== *)
theory Doc_Properties
  imports Doc_Context_Facts
begin

text \<open>
  The properties of the blob stores, of the attachments of a thread, and of its document context. Their
  witnesses are in Doc_Example.
\<close>

text \<open>C39. On keys that are apart, the local store answers every sequence of puts, reads and removals as the
  map that the services are verified against does.\<close>

theorem local_store_follows_map:
  assumes "clean_keys ks" and "local_fine root ks d" and "request_key ` set qs \<subseteq> ks"
  shows "answers (local_step root) qs d = answers map_step qs (local_view root ks d)"
  using local_store.same_answers [of root ks d qs] assms by simp

text \<open>C6. After any serial run of uploads and pastes, whatever the store, the commits and other requests do to
  them, every attachment has its blob with the recorded digest, no attachment is lost, and no blob of an
  attachment changes.\<close>

theorem attachments_keep_blobs:
  assumes "run_ok (\<lambda>e w. digest_ok sha \<and> event_ok sha e w) doc_step es w" and "doc_ok sha w"
  shows "\<exists>new. dw_rows (fold doc_step es w) = dw_rows w @ new \<and>
    (\<forall>r \<in> set (dw_rows w @ new). \<exists>x. dw_blobs (fold doc_step es w) (at_key r) = Some x \<and> sha x = at_sha256 r) \<and>
    (\<forall>r \<in> set (dw_rows w). dw_blobs (fold doc_step es w) (at_key r) = dw_blobs w (at_key r))"
proof -
  have "doc_ok sha (fold doc_step es w)" by (rule documents.run_inv [OF assms])
  moreover obtain new where "dw_rows (fold doc_step es w) = dw_rows w @ new"
    "\<forall>r \<in> set (dw_rows w). dw_blobs (fold doc_step es w) (at_key r) = dw_blobs w (at_key r)"
    using documents.run_grows [OF assms] by (auto simp: doc_grows_def)
  ultimately show ?thesis by (auto simp: doc_ok_def has_blob_def)
qed



text \<open>C38. A paste that was stored for the first time is a source of every later context that sees the store as it
  was left: the manifest is found, its chunks are verified, and if there is a budget something is supplied.\<close>

theorem paste_readable:
  assumes "ingest_large_paste env f s tenant user thread content title w = (Inr r, w')"
    and "dw_blobs w (paste_key (ps_paste r)) = None" and "dw_blobs w (manifest_key_for_storage (paste_key (ps_paste r))) = None"
    and "ce_blobs cx = dw_blobs w'" and "\<forall>k. ce_read cx k" and "ce_sha256 cx = kn_sha256 (de_know env)"
    and "ce_decode cx = rd_decode (de_readers env)" and "is_manifest_max s \<le> cs_manifest_max cs"
    and "ce_loads cx (manifest_bytes (de_readers env) (ps_paste r)) = Some (JObj (manifest_payload (ps_paste r)))"
  shows "\<exists>x. read_source cx cs query (ps_row r) remaining = Inr x \<and> paste_supplied cx cs (ps_row r) x \<and>
    so_source_chars x = int (length content) \<and>
    (pp_chunks (ps_paste r) \<noteq> [] \<and> 0 < remaining \<and> 0 < cs_max_chars_per_file cs \<longrightarrow> 0 < so_provided x)"
proof -
  let ?p = "ps_paste r"
  note I = ingest_new [OF assms(1-3)]
  note P = prepare_pasteD [OF I(1)]
  have "paste_key ?p \<noteq> manifest_key_for_storage (paste_key ?p)" by (simp add: manifest_key_for_storage_def)
  then have load: "load_intake_manifest cx cs (ps_row r) = Inr (Some (manifest_payload ?p))"
    using I(2-4) assms(4,5,8,9) by (intro load_stored_manifest) simp_all
  have "ce_blobs cx (at_key (ps_row r)) = Some (cn_bytes (pp_canonical ?p))" using I(3,4) assms(4) by simp
  moreover have "build_structure (de_know env) (ce_decode cx) (is_chunk_target s) (is_chunk_overlap s)
      (cn_bytes (pp_canonical ?p)) = (pp_sections ?p, pp_chunks ?p)" using P assms(7) by simp
  ultimately obtain x where x: "read_source cx cs query (ps_row r) remaining = Inr x"
      "so_source_chars x = int (pp_source_chars ?p)"
      "pp_chunks ?p \<noteq> [] \<and> 0 < remaining \<and> 0 < cs_max_chars_per_file cs \<longrightarrow> 0 < so_provided x"
    using read_stored_paste [OF load assms(5) _ assms(6)] by blast
  moreover have "pp_source_chars ?p = length content" using P by simp
  moreover have "paste_supplied cx cs (ps_row r) x"
    using read_source_supplied [OF x(1)] load by (auto simp: file_supplied_def)
  ultimately show ?thesis by auto
qed

end
