(* ===== verification/Doc_Example.thy ===== *)
theory Doc_Example
  imports Doc_Properties "HOL-Library.Code_Target_Nat"
begin

text \<open>
  Concrete runs: the witnesses of the properties in Doc_Properties, and behaviours of the code that its
  callers do not expect.
\<close>

section \<open>A thread\<close>

definition pad :: "string \<Rightarrow> string" where
  "pad s = take 64 (map (\<lambda>c. if c = CHR ''/'' then CHR ''-'' else c) s @ replicate 64 (CHR ''0''))"

lemma pad_ok: "digest_ok pad"
  by (auto simp: digest_ok_def pad_def dest!: in_set_takeD)

definition doc_kn_env :: "instant \<Rightarrow> know_env" where
  "doc_kn_env now = \<lparr>kn_now = now, kn_logical = [], kn_row = [], kn_task = [], kn_derivative = [], kn_selection = [],
     kn_section = (\<lambda>n. CHR ''s'' # show_nat n), kn_chunk = (\<lambda>n. CHR ''c'' # show_nat n), kn_sha256 = pad\<rparr>"

definition plain_readers :: readers where
  "plain_readers = \<lparr>rd_decode = (\<lambda>s. s), rd_encode = (\<lambda>s. s), rd_flushed_newline = True, rd_docx = (\<lambda>s. Inr None),
     rd_pptx = (\<lambda>s. Inr []), rd_xlsx = (\<lambda>s. Inr []), rd_pdf = (\<lambda>s. None)\<rparr>"

definition denv :: "string \<Rightarrow> instant \<Rightarrow> doc_env" where
  "denv i now = \<lparr>de_know = doc_kn_env now, de_readers = plain_readers, de_loads = (\<lambda>s. None), de_id = i\<rparr>"

definition smooth_docs :: doc_faults where
  "smooth_docs = \<lparr>df_put = (\<lambda>_. Put_Done), df_delete = (\<lambda>_. Delete_Done), df_read = (\<lambda>_. True), df_others = [],
     df_commit = Commit_Done, df_names_constraint = True, df_audit_commit = Commit_Done\<rparr>"

definition one_thread :: threads where
  "one_thread = \<lparr>ts_threads = [\<lparr>tr_id = ''h'', tr_tenant = ''t''\<rparr>],
     ts_participants = [\<lparr>pt_thread = ''h'', pt_user = ''u'', pt_role = ''participant'', pt_view = True,
       pt_upload = True, pt_active = True\<rparr>]\<rparr>"

definition uploader :: caller where
  "uploader = \<lparr>cl_tenant = ''t'', cl_user = ''u''\<rparr>"

definition upload_rules :: upload_settings where
  "upload_rules = \<lparr>us_artifacts = True, us_max_bytes = 100, us_root = [''srv''], us_backend = ''local''\<rparr>"

definition empty_world :: doc_world where
  "empty_world = \<lparr>dw_rows = [], dw_blobs = (\<lambda>k. None), dw_audits = []\<rparr>"

lemma empty_world_ok: "doc_ok sha empty_world"
  by (simp add: empty_world_def doc_ok_def blobs_named_def attachment_constraints_def unique_key_def)

definition note_row :: "string \<Rightarrow> instant \<Rightarrow> attachment" where
  "note_row i now = upload_row (denv i now) uploader ''h'' ''n.txt'' ''text/plain'' ''hello''"

lemma note_checked:
  "check_upload one_thread upload_rules (denv i now) uploader ''h'' (Some ''n.txt'') None ''hello'' = Inr (note_row i now, ''hello'')"
proof -
  have "thread_access one_thread ''h'' uploader = Inr \<lparr>pt_thread = ''h'', pt_user = ''u'', pt_role = ''participant'',
      pt_view = True, pt_upload = True, pt_active = True\<rparr>"
    by (simp add: thread_access_def one_thread_def uploader_def)
  moreover have "path_name ''n.txt'' = ''n.txt''" by code_simp
  moreover have "upload_mime ''n.txt'' None = Some ''text/plain''" by code_simp
  moreover have "''text/plain'' \<in> set allowed_mimes" by (simp add: allowed_mimes_def)
  moreover have "target_of [''srv''] (upload_key uploader ''h'' (pad ''hello'') ''n.txt'') =
      Inr [''srv'', ''t'', ''h'', pad ''hello'' @ ''-n.txt'']" by code_simp
  ultimately show ?thesis
    by (simp add: check_upload_def upload_rules_def note_row_def upload_row_def denv_def doc_kn_env_def Let_def)
qed

definition upload_note :: "string \<Rightarrow> instant \<Rightarrow> doc_event" where
  "upload_note i now = Upload one_thread upload_rules (denv i now) smooth_docs uploader ''h'' (Some ''n.txt'') None ''hello''"

definition noted :: doc_world where
  "noted = \<lparr>dw_rows = [note_row ''a1'' 5], dw_blobs = [at_key (note_row ''a1'' 5) \<mapsto> ''hello''], dw_audits = []\<rparr>"

lemma local_backend: "build_blob_storage ''local'' = Inr Local_Store"
  by code_simp

lemma note_uploaded:
  "upload_attachment one_thread upload_rules (denv ''a1'' 5) smooth_docs uploader ''h'' (Some ''n.txt'') None ''hello'' empty_world =
     (Inr \<lparr>pr_row = note_row ''a1'' 5, pr_created = True, pr_reused = False\<rparr>, noted)"
  unfolding upload_attachment_def note_checked
  by (simp add: upload_rules_def local_backend persist_attachment_def empty_world_def find_existing_def put_data_def
      blob_put_if_absent_def smooth_docs_def commit_row_def fresh_key_def noted_def)

lemma note_ok: "event_ok pad (upload_note ''a1'' 5) empty_world"
  unfolding upload_note_def event_ok.simps note_checked
  by (simp add: denv_def doc_kn_env_def uploader_def plain_id_def others_ok_def smooth_docs_def empty_world_def
      attachment_constraints_def unique_key_def)

section \<open>Witnesses\<close>

definition two_keys :: "string set" where
  "two_keys = {''t/h/a'', ''t/h/b''}"

definition bare_disk :: disk where
  "bare_disk = \<lparr>dk_files = (\<lambda>p. None), dk_dirs = (\<lambda>p. p = [])\<rparr>"

theorem local_store_follows_map_witness:
  "answers (local_step [''srv'']) [Put ''t/h/a'' ''x'', Put ''t/h/a'' ''y'', Get ''t/h/a'', Get ''t/h/b'', Remove ''t/h/a'']
     bare_disk =
   [Put_Answer (Inr True), Put_Answer (Inr False), Get_Answer (Inr ''x''),
    Get_Answer (Inl (Blob_Error ''BLOB_NOT_FOUND'')), Remove_Answer None]"
proof -
  have parts: "pure_parts ''t/h/a'' = [''t'', ''h'', ''a'']" "pure_parts ''t/h/b'' = [''t'', ''h'', ''b'']"
    "\<not> is_absolute ''t/h/a''" "\<not> is_absolute ''t/h/b''" by code_simp+
  have clean: "clean_keys two_keys"
    by (simp add: clean_keys_def two_keys_def plain_key_def apart_keys_def parts uploading_def)
  have fine: "local_fine [''srv''] two_keys bare_disk"
    by (simp add: local_fine_def two_keys_def room_for_def parts bare_disk_def file_above_def on_disk_def uploading_def)
  have view: "local_view [''srv''] two_keys bare_disk = (\<lambda>k. None)"
    by (rule ext) (simp add: local_view_def bare_disk_def)
  have "answers (local_step [''srv'']) qs bare_disk = answers map_step qs (\<lambda>k. None)"
    if "request_key ` set qs \<subseteq> two_keys" for qs
    using local_store_follows_map [OF clean fine that] view by (simp only:)
  from this [of "[Put ''t/h/a'' ''x'', Put ''t/h/a'' ''y'', Get ''t/h/a'', Get ''t/h/b'', Remove ''t/h/a'']"]
  show ?thesis
    by (simp only: two_keys_def) (simp add: blob_put_if_absent_def blob_get_def blob_delete_def del: local_step.simps)
qed

theorem attachments_keep_blobs_witness:
  "\<exists>x. dw_blobs (fold doc_step [upload_note ''a1'' 5] empty_world) (at_key (note_row ''a1'' 5)) = Some x \<and>
     pad x = at_sha256 (note_row ''a1'' 5)"
proof -
  have run: "run_ok (\<lambda>e w. digest_ok pad \<and> event_ok pad e w) doc_step [upload_note ''a1'' 5] empty_world"
    using pad_ok note_ok by simp
  have end_rows: "dw_rows (fold doc_step [upload_note ''a1'' 5] empty_world) = [note_row ''a1'' 5]"
    by (simp add: upload_note_def note_uploaded noted_def)
  from attachments_keep_blobs [OF run empty_world_ok] end_rows show ?thesis
    by (auto simp: empty_world_def)
qed


section \<open>Contexts\<close>

definition plain_doc_readers :: doc_readers where
  "plain_doc_readers = \<lparr>dr_utf8_sig = Some, dr_reformat_json = Some, dr_zip_names = (\<lambda>s. None),
     dr_docx = (\<lambda>s. Inl ''x''), dr_pptx = (\<lambda>s. None), dr_xlsx = (\<lambda>s. None), dr_pdf = (\<lambda>s. None)\<rparr>"

definition context_rules :: context_settings where
  "context_rules = \<lparr>cs_enabled = True, cs_max_files = 2, cs_max_chars = 100, cs_max_chars_per_file = 4, cs_max_pages = 9,
     cs_manifest_max = 9000, cs_top_k = 3, cs_root = [''srv''], cs_backend = ''local''\<rparr>"

text \<open>The environment of a context over a store and a disk.\<close>

definition cenv :: "blob_map \<Rightarrow> disk \<Rightarrow> (string \<Rightarrow> json option) \<Rightarrow> context_env" where
  "cenv b d loads = \<lparr>ce_readers = plain_doc_readers, ce_decode = (\<lambda>s. s), ce_encode = (\<lambda>s. s), ce_sha256 = pad,
     ce_loads = loads, ce_read = (\<lambda>_. True), ce_blobs = b, ce_disk = d, ce_readable = (\<lambda>_. True)\<rparr>"

definition note_path :: "string list" where
  "note_path = [''srv'', ''t'', ''h'', pad ''hello'' @ ''-n.txt'']"

definition note_disk :: disk where
  "note_disk = \<lparr>dk_files = [note_path \<mapsto> ''hello''], dk_dirs = (\<lambda>p. p = [])\<rparr>"


definition bundle_is :: "(doc_bundle \<Rightarrow> bool) \<Rightarrow> doc_bundle option option \<Rightarrow> bool" where
  "bundle_is P r = (case r of Some (Some b) \<Rightarrow> P b | _ \<Rightarrow> False)"




definition paste_rules :: intake_settings where
  "paste_rules = \<lparr>is_enabled = True, is_threshold = 1, is_max_chars = 100, is_max_bytes = 100, is_manifest_max = 9000,
     is_chunk_target = 1000, is_chunk_overlap = 10, is_max_pages = 9, is_backend = ''local''\<rparr>"

definition alpha_bytes :: string where
  "alpha_bytes = ''# paste-alpha0000000.md'' @ [CHR 0x0A, CHR 0x0A] @ ''alpha''"

lemma alpha_canonical:
  "map_sum id cn_bytes (canonicalize_source plain_readers 9 ''text/markdown'' (paste_filename (pad ''alpha'')) ''alpha'') = Inr alpha_bytes"
  by code_simp

lemma alpha_chunks: "snd (build_structure (doc_kn_env 7) (rd_decode plain_readers) 1000 10 alpha_bytes) \<noteq> []"
proof -
  have "list_ex (\<lambda>s. section_chunks (rd_decode plain_readers) (target_bytes 1000) (overlap_bytes 1000 10) alpha_bytes s \<noteq> [])
      (sections_of (kn_section (doc_kn_env 7)) (rd_decode plain_readers) alpha_bytes)" by code_simp
  then show ?thesis by (auto simp: build_structure_def Let_def list_ex_iff enumerate_eq_zip)
qed

lemma paste_prepared:
  "\<exists>p. prepare_paste (denv ''a3'' 7) paste_rules ''t'' ''h'' ''alpha'' None = Inr p \<and> pp_chunks p \<noteq> []"
proof -
  obtain c where c: "canonicalize_source plain_readers 9 ''text/markdown'' (paste_filename (pad ''alpha'')) ''alpha'' = Inr c"
    "cn_bytes c = alpha_bytes"
    using alpha_canonical by (auto simp: map_sum_Inr_iff)
  obtain sections chunks where b: "build_structure (doc_kn_env 7) (rd_decode plain_readers) 1000 10 alpha_bytes = (sections, chunks)"
    by fastforce
  have "paste_error paste_rules plain_readers ''alpha'' = None" by code_simp
  with c b alpha_chunks show ?thesis
    by (simp add: prepare_paste_def denv_def paste_rules_def doc_kn_env_def plain_readers_def Let_def)
qed

text \<open>A limit for the manifest that the paste just meets.\<close>

definition exact_rules :: "paste \<Rightarrow> intake_settings" where
  "exact_rules p = paste_rules\<lparr>is_manifest_max := int (length (manifest_bytes plain_readers p))\<rparr>"

lemma prepare_exact: "prepare_paste env (exact_rules p) tenant thread content title = prepare_paste env paste_rules tenant thread content title"
proof -
  have "is_enabled (exact_rules p) = is_enabled paste_rules" "is_threshold (exact_rules p) = is_threshold paste_rules"
    "is_max_chars (exact_rules p) = is_max_chars paste_rules" "is_max_bytes (exact_rules p) = is_max_bytes paste_rules"
    "is_chunk_target (exact_rules p) = is_chunk_target paste_rules" "is_max_pages (exact_rules p) = is_max_pages paste_rules"
    "is_chunk_overlap (exact_rules p) = is_chunk_overlap paste_rules"
    by (simp_all add: exact_rules_def)
  then show ?thesis by (simp only: prepare_paste_def paste_error_def)
qed

lemma paste_key_manifest: "paste_key p \<noteq> manifest_key_for_storage (paste_key p)"
  by (simp add: manifest_key_for_storage_def)

lemma ingest_exact:
  assumes "prepare_paste env paste_rules ''t'' ''h'' content None = Inr p" and "de_readers env = plain_readers"
  shows "ingest_large_paste env f (exact_rules p) ''t'' ''u'' ''h'' content None w = store_paste env f ''u'' p w"
proof -
  have "is_backend (exact_rules p) = ''local''" "is_manifest_max (exact_rules p) = int (length (manifest_bytes plain_readers p))"
    by (simp_all add: exact_rules_def paste_rules_def)
  then show ?thesis by (simp add: ingest_large_paste_def prepare_exact assms local_backend)
qed

lemma paste_stored:
  assumes "prepare_paste (denv ''a3'' 7) paste_rules ''t'' ''h'' content None = Inr p"
  shows "\<exists>r w'. ingest_large_paste (denv ''a3'' 7) smooth_docs (exact_rules p) ''t'' ''u'' ''h'' content None empty_world = (Inr r, w') \<and>
    ps_paste r = p"
proof -
  have "de_readers (denv ''a3'' 7) = plain_readers" by (simp add: denv_def)
  from ingest_exact [OF assms this] paste_key_manifest [of p] show ?thesis
    by (simp add: store_paste_def put_data_def blob_put_if_absent_def smooth_docs_def empty_world_def persist_attachment_def
        find_existing_def paste_row_def commit_row_def fresh_key_def Let_def)
qed

theorem paste_readable_witness:
  "\<exists>p r w' x. ingest_large_paste (denv ''a3'' 7) smooth_docs (exact_rules p) ''t'' ''u'' ''h'' ''alpha'' None empty_world = (Inr r, w') \<and>
     read_source (cenv (dw_blobs w') bare_disk (\<lambda>_. Some (JObj (manifest_payload p))))
       (context_rules\<lparr>cs_manifest_max := is_manifest_max (exact_rules p)\<rparr>) ''beta'' (ps_row r) 50 = Inr x \<and>
     so_source_chars x = 5 \<and> 0 < so_provided x"
proof -
  obtain p where p: "prepare_paste (denv ''a3'' 7) paste_rules ''t'' ''h'' ''alpha'' None = Inr p" "pp_chunks p \<noteq> []"
    using paste_prepared by auto
  obtain r w' where r: "ingest_large_paste (denv ''a3'' 7) smooth_docs (exact_rules p) ''t'' ''u'' ''h'' ''alpha'' None empty_world = (Inr r, w')"
    "ps_paste r = p"
    using paste_stored [OF p(1)] by auto
  let ?cx = "cenv (dw_blobs w') bare_disk (\<lambda>_. Some (JObj (manifest_payload p)))"
  let ?cs = "context_rules\<lparr>cs_manifest_max := is_manifest_max (exact_rules p)\<rparr>"
  have "\<exists>x. read_source ?cx ?cs ''beta'' (ps_row r) 50 = Inr x \<and> paste_supplied ?cx ?cs (ps_row r) x \<and>
      so_source_chars x = int (length ''alpha'') \<and>
      (pp_chunks (ps_paste r) \<noteq> [] \<and> 0 < (50::nat) \<and> 0 < cs_max_chars_per_file ?cs \<longrightarrow> 0 < so_provided x)"
    by (rule paste_readable [OF r(1)])
      (simp_all add: empty_world_def cenv_def denv_def doc_kn_env_def plain_readers_def r(2))
  with r p(2) show ?thesis by (auto simp: context_rules_def)
qed

section \<open>What the code also does\<close>

text \<open>A temporary file left by a crash: from then on the key can never be stored, and the answer says that a
  blob is there.\<close>

lemma stale_upload_claims_blob:
  "fst (local_put_file [''srv''] Written ''k'' ''x'' (bare_disk\<lparr>dk_files := [[''srv'', ''k.uploading''] \<mapsto> ''x'']\<rparr>)) = Inr False"
  "local_get [''srv''] (\<lambda>_. True) ''k'' (bare_disk\<lparr>dk_files := [[''srv'', ''k.uploading''] \<mapsto> ''x'']\<rparr>) =
     Inl (Blob_Error ''BLOB_NOT_FOUND'')"
  by code_simp+

text \<open>A full disk: an exception that the callers handle from one operation, one that they do not from the other.\<close>

lemma full_disk_errors:
  "fst (local_put_file [''srv''] (Write_Raises None) ''k'' ''x'' bare_disk) = Inl (Blob_Error ''BLOB_WRITE_FAILED'')"
  "fst (local_put [''srv''] (Write_Raises None) ''k'' ''x'' bare_disk) = Inl Other_Error"
  by code_simp+

text \<open>Attachments beyond the limit are left out, and the context is still called complete.\<close>

lemma left_out_is_ready:
  "bundle_is (\<lambda>b. pc_status (bu_provenance b) = ''ready'' \<and> \<not> pc_truncated (bu_provenance b) \<and>
       pc_source_ids (bu_provenance b) = [''a1''])
     (build_document_context (cenv (\<lambda>k. None) note_disk (\<lambda>s. None))
       (context_rules\<lparr>cs_max_files := 1, cs_max_chars_per_file := 50\<rparr>) ''...'' ''t'' ''h'' []
       [note_row ''a1'' 5, note_row ''a2'' 6])"
  by code_simp

text \<open>With the S3 store the bytes of an upload are in the store, but the context reads the local disk.\<close>

lemma remote_upload_missing:
  "bundle_is (\<lambda>b. bu_errors b = [(''a1'', ''DOCUMENT_STORAGE_MISSING'')])
     (build_document_context (cenv (dw_blobs noted) bare_disk (\<lambda>s. None)) (context_rules\<lparr>cs_backend := ''s3''\<rparr>)
       ''...'' ''t'' ''h'' [] [note_row ''a1'' 5])"
  by code_simp

text \<open>A file that cannot be read, other than a missing one, ends the whole request.\<close>

lemma unreadable_file_escapes:
  "build_document_context ((cenv (\<lambda>k. None) note_disk (\<lambda>s. None))\<lparr>ce_readable := (\<lambda>_. False)\<rparr>) context_rules ''...'' ''t'' ''h'' []
     [note_row ''a1'' 5] = None"
  by code_simp

text \<open>A commit that raises although it is durable: the attachment is there, its manifest is removed.\<close>

lemma kept_commit_drops_manifest:
  assumes "prepare_paste (denv ''a3'' 7) paste_rules ''t'' ''h'' content None = Inr p"
  shows "\<exists>e w'. ingest_large_paste (denv ''a3'' 7) (smooth_docs\<lparr>df_commit := Commit_Kept\<rparr>) (exact_rules p) ''t'' ''u'' ''h'' content None
      empty_world = (Inl e, w') \<and> map at_key (dw_rows w') = [paste_key p] \<and>
    dw_blobs w' (manifest_key_for_storage (paste_key p)) = None"
proof -
  have "de_readers (denv ''a3'' 7) = plain_readers" by (simp add: denv_def)
  from ingest_exact [OF assms this] paste_key_manifest [of p] show ?thesis
    by (simp add: store_paste_def put_data_def blob_put_if_absent_def smooth_docs_def empty_world_def persist_attachment_def
        find_existing_def paste_row_def commit_row_def fresh_key_def Let_def drop_data_def blob_delete_def)
qed

text \<open>The blank lines between pieces are not in the count, so the text is longer than the budget.\<close>

definition two_pieces :: "(string \<times> json) list" where
  "two_pieces = [(''chunks'', JList
     [JObj [(''byte_start'', JInt 0), (''byte_end'', JInt 2), (''text_sha256'', JStr (pad ''ab''))],
      JObj [(''byte_start'', JInt 2), (''byte_end'', JInt 4), (''text_sha256'', JStr (pad ''cd''))]])]"

lemma separators_exceed_budget:
  "case select_intake_context (cenv [''k'' \<mapsto> ''abcd''] bare_disk (\<lambda>s. None)) ((note_row ''a1'' 5)\<lparr>at_key := ''k''\<rparr>)
       two_pieces [] 4 4 9 of
     Inl e \<Rightarrow> False | Inr x \<Rightarrow> sx_provided x = 4 \<and> length (sx_text x) = 6"
  by code_simp

end
