(* ===== verification/Spec2Isabelle.thy ===== *)
theory Spec2Isabelle
  imports Billing_Properties Auth_Example Know_Example Audit_Example Doc_Example
begin

text \<open>
  Verification library of the orkio_v2 backend (src/src/orkio_v2), a FastAPI service over one SQL
  database and one blob store. Five parts of it are modelled, function by function:

  \<^item> \<^bold>\<open>Billing\<close> (billing/catalog.py, asaas_client.py, repository.py, service.py, routes.py). A checkout is
    created at the price of the catalog, its intent is committed before the provider is called, and the
    provider's webhooks move the checkout through its states and book credit on the wallet of the
    buyer. The rows and queries are in Billing_Model, the catalog in Billing_Catalog, the adapter of
    the provider in Billing_Provider, the checkout in Billing_Checkout, wallet, ledger and
    entitlement in Billing_Wallet, webhooks in Billing_Webhook, the read side in Billing_Views.
  \<^item> \<^bold>\<open>Authentication\<close> (services/native_auth.py, auth_routes.py, auth.py, services/oidc_identity.py,
    authorization.py, identity.py, hyper_cocreator.py). Passwords, time-based codes, recovery codes,
    challenges, sessions and resets; the access gate that admits new members; and the principal
    with its roles, which every other route asks for. Auth_Model holds the rows, Auth_Crypto the
    encodings, Auth_Gate the access codes and grants, Auth_Service and Auth_Login the service,
    Auth_Identity the principal, Auth_Routes and Auth_Sessions the routes.
  \<^item> \<^bold>\<open>Knowledge\<close> (services/knowledge_policy.py, knowledge_repository.py, knowledge_retrieval.py,
    large_document.py, knowledge_routes.py). Documents with versions, scopes and agents, whose bytes
    are blobs; their canonical text and its index; and the context that is given to a model.
    Know_Policy, Know_Repository and Know_Supersede, Know_Structure, Know_Documents and Know_Process,
    Know_Retrieval, and Know_Routes with Know_Handlers follow these files.
  \<^item> \<^bold>\<open>Attachments of a thread\<close> (services/blob_storage.py, attachment_service.py,
    unified_document_intake.py, document_context.py and their routes in routes.py). Uploads and large
    pastes are stored once, and the text of a thread's attachments is supplied within budgets.
    Doc_Storage, Doc_Attachments, Doc_Intake, Doc_Extraction, Doc_Context and Doc_Routes.
  \<^item> \<^bold>\<open>Audit plane\<close> (services/audit_*.py, capability_policy.py, target_resolver.py, agents/). A message
    that starts with /audit names a frozen, read-only operation; behind a chain of gates it reads
    one file, archive or module, and one row of evidence is appended. Audit_Policy is the policy from
    the environment, Audit_Directive the parser, Audit_Target the agent, Audit_Files and
    Audit_Archive the reads, Audit_Guard the sanitizer, Audit_Ledger the evidence, Audit_Limits the
    limits, Audit_Service the whole invocation.

  All parts stand on Prelude (strings), Py_Values (JSON, decimals), Db_Session (one session of the
  database, the audit log) and Models (settings, users, memberships, what a request takes from its
  environment). A table is a list of records in insertion order with its unique keys and checks. A
  service function takes the database its session sees and returns a result, where an exception is
  \<open>Inl\<close>, with the database it leaves; a route decides what becomes durable. Blobs are a map from keys
  to bytes. Everything from outside src/ is an argument: the clock (one reading in a request), drawn
  identifiers and tokens, digests, scrypt, HMAC, Fernet, the JSON and UTF-8 codecs, the readers of
  office, PDF and ZIP files, the payment provider, the introspection endpoint, the S3 client. Faults are
  arguments too: commits that fail, or that raise although they are durable, refused blob operations,
  rows that other requests commit in between. So a theorem covers every such behaviour unless it names
  a hypothesis.

  \<^bold>\<open>Interfaces.\<close> \<open>keyed_table\<close> (a table with a unique key; interpreted on seventeen tables),
  \<open>invariant_system\<close> and \<open>monotone_system\<close> (operations that keep an invariant and a relation between
  earlier and later states; interpreted on the billing, authentication, knowledge, attachment and audit
  systems), \<open>guarded_machine\<close> (the states of a checkout), \<open>idempotent_handler\<close> (webhooks),
  \<open>sliding_window\<close> (both limits of the audit plane) and \<open>blob_protocol\<close> (the map of blobs and the local
  store).

  \<^bold>\<open>What is shown.\<close>
  \<^item> Billing_Invariants, Billing_Runs, Billing_Ops: every operation keeps wallets and tables consistent,
    and checkouts only move forward. Billing_Interleaving: between its commits and network calls a
    checkout request may be interleaved with any other requests or be lost, and still no idempotency key
    is posted twice. Billing_Accounts, Billing_Payments: the wallet code refines a deposit and a
    withdrawal on one account; a webhook has this effect, once. Billing_Properties states the results.
  \<^item> Auth_Invariants, Auth_Ops, Auth_Runs: all routes keep the unique keys, and consumed challenges,
    revoked sessions, used codes and steps of codes stay used. Auth_Properties, Auth_Access and
    Auth_Grants state what follows: single use of tokens, revocation, bounds on guesses, round trips of
    hashes, grants and sessions, and who becomes an administrator.
  \<^item> Know_Versions, Know_Ops: versions form chains without gaps under all faults and interleavings.
    Know_Blobs: blobs are not lost under the faults it names. Know_Facts, Know_Properties: the two
    access checks agree, chunks cover the document, budgets and audit of a context, the cleanup ends.
  \<^item> Doc_Facts, Doc_Context_Facts, Doc_Properties: attachments keep their blobs, uploads are idempotent, a
    context accounts for every source, a stored paste can be read, the local store behaves as the map.
  \<^item> Audit_Reads, Audit_Evidence, Audit_Policy_Facts, Audit_Runs, Audit_Properties: a file that was read
    lies below its root, the ledger is write-once and verifiable, limits hold in every minute, and
    nothing is read unless every gate is open.
  \<^item> Billing_Example, Auth_Example, Know_Example, Audit_Example and Doc_Example hold concrete
    instances: witnesses of the properties, and runs in which the code does what its callers may not
    expect.

  \<^bold>\<open>Bounds and side conditions.\<close> The loops of the code are structural recursions or have a measure; there
  is no fuel. Strings are lists of 8-bit characters; methods that depend on case or white space
  treat ASCII, knowledge texts have code points below 256, and audit texts are their UTF-8
  bytes without lone surrogates. Money is exact: \<open>Numeric(18,4)\<close> is an integer in units of 0.0001, NaN,
  infinities and the 28-digit context are left out, and underscores in the argument of \<open>int\<close> are not
  read. \<open>float_text\<close> prints numbers below 1e16. Constraint violations are found at the final commit. A
  save writes the whole row that was read, except where the interleaved models hold a row over a wait,
  which write the changed columns. Runs draw fresh identifiers and tokens (\<open>fresh_env\<close>, \<open>op_ids_fresh\<close>),
  identifiers in storage keys have no slash (\<open>plain_id\<close>), and digests have 64 characters (\<open>digest_ok\<close>).
  In the knowledge plane one operation is atomic (its rows are locked) except the supersession from a
  file, which is split at its unlocked read, and the commits of the pipeline before its last one
  succeed. In the audit plane a file does not change while it is open, but it may be exchanged between
  examination and opening. The local store has no symbolic links and no two writers of one key at once.

  \<^bold>\<open>Not modelled\<close> in the parts above: logging, e-mail delivery, cookie attributes, metrics, the fixed
  words around a context, the text of \<open>system_message\<close>, the traces of the audit plane, and
  \<open>resolve_request\<close>, which no operation of the audit invocation service calls. \<^bold>\<open>Not modelled\<close> at all: the chat and
  administration routes and the request types (glue between database, prompts and language
  models); realtime voice, speech and language model clients (websocket and HTTP clients of services whose
  answers are not specified); the team runtime and its orchestration; the Python sandbox client; the
  rendering of artifacts with third-party libraries; the clients of GitHub and other external services;
  public forms and invitations; the inspection of untrusted archives and XML with third-party parsers;
  configuration and startup; the schema collector; migrations, scripts, frontends and tests. The
  constraints that the migrations install are part of the tables of the model.
\<close>

end
